(* ===== verification/Acrn_Prelude.thy ===== *)
theory Acrn_Prelude
  imports Main "HOL-Library.Word"
begin

text \<open>
  The prelude of the development: the fixed-width integer types of
  \<^verbatim>\<open>src/hypervisor/include/lib/types.h\<close>, the error codes of
  \<^verbatim>\<open>src/hypervisor/include/lib/errno.h\<close>, the theorem collections the component
  theories fill, and the generic lemmas on words, bit masks and lists they share.

  A C unsigned integer of width \<open>w\<close> is a \<open>w word\<close>, whose arithmetic wraps like the C
  arithmetic does; \<open>int32_t\<close> return codes are \<open>int\<close>. Proofs about addresses move to
  \<open>nat\<close> with \<open>unat\<close>; the collection \<open>unat_simps\<close> holds the equations that do so for
  shifts, masks and additions that do not overflow.
\<close>

unbundle bit_operations_syntax

type_synonym u8 = "8 word"
type_synonym u16 = "16 word"
type_synonym u32 = "32 word"
type_synonym u64 = "64 word"
type_synonym i32 = int

named_theorems unat_simps \<open>equations that read word operations as operations on nat\<close>
named_theorems mask_defs \<open>the bit constants of the source, written as masks\<close>

subsection \<open>Error codes\<close>

abbreviation EACCES :: i32 where "EACCES \<equiv> 13"
abbreviation EFAULT :: i32 where "EFAULT \<equiv> 14"
abbreviation ENODEV :: i32 where "ENODEV \<equiv> 19"
abbreviation EINVAL :: i32 where "EINVAL \<equiv> 22"
abbreviation ERANGE :: i32 where "ERANGE \<equiv> 34"

subsection \<open>Words as natural numbers\<close>

lemma unat_shiftr [unat_simps]:
  "unat (drop_bit n (w :: 'a::len word)) = unat w div 2 ^ n"
  by (simp add: unat_drop_bit_eq flip: drop_bit_eq_div)

lemma unat_and_mask [unat_simps]:
  "unat (w AND mask n) = unat (w :: 'a::len word) mod 2 ^ n"
proof -
  have "unat (take_bit n w) = take_bit n (unat w)"
    by (rule bit_eqI) (simp add: bit_simps bit_unsigned_iff)
  then show ?thesis
    by (simp add: take_bit_eq_mod flip: take_bit_eq_mask)
qed

lemma word_split_mask:
  "(w AND NOT (mask n)) + (w AND mask n) = (w :: 'a::len word)"
proof -
  have "(w AND NOT (mask n)) AND (w AND mask n) = 0"
    by (simp add: bit_eq_iff bit_simps)
  then have "(w AND NOT (mask n)) + (w AND mask n) = (w AND NOT (mask n)) OR (w AND mask n)"
    by (rule disjunctive_add_eq_or)
  also have "\<dots> = w"
    by (rule bit_eqI) (auto simp: bit_simps)
  finally show ?thesis .
qed

lemma unat_and_not_mask [unat_simps]:
  "unat (w AND NOT (mask n)) = unat (w :: 'a::len word) div 2 ^ n * 2 ^ n"
proof -
  have "w AND NOT (mask n) = w - (w AND mask n)"
    using word_split_mask [of w n] by (simp add: algebra_simps)
  moreover have "w AND mask n \<le> w"
    by (simp add: word_and_le2)
  ultimately have "unat (w AND NOT (mask n)) = unat w - unat w mod 2 ^ n"
    by (simp add: unat_sub unat_and_mask)
  then show ?thesis
    by (simp add: minus_mod_eq_div_mult)
qed

lemma unat_shiftl:
  assumes "unat w * 2 ^ n < 2 ^ LENGTH('a)"
  shows "unat (push_bit n (w :: 'a::len word)) = unat w * 2 ^ n"
proof -
  have "push_bit n w = of_nat (unat w * 2 ^ n)"
    by (simp add: push_bit_eq_mult)
  then show ?thesis
    using assms by (simp add: unat_of_nat del: of_nat_mult)
qed

lemma unat_ucast_up:
  fixes x :: "'a::len word"
  assumes "LENGTH('a) \<le> LENGTH('b::len)"
  shows "unat (ucast x :: 'b word) = unat x"
proof -
  have "unat x < 2 ^ LENGTH('a)"
    by (rule unsigned_less)
  also have "\<dots> \<le> 2 ^ LENGTH('b)"
    using assms by (rule power_increasing) simp
  finally show ?thesis
    by (simp add: unsigned_ucast_eq take_bit_nat_eq_self)
qed

lemma unat_add_small:
  "unat (a :: 'a::len word) + unat b < 2 ^ LENGTH('a) \<Longrightarrow> unat (a + b) = unat a + unat b"
  using unat_add_lem [of a b] by simp

lemma unat_diff_small:
  "b \<le> (a :: 'a::len word) \<Longrightarrow> unat (a - b) = unat a - unat b"
  by (rule unat_sub)

lemma unat_of_nat_small:
  "n < 2 ^ LENGTH('a) \<Longrightarrow> unat (of_nat n :: 'a::len word) = n"
  by (simp add: unat_of_nat)

lemma unat_u64_bound: "unat (w :: u64) < 18446744073709551616"
  using unsigned_less [of w, where 'a = nat] by simp

lemma unat_u32_bound: "unat (w :: u32) < 4294967296"
  using unsigned_less [of w, where 'a = nat] by simp

lemmas word_nat_order = word_le_nat_alt word_less_nat_alt

lemma word_nat_eq: "(a :: 'a::len word) = b \<longleftrightarrow> unat a = unat b"
  by (simp add: word_unat_eq_iff)

subsection \<open>Bit masks\<close>

lemma and_or_absorb:
  "a AND m = a \<Longrightarrow> b AND m = 0 \<Longrightarrow> (a OR b) AND m = (a :: 'a::len word)"
  by (simp add: bit_eq_iff bit_simps) blast

lemma and_or_zero:
  "a AND m = 0 \<Longrightarrow> b AND m = 0 \<Longrightarrow> (a OR b) AND m = (0 :: 'a::len word)"
  by (simp add: bit_eq_iff bit_simps) blast

lemma and_sub_zero:
  "a AND m = 0 \<Longrightarrow> m' AND m = m' \<Longrightarrow> a AND m' = (0 :: 'a::len word)"
  by (simp add: bit_eq_iff bit_simps) blast

lemma and_absorb_both:
  assumes "a AND (b AND c) = (a :: 'a::len word)"
  shows "a AND b = a" "a AND c = a"
  using assms by (simp_all add: bit_eq_iff bit_simps) blast+

lemma and_not_absorb: "a AND NOT b = (a :: 'a::len word) \<Longrightarrow> b AND a = 0"
  by (simp add: bit_eq_iff bit_simps) blast

lemma low_mask_zero_iff: "(w :: 'a::len word) AND mask n = 0 \<longleftrightarrow> 2 ^ n dvd unat w"
  by (simp add: word_nat_eq unat_and_mask dvd_eq_mod_eq_0)

end
