(* ===== verification/Acrn_Bits.thy ===== *)
theory Acrn_Bits
  imports Acrn_Prelude
begin

text \<open>
  The bit-manipulation library, \<^verbatim>\<open>src/hypervisor/include/arch/x86/lib/bits.h\<close>, and
  \<^verbatim>\<open>mem_aligned_check\<close> of \<^verbatim>\<open>src/hypervisor/include/lib/util.h\<close>.

  The C functions are wrappers of single instructions on a 64-bit word in memory: a function
  that updates the word takes it by value here and returns the new one, together with the
  tested bit where the C function returns it. The locked and the unlocked variants differ in
  the bus lock only and have the same effect on the word. The locale \<open>bitmap\<close> is the contract
  their callers rely on.
\<close>

definition INVALID_BIT_INDEX :: u16 where
  "INVALID_BIT_INDEX = 0xffff"

text \<open>\<^verbatim>\<open>bsrl\<close>: the most significant set bit, or the invalid index for 0.\<close>

definition fls32 :: "u32 \<Rightarrow> u16" where
  "fls32 value =
     (case find (\<lambda>i. bit value i) (rev [0..<32]) of
        None \<Rightarrow> INVALID_BIT_INDEX | Some i \<Rightarrow> of_nat i)"

text \<open>\<^verbatim>\<open>bsfq\<close>: the least significant set bit, or the invalid index for 0.\<close>

definition ffs64 :: "u64 \<Rightarrow> u16" where
  "ffs64 value =
     (case find (\<lambda>i. bit value i) [0..<64] of
        None \<Rightarrow> INVALID_BIT_INDEX | Some i \<Rightarrow> of_nat i)"

definition bit_nr :: "u16 \<Rightarrow> nat" where
  "bit_nr nr_arg = unat (nr_arg AND (8 * 8 - 1))"

definition bitmap_set_nolock :: "u16 \<Rightarrow> u64 \<Rightarrow> u64" where
  "bitmap_set_nolock nr_arg w = w OR push_bit (bit_nr nr_arg) 1"

definition bitmap_set_lock :: "u16 \<Rightarrow> u64 \<Rightarrow> u64" where
  "bitmap_set_lock nr_arg w = w OR push_bit (bit_nr nr_arg) 1"

definition bitmap_clear_nolock :: "u16 \<Rightarrow> u64 \<Rightarrow> u64" where
  "bitmap_clear_nolock nr_arg w = w AND NOT (push_bit (bit_nr nr_arg) 1)"

definition bitmap_clear_lock :: "u16 \<Rightarrow> u64 \<Rightarrow> u64" where
  "bitmap_clear_lock nr_arg w = w AND NOT (push_bit (bit_nr nr_arg) 1)"

definition bitmap_test :: "u16 \<Rightarrow> u64 \<Rightarrow> bool" where
  "bitmap_test nr w = bit w (unat (nr AND 0x3f))"

definition bitmap_test_and_set_lock :: "u16 \<Rightarrow> u64 \<Rightarrow> bool \<times> u64" where
  "bitmap_test_and_set_lock nr_arg w =
     (bit w (bit_nr nr_arg), w OR push_bit (bit_nr nr_arg) 1)"

definition bitmap_test_and_clear_lock :: "u16 \<Rightarrow> u64 \<Rightarrow> bool \<times> u64" where
  "bitmap_test_and_clear_lock nr_arg w =
     (bit w (bit_nr nr_arg), w AND NOT (push_bit (bit_nr nr_arg) 1))"

definition mem_aligned_check :: "u64 \<Rightarrow> u64 \<Rightarrow> bool" where
  "mem_aligned_check value req_align \<longleftrightarrow> value AND (req_align - 1) = 0"

subsection \<open>Bit numbers\<close>

lemma bit_nr_mod: "bit_nr nr = unat nr mod 64"
  using unat_and_mask [of nr 6] by (simp add: bit_nr_def mask_eq_exp_minus_1)

lemma bit_nr_less [simp]: "bit_nr nr < 64"
  by (simp add: bit_nr_mod)

lemma test_index: "unat (nr AND 0x3f) = bit_nr nr" for nr :: u16
  by (simp add: bit_nr_def)

lemma bit_nr_inj: "unat a < 64 \<Longrightarrow> unat b < 64 \<Longrightarrow> bit_nr a = bit_nr b \<longleftrightarrow> a = b"
  by (simp add: bit_nr_mod word_nat_eq)

lemma bitmap_test_iff: "bitmap_test nr w \<longleftrightarrow> bit w (bit_nr nr)"
  by (simp add: bitmap_test_def test_index)

lemma bit_bitmap_set: "bit (bitmap_set_lock nr w) i \<longleftrightarrow> i = bit_nr nr \<or> bit w i"
  using bit_nr_less [of nr] by (auto simp: bitmap_set_lock_def bit_simps)

lemma bit_bitmap_clear: "bit (bitmap_clear_lock nr w) i \<longleftrightarrow> i \<noteq> bit_nr nr \<and> bit w i"
  by (auto simp: bitmap_clear_lock_def bit_simps dest: bit_imp_le_length)

lemma nolock_variants [simp]:
  "bitmap_set_nolock = bitmap_set_lock" "bitmap_clear_nolock = bitmap_clear_lock"
  by (auto simp: fun_eq_iff bitmap_set_nolock_def bitmap_set_lock_def
      bitmap_clear_nolock_def bitmap_clear_lock_def)

lemma test_and_set_eq [simp]:
  "bitmap_test_and_set_lock nr w = (bitmap_test nr w, bitmap_set_lock nr w)"
  by (simp add: bitmap_test_and_set_lock_def bitmap_test_iff bitmap_set_lock_def)

lemma test_and_clear_eq [simp]:
  "bitmap_test_and_clear_lock nr w = (bitmap_test nr w, bitmap_clear_lock nr w)"
  by (simp add: bitmap_test_and_clear_lock_def bitmap_test_iff bitmap_clear_lock_def)

subsection \<open>The contract of a bitmap\<close>

text \<open>
  What the users of a 64-bit flag word rely on: a set flag reads as set, a cleared one as
  cleared, and no operation touches another flag of the word.
\<close>

locale bitmap =
  fixes set_bit :: "'i \<Rightarrow> 'm \<Rightarrow> 'm"
    and clear_bit :: "'i \<Rightarrow> 'm \<Rightarrow> 'm"
    and test_bit :: "'i \<Rightarrow> 'm \<Rightarrow> bool"
    and valid :: "'i \<Rightarrow> bool"
  assumes test_set: "valid i \<Longrightarrow> valid j \<Longrightarrow> test_bit i (set_bit j m) \<longleftrightarrow> i = j \<or> test_bit i m"
    and test_clear: "valid i \<Longrightarrow> valid j \<Longrightarrow> test_bit i (clear_bit j m) \<longleftrightarrow> i \<noteq> j \<and> test_bit i m"
begin

definition flags :: "'m \<Rightarrow> 'i set" where
  "flags m = {i. valid i \<and> test_bit i m}"

lemma flags_set: "valid j \<Longrightarrow> flags (set_bit j m) = insert j (flags m)"
  by (auto simp: flags_def test_set)

lemma flags_clear: "valid j \<Longrightarrow> flags (clear_bit j m) = flags m - {j}"
  by (auto simp: flags_def test_clear)

lemma set_all_flags:
  "list_all valid js \<Longrightarrow> flags (fold set_bit js m) = set js \<union> flags m"
  by (induction js arbitrary: m) (auto simp: flags_set)

lemma clear_after_set_other:
  "valid i \<Longrightarrow> valid j \<Longrightarrow> i \<noteq> j \<Longrightarrow> test_bit i (clear_bit j (set_bit i m))"
  by (simp add: test_set test_clear)

end

interpretation bm: bitmap bitmap_set_lock bitmap_clear_lock bitmap_test "\<lambda>nr. unat nr < 64"
  by unfold_locales
    (auto simp: bitmap_test_iff bit_bitmap_set bit_bitmap_clear bit_nr_inj)

subsection \<open>Bit scans\<close>

lemma find_upt_Some:
  "find P [0..<n] = Some i \<longleftrightarrow> i < n \<and> P i \<and> (\<forall>j<i. \<not> P j)"
  by (auto simp: find_Some_iff)

lemma find_upt_None: "find P [0..<n] = None \<longleftrightarrow> (\<forall>i<n. \<not> P i)"
  by (auto simp: find_None_iff)

lemma u64_zero_iff: "w = 0 \<longleftrightarrow> (\<forall>i<64. \<not> bit w i)" for w :: u64
  by (auto simp: bit_eq_iff dest: bit_imp_le_length)

lemma ffs64_invalid_iff: "ffs64 w = INVALID_BIT_INDEX \<longleftrightarrow> w = 0"
proof (cases "find (bit w) [0..<64]")
  case None
  then have "w = 0"
    by (simp only: u64_zero_iff find_upt_None)
  moreover from None have "ffs64 w = INVALID_BIT_INDEX"
    by (simp add: ffs64_def)
  ultimately show ?thesis by blast
next
  case (Some i)
  then have "i < 64" "bit w i"
    by (simp_all add: find_upt_Some)
  moreover from \<open>i < 64\<close> have "(of_nat i :: u16) \<noteq> 0xffff"
    by (simp add: word_nat_eq unat_of_nat)
  ultimately show ?thesis
    using Some by (auto simp: ffs64_def INVALID_BIT_INDEX_def)
qed

lemma ffs64_least:
  assumes "w \<noteq> 0"
  shows "unat (ffs64 w) < 64 \<and> bit w (unat (ffs64 w)) \<and> (\<forall>j < unat (ffs64 w). \<not> bit w j)"
proof -
  obtain i where i: "find (bit w) [0..<64] = Some i"
    using assms by (cases "find (bit w) [0..<64]") (auto simp: find_upt_None u64_zero_iff)
  then have "i < 64" "bit w i" "\<forall>j<i. \<not> bit w j"
    by (simp_all add: find_upt_Some)
  moreover from i \<open>i < 64\<close> have "unat (ffs64 w) = i"
    by (simp add: ffs64_def unat_of_nat)
  ultimately show ?thesis by simp
qed

end
