(* ===== verification/Acrn_Pgtable.thy ===== *)
theory Acrn_Pgtable
  imports Acrn_Bits
begin

text \<open>
  Paging-structure entries and the operations on them:
  \<^verbatim>\<open>include/arch/x86/pgtable.h\<close>, \<^verbatim>\<open>include/arch/x86/page.h\<close>,
  \<^verbatim>\<open>include/arch/x86/mmu.h\<close> (rounding), \<^verbatim>\<open>arch/x86/page.c\<close> (the two
  instances of \<^verbatim>\<open>struct memory_ops\<close>) and the sanitizing functions of
  \<^verbatim>\<open>arch/x86/mmu.c\<close>.

  The memory that holds the paging structures is a function from the address of an 8-byte slot
  to its content; a pointer to an entry is its address, \<open>pt_page + i\<close> in C is
  \<open>pt_page + 8 * i\<close> here. The hypervisor maps its memory one to one, so \<^verbatim>\<open>hva2hpa\<close>
  and \<^verbatim>\<open>hpa2hva\<close> are the identity. \<^verbatim>\<open>clflush\<close> does not change what a
  load returns; the state keeps the list of flushed entries. The address the linker gives the
  page \<^verbatim>\<open>sanitized_page\<close> of \<^verbatim>\<open>mmu.c\<close> is part of the state.
\<close>

subsection \<open>Constants\<close>

definition PAGE_SHIFT :: nat where "PAGE_SHIFT = 12"
definition PAGE_SIZE :: u64 where "PAGE_SIZE = 0x1000"
definition PAGE_MASK :: u64 where "PAGE_MASK = 0xFFFFFFFFFFFFF000"

definition PAGE_PRESENT :: u64 where "PAGE_PRESENT = 0x1"
definition PAGE_RW :: u64 where "PAGE_RW = 0x2"
definition PAGE_USER :: u64 where "PAGE_USER = 0x4"
definition PAGE_PWT :: u64 where "PAGE_PWT = 0x8"
definition PAGE_PCD :: u64 where "PAGE_PCD = 0x10"
definition PAGE_PS :: u64 where "PAGE_PS = 0x80"
definition PAGE_NX :: u64 where "PAGE_NX = 0x8000000000000000"
definition PAGE_CACHE_MASK :: u64 where "PAGE_CACHE_MASK = PAGE_PCD OR PAGE_PWT"
definition PAGE_CACHE_WB :: u64 where "PAGE_CACHE_WB = 0"
definition PAGE_CACHE_UC :: u64 where "PAGE_CACHE_UC = PAGE_PCD OR PAGE_PWT"

definition EPT_RD :: u64 where "EPT_RD = 0x1"
definition EPT_WR :: u64 where "EPT_WR = 0x2"
definition EPT_EXE :: u64 where "EPT_EXE = 0x4"
definition EPT_RWX :: u64 where "EPT_RWX = EPT_RD OR EPT_WR OR EPT_EXE"
definition EPT_UNCACHED :: u64 where "EPT_UNCACHED = 0"
definition EPT_WB :: u64 where "EPT_WB = push_bit 3 6"
definition EPT_MT_MASK :: u64 where "EPT_MT_MASK = push_bit 3 7"
definition EPT_SNOOP_CTRL :: u64 where "EPT_SNOOP_CTRL = 0x800"
definition EPT_PFN_HIGH_MASK :: u64 where "EPT_PFN_HIGH_MASK = 0xFFF0000000000000"

definition PML4E_SHIFT :: nat where "PML4E_SHIFT = 39"
definition PML4E_SIZE :: u64 where "PML4E_SIZE = 0x8000000000"
definition PML4E_MASK :: u64 where "PML4E_MASK = NOT (PML4E_SIZE - 1)"
definition PDPTE_SHIFT :: nat where "PDPTE_SHIFT = 30"
definition PDPTE_SIZE :: u64 where "PDPTE_SIZE = 0x40000000"
definition PDPTE_MASK :: u64 where "PDPTE_MASK = NOT (PDPTE_SIZE - 1)"
definition PDE_SHIFT :: nat where "PDE_SHIFT = 21"
definition PDE_SIZE :: u64 where "PDE_SIZE = 0x200000"
definition PDE_MASK :: u64 where "PDE_MASK = NOT (PDE_SIZE - 1)"
definition PTE_SHIFT :: nat where "PTE_SHIFT = 12"
definition PTE_SIZE :: u64 where "PTE_SIZE = 0x1000"
definition PTRS_PER_PTE :: u64 where "PTRS_PER_PTE = 512"
definition PTRS_PER_PDE :: u64 where "PTRS_PER_PDE = 512"
definition PTRS_PER_PDPTE :: u64 where "PTRS_PER_PDPTE = 512"
definition PTRS_PER_PML4E :: u64 where "PTRS_PER_PML4E = 512"

definition MAXPHYADDR_MASK :: u64 where "MAXPHYADDR_MASK = 0x8000000000 - 1"
definition PML4E_PFN_MASK :: u64 where "PML4E_PFN_MASK = MAXPHYADDR_MASK AND PAGE_MASK"
definition PDPTE_PFN_MASK :: u64 where "PDPTE_PFN_MASK = MAXPHYADDR_MASK AND PAGE_MASK"
definition PDE_PFN_MASK :: u64 where "PDE_PFN_MASK = MAXPHYADDR_MASK AND PAGE_MASK"
definition PDPTE_PADDR_MASK :: u64 where "PDPTE_PADDR_MASK = MAXPHYADDR_MASK AND PDPTE_MASK"
definition PDE_PADDR_MASK :: u64 where "PDE_PADDR_MASK = MAXPHYADDR_MASK AND PDE_MASK"
definition PDPTE_PROT_MASK :: u64 where "PDPTE_PROT_MASK = 0xF800000000000FFF"
definition PDE_PROT_MASK :: u64 where "PDE_PROT_MASK = 0xF800000000000FFF"

definition MEM_1M :: u64 where "MEM_1M = 0x100000"

datatype page_table_level = IA32E_PML4 | IA32E_PDPT | IA32E_PD | IA32E_PT

subsection \<open>Rounding (mmu.h)\<close>

definition round_page_up :: "u64 \<Rightarrow> u64" where
  "round_page_up addr = ((addr + PAGE_SIZE) - 1) AND PAGE_MASK"

definition round_page_down :: "u64 \<Rightarrow> u64" where
  "round_page_down addr = addr AND PAGE_MASK"

definition round_pde_up :: "u64 \<Rightarrow> u64" where
  "round_pde_up val = ((val + PDE_SIZE) - 1) AND PDE_MASK"

definition round_pde_down :: "u64 \<Rightarrow> u64" where
  "round_pde_down val = val AND PDE_MASK"

subsection \<open>The memory of the paging structures\<close>

record pgst =
  pg_mem :: "u64 \<Rightarrow> u64"
  pg_flushed :: "u64 list"
  sanitized_page :: u64

definition hpa2hva :: "u64 \<Rightarrow> u64" where
  "hpa2hva hpa = hpa"

definition hva2hpa :: "u64 \<Rightarrow> u64" where
  "hva2hpa hva = hva"

text \<open>\<^verbatim>\<open>pt_page + index\<close> on a \<^verbatim>\<open>uint64_t *\<close>.\<close>

definition entry_ptr :: "u64 \<Rightarrow> u64 \<Rightarrow> u64" where
  "entry_ptr page index = page + 8 * index"

text \<open>\<^verbatim>\<open>memset(page, 0U, PAGE_SIZE)\<close>: the 512 slots of the page become 0.\<close>

definition memset_page :: "u64 \<Rightarrow> pgst \<Rightarrow> pgst" where
  "memset_page page s =
     s\<lparr>pg_mem := (\<lambda>a. if a - page < PAGE_SIZE then 0 else pg_mem s a)\<rparr>"

text \<open>
  \<^verbatim>\<open>union pgtable_pages_info\<close>: both variants hold the bases of the four arrays of
  pages.
\<close>

record pgtable_pages_info =
  pml4_base :: u64
  pdpt_base :: u64
  pd_base :: u64
  pt_base :: u64

text \<open>
  \<^verbatim>\<open>struct memory_ops\<close>. \<^verbatim>\<open>get_pt_page\<close> is optional: the hypervisor's own
  instance leaves the pointer NULL. A function that stores through a pointer takes the pointed-to
  value and returns the new one.
\<close>

record memory_ops =
  info :: pgtable_pages_info
  large_page_enabled :: bool
  get_default_access_right :: u64
  pgentry_present :: "u64 \<Rightarrow> u64"
  get_pml4_page :: "pgtable_pages_info \<Rightarrow> pgst \<Rightarrow> u64 \<times> pgst"
  get_pdpt_page :: "pgtable_pages_info \<Rightarrow> u64 \<Rightarrow> pgst \<Rightarrow> u64 \<times> pgst"
  get_pd_page :: "pgtable_pages_info \<Rightarrow> u64 \<Rightarrow> pgst \<Rightarrow> u64 \<times> pgst"
  get_pt_page :: "(pgtable_pages_info \<Rightarrow> u64 \<Rightarrow> pgst \<Rightarrow> u64 \<times> pgst) option"
  clflush_pagewalk :: "u64 \<Rightarrow> pgst \<Rightarrow> pgst"
  tweak_exe_right :: "u64 \<Rightarrow> u64"
  recover_exe_right :: "u64 \<Rightarrow> u64"

subsection \<open>Indices, pointers and entries (pgtable.h)\<close>

definition pml4e_index :: "u64 \<Rightarrow> u64" where
  "pml4e_index address = drop_bit PML4E_SHIFT address AND (PTRS_PER_PML4E - 1)"

definition pdpte_index :: "u64 \<Rightarrow> u64" where
  "pdpte_index address = drop_bit PDPTE_SHIFT address AND (PTRS_PER_PDPTE - 1)"

definition pde_index :: "u64 \<Rightarrow> u64" where
  "pde_index address = drop_bit PDE_SHIFT address AND (PTRS_PER_PDE - 1)"

definition pte_index :: "u64 \<Rightarrow> u64" where
  "pte_index address = drop_bit PTE_SHIFT address AND (PTRS_PER_PTE - 1)"

definition pml4e_page_vaddr :: "u64 \<Rightarrow> u64" where
  "pml4e_page_vaddr pml4e = hpa2hva (pml4e AND PML4E_PFN_MASK)"

definition pdpte_page_vaddr :: "u64 \<Rightarrow> u64" where
  "pdpte_page_vaddr pdpte = hpa2hva (pdpte AND PDPTE_PFN_MASK)"

definition pde_page_vaddr :: "u64 \<Rightarrow> u64" where
  "pde_page_vaddr pde = hpa2hva (pde AND PDE_PFN_MASK)"

definition pml4e_offset :: "u64 \<Rightarrow> u64 \<Rightarrow> u64" where
  "pml4e_offset pml4_page addr = entry_ptr pml4_page (pml4e_index addr)"

definition pdpte_offset :: "u64 \<Rightarrow> u64 \<Rightarrow> pgst \<Rightarrow> u64" where
  "pdpte_offset pml4e addr s = entry_ptr (pml4e_page_vaddr (pg_mem s pml4e)) (pdpte_index addr)"

definition pde_offset :: "u64 \<Rightarrow> u64 \<Rightarrow> pgst \<Rightarrow> u64" where
  "pde_offset pdpte addr s = entry_ptr (pdpte_page_vaddr (pg_mem s pdpte)) (pde_index addr)"

definition pte_offset :: "u64 \<Rightarrow> u64 \<Rightarrow> pgst \<Rightarrow> u64" where
  "pte_offset pde addr s = entry_ptr (pde_page_vaddr (pg_mem s pde)) (pte_index addr)"

definition set_pgentry :: "u64 \<Rightarrow> u64 \<Rightarrow> memory_ops \<Rightarrow> pgst \<Rightarrow> pgst" where
  "set_pgentry ptep pte ops s =
     clflush_pagewalk ops ptep (s\<lparr>pg_mem := (pg_mem s)(ptep := pte)\<rparr>)"

definition pde_large :: "u64 \<Rightarrow> u64" where
  "pde_large pde = pde AND PAGE_PS"

definition pdpte_large :: "u64 \<Rightarrow> u64" where
  "pdpte_large pdpte = pdpte AND PAGE_PS"

subsection \<open>Sanitizing (mmu.c)\<close>

definition get_sanitized_page :: "pgst \<Rightarrow> u64" where
  "get_sanitized_page s = hva2hpa (sanitized_page s)"

definition sanitize_pte_entry :: "u64 \<Rightarrow> memory_ops \<Rightarrow> pgst \<Rightarrow> pgst" where
  "sanitize_pte_entry ptep ops s = set_pgentry ptep (get_sanitized_page s) ops s"

definition sanitize_pte :: "u64 \<Rightarrow> memory_ops \<Rightarrow> pgst \<Rightarrow> pgst" where
  "sanitize_pte pt_page ops s =
     fold (\<lambda>i. sanitize_pte_entry (entry_ptr pt_page (of_nat i)) ops) [0..<512] s"

subsection \<open>The hypervisor's own paging structures (page.c)\<close>

definition ppt_get_default_access_right :: u64 where
  "ppt_get_default_access_right = PAGE_PRESENT OR PAGE_RW OR PAGE_USER"

definition ppt_clflush_pagewalk :: "u64 \<Rightarrow> pgst \<Rightarrow> pgst" where
  "ppt_clflush_pagewalk _ s = s"

definition ppt_pgentry_present :: "u64 \<Rightarrow> u64" where
  "ppt_pgentry_present pte = pte AND PAGE_PRESENT"

definition ppt_get_pml4_page :: "pgtable_pages_info \<Rightarrow> pgst \<Rightarrow> u64 \<times> pgst" where
  "ppt_get_pml4_page i s = (let page = pml4_base i in (page, memset_page page s))"

definition ppt_get_pdpt_page :: "pgtable_pages_info \<Rightarrow> u64 \<Rightarrow> pgst \<Rightarrow> u64 \<times> pgst" where
  "ppt_get_pdpt_page i gpa s =
     (let page = pdpt_base i + PAGE_SIZE * drop_bit PML4E_SHIFT gpa in (page, memset_page page s))"

definition ppt_get_pd_page :: "pgtable_pages_info \<Rightarrow> u64 \<Rightarrow> pgst \<Rightarrow> u64 \<times> pgst" where
  "ppt_get_pd_page i gpa s =
     (let page = pd_base i + PAGE_SIZE * drop_bit PDPTE_SHIFT gpa in (page, memset_page page s))"

definition nop_tweak_exe_right :: "u64 \<Rightarrow> u64" where
  "nop_tweak_exe_right prot = prot"

definition nop_recover_exe_right :: "u64 \<Rightarrow> u64" where
  "nop_recover_exe_right prot = prot"

definition ppt_mem_ops :: "pgtable_pages_info \<Rightarrow> memory_ops" where
  "ppt_mem_ops ppt_pages_info =
     \<lparr>info = ppt_pages_info,
      large_page_enabled = True,
      get_default_access_right = ppt_get_default_access_right,
      pgentry_present = ppt_pgentry_present,
      get_pml4_page = ppt_get_pml4_page,
      get_pdpt_page = ppt_get_pdpt_page,
      get_pd_page = ppt_get_pd_page,
      get_pt_page = None,
      clflush_pagewalk = ppt_clflush_pagewalk,
      tweak_exe_right = nop_tweak_exe_right,
      recover_exe_right = nop_recover_exe_right\<rparr>"

subsection \<open>The EPT paging structures of a VM (page.c)\<close>

definition ept_get_default_access_right :: u64 where
  "ept_get_default_access_right = EPT_RWX"

definition ept_pgentry_present :: "u64 \<Rightarrow> u64" where
  "ept_pgentry_present pte = pte AND EPT_RWX"

definition ept_clflush_pagewalk :: "u64 \<Rightarrow> pgst \<Rightarrow> pgst" where
  "ept_clflush_pagewalk entry s = s\<lparr>pg_flushed := entry # pg_flushed s\<rparr>"

definition ept_get_pml4_page :: "pgtable_pages_info \<Rightarrow> pgst \<Rightarrow> u64 \<times> pgst" where
  "ept_get_pml4_page i s = (let page = pml4_base i in (page, memset_page page s))"

definition ept_get_pdpt_page :: "pgtable_pages_info \<Rightarrow> u64 \<Rightarrow> pgst \<Rightarrow> u64 \<times> pgst" where
  "ept_get_pdpt_page i gpa s =
     (let page = pdpt_base i + PAGE_SIZE * drop_bit PML4E_SHIFT gpa in (page, memset_page page s))"

definition ept_get_pd_page :: "pgtable_pages_info \<Rightarrow> u64 \<Rightarrow> pgst \<Rightarrow> u64 \<times> pgst" where
  "ept_get_pd_page i gpa s =
     (let page = pd_base i + PAGE_SIZE * drop_bit PDPTE_SHIFT gpa in (page, memset_page page s))"

definition ept_get_pt_page :: "pgtable_pages_info \<Rightarrow> u64 \<Rightarrow> pgst \<Rightarrow> u64 \<times> pgst" where
  "ept_get_pt_page i gpa s =
     (let page = pt_base i + PAGE_SIZE * drop_bit PDE_SHIFT gpa in (page, memset_page page s))"

definition ept_tweak_exe_right :: "u64 \<Rightarrow> u64" where
  "ept_tweak_exe_right prot = prot AND NOT EPT_EXE"

definition ept_recover_exe_right :: "u64 \<Rightarrow> u64" where
  "ept_recover_exe_right prot = prot OR EPT_EXE"

text \<open>
  \<^verbatim>\<open>init_ept_mem_ops\<close>. The static arrays \<^verbatim>\<open>uos_nworld_*_pages\<close> are given
  by their addresses, as a function of the VM; \<open>force_4k_ipage\<close> is the result of
  \<^verbatim>\<open>is_ept_force_4k_ipage()\<close> on the platform.
\<close>

definition init_ept_mem_ops ::
  "(u16 \<Rightarrow> pgtable_pages_info) \<Rightarrow> bool \<Rightarrow> u16 \<Rightarrow> bool \<Rightarrow> memory_ops" where
  "init_ept_mem_ops uos_nworld_pages force_4k_ipage vm_id enforce_4k_ipage =
     \<lparr>info = uos_nworld_pages vm_id,
      large_page_enabled = (if force_4k_ipage then \<not> enforce_4k_ipage else True),
      get_default_access_right = ept_get_default_access_right,
      pgentry_present = ept_pgentry_present,
      get_pml4_page = ept_get_pml4_page,
      get_pdpt_page = ept_get_pdpt_page,
      get_pd_page = ept_get_pd_page,
      get_pt_page = Some ept_get_pt_page,
      clflush_pagewalk = ept_clflush_pagewalk,
      tweak_exe_right = (if force_4k_ipage then ept_tweak_exe_right else nop_tweak_exe_right),
      recover_exe_right = (if force_4k_ipage then ept_recover_exe_right else nop_recover_exe_right)\<rparr>"

end
