(* ===== verification/Acrn_Pagetable.thy ===== *)
theory Acrn_Pagetable
  imports Acrn_Pgtable "HOL-Library.Monad_Syntax"
begin

text \<open>
  The page-table operations of \<^verbatim>\<open>src/hypervisor/arch/x86/pagetable.c\<close>: mapping a
  range (\<open>mmu_add\<close>), modifying or deleting the mappings of a range (\<open>mmu_modify_or_del\<close>),
  looking an address up (\<open>lookup_address\<close>) and walking all mapped entries
  (\<open>walk_page_table\<close>), with their static helpers, one definition each.

  A function that returns \<open>pgst option\<close> has the value \<open>None\<close> where the C function does not
  return: it calls \<^verbatim>\<open>get_pt_page\<close> through a NULL pointer, or, for the two loops over
  PML4 entries, it never leaves the loop because \<^verbatim>\<open>vaddr_next\<close> wraps around. The loops
  over one table end because the index reaches 512.

  Logging has no effect on the state and is left out; \<^verbatim>\<open>ASSERT\<close> is empty, as in the
  release build this configuration describes (\<^verbatim>\<open>CONFIG_RELEASE\<close>).
\<close>

definition MR_DEL :: u32 where "MR_DEL = 2"
definition MR_MODIFY :: u32 where "MR_MODIFY = 3"

subsection \<open>Splitting, modifying and constructing one entry\<close>

definition split_fill ::
  "memory_ops \<Rightarrow> u64 \<Rightarrow> u64 \<Rightarrow> u64 \<Rightarrow> u64 \<Rightarrow> pgst \<Rightarrow> pgst" where
  "split_fill ops pbase ref_prot paddrinc paddr s =
     snd (fold (\<lambda>i (paddr, s).
                  (paddr + paddrinc,
                   set_pgentry (entry_ptr pbase (of_nat i)) (paddr OR ref_prot) ops s))
            [0..<512] (paddr, s))"

definition split_large_page ::
  "u64 \<Rightarrow> page_table_level \<Rightarrow> u64 \<Rightarrow> memory_ops \<Rightarrow> pgst \<Rightarrow> pgst option" where
  "split_large_page pte level vaddr ops s =
     (case level of
        IA32E_PDPT \<Rightarrow>
          let paddr = pg_mem s pte AND PDPTE_PADDR_MASK;
              ref_prot = pg_mem s pte AND PDPTE_PROT_MASK;
              (pbase, s1) = get_pd_page ops (info ops) vaddr s;
              s2 = split_fill ops pbase ref_prot PDE_SIZE paddr s1
          in Some (set_pgentry pte (hva2hpa pbase OR get_default_access_right ops) ops s2)
      | _ \<Rightarrow>
          let paddr = pg_mem s pte AND PDE_PADDR_MASK;
              ref_prot = recover_exe_right ops ((pg_mem s pte AND PDE_PROT_MASK) AND NOT PAGE_PS)
          in (case get_pt_page ops of
                None \<Rightarrow> None
              | Some get_page \<Rightarrow>
                  let (pbase, s1) = get_page (info ops) vaddr s;
                      s2 = split_fill ops pbase ref_prot PTE_SIZE paddr s1
                  in Some (set_pgentry pte (hva2hpa pbase OR get_default_access_right ops) ops s2)))"

definition local_modify_or_del_pte ::
  "u64 \<Rightarrow> u64 \<Rightarrow> u64 \<Rightarrow> u32 \<Rightarrow> memory_ops \<Rightarrow> pgst \<Rightarrow> pgst" where
  "local_modify_or_del_pte pte prot_set prot_clr type ops s =
     (if type = MR_MODIFY
      then set_pgentry pte ((pg_mem s pte AND NOT prot_clr) OR prot_set) ops s
      else sanitize_pte_entry pte ops s)"

definition construct_pgentry :: "u64 \<Rightarrow> u64 \<Rightarrow> u64 \<Rightarrow> memory_ops \<Rightarrow> pgst \<Rightarrow> pgst" where
  "construct_pgentry pde pd_page prot ops s =
     set_pgentry pde (hva2hpa pd_page OR prot) ops (sanitize_pte pd_page ops s)"

subsection \<open>Modifying and deleting a range\<close>

lemma index_step: "index < 512 \<Longrightarrow> unat (index + 1) = Suc (unat index)" for index :: u64
  by (simp add: word_less_nat_alt unat_add_small)

function modify_or_del_pte_loop ::
  "memory_ops \<Rightarrow> u32 \<Rightarrow> u64 \<Rightarrow> u64 \<Rightarrow> u64 \<Rightarrow> u64 \<Rightarrow> u64 \<Rightarrow> u64 \<Rightarrow> pgst \<Rightarrow> pgst" where
  "modify_or_del_pte_loop ops type prot_set prot_clr vaddr_end pt_page vaddr index s =
     (if index < PTRS_PER_PTE then
        let pte = entry_ptr pt_page index;
            s' = (if pgentry_present ops (pg_mem s pte) = 0 then s
                  else local_modify_or_del_pte pte prot_set prot_clr type ops s);
            vaddr' = vaddr + PTE_SIZE
        in if vaddr' \<ge> vaddr_end then s'
           else modify_or_del_pte_loop ops type prot_set prot_clr vaddr_end pt_page
                  vaddr' (index + 1) s'
      else s)"
  by pat_completeness auto
termination
  by (relation "measure (\<lambda>(_, _, _, _, _, _, _, index, _). 512 - unat index)")
    (auto simp: PTRS_PER_PTE_def index_step word_less_nat_alt)

definition modify_or_del_pte ::
  "u64 \<Rightarrow> u64 \<Rightarrow> u64 \<Rightarrow> u64 \<Rightarrow> u64 \<Rightarrow> memory_ops \<Rightarrow> u32 \<Rightarrow> pgst \<Rightarrow> pgst" where
  "modify_or_del_pte pde vaddr_start vaddr_end prot_set prot_clr ops type s =
     modify_or_del_pte_loop ops type prot_set prot_clr vaddr_end
       (pde_page_vaddr (pg_mem s pde)) vaddr_start (pte_index vaddr_start) s"

function modify_or_del_pde_loop ::
  "memory_ops \<Rightarrow> u32 \<Rightarrow> u64 \<Rightarrow> u64 \<Rightarrow> u64 \<Rightarrow> u64 \<Rightarrow> u64 \<Rightarrow> u64 \<Rightarrow> pgst \<Rightarrow> pgst option" where
  "modify_or_del_pde_loop ops type prot_set prot_clr vaddr_end pd_page vaddr index s =
     (if index < PTRS_PER_PDE then
        let pde = entry_ptr pd_page index;
            vaddr_next = (vaddr AND PDE_MASK) + PDE_SIZE
        in if pgentry_present ops (pg_mem s pde) = 0 then
             (if vaddr_next \<ge> vaddr_end then Some s
              else modify_or_del_pde_loop ops type prot_set prot_clr vaddr_end pd_page
                     vaddr_next (index + 1) s)
           else if pde_large (pg_mem s pde) \<noteq> 0 \<and>
                   \<not> (vaddr_next > vaddr_end \<or> \<not> mem_aligned_check vaddr PDE_SIZE) then
             let s' = local_modify_or_del_pte pde prot_set prot_clr type ops s
             in if vaddr_next < vaddr_end
                then modify_or_del_pde_loop ops type prot_set prot_clr vaddr_end pd_page
                       vaddr_next (index + 1) s'
                else Some s'
           else
             (case (if pde_large (pg_mem s pde) \<noteq> 0
                    then split_large_page pde IA32E_PD vaddr ops s else Some s) of
                None \<Rightarrow> None
              | Some s1 \<Rightarrow>
                  let vaddr_end_each_iter = (if vaddr_next < vaddr_end then vaddr_next else vaddr_end);
                      s2 = modify_or_del_pte pde vaddr vaddr_end_each_iter prot_set prot_clr ops type s1
                  in if vaddr_next \<ge> vaddr_end then Some s2
                     else modify_or_del_pde_loop ops type prot_set prot_clr vaddr_end pd_page
                            vaddr_next (index + 1) s2)
      else Some s)"
  by pat_completeness auto
termination
  by (relation "measure (\<lambda>(_, _, _, _, _, _, _, index, _). 512 - unat index)")
    (auto simp: PTRS_PER_PDE_def index_step word_less_nat_alt)

definition modify_or_del_pde ::
  "u64 \<Rightarrow> u64 \<Rightarrow> u64 \<Rightarrow> u64 \<Rightarrow> u64 \<Rightarrow> memory_ops \<Rightarrow> u32 \<Rightarrow> pgst \<Rightarrow> pgst option" where
  "modify_or_del_pde pdpte vaddr_start vaddr_end prot_set prot_clr ops type s =
     modify_or_del_pde_loop ops type prot_set prot_clr vaddr_end
       (pdpte_page_vaddr (pg_mem s pdpte)) vaddr_start (pde_index vaddr_start) s"

function modify_or_del_pdpte_loop ::
  "memory_ops \<Rightarrow> u32 \<Rightarrow> u64 \<Rightarrow> u64 \<Rightarrow> u64 \<Rightarrow> u64 \<Rightarrow> u64 \<Rightarrow> u64 \<Rightarrow> pgst \<Rightarrow> pgst option" where
  "modify_or_del_pdpte_loop ops type prot_set prot_clr vaddr_end pdpt_page vaddr index s =
     (if index < PTRS_PER_PDPTE then
        let pdpte = entry_ptr pdpt_page index;
            vaddr_next = (vaddr AND PDPTE_MASK) + PDPTE_SIZE
        in if pgentry_present ops (pg_mem s pdpte) = 0 then
             (if vaddr_next \<ge> vaddr_end then Some s
              else modify_or_del_pdpte_loop ops type prot_set prot_clr vaddr_end pdpt_page
                     vaddr_next (index + 1) s)
           else if pdpte_large (pg_mem s pdpte) \<noteq> 0 \<and>
                   \<not> (vaddr_next > vaddr_end \<or> \<not> mem_aligned_check vaddr PDPTE_SIZE) then
             let s' = local_modify_or_del_pte pdpte prot_set prot_clr type ops s
             in if vaddr_next < vaddr_end
                then modify_or_del_pdpte_loop ops type prot_set prot_clr vaddr_end pdpt_page
                       vaddr_next (index + 1) s'
                else Some s'
           else
             (case (if pdpte_large (pg_mem s pdpte) \<noteq> 0
                    then split_large_page pdpte IA32E_PDPT vaddr ops s else Some s) of
                None \<Rightarrow> None
              | Some s1 \<Rightarrow>
                  let vaddr_end_each_iter = (if vaddr_next < vaddr_end then vaddr_next else vaddr_end)
                  in (case modify_or_del_pde pdpte vaddr vaddr_end_each_iter prot_set prot_clr ops type s1 of
                        None \<Rightarrow> None
                      | Some s2 \<Rightarrow>
                          if vaddr_next \<ge> vaddr_end then Some s2
                          else modify_or_del_pdpte_loop ops type prot_set prot_clr vaddr_end pdpt_page
                                 vaddr_next (index + 1) s2))
      else Some s)"
  by pat_completeness auto
termination
  by (relation "measure (\<lambda>(_, _, _, _, _, _, _, index, _). 512 - unat index)")
    (auto simp: PTRS_PER_PDPTE_def index_step word_less_nat_alt)

definition modify_or_del_pdpte ::
  "u64 \<Rightarrow> u64 \<Rightarrow> u64 \<Rightarrow> u64 \<Rightarrow> u64 \<Rightarrow> memory_ops \<Rightarrow> u32 \<Rightarrow> pgst \<Rightarrow> pgst option" where
  "modify_or_del_pdpte pml4e vaddr_start vaddr_end prot_set prot_clr ops type s =
     modify_or_del_pdpte_loop ops type prot_set prot_clr vaddr_end
       (pml4e_page_vaddr (pg_mem s pml4e)) vaddr_start (pdpte_index vaddr_start) s"

partial_function (option) mmu_modify_or_del_loop ::
  "u64 \<Rightarrow> u64 \<Rightarrow> u64 \<Rightarrow> memory_ops \<Rightarrow> u32 \<Rightarrow> u64 \<Rightarrow> u64 \<Rightarrow> pgst \<Rightarrow> pgst option" where
  "mmu_modify_or_del_loop pml4_page prot_set prot_clr ops type vaddr_end vaddr s =
     (if vaddr < vaddr_end then
        let vaddr_next = (vaddr AND PML4E_MASK) + PML4E_SIZE;
            pml4e = pml4e_offset pml4_page vaddr
        in if pgentry_present ops (pg_mem s pml4e) = 0 \<and> type = MR_MODIFY
           then mmu_modify_or_del_loop pml4_page prot_set prot_clr ops type vaddr_end vaddr_next s
           else Option.bind
                  (modify_or_del_pdpte pml4e vaddr
                     (if vaddr_next < vaddr_end then vaddr_next else vaddr_end)
                     prot_set prot_clr ops type s)
                  (mmu_modify_or_del_loop pml4_page prot_set prot_clr ops type vaddr_end vaddr_next)
      else Some s)"

definition mmu_modify_or_del ::
  "u64 \<Rightarrow> u64 \<Rightarrow> u64 \<Rightarrow> u64 \<Rightarrow> u64 \<Rightarrow> memory_ops \<Rightarrow> u32 \<Rightarrow> pgst \<Rightarrow> pgst option" where
  "mmu_modify_or_del pml4_page vaddr_base sz prot_set prot_clr ops type s =
     mmu_modify_or_del_loop pml4_page prot_set prot_clr ops type
       (round_page_up (vaddr_base + sz)) (round_page_down vaddr_base) s"

subsection \<open>Mapping a range\<close>

function add_pte_loop ::
  "memory_ops \<Rightarrow> u64 \<Rightarrow> u64 \<Rightarrow> u64 \<Rightarrow> u64 \<Rightarrow> u64 \<Rightarrow> u64 \<Rightarrow> pgst \<Rightarrow> pgst" where
  "add_pte_loop ops prot vaddr_end pt_page vaddr paddr index s =
     (if index < PTRS_PER_PTE then
        let pte = entry_ptr pt_page index
        in if pgentry_present ops (pg_mem s pte) \<noteq> 0
           then add_pte_loop ops prot vaddr_end pt_page vaddr paddr (index + 1) s
           else
             let s' = set_pgentry pte (paddr OR prot) ops s;
                 paddr' = paddr + PTE_SIZE;
                 vaddr' = vaddr + PTE_SIZE
             in if vaddr' \<ge> vaddr_end then s'
                else add_pte_loop ops prot vaddr_end pt_page vaddr' paddr' (index + 1) s'
      else s)"
  by pat_completeness auto
termination
  by (relation "measure (\<lambda>(_, _, _, _, _, _, index, _). 512 - unat index)")
    (auto simp: PTRS_PER_PTE_def index_step word_less_nat_alt)

definition add_pte :: "u64 \<Rightarrow> u64 \<Rightarrow> u64 \<Rightarrow> u64 \<Rightarrow> u64 \<Rightarrow> memory_ops \<Rightarrow> pgst \<Rightarrow> pgst" where
  "add_pte pde paddr_start vaddr_start vaddr_end prot ops s =
     add_pte_loop ops prot vaddr_end (pde_page_vaddr (pg_mem s pde))
       vaddr_start paddr_start (pte_index vaddr_start) s"

function add_pde_loop ::
  "memory_ops \<Rightarrow> u64 \<Rightarrow> u64 \<Rightarrow> u64 \<Rightarrow> u64 \<Rightarrow> u64 \<Rightarrow> u64 \<Rightarrow> pgst \<Rightarrow> pgst option" where
  "add_pde_loop ops vaddr_end pd_page effective_prot vaddr paddr index s =
     (if index < PTRS_PER_PDE then
        let pde = entry_ptr pd_page index;
            vaddr_next = (vaddr AND PDE_MASK) + PDE_SIZE
        in if pde_large (pg_mem s pde) \<noteq> 0 then
             (if vaddr_next \<ge> vaddr_end then Some s
              else add_pde_loop ops vaddr_end pd_page effective_prot vaddr_next
                     (paddr + (vaddr_next - vaddr)) (index + 1) s)
           else if pgentry_present ops (pg_mem s pde) = 0 \<and> large_page_enabled ops \<and>
                   mem_aligned_check paddr PDE_SIZE \<and> mem_aligned_check vaddr PDE_SIZE \<and>
                   vaddr_next \<le> vaddr_end then
             let effective_prot' = tweak_exe_right ops effective_prot;
                 s' = set_pgentry pde (paddr OR (effective_prot' OR PAGE_PS)) ops s
             in if vaddr_next < vaddr_end
                then add_pde_loop ops vaddr_end pd_page effective_prot' vaddr_next
                       (paddr + (vaddr_next - vaddr)) (index + 1) s'
                else Some s'
           else
             (case (if pgentry_present ops (pg_mem s pde) = 0
                    then (case get_pt_page ops of
                            None \<Rightarrow> None
                          | Some get_page \<Rightarrow>
                              let (pt_page, s0) = get_page (info ops) vaddr s
                              in Some (construct_pgentry pde pt_page (get_default_access_right ops) ops s0))
                    else Some s) of
                None \<Rightarrow> None
              | Some s1 \<Rightarrow>
                  let vaddr_end_each_iter = (if vaddr_next < vaddr_end then vaddr_next else vaddr_end);
                      s2 = add_pte pde paddr vaddr vaddr_end_each_iter effective_prot ops s1
                  in if vaddr_next \<ge> vaddr_end then Some s2
                     else add_pde_loop ops vaddr_end pd_page effective_prot vaddr_next
                            (paddr + (vaddr_next - vaddr)) (index + 1) s2)
      else Some s)"
  by pat_completeness auto
termination
  by (relation "measure (\<lambda>(_, _, _, _, _, _, index, _). 512 - unat index)")
    (auto simp: PTRS_PER_PDE_def index_step word_less_nat_alt)

definition add_pde :: "u64 \<Rightarrow> u64 \<Rightarrow> u64 \<Rightarrow> u64 \<Rightarrow> u64 \<Rightarrow> memory_ops \<Rightarrow> pgst \<Rightarrow> pgst option" where
  "add_pde pdpte paddr_start vaddr_start vaddr_end prot ops s =
     add_pde_loop ops vaddr_end (pdpte_page_vaddr (pg_mem s pdpte)) prot
       vaddr_start paddr_start (pde_index vaddr_start) s"

function add_pdpte_loop ::
  "memory_ops \<Rightarrow> u64 \<Rightarrow> u64 \<Rightarrow> u64 \<Rightarrow> u64 \<Rightarrow> u64 \<Rightarrow> u64 \<Rightarrow> pgst \<Rightarrow> pgst option" where
  "add_pdpte_loop ops vaddr_end pdpt_page effective_prot vaddr paddr index s =
     (if index < PTRS_PER_PDPTE then
        let pdpte = entry_ptr pdpt_page index;
            vaddr_next = (vaddr AND PDPTE_MASK) + PDPTE_SIZE
        in if pdpte_large (pg_mem s pdpte) \<noteq> 0 then
             (if vaddr_next \<ge> vaddr_end then Some s
              else add_pdpte_loop ops vaddr_end pdpt_page effective_prot vaddr_next
                     (paddr + (vaddr_next - vaddr)) (index + 1) s)
           else if pgentry_present ops (pg_mem s pdpte) = 0 \<and> large_page_enabled ops \<and>
                   mem_aligned_check paddr PDPTE_SIZE \<and> mem_aligned_check vaddr PDPTE_SIZE \<and>
                   vaddr_next \<le> vaddr_end then
             let effective_prot' = tweak_exe_right ops effective_prot;
                 s' = set_pgentry pdpte (paddr OR (effective_prot' OR PAGE_PS)) ops s
             in if vaddr_next < vaddr_end
                then add_pdpte_loop ops vaddr_end pdpt_page effective_prot' vaddr_next
                       (paddr + (vaddr_next - vaddr)) (index + 1) s'
                else Some s'
           else
             let s1 = (if pgentry_present ops (pg_mem s pdpte) = 0
                       then let (pd_page, s0) = get_pd_page ops (info ops) vaddr s
                            in construct_pgentry pdpte pd_page (get_default_access_right ops) ops s0
                       else s);
                 vaddr_end_each_iter = (if vaddr_next < vaddr_end then vaddr_next else vaddr_end)
             in (case add_pde pdpte paddr vaddr vaddr_end_each_iter effective_prot ops s1 of
                   None \<Rightarrow> None
                 | Some s2 \<Rightarrow>
                     if vaddr_next \<ge> vaddr_end then Some s2
                     else add_pdpte_loop ops vaddr_end pdpt_page effective_prot vaddr_next
                            (paddr + (vaddr_next - vaddr)) (index + 1) s2)
      else Some s)"
  by pat_completeness auto
termination
  by (relation "measure (\<lambda>(_, _, _, _, _, _, index, _). 512 - unat index)")
    (auto simp: PTRS_PER_PDPTE_def index_step word_less_nat_alt)

definition add_pdpte :: "u64 \<Rightarrow> u64 \<Rightarrow> u64 \<Rightarrow> u64 \<Rightarrow> u64 \<Rightarrow> memory_ops \<Rightarrow> pgst \<Rightarrow> pgst option" where
  "add_pdpte pml4e paddr_start vaddr_start vaddr_end prot ops s =
     add_pdpte_loop ops vaddr_end (pml4e_page_vaddr (pg_mem s pml4e)) prot
       vaddr_start paddr_start (pdpte_index vaddr_start) s"

partial_function (option) mmu_add_loop ::
  "u64 \<Rightarrow> u64 \<Rightarrow> memory_ops \<Rightarrow> u64 \<Rightarrow> u64 \<Rightarrow> u64 \<Rightarrow> pgst \<Rightarrow> pgst option" where
  "mmu_add_loop pml4_page prot ops vaddr_end vaddr paddr s =
     (if vaddr < vaddr_end then
        let vaddr_next = (vaddr AND PML4E_MASK) + PML4E_SIZE;
            pml4e = pml4e_offset pml4_page vaddr;
            s1 = (if pgentry_present ops (pg_mem s pml4e) = 0
                  then let (pdpt_page, s0) = get_pdpt_page ops (info ops) vaddr s
                       in construct_pgentry pml4e pdpt_page (get_default_access_right ops) ops s0
                  else s)
        in Option.bind
             (add_pdpte pml4e paddr vaddr (if vaddr_next < vaddr_end then vaddr_next else vaddr_end)
                prot ops s1)
             (mmu_add_loop pml4_page prot ops vaddr_end vaddr_next (paddr + (vaddr_next - vaddr)))
      else Some s)"

definition mmu_add :: "u64 \<Rightarrow> u64 \<Rightarrow> u64 \<Rightarrow> u64 \<Rightarrow> u64 \<Rightarrow> memory_ops \<Rightarrow> pgst \<Rightarrow> pgst option" where
  "mmu_add pml4_page paddr_base vaddr_base sz prot ops s =
     mmu_add_loop pml4_page prot ops (round_page_up (vaddr_base + sz))
       (round_page_down vaddr_base) (round_page_down paddr_base) s"

subsection \<open>Looking up and walking\<close>

text \<open>
  \<open>Some (entry, page size)\<close> where the C function returns the entry's address and stores
  the page size, \<open>None\<close> where it returns NULL.
\<close>

definition lookup_address :: "u64 \<Rightarrow> u64 \<Rightarrow> memory_ops \<Rightarrow> pgst \<Rightarrow> (u64 \<times> u64) option" where
  "lookup_address pml4_page addr ops s =
     (let pml4e = pml4e_offset pml4_page addr in
      if pgentry_present ops (pg_mem s pml4e) \<noteq> 0 then
        let pdpte = pdpte_offset pml4e addr s in
        if pgentry_present ops (pg_mem s pdpte) \<noteq> 0 then
          if pdpte_large (pg_mem s pdpte) \<noteq> 0 then Some (pdpte, PDPTE_SIZE)
          else
            let pde = pde_offset pdpte addr s in
            if pgentry_present ops (pg_mem s pde) \<noteq> 0 then
              if pde_large (pg_mem s pde) \<noteq> 0 then Some (pde, PDE_SIZE)
              else
                let pte = pte_offset pde addr s in
                if pgentry_present ops (pg_mem s pte) \<noteq> 0 then Some (pte, PTE_SIZE)
                else None
            else None
        else None
      else None)"

definition walk_pt :: "memory_ops \<Rightarrow> (u64 \<Rightarrow> u64 \<Rightarrow> pgst \<Rightarrow> pgst) \<Rightarrow> u64 \<Rightarrow> pgst \<Rightarrow> pgst" where
  "walk_pt ops cb pde s =
     fold (\<lambda>m s. let pte = pte_offset pde (push_bit PTE_SHIFT (of_nat m)) s in
             if pgentry_present ops (pg_mem s pte) \<noteq> 0 then cb pte PTE_SIZE s else s) [0..<512] s"

definition walk_pd :: "memory_ops \<Rightarrow> (u64 \<Rightarrow> u64 \<Rightarrow> pgst \<Rightarrow> pgst) \<Rightarrow> u64 \<Rightarrow> pgst \<Rightarrow> pgst" where
  "walk_pd ops cb pdpte s =
     fold (\<lambda>k s. let pde = pde_offset pdpte (push_bit PDE_SHIFT (of_nat k)) s in
             if pgentry_present ops (pg_mem s pde) = 0 then s
             else if pde_large (pg_mem s pde) \<noteq> 0 then cb pde PDE_SIZE s
             else walk_pt ops cb pde s) [0..<512] s"

definition walk_pdpt :: "memory_ops \<Rightarrow> (u64 \<Rightarrow> u64 \<Rightarrow> pgst \<Rightarrow> pgst) \<Rightarrow> u64 \<Rightarrow> pgst \<Rightarrow> pgst" where
  "walk_pdpt ops cb pml4e s =
     fold (\<lambda>j s. let pdpte = pdpte_offset pml4e (push_bit PDPTE_SHIFT (of_nat j)) s in
             if pgentry_present ops (pg_mem s pdpte) = 0 then s
             else if pdpte_large (pg_mem s pdpte) \<noteq> 0 then cb pdpte PDPTE_SIZE s
             else walk_pd ops cb pdpte s) [0..<512] s"

definition walk_page_table ::
  "u64 \<Rightarrow> memory_ops \<Rightarrow> (u64 \<Rightarrow> u64 \<Rightarrow> pgst \<Rightarrow> pgst) \<Rightarrow> pgst \<Rightarrow> pgst" where
  "walk_page_table pml4_page ops cb s =
     fold (\<lambda>i s. let pml4e = pml4e_offset pml4_page (push_bit PML4E_SHIFT (of_nat i)) in
             if pgentry_present ops (pg_mem s pml4e) = 0 then s
             else walk_pdpt ops cb pml4e s) [0..<512] s"

declare modify_or_del_pte_loop.simps [simp del] modify_or_del_pde_loop.simps [simp del]
  modify_or_del_pdpte_loop.simps [simp del] add_pte_loop.simps [simp del]
  add_pde_loop.simps [simp del] add_pdpte_loop.simps [simp del]

end
