(* ===== verification/Acrn_Paging.thy ===== *)
theory Acrn_Paging
  imports Acrn_Pagetable
begin

text \<open>
  The abstract view of a set of paging structures and its refinement by the primitive
  operations.

  The pages of a level are one static array (\<^verbatim>\<open>src/hypervisor/arch/x86/page.c\<close>), indexed
  by the address they translate, so every level is a flat table: entry \<open>i\<close> of level \<open>l\<close>
  translates the addresses \<open>g\<close> with \<open>g div 2 ^ level_shift l = i\<close>. \<open>tab\<close> reads that table out
  of the memory, \<open>tr\<close> is the page walk over the tables, \<open>pgwf\<close> the well-formedness invariant:
  an entry that refers to a table refers to the static page of its own index, a non-present
  entry has the large-page bit clear, a leaf has no address bit above MAXPHYADDR.

  The locale \<open>paging\<close> is the interface between the page-table algorithms and an instance of
  \<^verbatim>\<open>struct memory_ops\<close>: the laws an instance has to obey. It is interpreted on both
  instances of the source at the end of the theory \<open>Acrn_Paging_Ops\<close>.
\<close>

subsection \<open>Natural numbers as addresses\<close>

lemma of_nat_u64_le: "a < 2 ^ 64 \<Longrightarrow> b < 2 ^ 64 \<Longrightarrow> (of_nat a :: u64) \<le> of_nat b \<longleftrightarrow> a \<le> b"
  by (simp add: word_le_nat_alt unat_of_nat_small)

lemma of_nat_u64_less: "a < 2 ^ 64 \<Longrightarrow> b < 2 ^ 64 \<Longrightarrow> (of_nat a :: u64) < of_nat b \<longleftrightarrow> a < b"
  by (simp add: word_less_nat_alt unat_of_nat_small)

lemma of_nat_u64_eq: "a < 2 ^ 64 \<Longrightarrow> b < 2 ^ 64 \<Longrightarrow> (of_nat a :: u64) = of_nat b \<longleftrightarrow> a = b"
  by (simp add: word_nat_eq unat_of_nat_small)

lemma unat_of_nat_u64: "a < 2 ^ 64 \<Longrightarrow> unat (of_nat a :: u64) = a"
  by (simp add: unat_of_nat_small)

lemma of_nat_align_down:
  "v < 2 ^ 64 \<Longrightarrow> (of_nat v :: u64) AND NOT (mask n) = of_nat (v div 2 ^ n * 2 ^ n)"
proof -
  assume v: "v < 2 ^ 64"
  have "v div 2 ^ n * 2 ^ n \<le> v"
    by simp
  with v show ?thesis
    by (simp only: word_nat_eq unat_and_not_mask unat_of_nat_u64 le_less_trans)
qed

lemma of_nat_index:
  "v < 2 ^ 64 \<Longrightarrow> drop_bit n (of_nat v :: u64) AND mask 9 = of_nat (v div 2 ^ n mod 512)"
proof -
  assume v: "v < 2 ^ 64"
  have "v div 2 ^ n mod 512 < 2 ^ 64"
    by (rule less_trans [of _ 512]) simp_all
  with v show ?thesis
    by (simp only: word_nat_eq unat_and_mask unat_shiftr unat_of_nat_u64) simp
qed

lemma of_nat_shiftr: "v < 2 ^ 64 \<Longrightarrow> drop_bit n (of_nat v :: u64) = of_nat (v div 2 ^ n)"
  by (simp only: word_nat_eq unat_shiftr unat_of_nat_u64)
    (metis div_le_dividend le_less_trans unat_of_nat_u64)

lemma mask9: "(512 - 1 :: u64) = mask 9"
  by (simp add: mask_eq_exp_minus_1)

lemmas index_defs = pml4e_index_def pdpte_index_def pde_index_def pte_index_def
  PML4E_SHIFT_def PDPTE_SHIFT_def PDE_SHIFT_def PTE_SHIFT_def
  PTRS_PER_PML4E_def PTRS_PER_PDPTE_def PTRS_PER_PDE_def PTRS_PER_PTE_def

lemma index_of_nat:
  assumes "v < 2 ^ 64"
  shows "pml4e_index (of_nat v) = of_nat (v div 2 ^ 39 mod 512)"
    "pdpte_index (of_nat v) = of_nat (v div 2 ^ 30 mod 512)"
    "pde_index (of_nat v) = of_nat (v div 2 ^ 21 mod 512)"
    "pte_index (of_nat v) = of_nat (v div 2 ^ 12 mod 512)"
  by (simp_all only: index_defs mask9 of_nat_index [OF assms])

lemma size_masks [mask_defs]:
  "PML4E_MASK = NOT (mask 39)" "PDPTE_MASK = NOT (mask 30)" "PDE_MASK = NOT (mask 21)"
  "PAGE_MASK = NOT (mask 12)" "MAXPHYADDR_MASK = mask 39"
  by (simp_all add: PML4E_MASK_def PML4E_SIZE_def PDPTE_MASK_def PDPTE_SIZE_def PDE_MASK_def
      PDE_SIZE_def PAGE_MASK_def MAXPHYADDR_MASK_def mask_eq_exp_minus_1)

lemma size_powers:
  "PML4E_SIZE = of_nat (2 ^ 39)" "PDPTE_SIZE = of_nat (2 ^ 30)" "PDE_SIZE = of_nat (2 ^ 21)"
  "PTE_SIZE = of_nat (2 ^ 12)" "PAGE_SIZE = of_nat (2 ^ 12)"
  by (simp_all add: PML4E_SIZE_def PDPTE_SIZE_def PDE_SIZE_def PTE_SIZE_def PAGE_SIZE_def)

text \<open>\<open>next_boundary n v\<close>: the first multiple of \<open>2 ^ n\<close> above \<open>v\<close>, the \<^verbatim>\<open>vaddr_next\<close> of the loops.\<close>

definition next_boundary :: "nat \<Rightarrow> nat \<Rightarrow> nat" where
  "next_boundary n v = (v div 2 ^ n + 1) * 2 ^ n"

lemma vaddr_next:
  assumes "v < 2 ^ 64"
  shows "(of_nat v AND PML4E_MASK) + PML4E_SIZE = of_nat (next_boundary 39 v)"
    "(of_nat v AND PDPTE_MASK) + PDPTE_SIZE = of_nat (next_boundary 30 v)"
    "(of_nat v AND PDE_MASK) + PDE_SIZE = of_nat (next_boundary 21 v)"
  by (simp_all only: size_masks size_powers of_nat_align_down [OF assms] next_boundary_def
      of_nat_add [symmetric] distrib_right mult_1)

lemma mem_aligned_of_nat:
  assumes "v < 2 ^ 64"
  shows "mem_aligned_check (of_nat v) PDPTE_SIZE \<longleftrightarrow> 2 ^ 30 dvd v"
    "mem_aligned_check (of_nat v) PDE_SIZE \<longleftrightarrow> 2 ^ 21 dvd v"
proof -
  have "PDPTE_SIZE - 1 = mask 30" "PDE_SIZE - 1 = mask 21"
    by (simp_all add: PDPTE_SIZE_def PDE_SIZE_def mask_eq_exp_minus_1)
  then show "mem_aligned_check (of_nat v) PDPTE_SIZE \<longleftrightarrow> 2 ^ 30 dvd v"
    "mem_aligned_check (of_nat v) PDE_SIZE \<longleftrightarrow> 2 ^ 21 dvd v"
    by (simp_all only: mem_aligned_check_def low_mask_zero_iff unat_of_nat_u64 [OF assms])
qed

lemma next_boundary_props:
  "v < next_boundary n v" "2 ^ n dvd next_boundary n v"
  "next_boundary n v div 2 ^ n = v div 2 ^ n + 1" "next_boundary n v \<le> v + 2 ^ n"
proof -
  have "v = v div 2 ^ n * 2 ^ n + v mod 2 ^ n" "v mod 2 ^ n < 2 ^ n"
    by (simp_all only: div_mult_mod_eq mod_less_divisor) simp
  then show "v < next_boundary n v"
    unfolding next_boundary_def distrib_right by linarith
  show "2 ^ n dvd next_boundary n v" "next_boundary n v div 2 ^ n = v div 2 ^ n + 1"
    by (simp_all add: next_boundary_def)
  have "v div 2 ^ n * 2 ^ n \<le> v" by simp
  then show "next_boundary n v \<le> v + 2 ^ n"
    by (simp add: next_boundary_def)
qed

lemma less_next_boundary: "g < next_boundary n v \<longleftrightarrow> g div 2 ^ n \<le> v div 2 ^ n"
  by (simp add: next_boundary_def div_less_iff_less_mult less_Suc_eq_le [symmetric])

subsection \<open>The flat tables\<close>

definition PDPT_PAGE_NUM :: "nat \<Rightarrow> nat" where
  "PDPT_PAGE_NUM sz = (sz + 2 ^ 39 - 1) div 2 ^ 39"

definition PD_PAGE_NUM :: "nat \<Rightarrow> nat" where
  "PD_PAGE_NUM sz = (sz + 2 ^ 30 - 1) div 2 ^ 30"

definition PT_PAGE_NUM :: "nat \<Rightarrow> nat" where
  "PT_PAGE_NUM sz = (sz + 2 ^ 21 - 1) div 2 ^ 21"

primrec level_base :: "page_table_level \<Rightarrow> pgtable_pages_info \<Rightarrow> u64" where
  "level_base IA32E_PML4 = pml4_base"
| "level_base IA32E_PDPT = pdpt_base"
| "level_base IA32E_PD = pd_base"
| "level_base IA32E_PT = pt_base"

primrec level_shift :: "page_table_level \<Rightarrow> nat" where
  "level_shift IA32E_PML4 = 39"
| "level_shift IA32E_PDPT = 30"
| "level_shift IA32E_PD = 21"
| "level_shift IA32E_PT = 12"

primrec level_depth :: "page_table_level \<Rightarrow> nat" where
  "level_depth IA32E_PML4 = 0"
| "level_depth IA32E_PDPT = 1"
| "level_depth IA32E_PD = 2"
| "level_depth IA32E_PT = 3"

primrec next_level :: "page_table_level \<Rightarrow> page_table_level" where
  "next_level IA32E_PML4 = IA32E_PDPT"
| "next_level IA32E_PDPT = IA32E_PD"
| "next_level IA32E_PD = IA32E_PT"
| "next_level IA32E_PT = IA32E_PT"

text \<open>The number of static pages of a level, for an address space of \<open>lim\<close> bytes.\<close>

primrec level_pages :: "page_table_level \<Rightarrow> memory_ops \<Rightarrow> nat \<Rightarrow> nat" where
  "level_pages IA32E_PML4 = (\<lambda>ops lim. 1)"
| "level_pages IA32E_PDPT = (\<lambda>ops lim. PDPT_PAGE_NUM lim)"
| "level_pages IA32E_PD = (\<lambda>ops lim. PD_PAGE_NUM lim)"
| "level_pages IA32E_PT = (\<lambda>ops lim. if get_pt_page ops = None then 0 else PT_PAGE_NUM lim)"

definition slot :: "memory_ops \<Rightarrow> page_table_level \<Rightarrow> nat \<Rightarrow> u64" where
  "slot ops l i = level_base l (info ops) + 8 * of_nat i"

definition tab :: "memory_ops \<Rightarrow> pgst \<Rightarrow> page_table_level \<Rightarrow> nat \<Rightarrow> u64" where
  "tab ops s l i = pg_mem s (slot ops l i)"

definition present :: "memory_ops \<Rightarrow> u64 \<Rightarrow> bool" where
  "present ops e \<longleftrightarrow> pgentry_present ops e \<noteq> 0"

definition leaf_entry :: "page_table_level \<Rightarrow> u64 \<Rightarrow> bool" where
  "leaf_entry l e \<longleftrightarrow> l = IA32E_PT \<or> l \<noteq> IA32E_PML4 \<and> e AND PAGE_PS \<noteq> 0"

text \<open>
  The static arrays are page aligned, lie below MAXPHYADDR and do not overlap, and the address
  space fits the one PML4 page.
\<close>

definition pages_layout :: "memory_ops \<Rightarrow> nat \<Rightarrow> bool" where
  "pages_layout ops lim \<longleftrightarrow> lim \<le> 2 ^ 48 \<and>
     (\<forall>l. level_base l (info ops) AND mask 12 = 0 \<and>
          unat (level_base l (info ops)) + 4096 * level_pages l ops lim \<le> 2 ^ 39 \<and>
          (\<forall>l'. l' \<noteq> l \<longrightarrow>
             unat (level_base l (info ops)) + 4096 * level_pages l ops lim \<le> unat (level_base l' (info ops)) \<or>
             unat (level_base l' (info ops)) + 4096 * level_pages l' ops lim \<le> unat (level_base l (info ops))))"

abbreviation valid_slot :: "memory_ops \<Rightarrow> nat \<Rightarrow> page_table_level \<Rightarrow> nat \<Rightarrow> bool" where
  "valid_slot ops lim l i \<equiv> i < 512 * level_pages l ops lim"

text \<open>What an entry of a well-formed table may hold.\<close>

definition entry_ok :: "memory_ops \<Rightarrow> nat \<Rightarrow> page_table_level \<Rightarrow> nat \<Rightarrow> u64 \<Rightarrow> bool" where
  "entry_ok ops lim l i e \<longleftrightarrow>
     (if present ops e then
        if leaf_entry l e then e AND (mask 52 AND NOT (mask 39)) = 0
        else i < level_pages (next_level l) ops lim \<and>
             e AND (mask 39 AND NOT (mask 12)) =
               level_base (next_level l) (info ops) + 4096 * of_nat i
      else e AND PAGE_PS = 0)"

definition pgwf :: "memory_ops \<Rightarrow> nat \<Rightarrow> pgst \<Rightarrow> bool" where
  "pgwf ops lim s \<longleftrightarrow> pages_layout ops lim \<and> sanitized_page s AND mask 12 = 0 \<and>
     (\<forall>l i. valid_slot ops lim l i \<longrightarrow> entry_ok ops lim l i (tab ops s l i))"

text \<open>
  The page walk: the host address and the access rights (the bits of \<open>rmask\<close>) an address is
  translated to, starting from the table of a level.
\<close>

definition leaf :: "u64 \<Rightarrow> nat \<Rightarrow> nat \<Rightarrow> u64 \<Rightarrow> nat \<times> u64" where
  "leaf rmask k g e = (unat (e AND (mask 39 AND NOT (mask k))) + g mod 2 ^ k, e AND rmask)"

function tr :: "memory_ops \<Rightarrow> u64 \<Rightarrow> pgst \<Rightarrow> page_table_level \<Rightarrow> nat \<Rightarrow> (nat \<times> u64) option" where
  "tr ops rmask s IA32E_PT g =
     (let e = tab ops s IA32E_PT (g div 2 ^ 12)
      in if present ops e then Some (leaf rmask 12 g e) else None)"
| "tr ops rmask s IA32E_PD g =
     (let e = tab ops s IA32E_PD (g div 2 ^ 21)
      in if \<not> present ops e then None
         else if leaf_entry IA32E_PD e then Some (leaf rmask 21 g e) else tr ops rmask s IA32E_PT g)"
| "tr ops rmask s IA32E_PDPT g =
     (let e = tab ops s IA32E_PDPT (g div 2 ^ 30)
      in if \<not> present ops e then None
         else if leaf_entry IA32E_PDPT e then Some (leaf rmask 30 g e) else tr ops rmask s IA32E_PD g)"
| "tr ops rmask s IA32E_PML4 g =
     (let e = tab ops s IA32E_PML4 (g div 2 ^ 39)
      in if \<not> present ops e then None else tr ops rmask s IA32E_PDPT g)"
  by pat_completeness auto
termination
  by (relation "measure (\<lambda>(_, _, _, l, _). 3 - level_depth l)") simp_all

lemma tr_step:
  "tr ops rmask s l g =
     (let e = tab ops s l (g div 2 ^ level_shift l)
      in if \<not> present ops e then None
         else if leaf_entry l e then Some (leaf rmask (level_shift l) g e)
         else tr ops rmask s (next_level l) g)"
  by (cases l) (simp_all add: leaf_entry_def Let_def)

declare tr.simps [simp del]

lemma pgwfD:
  assumes "pgwf ops lim s"
  shows "pages_layout ops lim" "sanitized_page s AND mask 12 = 0"
    "valid_slot ops lim l i \<Longrightarrow> entry_ok ops lim l i (tab ops s l i)"
  using assms by (simp_all add: pgwf_def)

subsection \<open>Slots\<close>

lemma layout_base:
  assumes "pages_layout ops lim"
  shows "level_base l (info ops) AND mask 12 = 0"
    "unat (level_base l (info ops)) + 4096 * level_pages l ops lim \<le> 2 ^ 39"
    "4096 dvd unat (level_base l (info ops))" "lim \<le> 2 ^ 48"
  using assms by (auto simp: pages_layout_def low_mask_zero_iff)

lemma unat_slot:
  assumes "pages_layout ops lim" "valid_slot ops lim l i"
  shows "unat (slot ops l i) = unat (level_base l (info ops)) + 8 * i"
proof -
  have "slot ops l i = of_nat (unat (level_base l (info ops)) + 8 * i)"
    by (simp add: slot_def)
  moreover have "unat (level_base l (info ops)) + 8 * i < 2 ^ 64"
    using layout_base(2) [OF assms(1), of l] assms(2) by simp
  ultimately show ?thesis
    by (simp only: unat_of_nat_u64)
qed

lemma slot_inject:
  assumes lay: "pages_layout ops lim" and v: "valid_slot ops lim l i" "valid_slot ops lim l' j"
  shows "slot ops l i = slot ops l' j \<longleftrightarrow> l = l' \<and> i = j"
proof (cases "l = l'")
  case True
  then show ?thesis
    using v by (simp add: word_nat_eq unat_slot [OF lay])
next
  case False
  with lay have "unat (level_base l (info ops)) + 4096 * level_pages l ops lim \<le> unat (level_base l' (info ops)) \<or>
      unat (level_base l' (info ops)) + 4096 * level_pages l' ops lim \<le> unat (level_base l (info ops))"
    unfolding pages_layout_def by metis
  with v False show ?thesis
    by (auto simp: word_nat_eq unat_slot [OF lay])
qed

text \<open>A page of the array of a level, as the address of its first slot.\<close>

definition table_page :: "memory_ops \<Rightarrow> page_table_level \<Rightarrow> nat \<Rightarrow> u64" where
  "table_page ops l k = level_base l (info ops) + 4096 * of_nat k"

lemma entry_ptr_table_page: "entry_ptr (table_page ops l k) (of_nat i) = slot ops l (512 * k + i)"
  by (simp add: entry_ptr_def table_page_def slot_def algebra_simps)

lemma table_page_slot: "table_page ops l k = slot ops l (512 * k)"
  by (simp add: table_page_def slot_def)

lemma table_page_props:
  assumes lay: "pages_layout ops lim" and k: "k < level_pages l ops lim"
  shows "unat (table_page ops l k) = unat (level_base l (info ops)) + 4096 * k"
    "unat (table_page ops l k) < 2 ^ 39" "table_page ops l k AND mask 12 = 0"
proof -
  show u: "unat (table_page ops l k) = unat (level_base l (info ops)) + 4096 * k"
    using unat_slot [OF lay, where l = l and i = "512 * k"] k by (simp add: table_page_slot)
  then show "unat (table_page ops l k) < 2 ^ 39"
    using layout_base(2) [OF lay, of l] k by simp
  show "table_page ops l k AND mask 12 = 0"
    using layout_base(3) [OF lay, of l] by (simp add: low_mask_zero_iff u)
qed

lemma memset_page_tab:
  assumes lay: "pages_layout ops lim" and k: "k < level_pages l ops lim"
    and j: "valid_slot ops lim l' j"
  shows "tab ops (memset_page (table_page ops l k) s) l' j =
     (if l' = l \<and> j div 512 = k then 0 else tab ops s l' j)"
proof -
  let ?a = "slot ops l' j" and ?p = "table_page ops l k"
  note up = table_page_props(1,2) [OF lay k] and ua = unat_slot [OF lay, OF j]
  have sub: "?a - ?p < PAGE_SIZE \<longleftrightarrow> unat ?p \<le> unat ?a \<and> unat ?a < unat ?p + 4096"
  proof (cases "?p \<le> ?a")
    case True
    then show ?thesis
      by (auto simp: word_nat_order unat_diff_small PAGE_SIZE_def)
  next
    case False
    have "unat (?a - ?p) = 2 ^ 64 + unat ?a - unat ?p"
      using False by (simp add: unat_sub_if_size word_size word_le_nat_alt)
    then show ?thesis
      using up(2) False by (simp add: word_nat_order PAGE_SIZE_def)
  qed
  have "(unat ?p \<le> unat ?a \<and> unat ?a < unat ?p + 4096) \<longleftrightarrow> l' = l \<and> j div 512 = k"
  proof (cases "l' = l")
    case True
    then show ?thesis
      using ua by (auto simp: up(1))
  next
    case False
    with lay have "unat (level_base l (info ops)) + 4096 * level_pages l ops lim \<le> unat (level_base l' (info ops)) \<or>
      unat (level_base l' (info ops)) + 4096 * level_pages l' ops lim \<le> unat (level_base l (info ops))"
      unfolding pages_layout_def by metis
    with False j k show ?thesis
      by (auto simp: up(1) ua)
  qed
  then show ?thesis
    by (simp add: tab_def memset_page_def sub)
qed

subsection \<open>The interface of the page-table algorithms\<close>

text \<open>
  \<open>rmask\<close> is the set of entry bits that hold the access rights of a page and that the
  execute-right workaround (\<^verbatim>\<open>tweak_exe_right\<close>, \<^verbatim>\<open>recover_exe_right\<close>) leaves
  alone.
\<close>

locale paging =
  fixes ops :: memory_ops and rmask :: u64
  assumes pres_low: "pgentry_present ops e \<noteq> 0 \<longleftrightarrow> pgentry_present ops (e AND 7) \<noteq> 0"
    and pres_bit0: "bit e 0 \<Longrightarrow> pgentry_present ops e \<noteq> 0"
    and pres_mono: "pgentry_present ops e \<noteq> 0 \<Longrightarrow> pgentry_present ops (e OR x) \<noteq> 0"
    and pres_zero: "pgentry_present ops 0 = 0"
    and dar_low: "get_default_access_right ops AND 7 = get_default_access_right ops"
    and dar_bit0: "bit (get_default_access_right ops) 0"
    and flush_mem: "pg_mem (clflush_pagewalk ops p s) = pg_mem s"
    and flush_san: "sanitized_page (clflush_pagewalk ops p s) = sanitized_page s"
    and get_pdpt: "get_pdpt_page ops i g s =
          (pdpt_base i + 4096 * drop_bit 39 g, memset_page (pdpt_base i + 4096 * drop_bit 39 g) s)"
    and get_pd: "get_pd_page ops i g s =
          (pd_base i + 4096 * drop_bit 30 g, memset_page (pd_base i + 4096 * drop_bit 30 g) s)"
    and get_pt: "get_pt_page ops = Some f \<Longrightarrow> f i g s =
          (pt_base i + 4096 * drop_bit 21 g, memset_page (pt_base i + 4096 * drop_bit 21 g) s)"
    and tweak_other: "tweak_exe_right ops x AND NOT 4 = x AND NOT 4"
    and recover_other: "recover_exe_right ops x AND NOT 4 = x AND NOT 4"
    and tweak_rights: "tweak_exe_right ops x AND rmask = x AND rmask"
    and recover_rights: "recover_exe_right ops x AND rmask = x AND rmask"
    and recover_pres: "pgentry_present ops x \<noteq> 0 \<Longrightarrow> pgentry_present ops (recover_exe_right ops x) \<noteq> 0"
    and rmask_prot: "rmask AND (PDE_PROT_MASK AND NOT PAGE_PS) = rmask"
begin

lemma present_low: "present ops e \<longleftrightarrow> present ops (e AND 7)"
  unfolding present_def by (rule pres_low)

lemma present_cong: "a AND 7 = b AND 7 \<Longrightarrow> present ops a \<longleftrightarrow> present ops b"
  using present_low [of a] present_low [of b] by simp

lemma present_bit0: "bit e 0 \<Longrightarrow> present ops e"
  by (simp add: present_def pres_bit0)

lemma not_present_aligned: "e AND mask 12 = 0 \<Longrightarrow> \<not> present ops e"
  using present_low [of e] and_sub_zero [of e "mask 12" 7] pres_zero
  by (simp add: present_def mask_eq_exp_minus_1)

lemma tab_set_pgentry:
  assumes "pages_layout ops lim" "valid_slot ops lim l i" "valid_slot ops lim l' j"
  shows "tab ops (set_pgentry (slot ops l i) e ops s) l' j =
     (if l' = l \<and> j = i then e else tab ops s l' j)"
  using assms slot_inject [OF assms(1) assms(3) assms(2)]
  by (auto simp: tab_def set_pgentry_def flush_mem)

lemma san_set_pgentry [simp]: "sanitized_page (set_pgentry p e ops s) = sanitized_page s"
  by (simp add: set_pgentry_def flush_san)

lemma san_memset [simp]: "sanitized_page (memset_page p s) = sanitized_page s"
  by (simp add: memset_page_def)

text \<open>Filling a page entry by entry, as \<^verbatim>\<open>sanitize_pte\<close> and \<^verbatim>\<open>split_large_page\<close> do.\<close>

lemma fill_page_tab:
  assumes lay: "pages_layout ops lim" and k: "k < level_pages l ops lim" and n: "n \<le> 512"
  shows "valid_slot ops lim l' j \<Longrightarrow>
     tab ops (fold (\<lambda>i. set_pgentry (entry_ptr (table_page ops l k) (of_nat i)) (f i) ops) [0..<n] s) l' j =
       (if l' = l \<and> j div 512 = k \<and> j mod 512 < n then f (j mod 512) else tab ops s l' j)"
  using n
proof (induction n arbitrary: j)
  case 0
  then show ?case by simp
next
  case (Suc n)
  have v: "valid_slot ops lim l (512 * k + n)"
    using Suc.prems k by simp
  have "j = 512 * k + n \<longleftrightarrow> j div 512 = k \<and> j mod 512 = n"
    using Suc.prems(2) by auto
  with Suc show ?case
    by (auto simp: entry_ptr_table_page tab_set_pgentry [OF lay v])
qed

lemma fill_page_san:
  "sanitized_page (fold (\<lambda>i. set_pgentry (p i) (f i) ops) xs s) = sanitized_page s"
  by (induction xs arbitrary: s) simp_all

lemma sanitize_pte_fill:
  "sanitize_pte p ops s =
     fold (\<lambda>i. set_pgentry (entry_ptr p (of_nat i)) (sanitized_page s) ops) [0..<512] s"
proof -
  have "fold (\<lambda>i. sanitize_pte_entry (entry_ptr p (of_nat i)) ops) xs t =
      fold (\<lambda>i. set_pgentry (entry_ptr p (of_nat i)) (sanitized_page s) ops) xs t"
    if "sanitized_page t = sanitized_page s" for xs t
    using that
    by (induction xs arbitrary: t)
      (simp_all add: sanitize_pte_entry_def get_sanitized_page_def hva2hpa_def)
  then show ?thesis
    by (simp only: sanitize_pte_def)
qed

lemma split_fill_fill:
  "split_fill ops p r inc a s =
     fold (\<lambda>i. set_pgentry (entry_ptr p (of_nat i)) ((a + inc * of_nat i) OR r) ops) [0..<512] s"
proof -
  have "fold (\<lambda>i (a, s). (a + inc, set_pgentry (entry_ptr p (of_nat i)) (a OR r) ops s)) [0..<n] (a, s) =
      (a + inc * of_nat n,
       fold (\<lambda>i. set_pgentry (entry_ptr p (of_nat i)) ((a + inc * of_nat i) OR r) ops) [0..<n] s)" for n
    by (induction n) (simp_all add: algebra_simps)
  then show ?thesis
    by (simp only: split_fill_def) simp
qed

text \<open>The pages \<^verbatim>\<open>get_*_page\<close> hands out are the pages of the flat tables.\<close>

lemma get_pages:
  assumes "v < 2 ^ 64"
  shows "get_pdpt_page ops (info ops) (of_nat v) s =
      (table_page ops IA32E_PDPT (v div 2 ^ 39), memset_page (table_page ops IA32E_PDPT (v div 2 ^ 39)) s)"
    "get_pd_page ops (info ops) (of_nat v) s =
      (table_page ops IA32E_PD (v div 2 ^ 30), memset_page (table_page ops IA32E_PD (v div 2 ^ 30)) s)"
    "get_pt_page ops = Some f \<Longrightarrow> f (info ops) (of_nat v) s =
      (table_page ops IA32E_PT (v div 2 ^ 21), memset_page (table_page ops IA32E_PT (v div 2 ^ 21)) s)"
  by (simp_all only: get_pdpt get_pd get_pt of_nat_shiftr [OF assms] table_page_def level_base.simps)

end

end
