(* ===== verification/Acrn_Paging_Steps.thy ===== *)
theory Acrn_Paging_Steps
  imports Acrn_Paging
begin

text \<open>
  The steps the page-table algorithms are made of, seen through the abstract page walk: writing
  one entry, giving an entry a fresh table, and descending into the table of an entry.

  \<open>pg_update ops rmask lim l v ve F s s'\<close> says that \<open>s'\<close> is the well-formed result of changing,
  below level \<open>l\<close>, the translation of exactly the addresses in \<open>[v, ve)\<close> as \<open>F\<close> says, that no
  table above \<open>l\<close> changed and that nothing outside the page arrays was written.
\<close>

definition in_tables :: "memory_ops \<Rightarrow> nat \<Rightarrow> u64 \<Rightarrow> bool" where
  "in_tables ops lim a \<longleftrightarrow>
     (\<exists>l. unat (level_base l (info ops)) \<le> unat a \<and>
          unat a < unat (level_base l (info ops)) + 4096 * level_pages l ops lim)"

definition pg_frame :: "memory_ops \<Rightarrow> nat \<Rightarrow> pgst \<Rightarrow> pgst \<Rightarrow> bool" where
  "pg_frame ops lim s s' \<longleftrightarrow> sanitized_page s' = sanitized_page s \<and>
     (\<forall>a. \<not> in_tables ops lim a \<longrightarrow> pg_mem s' a = pg_mem s a)"

definition pg_update ::
  "memory_ops \<Rightarrow> u64 \<Rightarrow> nat \<Rightarrow> page_table_level \<Rightarrow> nat \<Rightarrow> nat \<Rightarrow>
   (nat \<Rightarrow> (nat \<times> u64) option \<Rightarrow> (nat \<times> u64) option) \<Rightarrow> pgst \<Rightarrow> pgst \<Rightarrow> bool" where
  "pg_update ops rmask lim l v ve F s s' \<longleftrightarrow> pgwf ops lim s' \<and> pg_frame ops lim s s' \<and>
     (\<forall>l' i. level_depth l' < level_depth l \<longrightarrow> valid_slot ops lim l' i \<longrightarrow>
        tab ops s' l' i = tab ops s l' i) \<and>
     (\<forall>g<lim. tr ops rmask s' l g =
        (if v \<le> g \<and> g < ve then F g (tr ops rmask s l g) else tr ops rmask s l g))"

lemma pg_frame_refl [simp]: "pg_frame ops lim s s"
  by (simp add: pg_frame_def)

lemma pg_frame_trans: "pg_frame ops lim s t \<Longrightarrow> pg_frame ops lim t u \<Longrightarrow> pg_frame ops lim s u"
  by (simp add: pg_frame_def)

lemma pg_update_refl: "pgwf ops lim s \<Longrightarrow> pg_update ops rmask lim l v v F s s"
  by (auto simp: pg_update_def)

lemma pg_update_trans:
  assumes "pg_update ops rmask lim l v m F s t" "pg_update ops rmask lim l m ve F t u"
    and "v \<le> m" "m \<le> ve"
  shows "pg_update ops rmask lim l v ve F s u"
  using assms unfolding pg_update_def by (auto intro: pg_frame_trans)

lemma pg_updateD:
  assumes "pg_update ops rmask lim l v ve F s s'"
  shows "pgwf ops lim s'" "pg_frame ops lim s s'"
    "level_depth l' < level_depth l \<Longrightarrow> valid_slot ops lim l' i \<Longrightarrow> tab ops s' l' i = tab ops s l' i"
    "g < lim \<Longrightarrow> tr ops rmask s' l g =
        (if v \<le> g \<and> g < ve then F g (tr ops rmask s l g) else tr ops rmask s l g)"
  using assms unfolding pg_update_def by auto

subsection \<open>Levels and indices\<close>

abbreviation level_index :: "page_table_level \<Rightarrow> nat \<Rightarrow> nat" where
  "level_index l g \<equiv> g div 2 ^ level_shift l"

lemma level_induct [case_names level]:
  "(\<And>l. (l \<noteq> IA32E_PT \<Longrightarrow> P (next_level l)) \<Longrightarrow> P l) \<Longrightarrow> P l"
  by (cases l) (metis next_level.simps page_table_level.distinct)+

lemma level_shift_next: "l \<noteq> IA32E_PT \<Longrightarrow> level_shift l = level_shift (next_level l) + 9"
  by (cases l) simp_all

lemma level_index_next: "l \<noteq> IA32E_PT \<Longrightarrow> level_index (next_level l) g div 512 = level_index l g"
  by (simp add: level_shift_next power_add div_mult2_eq)

lemma level_depth_next: "l \<noteq> IA32E_PT \<Longrightarrow> level_depth (next_level l) = Suc (level_depth l)"
  by (cases l) simp_all

lemma next_level_neq: "l \<noteq> IA32E_PT \<Longrightarrow> next_level l \<noteq> l"
  by (cases l) simp_all

lemma level_depth_eq: "level_depth l = level_depth l' \<longleftrightarrow> l = l'"
  by (cases l; cases l') simp_all

lemma div_512_less: "x div 512 < n \<Longrightarrow> x < 512 * n" for x n :: nat
  by simp

lemma valid_next:
  "l \<noteq> IA32E_PT \<Longrightarrow> level_index l g < level_pages (next_level l) ops lim \<Longrightarrow>
   valid_slot ops lim (next_level l) (level_index (next_level l) g)"
  by (rule div_512_less) (metis level_index_next)

lemma valid_index:
  assumes "pages_layout ops lim" "g < lim" "l \<noteq> IA32E_PT \<or> get_pt_page ops \<noteq> None"
  shows "valid_slot ops lim l (level_index l g)"
proof (cases l)
  case IA32E_PML4
  then show ?thesis
    using layout_base(4) [OF assms(1)] assms(2) by (simp add: div_less_iff_less_mult)
next
  case IA32E_PDPT
  have "g div 2 ^ 30 < 512 * ((lim + 2 ^ 39 - 1) div 2 ^ 39)"
    using assms(2) by simp
  then show ?thesis
    using IA32E_PDPT by (simp add: PDPT_PAGE_NUM_def)
next
  case IA32E_PD
  have "g div 2 ^ 21 < 512 * ((lim + 2 ^ 30 - 1) div 2 ^ 30)"
    using assms(2) by simp
  then show ?thesis
    using IA32E_PD by (simp add: PD_PAGE_NUM_def)
next
  case IA32E_PT
  have "g div 2 ^ 12 < 512 * ((lim + 2 ^ 21 - 1) div 2 ^ 21)"
    using assms(2) by simp
  then show ?thesis
    using IA32E_PT assms(3) by (simp add: PT_PAGE_NUM_def)
qed

lemma index_below_pages:
  assumes "g < lim" "l \<noteq> IA32E_PT" "l = IA32E_PD \<Longrightarrow> get_pt_page ops \<noteq> None"
  shows "level_index l g < level_pages (next_level l) ops lim"
  using assms by (cases l) (simp_all add: PDPT_PAGE_NUM_def PD_PAGE_NUM_def PT_PAGE_NUM_def)

lemma slot_in_tables:
  "pages_layout ops lim \<Longrightarrow> valid_slot ops lim l i \<Longrightarrow> in_tables ops lim (slot ops l i)"
  by (auto simp: in_tables_def unat_slot intro!: exI [of _ l])

subsection \<open>Addresses and rights in one entry\<close>

text \<open>The bits an entry may carry beside the address of a page.\<close>

definition prot_bits :: "u64 \<Rightarrow> bool" where
  "prot_bits r \<longleftrightarrow> r AND (mask 52 AND NOT (mask 12)) = 0"

lemma PROT_MASK_bits:
  "PDE_PROT_MASK = PDPTE_PROT_MASK" "PDE_PROT_MASK AND (mask 52 AND NOT (mask 12)) = 0"
  by (simp_all add: PDE_PROT_MASK_def PDPTE_PROT_MASK_def mask_eq_exp_minus_1)

lemma prot_bits_PROT_MASK: "m AND PDE_PROT_MASK = m \<Longrightarrow> prot_bits m"
  using arg_cong [of "m AND PDE_PROT_MASK" m "\<lambda>x. x AND (mask 52 AND NOT (mask 12))"]
  unfolding prot_bits_def and.assoc [of m] PROT_MASK_bits(2) and_zero_eq by metis

lemma addr_or_prot:
  fixes x r :: u64
  assumes x: "unat x < 2 ^ 39" "2 ^ n dvd unat x" and n: "12 \<le> n" and r: "prot_bits r"
  shows "(x OR r) AND (mask 39 AND NOT (mask n)) = x"
    "(x OR r) AND (mask 52 AND NOT (mask 39)) = 0"
    "m AND (mask 52 AND NOT (mask 12)) = 0 \<Longrightarrow> (x OR r) AND m = r AND m"
proof -
  have x39: "x AND mask 39 = x"
    using x(1) by (simp add: word_nat_eq unat_and_mask)
  have "x AND mask n = 0"
    using x(2) by (simp add: low_mask_zero_iff)
  then have "\<not> bit (x AND mask n) i" for i
    by simp
  moreover have "bit x i \<Longrightarrow> bit (x AND mask 39) i" for i
    by (simp add: x39)
  ultimately have xb: "n \<le> i \<and> i < 39" if "bit x i" for i
    using that bit_imp_possible_bit [OF that] by (fastforce simp: bit_simps)
  have "\<not> bit (r AND (mask 52 AND NOT (mask 12))) i" for i
    using r by (simp add: prot_bits_def)
  then have rb: "i < 12 \<or> 52 \<le> i" if "bit r i" for i
    using that bit_imp_possible_bit [OF that] by (fastforce simp: bit_simps)
  show "(x OR r) AND (mask 39 AND NOT (mask n)) = x"
    by (rule bit_eqI) (use n in \<open>auto simp: bit_simps not_less dest: xb rb\<close>)
  show "(x OR r) AND (mask 52 AND NOT (mask 39)) = 0"
    by (rule bit_eqI) (auto simp: bit_simps not_less dest: xb rb)
  assume "m AND (mask 52 AND NOT (mask 12)) = 0"
  then have nm: "\<not> bit (m AND (mask 52 AND NOT (mask 12))) i" for i
    by simp
  have "\<not> bit m i" if "12 \<le> i" "i < 52" for i
    using that nm [of i] by (simp add: bit_simps)
  moreover have "12 \<le> i \<and> i < 52" if "bit x i" for i
    using xb [OF that] n by simp
  ultimately show "(x OR r) AND m = r AND m"
    by (intro bit_eqI) (auto simp: bit_simps)
qed

lemma leaf_addr_or_prot:
  assumes "unat x < 2 ^ 39" "2 ^ n dvd unat x" "12 \<le> n" "prot_bits r" "prot_bits rmask"
  shows "leaf rmask n g (x OR r) = (unat x + g mod 2 ^ n, r AND rmask)"
  using addr_or_prot [OF assms(1-4)] assms(5) by (simp add: leaf_def prot_bits_def)

text \<open>Entry \<open>j\<close> of the table that replaces a large page says what the large page said.\<close>

lemma split_addr:
  fixes e :: u64
  assumes k: "k = k' + 9" "12 \<le> k'" "k \<le> 39" and j: "j < 512"
  defines "x \<equiv> (e AND (mask 39 AND NOT (mask k))) + of_nat (2 ^ k') * of_nat j"
  shows "unat x = unat (e AND (mask 39 AND NOT (mask k))) + 2 ^ k' * j"
    "unat x < 2 ^ 39" "2 ^ k' dvd unat x"
proof -
  let ?a = "e AND (mask 39 AND NOT (mask k))"
  have a: "unat ?a = unat e mod 2 ^ 39 div 2 ^ k * 2 ^ k"
    by (simp only: and.assoc [symmetric] unat_and_not_mask unat_and_mask)
  have p: "(2 :: nat) ^ 39 = 2 ^ (39 - k) * 2 ^ k"
    using k by (simp flip: power_add)
  have "unat e mod 2 ^ 39 div 2 ^ k < 2 ^ (39 - k)"
    by (subst div_less_iff_less_mult) (simp_all flip: p)
  then have "unat ?a + 2 ^ k \<le> 2 ^ 39"
    unfolding a p by (metis Suc_leI add.commute mult_Suc mult_le_mono1)
  moreover have "2 ^ k' * j < (2 :: nat) ^ k"
    using j k by (simp add: power_add)
  ultimately have b: "unat ?a + 2 ^ k' * j < 2 ^ 39"
    by linarith
  have "x = of_nat (unat ?a + 2 ^ k' * j)"
    by (simp add: x_def)
  with b show u: "unat x = unat ?a + 2 ^ k' * j"
    using unat_of_nat_u64 [of "unat ?a + 2 ^ k' * j"] by simp
  with b show "unat x < 2 ^ 39" by simp
  have "2 ^ k' dvd unat ?a"
    unfolding a by (simp add: k(1) power_add)
  then show "2 ^ k' dvd unat x"
    by (simp add: u)
qed

lemma mod_split: "g mod 2 ^ (k + 9) = 2 ^ k * (g div 2 ^ k mod 512) + g mod 2 ^ k" for g :: nat
  by (simp add: power_add mod_mult2_eq)

context paging
begin

lemma leaf_not_present_step:
  "\<not> present ops (tab ops s l (level_index l g)) \<Longrightarrow> tr ops rmask s l g = None"
  by (subst tr_step) simp

lemma tr_leaf:
  "present ops (tab ops s l (level_index l g)) \<Longrightarrow> leaf_entry l (tab ops s l (level_index l g)) \<Longrightarrow>
   tr ops rmask s l g = Some (leaf rmask (level_shift l) g (tab ops s l (level_index l g)))"
  by (subst tr_step) simp

lemma tr_table:
  "present ops (tab ops s l (level_index l g)) \<Longrightarrow> \<not> leaf_entry l (tab ops s l (level_index l g)) \<Longrightarrow>
   tr ops rmask s l g = tr ops rmask s (next_level l) g"
  by (subst tr_step) simp

lemma entry_ok_table:
  "entry_ok ops lim l i e \<Longrightarrow> present ops e \<Longrightarrow> \<not> leaf_entry l e \<Longrightarrow>
   l \<noteq> IA32E_PT \<and> i < level_pages (next_level l) ops lim \<and>
   e AND (mask 39 AND NOT (mask 12)) = table_page ops (next_level l) i"
  by (auto simp: entry_ok_def leaf_entry_def table_page_def)

text \<open>The walk reads valid slots only.\<close>

lemma tr_cong:
  assumes "pgwf ops lim s"
    and "\<And>l'. level_depth l \<le> level_depth l' \<Longrightarrow> valid_slot ops lim l' (level_index l' g) \<Longrightarrow>
           tab ops s' l' (level_index l' g) = tab ops s l' (level_index l' g)"
    and "valid_slot ops lim l (level_index l g)"
  shows "tr ops rmask s' l g = tr ops rmask s l g"
  using assms(2,3)
proof (induction l rule: level_induct)
  case (level l)
  let ?e = "tab ops s l (level_index l g)"
  have e: "tab ops s' l (level_index l g) = ?e"
    using level.prems by blast
  show ?case
  proof (cases "present ops ?e \<and> \<not> leaf_entry l ?e")
    case False
    then show ?thesis
      by (subst (1 2) tr_step) (auto simp: e Let_def)
  next
    case True
    then have t: "l \<noteq> IA32E_PT" "level_index l g < level_pages (next_level l) ops lim"
      using entry_ok_table pgwfD(3) [OF assms(1) level.prems(2)] by blast+
    then have "tr ops rmask s' (next_level l) g = tr ops rmask s (next_level l) g"
      using level.prems(1) valid_next [OF t] by (intro level.IH) (auto simp: level_depth_next)
    then show ?thesis
      using True e by (simp add: tr_table)
  qed
qed

lemma frame_set_pgentry:
  "pages_layout ops lim \<Longrightarrow> valid_slot ops lim l i \<Longrightarrow>
   pg_frame ops lim s (set_pgentry (slot ops l i) e ops s)"
  using slot_in_tables [of ops lim i l]
  by (auto simp: pg_frame_def set_pgentry_def flush_mem flush_san)

text \<open>Descending: what happens below one entry happens to the entry's addresses.\<close>

lemma pg_update_lift:
  assumes wf: "pgwf ops lim s" and up: "pg_update ops rmask lim (next_level l) v ve F s s'"
    and pt: "l \<noteq> IA32E_PT"
    and e: "present ops (tab ops s l i)" "\<not> leaf_entry l (tab ops s l i)"
    and rng: "\<And>g. v \<le> g \<Longrightarrow> g < ve \<Longrightarrow> level_index l g = i"
  shows "pg_update ops rmask lim l v ve F s s'"
proof -
  note d = pg_updateD [OF up] and lay = pgwfD(1) [OF wf]
  have "tr ops rmask s' l g = (if v \<le> g \<and> g < ve then F g (tr ops rmask s l g) else tr ops rmask s l g)"
    if g: "g < lim" for g
  proof -
    have v: "valid_slot ops lim l (level_index l g)"
      using valid_index [OF lay g] pt by blast
    have same: "tab ops s' l (level_index l g) = tab ops s l (level_index l g)"
      using d(3) [of l] v pt by (simp add: level_depth_next)
    show ?thesis
      using d(4) [OF g] rng [of g] e
      by (subst (1 2 3) tr_step) (auto simp: same Let_def)
  qed
  moreover have "tab ops s' l' j = tab ops s l' j"
    if "level_depth l' < level_depth l" "valid_slot ops lim l' j" for l' j
    using d(3) [of l' j] that pt by (simp add: level_depth_next)
  ultimately show ?thesis
    using d(1,2) by (auto simp: pg_update_def)
qed

text \<open>Writing one entry that does not refer to a table.\<close>

lemma pg_update_set:
  assumes wf: "pgwf ops lim s" and v: "valid_slot ops lim l i"
    and ok: "entry_ok ops lim l i e" and nt: "present ops e \<Longrightarrow> leaf_entry l e"
    and pt: "l \<noteq> IA32E_PT \<or> get_pt_page ops \<noteq> None"
    and F: "\<And>g. g < lim \<Longrightarrow> level_index l g = i \<Longrightarrow>
       F g (tr ops rmask s l g) =
         (if present ops e then Some (leaf rmask (level_shift l) g e) else None)"
    and rng: "\<And>g. level_index l g = i \<longleftrightarrow> v \<le> g \<and> g < ve"
  shows "pg_update ops rmask lim l v ve F s (set_pgentry (slot ops l i) e ops s)"
proof -
  let ?s = "set_pgentry (slot ops l i) e ops s"
  note lay = pgwfD(1) [OF wf]
  note tabs = tab_set_pgentry [OF lay v, of _ _ e s]
  have "tr ops rmask ?s l g = (if v \<le> g \<and> g < ve then F g (tr ops rmask s l g) else tr ops rmask s l g)"
    if g: "g < lim" for g
  proof (cases "level_index l g = i")
    case True
    then have "tab ops ?s l (level_index l g) = e"
      using tabs [OF valid_index [OF lay g pt]] by simp
    then have "tr ops rmask ?s l g =
        (if present ops e then Some (leaf rmask (level_shift l) g e) else None)"
      using nt by (subst tr_step) simp
    with True show ?thesis
      using rng [of g] F [OF g True] by simp
  next
    case False
    then have "tr ops rmask ?s l g = tr ops rmask s l g"
      using valid_index [OF lay g pt] by (intro tr_cong [OF wf]) (auto simp: tabs)
    with False rng [of g] show ?thesis by auto
  qed
  moreover have "pgwf ops lim ?s"
    using wf ok by (simp add: pgwf_def tabs)
  ultimately show ?thesis
    using frame_set_pgentry [OF lay v] by (auto simp: pg_update_def tabs)
qed

subsection \<open>Giving an entry a fresh table\<close>

lemma table_entry:
  assumes lay: "pages_layout ops lim" and k: "k < level_pages (next_level l) ops lim" and l: "l \<noteq> IA32E_PT"
  defines "e \<equiv> table_page ops (next_level l) k OR get_default_access_right ops"
  shows "present ops e" "\<not> leaf_entry l e" "entry_ok ops lim l k e"
proof -
  let ?p = "table_page ops (next_level l) k" and ?d = "get_default_access_right ops"
  note p = table_page_props(2,3) [OF lay k]
  have "bit e 0"
    by (simp add: e_def bit_simps dar_bit0)
  then show pres: "present ops e"
    by (rule present_bit0)
  have d: "?d AND m = 0" if "(7 :: u64) AND m = 0" for m
  proof -
    have "?d AND m = ?d AND (7 AND m)"
      by (subst dar_low [symmetric]) (simp add: and.assoc)
    with that show ?thesis by simp
  qed
  have "?p AND PAGE_PS = 0"
    by (rule and_sub_zero [OF p(2)]) (simp add: PAGE_PS_def mask_eq_exp_minus_1)
  then have "e AND PAGE_PS = 0"
    unfolding e_def by (rule and_or_zero) (simp add: d PAGE_PS_def)
  then show leaf: "\<not> leaf_entry l e"
    using l by (simp add: leaf_entry_def)
  have "?p AND mask 39 = ?p"
    using p(1) by (simp add: word_nat_eq unat_and_mask)
  moreover have "?p AND NOT (mask 12) = ?p"
    using word_split_mask [of ?p 12] p(2) by simp
  ultimately have "?p AND (mask 39 AND NOT (mask 12)) = ?p"
    by (simp flip: and.assoc)
  then have "e AND (mask 39 AND NOT (mask 12)) = ?p"
    unfolding e_def by (rule and_or_absorb) (simp add: d mask_eq_exp_minus_1)
  then show "entry_ok ops lim l k e"
    using pres leaf k by (simp add: entry_ok_def table_page_def)
qed

lemma frame_memset:
  assumes lay: "pages_layout ops lim" and k: "k < level_pages l ops lim"
  shows "pg_frame ops lim s (memset_page (table_page ops l k) s)"
proof -
  note up = table_page_props(1,2) [OF lay k]
  have "in_tables ops lim a" if "a - table_page ops l k < PAGE_SIZE" for a
  proof -
    have "unat (a - table_page ops l k) < 4096"
      using that by (simp add: word_less_nat_alt PAGE_SIZE_def)
    then have "unat (table_page ops l k + (a - table_page ops l k)) =
        unat (table_page ops l k) + unat (a - table_page ops l k)"
      using up(2) by (intro unat_add_small) simp
    then have "unat (table_page ops l k) \<le> unat a" "unat a < unat (table_page ops l k) + 4096"
      using \<open>unat (a - table_page ops l k) < 4096\<close> by simp_all
    with k show ?thesis
      by (auto simp: in_tables_def up(1) intro!: exI [of _ l])
  qed
  then show ?thesis
    by (auto simp: pg_frame_def memset_page_def)
qed

lemma frame_fill:
  assumes lay: "pages_layout ops lim" and k: "k < level_pages l ops lim" and n: "n \<le> 512"
  shows "pg_frame ops lim s
     (fold (\<lambda>i. set_pgentry (entry_ptr (table_page ops l k) (of_nat i)) (f i) ops) [0..<n] s)"
  using n
proof (induction n)
  case (Suc n)
  then have "valid_slot ops lim l (512 * k + n)"
    using k by simp
  with Suc show ?case
    by (auto simp: entry_ptr_table_page intro: pg_frame_trans frame_set_pgentry [OF lay])
qed simp

text \<open>
  A fresh table filled with leaves or non-present entries, hooked into entry \<open>i\<close>. Where the new
  table says what the old entry said, no translation changes.
\<close>

lemma new_table:
  assumes wf: "pgwf ops lim s" and l: "l \<noteq> IA32E_PT"
    and k: "i < level_pages (next_level l) ops lim" and v: "valid_slot ops lim l i"
    and s': "s' = set_pgentry (slot ops l i) (table_page ops (next_level l) i OR get_default_access_right ops) ops
       (fold (\<lambda>j. set_pgentry (entry_ptr (table_page ops (next_level l) i) (of_nat j)) (f j) ops) [0..<512]
          (memset_page (table_page ops (next_level l) i) s))"
    and ok: "\<And>j. j < 512 \<Longrightarrow> entry_ok ops lim (next_level l) (512 * i + j) (f j)"
    and nt: "\<And>j. j < 512 \<Longrightarrow> present ops (f j) \<Longrightarrow> leaf_entry (next_level l) (f j)"
    and H: "\<And>g e. g < lim \<Longrightarrow> level_index l g = i \<Longrightarrow> e = f (level_index (next_level l) g mod 512) \<Longrightarrow>
       tr ops rmask s l g =
         (if present ops e then Some (leaf rmask (level_shift (next_level l)) g e) else None)"
  shows "pg_update ops rmask lim l x x F s s'"
    and "tab ops s' l i = table_page ops (next_level l) i OR get_default_access_right ops"
proof -
  let ?n = "next_level l" and ?p = "table_page ops (next_level l) i"
  note lay = pgwfD(1) [OF wf] and n = next_level_neq [OF l]
  note te = table_entry [OF lay k l]
  have tabs: "tab ops s' l' j =
      (if l' = l \<and> j = i then ?p OR get_default_access_right ops
       else if l' = ?n \<and> j div 512 = i then f (j mod 512) else tab ops s l' j)"
    if "valid_slot ops lim l' j" for l' j
    using n
    by (simp only: s' tab_set_pgentry [OF lay v that] fill_page_tab [OF lay k order_refl that]
        memset_page_tab [OF lay k that]) auto
  then show i: "tab ops s' l i = ?p OR get_default_access_right ops"
    using v by simp
  have tr: "tr ops rmask s' l g = tr ops rmask s l g" if g: "g < lim" for g
  proof (cases "level_index l g = i")
    case True
    let ?e = "f (level_index ?n g mod 512)"
    have vn: "valid_slot ops lim ?n (level_index ?n g)"
      using valid_next [OF l, of g ops lim] k True by simp
    have "tr ops rmask s' l g = tr ops rmask s' ?n g"
      using te(1,2) i True by (simp add: tr_table)
    also have "tab ops s' ?n (level_index ?n g) = ?e"
      using tabs [OF vn] level_index_next [OF l, of g] True n by simp
    then have "tr ops rmask s' ?n g = (if present ops ?e then Some (leaf rmask (level_shift ?n) g ?e) else None)"
      using nt [of "level_index ?n g mod 512"] by (subst tr_step) simp
    also have "\<dots> = tr ops rmask s l g"
      using H [OF g True refl] by simp
    finally show ?thesis .
  next
    case False
    then show ?thesis
      using valid_index [OF lay g disjI1 [OF l]] level_index_next [OF l, of g]
      by (intro tr_cong [OF wf]) (auto simp: tabs)
  qed
  have "pgwf ops lim s'"
    unfolding pgwf_def
  proof (intro conjI allI impI)
    fix l' j assume vj: "valid_slot ops lim l' j"
    have "entry_ok ops lim ?n j (f (j mod 512))" if "j div 512 = i"
      using ok [of "j mod 512"] that by auto
    then show "entry_ok ops lim l' j (tab ops s' l' j)"
      using te(3) pgwfD(3) [OF wf vj] by (auto simp: tabs [OF vj])
  qed (use lay pgwfD(2) [OF wf] in \<open>simp_all add: s' fill_page_san\<close>)
  moreover have "pg_frame ops lim s s'"
    unfolding s'
    by (rule pg_frame_trans [OF pg_frame_trans [OF frame_memset [OF lay k] frame_fill [OF lay k order_refl]]
          frame_set_pgentry [OF lay v]])
  ultimately show "pg_update ops rmask lim l x x F s s'"
    using tr l by (auto simp: pg_update_def tabs level_depth_next)
qed

text \<open>\<^verbatim>\<open>construct_pgentry\<close> on a page from \<^verbatim>\<open>get_*_page\<close>: a table of non-present entries.\<close>

lemma construct_update:
  assumes wf: "pgwf ops lim s" and l: "l \<noteq> IA32E_PT"
    and k: "i < level_pages (next_level l) ops lim" and v: "valid_slot ops lim l i"
    and np: "\<not> present ops (tab ops s l i)"
    and s': "s' = construct_pgentry (slot ops l i) (table_page ops (next_level l) i)
       (get_default_access_right ops) ops (memset_page (table_page ops (next_level l) i) s)"
  shows "pg_update ops rmask lim l x x F s s'"
    and "tab ops s' l i = table_page ops (next_level l) i OR get_default_access_right ops"
proof -
  let ?f = "\<lambda>j :: nat. sanitized_page s"
  have san: "\<not> present ops (sanitized_page s)" "sanitized_page s AND PAGE_PS = 0"
    using not_present_aligned [OF pgwfD(2) [OF wf]] and_sub_zero [OF pgwfD(2) [OF wf], of PAGE_PS]
    by (simp_all add: PAGE_PS_def mask_eq_exp_minus_1)
  have eq: "s' = set_pgentry (slot ops l i) (table_page ops (next_level l) i OR get_default_access_right ops) ops
       (fold (\<lambda>j. set_pgentry (entry_ptr (table_page ops (next_level l) i) (of_nat j)) (?f j) ops) [0..<512]
          (memset_page (table_page ops (next_level l) i) s))"
    by (simp add: s' construct_pgentry_def sanitize_pte_fill hva2hpa_def)
  have H: "tr ops rmask s l g =
      (if present ops e then Some (leaf rmask (level_shift (next_level l)) g e) else None)"
    if "level_index l g = i" "e = ?f (level_index (next_level l) g mod 512)" for g e
    using that np san by (simp add: leaf_not_present_step)
  show "pg_update ops rmask lim l x x F s s'"
    by (rule new_table(1) [OF wf l k v eq _ _ H]) (use san in \<open>auto simp: entry_ok_def\<close>)
  show "tab ops s' l i = table_page ops (next_level l) i OR get_default_access_right ops"
    by (rule new_table(2) [OF wf l k v eq _ _ H]) (use san in \<open>auto simp: entry_ok_def\<close>)
qed

subsection \<open>Splitting a large page\<close>

lemma prot_bits_rmask: "prot_bits rmask"
  by (rule prot_bits_PROT_MASK) (rule and_absorb_both(1) [OF rmask_prot])

lemma and_rmask: "rmask AND m = rmask \<Longrightarrow> (e AND m) AND rmask = e AND rmask" for e m
  by (simp add: and.assoc and.commute [of m])

lemma prot_bits_and: "prot_bits (e AND PDE_PROT_MASK)"
  by (rule prot_bits_PROT_MASK) (simp add: and.assoc)

lemma prot_bits_recover: "prot_bits x \<Longrightarrow> prot_bits (recover_exe_right ops x)"
proof -
  assume x: "prot_bits x"
  have m: "NOT 4 AND (mask 52 AND NOT (mask 12)) = (mask 52 AND NOT (mask 12) :: u64)"
    by (simp add: mask_eq_exp_minus_1)
  have "(recover_exe_right ops x AND NOT 4) AND (mask 52 AND NOT (mask 12)) =
      (x AND NOT 4) AND (mask 52 AND NOT (mask 12))"
    by (simp only: recover_other)
  with x show ?thesis
    unfolding prot_bits_def and.assoc [of _ "NOT 4"] m by simp
qed

text \<open>The fields \<^verbatim>\<open>ref_prot\<close> of the new entries, for a 1-GByte and for a 2-MByte page.\<close>

definition split_prot :: "page_table_level \<Rightarrow> u64 \<Rightarrow> u64" where
  "split_prot l e = (if l = IA32E_PDPT then e AND PDPTE_PROT_MASK
                     else recover_exe_right ops ((e AND PDE_PROT_MASK) AND NOT PAGE_PS))"

lemma low7: "(x AND PDE_PROT_MASK) AND 7 = x AND 7" "((x AND PDE_PROT_MASK) AND NOT PAGE_PS) AND 7 = x AND 7"
proof -
  have "PDE_PROT_MASK AND 7 = 7" "NOT PAGE_PS AND 7 = 7"
    by (simp_all add: PDE_PROT_MASK_def PAGE_PS_def)
  then show "(x AND PDE_PROT_MASK) AND 7 = x AND 7" "((x AND PDE_PROT_MASK) AND NOT PAGE_PS) AND 7 = x AND 7"
    by (simp_all add: and.assoc)
qed

lemma split_prot_props:
  assumes "l = IA32E_PDPT \<or> l = IA32E_PD"
  shows "prot_bits (split_prot l e)" "split_prot l e AND rmask = e AND rmask"
    "present ops e \<Longrightarrow> present ops (split_prot l e)"
    "leaf_entry l e \<Longrightarrow> x AND PAGE_PS = 0 \<Longrightarrow> leaf_entry (next_level l) (x OR split_prot l e)"
proof -
  have r: "rmask AND PDE_PROT_MASK = rmask" "rmask AND NOT PAGE_PS = rmask"
    by (rule and_absorb_both [OF rmask_prot])+
  have "prot_bits ((e AND PDE_PROT_MASK) AND NOT PAGE_PS)"
    using prot_bits_and [of "e AND NOT PAGE_PS"] by (simp only: ac_simps)
  then show "prot_bits (split_prot l e)"
    using prot_bits_and by (simp add: split_prot_def prot_bits_recover flip: PROT_MASK_bits(1))
  show "split_prot l e AND rmask = e AND rmask"
    by (simp add: split_prot_def recover_rights and_rmask [OF r(2)] and_rmask [OF r(1)]
        flip: PROT_MASK_bits(1))
  show "present ops (split_prot l e)" if "present ops e"
    using that recover_pres present_cong [OF low7(1)] present_cong [OF low7(2)]
    by (simp add: split_prot_def present_def flip: PROT_MASK_bits(1))
  have "PDE_PROT_MASK AND PAGE_PS = PAGE_PS"
    by (simp add: PDE_PROT_MASK_def PAGE_PS_def)
  then have "(x OR (e AND PDPTE_PROT_MASK)) AND PAGE_PS = (x AND PAGE_PS) OR (e AND PAGE_PS)"
    by (simp add: bit.conj_disj_distrib2 and.assoc flip: PROT_MASK_bits(1))
  then show "leaf_entry (next_level l) (x OR split_prot l e)" if "leaf_entry l e" "x AND PAGE_PS = 0"
    using that assms by (auto simp: leaf_entry_def split_prot_def)
qed

lemma split_large_page_eq:
  assumes l: "l = IA32E_PDPT \<or> l = IA32E_PD \<and> get_pt_page ops \<noteq> None" and v: "v < 2 ^ 64"
    and e: "e = tab ops s l (level_index l v)"
  shows "split_large_page (slot ops l (level_index l v)) l (of_nat v) ops s =
    Some (set_pgentry (slot ops l (level_index l v))
       (table_page ops (next_level l) (level_index l v) OR get_default_access_right ops) ops
       (fold (\<lambda>j. set_pgentry (entry_ptr (table_page ops (next_level l) (level_index l v)) (of_nat j))
           (((e AND (mask 39 AND NOT (mask (level_shift l)))) + of_nat (2 ^ level_shift (next_level l)) * of_nat j)
             OR split_prot l e) ops) [0..<512]
          (memset_page (table_page ops (next_level l) (level_index l v)) s)))"
  using l
proof
  assume "l = IA32E_PDPT"
  then show ?thesis
    using get_pages(2) [OF v] e
    by (simp add: split_large_page_def split_fill_fill split_prot_def tab_def hva2hpa_def
        PDPTE_PADDR_MASK_def size_masks size_powers)
next
  assume "l = IA32E_PD \<and> get_pt_page ops \<noteq> None"
  then obtain f where "l = IA32E_PD" "get_pt_page ops = Some f" by blast
  then show ?thesis
    using get_pages(3) [OF v, of f] e
    by (simp add: split_large_page_def split_fill_fill split_prot_def tab_def hva2hpa_def
        PDE_PADDR_MASK_def size_masks size_powers)
qed

lemma split_update:
  assumes wf: "pgwf ops lim s" and l: "l = IA32E_PDPT \<or> l = IA32E_PD \<and> get_pt_page ops \<noteq> None"
    and v: "v < lim" and i: "i = level_index l v" and e: "e = tab ops s l i"
    and pres: "present ops e" and lf: "leaf_entry l e"
  obtains s' where "split_large_page (slot ops l i) l (of_nat v) ops s = Some s'"
    "\<And>x F. pg_update ops rmask lim l x x F s s'"
    "tab ops s' l i = table_page ops (next_level l) i OR get_default_access_right ops"
proof -
  let ?n = "next_level l" and ?k = "level_shift l" and ?k' = "level_shift (next_level l)"
  let ?x = "\<lambda>j. (e AND (mask 39 AND NOT (mask ?k))) + of_nat (2 ^ ?k') * of_nat j"
  let ?r = "split_prot l e"
  let ?f = "\<lambda>j. ?x j OR ?r"
  note lay = pgwfD(1) [OF wf]
  have l': "l = IA32E_PDPT \<or> l = IA32E_PD" "l \<noteq> IA32E_PT" "l = IA32E_PD \<Longrightarrow> get_pt_page ops \<noteq> None"
    using l by auto
  have k: "?k = ?k' + 9" "12 \<le> ?k'" "?k \<le> 39"
    using l' by auto
  have v64: "v < 2 ^ 64"
    using v layout_base(4) [OF lay] by simp
  have vl: "valid_slot ops lim l i"
    unfolding i by (rule valid_index [OF lay v disjI1 [OF l'(2)]])
  have kp: "i < level_pages ?n ops lim"
    unfolding i using index_below_pages [OF v l'(2), of ops] l'(3) by auto
  note r = split_prot_props [OF l'(1), of e]
  note x = split_addr [OF k, of _ e]
  have fj: "entry_ok ops lim ?n m (?f j) \<and> present ops (?f j) \<and> leaf_entry ?n (?f j)" if j: "j < 512" for j m
  proof -
    have "present ops (?f j)"
      using r(3) [OF pres] present_cong [OF addr_or_prot(3) [OF x(2,3) [OF j] k(2) r(1), of 7]]
      by (simp add: mask_eq_exp_minus_1)
    moreover have "?x j AND mask 12 = 0"
      using dvd_trans [OF le_imp_power_dvd [OF k(2)] x(3) [OF j]] by (simp add: low_mask_zero_iff)
    then have "?x j AND PAGE_PS = 0"
      by (rule and_sub_zero) (simp add: PAGE_PS_def mask_eq_exp_minus_1)
    then have "leaf_entry ?n (?f j)"
      by (rule r(4) [OF lf])
    ultimately show ?thesis
      using addr_or_prot(2) [OF x(2,3) [OF j] k(2) r(1)] by (simp add: entry_ok_def)
  qed
  have H: "tr ops rmask s l g = (if present ops e' then Some (leaf rmask ?k' g e') else None)"
    if g: "g < lim" "level_index l g = i" "e' = ?f (level_index ?n g mod 512)" for g e'
  proof -
    let ?j = "level_index ?n g mod 512"
    have j: "?j < 512" by simp
    have "tr ops rmask s l g = Some (leaf rmask ?k g e)"
      using tr_leaf [of s l g] pres lf e g(2) by simp
    also have "leaf rmask ?k g e = leaf rmask ?k' g (?f ?j)"
      using leaf_addr_or_prot [OF x(2,3) [OF j] k(2) r(1) prot_bits_rmask, of g] x(1) [OF j]
      by (simp add: leaf_def r(2) k(1) mod_split)
    finally show ?thesis
      using fj [OF j] g(3) by simp
  qed
  define s' where s': "s' = set_pgentry (slot ops l i) (table_page ops ?n i OR get_default_access_right ops) ops
       (fold (\<lambda>j. set_pgentry (entry_ptr (table_page ops ?n i) (of_nat j)) (?f j) ops) [0..<512]
          (memset_page (table_page ops ?n i) s))"
  show thesis
  proof
    show "split_large_page (slot ops l i) l (of_nat v) ops s = Some s'"
      unfolding s' i by (rule split_large_page_eq [OF l v64]) (simp add: e i)
    show "pg_update ops rmask lim l x x F s s'" for x F
      by (rule new_table(1) [OF wf l'(2) kp vl s' _ _ H]) (use fj in blast)+
    show "tab ops s' l i = table_page ops ?n i OR get_default_access_right ops"
      by (rule new_table(2) [OF wf l'(2) kp vl s' _ _ H]) (use fj in blast)+
  qed
qed

end

end
