(* ===== verification/Acrn_Mmu_Add.thy ===== *)
theory Acrn_Mmu_Add
  imports Acrn_Paging_Steps
begin

text \<open>
  \<^verbatim>\<open>mmu_add\<close> and its helpers implement the mapping of a range: for an unmapped range
  they return, translate every address of the range to its host address with the given rights and
  leave every other translation, and the memory outside the page arrays, as it was.
\<close>

subsection \<open>Positions within a table\<close>

lemma page_entry_index: "512 * (v div 2 ^ (n + 9)) + v div 2 ^ n mod 512 = v div 2 ^ n" for v :: nat
  by (simp add: power_add div_mult2_eq)

lemma aligned_span:
  fixes v g :: nat
  assumes "2 ^ n dvd v"
  shows "g div 2 ^ n = v div 2 ^ n \<longleftrightarrow> v \<le> g \<and> g < v + 2 ^ n"
proof -
  obtain c where c: "v = 2 ^ n * c"
    using assms by blast
  have "g div 2 ^ n = c \<longleftrightarrow> 2 ^ n * c \<le> g \<and> g < 2 ^ n * Suc c"
    by (auto simp: div_nat_eqI dividend_less_times_div)
  with c show ?thesis by (simp add: add.commute)
qed

lemma aligned_step:
  fixes v ve :: nat
  assumes "2 ^ n dvd v" "2 ^ n dvd ve" "v < ve"
  shows "v + 2 ^ n \<le> ve"
proof -
  have "2 ^ n dvd ve - v"
    using assms by (intro dvd_diff_nat) auto
  then have "2 ^ n \<le> ve - v"
    by (rule dvd_imp_le) (use assms in simp)
  with assms show ?thesis by simp
qed

lemma next_boundary_aligned: "2 ^ n dvd v \<Longrightarrow> next_boundary n v = v + 2 ^ n"
  by (auto simp: next_boundary_def)

lemma next_index:
  assumes "next_boundary n v < next_boundary (n + 9) v"
  shows "next_boundary n v div 2 ^ (n + 9) = v div 2 ^ (n + 9)"
    "next_boundary n v div 2 ^ n mod 512 = Suc (v div 2 ^ n mod 512)"
    "next_boundary (n + 9) (next_boundary n v) = next_boundary (n + 9) v"
proof -
  let ?w = "next_boundary n v"
  have "?w div 2 ^ (n + 9) \<le> v div 2 ^ (n + 9)"
    using assms by (simp only: less_next_boundary)
  moreover have "v div 2 ^ (n + 9) \<le> ?w div 2 ^ (n + 9)"
    by (rule div_le_mono) (simp add: less_imp_le next_boundary_props(1))
  ultimately show d: "?w div 2 ^ (n + 9) = v div 2 ^ (n + 9)"
    by simp
  then show "next_boundary (n + 9) ?w = next_boundary (n + 9) v"
    by (simp only: next_boundary_def)
  show "?w div 2 ^ n mod 512 = Suc (v div 2 ^ n mod 512)"
    using page_entry_index [of ?w n] page_entry_index [of v n] d next_boundary_props(3) [of n v]
    by simp
qed

text \<open>What a range mapped from \<open>v0\<close> to \<open>p0\<close> translates to.\<close>

definition map_range :: "nat \<Rightarrow> nat \<Rightarrow> u64 \<Rightarrow> nat \<Rightarrow> (nat \<times> u64) option \<Rightarrow> (nat \<times> u64) option" where
  "map_range p0 v0 r = (\<lambda>g _. Some (p0 + g - v0, r))"

text \<open>An entry with a table: the one it has, or a fresh one.\<close>

definition ensure_tab :: "memory_ops \<Rightarrow> page_table_level \<Rightarrow> nat \<Rightarrow> pgst \<Rightarrow> pgst" where
  "ensure_tab ops l i s =
     (if present ops (tab ops s l i) then s
      else construct_pgentry (slot ops l i) (table_page ops (next_level l) i)
             (get_default_access_right ops) ops (memset_page (table_page ops (next_level l) i) s))"

text \<open>
  The loops over one table, and over the PML4 table, visit the entries of a range one by one. It
  is enough that each turn updates the addresses of its entry.
\<close>

lemma range_loop:
  assumes step: "\<And>v x s. Q v x s \<Longrightarrow> v < ve \<Longrightarrow> pgwf ops lim s \<Longrightarrow>
      \<exists>s' x'. pg_update ops rmask lim l v (min (next_boundary n v) ve) F s s' \<and>
        loop v x s = (if ve \<le> next_boundary n v then Some s' else loop (next_boundary n v) x' s') \<and>
        (next_boundary n v < ve \<longrightarrow> Q (next_boundary n v) x' s')"
    and "Q v x s" "v < ve" "pgwf ops lim s"
  shows "\<exists>s'. loop v x s = Some s' \<and> pg_update ops rmask lim l v ve F s s'"
  using assms(2-)
proof (induction "ve - v" arbitrary: v x s rule: less_induct)
  case less
  let ?w = "next_boundary n v"
  obtain s1 x' where 1: "pg_update ops rmask lim l v (min ?w ve) F s s1"
    "loop v x s = (if ve \<le> ?w then Some s1 else loop ?w x' s1)" "?w < ve \<longrightarrow> Q ?w x' s1"
    using step [OF less.prems] by blast
  show ?case
  proof (cases "ve \<le> ?w")
    case True
    with 1 show ?thesis by (simp add: min_absorb2)
  next
    case False
    have "ve - ?w < ve - v"
      using less.prems(2) next_boundary_props(1) [of v n] by (intro diff_less_mono2)
    with False obtain s2 where "loop ?w x' s1 = Some s2" "pg_update ops rmask lim l ?w ve F s1 s2"
      using less.hyps [of ?w x' s1] 1 pg_updateD(1) [OF 1(1)] by auto
    with 1 False show ?thesis
      using pg_update_trans [of ops rmask lim l v ?w F s s1 ve s2] next_boundary_props(1) [of v n]
      by (auto simp: min_absorb1)
  qed
qed

context paging
begin

text \<open>A page table is only ever used with the rights of a present page.\<close>

definition prot_ok :: "u64 \<Rightarrow> bool" where
  "prot_ok prot \<longleftrightarrow> bit prot 0 \<and> prot_bits prot"

lemma prot_ok_tweak: "prot_ok prot \<Longrightarrow> prot_ok (tweak_exe_right ops prot)"
proof -
  assume p: "prot_ok prot"
  have t: "(tweak_exe_right ops prot AND NOT 4) AND m = (prot AND NOT 4) AND m" for m
    by (simp only: tweak_other)
  have m: "NOT 4 AND (mask 52 AND NOT (mask 12)) = (mask 52 AND NOT (mask 12) :: u64)"
    by (simp add: mask_eq_exp_minus_1)
  have "prot_bits (tweak_exe_right ops prot)"
    using t [of "mask 52 AND NOT (mask 12)"] p
    unfolding prot_ok_def prot_bits_def and.assoc [of _ "NOT 4"] m by simp
  moreover have "bit (tweak_exe_right ops prot AND NOT 4) 0 = bit (prot AND NOT 4) 0"
    by (simp only: tweak_other)
  then have "bit (tweak_exe_right ops prot) 0"
    using p by (simp add: prot_ok_def bit_simps)
  ultimately show ?thesis
    by (simp add: prot_ok_def)
qed

text \<open>Writing a leaf for the whole span of an entry.\<close>

lemma add_leaf:
  assumes wf: "pgwf ops lim s" and l: "l \<noteq> IA32E_PML4" "l \<noteq> IA32E_PT \<or> get_pt_page ops \<noteq> None"
    and v: "v < lim" "2 ^ level_shift l dvd v"
    and p: "2 ^ level_shift l dvd p" "p + 2 ^ level_shift l \<le> 2 ^ 39" "p0 + v = p + v0"
    and prot: "prot_ok prot" and e: "e = of_nat p OR (if l = IA32E_PT then prot else prot OR PAGE_PS)"
  shows "pg_update ops rmask lim l v (v + 2 ^ level_shift l) (map_range p0 v0 (prot AND rmask)) s
     (set_pgentry (slot ops l (level_index l v)) e ops s)"
proof (rule pg_update_set [OF wf])
  let ?r = "if l = IA32E_PT then prot else prot OR PAGE_PS"
  note lay = pgwfD(1) [OF wf]
  show "valid_slot ops lim l (level_index l v)"
    by (rule valid_index [OF lay v(1) l(2)])
  have n: "12 \<le> level_shift l"
    by (cases l) simp_all
  have "PAGE_PS AND (mask 52 AND NOT (mask 12)) = 0"
    by (simp add: PAGE_PS_def mask_eq_exp_minus_1)
  then have r: "prot_bits ?r"
    using prot and_or_zero [of prot _ PAGE_PS] by (simp add: prot_ok_def prot_bits_def)
  have "p < 2 ^ 39" "(2 :: nat) ^ 39 < 2 ^ 64"
    using p(2) less_le_trans [of p "p + 2 ^ level_shift l"] by simp_all
  then have u: "unat (of_nat p :: u64) = p"
    by (intro unat_of_nat_u64) (rule less_trans)
  then have x: "unat (of_nat p :: u64) < 2 ^ 39" "2 ^ level_shift l dvd unat (of_nat p :: u64)"
    using p(1) \<open>p < 2 ^ 39\<close> by simp_all
  have "bit e 0"
    using prot by (auto simp: e prot_ok_def bit_simps)
  then have pres: "present ops e"
    by (rule present_bit0)
  have "e AND PAGE_PS = ?r AND PAGE_PS"
    unfolding e by (rule addr_or_prot(3) [OF x n r]) (simp add: PAGE_PS_def mask_eq_exp_minus_1)
  moreover have "(prot OR PAGE_PS) AND PAGE_PS = PAGE_PS"
    by (rule bit_eqI) (auto simp: bit_simps)
  then have "(prot OR PAGE_PS) AND PAGE_PS \<noteq> 0"
    by (simp add: PAGE_PS_def)
  ultimately show lf: "leaf_entry l e"
    using l(1) by (auto simp: leaf_entry_def)
  show "entry_ok ops lim l (level_index l v) e"
    using pres lf addr_or_prot(2) [OF x n r] by (simp add: entry_ok_def e)
  have "PAGE_PS AND rmask = 0"
    by (rule and_not_absorb [OF and_absorb_both(2) [OF rmask_prot]])
  then have "?r AND rmask = prot AND rmask"
    by (simp add: bit.conj_disj_distrib2)
  then have "leaf rmask (level_shift l) g e = (p + g mod 2 ^ level_shift l, prot AND rmask)" for g
    using leaf_addr_or_prot [OF x n r prot_bits_rmask, of g] u by (simp add: e)
  moreover have "p + g mod 2 ^ level_shift l = p0 + g - v0" if "level_index l g = level_index l v" for g
    using that v(2) p(3) div_mult_mod_eq [of g "2 ^ level_shift l"] by auto
  ultimately show "map_range p0 v0 (prot AND rmask) g (tr ops rmask s l g) =
      (if present ops e then Some (leaf rmask (level_shift l) g e) else None)"
    if "level_index l g = level_index l v" for g
    using that pres by (simp add: map_range_def)
  show "level_index l g = level_index l v \<longleftrightarrow> v \<le> g \<and> g < v + 2 ^ level_shift l" for g
    by (rule aligned_span [OF v(2)])
qed (use l in auto)

subsection \<open>The loop over a page table\<close>

lemma tr_entry_not_present:
  assumes "tr ops rmask s l v = None" "leaf_entry l (tab ops s l (level_index l v)) \<or> l = IA32E_PT"
  shows "\<not> present ops (tab ops s l (level_index l v))"
  using assms by (subst (asm) tr_step) (auto simp: leaf_entry_def Let_def split: if_splits)

lemma add_pte_loop_update:
  assumes pt: "get_pt_page ops \<noteq> None" and prot: "prot_ok prot"
    and wf: "pgwf ops lim s" and v: "v < ve" "ve \<le> lim" "2 ^ 12 dvd v" "2 ^ 12 dvd ve"
    and ve: "ve \<le> next_boundary 21 v"
    and p: "2 ^ 12 dvd p" "p + (ve - v) \<le> 2 ^ 39" "p0 + v = p + v0"
    and free: "\<And>g. v \<le> g \<Longrightarrow> g < ve \<Longrightarrow> tr ops rmask s IA32E_PT g = None"
  shows "pg_update ops rmask lim IA32E_PT v ve (map_range p0 v0 (prot AND rmask)) s
     (add_pte_loop ops prot (of_nat ve) (table_page ops IA32E_PT (v div 2 ^ 21))
        (of_nat v) (of_nat p) (of_nat (v div 2 ^ 12 mod 512)) s)"
  using wf v ve p free
proof (induction "ve - v" arbitrary: v p s rule: less_induct)
  case less
  let ?F = "map_range p0 v0 (prot AND rmask)" and ?i = "v div 2 ^ 12"
  let ?s = "set_pgentry (slot ops IA32E_PT ?i) (of_nat p OR prot) ops s"
  note lay = pgwfD(1) [OF less.prems(1)] and a = aligned_step [OF less.prems(4,5,2)]
  have b: "ve < 2 ^ 64"
    using layout_base(4) [OF lay] less.prems(3) by simp
  have up: "pg_update ops rmask lim IA32E_PT v (v + 2 ^ 12) ?F s ?s"
    using add_leaf [of lim s IA32E_PT v p p0 v0 prot, OF less.prems(1)] less.prems pt prot a by simp
  have np: "pgentry_present ops (pg_mem s (slot ops IA32E_PT ?i)) = 0"
    using tr_entry_not_present [of s IA32E_PT v] less.prems(10) [of v] less.prems(2)
    by (simp add: present_def tab_def)
  have ptr: "entry_ptr (table_page ops IA32E_PT (v div 2 ^ 21)) (of_nat (?i mod 512)) = slot ops IA32E_PT ?i"
    unfolding entry_ptr_table_page using page_entry_index [of v 12] by simp
  have idx: "(of_nat (?i mod 512) :: u64) < PTRS_PER_PTE"
    unfolding PTRS_PER_PTE_def word_less_nat_alt by (subst unat_of_nat_u64) auto
  have next_v: "(of_nat v :: u64) + PTE_SIZE = of_nat (v + 2 ^ 12)"
    "(of_nat p :: u64) + PTE_SIZE = of_nat (p + 2 ^ 12)"
    by (simp_all only: size_powers of_nat_add)
  have unfold: "add_pte_loop ops prot (of_nat ve) (table_page ops IA32E_PT (v div 2 ^ 21))
        (of_nat v) (of_nat p) (of_nat (?i mod 512)) s =
      (if ve \<le> v + 2 ^ 12 then ?s
       else add_pte_loop ops prot (of_nat ve) (table_page ops IA32E_PT (v div 2 ^ 21))
              (of_nat (v + 2 ^ 12)) (of_nat (p + 2 ^ 12)) (of_nat (?i mod 512) + 1) ?s)"
    by (subst add_pte_loop.simps)
      (use b a in \<open>simp only: ptr idx np Let_def next_v of_nat_u64_le simp_thms if_True if_False\<close>)
  show ?case
  proof (cases "ve \<le> v + 2 ^ 12")
    case True
    with a up unfold show ?thesis by simp
  next
    case False
    have nb: "next_boundary 12 v = v + 2 ^ 12"
      by (rule next_boundary_aligned [OF less.prems(4)])
    have nx: "(v + 2 ^ 12) div 2 ^ 21 = v div 2 ^ 21" "(v + 2 ^ 12) div 2 ^ 12 mod 512 = Suc (?i mod 512)"
      "next_boundary 21 (v + 2 ^ 12) = next_boundary 21 v"
      using next_index [of 12 v] False less.prems(6) by (simp_all add: nb)
    note d = pg_updateD [OF up]
    have "pg_update ops rmask lim IA32E_PT (v + 2 ^ 12) ve ?F ?s
       (add_pte_loop ops prot (of_nat ve) (table_page ops IA32E_PT ((v + 2 ^ 12) div 2 ^ 21))
          (of_nat (v + 2 ^ 12)) (of_nat (p + 2 ^ 12)) (of_nat ((v + 2 ^ 12) div 2 ^ 12 mod 512)) ?s)"
      using less.prems False d(1) d(4) nx(3) a by (intro less.hyps) (simp_all add: dvd_add)
    with up False show ?thesis
      unfolding unfold nx using a by (auto intro: pg_update_trans simp: add.commute)
  qed
qed

subsection \<open>Entering the table of an entry\<close>

lemma page_vaddr_eq:
  "pml4e_page_vaddr e = e AND (mask 39 AND NOT (mask 12))"
  "pdpte_page_vaddr e = e AND (mask 39 AND NOT (mask 12))"
  "pde_page_vaddr e = e AND (mask 39 AND NOT (mask 12))"
  by (simp_all add: pml4e_page_vaddr_def pdpte_page_vaddr_def pde_page_vaddr_def hpa2hva_def
      PML4E_PFN_MASK_def PDPTE_PFN_MASK_def PDE_PFN_MASK_def size_masks)

text \<open>The table of an entry that has one; in \<open>ensure_table\<close>, after it was given one if needed.\<close>

lemma table_of_entry:
  assumes "pgwf ops lim s" "v < lim" "l \<noteq> IA32E_PT"
    and "present ops (tab ops s l (level_index l v))" "\<not> leaf_entry l (tab ops s l (level_index l v))"
  shows "tab ops s l (level_index l v) AND (mask 39 AND NOT (mask 12)) =
      table_page ops (next_level l) (level_index l v)"
    "level_index l v < level_pages (next_level l) ops lim"
  using entry_ok_table [OF pgwfD(3) [OF assms(1) valid_index [OF pgwfD(1) [OF assms(1)] assms(2)
          disjI1 [OF assms(3)]]] assms(4,5)] by blast+

lemma ensure_table:
  assumes wf: "pgwf ops lim s" and v: "v < lim" and l: "l \<noteq> IA32E_PT"
    and i: "i = level_index l v" and nl: "present ops (tab ops s l i) \<Longrightarrow> \<not> leaf_entry l (tab ops s l i)"
    and pt: "l = IA32E_PD \<Longrightarrow> get_pt_page ops \<noteq> None"
    and s1: "s1 = ensure_tab ops l i s"
  shows "pg_update ops rmask lim l x x F s s1"
    "present ops (tab ops s1 l i)" "\<not> leaf_entry l (tab ops s1 l i)"
    "tab ops s1 l i AND (mask 39 AND NOT (mask 12)) = table_page ops (next_level l) i"
    "g < lim \<Longrightarrow> level_index l g = i \<Longrightarrow> tr ops rmask s1 (next_level l) g = tr ops rmask s l g"
proof -
  note lay = pgwfD(1) [OF wf]
  have k: "i < level_pages (next_level l) ops lim"
    unfolding i using index_below_pages [OF v l, of ops] pt by blast
  have vl: "valid_slot ops lim l i"
    unfolding i by (rule valid_index [OF lay v disjI1 [OF l]])
  note te = table_entry [OF lay k l]
  show up: "pg_update ops rmask lim l x x F s s1" for x F
    using construct_update(1) [OF wf l k vl _ refl] pg_update_refl [OF wf] by (simp add: s1 ensure_tab_def)
  show pres: "present ops (tab ops s1 l i)" and lf: "\<not> leaf_entry l (tab ops s1 l i)"
    using construct_update(2) [OF wf l k vl _ refl] nl te(1,2) by (simp_all add: s1 ensure_tab_def)
  note d = pg_updateD [OF up]
  show "tab ops s1 l i AND (mask 39 AND NOT (mask 12)) = table_page ops (next_level l) i"
    using table_of_entry(1) [OF d(1) v l] pres lf by (simp add: i)
  show "tr ops rmask s1 (next_level l) g = tr ops rmask s l g" if g: "g < lim" "level_index l g = i"
    using tr_table [of s1 l g] pres lf g(2) d(4) [OF g(1), of _ "\<lambda>_ x. x"] by simp
qed

lemma descend_update:
  assumes wf: "pgwf ops lim s1" and up: "pg_update ops rmask lim l v v F s s1"
    and e: "present ops (tab ops s1 l i)" "\<not> leaf_entry l (tab ops s1 l i)" and l: "l \<noteq> IA32E_PT"
    and down: "pg_update ops rmask lim (next_level l) v w F s1 s2" and w: "v \<le> w"
    and rng: "\<And>g. v \<le> g \<Longrightarrow> g < w \<Longrightarrow> level_index l g = i"
  shows "pg_update ops rmask lim l v w F s s2"
  by (rule pg_update_trans [OF up pg_update_lift [OF wf down l e rng] order_refl w])

lemma index_in_span:
  "v \<le> g \<Longrightarrow> g < min (next_boundary n v) ve \<Longrightarrow> g div 2 ^ n = v div 2 ^ n"
  using div_le_mono [of v g "2 ^ n"] by (auto simp: less_next_boundary)

lemma min_boundary: "v < ve \<Longrightarrow> v < min (next_boundary n v) ve"
  by (simp add: next_boundary_props(1))

lemma dvd_min_boundary: "k \<le> n \<Longrightarrow> 2 ^ k dvd ve \<Longrightarrow> 2 ^ k dvd min (next_boundary n v) ve"
  using dvd_trans [OF le_imp_power_dvd next_boundary_props(2), of k n v] by (simp add: min_def)

lemma if_min: "(if (of_nat a :: u64) < of_nat b then of_nat a else of_nat b :: u64) = of_nat (min a b)"
  if "a < 2 ^ 64" "b < 2 ^ 64" for a b
  using that by (auto simp: of_nat_u64_less min_def)

subsection \<open>The loop over a page directory\<close>

lemma add_pte_below:
  assumes wf: "pgwf ops lim s" and v: "v < ve" "ve \<le> lim" "2 ^ 12 dvd v" "2 ^ 12 dvd ve"
    and p: "2 ^ 12 dvd p" "p + (ve - v) \<le> 2 ^ 39" "p0 + v = p + v0"
    and prot: "prot_ok prot" and ve: "ve \<le> next_boundary 21 v"
    and e: "tab ops s IA32E_PD (v div 2 ^ 21) AND (mask 39 AND NOT (mask 12)) =
        table_page ops IA32E_PT (v div 2 ^ 21)"
    and pt: "get_pt_page ops \<noteq> None"
    and free: "\<And>g. v \<le> g \<Longrightarrow> g < ve \<Longrightarrow> tr ops rmask s IA32E_PT g = None"
  shows "pg_update ops rmask lim IA32E_PT v ve (map_range p0 v0 (prot AND rmask)) s
     (add_pte (slot ops IA32E_PD (v div 2 ^ 21)) (of_nat p) (of_nat v) (of_nat ve) prot ops s)"
proof -
  have "v < 2 ^ 64"
    using layout_base(4) [OF pgwfD(1) [OF wf]] v by simp
  then show ?thesis
    using add_pte_loop_update [OF pt prot wf v ve p free] e
    by (simp add: add_pte_def page_vaddr_eq index_of_nat tab_def)
qed

text \<open>
  Without page-table pages (the hypervisor's own structures) a range can only be mapped by large
  pages.
\<close>

definition large_only_ok :: "nat \<Rightarrow> nat \<Rightarrow> nat \<Rightarrow> bool" where
  "large_only_ok v ve p \<longleftrightarrow> get_pt_page ops \<noteq> None \<or>
     large_page_enabled ops \<and> 2 ^ 21 dvd v \<and> 2 ^ 21 dvd ve \<and> 2 ^ 21 dvd p"

lemma no_large_entry:
  assumes wf: "pgwf ops lim s" and v: "v < lim" and l: "l \<noteq> IA32E_PML4" "l \<noteq> IA32E_PT"
    and free: "tr ops rmask s l v = None"
  shows "tab ops s l (level_index l v) AND PAGE_PS = 0"
    "\<not> leaf_entry l (tab ops s l (level_index l v))"
proof -
  let ?e = "tab ops s l (level_index l v)"
  have ok: "entry_ok ops lim l (level_index l v) ?e"
    by (rule pgwfD(3) [OF wf valid_index [OF pgwfD(1) [OF wf] v disjI1 [OF l(2)]]])
  show "?e AND PAGE_PS = 0"
  proof (rule ccontr)
    assume "?e AND PAGE_PS \<noteq> 0"
    then have "leaf_entry l ?e"
      using l by (simp add: leaf_entry_def)
    then have "\<not> present ops ?e"
      using tr_entry_not_present free by blast
    with ok \<open>?e AND PAGE_PS \<noteq> 0\<close> show False
      by (simp add: entry_ok_def)
  qed
  then show "\<not> leaf_entry l ?e"
    using l by (simp add: leaf_entry_def)
qed

text \<open>
  One turn of the loop over a page directory or a page-directory-pointer table: a large page where
  it fits, otherwise \<open>low\<close> maps the range in the table of the entry.
\<close>

definition add_entry ::
  "page_table_level \<Rightarrow> (pgst \<Rightarrow> pgst option) \<Rightarrow> nat \<Rightarrow> nat \<Rightarrow> nat \<Rightarrow> u64 \<Rightarrow> pgst \<Rightarrow> (u64 \<times> pgst) option" where
  "add_entry l low v p ve prot s =
     (let i = level_index l v in
      if \<not> present ops (tab ops s l i) \<and> large_page_enabled ops \<and>
         2 ^ level_shift l dvd p \<and> 2 ^ level_shift l dvd v \<and> next_boundary (level_shift l) v \<le> ve
      then Some (tweak_exe_right ops prot,
             set_pgentry (slot ops l i) (of_nat p OR (tweak_exe_right ops prot OR PAGE_PS)) ops s)
      else map_option (Pair prot) (low (ensure_tab ops l i s)))"

text \<open>What the mapping loops maintain: the rest \<open>[v, ve)\<close> of the range is still unmapped.\<close>

definition add_inv ::
  "nat \<Rightarrow> page_table_level \<Rightarrow> nat \<Rightarrow> nat \<Rightarrow> nat \<Rightarrow> u64 \<Rightarrow> nat \<Rightarrow> nat \<Rightarrow> u64 \<Rightarrow> pgst \<Rightarrow> bool" where
  "add_inv lim l ve p0 v0 r v p prot s \<longleftrightarrow> ve \<le> lim \<and> 2 ^ 12 dvd v \<and> 2 ^ 12 dvd ve \<and> 2 ^ 12 dvd p \<and>
     p + (ve - v) \<le> 2 ^ 39 \<and> p0 + v = p + v0 \<and> prot_ok prot \<and> prot AND rmask = r \<and>
     large_only_ok v ve p \<and> (\<forall>g. v \<le> g \<and> g < ve \<longrightarrow> tr ops rmask s l g = None)"

lemma add_invD:
  assumes "add_inv lim l ve p0 v0 r v p prot s"
  shows "ve \<le> lim" "2 ^ 12 dvd v" "2 ^ 12 dvd ve" "2 ^ 12 dvd p" "p + (ve - v) \<le> 2 ^ 39"
    "p0 + v = p + v0" "prot_ok prot" "prot AND rmask = r" "large_only_ok v ve p"
    "v \<le> g \<Longrightarrow> g < ve \<Longrightarrow> tr ops rmask s l g = None"
  using assms by (auto simp: add_inv_def)

lemma large_only_split:
  assumes "large_only_ok v ve p" "v < ve" "21 \<le> n"
  shows "large_only_ok v (min (next_boundary n v) ve) p"
    "next_boundary n v < ve \<Longrightarrow> large_only_ok (next_boundary n v) ve (p + (next_boundary n v - v))"
proof -
  have d: "2 ^ 21 dvd next_boundary n v"
    by (rule dvd_trans [OF le_imp_power_dvd [OF assms(3)] next_boundary_props(2)])
  show "large_only_ok v (min (next_boundary n v) ve) p"
    using assms(1) d by (auto simp: large_only_ok_def min_def)
  show "large_only_ok (next_boundary n v) ve (p + (next_boundary n v - v))"
    using assms(1) d next_boundary_props(1) [of v n]
    by (auto simp: large_only_ok_def intro!: dvd_add dvd_diff_nat)
qed

text \<open>The rest of the range, after a turn.\<close>

lemma add_inv_next:
  assumes inv: "add_inv lim l ve p0 v0 r v p prot s" and n: "21 \<le> n"
    and up: "pg_update ops rmask lim l v (min (next_boundary n v) ve) F s s'"
    and prot': "prot_ok prot'" "prot' AND rmask = r" and w: "next_boundary n v < ve"
  shows "add_inv lim l ve p0 v0 r (next_boundary n v) (p + (next_boundary n v - v)) prot' s'"
proof -
  note i = add_invD [OF inv] and wv = next_boundary_props(1) [of v n]
  have d: "2 ^ 12 dvd next_boundary n v"
    by (rule dvd_trans [OF le_imp_power_dvd next_boundary_props(2)]) (use n in simp)
  have "tr ops rmask s' l g = None" if "next_boundary n v \<le> g" "g < ve" for g
    using pg_updateD(4) [OF up, of g] i(10) [of g] that i(1) wv by simp
  moreover have "2 ^ 12 dvd p + (next_boundary n v - v)"
    using i(2,4) d wv by (intro dvd_add dvd_diff_nat) auto
  ultimately show ?thesis
    using i d prot' large_only_split(2) [OF i(9) _ n w] wv w by (simp add: add_inv_def)
qed

text \<open>The part of the range that lies in the table of the entry.\<close>

lemma add_inv_below:
  assumes inv: "add_inv lim l ve p0 v0 r v p prot s" and n: "21 \<le> level_shift l" and v: "v < ve"
    and s1: "\<And>g. g < lim \<Longrightarrow> level_index l g = level_index l v \<Longrightarrow>
       tr ops rmask s1 (next_level l) g = tr ops rmask s l g"
  shows "add_inv lim (next_level l) (min (next_boundary (level_shift l) v) ve) p0 v0 r v p prot s1"
proof -
  let ?w = "next_boundary (level_shift l) v"
  note i = add_invD [OF inv] and wv = next_boundary_props(1) [of v "level_shift l"]
  have "tr ops rmask s1 (next_level l) g = None" if "v \<le> g" "g < min ?w ve" for g
    using s1 [of g] index_in_span [OF that] i(1) i(10) [of g] that by simp
  moreover have "2 ^ 12 dvd min ?w ve"
    using n i(3) by (intro dvd_min_boundary) simp_all
  ultimately show ?thesis
    using i large_only_split(1) [OF i(9) v n] v wv unfolding add_inv_def by auto
qed

lemma needs_pt_page:
  assumes wf: "pgwf ops lim s" and inv: "add_inv lim IA32E_PD ve p0 v0 r v p prot s" and v: "v < ve"
    and small: "\<not> (\<not> present ops (tab ops s IA32E_PD (v div 2 ^ 21)) \<and> large_page_enabled ops \<and>
       2 ^ 21 dvd p \<and> 2 ^ 21 dvd v \<and> next_boundary 21 v \<le> ve)"
  shows "get_pt_page ops \<noteq> None"
proof
  assume none: "get_pt_page ops = None"
  note i = add_invD [OF inv]
  have vl: "v < lim"
    using i(1) v by simp
  have "\<not> leaf_entry IA32E_PD (tab ops s IA32E_PD (v div 2 ^ 21))"
    using no_large_entry(2) [OF wf vl, of IA32E_PD] i(10) [of v] v by simp
  then have "\<not> present ops (tab ops s IA32E_PD (v div 2 ^ 21))"
    using table_of_entry(2) [OF wf vl, of IA32E_PD] none by auto
  moreover have "2 ^ 21 dvd v" "2 ^ 21 dvd ve" "2 ^ 21 dvd p" "large_page_enabled ops"
    using none i(9) by (simp_all add: large_only_ok_def)
  ultimately show False
    using small aligned_step [of 21 v ve] v next_boundary_aligned [of 21 v] by simp
qed

lemma add_entry_update:
  assumes wf: "pgwf ops lim s" and inv: "add_inv lim l ve p0 v0 r v p prot s" and v: "v < ve"
    and l: "l = IA32E_PDPT \<or> l = IA32E_PD"
    and low: "\<And>s1. pgwf ops lim s1 \<Longrightarrow>
       add_inv lim (next_level l) (min (next_boundary (level_shift l) v) ve) p0 v0 r v p prot s1 \<Longrightarrow>
       tab ops s1 l (level_index l v) AND (mask 39 AND NOT (mask 12)) =
         table_page ops (next_level l) (level_index l v) \<Longrightarrow>
       l = IA32E_PD \<longrightarrow> get_pt_page ops \<noteq> None \<Longrightarrow>
       \<exists>s2. low s1 = Some s2 \<and>
         pg_update ops rmask lim (next_level l) v (min (next_boundary (level_shift l) v) ve)
           (map_range p0 v0 r) s1 s2"
  obtains prot' s' where "add_entry l low v p ve prot s = Some (prot', s')"
    "prot_ok prot'" "prot' AND rmask = r"
    "pg_update ops rmask lim l v (min (next_boundary (level_shift l) v) ve) (map_range p0 v0 r) s s'"
proof -
  let ?i = "level_index l v" and ?w = "next_boundary (level_shift l) v"
  note i = add_invD [OF inv] and tw = prot_ok_tweak [OF i(7)]
  have l': "l \<noteq> IA32E_PML4" "l \<noteq> IA32E_PT" "21 \<le> level_shift l" and vl: "v < lim"
    using l i(1) v by auto
  show thesis
  proof (cases "\<not> present ops (tab ops s l ?i) \<and> large_page_enabled ops \<and>
         2 ^ level_shift l dvd p \<and> 2 ^ level_shift l dvd v \<and> ?w \<le> ve")
    case True
    then have w: "?w = v + 2 ^ level_shift l"
      by (intro next_boundary_aligned) simp
    then have p: "p + 2 ^ level_shift l \<le> 2 ^ 39"
      using True i(5) by linarith
    have "min ?w ve = v + 2 ^ level_shift l"
      using True w by simp
    then show thesis
      using that [of "tweak_exe_right ops prot"] True tw i(8) l'
        add_leaf [OF wf l'(1) disjI1 [OF l'(2)] vl _ _ p i(6) tw refl]
      by (simp add: add_entry_def Let_def tweak_rights)
  next
    case False
    have pt: "l = IA32E_PD \<longrightarrow> get_pt_page ops \<noteq> None"
      using needs_pt_page [OF wf, of ve p0 v0 r v p prot] inv v False by auto
    note nl = no_large_entry(2) [OF wf vl l'(1,2) i(10) [OF order_refl v]]
    note et = ensure_table [OF wf vl l'(2) refl nl _ refl]
    let ?s1 = "ensure_tab ops l ?i s"
    have up: "pg_update ops rmask lim l x x F s ?s1" for x F
      using et(1) pt by blast
    note wf1 = pg_updateD(1) [OF up]
    have "add_inv lim (next_level l) (min ?w ve) p0 v0 r v p prot ?s1"
      by (rule add_inv_below [OF inv l'(3) v]) (use et(5) pt in blast)
    then obtain s2 where s2: "low ?s1 = Some s2"
        "pg_update ops rmask lim (next_level l) v (min ?w ve) (map_range p0 v0 r) ?s1 s2"
      using low [OF wf1] et(4) pt by blast
    have "pg_update ops rmask lim l v (min ?w ve) (map_range p0 v0 r) s s2"
      by (rule descend_update [OF wf1 up _ _ l'(2) s2(2)])
        (use et(2,3) pt index_in_span min_boundary [OF v, of "level_shift l"] in \<open>auto simp: less_imp_le\<close>)
    moreover have "add_entry l low v p ve prot s = Some (prot, s2)"
      unfolding add_entry_def Let_def using False by (simp only: if_False s2) simp
    ultimately show thesis
      using that i(7,8) by blast
  qed
qed

lemma loop_bounds:
  assumes wf: "pgwf ops lim s" and v: "v < ve" "ve \<le> lim" and n: "n \<le> 39"
  shows "v < 2 ^ 64" "ve < 2 ^ 64" "next_boundary n v < 2 ^ 64"
proof -
  have "(2 :: nat) ^ n \<le> 2 ^ 39"
    using n by (rule power_increasing) simp
  then show "v < 2 ^ 64" "ve < 2 ^ 64" "next_boundary n v < 2 ^ 64"
    using layout_base(4) [OF pgwfD(1) [OF wf]] v next_boundary_props(4) [of n v] by simp_all
qed

lemma table_ptr:
  "entry_ptr (table_page ops l (v div 2 ^ (n + 9))) (of_nat (v div 2 ^ n mod 512)) = slot ops l (v div 2 ^ n)"
  unfolding entry_ptr_table_page using page_entry_index [of v n] by simp

lemma table_index: "(of_nat (i mod 512) :: u64) < 512"
  unfolding word_less_nat_alt by (subst unat_of_nat_u64) auto

lemma of_nat_advance:
  "v < w \<Longrightarrow> (of_nat p :: u64) + (of_nat w - of_nat v) = of_nat (p + (w - v))"
  by (simp add: of_nat_diff)

lemma add_pde_loop_eq:
  assumes wf: "pgwf ops lim s" and inv: "add_inv lim IA32E_PD ve p0 v0 r v p prot s" and v: "v < ve"
  defines "w \<equiv> next_boundary 21 v"
  shows "add_pde_loop ops (of_nat ve) (table_page ops IA32E_PD (v div 2 ^ 30)) prot (of_nat v) (of_nat p)
       (of_nat (v div 2 ^ 21 mod 512)) s =
     (case add_entry IA32E_PD
         (\<lambda>s1. Some (add_pte (slot ops IA32E_PD (v div 2 ^ 21)) (of_nat p) (of_nat v) (of_nat (min w ve)) prot ops s1))
         v p ve prot s of
        None \<Rightarrow> None
      | Some (prot', s') \<Rightarrow>
          if ve \<le> w then Some s'
          else add_pde_loop ops (of_nat ve) (table_page ops IA32E_PD (v div 2 ^ 30)) prot' (of_nat w)
                 (of_nat (p + (w - v))) (of_nat (v div 2 ^ 21 mod 512) + 1) s')"
proof -
  let ?i = "v div 2 ^ 21"
  note i = add_invD [OF inv] and b = loop_bounds [OF wf v add_invD(1) [OF inv], of 21, folded w_def]
  have p: "p < 2 ^ 64" and vl: "v < lim" and wv: "v < w"
    using i(1,5) v next_boundary_props(1) [of v 21] by (simp_all add: w_def)
  have nl: "pde_large (pg_mem s (slot ops IA32E_PD ?i)) = 0"
    using no_large_entry(1) [OF wf vl, of IA32E_PD] i(10) [of v] v by (simp add: pde_large_def tab_def)
  have np: "pgentry_present ops (pg_mem s (slot ops IA32E_PD ?i)) = 0 \<longleftrightarrow>
      \<not> present ops (tab ops s IA32E_PD ?i)"
    by (simp add: present_def tab_def)
  have idx: "(of_nat (?i mod 512) :: u64) < PTRS_PER_PDE"
    unfolding PTRS_PER_PDE_def by (rule table_index)
  have ptr: "entry_ptr (table_page ops IA32E_PD (v div 2 ^ 30)) (of_nat (?i mod 512)) = slot ops IA32E_PD ?i"
    using table_ptr [of IA32E_PD v 21] by simp
  note code = ptr idx nl np Let_def vaddr_next(3) [OF b(1), folded w_def]
    mem_aligned_of_nat(2) [OF b(1)] mem_aligned_of_nat(2) [OF p] of_nat_advance [OF wv]
    of_nat_u64_le [OF b(2,3)] of_nat_u64_le [OF b(3,2)] of_nat_u64_less [OF b(3,2)] if_min [OF b(3,2)]
    if_True simp_thms
  show ?thesis
  proof (cases "\<not> present ops (tab ops s IA32E_PD ?i) \<and> large_page_enabled ops \<and>
       2 ^ 21 dvd p \<and> 2 ^ 21 dvd v \<and> w \<le> ve")
    case True
    then show ?thesis
      by (subst add_pde_loop.simps, simp only: code)
        (auto simp: add_entry_def Let_def w_def [symmetric])
  next
    case False
    then obtain f where "get_pt_page ops = Some f"
      using needs_pt_page [OF wf inv v] by (auto simp: w_def)
    with False show ?thesis
      using get_pages(3) [OF b(1), of f]
      by (subst add_pde_loop.simps, simp only: code)
        (auto simp: add_entry_def Let_def w_def [symmetric] ensure_tab_def)
  qed
qed

lemma add_pte_entry:
  assumes "pgwf ops lim s" "add_inv lim IA32E_PT ve p0 v0 r v p prot s" "v < ve" "ve \<le> next_boundary 21 v"
    and "tab ops s IA32E_PD (v div 2 ^ 21) AND (mask 39 AND NOT (mask 12)) = table_page ops IA32E_PT (v div 2 ^ 21)"
    and "get_pt_page ops \<noteq> None"
  shows "pg_update ops rmask lim IA32E_PT v ve (map_range p0 v0 r) s
     (add_pte (slot ops IA32E_PD (v div 2 ^ 21)) (of_nat p) (of_nat v) (of_nat ve) prot ops s)"
  using add_pte_below [OF assms(1,3) add_invD(1-6) [OF assms(2)] add_invD(7) [OF assms(2)] assms(4-6)]
    add_invD(8,10) [OF assms(2)] by simp

lemma next_entry_index:
  assumes "next_boundary n v < next_boundary (n + 9) v"
  shows "(of_nat (v div 2 ^ n mod 512) :: u64) + 1 = of_nat (next_boundary n v div 2 ^ n mod 512)"
  unfolding next_index(2) [OF assms] by (simp add: add.commute)

lemma add_pde_loop_update:
  assumes wf: "pgwf ops lim s" and inv: "add_inv lim IA32E_PD ve p0 v0 r v p prot s"
    and v: "v < ve" "ve \<le> next_boundary 30 v"
  shows "\<exists>s'. add_pde_loop ops (of_nat ve) (table_page ops IA32E_PD (v div 2 ^ 30)) prot (of_nat v)
       (of_nat p) (of_nat (v div 2 ^ 21 mod 512)) s = Some s' \<and>
     pg_update ops rmask lim IA32E_PD v ve (map_range p0 v0 r) s s'"
proof -
  let ?k = "v div 2 ^ 30" and ?F = "map_range p0 v0 r"
  let ?Q = "\<lambda>v (p, prot) s. add_inv lim IA32E_PD ve p0 v0 r v p prot s \<and>
      ve \<le> next_boundary 30 v \<and> v div 2 ^ 30 = ?k"
  let ?loop = "\<lambda>v (p, prot) s. add_pde_loop ops (of_nat ve) (table_page ops IA32E_PD ?k) prot (of_nat v)
       (of_nat p) (of_nat (v div 2 ^ 21 mod 512)) s"
  have "\<exists>s'. ?loop v (p, prot) s = Some s' \<and> pg_update ops rmask lim IA32E_PD v ve ?F s s'"
  proof (rule range_loop [where Q = ?Q and n = 21 and loop = ?loop and x = "(p, prot)"])
    fix v x s assume Q: "?Q v x s" and v: "v < ve" and wf: "pgwf ops lim s"
    obtain p prot where x: "x = (p, prot)" by force
    let ?w = "next_boundary 21 v"
    from Q x have inv: "add_inv lim IA32E_PD ve p0 v0 r v p prot s" and k: "ve \<le> next_boundary 30 v" "v div 2 ^ 30 = ?k"
      by simp_all
    obtain prot' s' where 1: "add_entry IA32E_PD
         (\<lambda>s1. Some (add_pte (slot ops IA32E_PD (v div 2 ^ 21)) (of_nat p) (of_nat v) (of_nat (min ?w ve)) prot ops s1))
         v p ve prot s = Some (prot', s')"
      "prot_ok prot'" "prot' AND rmask = r"
      "pg_update ops rmask lim IA32E_PD v (min ?w ve) ?F s s'"
      by (rule add_entry_update [OF wf inv v, where low = "\<lambda>s1. Some (add_pte (slot ops IA32E_PD (v div 2 ^ 21))
            (of_nat p) (of_nat v) (of_nat (min ?w ve)) prot ops s1)"])
        (use add_pte_entry min_boundary [OF v, of 21] in auto)
    have nx: "?w div 2 ^ 30 = ?k" "next_boundary 30 ?w = next_boundary 30 v"
        "(of_nat (v div 2 ^ 21 mod 512) :: u64) + 1 = of_nat (?w div 2 ^ 21 mod 512)" if "?w < ve"
      using next_index(1,3) [of 21 v] next_entry_index [of 21 v] k that by simp_all
    show "\<exists>s' x'. pg_update ops rmask lim IA32E_PD v (min ?w ve) ?F s s' \<and>
        ?loop v x s = (if ve \<le> ?w then Some s' else ?loop ?w x' s') \<and> (?w < ve \<longrightarrow> ?Q ?w x' s')"
      using 1 add_pde_loop_eq [OF wf inv v] nx k add_inv_next [OF inv _ 1(4) 1(2,3)]
      by (intro exI [of _ s'] exI [of _ "(p + (?w - v), prot')"]) (simp add: x not_le)
  qed (use wf inv v in auto)
  then show ?thesis by simp
qed

lemma add_pde_entry:
  assumes wf: "pgwf ops lim s" and inv: "add_inv lim IA32E_PD ve p0 v0 r v p prot s"
    and v: "v < ve" "ve \<le> next_boundary 30 v"
    and e: "tab ops s IA32E_PDPT (v div 2 ^ 30) AND (mask 39 AND NOT (mask 12)) =
       table_page ops IA32E_PD (v div 2 ^ 30)"
  shows "\<exists>s'. add_pde (slot ops IA32E_PDPT (v div 2 ^ 30)) (of_nat p) (of_nat v) (of_nat ve) prot ops s = Some s' \<and>
     pg_update ops rmask lim IA32E_PD v ve (map_range p0 v0 r) s s'"
  using add_pde_loop_update [OF wf inv v] e loop_bounds(1) [OF wf v(1) add_invD(1) [OF inv], of 0]
  by (simp add: add_pde_def page_vaddr_eq index_of_nat tab_def)

subsection \<open>The loop over a page-directory-pointer table\<close>

lemma add_pdpte_loop_eq:
  assumes wf: "pgwf ops lim s" and inv: "add_inv lim IA32E_PDPT ve p0 v0 r v p prot s" and v: "v < ve"
  defines "w \<equiv> next_boundary 30 v"
  shows "add_pdpte_loop ops (of_nat ve) (table_page ops IA32E_PDPT (v div 2 ^ 39)) prot (of_nat v) (of_nat p)
       (of_nat (v div 2 ^ 30 mod 512)) s =
     (case add_entry IA32E_PDPT
         (add_pde (slot ops IA32E_PDPT (v div 2 ^ 30)) (of_nat p) (of_nat v) (of_nat (min w ve)) prot ops)
         v p ve prot s of
        None \<Rightarrow> None
      | Some (prot', s') \<Rightarrow>
          if ve \<le> w then Some s'
          else add_pdpte_loop ops (of_nat ve) (table_page ops IA32E_PDPT (v div 2 ^ 39)) prot' (of_nat w)
                 (of_nat (p + (w - v))) (of_nat (v div 2 ^ 30 mod 512) + 1) s')"
proof -
  let ?i = "v div 2 ^ 30"
  note i = add_invD [OF inv] and b = loop_bounds [OF wf v add_invD(1) [OF inv], of 30, folded w_def]
  have p: "p < 2 ^ 64" and vl: "v < lim" and wv: "v < w"
    using i(1,5) v next_boundary_props(1) [of v 30] by (simp_all add: w_def)
  have nl: "pdpte_large (pg_mem s (slot ops IA32E_PDPT ?i)) = 0"
    using no_large_entry(1) [OF wf vl, of IA32E_PDPT] i(10) [of v] v by (simp add: pdpte_large_def tab_def)
  have np: "pgentry_present ops (pg_mem s (slot ops IA32E_PDPT ?i)) = 0 \<longleftrightarrow>
      \<not> present ops (tab ops s IA32E_PDPT ?i)"
    by (simp add: present_def tab_def)
  have idx: "(of_nat (?i mod 512) :: u64) < PTRS_PER_PDPTE"
    unfolding PTRS_PER_PDPTE_def by (rule table_index)
  have ptr: "entry_ptr (table_page ops IA32E_PDPT (v div 2 ^ 39)) (of_nat (?i mod 512)) = slot ops IA32E_PDPT ?i"
    using table_ptr [of IA32E_PDPT v 30] by simp
  note code = ptr idx nl np Let_def vaddr_next(2) [OF b(1), folded w_def]
    mem_aligned_of_nat(1) [OF b(1)] mem_aligned_of_nat(1) [OF p] of_nat_advance [OF wv]
    of_nat_u64_le [OF b(2,3)] of_nat_u64_le [OF b(3,2)] of_nat_u64_less [OF b(3,2)] if_min [OF b(3,2)]
    if_True simp_thms
  show ?thesis
    using get_pages(2) [OF b(1)]
    by (subst add_pdpte_loop.simps, simp only: code)
      (auto simp: add_entry_def Let_def w_def [symmetric] ensure_tab_def split: option.split)
qed

lemma add_pdpte_loop_update:
  assumes wf: "pgwf ops lim s" and inv: "add_inv lim IA32E_PDPT ve p0 v0 r v p prot s"
    and v: "v < ve" "ve \<le> next_boundary 39 v"
  shows "\<exists>s'. add_pdpte_loop ops (of_nat ve) (table_page ops IA32E_PDPT (v div 2 ^ 39)) prot (of_nat v)
       (of_nat p) (of_nat (v div 2 ^ 30 mod 512)) s = Some s' \<and>
     pg_update ops rmask lim IA32E_PDPT v ve (map_range p0 v0 r) s s'"
proof -
  let ?k = "v div 2 ^ 39" and ?F = "map_range p0 v0 r"
  let ?Q = "\<lambda>v (p, prot) s. add_inv lim IA32E_PDPT ve p0 v0 r v p prot s \<and>
      ve \<le> next_boundary 39 v \<and> v div 2 ^ 39 = ?k"
  let ?loop = "\<lambda>v (p, prot) s. add_pdpte_loop ops (of_nat ve) (table_page ops IA32E_PDPT ?k) prot (of_nat v)
       (of_nat p) (of_nat (v div 2 ^ 30 mod 512)) s"
  have "\<exists>s'. ?loop v (p, prot) s = Some s' \<and> pg_update ops rmask lim IA32E_PDPT v ve ?F s s'"
  proof (rule range_loop [where Q = ?Q and n = 30 and loop = ?loop and x = "(p, prot)"])
    fix v x s assume Q: "?Q v x s" and v: "v < ve" and wf: "pgwf ops lim s"
    obtain p prot where x: "x = (p, prot)" by force
    let ?w = "next_boundary 30 v"
    let ?low = "add_pde (slot ops IA32E_PDPT (v div 2 ^ 30)) (of_nat p) (of_nat v) (of_nat (min ?w ve)) prot ops"
    from Q x have inv: "add_inv lim IA32E_PDPT ve p0 v0 r v p prot s"
      and k: "ve \<le> next_boundary 39 v" "v div 2 ^ 39 = ?k"
      by simp_all
    obtain prot' s' where 1: "add_entry IA32E_PDPT ?low v p ve prot s = Some (prot', s')"
      "prot_ok prot'" "prot' AND rmask = r"
      "pg_update ops rmask lim IA32E_PDPT v (min ?w ve) ?F s s'"
      by (rule add_entry_update [OF wf inv v, where low = ?low])
        (use add_pde_entry min_boundary [OF v, of 30] in auto)
    have nx: "?w div 2 ^ 39 = ?k" "next_boundary 39 ?w = next_boundary 39 v"
        "(of_nat (v div 2 ^ 30 mod 512) :: u64) + 1 = of_nat (?w div 2 ^ 30 mod 512)" if "?w < ve"
      using next_index(1,3) [of 30 v] next_entry_index [of 30 v] k that by simp_all
    show "\<exists>s' x'. pg_update ops rmask lim IA32E_PDPT v (min ?w ve) ?F s s' \<and>
        ?loop v x s = (if ve \<le> ?w then Some s' else ?loop ?w x' s') \<and> (?w < ve \<longrightarrow> ?Q ?w x' s')"
      using 1 add_pdpte_loop_eq [OF wf inv v] nx k add_inv_next [OF inv _ 1(4) 1(2,3)]
      by (intro exI [of _ s'] exI [of _ "(p + (?w - v), prot')"]) (simp add: x not_le)
  qed (use wf inv v in auto)
  then show ?thesis by simp
qed

lemma add_pdpte_entry:
  assumes wf: "pgwf ops lim s" and inv: "add_inv lim IA32E_PDPT ve p0 v0 r v p prot s"
    and v: "v < ve" "ve \<le> next_boundary 39 v"
    and e: "tab ops s IA32E_PML4 (v div 2 ^ 39) AND (mask 39 AND NOT (mask 12)) =
       table_page ops IA32E_PDPT (v div 2 ^ 39)"
  shows "\<exists>s'. add_pdpte (slot ops IA32E_PML4 (v div 2 ^ 39)) (of_nat p) (of_nat v) (of_nat ve) prot ops s = Some s' \<and>
     pg_update ops rmask lim IA32E_PDPT v ve (map_range p0 v0 r) s s'"
  using add_pdpte_loop_update [OF wf inv v] e loop_bounds(1) [OF wf v(1) add_invD(1) [OF inv], of 0]
  by (simp add: add_pdpte_def page_vaddr_eq index_of_nat tab_def)

subsection \<open>The loop over the PML4 table\<close>

lemma pml4e_slot:
  assumes "pages_layout ops lim" "v < lim"
  shows "pml4e_offset (pml4_base (info ops)) (of_nat v) = slot ops IA32E_PML4 (v div 2 ^ 39)"
proof -
  have "v div 2 ^ 39 < 512" "v < 2 ^ 64"
    using layout_base(4) [OF assms(1)] assms(2) by (simp_all add: div_less_iff_less_mult)
  then show ?thesis
    by (simp add: pml4e_offset_def entry_ptr_def slot_def index_of_nat)
qed

lemma pml4_not_leaf: "\<not> leaf_entry IA32E_PML4 e"
  by (simp add: leaf_entry_def)

lemma add_pml4_entry:
  assumes wf: "pgwf ops lim s" and inv: "add_inv lim IA32E_PML4 ve p0 v0 r v p prot s" and v: "v < ve"
  defines "w \<equiv> next_boundary 39 v"
  obtains s' where "add_pdpte (slot ops IA32E_PML4 (v div 2 ^ 39)) (of_nat p) (of_nat v) (of_nat (min w ve)) prot ops
       (ensure_tab ops IA32E_PML4 (v div 2 ^ 39) s) = Some s'"
    "pg_update ops rmask lim IA32E_PML4 v (min w ve) (map_range p0 v0 r) s s'"
proof -
  let ?s1 = "ensure_tab ops IA32E_PML4 (v div 2 ^ 39) s"
  note i = add_invD [OF inv] and wv = min_boundary [OF v, of 39, folded w_def]
  have vl: "v < lim" and mw: "min w ve \<le> next_boundary 39 v"
    using i(1) v by (simp_all add: w_def)
  have et: "pg_update ops rmask lim IA32E_PML4 x x F s ?s1"
      "present ops (tab ops ?s1 IA32E_PML4 (v div 2 ^ 39))"
      "tab ops ?s1 IA32E_PML4 (v div 2 ^ 39) AND (mask 39 AND NOT (mask 12)) = table_page ops IA32E_PDPT (v div 2 ^ 39)"
      "g < lim \<Longrightarrow> g div 2 ^ 39 = v div 2 ^ 39 \<Longrightarrow> tr ops rmask ?s1 IA32E_PDPT g = tr ops rmask s IA32E_PML4 g"
    for x F g
    using ensure_table [OF wf vl, of IA32E_PML4 "v div 2 ^ 39" ?s1] pml4_not_leaf by simp_all
  note wf1 = pg_updateD(1) [OF et(1)]
  have "add_inv lim IA32E_PDPT (min w ve) p0 v0 r v p prot ?s1"
    using add_inv_below [OF inv _ v, of ?s1] et(4) by (simp add: w_def)
  then obtain s2 where s2: "add_pdpte (slot ops IA32E_PML4 (v div 2 ^ 39)) (of_nat p) (of_nat v)
        (of_nat (min w ve)) prot ops ?s1 = Some s2"
      "pg_update ops rmask lim IA32E_PDPT v (min w ve) (map_range p0 v0 r) ?s1 s2"
    using add_pdpte_entry [OF wf1 _ wv _ et(3)] mw by blast
  have "pg_update ops rmask lim IA32E_PML4 v (min w ve) (map_range p0 v0 r) s s2"
  proof (rule descend_update [OF wf1 et(1,2) pml4_not_leaf _ _ less_imp_le [OF wv]])
    show "pg_update ops rmask lim (next_level IA32E_PML4) v (min w ve) (map_range p0 v0 r) ?s1 s2"
      using s2(2) by simp
    show "level_index IA32E_PML4 g = v div 2 ^ 39" if "v \<le> g" "g < min w ve" for g
      using index_in_span [of v g 39 ve] that by (simp add: w_def)
  qed simp
  with s2(1) show thesis by (rule that)
qed

lemma mmu_add_loop_update:
  assumes wf: "pgwf ops lim s" and inv: "add_inv lim IA32E_PML4 ve p0 v0 r v p prot s" and v: "v < ve"
  shows "\<exists>s'. mmu_add_loop (pml4_base (info ops)) prot ops (of_nat ve) (of_nat v) (of_nat p) s = Some s' \<and>
     pg_update ops rmask lim IA32E_PML4 v ve (map_range p0 v0 r) s s'"
proof (rule range_loop [where n = 39 and x = p and
      loop = "\<lambda>v p. mmu_add_loop (pml4_base (info ops)) prot ops (of_nat ve) (of_nat v) (of_nat p)" and
      Q = "\<lambda>v p s. add_inv lim IA32E_PML4 ve p0 v0 r v p prot s"])
  fix v p s assume inv: "add_inv lim IA32E_PML4 ve p0 v0 r v p prot s" and v: "v < ve" and wf: "pgwf ops lim s"
  let ?w = "next_boundary 39 v" and ?i = "v div 2 ^ 39"
  note i = add_invD [OF inv] and b = loop_bounds [OF wf v add_invD(1) [OF inv], of 39]
  have vl: "v < lim" and wv: "v < ?w"
    using i(1) v next_boundary_props(1) [of v 39] by simp_all
  obtain s' where s': "add_pdpte (slot ops IA32E_PML4 ?i) (of_nat p) (of_nat v) (of_nat (min ?w ve)) prot ops
       (ensure_tab ops IA32E_PML4 ?i s) = Some s'"
    "pg_update ops rmask lim IA32E_PML4 v (min ?w ve) (map_range p0 v0 r) s s'"
    by (rule add_pml4_entry [OF wf inv v])
  have np: "pgentry_present ops (pg_mem s (slot ops IA32E_PML4 ?i)) = 0 \<longleftrightarrow>
      \<not> present ops (tab ops s IA32E_PML4 ?i)"
    by (simp add: present_def tab_def)
  have s1: "(if pgentry_present ops (pg_mem s (slot ops IA32E_PML4 ?i)) = 0
      then let (pdpt_page, s0) = get_pdpt_page ops (info ops) (of_nat v) s
           in construct_pgentry (slot ops IA32E_PML4 ?i) pdpt_page (get_default_access_right ops) ops s0
      else s) = ensure_tab ops IA32E_PML4 ?i s"
    unfolding np using get_pages(1) [OF b(1)] by (simp add: ensure_tab_def)
  note code = vaddr_next(1) [OF b(1)] pml4e_slot [OF pgwfD(1) [OF wf] vl]
    of_nat_u64_less [OF b(1,2)] if_min [OF b(3,2)] of_nat_advance [OF wv]
  have "mmu_add_loop (pml4_base (info ops)) prot ops (of_nat ve) (of_nat v) (of_nat p) s =
      (if v < ve
       then Option.bind (Some s') (mmu_add_loop (pml4_base (info ops)) prot ops (of_nat ve) (of_nat ?w)
         (of_nat (p + (?w - v)))) else Some s)"
    unfolding s'(1) [symmetric] s1 [symmetric] code(5) [symmetric]
    by (subst mmu_add_loop.simps) (simp only: Let_def code)
  moreover have "mmu_add_loop (pml4_base (info ops)) prot ops (of_nat ve) (of_nat ?w) x s' = Some s'"
    if "ve \<le> ?w" for x
    using that by (subst mmu_add_loop.simps) (simp only: of_nat_u64_less [OF b(3,2)] not_less [symmetric] if_False)
  ultimately show "\<exists>s' x'. pg_update ops rmask lim IA32E_PML4 v (min ?w ve) (map_range p0 v0 r) s s' \<and>
      mmu_add_loop (pml4_base (info ops)) prot ops (of_nat ve) (of_nat v) (of_nat p) s =
        (if ve \<le> ?w then Some s'
         else mmu_add_loop (pml4_base (info ops)) prot ops (of_nat ve) (of_nat ?w) (of_nat x') s') \<and>
      (?w < ve \<longrightarrow> add_inv lim IA32E_PML4 ve p0 v0 r ?w x' prot s')"
    using v s'(2) add_inv_next [OF inv _ s'(2) i(7,8)]
    by (intro exI [of _ s'] exI [of _ "p + (?w - v)"]) simp
qed (use wf inv v in auto)

end

subsection \<open>\<^verbatim>\<open>mmu_add\<close>\<close>

definition page_down :: "nat \<Rightarrow> nat" where
  "page_down a = a div 2 ^ 12 * 2 ^ 12"

definition page_up :: "nat \<Rightarrow> nat" where
  "page_up a = (a + 4095) div 2 ^ 12 * 2 ^ 12"

lemma page_down_le: "page_down a \<le> a"
  by (simp add: page_down_def)

lemma page_up_ge: "a \<le> page_up a"
  by (simp add: page_up_def)

lemma page_up_less: "page_up a < a + 4096"
  by (simp add: page_up_def)

lemma page_aligned: "2 ^ 12 dvd page_down a" "2 ^ 12 dvd page_up a"
  by (simp_all add: page_down_def page_up_def)

lemma round_page_nat:
  "unat (round_page_down a) = page_down (unat a)"
  "unat a + 4095 < 2 ^ 64 \<Longrightarrow> unat (round_page_up a) = page_up (unat a)"
proof -
  show "unat (round_page_down a) = page_down (unat a)"
    by (simp only: round_page_down_def size_masks unat_and_not_mask page_down_def)
  assume b: "unat a + 4095 < 2 ^ 64"
  have "(a + PAGE_SIZE) - 1 = a + 4095"
    by (simp add: PAGE_SIZE_def)
  moreover have "unat (a + 4095) = unat a + 4095"
    using b by (subst unat_add_small) simp_all
  ultimately show "unat (round_page_up a) = page_up (unat a)"
    by (simp only: round_page_up_def size_masks unat_and_not_mask page_up_def)
qed

lemma unat_word_eqI: "unat w = n \<Longrightarrow> w = of_nat n"
  by auto

context paging
begin

theorem mmu_add_update:
  fixes paddr_base vaddr_base sz prot :: u64
  defines "v \<equiv> page_down (unat vaddr_base)" and "p \<equiv> page_down (unat paddr_base)"
    and "ve \<equiv> page_up (unat vaddr_base + unat sz)"
  assumes wf: "pgwf ops lim s" and sz: "sz \<noteq> 0" and ve: "ve \<le> lim"
    and p: "p + (ve - v) \<le> 2 ^ 39" and prot: "prot_ok prot" and lo: "large_only_ok v ve p"
    and free: "\<And>g. v \<le> g \<Longrightarrow> g < ve \<Longrightarrow> tr ops rmask s IA32E_PML4 g = None"
  shows "\<exists>s'. mmu_add (pml4_base (info ops)) paddr_base vaddr_base sz prot ops s = Some s' \<and>
     pg_update ops rmask lim IA32E_PML4 v ve (map_range p v (prot AND rmask)) s s'"
proof -
  have "unat vaddr_base + unat sz \<le> ve"
    unfolding ve_def by (rule page_up_ge)
  then have b: "unat vaddr_base + unat sz \<le> 2 ^ 48"
    using ve layout_base(4) [OF pgwfD(1) [OF wf]] by simp
  then have u: "unat (vaddr_base + sz) = unat vaddr_base + unat sz"
    by (intro unat_add_small) simp
  then have w: "round_page_down vaddr_base = of_nat v" "round_page_down paddr_base = of_nat p"
      "round_page_up (vaddr_base + sz) = of_nat ve"
    using round_page_nat(1) [of vaddr_base] round_page_nat(1) [of paddr_base]
      round_page_nat(2) [of "vaddr_base + sz"] b
    unfolding v_def p_def ve_def by (simp_all flip: u add: unat_word_eqI)
  have "v < ve"
    using page_down_le [of "unat vaddr_base"] \<open>unat vaddr_base + unat sz \<le> ve\<close> sz
    by (simp add: v_def word_nat_eq)
  moreover have "add_inv lim IA32E_PML4 ve p v (prot AND rmask) v p prot s"
    using ve p prot lo free page_aligned by (auto simp: add_inv_def v_def ve_def p_def)
  ultimately show ?thesis
    using mmu_add_loop_update [OF wf] by (simp add: mmu_add_def w)
qed

end

end
