(* ===== verification/Acrn_Mmu_Modify.thy ===== *)
theory Acrn_Mmu_Modify
  imports Acrn_Mmu_Add
begin

text \<open>
  \<^verbatim>\<open>mmu_modify_or_del\<close> and its helpers: deletion makes exactly the range untranslated,
  modification changes exactly the rights of the range and no host address; large pages that
  straddle an end of the range are split without any other visible effect.
\<close>

text \<open>What becomes of a translation in the range.\<close>

definition change_range ::
  "u64 \<Rightarrow> u32 \<Rightarrow> u64 \<Rightarrow> u64 \<Rightarrow> nat \<Rightarrow> (nat \<times> u64) option \<Rightarrow> (nat \<times> u64) option" where
  "change_range rmask type prot_set prot_clr = (\<lambda>_ x.
     if type = MR_MODIFY
     then map_option (\<lambda>(h, r). (h, ((r AND NOT prot_clr) OR prot_set) AND rmask)) x
     else None)"

lemma change_range_None [simp]: "change_range rmask type prot_set prot_clr g None = None"
  by (simp add: change_range_def)

text \<open>
  The arguments of a modification: they touch neither the address nor the large-page bit of an
  entry, and leave a present page present.
\<close>

definition change_ok :: "memory_ops \<Rightarrow> u32 \<Rightarrow> u64 \<Rightarrow> u64 \<Rightarrow> bool" where
  "change_ok ops type prot_set prot_clr \<longleftrightarrow> type = MR_MODIFY \<longrightarrow>
     prot_bits prot_set \<and> prot_bits prot_clr \<and> prot_set AND PAGE_PS = 0 \<and> prot_clr AND PAGE_PS = 0 \<and>
     (\<forall>e. present ops e \<longrightarrow> present ops ((e AND NOT prot_clr) OR prot_set))"

text \<open>The same with a condition on the arguments only, enough for every instance.\<close>

definition modify_ok :: "u32 \<Rightarrow> u64 \<Rightarrow> u64 \<Rightarrow> bool" where
  "modify_ok type prot_set prot_clr \<longleftrightarrow> type = MR_MODIFY \<longrightarrow>
     prot_bits prot_set \<and> prot_bits prot_clr \<and> prot_set AND PAGE_PS = 0 \<and> prot_clr AND PAGE_PS = 0 \<and>
     (prot_clr AND 7 = 0 \<or> bit prot_set 0)"

lemma change_bits:
  fixes e cl st m :: u64
  assumes "cl AND m = 0" "st AND m = 0"
  shows "((e AND NOT cl) OR st) AND m = e AND m"
proof (rule bit_eqI)
  fix n
  have "\<not> bit (cl AND m) n" "\<not> bit (st AND m) n"
    by (simp_all add: assms)
  then show "bit (((e AND NOT cl) OR st) AND m) n = bit (e AND m) n"
    by (auto simp: bit_simps dest: bit_imp_possible_bit)
qed

lemma prot_bits_sub: "prot_bits x \<Longrightarrow> (mask 52 AND NOT (mask 12)) AND m = m \<Longrightarrow> x AND m = 0"
proof -
  assume x: "prot_bits x" and m: "(mask 52 AND NOT (mask 12)) AND m = m"
  have "x AND m = (x AND (mask 52 AND NOT (mask 12))) AND m"
    by (subst m [symmetric]) (simp only: and.assoc)
  with x show ?thesis by (simp add: prot_bits_def)
qed

lemma addr_masks:
  "(mask 52 AND NOT (mask 12)) AND (mask 52 AND NOT (mask 39)) = (mask 52 AND NOT (mask 39) :: u64)"
  "(mask 52 AND NOT (mask 12)) AND (mask 39 AND NOT (mask (level_shift l))) =
     (mask 39 AND NOT (mask (level_shift l)) :: u64)"
  by (simp add: mask_eq_exp_minus_1) (cases l; simp add: mask_eq_exp_minus_1)

lemma change_addr_bits:
  assumes "prot_bits cl" "prot_bits st" "(mask 52 AND NOT (mask 12)) AND m = m"
  shows "((e AND NOT cl) OR st) AND m = e AND m"
  by (rule change_bits [OF prot_bits_sub [OF assms(1,3)] prot_bits_sub [OF assms(2,3)]])

context paging
begin

lemma change_rights:
  "((x AND NOT cl) OR st) AND rmask = (((x AND rmask) AND NOT cl) OR st) AND rmask"
  by (rule bit_eqI) (auto simp: bit_simps)

lemma modify_change_ok: "modify_ok type st cl \<Longrightarrow> change_ok ops type st cl"
proof -
  assume ok: "modify_ok type st cl"
  have "present ops ((e AND NOT cl) OR st)" if e: "present ops e" and pr: "cl AND 7 = 0 \<or> bit st 0" for e
  proof (cases "bit st 0")
    case True
    then show ?thesis
      by (intro present_bit0) (simp add: bit_simps)
  next
    case False
    then have "((e AND NOT cl) OR 0) AND 7 = e AND 7"
      using pr by (intro change_bits) simp_all
    from present_cong [OF this] have "present ops (e AND NOT cl)"
      using e by simp
    then show ?thesis
      unfolding present_def by (rule pres_mono)
  qed
  with ok show ?thesis
    by (simp add: modify_ok_def change_ok_def)
qed

lemma modify_entry:
  assumes ok: "change_ok ops MR_MODIFY st cl" and e: "present ops e" "leaf_entry l e" "entry_ok ops lim l i e"
  defines "e' \<equiv> (e AND NOT cl) OR st"
  shows "present ops e'" "leaf_entry l e'" "entry_ok ops lim l i e'"
    "leaf rmask (level_shift l) g e' =
       (fst (leaf rmask (level_shift l) g e), ((snd (leaf rmask (level_shift l) g e) AND NOT cl) OR st) AND rmask)"
proof -
  have st: "prot_bits st" "st AND PAGE_PS = 0" and cl: "prot_bits cl" "cl AND PAGE_PS = 0"
    and pr: "\<And>e. present ops e \<Longrightarrow> present ops ((e AND NOT cl) OR st)"
    using ok by (simp_all add: change_ok_def)
  show pres: "present ops e'"
    unfolding e'_def using e(1) by (rule pr)
  have ps: "e' AND PAGE_PS = e AND PAGE_PS"
    unfolding e'_def by (rule change_bits [OF cl(2) st(2)])
  then show lf: "leaf_entry l e'"
    using e(2) by (simp add: leaf_entry_def)
  have "e' AND (mask 52 AND NOT (mask 39)) = e AND (mask 52 AND NOT (mask 39))"
    unfolding e'_def by (rule change_addr_bits [OF cl(1) st(1) addr_masks(1)])
  then show "entry_ok ops lim l i e'"
    using e pres lf by (simp add: entry_ok_def)
  have "e' AND (mask 39 AND NOT (mask (level_shift l))) = e AND (mask 39 AND NOT (mask (level_shift l)))"
    unfolding e'_def by (rule change_addr_bits [OF cl(1) st(1) addr_masks(2)])
  moreover have "e' AND rmask = (((e AND rmask) AND NOT cl) OR st) AND rmask"
    unfolding e'_def by (rule change_rights)
  ultimately show "leaf rmask (level_shift l) g e' =
       (fst (leaf rmask (level_shift l) g e), ((snd (leaf rmask (level_shift l) g e) AND NOT cl) OR st) AND rmask)"
    by (simp add: leaf_def)
qed

text \<open>Changing a leaf, for the whole span of its entry.\<close>

lemma change_leaf:
  assumes wf: "pgwf ops lim s" and l: "l \<noteq> IA32E_PT \<or> get_pt_page ops \<noteq> None"
    and v: "v < lim" "2 ^ level_shift l dvd v" and ok: "change_ok ops type st cl"
    and e: "present ops (tab ops s l (level_index l v))" "leaf_entry l (tab ops s l (level_index l v))"
  shows "pg_update ops rmask lim l v (v + 2 ^ level_shift l) (change_range rmask type st cl) s
     (local_modify_or_del_pte (slot ops l (level_index l v)) st cl type ops s)"
proof -
  let ?i = "level_index l v" and ?e = "tab ops s l (level_index l v)"
  note vl = valid_index [OF pgwfD(1) [OF wf] v(1) l]
  have old: "tr ops rmask s l g = Some (leaf rmask (level_shift l) g ?e)" if "level_index l g = ?i" for g
    using tr_leaf [of s l g] e that by simp
  note upd = pg_update_set [OF wf vl _ _ l _ aligned_span [OF v(2)]]
  show ?thesis
  proof (cases "type = MR_MODIFY")
    case True
    note m = modify_entry [of st cl, OF _ e pgwfD(3) [OF wf vl]]
    have "local_modify_or_del_pte (slot ops l ?i) st cl type ops s =
        set_pgentry (slot ops l ?i) ((?e AND NOT cl) OR st) ops s"
      using True by (simp add: local_modify_or_del_pte_def tab_def)
    then show ?thesis
      using m ok True
      by (simp only:) (rule upd; simp add: change_range_def old split: prod.split)
  next
    case False
    have san: "\<not> present ops (sanitized_page s)" "sanitized_page s AND PAGE_PS = 0"
      using not_present_aligned [OF pgwfD(2) [OF wf]] and_sub_zero [OF pgwfD(2) [OF wf], of PAGE_PS]
      by (simp_all add: PAGE_PS_def mask_eq_exp_minus_1)
    have "local_modify_or_del_pte (slot ops l ?i) st cl type ops s =
        set_pgentry (slot ops l ?i) (sanitized_page s) ops s"
      using False
      by (simp add: local_modify_or_del_pte_def sanitize_pte_entry_def get_sanitized_page_def hva2hpa_def)
    then show ?thesis
      by (simp only:) (rule upd; use san False in \<open>simp add: change_range_def entry_ok_def\<close>)
  qed
qed

lemma unchanged_update:
  assumes "pgwf ops lim s" "\<And>g. v \<le> g \<Longrightarrow> g < ve \<Longrightarrow> tr ops rmask s l g = None"
  shows "pg_update ops rmask lim l v ve (change_range rmask type st cl) s s"
  using assms by (auto simp: pg_update_def)

subsection \<open>The loop over a page table\<close>

lemma modify_or_del_pte_loop_update:
  assumes pt: "get_pt_page ops \<noteq> None" and ok: "change_ok ops type st cl"
    and wf: "pgwf ops lim s" and v: "v < ve" "ve \<le> lim" "2 ^ 12 dvd v" "2 ^ 12 dvd ve"
    and ve: "ve \<le> next_boundary 21 v"
  shows "pg_update ops rmask lim IA32E_PT v ve (change_range rmask type st cl) s
     (modify_or_del_pte_loop ops type st cl (of_nat ve) (table_page ops IA32E_PT (v div 2 ^ 21))
        (of_nat v) (of_nat (v div 2 ^ 12 mod 512)) s)"
  using wf v ve
proof (induction "ve - v" arbitrary: v s rule: less_induct)
  case less
  let ?F = "change_range rmask type st cl" and ?i = "v div 2 ^ 12"
  let ?p = "slot ops IA32E_PT ?i"
  define s' where s': "s' = (if pgentry_present ops (pg_mem s ?p) = 0 then s
      else local_modify_or_del_pte ?p st cl type ops s)"
  note lay = pgwfD(1) [OF less.prems(1)] and a = aligned_step [OF less.prems(4,5,2)]
  have b: "ve < 2 ^ 64"
    using layout_base(4) [OF lay] less.prems(3) by simp
  have span: "g div 2 ^ 12 = ?i" if "v \<le> g" "g < v + 2 ^ 12" for g
    using aligned_span [OF less.prems(4), of g] that by blast
  have up: "pg_update ops rmask lim IA32E_PT v (v + 2 ^ 12) ?F s s'"
  proof (cases "present ops (tab ops s IA32E_PT ?i)")
    case True
    then show ?thesis
      using change_leaf [OF less.prems(1), of IA32E_PT v type st cl] less.prems pt ok
      by (simp add: s' leaf_entry_def present_def tab_def)
  next
    case False
    then have "tr ops rmask s IA32E_PT g = None" if "v \<le> g" "g < v + 2 ^ 12" for g
      using leaf_not_present_step [of s IA32E_PT g] span [OF that] by simp
    with False less.prems(1) show ?thesis
      by (auto simp: s' present_def tab_def intro: unchanged_update)
  qed
  have ptr: "entry_ptr (table_page ops IA32E_PT (v div 2 ^ 21)) (of_nat (?i mod 512)) = ?p"
    using table_ptr [of IA32E_PT v 12] by simp
  have idx: "(of_nat (?i mod 512) :: u64) < PTRS_PER_PTE"
    unfolding PTRS_PER_PTE_def by (rule table_index)
  have next_v: "(of_nat v :: u64) + PTE_SIZE = of_nat (v + 2 ^ 12)"
    by (simp only: size_powers of_nat_add)
  have unfold: "modify_or_del_pte_loop ops type st cl (of_nat ve) (table_page ops IA32E_PT (v div 2 ^ 21))
        (of_nat v) (of_nat (?i mod 512)) s =
      (if ve \<le> v + 2 ^ 12 then s'
       else modify_or_del_pte_loop ops type st cl (of_nat ve) (table_page ops IA32E_PT (v div 2 ^ 21))
              (of_nat (v + 2 ^ 12)) (of_nat (?i mod 512) + 1) s')"
    by (subst modify_or_del_pte_loop.simps)
      (use b a in \<open>simp only: ptr idx Let_def next_v of_nat_u64_le simp_thms if_True s' [symmetric]\<close>)
  show ?case
  proof (cases "ve \<le> v + 2 ^ 12")
    case True
    with a up unfold show ?thesis by simp
  next
    case False
    have nb: "next_boundary 12 v = v + 2 ^ 12"
      by (rule next_boundary_aligned [OF less.prems(4)])
    have nx: "(v + 2 ^ 12) div 2 ^ 21 = v div 2 ^ 21" "(v + 2 ^ 12) div 2 ^ 12 mod 512 = Suc (?i mod 512)"
      "next_boundary 21 (v + 2 ^ 12) = next_boundary 21 v"
      using next_index [of 12 v] False less.prems(6) by (simp_all add: nb)
    have "pg_update ops rmask lim IA32E_PT (v + 2 ^ 12) ve ?F s'
       (modify_or_del_pte_loop ops type st cl (of_nat ve) (table_page ops IA32E_PT ((v + 2 ^ 12) div 2 ^ 21))
          (of_nat (v + 2 ^ 12)) (of_nat ((v + 2 ^ 12) div 2 ^ 12 mod 512)) s')"
      using less.prems False pg_updateD(1) [OF up] nx(3) by (intro less.hyps) (simp_all add: dvd_add)
    with up False show ?thesis
      unfolding unfold nx using a by (auto intro: pg_update_trans simp: add.commute)
  qed
qed

lemma modify_or_del_pte_entry:
  assumes wf: "pgwf ops lim s" and v: "v < ve" "ve \<le> lim" "2 ^ 12 dvd v" "2 ^ 12 dvd ve"
    and ve: "ve \<le> next_boundary 21 v" and ok: "change_ok ops type st cl" and pt: "get_pt_page ops \<noteq> None"
    and e: "tab ops s IA32E_PD (v div 2 ^ 21) AND (mask 39 AND NOT (mask 12)) =
        table_page ops IA32E_PT (v div 2 ^ 21)"
  shows "pg_update ops rmask lim IA32E_PT v ve (change_range rmask type st cl) s
     (modify_or_del_pte (slot ops IA32E_PD (v div 2 ^ 21)) (of_nat v) (of_nat ve) st cl ops type s)"
  using modify_or_del_pte_loop_update [OF pt ok wf v ve] e loop_bounds(1) [OF wf v(1,2), of 0]
  by (simp add: modify_or_del_pte_def page_vaddr_eq index_of_nat tab_def)

subsection \<open>One turn of the loop over a directory\<close>

text \<open>
  An entry that is not present is skipped, a large page inside the range is changed as a whole, a
  large page that straddles an end of the range is split first, and \<open>low\<close> works on the table of
  the entry.
\<close>

definition change_entry ::
  "page_table_level \<Rightarrow> (pgst \<Rightarrow> pgst option) \<Rightarrow> nat \<Rightarrow> nat \<Rightarrow> u32 \<Rightarrow> u64 \<Rightarrow> u64 \<Rightarrow> pgst \<Rightarrow> pgst option" where
  "change_entry l low v ve type st cl s =
     (let i = level_index l v; e = tab ops s l i in
      if \<not> present ops e then Some s
      else if leaf_entry l e \<and> next_boundary (level_shift l) v \<le> ve \<and> 2 ^ level_shift l dvd v
      then Some (local_modify_or_del_pte (slot ops l i) st cl type ops s)
      else Option.bind (if leaf_entry l e then split_large_page (slot ops l i) l (of_nat v) ops s else Some s) low)"

definition change_inv :: "nat \<Rightarrow> nat \<Rightarrow> nat \<Rightarrow> bool" where
  "change_inv lim ve v \<longleftrightarrow> ve \<le> lim \<and> 2 ^ 12 dvd v \<and> 2 ^ 12 dvd ve \<and>
     (get_pt_page ops \<noteq> None \<or> 2 ^ 21 dvd v \<and> 2 ^ 21 dvd ve)"

lemma change_inv_split:
  assumes "change_inv lim ve v" "21 \<le> n" "v < ve"
  shows "change_inv lim (min (next_boundary n v) ve) v"
    "next_boundary n v < ve \<Longrightarrow> change_inv lim ve (next_boundary n v)"
proof -
  have d: "2 ^ 21 dvd next_boundary n v"
    by (rule dvd_trans [OF le_imp_power_dvd [OF assms(2)] next_boundary_props(2)])
  then have "2 ^ 12 dvd next_boundary n v"
    by (rule dvd_trans [OF le_imp_power_dvd, rotated]) simp
  with d assms show "change_inv lim (min (next_boundary n v) ve) v"
    "next_boundary n v < ve \<Longrightarrow> change_inv lim ve (next_boundary n v)"
    by (auto simp: change_inv_def min_def)
qed

lemma change_entry_update:
  assumes wf: "pgwf ops lim s" and inv: "change_inv lim ve v" and v: "v < ve" and ok: "change_ok ops type st cl"
    and l: "l = IA32E_PDPT \<or> l = IA32E_PD"
    and low: "\<And>s1. pgwf ops lim s1 \<Longrightarrow>
       tab ops s1 l (level_index l v) AND (mask 39 AND NOT (mask 12)) =
         table_page ops (next_level l) (level_index l v) \<Longrightarrow>
       l = IA32E_PD \<longrightarrow> get_pt_page ops \<noteq> None \<Longrightarrow>
       \<exists>s2. low s1 = Some s2 \<and>
         pg_update ops rmask lim (next_level l) v (min (next_boundary (level_shift l) v) ve)
           (change_range rmask type st cl) s1 s2"
  obtains s' where "change_entry l low v ve type st cl s = Some s'"
    "pg_update ops rmask lim l v (min (next_boundary (level_shift l) v) ve) (change_range rmask type st cl) s s'"
proof -
  let ?i = "level_index l v" and ?w = "next_boundary (level_shift l) v" and ?F = "change_range rmask type st cl"
  let ?e = "tab ops s l ?i"
  have l': "l \<noteq> IA32E_PML4" "l \<noteq> IA32E_PT" and vl: "v < lim"
    using l inv v by (auto simp: change_inv_def)
  note lay = pgwfD(1) [OF wf] and span = index_in_span [of v _ "level_shift l" ve] and result = that
  have down: thesis
    if s1: "pgwf ops lim s1" "pg_update ops rmask lim l v v ?F s s1"
      and e1: "present ops (tab ops s1 l ?i)" "\<not> leaf_entry l (tab ops s1 l ?i)"
      and c: "change_entry l low v ve type st cl s = low s1" for s1
  proof -
    have "l = IA32E_PD \<longrightarrow> get_pt_page ops \<noteq> None"
      using table_of_entry(2) [OF s1(1) vl l'(2) e1] by (auto split: if_splits)
    then obtain s2 where "low s1 = Some s2" "pg_update ops rmask lim (next_level l) v (min ?w ve) ?F s1 s2"
      using low [OF s1(1) table_of_entry(1) [OF s1(1) vl l'(2) e1]] by blast
    then show thesis
      using result [of s2] c descend_update [OF s1 e1 l'(2) _ less_imp_le [OF min_boundary [OF v]] span]
      by simp
  qed
  consider (none) "\<not> present ops ?e" | (table) "present ops ?e" "\<not> leaf_entry l ?e"
    | (whole) "present ops ?e" "leaf_entry l ?e" "?w \<le> ve" "2 ^ level_shift l dvd v"
    | (part) "present ops ?e" "leaf_entry l ?e" "\<not> (?w \<le> ve \<and> 2 ^ level_shift l dvd v)"
    by blast
  then show thesis
  proof cases
    case none
    then have "tr ops rmask s l g = None" if "v \<le> g" "g < min ?w ve" for g
      using leaf_not_present_step [of s l g] span [OF that] by simp
    then have "pg_update ops rmask lim l v (min ?w ve) ?F s s"
      by (rule unchanged_update [OF wf])
    then show thesis
      using that [of s] none by (simp add: change_entry_def Let_def)
  next
    case table
    then show thesis
      using down [OF wf pg_update_refl [OF wf]] by (simp add: change_entry_def Let_def)
  next
    case whole
    then show thesis
      using that change_leaf [OF wf disjI1 [OF l'(2)] vl whole(4) ok whole(1,2)]
        next_boundary_aligned [OF whole(4)]
      by (simp add: change_entry_def Let_def)
  next
    case part
    have lpt: "l = IA32E_PDPT \<or> l = IA32E_PD \<and> get_pt_page ops \<noteq> None"
      using l part(3) inv aligned_step [of 21 v ve] v next_boundary_aligned [of 21 v]
      by (auto simp: change_inv_def)
    from lpt obtain s1 where s1: "split_large_page (slot ops l ?i) l (of_nat v) ops s = Some s1"
        "\<And>x F. pg_update ops rmask lim l x x F s s1"
        "tab ops s1 l ?i = table_page ops (next_level l) ?i OR get_default_access_right ops"
      using split_update [OF wf _ vl refl refl part(1,2)] by blast
    have "?i < level_pages (next_level l) ops lim"
      using index_below_pages [OF vl l'(2), of ops] lpt by blast
    note te = table_entry [OF lay this l'(2)]
    show thesis
      using down [OF pg_updateD(1) [OF s1(2)] s1(2)] te(1,2) s1(1,3) part
      by (simp add: change_entry_def Let_def)
  qed
qed

subsection \<open>The loops over the directories\<close>

lemma split_case_bind:
  "(case x of None \<Rightarrow> None | Some s1 \<Rightarrow> f s1) = Option.bind x f"
  by (cases x) simp_all

lemma modify_or_del_pde_loop_eq:
  assumes wf: "pgwf ops lim s" and inv: "change_inv lim ve v" and v: "v < ve"
  defines "w \<equiv> next_boundary 21 v"
  shows "modify_or_del_pde_loop ops type st cl (of_nat ve) (table_page ops IA32E_PD (v div 2 ^ 30)) (of_nat v)
       (of_nat (v div 2 ^ 21 mod 512)) s =
     Option.bind (change_entry IA32E_PD
         (\<lambda>s1. Some (modify_or_del_pte (slot ops IA32E_PD (v div 2 ^ 21)) (of_nat v) (of_nat (min w ve)) st cl ops type s1))
         v ve type st cl s)
       (\<lambda>s'. if ve \<le> w then Some s'
          else modify_or_del_pde_loop ops type st cl (of_nat ve) (table_page ops IA32E_PD (v div 2 ^ 30)) (of_nat w)
                 (of_nat (v div 2 ^ 21 mod 512) + 1) s')"
proof -
  let ?i = "v div 2 ^ 21"
  have "ve \<le> lim" using inv by (simp add: change_inv_def)
  note b = loop_bounds [OF wf v this, of 21, folded w_def]
  have np: "pgentry_present ops (pg_mem s (slot ops IA32E_PD ?i)) = 0 \<longleftrightarrow>
      \<not> present ops (tab ops s IA32E_PD ?i)"
    by (simp add: present_def tab_def)
  have lf: "pde_large (pg_mem s (slot ops IA32E_PD ?i)) \<noteq> 0 \<longleftrightarrow> leaf_entry IA32E_PD (tab ops s IA32E_PD ?i)"
    by (simp add: pde_large_def tab_def leaf_entry_def)
  have idx: "(of_nat (?i mod 512) :: u64) < PTRS_PER_PDE"
    unfolding PTRS_PER_PDE_def by (rule table_index)
  have ptr: "entry_ptr (table_page ops IA32E_PD (v div 2 ^ 30)) (of_nat (?i mod 512)) = slot ops IA32E_PD ?i"
    using table_ptr [of IA32E_PD v 21] by simp
  note code = ptr idx lf np Let_def vaddr_next(3) [OF b(1), folded w_def] mem_aligned_of_nat(2) [OF b(1)]
    of_nat_u64_le [OF b(2,3)] of_nat_u64_le [OF b(3,2)] of_nat_u64_less [OF b(3,2)] of_nat_u64_less [OF b(2,3)]
    if_min [OF b(3,2)] if_True simp_thms split_case_bind
  show ?thesis
    by (subst modify_or_del_pde_loop.simps, simp only: code)
      (auto simp: change_entry_def Let_def w_def [symmetric] not_le not_less bind_eq_Some_conv)
qed

lemma modify_or_del_pdpte_loop_eq:
  assumes wf: "pgwf ops lim s" and inv: "change_inv lim ve v" and v: "v < ve"
  defines "w \<equiv> next_boundary 30 v"
  shows "modify_or_del_pdpte_loop ops type st cl (of_nat ve) (table_page ops IA32E_PDPT (v div 2 ^ 39)) (of_nat v)
       (of_nat (v div 2 ^ 30 mod 512)) s =
     Option.bind (change_entry IA32E_PDPT
         (modify_or_del_pde (slot ops IA32E_PDPT (v div 2 ^ 30)) (of_nat v) (of_nat (min w ve)) st cl ops type)
         v ve type st cl s)
       (\<lambda>s'. if ve \<le> w then Some s'
          else modify_or_del_pdpte_loop ops type st cl (of_nat ve) (table_page ops IA32E_PDPT (v div 2 ^ 39)) (of_nat w)
                 (of_nat (v div 2 ^ 30 mod 512) + 1) s')"
proof -
  let ?i = "v div 2 ^ 30"
  have "ve \<le> lim" using inv by (simp add: change_inv_def)
  note b = loop_bounds [OF wf v this, of 30, folded w_def]
  have np: "pgentry_present ops (pg_mem s (slot ops IA32E_PDPT ?i)) = 0 \<longleftrightarrow>
      \<not> present ops (tab ops s IA32E_PDPT ?i)"
    by (simp add: present_def tab_def)
  have lf: "pdpte_large (pg_mem s (slot ops IA32E_PDPT ?i)) \<noteq> 0 \<longleftrightarrow>
      leaf_entry IA32E_PDPT (tab ops s IA32E_PDPT ?i)"
    by (simp add: pdpte_large_def tab_def leaf_entry_def)
  have idx: "(of_nat (?i mod 512) :: u64) < PTRS_PER_PDPTE"
    unfolding PTRS_PER_PDPTE_def by (rule table_index)
  have ptr: "entry_ptr (table_page ops IA32E_PDPT (v div 2 ^ 39)) (of_nat (?i mod 512)) = slot ops IA32E_PDPT ?i"
    using table_ptr [of IA32E_PDPT v 30] by simp
  note code = ptr idx lf np Let_def vaddr_next(2) [OF b(1), folded w_def] mem_aligned_of_nat(1) [OF b(1)]
    of_nat_u64_le [OF b(2,3)] of_nat_u64_le [OF b(3,2)] of_nat_u64_less [OF b(3,2)] of_nat_u64_less [OF b(2,3)]
    if_min [OF b(3,2)] if_True simp_thms split_case_bind
  show ?thesis
    by (subst modify_or_del_pdpte_loop.simps, simp only: code)
      (auto simp: change_entry_def Let_def w_def [symmetric] not_le not_less bind_eq_Some_conv)
qed

lemma modify_or_del_pde_loop_update:
  assumes wf: "pgwf ops lim s" and inv: "change_inv lim ve v" and v: "v < ve" "ve \<le> next_boundary 30 v"
    and ok: "change_ok ops type st cl"
  shows "\<exists>s'. modify_or_del_pde_loop ops type st cl (of_nat ve) (table_page ops IA32E_PD (v div 2 ^ 30)) (of_nat v)
       (of_nat (v div 2 ^ 21 mod 512)) s = Some s' \<and>
     pg_update ops rmask lim IA32E_PD v ve (change_range rmask type st cl) s s'"
proof -
  let ?k = "v div 2 ^ 30" and ?F = "change_range rmask type st cl"
  let ?Q = "\<lambda>v (_ :: unit) (_ :: pgst). change_inv lim ve v \<and> ve \<le> next_boundary 30 v \<and> v div 2 ^ 30 = ?k"
  let ?loop = "\<lambda>v (_ :: unit). modify_or_del_pde_loop ops type st cl (of_nat ve) (table_page ops IA32E_PD ?k)
     (of_nat v) (of_nat (v div 2 ^ 21 mod 512))"
  have "\<exists>s'. ?loop v () s = Some s' \<and> pg_update ops rmask lim IA32E_PD v ve ?F s s'"
  proof (rule range_loop [where Q = ?Q and n = 21 and loop = ?loop and x = "()"])
    fix v x s assume Q: "?Q v x s" and v: "v < ve" and wf: "pgwf ops lim s"
    let ?w = "next_boundary 21 v"
    let ?low = "\<lambda>s1. Some (modify_or_del_pte (slot ops IA32E_PD (v div 2 ^ 21)) (of_nat v) (of_nat (min ?w ve)) st cl ops type s1)"
    from Q have inv: "change_inv lim ve v" and k: "ve \<le> next_boundary 30 v" "v div 2 ^ 30 = ?k"
      by simp_all
    have inv': "change_inv lim (min ?w ve) v"
      by (rule change_inv_split(1) [OF inv _ v]) simp
    obtain s' where 1: "change_entry IA32E_PD ?low v ve type st cl s = Some s'"
      "pg_update ops rmask lim IA32E_PD v (min ?w ve) ?F s s'"
      by (rule change_entry_update [OF wf inv v ok, where l = IA32E_PD and low = ?low])
        (use modify_or_del_pte_entry [OF _ min_boundary [OF v, of 21]] inv' ok in \<open>auto simp: change_inv_def\<close>)
    have nx: "?w div 2 ^ 30 = ?k" "next_boundary 30 ?w = next_boundary 30 v"
        "(of_nat (v div 2 ^ 21 mod 512) :: u64) + 1 = of_nat (?w div 2 ^ 21 mod 512)" if "?w < ve"
      using next_index(1,3) [of 21 v] next_entry_index [of 21 v] k that by simp_all
    show "\<exists>s' x'. pg_update ops rmask lim IA32E_PD v (min ?w ve) ?F s s' \<and>
        ?loop v x s = (if ve \<le> ?w then Some s' else ?loop ?w x' s') \<and> (?w < ve \<longrightarrow> ?Q ?w x' s')"
      using 1 modify_or_del_pde_loop_eq [OF wf inv v] nx k change_inv_split(2) [OF inv _ v, of 21]
      by (intro exI [of _ s'] exI [of _ "()"]) (simp add: not_le)
  qed (use wf inv v in auto)
  then show ?thesis by simp
qed

lemma modify_or_del_pde_entry:
  assumes wf: "pgwf ops lim s" and inv: "change_inv lim ve v" and v: "v < ve" "ve \<le> next_boundary 30 v"
    and ok: "change_ok ops type st cl"
    and e: "tab ops s IA32E_PDPT (v div 2 ^ 30) AND (mask 39 AND NOT (mask 12)) =
       table_page ops IA32E_PD (v div 2 ^ 30)"
  shows "\<exists>s'. modify_or_del_pde (slot ops IA32E_PDPT (v div 2 ^ 30)) (of_nat v) (of_nat ve) st cl ops type s = Some s' \<and>
     pg_update ops rmask lim IA32E_PD v ve (change_range rmask type st cl) s s'"
proof -
  have "ve \<le> lim" using inv by (simp add: change_inv_def)
  then show ?thesis
    using modify_or_del_pde_loop_update [OF wf inv v ok] e loop_bounds(1) [OF wf v(1), of 0]
    by (simp add: modify_or_del_pde_def page_vaddr_eq index_of_nat tab_def)
qed

lemma modify_or_del_pdpte_loop_update:
  assumes wf: "pgwf ops lim s" and inv: "change_inv lim ve v" and v: "v < ve" "ve \<le> next_boundary 39 v"
    and ok: "change_ok ops type st cl"
  shows "\<exists>s'. modify_or_del_pdpte_loop ops type st cl (of_nat ve) (table_page ops IA32E_PDPT (v div 2 ^ 39)) (of_nat v)
       (of_nat (v div 2 ^ 30 mod 512)) s = Some s' \<and>
     pg_update ops rmask lim IA32E_PDPT v ve (change_range rmask type st cl) s s'"
proof -
  let ?k = "v div 2 ^ 39" and ?F = "change_range rmask type st cl"
  let ?Q = "\<lambda>v (_ :: unit) (_ :: pgst). change_inv lim ve v \<and> ve \<le> next_boundary 39 v \<and> v div 2 ^ 39 = ?k"
  let ?loop = "\<lambda>v (_ :: unit). modify_or_del_pdpte_loop ops type st cl (of_nat ve) (table_page ops IA32E_PDPT ?k)
     (of_nat v) (of_nat (v div 2 ^ 30 mod 512))"
  have "\<exists>s'. ?loop v () s = Some s' \<and> pg_update ops rmask lim IA32E_PDPT v ve ?F s s'"
  proof (rule range_loop [where Q = ?Q and n = 30 and loop = ?loop and x = "()"])
    fix v x s assume Q: "?Q v x s" and v: "v < ve" and wf: "pgwf ops lim s"
    let ?w = "next_boundary 30 v"
    let ?low = "modify_or_del_pde (slot ops IA32E_PDPT (v div 2 ^ 30)) (of_nat v) (of_nat (min ?w ve)) st cl ops type"
    from Q have inv: "change_inv lim ve v" and k: "ve \<le> next_boundary 39 v" "v div 2 ^ 39 = ?k"
      by simp_all
    have inv': "change_inv lim (min ?w ve) v"
      by (rule change_inv_split(1) [OF inv _ v]) simp
    obtain s' where 1: "change_entry IA32E_PDPT ?low v ve type st cl s = Some s'"
      "pg_update ops rmask lim IA32E_PDPT v (min ?w ve) ?F s s'"
      by (rule change_entry_update [OF wf inv v ok, where l = IA32E_PDPT and low = ?low])
        (use modify_or_del_pde_entry [OF _ inv' min_boundary [OF v, of 30]] ok in auto)
    have nx: "?w div 2 ^ 39 = ?k" "next_boundary 39 ?w = next_boundary 39 v"
        "(of_nat (v div 2 ^ 30 mod 512) :: u64) + 1 = of_nat (?w div 2 ^ 30 mod 512)" if "?w < ve"
      using next_index(1,3) [of 30 v] next_entry_index [of 30 v] k that by simp_all
    show "\<exists>s' x'. pg_update ops rmask lim IA32E_PDPT v (min ?w ve) ?F s s' \<and>
        ?loop v x s = (if ve \<le> ?w then Some s' else ?loop ?w x' s') \<and> (?w < ve \<longrightarrow> ?Q ?w x' s')"
      using 1 modify_or_del_pdpte_loop_eq [OF wf inv v] nx k change_inv_split(2) [OF inv _ v, of 30]
      by (intro exI [of _ s'] exI [of _ "()"]) (simp add: not_le)
  qed (use wf inv v in auto)
  then show ?thesis by simp
qed

lemma modify_or_del_pdpte_entry:
  assumes wf: "pgwf ops lim s" and inv: "change_inv lim ve v" and v: "v < ve" "ve \<le> next_boundary 39 v"
    and ok: "change_ok ops type st cl"
    and e: "tab ops s IA32E_PML4 (v div 2 ^ 39) AND (mask 39 AND NOT (mask 12)) =
       table_page ops IA32E_PDPT (v div 2 ^ 39)"
  shows "\<exists>s'. modify_or_del_pdpte (slot ops IA32E_PML4 (v div 2 ^ 39)) (of_nat v) (of_nat ve) st cl ops type s = Some s' \<and>
     pg_update ops rmask lim IA32E_PDPT v ve (change_range rmask type st cl) s s'"
proof -
  have "ve \<le> lim" using inv by (simp add: change_inv_def)
  then show ?thesis
    using modify_or_del_pdpte_loop_update [OF wf inv v ok] e loop_bounds(1) [OF wf v(1), of 0]
    by (simp add: modify_or_del_pdpte_def page_vaddr_eq index_of_nat tab_def)
qed

subsection \<open>The loop over the PML4 table\<close>

text \<open>
  For a deletion the code does not test the PML4 entry, so the entries of the range have to be
  present.
\<close>

definition pml4_present :: "u32 \<Rightarrow> nat \<Rightarrow> nat \<Rightarrow> pgst \<Rightarrow> bool" where
  "pml4_present type v ve s \<longleftrightarrow> type \<noteq> MR_MODIFY \<longrightarrow>
     (\<forall>g. v \<le> g \<and> g < ve \<longrightarrow> present ops (tab ops s IA32E_PML4 (g div 2 ^ 39)))"

lemma change_pml4_entry:
  assumes wf: "pgwf ops lim s" and inv: "change_inv lim ve v" and v: "v < ve" and ok: "change_ok ops type st cl"
    and e: "present ops (tab ops s IA32E_PML4 (v div 2 ^ 39))" and pp: "pml4_present type v ve s"
  defines "w \<equiv> next_boundary 39 v"
  obtains s' where "modify_or_del_pdpte (slot ops IA32E_PML4 (v div 2 ^ 39)) (of_nat v) (of_nat (min w ve)) st cl ops type s = Some s'"
    "pg_update ops rmask lim IA32E_PML4 v (min w ve) (change_range rmask type st cl) s s'"
    "w < ve \<Longrightarrow> pml4_present type w ve s'"
proof -
  have vl: "v < lim" and mw: "min w ve \<le> next_boundary 39 v" and wv: "v < min w ve" "v \<le> w" and vel: "ve \<le> lim"
    using inv v min_boundary [OF v, of 39] by (auto simp: change_inv_def w_def)
  have inv': "change_inv lim (min w ve) v"
    unfolding w_def by (rule change_inv_split(1) [OF inv _ v]) simp
  have tp: "tab ops s IA32E_PML4 (v div 2 ^ 39) AND (mask 39 AND NOT (mask 12)) =
       table_page ops IA32E_PDPT (v div 2 ^ 39)"
    using table_of_entry(1) [OF wf vl, of IA32E_PML4] e pml4_not_leaf by simp
  obtain s' where s': "modify_or_del_pdpte (slot ops IA32E_PML4 (v div 2 ^ 39)) (of_nat v) (of_nat (min w ve)) st cl ops type s = Some s'"
      "pg_update ops rmask lim IA32E_PDPT v (min w ve) (change_range rmask type st cl) s s'"
    using modify_or_del_pdpte_entry [OF wf inv' wv(1) mw ok tp] by blast
  have "pg_update ops rmask lim IA32E_PML4 v (min w ve) (change_range rmask type st cl) s s'"
  proof (rule pg_update_lift [where i = "v div 2 ^ 39", OF wf _ _ e pml4_not_leaf])
    show "pg_update ops rmask lim (next_level IA32E_PML4) v (min w ve) (change_range rmask type st cl) s s'"
      using s'(2) by simp
    show "level_index IA32E_PML4 g = v div 2 ^ 39" if "v \<le> g" "g < min w ve" for g
      using index_in_span [of v g 39 ve] that by (simp add: w_def)
  qed simp
  moreover have "tab ops s' IA32E_PML4 (g div 2 ^ 39) = tab ops s IA32E_PML4 (g div 2 ^ 39)" if "g < lim" for g
    using pg_updateD(3) [OF s'(2), of IA32E_PML4 "g div 2 ^ 39"] valid_index [OF pgwfD(1) [OF wf] that, of IA32E_PML4]
    by simp
  then have "pml4_present type w ve s'"
    using pp wv(2) vel by (simp add: pml4_present_def)
  ultimately show thesis
    using that s'(1) by blast
qed

lemma mmu_modify_or_del_loop_update:
  assumes wf: "pgwf ops lim s" and inv: "change_inv lim ve v" and v: "v < ve" and ok: "change_ok ops type st cl"
    and pp: "pml4_present type v ve s"
  shows "\<exists>s'. mmu_modify_or_del_loop (pml4_base (info ops)) st cl ops type (of_nat ve) (of_nat v) s = Some s' \<and>
     pg_update ops rmask lim IA32E_PML4 v ve (change_range rmask type st cl) s s'"
proof (rule range_loop [where n = 39 and x = "()" and
      loop = "\<lambda>v _. mmu_modify_or_del_loop (pml4_base (info ops)) st cl ops type (of_nat ve) (of_nat v)" and
      Q = "\<lambda>v _ s. change_inv lim ve v \<and> pml4_present type v ve s"])
  fix v x s assume Q: "change_inv lim ve v \<and> pml4_present type v ve s" and v: "v < ve" and wf: "pgwf ops lim s"
  let ?w = "next_boundary 39 v" and ?i = "v div 2 ^ 39" and ?F = "change_range rmask type st cl"
  let ?loop = "mmu_modify_or_del_loop (pml4_base (info ops)) st cl ops type (of_nat ve)"
  have vel: "ve \<le> lim" and vl: "v < lim"
    using Q v by (auto simp: change_inv_def)
  note b = loop_bounds [OF wf v vel, of 39] and inv' = change_inv_split(2) [OF conjunct1 [OF Q] _ v, of 39]
  have np: "pgentry_present ops (pg_mem s (slot ops IA32E_PML4 ?i)) = 0 \<longleftrightarrow>
      \<not> present ops (tab ops s IA32E_PML4 ?i)"
    by (simp add: present_def tab_def)
  note code = vaddr_next(1) [OF b(1)] pml4e_slot [OF pgwfD(1) [OF wf] vl] np
    of_nat_u64_less [OF b(1,2)] if_min [OF b(3,2)]
  have stop: "?loop (of_nat ?w) t = Some t" if "ve \<le> ?w" for t
    using that by (subst mmu_modify_or_del_loop.simps)
      (simp only: of_nat_u64_less [OF b(3,2)] not_less [symmetric] if_False)
  show "\<exists>s' x'. pg_update ops rmask lim IA32E_PML4 v (min ?w ve) ?F s s' \<and>
      ?loop (of_nat v) s = (if ve \<le> ?w then Some s' else ?loop (of_nat ?w) s') \<and>
      (?w < ve \<longrightarrow> change_inv lim ve ?w \<and> pml4_present type ?w ve s')"
  proof (cases "present ops (tab ops s IA32E_PML4 ?i)")
    case True
    obtain s' where s': "modify_or_del_pdpte (slot ops IA32E_PML4 ?i) (of_nat v) (of_nat (min ?w ve)) st cl ops type s = Some s'"
      "pg_update ops rmask lim IA32E_PML4 v (min ?w ve) ?F s s'" "?w < ve \<Longrightarrow> pml4_present type ?w ve s'"
      by (rule change_pml4_entry [OF wf _ v ok True]) (use Q in auto)
    have "?loop (of_nat v) s = ?loop (of_nat ?w) s'"
      using True v s'(1) by (subst mmu_modify_or_del_loop.simps, simp only: Let_def code) simp
    with s'(2,3) stop inv' show ?thesis by auto
  next
    case False
    have "type = MR_MODIFY"
      using Q False v by (auto simp: pml4_present_def)
    with False v have "?loop (of_nat v) s = ?loop (of_nat ?w) s"
      by (subst mmu_modify_or_del_loop.simps, simp only: Let_def code) simp
    moreover have "tr ops rmask s IA32E_PML4 g = None" if "v \<le> g" "g < min ?w ve" for g
      using leaf_not_present_step [of s IA32E_PML4 g] index_in_span [OF that] False by simp
    then have "pg_update ops rmask lim IA32E_PML4 v (min ?w ve) ?F s s"
      by (rule unchanged_update [OF wf])
    ultimately show ?thesis
      using stop inv' \<open>type = MR_MODIFY\<close> by (auto simp: pml4_present_def)
  qed
qed (use wf inv v pp in auto)

theorem mmu_modify_or_del_update:
  fixes vaddr_base sz prot_set prot_clr :: u64
  defines "v \<equiv> page_down (unat vaddr_base)" and "ve \<equiv> page_up (unat vaddr_base + unat sz)"
  assumes wf: "pgwf ops lim s" and sz: "sz \<noteq> 0" and ve: "ve \<le> lim"
    and lo: "get_pt_page ops \<noteq> None \<or> 2 ^ 21 dvd v \<and> 2 ^ 21 dvd ve"
    and ok: "change_ok ops type prot_set prot_clr" and pp: "pml4_present type v ve s"
  shows "\<exists>s'. mmu_modify_or_del (pml4_base (info ops)) vaddr_base sz prot_set prot_clr ops type s = Some s' \<and>
     pg_update ops rmask lim IA32E_PML4 v ve (change_range rmask type prot_set prot_clr) s s'"
proof -
  have "unat vaddr_base + unat sz \<le> ve"
    unfolding ve_def by (rule page_up_ge)
  then have b: "unat vaddr_base + unat sz \<le> 2 ^ 48"
    using ve layout_base(4) [OF pgwfD(1) [OF wf]] by simp
  then have u: "unat (vaddr_base + sz) = unat vaddr_base + unat sz"
    by (intro unat_add_small) simp
  then have w: "round_page_down vaddr_base = of_nat v" "round_page_up (vaddr_base + sz) = of_nat ve"
    using round_page_nat(1) [of vaddr_base] round_page_nat(2) [of "vaddr_base + sz"] b
    unfolding v_def ve_def by (simp_all flip: u add: unat_word_eqI)
  have "v < ve"
    using page_down_le [of "unat vaddr_base"] \<open>unat vaddr_base + unat sz \<le> ve\<close> sz
    by (simp add: v_def word_nat_eq)
  moreover have "change_inv lim ve v"
    using ve lo page_aligned by (auto simp: change_inv_def v_def ve_def)
  ultimately show ?thesis
    using mmu_modify_or_del_loop_update [OF wf _ _ ok pp] by (simp add: mmu_modify_or_del_def w)
qed

end

end
