(* ===== verification/Acrn_Paging_Ops.thy ===== *)
theory Acrn_Paging_Ops
  imports Acrn_Mmu_Modify
begin

text \<open>
  \<^verbatim>\<open>lookup_address\<close> implements the abstract page walk, and the two instances of
  \<^verbatim>\<open>struct memory_ops\<close> of \<^verbatim>\<open>src/hypervisor/arch/x86/page.c\<close> obey the laws of
  the locale \<open>paging\<close>.
\<close>

context paging
begin

lemma offset_slots:
  assumes wf: "pgwf ops lim s" and g: "g < lim" and l: "l \<noteq> IA32E_PT"
    and e: "present ops (tab ops s l (level_index l g))" "\<not> leaf_entry l (tab ops s l (level_index l g))"
  shows "entry_ptr (pg_mem s (slot ops l (level_index l g)) AND (mask 39 AND NOT (mask 12)))
           (of_nat (level_index (next_level l) g mod 512)) = slot ops (next_level l) (level_index (next_level l) g)"
proof -
  have "pg_mem s (slot ops l (level_index l g)) AND (mask 39 AND NOT (mask 12)) =
      table_page ops (next_level l) (g div 2 ^ (level_shift (next_level l) + 9))"
    using table_of_entry(1) [OF wf g l e] level_shift_next [OF l] by (simp add: tab_def)
  then show ?thesis
    by (simp only: table_ptr)
qed

text \<open>Tables without a present entry map nothing.\<close>

lemma empty_tables:
  assumes lay: "pages_layout ops lim" and san: "sanitized_page s AND mask 12 = 0"
    and e: "\<And>l i. valid_slot ops lim l i \<Longrightarrow> \<not> present ops (tab ops s l i) \<and> tab ops s l i AND PAGE_PS = 0"
  shows "pgwf ops lim s" "x < lim \<Longrightarrow> tr ops rmask s IA32E_PML4 x = None"
proof -
  show "pgwf ops lim s"
    using lay san e by (simp add: pgwf_def entry_ok_def)
  assume "x < lim"
  then have "valid_slot ops lim IA32E_PML4 (level_index IA32E_PML4 x)"
    using layout_base(4) [OF lay] by (simp add: div_less_iff_less_mult)
  then show "tr ops rmask s IA32E_PML4 x = None"
    using e by (intro leaf_not_present_step) blast
qed

lemma upper_index:
  assumes "l \<noteq> IA32E_PML4" and "level_index l g' = level_index l g"
  shows "l = IA32E_PT \<Longrightarrow> level_index IA32E_PD g' = level_index IA32E_PD g"
    "l \<noteq> IA32E_PDPT \<Longrightarrow> level_index IA32E_PDPT g' = level_index IA32E_PDPT g"
    "level_index IA32E_PML4 g' = level_index IA32E_PML4 g"
proof -
  have 2: "level_index IA32E_PD g' = level_index IA32E_PD g" if "l = IA32E_PT"
    using assms that level_index_next [of IA32E_PD g] level_index_next [of IA32E_PD g'] by simp
  then show "l = IA32E_PT \<Longrightarrow> level_index IA32E_PD g' = level_index IA32E_PD g" .
  have 3: "level_index IA32E_PDPT g' = level_index IA32E_PDPT g" if "l \<noteq> IA32E_PDPT"
    using assms that 2 level_index_next [of IA32E_PDPT g] level_index_next [of IA32E_PDPT g'] by (cases l) simp_all
  then show "l \<noteq> IA32E_PDPT \<Longrightarrow> level_index IA32E_PDPT g' = level_index IA32E_PDPT g" .
  show "level_index IA32E_PML4 g' = level_index IA32E_PML4 g"
    using assms 3 level_index_next [of IA32E_PML4 g] level_index_next [of IA32E_PML4 g'] by (cases "l = IA32E_PDPT") simp_all
qed

text \<open>The entry the walk ends at, with the size of the page it maps, the same for all addresses of the page.\<close>

lemma lookup_address_walk:
  assumes wf: "pgwf ops lim s" and g: "g < lim"
  shows "case lookup_address (pml4_base (info ops)) (of_nat g) ops s of
      None \<Rightarrow> tr ops rmask s IA32E_PML4 g = None
    | Some (p, sz) \<Rightarrow> \<exists>l. l \<noteq> IA32E_PML4 \<and> p = slot ops l (level_index l g) \<and> sz = of_nat (2 ^ level_shift l) \<and>
        present ops (pg_mem s p) \<and> leaf_entry l (pg_mem s p) \<and> valid_slot ops lim l (level_index l g) \<and>
        (\<forall>g'. level_index l g' = level_index l g \<longrightarrow>
           tr ops rmask s IA32E_PML4 g' = Some (leaf rmask (level_shift l) g' (pg_mem s p)))"
proof -
  have g64: "g < 2 ^ 64"
    using g layout_base(4) [OF pgwfD(1) [OF wf]] by simp
  let ?e = "\<lambda>l. tab ops s l (level_index l g)"
  note off = pdpte_offset_def pde_offset_def pte_offset_def page_vaddr_eq index_of_nat [OF g64]
  note step = tr_step [of ops rmask s _ g]
  have m: "pgentry_present ops (pg_mem s (slot ops l i)) \<noteq> 0 \<longleftrightarrow> present ops (tab ops s l i)" for l i
    by (simp add: present_def tab_def)
  have lg: "pdpte_large (pg_mem s (slot ops IA32E_PDPT i)) \<noteq> 0 \<longleftrightarrow> leaf_entry IA32E_PDPT (tab ops s IA32E_PDPT i)"
    "pde_large (pg_mem s (slot ops IA32E_PD i)) \<noteq> 0 \<longleftrightarrow> leaf_entry IA32E_PD (tab ops s IA32E_PD i)" for i
    by (simp_all add: pdpte_large_def pde_large_def leaf_entry_def tab_def)
  have p3: "pdpte_offset (slot ops IA32E_PML4 (g div 2 ^ 39)) (of_nat g) s = slot ops IA32E_PDPT (g div 2 ^ 30)"
    if "present ops (?e IA32E_PML4)"
    using offset_slots [OF wf g, of IA32E_PML4] that pml4_not_leaf by (simp add: off)
  have p2: "pde_offset (slot ops IA32E_PDPT (g div 2 ^ 30)) (of_nat g) s = slot ops IA32E_PD (g div 2 ^ 21)"
    if "present ops (?e IA32E_PDPT)" "\<not> leaf_entry IA32E_PDPT (?e IA32E_PDPT)"
    using offset_slots [OF wf g, of IA32E_PDPT] that by (simp add: off)
  have p1: "pte_offset (slot ops IA32E_PD (g div 2 ^ 21)) (of_nat g) s = slot ops IA32E_PT (g div 2 ^ 12)"
    if "present ops (?e IA32E_PD)" "\<not> leaf_entry IA32E_PD (?e IA32E_PD)"
    using offset_slots [OF wf g, of IA32E_PD] that by (simp add: off)
  have v: "valid_slot ops lim l (level_index l g)" if "l \<noteq> IA32E_PT" for l
    using valid_index [OF pgwfD(1) [OF wf] g] that by blast
  have v1: "valid_slot ops lim IA32E_PT (level_index IA32E_PT g)"
    if "present ops (?e IA32E_PD)" "\<not> leaf_entry IA32E_PD (?e IA32E_PD)"
    using valid_next [of IA32E_PD g ops lim] table_of_entry(2) [OF wf g, of IA32E_PD] that by simp
  note look = lookup_address_def Let_def pml4e_slot [OF pgwfD(1) [OF wf] g] m lg
  consider (n4) "\<not> present ops (?e IA32E_PML4)"
    | (n3) "present ops (?e IA32E_PML4)" "\<not> present ops (?e IA32E_PDPT)"
    | (l3) "present ops (?e IA32E_PML4)" "present ops (?e IA32E_PDPT)" "leaf_entry IA32E_PDPT (?e IA32E_PDPT)"
    | (n2) "present ops (?e IA32E_PML4)" "present ops (?e IA32E_PDPT)" "\<not> leaf_entry IA32E_PDPT (?e IA32E_PDPT)"
        "\<not> present ops (?e IA32E_PD)"
    | (l2) "present ops (?e IA32E_PML4)" "present ops (?e IA32E_PDPT)" "\<not> leaf_entry IA32E_PDPT (?e IA32E_PDPT)"
        "present ops (?e IA32E_PD)" "leaf_entry IA32E_PD (?e IA32E_PD)"
    | (d1) "present ops (?e IA32E_PML4)" "present ops (?e IA32E_PDPT)" "\<not> leaf_entry IA32E_PDPT (?e IA32E_PDPT)"
        "present ops (?e IA32E_PD)" "\<not> leaf_entry IA32E_PD (?e IA32E_PD)"
    by blast
  then show ?thesis
  proof cases
    case n4
    then show ?thesis by (simp add: look tr.simps)
  next
    case n3
    then show ?thesis using p3 by (simp add: look tr.simps)
  next
    case l3
    have lk: "lookup_address (pml4_base (info ops)) (of_nat g) ops s = Some (slot ops IA32E_PDPT (g div 2 ^ 30), PDPTE_SIZE)"
      using l3 p3 by (simp add: look)
    have "tr ops rmask s IA32E_PML4 g' = Some (leaf rmask 30 g' (?e IA32E_PDPT))"
      if "level_index IA32E_PDPT g' = level_index IA32E_PDPT g" for g'
      using l3 that upper_index [OF _ that] by (simp add: tr.simps Let_def)
    with l3 v [of IA32E_PDPT] show ?thesis
      unfolding lk by (simp add: size_powers tab_def exI [of _ IA32E_PDPT])
  next
    case n2
    then show ?thesis using p3 p2 by (simp add: look tr.simps)
  next
    case l2
    have lk: "lookup_address (pml4_base (info ops)) (of_nat g) ops s = Some (slot ops IA32E_PD (g div 2 ^ 21), PDE_SIZE)"
      using l2 p3 p2 by (simp add: look)
    have "tr ops rmask s IA32E_PML4 g' = Some (leaf rmask 21 g' (?e IA32E_PD))"
      if "level_index IA32E_PD g' = level_index IA32E_PD g" for g'
      using l2 that upper_index [OF _ that] by (simp add: tr.simps Let_def)
    with l2 v [of IA32E_PD] show ?thesis
      unfolding lk by (simp add: size_powers tab_def exI [of _ IA32E_PD])
  next
    case d1
    show ?thesis
    proof (cases "present ops (?e IA32E_PT)")
      case True
      have lk: "lookup_address (pml4_base (info ops)) (of_nat g) ops s = Some (slot ops IA32E_PT (g div 2 ^ 12), PTE_SIZE)"
        using d1 True p3 p2 p1 by (simp add: look)
      have "tr ops rmask s IA32E_PML4 g' = Some (leaf rmask 12 g' (?e IA32E_PT))"
        if "level_index IA32E_PT g' = level_index IA32E_PT g" for g'
        using d1 True that upper_index [OF _ that] by (simp add: tr.simps Let_def)
      with d1 True v1 show ?thesis
        unfolding lk by (simp add: size_powers tab_def leaf_entry_def exI [of _ IA32E_PT])
    next
      case False
      with d1 p3 p2 p1 show ?thesis by (simp add: look tr.simps)
    qed
  qed
qed

end

subsection \<open>The two instances\<close>

text \<open>
  The rights of an EPT entry are the read, write and execute bits, the memory type and the snoop
  bit; on a platform that needs the execute-right workaround the execute bit is not tracked, since
  the workaround changes it.
\<close>

definition ept_rmask :: "bool \<Rightarrow> u64" where
  "ept_rmask force_4k_ipage = (if force_4k_ipage then 0x83B else 0x83F)"

definition ppt_rmask :: u64 where
  "ppt_rmask = PAGE_PRESENT OR PAGE_RW OR PAGE_USER OR PAGE_CACHE_MASK OR PAGE_NX"

lemma and_mask_nonzero: "bit e i \<Longrightarrow> bit m i \<Longrightarrow> e AND m \<noteq> (0 :: u64)"
  by (metis bit_and_iff bit_0_eq bot_apply bot_bool_def)

lemma and_mono_nonzero: "e AND m \<noteq> 0 \<Longrightarrow> (e OR x) AND m \<noteq> (0 :: u64)"
  by (metis bit.conj_disj_distrib2 or_eq_0_iff)

lemma ept_pres:
  "ept_pgentry_present e \<noteq> 0 \<longleftrightarrow> ept_pgentry_present (e AND 7) \<noteq> 0"
  "bit e 0 \<Longrightarrow> ept_pgentry_present e \<noteq> 0"
  "ept_pgentry_present e \<noteq> 0 \<Longrightarrow> ept_pgentry_present (e OR x) \<noteq> 0"
  "ept_pgentry_present 0 = 0"
  by (simp_all add: ept_pgentry_present_def EPT_RWX_def EPT_RD_def EPT_WR_def EPT_EXE_def and.assoc
      and_mask_nonzero and_mono_nonzero)

lemma ppt_pres:
  "ppt_pgentry_present e \<noteq> 0 \<longleftrightarrow> ppt_pgentry_present (e AND 7) \<noteq> 0"
  "bit e 0 \<Longrightarrow> ppt_pgentry_present e \<noteq> 0"
  "ppt_pgentry_present e \<noteq> 0 \<Longrightarrow> ppt_pgentry_present (e OR x) \<noteq> 0"
  "ppt_pgentry_present 0 = 0"
  unfolding ppt_pgentry_present_def PAGE_PRESENT_def
  using and_mask_nonzero [of e 0 1] and_mono_nonzero [of e 1 x] by (simp_all add: and.assoc)

lemma exe_right_laws:
  "ept_tweak_exe_right x AND NOT 4 = x AND NOT 4" "ept_recover_exe_right x AND NOT 4 = x AND NOT 4"
  "ept_tweak_exe_right x AND ept_rmask True = x AND ept_rmask True"
  "ept_recover_exe_right x AND ept_rmask True = x AND ept_rmask True"
  by (simp_all add: ept_tweak_exe_right_def ept_recover_exe_right_def EPT_EXE_def ept_rmask_def and.assoc
      bit.conj_disj_distrib2)

lemmas ept_ops_defs = init_ept_mem_ops_def ept_get_default_access_right_def EPT_RWX_def EPT_RD_def
  EPT_WR_def EPT_EXE_def ept_clflush_pagewalk_def ept_get_pdpt_page_def ept_get_pd_page_def
  ept_get_pt_page_def PAGE_SIZE_def PML4E_SHIFT_def PDPTE_SHIFT_def PDE_SHIFT_def
  nop_tweak_exe_right_def nop_recover_exe_right_def

interpretation ept: paging "init_ept_mem_ops pages f4k vm enf" "ept_rmask f4k" for pages f4k vm enf
proof (unfold_locales, goal_cases)
  case (1 e) show ?case using ept_pres(1) by (simp add: init_ept_mem_ops_def)
next
  case (2 e) then show ?case using ept_pres(2) by (simp add: init_ept_mem_ops_def)
next
  case (3 e x) then show ?case using ept_pres(3) by (simp add: init_ept_mem_ops_def)
next
  case (12 x) show ?case
    using exe_right_laws(1) by (simp only: init_ept_mem_ops_def) (simp add: nop_tweak_exe_right_def)
next
  case (13 x) show ?case
    using exe_right_laws(2) by (simp only: init_ept_mem_ops_def) (simp add: nop_recover_exe_right_def)
next
  case (16 x)
  then show ?case
    using ept_pres(3) [of x 4]
    by (simp add: init_ept_mem_ops_def nop_recover_exe_right_def ept_recover_exe_right_def EPT_EXE_def)
next
  case 17
  show ?case
    by (simp add: ept_rmask_def PDE_PROT_MASK_def PAGE_PS_def)
qed (auto simp: ept_ops_defs Let_def ept_pres(4) exe_right_laws)

lemmas ppt_ops_defs = ppt_mem_ops_def ppt_get_default_access_right_def PAGE_PRESENT_def PAGE_RW_def
  PAGE_USER_def ppt_clflush_pagewalk_def ppt_get_pdpt_page_def ppt_get_pd_page_def PAGE_SIZE_def
  PML4E_SHIFT_def PDPTE_SHIFT_def nop_tweak_exe_right_def nop_recover_exe_right_def

interpretation ppt: paging "ppt_mem_ops pages" ppt_rmask for pages
proof (unfold_locales, goal_cases)
  case (1 e) show ?case using ppt_pres(1) by (simp add: ppt_mem_ops_def)
next
  case (2 e) then show ?case using ppt_pres(2) by (simp add: ppt_mem_ops_def)
next
  case (3 e x) then show ?case using ppt_pres(3) by (simp add: ppt_mem_ops_def)
next
  case 17
  show ?case
    by (simp add: ppt_rmask_def PDE_PROT_MASK_def PAGE_PS_def PAGE_PRESENT_def PAGE_RW_def PAGE_USER_def
        PAGE_CACHE_MASK_def PAGE_PCD_def PAGE_PWT_def PAGE_NX_def)
qed (auto simp: ppt_ops_defs Let_def ppt_pres(4))

end
