(* ===== verification/Acrn_E820.thy ===== *)
theory Acrn_E820
  imports Acrn_Pgtable
begin

text \<open>
  The memory map of the platform (\<^verbatim>\<open>src/hypervisor/arch/x86/e820.c\<close>) and the one of a VM
  (\<^verbatim>\<open>src/hypervisor/arch/x86/guest/ve820.c\<close>).

  The static variables of \<^verbatim>\<open>e820.c\<close> are the record \<open>e820_state\<close>; its list holds the first
  \<^verbatim>\<open>hv_e820_entries_nr\<close> entries of \<^verbatim>\<open>hv_e820\<close>.
\<close>

definition E820_TYPE_RAM :: u32 where "E820_TYPE_RAM = 1"
definition E820_TYPE_RESERVED :: u32 where "E820_TYPE_RESERVED = 2"
definition E820_MAX_ENTRIES :: u32 where "E820_MAX_ENTRIES = 32"
definition ACRN_INVALID_HPA :: u64 where "ACRN_INVALID_HPA = NOT 0"
definition MULTIBOOT_INFO_MAGIC :: u32 where "MULTIBOOT_INFO_MAGIC = 0x2BADB002"
definition MULTIBOOT_INFO_HAS_MMAP :: u32 where "MULTIBOOT_INFO_HAS_MMAP = 0x40"
definition CONFIG_PLATFORM_RAM_SIZE :: u64 where "CONFIG_PLATFORM_RAM_SIZE = 0x400000000"
definition PLATFORM_LO_MMIO_SIZE :: u64 where "PLATFORM_LO_MMIO_SIZE = 0x80000000"
definition UINT64_MAX :: u64 where "UINT64_MAX = 0xffffffffffffffff"

record e820_entry =
  baseaddr :: u64
  e820_length :: u64
  e820_type :: u32

record mem_range =
  mem_bottom :: u64
  mem_top :: u64
  total_mem_size :: u64

record e820_state =
  hv_e820 :: "e820_entry list"
  hv_mem_range :: mem_range

subsection \<open>The range of the memory\<close>

definition obtain_mem_range_info :: "e820_entry list \<Rightarrow> mem_range" where
  "obtain_mem_range_info es =
     fold (\<lambda>e r.
        let r1 = (if mem_bottom r > baseaddr e then r\<lparr>mem_bottom := baseaddr e\<rparr> else r);
            r2 = (if baseaddr e + e820_length e > mem_top r1 then r1\<lparr>mem_top := baseaddr e + e820_length e\<rparr> else r1)
        in if e820_type e = E820_TYPE_RAM then r2\<lparr>total_mem_size := total_mem_size r2 + e820_length e\<rparr> else r2)
       es \<lparr>mem_bottom = UINT64_MAX, mem_top = 0, total_mem_size = 0\<rparr>"

subsection \<open>Initialisation\<close>

text \<open>
  \<^verbatim>\<open>init_e820\<close>. The multiboot information: \<^verbatim>\<open>boot_regs[0]\<close>, \<^verbatim>\<open>mi_flags\<close>,
  \<^verbatim>\<open>mi_mmap_length\<close> and the memory map it points to, whose entries have 24 bytes; \<open>None\<close> is
  \<^verbatim>\<open>panic\<close>.
\<close>

definition clip_mmap :: "e820_entry \<Rightarrow> e820_entry" where
  "clip_mmap m =
     (let top_addr_space = CONFIG_PLATFORM_RAM_SIZE + PLATFORM_LO_MMIO_SIZE in
      if baseaddr m \<ge> top_addr_space then m\<lparr>e820_length := 0\<rparr>
      else if baseaddr m + e820_length m > top_addr_space then m\<lparr>e820_length := top_addr_space - baseaddr m\<rparr>
      else m)"

definition init_e820 :: "u32 \<Rightarrow> u32 \<Rightarrow> u32 \<Rightarrow> (nat \<Rightarrow> e820_entry) \<Rightarrow> e820_state option" where
  "init_e820 magic mi_flags mi_mmap_length mmap =
     (if magic = MULTIBOOT_INFO_MAGIC then
        if mi_flags AND MULTIBOOT_INFO_HAS_MMAP \<noteq> 0 then
          let nr0 = mi_mmap_length div 24;
              nr = (if nr0 > E820_MAX_ENTRIES then E820_MAX_ENTRIES else nr0);
              es = map (\<lambda>i. clip_mmap (mmap i)) [0..<unat nr]
          in Some \<lparr>hv_e820 = es, hv_mem_range = obtain_mem_range_info es\<rparr>
        else None
      else None)"

definition get_e820_entries_count :: "e820_state \<Rightarrow> nat" where
  "get_e820_entries_count s = length (hv_e820 s)"

definition get_e820_entry :: "e820_state \<Rightarrow> e820_entry list" where
  "get_e820_entry s = hv_e820 s"

definition get_mem_range_info :: "e820_state \<Rightarrow> mem_range" where
  "get_mem_range_info s = hv_mem_range s"

subsection \<open>Allocation of low memory\<close>

definition low_start :: "e820_entry \<Rightarrow> u64" where
  "low_start e = round_page_up (baseaddr e)"

definition low_end :: "e820_entry \<Rightarrow> u64" where
  "low_end e = round_page_down (baseaddr e + e820_length e)"

definition low_length :: "e820_entry \<Rightarrow> u64" where
  "low_length e = (if low_end e > low_start e then low_end e - low_start e else 0)"

definition low_size :: "u32 \<Rightarrow> u32" where
  "low_size size_arg = push_bit PAGE_SHIFT (drop_bit PAGE_SHIFT ((size_arg + 0x1000) - 1))"

definition e820_alloc_low_memory :: "u32 \<Rightarrow> e820_state \<Rightarrow> u64" where
  "e820_alloc_low_memory size_arg s =
     (let sz = ucast (low_size size_arg) in
      case find (\<lambda>e. \<not> (e820_type e \<noteq> E820_TYPE_RAM \<or> low_length e < sz \<or> low_start e + sz > MEM_1M)) (hv_e820 s) of
        None \<Rightarrow> ACRN_INVALID_HPA
      | Some e \<Rightarrow> if low_length e = sz then low_start e else low_end e - sz)"

subsection \<open>The memory map of a VM (ve820.c)\<close>

definition VE820_ENTRIES :: nat where "VE820_ENTRIES = 3"
definition ENTRY_HPA1 :: nat where "ENTRY_HPA1 = 2"

text \<open>The first three entries of the template; the other 29 are zero and never read.\<close>

definition pre_ve820_template :: "e820_entry list" where
  "pre_ve820_template =
     [\<lparr>baseaddr = 0, e820_length = 0xF0000, e820_type = E820_TYPE_RAM\<rparr>,
      \<lparr>baseaddr = 0xF0000, e820_length = 0x10000, e820_type = E820_TYPE_RESERVED\<rparr>,
      \<lparr>baseaddr = 0x100000, e820_length = 0, e820_type = E820_TYPE_RAM\<rparr>]"

record acrn_vm_mem_config =
  start_hpa :: u64
  mem_size :: u64

definition create_prelaunched_vm_e820 :: "acrn_vm_mem_config \<Rightarrow> e820_entry list" where
  "create_prelaunched_vm_e820 cfg =
     (let es = pre_ve820_template
      in take VE820_ENTRIES (es[ENTRY_HPA1 := (es ! ENTRY_HPA1)\<lparr>e820_length := mem_size cfg - MEM_1M\<rparr>]))"

subsection \<open>Properties\<close>

lemma mem_range_fold:
  fixes r0 :: mem_range
  defines "step \<equiv> \<lambda>e r.
        let r1 = (if mem_bottom r > baseaddr e then r\<lparr>mem_bottom := baseaddr e\<rparr> else r);
            r2 = (if baseaddr e + e820_length e > mem_top r1 then r1\<lparr>mem_top := baseaddr e + e820_length e\<rparr> else r1)
        in if e820_type e = E820_TYPE_RAM then r2\<lparr>total_mem_size := total_mem_size r2 + e820_length e\<rparr> else r2"
  shows "mem_bottom (fold step es r0) \<le> mem_bottom r0 \<and> mem_top r0 \<le> mem_top (fold step es r0) \<and>
    (\<forall>e\<in>set es. mem_bottom (fold step es r0) \<le> baseaddr e \<and> baseaddr e + e820_length e \<le> mem_top (fold step es r0)) \<and>
    mem_top (fold step es r0) \<in> insert (mem_top r0) ((\<lambda>e. baseaddr e + e820_length e) ` set es) \<and>
    mem_bottom (fold step es r0) \<in> insert (mem_bottom r0) (baseaddr ` set es) \<and>
    total_mem_size (fold step es r0) = total_mem_size r0 +
      sum_list (map e820_length (filter (\<lambda>e. e820_type e = E820_TYPE_RAM) es))"
proof (induction es arbitrary: r0)
  case Nil
  then show ?case by simp
next
  case (Cons e es)
  have s: "mem_bottom (step e r0) \<le> mem_bottom r0" "mem_bottom (step e r0) \<le> baseaddr e"
    "mem_top r0 \<le> mem_top (step e r0)" "baseaddr e + e820_length e \<le> mem_top (step e r0)"
    "mem_top (step e r0) \<in> {mem_top r0, baseaddr e + e820_length e}" "mem_bottom (step e r0) \<in> {mem_bottom r0, baseaddr e}"
    "total_mem_size (step e r0) = total_mem_size r0 + (if e820_type e = E820_TYPE_RAM then e820_length e else 0)"
    by (auto simp: step_def Let_def not_less)
  show ?case
    using Cons.IH [of "step e r0"] s by (auto intro: order_trans simp: add.assoc)
qed

lemma clip_mmap_ok:
  assumes "unat (baseaddr m) + unat (e820_length m) < 2 ^ 64"
  shows "baseaddr (clip_mmap m) = baseaddr m"
    "e820_length (clip_mmap m) = 0 \<or> unat (baseaddr (clip_mmap m)) + unat (e820_length (clip_mmap m)) \<le> 0x480000000"
proof -
  have u: "unat (baseaddr m + e820_length m) = unat (baseaddr m) + unat (e820_length m)"
    using assms by (intro unat_add_small) simp
  show "baseaddr (clip_mmap m) = baseaddr m"
    by (simp add: clip_mmap_def Let_def)
  show "e820_length (clip_mmap m) = 0 \<or> unat (baseaddr (clip_mmap m)) + unat (e820_length (clip_mmap m)) \<le> 0x480000000"
  proof (cases "baseaddr m \<ge> 0x480000000")
    case True
    then show ?thesis
      by (simp add: clip_mmap_def Let_def CONFIG_PLATFORM_RAM_SIZE_def PLATFORM_LO_MMIO_SIZE_def)
  next
    case False
    then have lt: "unat (baseaddr m) < 0x480000000"
      by (simp add: word_less_nat_alt not_le)
    moreover have "unat (0x480000000 - baseaddr m) = 0x480000000 - unat (baseaddr m)"
      using lt by (subst unat_sub) (simp_all add: word_le_nat_alt)
    ultimately show ?thesis
      using False u by (simp add: clip_mmap_def Let_def CONFIG_PLATFORM_RAM_SIZE_def PLATFORM_LO_MMIO_SIZE_def
          word_less_nat_alt not_le)
  qed
qed

lemma mem_range_info:
  "\<forall>e \<in> set es. mem_bottom (obtain_mem_range_info es) \<le> baseaddr e \<and> baseaddr e + e820_length e \<le> mem_top (obtain_mem_range_info es)"
  "es \<noteq> [] \<Longrightarrow> \<exists>e \<in> set es. mem_bottom (obtain_mem_range_info es) = baseaddr e"
  "total_mem_size (obtain_mem_range_info es) =
     sum_list (map e820_length (filter (\<lambda>e. e820_type e = E820_TYPE_RAM) es))"
proof -
  note f = mem_range_fold [where es = es and ?r0.0 = "\<lparr>mem_bottom = UINT64_MAX, mem_top = 0, total_mem_size = 0\<rparr>",
      folded obtain_mem_range_info_def]
  show 1: "\<forall>e \<in> set es. mem_bottom (obtain_mem_range_info es) \<le> baseaddr e \<and> baseaddr e + e820_length e \<le> mem_top (obtain_mem_range_info es)"
    using f by blast
  show "total_mem_size (obtain_mem_range_info es) =
     sum_list (map e820_length (filter (\<lambda>e. e820_type e = E820_TYPE_RAM) es))"
    using f by simp
  have max: "UINT64_MAX \<le> x \<Longrightarrow> x = UINT64_MAX" for x
    using unsigned_less [of x, where 'a = nat] by (simp add: UINT64_MAX_def word_le_nat_alt word_nat_eq)
  have mem: "mem_bottom (obtain_mem_range_info es) \<in> insert UINT64_MAX (baseaddr ` set es)"
    using f by simp
  show "\<exists>e \<in> set es. mem_bottom (obtain_mem_range_info es) = baseaddr e" if "es \<noteq> []"
  proof (cases "mem_bottom (obtain_mem_range_info es) = UINT64_MAX")
    case True
    from that obtain e where "e \<in> set es"
      by (cases es) auto
    with 1 True max [of "baseaddr e"] show ?thesis by (auto intro!: bexI [of _ e])
  qed (use mem in auto)
qed


definition ex_mmap :: "nat \<Rightarrow> e820_entry" where
  "ex_mmap i = (if i = 0 then \<lparr>baseaddr = 0, e820_length = 0x9F000, e820_type = E820_TYPE_RAM\<rparr>
     else \<lparr>baseaddr = 0x100000, e820_length = 0x800000000, e820_type = E820_TYPE_RAM\<rparr>)"


subsection \<open>Low memory\<close>

lemma round_page_bounds:
  fixes a :: u64
  shows "unat (round_page_down a) \<le> unat a" "4096 dvd unat (round_page_down a)" "4096 dvd unat (round_page_up a)"
    "unat a + 4096 < 2 ^ 64 \<Longrightarrow> unat a \<le> unat (round_page_up a)"
proof -
  have m: "PAGE_MASK = NOT (mask 12)"
    by (simp add: PAGE_MASK_def mask_eq_exp_minus_1)
  have d: "unat (x AND NOT (mask 12)) = unat x div 2 ^ 12 * 2 ^ 12" for x :: u64
    by (rule unat_and_not_mask)
  show "unat (round_page_down a) \<le> unat a" "4096 dvd unat (round_page_down a)" "4096 dvd unat (round_page_up a)"
    by (simp_all add: round_page_down_def round_page_up_def m d)
  assume "unat a + 4096 < 2 ^ 64"
  then have "unat (a + PAGE_SIZE - 1) = unat a + 4095"
    by (simp add: PAGE_SIZE_def add_diff_eq [symmetric] unat_add_small)
  then show "unat a \<le> unat (round_page_up a)"
    by (simp add: round_page_up_def m d)
qed

lemma low_size_aligned:
  assumes "4096 dvd unat n" "unat n + 4096 < 2 ^ 32"
  shows "low_size n = n"
proof -
  have "unat (n + 0x1000 - 1) = unat n + 4095"
    using assms(2) by (simp add: add_diff_eq [symmetric] unat_add_small)
  moreover have "unat (push_bit 12 (drop_bit 12 x)) = unat x div 4096 * 4096" for x :: u32
  proof -
    have "push_bit 12 (drop_bit 12 x) = x AND NOT (mask 12)"
      by (rule bit_eqI) (auto simp: bit_simps)
    then show ?thesis
      by (simp only: unat_and_not_mask) simp
  qed
  ultimately have "unat (low_size n) = unat n"
    using assms(1) by (auto simp: low_size_def PAGE_SHIFT_def)
  then show ?thesis
    by (simp add: word_nat_eq)
qed

lemma low_fit:
  assumes nw: "unat (baseaddr e) + unat (e820_length e) + 4096 < 2 ^ 64" and fit: "sz \<le> low_length e" and sz: "sz \<noteq> 0"
  shows "low_length e = sz \<Longrightarrow> low_start e = low_end e - sz"
    "unat (low_end e - sz) + unat sz = unat (low_end e)" "unat (baseaddr e) \<le> unat (low_end e - sz)"
    "unat (low_end e) \<le> unat (baseaddr e) + unat (e820_length e)"
    "4096 dvd unat sz \<Longrightarrow> 4096 dvd unat (low_end e - sz)"
proof -
  have "low_start e < low_end e"
    using fit sz by (auto simp: low_length_def split: if_splits)
  then have l: "low_length e = low_end e - low_start e" "unat (low_length e) = unat (low_end e) - unat (low_start e)"
      "unat (low_start e) < unat (low_end e)"
    by (simp_all add: low_length_def unat_sub order_less_imp_le) (simp add: word_less_nat_alt)
  then have f: "unat (low_start e) + unat sz \<le> unat (low_end e)"
    using fit by (simp add: word_le_nat_alt)
  then have d: "unat (low_end e - sz) = unat (low_end e) - unat sz"
    by (simp add: unat_sub word_le_nat_alt)
  show "low_length e = sz \<Longrightarrow> low_start e = low_end e - sz"
    using l(1) by (auto simp: algebra_simps)
  show "unat (low_end e - sz) + unat sz = unat (low_end e)"
    using d f by simp
  have "unat (baseaddr e) \<le> unat (low_start e)"
    unfolding low_start_def using nw by (intro round_page_bounds(4)) simp
  then show "unat (baseaddr e) \<le> unat (low_end e - sz)"
    using d f by simp
  have "unat (baseaddr e + e820_length e) = unat (baseaddr e) + unat (e820_length e)"
    using nw by (intro unat_add_small) simp
  then show "unat (low_end e) \<le> unat (baseaddr e) + unat (e820_length e)"
    using round_page_bounds(1) [of "baseaddr e + e820_length e"] by (simp add: low_end_def)
  show "4096 dvd unat (low_end e - sz)" if "4096 dvd unat sz"
    unfolding d using that round_page_bounds(2) by (simp add: low_end_def dvd_diff_nat)
qed



text \<open>
  The allocation is not always below 1 MByte, as its description says: the check compares the
  start of the entry, but the memory is taken from its end. With one RAM entry of 2 MBytes the
  address returned is above 1 MByte.
\<close>

theorem e820_alloc_above_1M:
  "e820_alloc_low_memory 0x1000 \<lparr>hv_e820 = [\<lparr>baseaddr = 0, e820_length = 0x200000, e820_type = E820_TYPE_RAM\<rparr>],
     hv_mem_range = obtain_mem_range_info []\<rparr> = 0x1FF000 \<and> MEM_1M < 0x1FF000"
  by (simp add: e820_alloc_low_memory_def Let_def low_size_def low_length_def low_start_def low_end_def
      round_page_up_def round_page_down_def PAGE_MASK_def PAGE_SIZE_def PAGE_SHIFT_def MEM_1M_def)

end
