(* ===== verification/Acrn_Mmu.thy ===== *)
theory Acrn_Mmu
  imports Acrn_Paging_Ops Acrn_E820 "HOL-Library.Monad_Syntax"
begin

text \<open>
  The hypervisor's own address space: \<^verbatim>\<open>src/hypervisor/arch/x86/mmu.c\<close>. \<open>None\<close>: the
  function does not return (\<^verbatim>\<open>panic\<close>, or a page-table function that does not return).
\<close>

definition MAX_PCPU_NUM :: nat where "MAX_PCPU_NUM = 4"
definition GUARD_PAGE_SIZE :: u64 where "GUARD_PAGE_SIZE = 0x200000"
definition CONFIG_HV_RAM_START :: u64 where "CONFIG_HV_RAM_START = 0x00400000"
definition CONFIG_HV_RAM_SIZE :: u64 where "CONFIG_HV_RAM_SIZE = 0x0e800000"
definition MSR_IA32_EFER_NXE_BIT :: u64 where "MSR_IA32_EFER_NXE_BIT = push_bit 11 1"
definition CR0_WP :: u64 where "CR0_WP = push_bit 16 1"
definition CR4_SMEP :: u64 where "CR4_SMEP = push_bit 20 1"
definition CR4_SMAP :: u64 where "CR4_SMAP = push_bit 21 1"

text \<open>The control registers of the physical CPU that the functions change.\<close>

record hv_ctl =
  ctl_efer :: u64
  ctl_cr0 :: u64
  ctl_cr3 :: u64
  ctl_cr4 :: u64

definition enable_paging :: "u64 \<Rightarrow> hv_ctl \<Rightarrow> hv_ctl" where
  "enable_paging ppt_mmu_pml4_addr c =
     c\<lparr>ctl_efer := ctl_efer c OR MSR_IA32_EFER_NXE_BIT, ctl_cr0 := ctl_cr0 c OR CR0_WP, ctl_cr3 := ppt_mmu_pml4_addr\<rparr>"

definition enable_smep :: "hv_ctl \<Rightarrow> hv_ctl" where
  "enable_smep c = c\<lparr>ctl_cr4 := ctl_cr4 c OR CR4_SMEP\<rparr>"

definition enable_smap :: "hv_ctl \<Rightarrow> hv_ctl" where
  "enable_smap c = c\<lparr>ctl_cr4 := ctl_cr4 c OR CR4_SMAP\<rparr>"

definition hv_access_memory_region_update :: "pgtable_pages_info \<Rightarrow> u64 \<Rightarrow> u64 \<Rightarrow> u64 \<Rightarrow> pgst \<Rightarrow> pgst option" where
  "hv_access_memory_region_update pages ppt_mmu_pml4_addr base sz s =
     (let region_end = base + sz;
          base_aligned = round_pde_down base;
          size_aligned = round_pde_up (region_end - base_aligned)
      in mmu_modify_or_del ppt_mmu_pml4_addr base_aligned size_aligned 0 PAGE_USER (ppt_mem_ops pages) MR_MODIFY s)"

text \<open>Where the boot loader and the linker put the image: the relocation, the end of the code, the guard pages.\<close>

record hv_image =
  image_delta :: u64
  ld_text_end :: u64
  before_guard_page :: "nat \<Rightarrow> u64"
  after_guard_page :: "nat \<Rightarrow> u64"

definition get_hv_image_base :: "hv_image \<Rightarrow> u64" where
  "get_hv_image_base img = image_delta img + CONFIG_HV_RAM_START"

definition low32_max_ram :: "e820_entry list \<Rightarrow> u64" where
  "low32_max_ram entries =
     fold (\<lambda>e m. if e820_type e = E820_TYPE_RAM \<and> baseaddr e < push_bit 32 1 \<and>
              baseaddr e + e820_length e < push_bit 32 1 \<and> baseaddr e + e820_length e > m
            then baseaddr e + e820_length e else m) entries 0"

text \<open>The loop of \<^verbatim>\<open>init_paging\<close> over the physical CPUs.\<close>

fun unmap_guards :: "memory_ops \<Rightarrow> u64 \<Rightarrow> hv_image \<Rightarrow> nat list \<Rightarrow> pgst \<Rightarrow> pgst option" where
  "unmap_guards ops pml4 img [] s = Some s"
| "unmap_guards ops pml4 img (i # is) s =
     do {
       s1 \<leftarrow> mmu_modify_or_del pml4 (before_guard_page img i) GUARD_PAGE_SIZE 0 0 ops MR_DEL s;
       s2 \<leftarrow> mmu_modify_or_del pml4 (after_guard_page img i) GUARD_PAGE_SIZE 0 0 ops MR_DEL s1;
       unmap_guards ops pml4 img is s2
     }"

definition init_paging ::
  "pgtable_pages_info \<Rightarrow> hv_image \<Rightarrow> e820_state \<Rightarrow> hv_ctl \<times> pgst \<Rightarrow> (u64 \<times> hv_ctl \<times> pgst) option" where
  "init_paging pages img e820 cs =
     (let ops = ppt_mem_ops pages;
          attr_uc = PAGE_PRESENT OR PAGE_RW OR PAGE_USER OR PAGE_CACHE_UC OR PAGE_NX;
          high64_max_ram = round_pde_up (mem_top (get_mem_range_info e820));
          low32 = low32_max_ram (get_e820_entry e820);
          hv_hpa = get_hv_image_base img;
          text_end = hv_hpa + (ld_text_end img - hv_hpa);
          (ppt_mmu_pml4_addr, s0) = get_pml4_page ops (info ops) (snd cs)
      in if high64_max_ram > CONFIG_PLATFORM_RAM_SIZE + PLATFORM_LO_MMIO_SIZE \<or> high64_max_ram < push_bit 32 1 then None
         else do {
           s1 \<leftarrow> mmu_add ppt_mmu_pml4_addr 0 0 (high64_max_ram - 0) attr_uc ops s0;
           s2 \<leftarrow> mmu_modify_or_del ppt_mmu_pml4_addr 0 (round_pde_up low32) PAGE_CACHE_WB PAGE_CACHE_MASK ops MR_MODIFY s1;
           s3 \<leftarrow> mmu_modify_or_del ppt_mmu_pml4_addr (push_bit 32 1) (high64_max_ram - push_bit 32 1)
                   PAGE_CACHE_WB PAGE_CACHE_MASK ops MR_MODIFY s2;
           s4 \<leftarrow> mmu_modify_or_del ppt_mmu_pml4_addr (hv_hpa AND PDE_MASK)
                   (CONFIG_HV_RAM_SIZE + (if hv_hpa AND (PDE_SIZE - 1) \<noteq> 0 then PDE_SIZE else 0))
                   PAGE_CACHE_WB (PAGE_CACHE_MASK OR PAGE_USER) ops MR_MODIFY s3;
           s5 \<leftarrow> mmu_modify_or_del ppt_mmu_pml4_addr (round_pde_down hv_hpa)
                   (round_pde_up text_end - round_pde_down hv_hpa) 0 PAGE_NX ops MR_MODIFY s4;
           s6 \<leftarrow> unmap_guards ops ppt_mmu_pml4_addr img [0..<MAX_PCPU_NUM] s5;
           Some (ppt_mmu_pml4_addr, enable_paging ppt_mmu_pml4_addr (fst cs), sanitize_pte (sanitized_page s6) ops s6)
         })"


subsection \<open>The map of the hypervisor\<close>

definition ppt_map :: "pgtable_pages_info \<Rightarrow> pgst \<Rightarrow> nat \<Rightarrow> (nat \<times> u64) option" where
  "ppt_map pages s x = tr (ppt_mem_ops pages) ppt_rmask s IA32E_PML4 x"

text \<open>The addresses of \<open>D\<close> are mapped to themselves with the rights \<open>R\<close>, no other address is mapped.\<close>

definition ident_map :: "pgtable_pages_info \<Rightarrow> nat \<Rightarrow> (nat \<Rightarrow> bool) \<Rightarrow> (nat \<Rightarrow> u64) \<Rightarrow> pgst \<Rightarrow> bool" where
  "ident_map pages lim D R s \<longleftrightarrow> pgwf (ppt_mem_ops pages) lim s \<and>
     (\<forall>x<lim. ppt_map pages s x = (if D x then Some (x, R x) else None))"

lemma ident_mapD:
  assumes "ident_map pages lim D R s"
  shows "pgwf (ppt_mem_ops pages) lim s"
    "x < lim \<Longrightarrow> ppt_map pages s x = (if D x then Some (x, R x) else None)"
  using assms by (simp_all add: ident_map_def)

lemma ppt_info [simp]:
  "info (ppt_mem_ops pages) = pages" "get_pt_page (ppt_mem_ops pages) = None" "large_page_enabled (ppt_mem_ops pages)"
  by (simp_all add: ppt_mem_ops_def)

lemma ppt_present: "present (ppt_mem_ops pages) e \<longleftrightarrow> bit e 0"
proof -
  have "e AND 1 = (if bit e 0 then 1 else 0)"
    by (simp add: and_one_eq odd_iff_mod_2_eq_one bit_0 flip: even_iff_mod_2_eq_zero)
  then show ?thesis
    by (simp add: present_def ppt_mem_ops_def ppt_pgentry_present_def PAGE_PRESENT_def)
qed

lemma ppt_change_ok:
  assumes "prot_bits st" "prot_bits cl" "st AND PAGE_PS = 0" "cl AND PAGE_PS = 0" "\<not> bit cl 0"
  shows "change_ok (ppt_mem_ops pages) MR_MODIFY st cl"
  using assms by (simp add: change_ok_def ppt_present bit_simps)

lemma large_pages_aligned:
  assumes "2 ^ 21 dvd (a :: nat)"
  shows "page_down a = a" "page_up a = a"
proof -
  have "(4096 :: nat) dvd 2 ^ 21" by (simp add: le_imp_power_dvd [of 12 21 2, simplified])
  then have "4096 dvd a" using assms dvd_trans by blast
  then show "page_down a = a" "page_up a = a"
    by (auto simp: page_down_def page_up_def)
qed

lemma ident_modify:
  assumes m: "ident_map pages lim D R s" and al: "2 ^ 21 dvd unat base" "2 ^ 21 dvd unat sz"
    and bound: "unat base + unat sz \<le> lim" and ok: "change_ok (ppt_mem_ops pages) MR_MODIFY st cl"
  shows "\<exists>s'. mmu_modify_or_del (pml4_base pages) base sz st cl (ppt_mem_ops pages) MR_MODIFY s = Some s' \<and>
    sanitized_page s' = sanitized_page s \<and>
    ident_map pages lim D (\<lambda>x. if unat base \<le> x \<and> x < unat base + unat sz then ((R x AND NOT cl) OR st) AND ppt_rmask else R x) s'"
proof (cases "sz = 0")
  case True
  have "unat base \<le> 2 ^ 48"
    using bound layout_base(4) [OF pgwfD(1) [OF ident_mapD(1) [OF m]]] by simp
  then have "round_page_up base = round_page_down base"
    using round_page_nat [of base] al(1) by (simp add: word_nat_eq large_pages_aligned)
  then have "mmu_modify_or_del (pml4_base pages) base sz st cl (ppt_mem_ops pages) MR_MODIFY s = Some s"
    using True by (simp add: mmu_modify_or_del_def mmu_modify_or_del_loop.simps)
  then show ?thesis
    using True m by (auto simp: ident_map_def)
next
  case False
  note w = ident_mapD [OF m]
  have al2: "2 ^ 21 dvd unat base + unat sz"
    using al by (rule dvd_add)
  obtain s' where s': "mmu_modify_or_del (pml4_base pages) base sz st cl (ppt_mem_ops pages) MR_MODIFY s = Some s'"
      "pg_update (ppt_mem_ops pages) ppt_rmask lim IA32E_PML4 (unat base) (unat base + unat sz)
         (change_range ppt_rmask MR_MODIFY st cl) s s'"
    using ppt.mmu_modify_or_del_update [OF w(1) False, of base MR_MODIFY st cl] bound ok al al2
    by (auto simp: large_pages_aligned ppt.pml4_present_def)
  note u = pg_updateD [OF s'(2)]
  have "ident_map pages lim D (\<lambda>x. if unat base \<le> x \<and> x < unat base + unat sz then ((R x AND NOT cl) OR st) AND ppt_rmask else R x) s'"
    using u(1) u(4) w(2) by (simp add: ident_map_def ppt_map_def change_range_def)
  with s'(1) u(2) show ?thesis
    by (auto simp: pg_frame_def)
qed

lemma ident_modify_to:
  assumes m: "ident_map pages lim D R s" and al: "2 ^ 21 dvd unat base" "2 ^ 21 dvd unat sz"
    and bound: "unat base + unat sz \<le> lim" and ok: "change_ok (ppt_mem_ops pages) MR_MODIFY st cl"
    and R': "\<And>x. D x \<Longrightarrow> R' x = (if unat base \<le> x \<and> x < unat base + unat sz then ((R x AND NOT cl) OR st) AND ppt_rmask else R x)"
  shows "\<exists>s'. mmu_modify_or_del (pml4_base pages) base sz st cl (ppt_mem_ops pages) MR_MODIFY s = Some s' \<and>
    sanitized_page s' = sanitized_page s \<and> ident_map pages lim D R' s'"
  using ident_modify [OF m al bound ok] R' by (auto simp: ident_map_def)

lemma ident_del:
  assumes m: "ident_map pages lim D R s" and al: "2 ^ 21 dvd unat base" "2 ^ 21 dvd unat sz" and sz: "sz \<noteq> 0"
    and bound: "unat base + unat sz \<le> lim" "0 < lim" "lim \<le> 2 ^ 39" and D: "D 0"
  shows "\<exists>s'. mmu_modify_or_del (pml4_base pages) base sz 0 0 (ppt_mem_ops pages) MR_DEL s = Some s' \<and>
    sanitized_page s' = sanitized_page s \<and>
    ident_map pages lim (\<lambda>x. D x \<and> \<not> (unat base \<le> x \<and> x < unat base + unat sz)) R s'"
proof -
  let ?ops = "ppt_mem_ops pages"
  note w = ident_mapD [OF m]
  have al2: "2 ^ 21 dvd unat base + unat sz"
    using al by (rule dvd_add)
  have "tr ?ops ppt_rmask s IA32E_PML4 0 \<noteq> None"
    using w(2) [of 0] bound(2) D by (simp add: ppt_map_def)
  then have root: "present ?ops (tab ?ops s IA32E_PML4 0)"
    using ppt.leaf_not_present_step [of pages s IA32E_PML4 0] by fastforce
  have "present ?ops (tab ?ops s IA32E_PML4 (g div 2 ^ 39))" if "g < unat base + unat sz" for g
  proof -
    have "g div 2 ^ 39 = 0"
      using that bound by simp
    with root show ?thesis by simp
  qed
  then have pp: "ppt.pml4_present pages MR_DEL (unat base) (unat base + unat sz) s"
    by (simp add: ppt.pml4_present_def)
  have "change_ok ?ops MR_DEL 0 0"
    by (simp add: change_ok_def MR_DEL_def MR_MODIFY_def)
  then obtain s' where s': "mmu_modify_or_del (pml4_base pages) base sz 0 0 ?ops MR_DEL s = Some s'"
      "pg_update ?ops ppt_rmask lim IA32E_PML4 (unat base) (unat base + unat sz) (change_range ppt_rmask MR_DEL 0 0) s s'"
    using ppt.mmu_modify_or_del_update [OF w(1) sz, of base MR_DEL 0 0] bound al al2 pp
    by (auto simp: large_pages_aligned)
  note u = pg_updateD [OF s'(2)]
  have "ident_map pages lim (\<lambda>x. D x \<and> \<not> (unat base \<le> x \<and> x < unat base + unat sz)) R s'"
    using u(1) u(4) w(2) by (auto simp: ident_map_def ppt_map_def change_range_def MR_DEL_def MR_MODIFY_def)
  with s'(1) u(2) show ?thesis
    by (auto simp: pg_frame_def)
qed


lemma ident_guards:
  assumes "ident_map pages lim D R s" "0 < lim" "lim \<le> 2 ^ 39" "D 0"
    and g: "\<And>i. i \<in> set is \<Longrightarrow> 2 ^ 21 dvd unat (before_guard_page img i) \<and> 0 < unat (before_guard_page img i) \<and>
        unat (before_guard_page img i) + 2 ^ 21 \<le> lim \<and>
        2 ^ 21 dvd unat (after_guard_page img i) \<and> 0 < unat (after_guard_page img i) \<and>
        unat (after_guard_page img i) + 2 ^ 21 \<le> lim"
  shows "\<exists>s'. unmap_guards (ppt_mem_ops pages) (pml4_base pages) img is s = Some s' \<and>
    sanitized_page s' = sanitized_page s \<and>
    ident_map pages lim (\<lambda>x. D x \<and> (\<forall>i\<in>set is. \<not> (unat (before_guard_page img i) \<le> x \<and> x < unat (before_guard_page img i) + 2 ^ 21) \<and>
        \<not> (unat (after_guard_page img i) \<le> x \<and> x < unat (after_guard_page img i) + 2 ^ 21))) R s'"
  using assms
proof (induction "is" arbitrary: D s)
  case (Cons i "is")
  have z: "unat GUARD_PAGE_SIZE = 2 ^ 21" "GUARD_PAGE_SIZE \<noteq> 0"
    by (simp_all add: GUARD_PAGE_SIZE_def)
  let ?D1 = "\<lambda>x. D x \<and> \<not> (unat (before_guard_page img i) \<le> x \<and> x < unat (before_guard_page img i) + 2 ^ 21)"
  let ?D2 = "\<lambda>x. ?D1 x \<and> \<not> (unat (after_guard_page img i) \<le> x \<and> x < unat (after_guard_page img i) + 2 ^ 21)"
  have gi: "2 ^ 21 dvd unat (before_guard_page img i)" "0 < unat (before_guard_page img i)"
      "unat (before_guard_page img i) + 2 ^ 21 \<le> lim" "2 ^ 21 dvd unat (after_guard_page img i)"
      "0 < unat (after_guard_page img i)" "unat (after_guard_page img i) + 2 ^ 21 \<le> lim"
    using Cons.prems(5) [of i] by simp_all
  obtain s1 where s1: "mmu_modify_or_del (pml4_base pages) (before_guard_page img i) GUARD_PAGE_SIZE 0 0 (ppt_mem_ops pages) MR_DEL s = Some s1"
      "sanitized_page s1 = sanitized_page s" "ident_map pages lim ?D1 R s1"
    using ident_del [OF Cons.prems(1) gi(1) _ z(2) _ Cons.prems(2-4)] gi(3) unfolding z(1) by auto
  have "?D1 0" using Cons.prems(4) gi(2) by simp
  then obtain s2 where s2: "mmu_modify_or_del (pml4_base pages) (after_guard_page img i) GUARD_PAGE_SIZE 0 0 (ppt_mem_ops pages) MR_DEL s1 = Some s2"
      "sanitized_page s2 = sanitized_page s1" "ident_map pages lim ?D2 R s2"
    using ident_del [OF s1(3) gi(4) _ z(2) _ Cons.prems(2,3)] gi(6) unfolding z(1) by auto
  have "?D2 0" using Cons.prems(4) gi(2,5) by simp
  then obtain s' where s': "unmap_guards (ppt_mem_ops pages) (pml4_base pages) img is s2 = Some s'" "sanitized_page s' = sanitized_page s2"
      "ident_map pages lim (\<lambda>x. ?D2 x \<and> (\<forall>i\<in>set is. \<not> (unat (before_guard_page img i) \<le> x \<and> x < unat (before_guard_page img i) + 2 ^ 21) \<and>
        \<not> (unat (after_guard_page img i) \<le> x \<and> x < unat (after_guard_page img i) + 2 ^ 21))) R s'"
    using Cons.IH [OF s2(3) Cons.prems(2,3)] Cons.prems(5) by auto
  have "unmap_guards (ppt_mem_ops pages) (pml4_base pages) img (i # is) s = Some s'"
    using s1(1) s2(1) s'(1) by simp
  with s1(2) s2(2) s'(2,3) show ?case
    by (simp add: conj_ac)
qed simp

text \<open>The root page of the zeroed arrays, and the identity map \<^verbatim>\<open>mmu_add\<close> puts into it.\<close>

lemma ident_init:
  fixes pages lim sz
  defines "ops \<equiv> ppt_mem_ops pages"
  assumes lay: "pages_layout ops lim" and san: "sanitized_page s AND mask 12 = 0"
    and zero: "\<And>a. in_tables ops lim a \<Longrightarrow> pg_mem s a = 0"
    and sz: "sz \<noteq> 0" "2 ^ 21 dvd unat sz" "unat sz \<le> lim" "lim \<le> 2 ^ 39" and prot: "bit prot 0" "prot_bits prot"
  shows "\<exists>s'. mmu_add (pml4_base pages) 0 0 sz prot ops (memset_page (pml4_base pages) s) = Some s' \<and>
     sanitized_page s' = sanitized_page s \<and> ident_map pages lim (\<lambda>x. x < unat sz) (\<lambda>_. prot AND ppt_rmask) s'"
proof -
  let ?s = "memset_page (pml4_base pages) s"
  have t: "tab ops ?s l i = 0" if "valid_slot ops lim l i" for l i
    using zero [OF slot_in_tables [OF lay that]] by (simp add: tab_def memset_page_def)
  have "\<not> present ops 0"
    by (simp add: ops_def ppt_present)
  then have wf: "pgwf ops lim ?s" and fr: "\<And>x. x < lim \<Longrightarrow> tr ops ppt_rmask ?s IA32E_PML4 x = None"
    using ppt.empty_tables [OF lay [unfolded ops_def], of ?s] t san unfolding ops_def [symmetric]
    by (auto simp: memset_page_def)
  have d0: "page_down 0 = 0" by (simp add: page_down_def)
  obtain s' where s': "mmu_add (pml4_base pages) 0 0 sz prot ops ?s = Some s'"
      "pg_update ops ppt_rmask lim IA32E_PML4 0 (unat sz) (map_range 0 0 (prot AND ppt_rmask)) ?s s'"
    using ppt.mmu_add_update [OF wf [unfolded ops_def] sz(1), of 0 0 prot] sz prot fr
    unfolding ops_def by (auto simp: large_pages_aligned d0 ppt.prot_ok_def ppt.large_only_ok_def)
  note u = pg_updateD [OF s'(2)]
  have "ident_map pages lim (\<lambda>x. x < unat sz) (\<lambda>_. prot AND ppt_rmask) s'"
    using u(1,4) fr by (auto simp: ident_map_def ppt_map_def ops_def map_range_def)
  with s'(1) u(2) show ?thesis
    by (auto simp: pg_frame_def memset_page_def)
qed


lemma round_pde_nat:
  "unat (round_pde_down a) = unat a div 2 ^ 21 * 2 ^ 21"
  "unat a < 2 ^ 63 \<Longrightarrow> unat (round_pde_up a) = (unat a + (2 ^ 21 - 1)) div 2 ^ 21 * 2 ^ 21"
proof -
  show "unat (round_pde_down a) = unat a div 2 ^ 21 * 2 ^ 21"
    by (simp only: round_pde_down_def size_masks unat_and_not_mask)
  assume b: "unat a < 2 ^ 63"
  have "(a + PDE_SIZE) - 1 = a + (2 ^ 21 - 1)"
    by (simp add: PDE_SIZE_def)
  moreover have "unat (a + (2 ^ 21 - 1)) = unat a + (2 ^ 21 - 1)"
    using b by (subst unat_add_small) simp_all
  ultimately show "unat (round_pde_up a) = (unat a + (2 ^ 21 - 1)) div 2 ^ 21 * 2 ^ 21"
    by (simp only: round_pde_up_def size_masks unat_and_not_mask)
qed

lemma round_pde_up_le: "(2 :: nat) ^ 21 dvd b \<Longrightarrow> a \<le> b \<Longrightarrow> (a + (2 ^ 21 - 1)) div 2 ^ 21 * 2 ^ 21 \<le> b"
  by (auto simp: dvd_def)

lemma low32_max_ram_bound: "unat (low32_max_ram es) < 2 ^ 32"
proof -
  have "unat (fold (\<lambda>e m. if e820_type e = E820_TYPE_RAM \<and> baseaddr e < push_bit 32 1 \<and>
              baseaddr e + e820_length e < push_bit 32 1 \<and> baseaddr e + e820_length e > m
            then baseaddr e + e820_length e else m) es m) < 2 ^ 32" if "unat m < 2 ^ 32" for m :: u64
    using that by (induction es arbitrary: m) (simp_all add: word_nat_order)
  then show ?thesis
    by (simp add: low32_max_ram_def)
qed

text \<open>Writing the sanitized page, which is not one of the tables, leaves the map alone.\<close>

lemma ident_sanitize:
  assumes m: "ident_map pages lim D R s"
    and dj: "\<And>a. in_tables (ppt_mem_ops pages) lim a \<Longrightarrow> 4096 \<le> unat (a - p)"
  shows "ident_map pages lim D R (sanitize_pte p (ppt_mem_ops pages) s)"
proof -
  let ?ops = "ppt_mem_ops pages" and ?s = "sanitize_pte p (ppt_mem_ops pages) s"
  note w = ident_mapD [OF m]
  have f: "?s = fold (\<lambda>i. set_pgentry (entry_ptr p (of_nat i)) (sanitized_page s) ?ops) [0..<512] s"
    by (rule ppt.sanitize_pte_fill)
  have mem: "pg_mem (fold (\<lambda>i. set_pgentry (entry_ptr p (of_nat i)) (sanitized_page s) ?ops) [0..<n] s) a = pg_mem s a"
    if "n \<le> 512" "4096 \<le> unat (a - p)" for n a
    using that(1)
  proof (induction n)
    case (Suc n)
    have "unat (entry_ptr p (of_nat n) - p) = 8 * n"
    proof -
      have "entry_ptr p (of_nat n) - p = of_nat (8 * n)"
        by (simp add: entry_ptr_def)
      moreover have "8 * n < 2 ^ 64" using Suc.prems by simp
      ultimately show ?thesis by (simp only: unat_of_nat_u64)
    qed
    then have "a \<noteq> entry_ptr p (of_nat n)"
      using that(2) Suc.prems by auto
    with Suc show ?case
      by (simp add: set_pgentry_def ppt.flush_mem)
  qed simp
  have tabs: "tab ?ops ?s l i = tab ?ops s l i" if "valid_slot ?ops lim l i" for l i
    unfolding tab_def f
    by (rule mem [OF order_refl dj [OF slot_in_tables [OF pgwfD(1) [OF w(1)] that]]])
  have "sanitized_page ?s = sanitized_page s"
    unfolding f by (rule ppt.fill_page_san)
  then have wf: "pgwf ?ops lim ?s"
    using w(1) tabs by (simp add: pgwf_def)
  have "tr ?ops ppt_rmask ?s IA32E_PML4 x = tr ?ops ppt_rmask s IA32E_PML4 x" if "x < lim" for x
  proof (rule ppt.tr_cong [OF w(1)])
    show "valid_slot ?ops lim IA32E_PML4 (level_index IA32E_PML4 x)"
      using that layout_base(4) [OF pgwfD(1) [OF w(1)]] by (simp add: div_less_iff_less_mult)
  qed (rule tabs)
  with wf w(2) show ?thesis
    by (simp add: ident_map_def ppt_map_def)
qed


subsection \<open>The address space after the initialisation\<close>

text \<open>The large pages of the image and of its code, the guard pages, and the rights of a page.\<close>

definition in_image :: "hv_image \<Rightarrow> nat \<Rightarrow> bool" where
  "in_image img x \<longleftrightarrow>
     (let b = unat (get_hv_image_base img) div 2 ^ 21 * 2 ^ 21
      in b \<le> x \<and> x < b + 0x0e800000 + (if 2 ^ 21 dvd unat (get_hv_image_base img) then 0 else 2 ^ 21))"

definition in_text :: "hv_image \<Rightarrow> nat \<Rightarrow> bool" where
  "in_text img x \<longleftrightarrow> unat (get_hv_image_base img) div 2 ^ 21 * 2 ^ 21 \<le> x \<and> x < unat (round_pde_up (ld_text_end img))"

definition in_guard :: "hv_image \<Rightarrow> nat \<Rightarrow> bool" where
  "in_guard img x \<longleftrightarrow> (\<exists>i<MAX_PCPU_NUM.
     unat (before_guard_page img i) \<le> x \<and> x < unat (before_guard_page img i) + 2 ^ 21 \<or>
     unat (after_guard_page img i) \<le> x \<and> x < unat (after_guard_page img i) + 2 ^ 21)"

definition hv_rights :: "hv_image \<Rightarrow> e820_entry list \<Rightarrow> nat \<Rightarrow> u64" where
  "hv_rights img es x =
     PAGE_PRESENT OR PAGE_RW OR (if in_image img x then 0 else PAGE_USER) OR (if in_text img x then 0 else PAGE_NX) OR
     (if x < unat (round_pde_up (low32_max_ram es)) \<or> 2 ^ 32 \<le> x \<or> in_image img x then PAGE_CACHE_WB else PAGE_CACHE_UC)"

definition image_ok :: "hv_image \<Rightarrow> nat \<Rightarrow> bool" where
  "image_ok img hi \<longleftrightarrow> unat (get_hv_image_base img) + 0x0ea00000 \<le> hi \<and>
     unat (get_hv_image_base img) \<le> unat (ld_text_end img) \<and> unat (ld_text_end img) \<le> hi \<and>
     (\<forall>i<MAX_PCPU_NUM. 2 ^ 21 dvd unat (before_guard_page img i) \<and> 0 < unat (before_guard_page img i) \<and>
        unat (before_guard_page img i) + 2 ^ 21 \<le> hi \<and>
        2 ^ 21 dvd unat (after_guard_page img i) \<and> 0 < unat (after_guard_page img i) \<and>
        unat (after_guard_page img i) + 2 ^ 21 \<le> hi)"

lemmas ppt_prot_defs = PAGE_CACHE_WB_def PAGE_CACHE_MASK_def PAGE_CACHE_UC_def PAGE_PCD_def PAGE_PWT_def PAGE_USER_def
  PAGE_NX_def PAGE_PRESENT_def PAGE_RW_def ppt_rmask_def

lemma image_size:
  assumes ok: "image_ok img hi" and hi: "hi < 2 ^ 40"
  defines "b \<equiv> get_hv_image_base img"
    and "n \<equiv> CONFIG_HV_RAM_SIZE + (if get_hv_image_base img AND (PDE_SIZE - 1) \<noteq> 0 then PDE_SIZE else 0)"
  shows "unat (b AND PDE_MASK) = unat b div 2 ^ 21 * 2 ^ 21" "2 ^ 21 dvd unat n"
    "unat b div 2 ^ 21 * 2 ^ 21 + unat n \<le> hi"
    "in_image img x \<longleftrightarrow> unat (b AND PDE_MASK) \<le> x \<and> x < unat (b AND PDE_MASK) + unat n"
proof -
  show u: "unat (b AND PDE_MASK) = unat b div 2 ^ 21 * 2 ^ 21"
    by (simp only: size_masks unat_and_not_mask)
  have m: "b AND (PDE_SIZE - 1) \<noteq> 0 \<longleftrightarrow> \<not> 2 ^ 21 dvd unat b"
    using low_mask_zero_iff [of b 21] by (simp add: PDE_SIZE_def mask_eq_exp_minus_1)
  have n: "unat n = 0x0e800000 + (if 2 ^ 21 dvd unat b then 0 else 2 ^ 21)"
    unfolding n_def b_def [symmetric] m by (simp add: CONFIG_HV_RAM_SIZE_def PDE_SIZE_def)
  then show "2 ^ 21 dvd unat n" by simp
  show "unat b div 2 ^ 21 * 2 ^ 21 + unat n \<le> hi"
  proof -
    have "unat n \<le> 0x0ea00000" by (simp add: n)
    moreover have "unat b + 0x0ea00000 \<le> hi" using ok by (simp add: image_ok_def b_def)
    moreover have "unat b div 2 ^ 21 * 2 ^ 21 \<le> unat b" by simp
    ultimately show ?thesis by linarith
  qed
  show "in_image img x \<longleftrightarrow> unat (b AND PDE_MASK) \<le> x \<and> x < unat (b AND PDE_MASK) + unat n"
    by (auto simp: in_image_def Let_def u n b_def [symmetric])
qed

lemma text_size:
  assumes ok: "image_ok img hi" and hi: "hi < 2 ^ 40" "2 ^ 21 dvd hi"
  defines "b \<equiv> get_hv_image_base img"
    and "n \<equiv> round_pde_up (ld_text_end img) - round_pde_down (get_hv_image_base img)"
  shows "2 ^ 21 dvd unat (round_pde_down b)" "2 ^ 21 dvd unat n" "unat (round_pde_down b) + unat n \<le> hi"
    "in_text img x \<longleftrightarrow> unat (round_pde_down b) \<le> x \<and> x < unat (round_pde_down b) + unat n"
proof -
  have t: "unat (ld_text_end img) \<le> hi" "unat b \<le> unat (ld_text_end img)"
    using ok by (simp_all add: image_ok_def b_def)
  then have "unat (ld_text_end img) < 2 ^ 63"
    using hi(1) by simp
  note u = round_pde_nat(1) [of b] round_pde_nat(2) [OF this]
  show d: "2 ^ 21 dvd unat (round_pde_down b)"
    by (simp add: u)
  have "unat b div 2 ^ 21 \<le> (unat (ld_text_end img) + (2 ^ 21 - 1)) div 2 ^ 21"
    using t(2) by (intro div_le_mono) simp
  then have le: "unat (round_pde_down b) \<le> unat (round_pde_up (ld_text_end img))"
    unfolding u by simp
  then have n: "unat n = unat (round_pde_up (ld_text_end img)) - unat (round_pde_down b)"
    unfolding n_def b_def [symmetric] by (intro unat_diff_small) (simp add: word_nat_order)
  show "2 ^ 21 dvd unat n"
    using d by (simp add: n u)
  show "unat (round_pde_down b) + unat n \<le> hi"
    using le round_pde_up_le [OF hi(2) t(1)] by (simp add: n u(2))
  show "in_text img x \<longleftrightarrow> unat (round_pde_down b) \<le> x \<and> x < unat (round_pde_down b) + unat n"
    using le by (auto simp: in_text_def n u(1) b_def [symmetric])
qed


text \<open>
  C14. The address space of the hypervisor: with zeroed page arrays, a memory map that ends between
  4 GByte and the top of the configured address space and an image inside it, \<^verbatim>\<open>init_paging\<close>
  returns with CR3 pointing to its tables, execute-disable and supervisor write protection on, and
  the tables map exactly the addresses below the end of the memory except the guard pages, each to
  itself: the pages of the image are supervisor pages, all others are user pages (so that SMAP and
  SMEP keep the hypervisor away from guest memory), only the code is executable, and memory is
  write-back and the device range below 4 GByte uncached.
\<close>

theorem init_paging_map:
  fixes pages img e820 c s
  defines "ops \<equiv> ppt_mem_ops pages" and "lim \<equiv> 0x480000000" and "mtop \<equiv> unat (mem_top (hv_mem_range e820))"
  defines "hi \<equiv> (mtop + (2 ^ 21 - 1)) div 2 ^ 21 * 2 ^ 21"
  assumes lay: "pages_layout ops lim" and san: "sanitized_page s AND mask 12 = 0"
    and zero: "\<And>a. in_tables ops lim a \<Longrightarrow> pg_mem s a = 0 \<and> 4096 \<le> unat (a - sanitized_page s)"
    and top: "0x100000000 \<le> mtop" "mtop \<le> lim" and img: "image_ok img hi"
  shows "\<exists>c' s'. init_paging pages img e820 (c, s) = Some (pml4_base pages, c', s') \<and>
    ctl_cr3 c' = pml4_base pages \<and> bit (ctl_efer c') 11 \<and> bit (ctl_cr0 c') 16 \<and>
    (\<forall>x<lim. ppt_map pages s' x =
       (if x < hi \<and> \<not> in_guard img x then Some (x, hv_rights img (hv_e820 e820) x) else None))"
proof -
  let ?hi = "round_pde_up (mem_top (hv_mem_range e820))" and ?low = "round_pde_up (low32_max_ram (hv_e820 e820))"
  let ?b = "get_hv_image_base img"
  let ?n = "CONFIG_HV_RAM_SIZE + (if get_hv_image_base img AND (PDE_SIZE - 1) \<noteq> 0 then PDE_SIZE else 0)"
  let ?t = "round_pde_up (ld_text_end img) - round_pde_down (get_hv_image_base img)"
  let ?uc = "PAGE_PRESENT OR PAGE_RW OR PAGE_USER OR PAGE_CACHE_UC OR PAGE_NX"
  have hi: "unat ?hi = hi" "2 ^ 21 dvd hi" "hi \<le> lim" "2 ^ 32 \<le> hi" "hi < 2 ^ 40"
  proof -
    show "unat ?hi = hi"
      using top by (simp add: round_pde_nat hi_def mtop_def lim_def)
    show "2 ^ 21 dvd hi" by (simp add: hi_def)
    show le: "hi \<le> lim"
      unfolding hi_def using top(2) by (intro round_pde_up_le) (simp_all add: lim_def)
    show "2 ^ 32 \<le> hi"
      using top(1) by (simp add: hi_def)
    show "hi < 2 ^ 40"
      using le by (simp add: lim_def)
  qed
  have low: "2 ^ 21 dvd unat ?low" "unat ?low \<le> 2 ^ 32"
    using low32_max_ram_bound [of "hv_e820 e820"] round_pde_up_le [of "2 ^ 32" "unat (low32_max_ram (hv_e820 e820))"]
    by (simp_all add: round_pde_nat)
  note im = image_size [OF img hi(5)] and tx = text_size [OF img hi(5,2)]
  have uc: "bit ?uc 0" "prot_bits ?uc"
    by (simp_all add: ppt_prot_defs prot_bits_def mask_eq_exp_minus_1)
  have ok: "change_ok ops MR_MODIFY PAGE_CACHE_WB PAGE_CACHE_MASK"
      "change_ok ops MR_MODIFY PAGE_CACHE_WB (PAGE_CACHE_MASK OR PAGE_USER)" "change_ok ops MR_MODIFY 0 PAGE_NX"
    unfolding ops_def by (rule ppt_change_ok; simp add: ppt_prot_defs prot_bits_def PAGE_PS_def mask_eq_exp_minus_1)+
  have lim: "0 < lim" "lim \<le> 2 ^ 39" by (simp_all add: lim_def)
  obtain s1 where s1: "mmu_add (pml4_base pages) 0 0 ?hi ?uc ops (memset_page (pml4_base pages) s) = Some s1"
      "sanitized_page s1 = sanitized_page s" "ident_map pages lim (\<lambda>x. x < hi) (\<lambda>_. ?uc AND ppt_rmask) s1"
    using ident_init [OF lay [unfolded ops_def] san _ _ _ _ lim(2) uc, of ?hi] zero hi unfolding ops_def by force
  define R2 where "R2 x = (if x < unat ?low then 0x8000000000000007 else 0x800000000000001F :: u64)" for x
  define R3 where "R3 x = (if x < unat ?low \<or> 2 ^ 32 \<le> x then 0x8000000000000007 else 0x800000000000001F :: u64)" for x
  define R4 where "R4 x = (if in_image img x then 0x8000000000000003 else R3 x)" for x
  define R5 where "R5 x = (if in_text img x then R4 x AND NOT PAGE_NX else R4 x)" for x
  have "\<exists>s2. mmu_modify_or_del (pml4_base pages) 0 ?low PAGE_CACHE_WB PAGE_CACHE_MASK ops MR_MODIFY s1 = Some s2 \<and>
      sanitized_page s2 = sanitized_page s1 \<and> ident_map pages lim (\<lambda>x. x < hi) R2 s2"
    unfolding ops_def
    by (rule ident_modify_to [OF s1(3) _ low(1) _ ok(1) [unfolded ops_def]])
      (use low(2) hi(3,4) in \<open>simp_all add: R2_def ppt_prot_defs\<close>)
  then obtain s2 where s2: "mmu_modify_or_del (pml4_base pages) 0 ?low PAGE_CACHE_WB PAGE_CACHE_MASK ops MR_MODIFY s1 = Some s2"
      "sanitized_page s2 = sanitized_page s1" "ident_map pages lim (\<lambda>x. x < hi) R2 s2" by blast
  have h4: "unat (?hi - push_bit 32 1) = hi - 2 ^ 32" "unat (push_bit 32 1 :: u64) = 2 ^ 32"
    using hi(1,4) by (simp_all add: unat_diff_small word_nat_order)
  have al4: "2 ^ 21 dvd hi - 2 ^ 32" "(2 :: nat) ^ 21 dvd 2 ^ 32"
    using hi(2) by (intro dvd_diff_nat) simp_all
  have "\<exists>s3. mmu_modify_or_del (pml4_base pages) (push_bit 32 1) (?hi - push_bit 32 1) PAGE_CACHE_WB PAGE_CACHE_MASK ops MR_MODIFY s2 = Some s3 \<and>
      sanitized_page s3 = sanitized_page s2 \<and> ident_map pages lim (\<lambda>x. x < hi) R3 s3"
    unfolding ops_def
    by (rule ident_modify_to [OF s2(3) _ _ _ ok(1) [unfolded ops_def]], unfold h4)
      (use al4 low(2) hi(3,4) in \<open>auto simp: R2_def R3_def ppt_prot_defs\<close>)
  then obtain s3 where s3: "mmu_modify_or_del (pml4_base pages) (push_bit 32 1) (?hi - push_bit 32 1) PAGE_CACHE_WB PAGE_CACHE_MASK ops MR_MODIFY s2 = Some s3"
      "sanitized_page s3 = sanitized_page s2" "ident_map pages lim (\<lambda>x. x < hi) R3 s3" by blast
  have "\<exists>s4. mmu_modify_or_del (pml4_base pages) (?b AND PDE_MASK) ?n PAGE_CACHE_WB (PAGE_CACHE_MASK OR PAGE_USER) ops MR_MODIFY s3 = Some s4 \<and>
      sanitized_page s4 = sanitized_page s3 \<and> ident_map pages lim (\<lambda>x. x < hi) R4 s4"
    unfolding ops_def
  proof (rule ident_modify_to [OF s3(3) _ im(2) _ ok(2) [unfolded ops_def]], unfold im(4) [symmetric])
    show "2 ^ 21 dvd unat (?b AND PDE_MASK)" "unat (?b AND PDE_MASK) + unat ?n \<le> lim"
      unfolding im(1) using im(3) hi(3) by simp_all
  qed (simp add: R3_def R4_def ppt_prot_defs)
  then obtain s4 where s4: "mmu_modify_or_del (pml4_base pages) (?b AND PDE_MASK) ?n PAGE_CACHE_WB (PAGE_CACHE_MASK OR PAGE_USER) ops MR_MODIFY s3 = Some s4"
      "sanitized_page s4 = sanitized_page s3" "ident_map pages lim (\<lambda>x. x < hi) R4 s4" by blast
  have "\<exists>s5. mmu_modify_or_del (pml4_base pages) (round_pde_down ?b) ?t 0 PAGE_NX ops MR_MODIFY s4 = Some s5 \<and>
      sanitized_page s5 = sanitized_page s4 \<and> ident_map pages lim (\<lambda>x. x < hi) R5 s5"
    unfolding ops_def
  proof (rule ident_modify_to [OF s4(3) tx(1,2) _ ok(3) [unfolded ops_def]], unfold tx(4) [symmetric])
    show "unat (round_pde_down ?b) + unat ?t \<le> lim"
      using tx(3) hi(3) by linarith
  qed (simp add: R3_def R4_def R5_def ppt_prot_defs)
  then obtain s5 where s5: "mmu_modify_or_del (pml4_base pages) (round_pde_down ?b) ?t 0 PAGE_NX ops MR_MODIFY s4 = Some s5"
      "sanitized_page s5 = sanitized_page s4" "ident_map pages lim (\<lambda>x. x < hi) R5 s5" by blast
  have geq: "(\<lambda>x. x < hi \<and> (\<forall>i\<in>set [0..<MAX_PCPU_NUM].
        \<not> (unat (before_guard_page img i) \<le> x \<and> x < unat (before_guard_page img i) + 2 ^ 21) \<and>
        \<not> (unat (after_guard_page img i) \<le> x \<and> x < unat (after_guard_page img i) + 2 ^ 21))) = (\<lambda>x. x < hi \<and> \<not> in_guard img x)"
    by (auto simp: in_guard_def fun_eq_iff)
  have "\<exists>s6. unmap_guards ops (pml4_base pages) img [0..<MAX_PCPU_NUM] s5 = Some s6 \<and>
      sanitized_page s6 = sanitized_page s5 \<and> ident_map pages lim (\<lambda>x. x < hi \<and> \<not> in_guard img x) R5 s6"
    unfolding ops_def geq [symmetric]
    by (rule ident_guards [OF s5(3) lim]) (use img hi(3,4) in \<open>auto simp: image_ok_def\<close>)
  then obtain s6 where s6: "unmap_guards ops (pml4_base pages) img [0..<MAX_PCPU_NUM] s5 = Some s6"
      "sanitized_page s6 = sanitized_page s5" "ident_map pages lim (\<lambda>x. x < hi \<and> \<not> in_guard img x) R5 s6" by blast
  have rights: "R5 x = hv_rights img (hv_e820 e820) x" for x
    by (simp add: R5_def R4_def R3_def hv_rights_def ppt_prot_defs)
  have same: "sanitized_page s6 = sanitized_page s"
    using s1(2) s2(2) s3(2) s4(2) s5(2) s6(2) by simp
  let ?s = "sanitize_pte (sanitized_page s) ops s6" and ?c = "enable_paging (pml4_base pages) c"
  have m: "ident_map pages lim (\<lambda>x. x < hi \<and> \<not> in_guard img x) R5 ?s"
    unfolding ops_def by (rule ident_sanitize [OF s6(3)]) (use zero in \<open>simp add: ops_def\<close>)
  have rng: "\<not> (?hi > CONFIG_PLATFORM_RAM_SIZE + PLATFORM_LO_MMIO_SIZE \<or> ?hi < push_bit 32 1)"
    using hi(1,3,4) by (simp add: word_nat_order CONFIG_PLATFORM_RAM_SIZE_def PLATFORM_LO_MMIO_SIZE_def lim_def)
  have root: "get_pml4_page ops pages s = (pml4_base pages, memset_page (pml4_base pages) s)" "info ops = pages"
    by (simp_all add: ops_def ppt_mem_ops_def ppt_get_pml4_page_def Let_def)
  have "init_paging pages img e820 (c, s) = Some (pml4_base pages, ?c, ?s)"
    using s1(1) s2(1) s3(1) s4(1) s5(1) s6(1) rng
    by (simp add: init_paging_def Let_def ops_def [symmetric] root get_mem_range_info_def get_e820_entry_def same
        del: not_less not_le)
  moreover have "bit (ctl_efer ?c) 11" "bit (ctl_cr0 ?c) 16" "ctl_cr3 ?c = pml4_base pages"
    by (simp_all add: enable_paging_def MSR_IA32_EFER_NXE_BIT_def CR0_WP_def bit_simps)
  moreover have "ppt_map pages ?s x = (if x < hi \<and> \<not> in_guard img x then Some (x, hv_rights img (hv_e820 e820) x) else None)"
    if "x < lim" for x
    using ident_mapD(2) [OF m that] by (simp add: rights)
  ultimately show ?thesis by blast
qed


definition ex_ppt :: pgtable_pages_info where
  "ex_ppt = \<lparr>pml4_base = 0x100000, pdpt_base = 0x101000, pd_base = 0x102000, pt_base = 0x200000\<rparr>"

definition ex_image :: hv_image where
  "ex_image = \<lparr>image_delta = 0, ld_text_end = 0x480000, before_guard_page = (\<lambda>i. 0x800000 + 0x800000 * of_nat i),
     after_guard_page = (\<lambda>i. 0xC00000 + 0x800000 * of_nat i)\<rparr>"

lemma ex_ppt_layout: "pages_layout (ppt_mem_ops ex_ppt) 0x480000000"
proof -
  have "level_base l ex_ppt AND mask 12 = 0 \<and>
      unat (level_base l ex_ppt) + 4096 * level_pages l (ppt_mem_ops ex_ppt) 0x480000000 \<le> 2 ^ 39" for l
    by (cases l) (simp_all add: ex_ppt_def PDPT_PAGE_NUM_def PD_PAGE_NUM_def mask_eq_exp_minus_1)
  moreover have "unat (level_base l ex_ppt) + 4096 * level_pages l (ppt_mem_ops ex_ppt) 0x480000000 \<le> unat (level_base l' ex_ppt) \<or>
      unat (level_base l' ex_ppt) + 4096 * level_pages l' (ppt_mem_ops ex_ppt) 0x480000000 \<le> unat (level_base l ex_ppt)"
    if "l' \<noteq> l" for l l'
    using that by (cases l; cases l') (simp_all add: ex_ppt_def PDPT_PAGE_NUM_def PD_PAGE_NUM_def)
  ultimately show ?thesis
    by (simp add: pages_layout_def)
qed

lemma less_4:
  "(\<forall>i<4. P i) \<longleftrightarrow> P 0 \<and> P 1 \<and> P 2 \<and> P (3 :: nat)" "(\<exists>i<4. P i) \<longleftrightarrow> P 0 \<or> P 1 \<or> P 2 \<or> P (3 :: nat)"
  by (auto simp: numeral_eq_Suc less_Suc_eq)

lemma ex_image_ok: "image_ok ex_image 0x480000000"
  by (simp add: image_ok_def ex_image_def get_hv_image_base_def CONFIG_HV_RAM_START_def MAX_PCPU_NUM_def less_4)

lemma ex_image_pages:
  "in_guard ex_image 0x800000" "\<not> in_guard ex_image 0x400123" "hv_rights ex_image es 0x400123 = PAGE_PRESENT OR PAGE_RW"
proof -
  show "in_guard ex_image 0x800000" "\<not> in_guard ex_image 0x400123"
    by (simp_all add: in_guard_def ex_image_def MAX_PCPU_NUM_def less_4)
  have "in_image ex_image 0x400123" "in_text ex_image 0x400123"
    by (simp_all add: in_image_def in_text_def ex_image_def get_hv_image_base_def CONFIG_HV_RAM_START_def round_pde_nat)
  then show "hv_rights ex_image es 0x400123 = PAGE_PRESENT OR PAGE_RW"
    by (simp add: hv_rights_def PAGE_CACHE_WB_def)
qed

theorem init_paging_map_witness:
  "\<exists>c' s'. init_paging ex_ppt ex_image
      \<lparr>hv_e820 = [\<lparr>baseaddr = 0, e820_length = 0x80000000, e820_type = E820_TYPE_RAM\<rparr>],
       hv_mem_range = \<lparr>mem_bottom = 0, mem_top = 0x480000000, total_mem_size = 0x80000000\<rparr>\<rparr>
      (\<lparr>ctl_efer = 0, ctl_cr0 = 0, ctl_cr3 = 0, ctl_cr4 = 0\<rparr>, \<lparr>pg_mem = \<lambda>_. 0, pg_flushed = [], sanitized_page = 0x7000\<rparr>) =
      Some (0x100000, c', s') \<and>
     ppt_map ex_ppt s' 0x400123 = Some (0x400123, PAGE_PRESENT OR PAGE_RW) \<and> ppt_map ex_ppt s' 0x800000 = None"
proof -
  let ?e = "\<lparr>hv_e820 = [\<lparr>baseaddr = 0, e820_length = 0x80000000, e820_type = E820_TYPE_RAM\<rparr>],
       hv_mem_range = \<lparr>mem_bottom = 0, mem_top = 0x480000000, total_mem_size = 0x80000000\<rparr>\<rparr>"
  let ?c = "\<lparr>ctl_efer = 0, ctl_cr0 = 0, ctl_cr3 = 0, ctl_cr4 = 0\<rparr>"
  let ?s = "\<lparr>pg_mem = \<lambda>_. 0, pg_flushed = [], sanitized_page = 0x7000\<rparr>"
  let ?hi = "(unat (mem_top (hv_mem_range ?e)) + (2 ^ 21 - 1)) div 2 ^ 21 * 2 ^ 21"
  have tabs: "in_tables (ppt_mem_ops ex_ppt) 0x480000000 a \<Longrightarrow> 4096 \<le> unat (a - 0x7000)" for a
  proof -
    assume "in_tables (ppt_mem_ops ex_ppt) 0x480000000 a"
    then obtain l where "unat (level_base l ex_ppt) \<le> unat a"
      by (auto simp: in_tables_def)
    moreover have "0x100000 \<le> unat (level_base l ex_ppt)"
      by (cases l) (simp_all add: ex_ppt_def)
    ultimately show "4096 \<le> unat (a - 0x7000)"
      by (subst unat_diff_small) (simp_all add: word_nat_order)
  qed
  have "\<exists>c' s'. init_paging ex_ppt ex_image ?e (?c, ?s) = Some (pml4_base ex_ppt, c', s') \<and>
    ctl_cr3 c' = pml4_base ex_ppt \<and> bit (ctl_efer c') 11 \<and> bit (ctl_cr0 c') 16 \<and>
    (\<forall>x<0x480000000. ppt_map ex_ppt s' x =
       (if x < ?hi \<and> \<not> in_guard ex_image x then Some (x, hv_rights ex_image (hv_e820 ?e) x) else None))"
    by (rule init_paging_map [OF ex_ppt_layout]) (use tabs ex_image_ok in \<open>simp_all add: mask_eq_exp_minus_1\<close>)
  then obtain c' s' where r: "init_paging ex_ppt ex_image ?e (?c, ?s) = Some (pml4_base ex_ppt, c', s')"
    "\<forall>x<0x480000000. ppt_map ex_ppt s' x = (if x < ?hi \<and> \<not> in_guard ex_image x then Some (x, hv_rights ex_image (hv_e820 ?e) x) else None)"
    by blast
  have "ppt_map ex_ppt s' 0x400123 = Some (0x400123, PAGE_PRESENT OR PAGE_RW)" "ppt_map ex_ppt s' 0x800000 = None"
    using r(2) [rule_format, of "0x400123"] r(2) [rule_format, of "0x800000"] ex_image_pages by simp_all
  with r(1) show ?thesis
    by (auto simp: ex_ppt_def)
qed

end
