(* ===== verification/Acrn_Vtd.thy ===== *)
theory Acrn_Vtd
  imports Acrn_Mmu Acrn_Bits
begin

text \<open>
  The IOMMU: \<^verbatim>\<open>src/hypervisor/arch/x86/vtd.c\<close>. The remapping tables and the invalidation
  queues are memory, addressed in 64-bit words; the registers of the remapping units are memory
  mapped, and every access is an event. What the hardware answers is a parameter: the value of a
  register after a history of events, and whether it has completed the last invalidation request.
  \<open>None\<close>: the function waits for the hardware forever.
\<close>

definition DMAR_GCMD_REG :: u32 where "DMAR_GCMD_REG = 0x18"
definition DMAR_GSTS_REG :: u32 where "DMAR_GSTS_REG = 0x1c"
definition DMAR_RTADDR_REG :: u32 where "DMAR_RTADDR_REG = 0x20"
definition DMAR_IQT_REG :: u32 where "DMAR_IQT_REG = 0x88"
definition DMAR_IQA_REG :: u32 where "DMAR_IQA_REG = 0x90"
definition DMAR_IRTA_REG :: u32 where "DMAR_IRTA_REG = 0xb8"
definition DMAR_GSTS_REG_MASK :: u32 where "DMAR_GSTS_REG_MASK = 0x96FFFFFF"
definition DMA_GCMD_TE :: u32 where "DMA_GCMD_TE = push_bit 31 1"
definition DMA_GCMD_SRTP :: u32 where "DMA_GCMD_SRTP = push_bit 30 1"
definition DMA_GCMD_QIE :: u32 where "DMA_GCMD_QIE = push_bit 26 1"
definition DMA_GCMD_SIRTP :: u32 where "DMA_GCMD_SIRTP = push_bit 24 1"
definition DMA_GCMD_IRE :: u32 where "DMA_GCMD_IRE = push_bit 25 1"
definition DMA_GSTS_TES :: u32 where "DMA_GSTS_TES = push_bit 31 1"
definition DMA_GSTS_RTPS :: u32 where "DMA_GSTS_RTPS = push_bit 30 1"
definition DMA_GSTS_QIES :: u32 where "DMA_GSTS_QIES = push_bit 26 1"
definition DMA_GSTS_IRTPS :: u32 where "DMA_GSTS_IRTPS = push_bit 24 1"
definition DMA_GSTS_IRES :: u32 where "DMA_GSTS_IRES = push_bit 25 1"
definition DMA_CONTEXT_GLOBAL_INVL :: u64 where "DMA_CONTEXT_GLOBAL_INVL = push_bit 4 1"
definition DMA_CONTEXT_DEVICE_INVL :: u64 where "DMA_CONTEXT_DEVICE_INVL = push_bit 4 3"
definition DMA_IOTLB_GLOBAL_INVL :: u64 where "DMA_IOTLB_GLOBAL_INVL = push_bit 4 1"
definition DMA_IOTLB_DOMAIN_INVL :: u64 where "DMA_IOTLB_DOMAIN_INVL = push_bit 4 2"
definition DMA_IOTLB_DR :: u64 where "DMA_IOTLB_DR = push_bit 7 1"
definition DMA_IOTLB_DW :: u64 where "DMA_IOTLB_DW = push_bit 6 1"
definition DMAR_IECI_INDEXED :: u64 where "DMAR_IECI_INDEXED = push_bit 4 1"
definition DMAR_IEC_GLOBAL_INVL :: u64 where "DMAR_IEC_GLOBAL_INVL = push_bit 4 0"
definition LEVEL_WIDTH :: u32 where "LEVEL_WIDTH = 9"
definition ROOT_ENTRY_LOWER_PRESENT_POS :: nat where "ROOT_ENTRY_LOWER_PRESENT_POS = 0"
definition ROOT_ENTRY_LOWER_PRESENT_MASK :: u64 where "ROOT_ENTRY_LOWER_PRESENT_MASK = push_bit 0 1"
definition ROOT_ENTRY_LOWER_CTP_POS :: nat where "ROOT_ENTRY_LOWER_CTP_POS = 12"
definition ROOT_ENTRY_LOWER_CTP_MASK :: u64 where "ROOT_ENTRY_LOWER_CTP_MASK = push_bit 12 0xFFFFFFFFFFFFF"
definition CTX_ENTRY_UPPER_AW_POS :: nat where "CTX_ENTRY_UPPER_AW_POS = 0"
definition CTX_ENTRY_UPPER_AW_MASK :: u64 where "CTX_ENTRY_UPPER_AW_MASK = push_bit 0 0x7"
definition CTX_ENTRY_UPPER_DID_POS :: nat where "CTX_ENTRY_UPPER_DID_POS = 8"
definition CTX_ENTRY_UPPER_DID_MASK :: u64 where "CTX_ENTRY_UPPER_DID_MASK = push_bit 8 0xFFFF"
definition CTX_ENTRY_LOWER_P_POS :: nat where "CTX_ENTRY_LOWER_P_POS = 0"
definition CTX_ENTRY_LOWER_P_MASK :: u64 where "CTX_ENTRY_LOWER_P_MASK = push_bit 0 0x1"
definition CTX_ENTRY_LOWER_TT_POS :: nat where "CTX_ENTRY_LOWER_TT_POS = 2"
definition CTX_ENTRY_LOWER_TT_MASK :: u64 where "CTX_ENTRY_LOWER_TT_MASK = push_bit 2 0x3"
definition CTX_ENTRY_LOWER_SLPTPTR_POS :: nat where "CTX_ENTRY_LOWER_SLPTPTR_POS = 12"
definition CTX_ENTRY_LOWER_SLPTPTR_MASK :: u64 where "CTX_ENTRY_LOWER_SLPTPTR_MASK = push_bit 12 0xFFFFFFFFFFFFF"
definition DMAR_CTX_TT_UNTRANSLATED :: u64 where "DMAR_CTX_TT_UNTRANSLATED = 0"
definition DMAR_INVALIDATION_QUEUE_SIZE :: u32 where "DMAR_INVALIDATION_QUEUE_SIZE = 4096"
definition DMAR_QI_INV_ENTRY_SIZE :: u32 where "DMAR_QI_INV_ENTRY_SIZE = 16"
definition DMAR_INV_CONTEXT_CACHE_DESC :: u64 where "DMAR_INV_CONTEXT_CACHE_DESC = 0x01"
definition DMAR_INV_IOTLB_DESC :: u64 where "DMAR_INV_IOTLB_DESC = 0x02"
definition DMAR_INV_IEC_DESC :: u64 where "DMAR_INV_IEC_DESC = 0x04"
definition DMAR_INV_WAIT_DESC :: u64 where "DMAR_INV_WAIT_DESC = 0x05"
definition DMAR_INV_STATUS_WRITE :: u64 where "DMAR_INV_STATUS_WRITE = push_bit 5 1"
definition DMAR_INV_STATUS_DATA :: u64 where "DMAR_INV_STATUS_DATA = push_bit 32 1"
definition DMAR_INV_WAIT_DESC_LOWER :: u64 where
  "DMAR_INV_WAIT_DESC_LOWER = DMAR_INV_STATUS_WRITE OR DMAR_INV_WAIT_DESC OR DMAR_INV_STATUS_DATA"
definition DMAR_IR_ENABLE_EIM :: u64 where "DMAR_IR_ENABLE_EIM = push_bit 11 1"
definition CONFIG_IOMMU_BUS_NUM :: u64 where "CONFIG_IOMMU_BUS_NUM = 0x100"
definition CONFIG_MAX_IR_ENTRIES :: u32 where "CONFIG_MAX_IR_ENTRIES = 256"

datatype dmar_cirg_type = DMAR_CIRG_RESERVED | DMAR_CIRG_GLOBAL | DMAR_CIRG_DOMAIN | DMAR_CIRG_DEVICE
datatype dmar_iirg_type = DMAR_IIRG_RESERVED | DMAR_IIRG_GLOBAL | DMAR_IIRG_DOMAIN | DMAR_IIRG_PAGE

subsection \<open>The state\<close>

record dmar_drhd =
  drhd_ignore :: bool
  reg_base_addr :: u64

record dmar_drhd_rt =
  dmar_index :: u32
  drhd :: dmar_drhd
  root_table_addr :: u64
  ir_table_addr :: u64
  qi_queue :: u64
  qi_tail :: u16
  gcmd :: u32

record iommu_domain =
  dom_vm_id :: u16
  addr_width :: u32
  trans_table_ptr :: u64

record dmar_entry =
  lo_64 :: u64
  hi_64 :: u64

datatype vtd_event = Mmio_read u64 | Mmio_write u64 u32 | Clflush u64 | Asm_pause

record vtd =
  vt_mem :: "u64 \<Rightarrow> u64"
  vt_units :: "nat \<Rightarrow> dmar_drhd_rt"
  vt_domains :: "u16 \<Rightarrow> iommu_domain"
  vt_ppt :: pgst
  vt_log :: "vtd_event list"

text \<open>
  Where the linker puts the static tables, the address of \<^verbatim>\<open>qi_status\<close> on the stack, the
  units of the board, the paging structures of the hypervisor, and the answers of the hardware.
\<close>

record vtd_env =
  root_tables :: u64
  ctx_tables :: u64
  qi_queues :: u64
  ir_tables :: u64
  qi_status :: u64
  plat_dmar_info :: "dmar_drhd list"
  ppt_pages :: pgtable_pages_info
  mmio_value :: "vtd_event list \<Rightarrow> u64 \<Rightarrow> u32"
  qi_completed :: "vtd_event list \<Rightarrow> bool"

definition upd_unit :: "nat \<Rightarrow> (dmar_drhd_rt \<Rightarrow> dmar_drhd_rt) \<Rightarrow> vtd \<Rightarrow> vtd" where
  "upd_unit u f s = s\<lparr>vt_units := (vt_units s)(u := f (vt_units s u))\<rparr>"

definition event :: "vtd_event \<Rightarrow> vtd \<Rightarrow> vtd" where
  "event e s = s\<lparr>vt_log := e # vt_log s\<rparr>"

text \<open>A \<^verbatim>\<open>struct dmar_entry\<close> in memory: the low word first.\<close>

definition read_entry :: "u64 \<Rightarrow> vtd \<Rightarrow> dmar_entry" where
  "read_entry p s = \<lparr>lo_64 = vt_mem s p, hi_64 = vt_mem s (p + 8)\<rparr>"

definition write_entry :: "u64 \<Rightarrow> dmar_entry \<Rightarrow> vtd \<Rightarrow> vtd" where
  "write_entry p e s = s\<lparr>vt_mem := (vt_mem s)(p + 8 := hi_64 e, p := lo_64 e)\<rparr>"

subsection \<open>Bit slices and table addresses\<close>

definition dmar_get_bitslice :: "u64 \<Rightarrow> u64 \<Rightarrow> nat \<Rightarrow> u64" where
  "dmar_get_bitslice var msk pos = drop_bit pos (var AND msk)"

definition dmar_set_bitslice :: "u64 \<Rightarrow> u64 \<Rightarrow> nat \<Rightarrow> u64 \<Rightarrow> u64" where
  "dmar_set_bitslice var msk pos val = (var AND NOT msk) OR (push_bit pos val AND msk)"

definition get_root_table :: "vtd_env \<Rightarrow> u32 \<Rightarrow> u64" where
  "get_root_table env i = root_tables env + PAGE_SIZE * ucast i"

definition get_ctx_table :: "vtd_env \<Rightarrow> u32 \<Rightarrow> u8 \<Rightarrow> u64" where
  "get_ctx_table env i bus_no = ctx_tables env + CONFIG_IOMMU_BUS_NUM * PAGE_SIZE * ucast i + PAGE_SIZE * ucast bus_no"

definition get_qi_queue :: "vtd_env \<Rightarrow> u32 \<Rightarrow> u64" where
  "get_qi_queue env i = qi_queues env + PAGE_SIZE * ucast i"

definition get_ir_table :: "vtd_env \<Rightarrow> u32 \<Rightarrow> u64" where
  "get_ir_table env i = ir_tables env + PAGE_SIZE * ucast i"

definition vmid_to_domainid :: "u16 \<Rightarrow> u16" where
  "vmid_to_domainid vm_id = vm_id + 1"

definition dma_ccmd_fm :: "u8 \<Rightarrow> u64" where "dma_ccmd_fm fm = push_bit 48 (ucast fm AND 0x3)"
definition dma_ccmd_sid :: "u16 \<Rightarrow> u64" where "dma_ccmd_sid sid = push_bit 32 (ucast sid AND 0xffff)"
definition dma_ccmd_did :: "u16 \<Rightarrow> u64" where "dma_ccmd_did did = push_bit 16 (ucast did AND 0xffff)"
definition dma_iotlb_did :: "u16 \<Rightarrow> u64" where "dma_iotlb_did did = push_bit 16 (ucast did AND 0xffff)"
definition dma_iec_index :: "u16 \<Rightarrow> u8 \<Rightarrow> u64" where
  "dma_iec_index index index_mask = push_bit 32 (ucast index AND 0xFFFF) OR push_bit 27 (ucast index_mask AND 0x1F)"

definition width_to_level :: "u32 \<Rightarrow> u8" where
  "width_to_level width = ucast ((width - 12) div LEVEL_WIDTH)"

definition width_to_aw :: "u32 \<Rightarrow> u8" where
  "width_to_aw width = width_to_level width - 2"

subsection \<open>Registers\<close>

definition iommu_read32 :: "vtd_env \<Rightarrow> nat \<Rightarrow> u32 \<Rightarrow> vtd \<Rightarrow> u32 \<times> vtd" where
  "iommu_read32 env u offset s =
     (let a = hpa2hva (reg_base_addr (drhd (vt_units s u)) + ucast offset)
      in (mmio_value env (vt_log s) a, event (Mmio_read a) s))"

definition iommu_write32 :: "nat \<Rightarrow> u32 \<Rightarrow> u32 \<Rightarrow> vtd \<Rightarrow> vtd" where
  "iommu_write32 u offset val s =
     event (Mmio_write (hpa2hva (reg_base_addr (drhd (vt_units s u)) + ucast offset)) val) s"

definition iommu_write64 :: "nat \<Rightarrow> u32 \<Rightarrow> u64 \<Rightarrow> vtd \<Rightarrow> vtd" where
  "iommu_write64 u offset val s =
     (let a = reg_base_addr (drhd (vt_units s u)) + ucast offset
      in event (Mmio_write (hpa2hva (a + 4)) (ucast (drop_bit 32 val))) (event (Mmio_write (hpa2hva a) (ucast val)) s))"

partial_function (option) dmar_wait_completion ::
  "vtd_env \<Rightarrow> nat \<Rightarrow> u32 \<Rightarrow> u32 \<Rightarrow> bool \<Rightarrow> vtd \<Rightarrow> vtd option" where
  "dmar_wait_completion env u offset msk pre_condition s =
     (let (status, s1) = iommu_read32 env u offset s
      in if (status AND msk = 0) = pre_condition then Some s1
         else dmar_wait_completion env u offset msk pre_condition (event Asm_pause s1))"

definition iommu_flush_cache :: "u64 \<Rightarrow> u32 \<Rightarrow> vtd \<Rightarrow> vtd" where
  "iommu_flush_cache p sz s = fold (\<lambda>i. event (Clflush (p + 64 * of_nat i))) [0..<(unat sz + 63) div 64] s"

definition dmar_enable_intr_remapping :: "vtd_env \<Rightarrow> nat \<Rightarrow> vtd \<Rightarrow> vtd option" where
  "dmar_enable_intr_remapping env u s =
     (if gcmd (vt_units s u) AND DMA_GCMD_IRE = 0 then
        let s1 = upd_unit u (\<lambda>r. r\<lparr>gcmd := gcmd r OR DMA_GCMD_IRE\<rparr>) s;
            s2 = iommu_write32 u DMAR_GCMD_REG (gcmd (vt_units s1 u)) s1
        in dmar_wait_completion env u DMAR_GSTS_REG DMA_GSTS_IRES False s2
      else Some s)"

definition dmar_enable_translation :: "vtd_env \<Rightarrow> nat \<Rightarrow> vtd \<Rightarrow> vtd option" where
  "dmar_enable_translation env u s =
     (if gcmd (vt_units s u) AND DMA_GCMD_TE = 0 then
        let s1 = upd_unit u (\<lambda>r. r\<lparr>gcmd := gcmd r OR DMA_GCMD_TE\<rparr>) s;
            s2 = iommu_write32 u DMAR_GCMD_REG (gcmd (vt_units s1 u)) s1
        in dmar_wait_completion env u DMAR_GSTS_REG DMA_GSTS_TES False s2
      else Some s)"

definition dmar_disable_translation :: "vtd_env \<Rightarrow> nat \<Rightarrow> vtd \<Rightarrow> vtd option" where
  "dmar_disable_translation env u s =
     (let s1 = upd_unit u (\<lambda>r. r\<lparr>gcmd := gcmd r AND NOT DMA_GCMD_TE\<rparr>) s;
          s2 = iommu_write32 u DMAR_GCMD_REG (gcmd (vt_units s1 u)) s1
      in dmar_wait_completion env u DMAR_GSTS_REG DMA_GSTS_TES True s2)"

definition dmar_register_hrhd :: "vtd_env \<Rightarrow> nat \<Rightarrow> vtd \<Rightarrow> vtd option" where
  "dmar_register_hrhd env u s =
     (let (status, s1) = iommu_read32 env u DMAR_GSTS_REG s
      in dmar_disable_translation env u (upd_unit u (\<lambda>r. r\<lparr>gcmd := status AND DMAR_GSTS_REG_MASK\<rparr>) s1))"

fun register_hrhd_loop :: "vtd_env \<Rightarrow> nat list \<Rightarrow> vtd \<Rightarrow> vtd option" where
  "register_hrhd_loop env [] s = Some s"
| "register_hrhd_loop env (i # is) s =
     do {
       let s1 = upd_unit i (\<lambda>r. r\<lparr>dmar_index := of_nat i, drhd := plat_dmar_info env ! i\<rparr>) s;
       pg \<leftarrow> hv_access_memory_region_update (ppt_pages env) (pml4_base (ppt_pages env))
               (hpa2hva (reg_base_addr (drhd (vt_units s1 i)))) PAGE_SIZE (vt_ppt s1);
       s2 \<leftarrow> dmar_register_hrhd env i (s1\<lparr>vt_ppt := pg\<rparr>);
       register_hrhd_loop env is s2
     }"

definition register_hrhd_units :: "vtd_env \<Rightarrow> vtd \<Rightarrow> vtd option" where
  "register_hrhd_units env s = register_hrhd_loop env [0..<length (plat_dmar_info env)] s"

subsection \<open>The invalidation queue\<close>

partial_function (option) qi_wait :: "vtd_env \<Rightarrow> vtd \<Rightarrow> vtd option" where
  "qi_wait env s = (if qi_completed env (vt_log s) then Some s else qi_wait env (event Asm_pause s))"

definition qi_put :: "nat \<Rightarrow> dmar_entry \<Rightarrow> vtd \<Rightarrow> vtd" where
  "qi_put u desc s =
     (let r = vt_units s u;
          p = qi_queue r + 16 * ucast (qi_tail r div ucast DMAR_QI_INV_ENTRY_SIZE)
      in upd_unit u (\<lambda>r. r\<lparr>qi_tail :=
           ucast ((ucast (qi_tail r) + DMAR_QI_INV_ENTRY_SIZE) mod DMAR_INVALIDATION_QUEUE_SIZE)\<rparr>)
           (write_entry p desc s))"

definition dmar_issue_qi_request :: "vtd_env \<Rightarrow> nat \<Rightarrow> dmar_entry \<Rightarrow> vtd \<Rightarrow> vtd option" where
  "dmar_issue_qi_request env u invalidate_desc s =
     (let s1 = qi_put u invalidate_desc s;
          s2 = qi_put u \<lparr>lo_64 = DMAR_INV_WAIT_DESC_LOWER, hi_64 = hva2hpa (qi_status env)\<rparr> s1;
          s3 = iommu_write32 u DMAR_IQT_REG (ucast (qi_tail (vt_units s2 u))) s2
      in qi_wait env s3)"

definition dmar_invalid_context_cache ::
  "vtd_env \<Rightarrow> nat \<Rightarrow> u16 \<Rightarrow> u16 \<Rightarrow> u8 \<Rightarrow> dmar_cirg_type \<Rightarrow> vtd \<Rightarrow> vtd option" where
  "dmar_invalid_context_cache env u did sid fm cirg s =
     (let lo = (case cirg of
                  DMAR_CIRG_GLOBAL \<Rightarrow> DMAR_INV_CONTEXT_CACHE_DESC OR DMA_CONTEXT_GLOBAL_INVL
                | DMAR_CIRG_DEVICE \<Rightarrow> DMAR_INV_CONTEXT_CACHE_DESC OR
                    (DMA_CONTEXT_DEVICE_INVL OR dma_ccmd_did did OR dma_ccmd_sid sid OR dma_ccmd_fm fm)
                | _ \<Rightarrow> 0)
      in if lo \<noteq> 0 then dmar_issue_qi_request env u \<lparr>lo_64 = lo, hi_64 = 0\<rparr> s else Some s)"

definition dmar_invalid_context_cache_global :: "vtd_env \<Rightarrow> nat \<Rightarrow> vtd \<Rightarrow> vtd option" where
  "dmar_invalid_context_cache_global env u s = dmar_invalid_context_cache env u 0 0 0 DMAR_CIRG_GLOBAL s"

definition dmar_invalid_iotlb ::
  "vtd_env \<Rightarrow> nat \<Rightarrow> u16 \<Rightarrow> u64 \<Rightarrow> u8 \<Rightarrow> bool \<Rightarrow> dmar_iirg_type \<Rightarrow> vtd \<Rightarrow> vtd option" where
  "dmar_invalid_iotlb env u did address am hint iirg s =
     (let base = DMA_IOTLB_DR OR DMA_IOTLB_DW OR DMAR_INV_IOTLB_DESC;
          lo = (case iirg of
                  DMAR_IIRG_GLOBAL \<Rightarrow> base OR DMA_IOTLB_GLOBAL_INVL
                | DMAR_IIRG_DOMAIN \<Rightarrow> base OR (DMA_IOTLB_DOMAIN_INVL OR dma_iotlb_did did)
                | _ \<Rightarrow> 0)
      in if lo \<noteq> 0 then dmar_issue_qi_request env u \<lparr>lo_64 = lo, hi_64 = 0\<rparr> s else Some s)"

definition dmar_invalid_iotlb_global :: "vtd_env \<Rightarrow> nat \<Rightarrow> vtd \<Rightarrow> vtd option" where
  "dmar_invalid_iotlb_global env u s = dmar_invalid_iotlb env u 0 0 0 False DMAR_IIRG_GLOBAL s"

definition dmar_invalid_iec :: "vtd_env \<Rightarrow> nat \<Rightarrow> u16 \<Rightarrow> u8 \<Rightarrow> bool \<Rightarrow> vtd \<Rightarrow> vtd option" where
  "dmar_invalid_iec env u intr_index index_mask is_global s =
     dmar_issue_qi_request env u
       \<lparr>lo_64 = DMAR_INV_IEC_DESC OR
          (if is_global then DMAR_IEC_GLOBAL_INVL else DMAR_IECI_INDEXED OR dma_iec_index intr_index index_mask),
        hi_64 = 0\<rparr> s"

definition dmar_invalid_iec_global :: "vtd_env \<Rightarrow> nat \<Rightarrow> vtd \<Rightarrow> vtd option" where
  "dmar_invalid_iec_global env u s = dmar_invalid_iec env u 0 0 True s"

subsection \<open>Preparing and enabling a unit\<close>

definition dmar_set_intr_remap_table :: "vtd_env \<Rightarrow> nat \<Rightarrow> vtd \<Rightarrow> vtd option" where
  "dmar_set_intr_remap_table env u s =
     (let s1 = (if ir_table_addr (vt_units s u) = 0
                then upd_unit u (\<lambda>r. r\<lparr>ir_table_addr := get_ir_table env (dmar_index r)\<rparr>) s else s);
          sz = (ucast (fls32 CONFIG_MAX_IR_ENTRIES) :: u8) - 1;
          address = (hva2hpa (ir_table_addr (vt_units s1 u)) OR DMAR_IR_ENABLE_EIM) OR ucast sz;
          s2 = iommu_write64 u DMAR_IRTA_REG address s1;
          s3 = iommu_write32 u DMAR_GCMD_REG (gcmd (vt_units s2 u) OR DMA_GCMD_SIRTP) s2
      in dmar_wait_completion env u DMAR_GSTS_REG DMA_GSTS_IRTPS False s3)"

definition dmar_set_root_table :: "vtd_env \<Rightarrow> nat \<Rightarrow> vtd \<Rightarrow> vtd option" where
  "dmar_set_root_table env u s =
     (let s1 = (if root_table_addr (vt_units s u) = 0
                then upd_unit u (\<lambda>r. r\<lparr>root_table_addr := get_root_table env (dmar_index r)\<rparr>) s else s);
          address = hva2hpa (root_table_addr (vt_units s1 u));
          s2 = iommu_write64 u DMAR_RTADDR_REG address s1;
          s3 = iommu_write32 u DMAR_GCMD_REG (gcmd (vt_units s2 u) OR DMA_GCMD_SRTP) s2
      in dmar_wait_completion env u DMAR_GSTS_REG DMA_GSTS_RTPS False s3)"

definition dmar_enable_qi :: "vtd_env \<Rightarrow> nat \<Rightarrow> vtd \<Rightarrow> vtd option" where
  "dmar_enable_qi env u s =
     (let s1 = upd_unit u (\<lambda>r. r\<lparr>qi_queue := get_qi_queue env (dmar_index r)\<rparr>) s;
          s2 = iommu_write64 u DMAR_IQA_REG (hva2hpa (qi_queue (vt_units s1 u))) s1;
          s3 = iommu_write32 u DMAR_IQT_REG 0 s2
      in if gcmd (vt_units s3 u) AND DMA_GCMD_QIE = 0 then
           let s4 = upd_unit u (\<lambda>r. r\<lparr>gcmd := gcmd r OR DMA_GCMD_QIE\<rparr>) s3;
               s5 = iommu_write32 u DMAR_GCMD_REG (gcmd (vt_units s4 u)) s4
           in dmar_wait_completion env u DMAR_GSTS_REG DMA_GSTS_QIES False s5
         else Some s3)"

definition dmar_prepare :: "vtd_env \<Rightarrow> nat \<Rightarrow> vtd \<Rightarrow> vtd option" where
  "dmar_prepare env u s =
     do {
       s1 \<leftarrow> dmar_set_root_table env u s;
       s2 \<leftarrow> dmar_enable_qi env u s1;
       dmar_set_intr_remap_table env u s2
     }"

definition dmar_enable :: "vtd_env \<Rightarrow> nat \<Rightarrow> vtd \<Rightarrow> vtd option" where
  "dmar_enable env u s =
     do {
       s1 \<leftarrow> dmar_invalid_context_cache_global env u s;
       s2 \<leftarrow> dmar_invalid_iotlb_global env u s1;
       s3 \<leftarrow> dmar_invalid_iec_global env u s2;
       dmar_enable_translation env u s3
     }"

subsection \<open>Devices and domains\<close>

definition root_entry_ptr :: "u8 \<Rightarrow> vtd \<Rightarrow> u64" where
  "root_entry_ptr bus s = root_table_addr (vt_units s 1) + 16 * ucast bus"

definition add_iommu_device :: "vtd_env \<Rightarrow> iommu_domain \<Rightarrow> u8 \<Rightarrow> u8 \<Rightarrow> vtd \<Rightarrow> i32 \<times> vtd" where
  "add_iommu_device env domain bus devfun s =
     (let root_entry = root_entry_ptr bus s;
          (context_table_addr, s1) =
            (if dmar_get_bitslice (lo_64 (read_entry root_entry s)) ROOT_ENTRY_LOWER_PRESENT_MASK
                  ROOT_ENTRY_LOWER_PRESENT_POS = 0
             then
               let cta = drop_bit PAGE_SHIFT (hva2hpa (get_ctx_table env (dmar_index (vt_units s 1)) bus));
                   lo = dmar_set_bitslice 0 ROOT_ENTRY_LOWER_CTP_MASK ROOT_ENTRY_LOWER_CTP_POS cta;
                   lo = dmar_set_bitslice lo ROOT_ENTRY_LOWER_PRESENT_MASK ROOT_ENTRY_LOWER_PRESENT_POS 1
               in (cta, iommu_flush_cache root_entry 16 (write_entry root_entry \<lparr>lo_64 = lo, hi_64 = 0\<rparr> s))
             else (dmar_get_bitslice (lo_64 (read_entry root_entry s)) ROOT_ENTRY_LOWER_CTP_MASK
                     ROOT_ENTRY_LOWER_CTP_POS, s));
          context_entry = hpa2hva (push_bit PAGE_SHIFT context_table_addr) + 16 * ucast devfun;
          hi = dmar_set_bitslice 0 CTX_ENTRY_UPPER_AW_MASK CTX_ENTRY_UPPER_AW_POS
                 (ucast (width_to_aw (addr_width domain)));
          lo = dmar_set_bitslice 0 CTX_ENTRY_LOWER_TT_MASK CTX_ENTRY_LOWER_TT_POS DMAR_CTX_TT_UNTRANSLATED;
          hi = dmar_set_bitslice hi CTX_ENTRY_UPPER_DID_MASK CTX_ENTRY_UPPER_DID_POS
                 (ucast (vmid_to_domainid (dom_vm_id domain)));
          lo = dmar_set_bitslice lo CTX_ENTRY_LOWER_SLPTPTR_MASK CTX_ENTRY_LOWER_SLPTPTR_POS
                 (drop_bit PAGE_SHIFT (trans_table_ptr domain));
          lo = dmar_set_bitslice lo CTX_ENTRY_LOWER_P_MASK CTX_ENTRY_LOWER_P_POS 1
      in (0, iommu_flush_cache context_entry 16 (write_entry context_entry \<lparr>lo_64 = lo, hi_64 = hi\<rparr> s1)))"

definition remove_iommu_device ::
  "vtd_env \<Rightarrow> iommu_domain \<Rightarrow> u8 \<Rightarrow> u8 \<Rightarrow> vtd \<Rightarrow> (i32 \<times> vtd) option" where
  "remove_iommu_device env domain bus devfun s =
     (let sid = push_bit 8 (ucast bus) OR ucast devfun;
          root_entry = root_entry_ptr bus s;
          context_table_addr = push_bit PAGE_SHIFT
            (dmar_get_bitslice (lo_64 (read_entry root_entry s)) ROOT_ENTRY_LOWER_CTP_MASK
               ROOT_ENTRY_LOWER_CTP_POS);
          context_entry = hpa2hva context_table_addr + 16 * ucast devfun;
          s1 = iommu_flush_cache context_entry 16 (write_entry context_entry \<lparr>lo_64 = 0, hi_64 = 0\<rparr> s);
          did = vmid_to_domainid (dom_vm_id domain)
      in do {
           s2 \<leftarrow> dmar_invalid_context_cache env 1 did sid 0 DMAR_CIRG_DEVICE s1;
           s3 \<leftarrow> dmar_invalid_iotlb env 1 did 0 0 False DMAR_IIRG_DOMAIN s2;
           Some (0, s3)
         })"

fun do_action_loop :: "(nat \<Rightarrow> vtd \<Rightarrow> vtd option) \<Rightarrow> nat list \<Rightarrow> vtd \<Rightarrow> vtd option" where
  "do_action_loop action [] s = Some s"
| "do_action_loop action (i # is) s =
     (if drhd_ignore (drhd (vt_units s i)) then do_action_loop action is s
      else do { s1 \<leftarrow> action i s; do_action_loop action is s1 })"

definition do_action_for_iommus :: "vtd_env \<Rightarrow> (nat \<Rightarrow> vtd \<Rightarrow> vtd option) \<Rightarrow> vtd \<Rightarrow> vtd option" where
  "do_action_for_iommus env action s = do_action_loop action [0..<length (plat_dmar_info env)] s"

text \<open>A domain is named by its index in \<^verbatim>\<open>iommu_domains\<close>.\<close>

definition create_iommu_domain :: "u16 \<Rightarrow> u64 \<Rightarrow> u32 \<Rightarrow> vtd \<Rightarrow> u16 \<times> vtd" where
  "create_iommu_domain vm_id translation_table aw s =
     (let d = vmid_to_domainid vm_id
      in (d, s\<lparr>vt_domains := (vt_domains s)
               (d := \<lparr>dom_vm_id = vm_id, addr_width = aw, trans_table_ptr = translation_table\<rparr>)\<rparr>))"

definition destroy_iommu_domain :: "u16 \<Rightarrow> vtd \<Rightarrow> vtd" where
  "destroy_iommu_domain d s =
     s\<lparr>vt_domains := (vt_domains s)(d := \<lparr>dom_vm_id = 0, addr_width = 0, trans_table_ptr = 0\<rparr>)\<rparr>"

definition enable_iommu :: "vtd_env \<Rightarrow> vtd \<Rightarrow> vtd option" where
  "enable_iommu env s = do_action_for_iommus env (dmar_enable env) s"

definition init_iommu :: "vtd_env \<Rightarrow> vtd \<Rightarrow> vtd option" where
  "init_iommu env s =
     do {
       s1 \<leftarrow> register_hrhd_units env s;
       do_action_for_iommus env (dmar_prepare env) s1
     }"

subsection \<open>Interrupt remapping entries\<close>

definition bitfield_set :: "nat \<Rightarrow> nat \<Rightarrow> u64 \<Rightarrow> u64 \<Rightarrow> u64" where
  "bitfield_set pos n val w = (w AND NOT (push_bit pos (mask n))) OR push_bit pos (val AND mask n)"

definition bitfield_get :: "nat \<Rightarrow> nat \<Rightarrow> u64 \<Rightarrow> u64" where
  "bitfield_get pos n w = drop_bit pos w AND mask n"

text \<open>The fields of \<^verbatim>\<open>union dmar_ir_entry\<close> that the code writes.\<close>

definition ir_set_present :: "u64 \<Rightarrow> dmar_entry \<Rightarrow> dmar_entry" where
  "ir_set_present v e = e\<lparr>lo_64 := bitfield_set 0 1 v (lo_64 e)\<rparr>"
definition ir_set_fpd :: "u64 \<Rightarrow> dmar_entry \<Rightarrow> dmar_entry" where
  "ir_set_fpd v e = e\<lparr>lo_64 := bitfield_set 1 1 v (lo_64 e)\<rparr>"
definition ir_set_dest_mode :: "u64 \<Rightarrow> dmar_entry \<Rightarrow> dmar_entry" where
  "ir_set_dest_mode v e = e\<lparr>lo_64 := bitfield_set 2 1 v (lo_64 e)\<rparr>"
definition ir_set_rh :: "u64 \<Rightarrow> dmar_entry \<Rightarrow> dmar_entry" where
  "ir_set_rh v e = e\<lparr>lo_64 := bitfield_set 3 1 v (lo_64 e)\<rparr>"
definition ir_set_trigger_mode :: "u64 \<Rightarrow> dmar_entry \<Rightarrow> dmar_entry" where
  "ir_set_trigger_mode v e = e\<lparr>lo_64 := bitfield_set 4 1 v (lo_64 e)\<rparr>"
definition ir_set_delivery_mode :: "u64 \<Rightarrow> dmar_entry \<Rightarrow> dmar_entry" where
  "ir_set_delivery_mode v e = e\<lparr>lo_64 := bitfield_set 5 3 v (lo_64 e)\<rparr>"
definition ir_set_mode :: "u64 \<Rightarrow> dmar_entry \<Rightarrow> dmar_entry" where
  "ir_set_mode v e = e\<lparr>lo_64 := bitfield_set 15 1 v (lo_64 e)\<rparr>"
definition ir_set_vector :: "u64 \<Rightarrow> dmar_entry \<Rightarrow> dmar_entry" where
  "ir_set_vector v e = e\<lparr>lo_64 := bitfield_set 16 8 v (lo_64 e)\<rparr>"
definition ir_set_dest :: "u64 \<Rightarrow> dmar_entry \<Rightarrow> dmar_entry" where
  "ir_set_dest v e = e\<lparr>lo_64 := bitfield_set 32 32 v (lo_64 e)\<rparr>"
definition ir_set_sid :: "u64 \<Rightarrow> dmar_entry \<Rightarrow> dmar_entry" where
  "ir_set_sid v e = e\<lparr>hi_64 := bitfield_set 0 16 v (hi_64 e)\<rparr>"
definition ir_set_sq :: "u64 \<Rightarrow> dmar_entry \<Rightarrow> dmar_entry" where
  "ir_set_sq v e = e\<lparr>hi_64 := bitfield_set 16 2 v (hi_64 e)\<rparr>"
definition ir_set_svt :: "u64 \<Rightarrow> dmar_entry \<Rightarrow> dmar_entry" where
  "ir_set_svt v e = e\<lparr>hi_64 := bitfield_set 18 2 v (hi_64 e)\<rparr>"

definition effective_irte :: "u16 \<Rightarrow> dmar_entry \<Rightarrow> dmar_entry" where
  "effective_irte sid irte =
     ir_set_fpd 0 (ir_set_trigger_mode 0 (ir_set_mode 0 (ir_set_present 1
       (ir_set_sid (ucast sid) (ir_set_sq 0 (ir_set_svt 1 irte))))))"

text \<open>\<^verbatim>\<open>sid\<close> is the value of \<^verbatim>\<open>intr_src.src.msi\<close>, the physical device.\<close>

definition dmar_assign_irte :: "vtd_env \<Rightarrow> u16 \<Rightarrow> dmar_entry \<Rightarrow> u16 \<Rightarrow> vtd \<Rightarrow> vtd option" where
  "dmar_assign_irte env sid irte index s =
     do {
       s1 \<leftarrow> dmar_enable_intr_remapping env 1 s;
       let ir_entry = ir_table_addr (vt_units s1 1) + 16 * ucast index;
       let s2 = iommu_flush_cache ir_entry 16 (write_entry ir_entry (effective_irte sid irte) s1);
       dmar_invalid_iec env 1 index 0 False s2
     }"

definition dmar_free_irte :: "vtd_env \<Rightarrow> u16 \<Rightarrow> u16 \<Rightarrow> vtd \<Rightarrow> vtd option" where
  "dmar_free_irte env sid index s =
     (let ir_entry = ir_table_addr (vt_units s 1) + 16 * ucast index;
          s1 = write_entry ir_entry (ir_set_present 0 (read_entry ir_entry s)) s
      in dmar_invalid_iec env 1 index 0 False (iommu_flush_cache ir_entry 16 s1))"

end
