(* ===== verification/Acrn_Dmar.thy ===== *)
theory Acrn_Dmar
  imports Acrn_Vtd
begin

text \<open>
  The DMA map the remapping hardware reads from the tables of \<open>Acrn_Vtd\<close>, the invariant of the
  tables, and the proof that assigning and removing a device are updates of that map and of nothing
  else. The hardware is assumed to complete every request after some rounds (\<open>responsive\<close>).
\<close>

subsection \<open>What the hardware reads\<close>

type_synonym dma_target = "u16 \<times> u64 \<times> u64"

definition dma_walk :: "(u64 \<Rightarrow> u64) \<Rightarrow> u64 \<Rightarrow> u8 \<Rightarrow> u8 \<Rightarrow> dma_target option" where
  "dma_walk m root bus devfun =
     (let re = m (root + 16 * ucast bus);
          ce = (re AND NOT (mask 12)) + 16 * ucast devfun
      in if bit re 0 \<and> bit (m ce) 0
         then Some (ucast (drop_bit 8 (m (ce + 8))), m ce AND NOT (mask 12), m (ce + 8) AND 7)
         else None)"

definition dma_map :: "vtd \<Rightarrow> u8 \<times> u8 \<Rightarrow> dma_target option" where
  "dma_map s d = dma_walk (vt_mem s) (root_table_addr (vt_units s 1)) (fst d) (snd d)"

definition domain_target :: "iommu_domain \<Rightarrow> dma_target" where
  "domain_target d = (vmid_to_domainid (dom_vm_id d), trans_table_ptr d AND NOT (mask 12),
     ucast (width_to_aw (addr_width d)) AND 7)"

definition ctx_base :: "vtd_env \<Rightarrow> vtd \<Rightarrow> u64" where
  "ctx_base env s = get_ctx_table env (dmar_index (vt_units s 1)) 0"

definition apart :: "nat \<Rightarrow> nat \<Rightarrow> nat \<Rightarrow> nat \<Rightarrow> bool" where
  "apart a la b lb \<longleftrightarrow> a + la \<le> b \<or> b + lb \<le> a"

text \<open>The static tables of the unit that serves the devices do not overlap and do not wrap.\<close>

definition vtd_layout :: "vtd_env \<Rightarrow> vtd \<Rightarrow> bool" where
  "vtd_layout env s \<longleftrightarrow>
     (let r = unat (root_table_addr (vt_units s 1)); c = unat (ctx_base env s);
          q = unat (qi_queue (vt_units s 1)); i = unat (ir_table_addr (vt_units s 1))
      in 4096 dvd r \<and> 4096 dvd c \<and> 4096 dvd q \<and> 4096 dvd i \<and>
         r + 4096 < 2 ^ 64 \<and> c + 2 ^ 20 < 2 ^ 64 \<and> q + 4096 < 2 ^ 64 \<and> i + 4096 < 2 ^ 64 \<and>
         apart r 4096 c (2 ^ 20) \<and> apart r 4096 q 4096 \<and> apart r 4096 i 4096 \<and>
         apart c (2 ^ 20) q 4096 \<and> apart c (2 ^ 20) i 4096 \<and> apart q 4096 i 4096)"

definition qi_ok :: "vtd \<Rightarrow> bool" where
  "qi_ok s \<longleftrightarrow> 16 dvd unat (qi_tail (vt_units s 1)) \<and> unat (qi_tail (vt_units s 1)) < 4096"

text \<open>A present root entry points to the context table of its bus; the table of an absent one is empty.\<close>

definition tables_ok :: "vtd_env \<Rightarrow> vtd \<Rightarrow> bool" where
  "tables_ok env s \<longleftrightarrow>
     (\<forall>bus :: u8. let re = vt_mem s (root_table_addr (vt_units s 1) + 16 * ucast bus) in
        (bit re 0 \<longrightarrow> re AND NOT (mask 12) = ctx_base env s + 4096 * ucast bus) \<and>
        (\<not> bit re 0 \<longrightarrow> (\<forall>df :: u8. \<not> bit (vt_mem s (ctx_base env s + 4096 * ucast bus + 16 * ucast df)) 0)))"

definition vtd_wf :: "vtd_env \<Rightarrow> vtd \<Rightarrow> bool" where
  "vtd_wf env s \<longleftrightarrow> vtd_layout env s \<and> qi_ok s \<and> tables_ok env s"

definition responsive :: "vtd_env \<Rightarrow> bool" where
  "responsive env \<longleftrightarrow> (\<forall>l. \<exists>n. qi_completed env (replicate n Asm_pause @ l))"

subsection \<open>Bit slices\<close>

lemma present_slice: "dmar_get_bitslice w ROOT_ENTRY_LOWER_PRESENT_MASK ROOT_ENTRY_LOWER_PRESENT_POS = 0 \<longleftrightarrow> \<not> bit w 0"
  by (simp add: dmar_get_bitslice_def ROOT_ENTRY_LOWER_PRESENT_MASK_def ROOT_ENTRY_LOWER_PRESENT_POS_def and_one_eq bit_0 odd_iff_mod_2_eq_one)

lemma page_mask: "push_bit 12 0xFFFFFFFFFFFFF = (NOT (mask 12) :: u64)"
  by (simp add: mask_eq_exp_minus_1)

lemma ctp_slice:
  "push_bit PAGE_SHIFT (dmar_get_bitslice w ROOT_ENTRY_LOWER_CTP_MASK ROOT_ENTRY_LOWER_CTP_POS) = w AND NOT (mask 12)"
  unfolding dmar_get_bitslice_def ROOT_ENTRY_LOWER_CTP_MASK_def ROOT_ENTRY_LOWER_CTP_POS_def page_mask
  by (simp add: PAGE_SHIFT_def bit_eq_iff bit_simps) auto

lemma page_slice: "push_bit 12 (drop_bit 12 w) AND NOT (mask 12) = (w AND NOT (mask 12) :: u64)"
  by (simp add: bit_eq_iff bit_simps) auto

lemma root_lo:
  "dmar_set_bitslice (dmar_set_bitslice 0 ROOT_ENTRY_LOWER_CTP_MASK ROOT_ENTRY_LOWER_CTP_POS (drop_bit PAGE_SHIFT c))
     ROOT_ENTRY_LOWER_PRESENT_MASK ROOT_ENTRY_LOWER_PRESENT_POS 1 = (c AND NOT (mask 12)) OR 1"
  unfolding dmar_set_bitslice_def ROOT_ENTRY_LOWER_CTP_MASK_def ROOT_ENTRY_LOWER_CTP_POS_def page_mask
    ROOT_ENTRY_LOWER_PRESENT_MASK_def ROOT_ENTRY_LOWER_PRESENT_POS_def PAGE_SHIFT_def page_slice
  by (simp add: bit_eq_iff bit_simps) auto

lemma ctx_lo:
  "dmar_set_bitslice (dmar_set_bitslice (dmar_set_bitslice 0 CTX_ENTRY_LOWER_TT_MASK CTX_ENTRY_LOWER_TT_POS
       DMAR_CTX_TT_UNTRANSLATED) CTX_ENTRY_LOWER_SLPTPTR_MASK CTX_ENTRY_LOWER_SLPTPTR_POS (drop_bit PAGE_SHIFT c))
     CTX_ENTRY_LOWER_P_MASK CTX_ENTRY_LOWER_P_POS 1 = (c AND NOT (mask 12)) OR 1"
  unfolding dmar_set_bitslice_def CTX_ENTRY_LOWER_SLPTPTR_MASK_def CTX_ENTRY_LOWER_SLPTPTR_POS_def page_mask
    CTX_ENTRY_LOWER_P_MASK_def CTX_ENTRY_LOWER_P_POS_def PAGE_SHIFT_def page_slice DMAR_CTX_TT_UNTRANSLATED_def
  by (simp add: bit_eq_iff bit_simps) auto

lemma page_or_1:
  "bit ((c AND NOT (mask 12)) OR 1 :: u64) 0"
  "((c AND NOT (mask 12)) OR 1 :: u64) AND NOT (mask 12) = c AND NOT (mask 12)"
  by (simp add: bit_simps) (rule bit_eqI, auto simp: bit_simps)

definition ctx_hi :: "u16 \<Rightarrow> u8 \<Rightarrow> u64" where
  "ctx_hi did aw = dmar_set_bitslice
     (dmar_set_bitslice 0 CTX_ENTRY_UPPER_AW_MASK CTX_ENTRY_UPPER_AW_POS (ucast aw))
     CTX_ENTRY_UPPER_DID_MASK CTX_ENTRY_UPPER_DID_POS (ucast did)"

lemma masks_7_16: "(7 :: u64) = mask 3" "(0xFFFF :: u64) = mask 16"
  by (simp_all add: mask_eq_exp_minus_1)

lemma ctx_hi_read: "ucast (drop_bit 8 (ctx_hi did aw)) = did" "ctx_hi did aw AND 7 = ucast aw AND 7"
  unfolding ctx_hi_def dmar_set_bitslice_def CTX_ENTRY_UPPER_AW_MASK_def CTX_ENTRY_UPPER_AW_POS_def
    CTX_ENTRY_UPPER_DID_MASK_def CTX_ENTRY_UPPER_DID_POS_def masks_7_16
  by (auto simp: bit_eq_iff bit_simps)

subsection \<open>Events do not change the tables\<close>

lemma vt_mem_event [simp]: "vt_mem (event e s) = vt_mem s" "vt_units (event e s) = vt_units s"
  "vt_domains (event e s) = vt_domains s" "vt_ppt (event e s) = vt_ppt s"
  by (simp_all add: event_def)

lemma fold_event_mem:
  "vt_mem (fold (\<lambda>i. event (f i)) xs s) = vt_mem s \<and> vt_units (fold (\<lambda>i. event (f i)) xs s) = vt_units s \<and>
   vt_domains (fold (\<lambda>i. event (f i)) xs s) = vt_domains s"
  by (induction xs arbitrary: s) simp_all

lemma flush_mem [simp]: "vt_mem (iommu_flush_cache p sz s) = vt_mem s"
  "vt_units (iommu_flush_cache p sz s) = vt_units s" "vt_domains (iommu_flush_cache p sz s) = vt_domains s"
  by (simp_all add: iommu_flush_cache_def fold_event_mem)

lemma write_entry_units [simp]: "vt_units (write_entry p e s) = vt_units s"
  "vt_domains (write_entry p e s) = vt_domains s"
  by (simp_all add: write_entry_def)

lemma vt_mem_write_entry:
  "vt_mem (write_entry p e s) = (vt_mem s)(p + 8 := hi_64 e, p := lo_64 e)"
  by (simp add: write_entry_def)

lemma upd_unit_mem [simp]: "vt_mem (upd_unit u f s) = vt_mem s"
  "vt_units (upd_unit u f s) u = f (vt_units s u)" "vt_domains (upd_unit u f s) = vt_domains s"
  "vt_log (upd_unit u f s) = vt_log s"
  by (simp_all add: upd_unit_def)

lemma qi_wait_mem:
  assumes "qi_wait env s = Some s'"
  shows "\<exists>n. s' = s\<lparr>vt_log := replicate n Asm_pause @ vt_log s\<rparr>"
proof (rule qi_wait.raw_induct [OF _ assms])
  fix f env s s'
  assume step: "\<And>env s s'. f env s = Some s' \<Longrightarrow> \<exists>n. s' = s\<lparr>vt_log := replicate n Asm_pause @ vt_log s\<rparr>"
    and run: "(if qi_completed env (vt_log s) then Some s else f env (event Asm_pause s)) = Some s'"
  show "\<exists>n. s' = s\<lparr>vt_log := replicate n Asm_pause @ vt_log s\<rparr>"
  proof (cases "qi_completed env (vt_log s)")
    case True
    then show ?thesis
      using run by (auto intro: exI [of _ 0])
  next
    case False
    then obtain n where "s' = (event Asm_pause s)\<lparr>vt_log := replicate n Asm_pause @ vt_log (event Asm_pause s)\<rparr>"
      using run step by fastforce
    then show ?thesis
      by (intro exI [of _ "Suc n"]) (simp add: event_def replicate_app_Cons_same)
  qed
qed

lemma qi_wait_completes:
  "qi_completed env (replicate n Asm_pause @ vt_log s) \<Longrightarrow> \<exists>s'. qi_wait env s = Some s'"
proof (induction n arbitrary: s)
  case 0
  then show ?case
    by (subst qi_wait.simps) simp
next
  case (Suc n)
  have "replicate n Asm_pause @ vt_log (event Asm_pause s) = replicate (Suc n) Asm_pause @ vt_log s"
    by (simp add: event_def replicate_app_Cons_same)
  then have "\<exists>s'. qi_wait env (event Asm_pause s) = Some s'"
    using Suc by metis
  then show ?case
    by (subst qi_wait.simps) simp
qed

declare One_nat_def [simp del]

subsection \<open>An invalidation request\<close>

definition put_entry :: "u64 \<Rightarrow> dmar_entry \<Rightarrow> (u64 \<Rightarrow> u64) \<Rightarrow> u64 \<Rightarrow> u64" where
  "put_entry p e m = m(p + 8 := hi_64 e, p := lo_64 e)"

definition qi_slot :: "vtd \<Rightarrow> nat \<Rightarrow> u64" where
  "qi_slot s k = qi_queue (vt_units s 1) + 16 * of_nat (k mod 256)"

definition qi_index :: "vtd \<Rightarrow> nat" where
  "qi_index s = unat (qi_tail (vt_units s 1)) div 16"

definition wait_desc :: "vtd_env \<Rightarrow> dmar_entry" where
  "wait_desc env = \<lparr>lo_64 = DMAR_INV_WAIT_DESC_LOWER, hi_64 = hva2hpa (qi_status env)\<rparr>"

definition iqt_write :: "vtd \<Rightarrow> u16 \<Rightarrow> vtd_event" where
  "iqt_write s t = Mmio_write (reg_base_addr (drhd (vt_units s 1)) + 0x88) (ucast t)"

lemma tail_next:
  assumes "16 dvd unat (t :: u16)" "unat t < 4096"
  shows "(ucast ((ucast t + DMAR_QI_INV_ENTRY_SIZE) mod DMAR_INVALIDATION_QUEUE_SIZE) :: u16) =
    of_nat (16 * (Suc (unat t div 16) mod 256))"
proof -
  obtain k where k: "unat t = 16 * k" "k < 256"
    using assms by (auto elim: dvdE)
  have "unat ((ucast t + 16) mod 4096 :: u32) = (16 * k + 16) mod 4096"
    using k by (simp add: unat_mod unat_add_small unat_ucast_up)
  also have "\<dots> = 16 * (Suc k mod 256)"
    using mult_mod_right [of 16 "Suc k" 256] by (simp add: add.commute)
  finally have eq: "unat ((ucast t + 16) mod 4096 :: u32) = 16 * (Suc k mod 256)" .
  have small: "16 * (Suc k mod 256) < 4096"
    by simp
  then have "unat (ucast ((ucast t + 16) mod 4096 :: u32) :: u16) = 16 * (Suc k mod 256)"
    using eq by (simp add: unsigned_ucast_eq take_bit_nat_eq_self)
  then show ?thesis
    using k small by (simp add: DMAR_QI_INV_ENTRY_SIZE_def DMAR_INVALIDATION_QUEUE_SIZE_def word_nat_eq
        unat_of_nat_small del: of_nat_mult)
qed

lemma qi_put_eq:
  assumes "qi_ok s"
  shows "vt_mem (qi_put 1 d s) = put_entry (qi_slot s (qi_index s)) d (vt_mem s)" (is ?m)
    and "vt_units (qi_put 1 d s) =
      (vt_units s)(1 := (vt_units s 1)\<lparr>qi_tail := of_nat (16 * (Suc (qi_index s) mod 256))\<rparr>)" (is ?u)
    and "vt_domains (qi_put 1 d s) = vt_domains s" "vt_log (qi_put 1 d s) = vt_log s"
    and "qi_ok (qi_put 1 d s)" "qi_index (qi_put 1 d s) = Suc (qi_index s) mod 256"
proof -
  have k: "qi_index s < 256" "16 dvd unat (qi_tail (vt_units s 1))" "unat (qi_tail (vt_units s 1)) < 4096"
    using assms by (auto simp: qi_ok_def qi_index_def)
  have "ucast (qi_tail (vt_units s 1) div ucast DMAR_QI_INV_ENTRY_SIZE) = (of_nat (qi_index s) :: u64)"
    using k by (simp add: word_nat_eq unat_ucast_up unat_div DMAR_QI_INV_ENTRY_SIZE_def qi_index_def unat_of_nat_small)
  then show ?m
    using k by (simp add: qi_put_def vt_mem_write_entry put_entry_def qi_slot_def)
  show u: ?u
    unfolding qi_put_def Let_def upd_unit_def using tail_next [OF k(2) k(3)]
    by (simp add: qi_index_def del: of_nat_mult)
  show "vt_domains (qi_put 1 d s) = vt_domains s" "vt_log (qi_put 1 d s) = vt_log s"
    by (simp_all add: qi_put_def Let_def write_entry_def)
  have "unat (of_nat (16 * (Suc (qi_index s) mod 256)) :: u16) = 16 * (Suc (qi_index s) mod 256)"
    using mod_less_divisor [of 256 "Suc (qi_index s)"] by (intro unat_of_nat_small) simp
  then show "qi_ok (qi_put 1 d s)" "qi_index (qi_put 1 d s) = Suc (qi_index s) mod 256"
    by (simp_all add: qi_ok_def qi_index_def u del: of_nat_mult)
qed

lemma issue_qi:
  assumes "responsive env" "qi_ok s"
  obtains s' n where "dmar_issue_qi_request env 1 d s = Some s'"
    "vt_mem s' = put_entry (qi_slot s (Suc (qi_index s))) (wait_desc env) (put_entry (qi_slot s (qi_index s)) d (vt_mem s))"
    "vt_units s' = (vt_units s)(1 := (vt_units s 1)\<lparr>qi_tail := of_nat (16 * ((qi_index s + 2) mod 256))\<rparr>)"
    "vt_domains s' = vt_domains s"
    "vt_log s' = replicate n Asm_pause @ iqt_write s (of_nat (16 * ((qi_index s + 2) mod 256))) # vt_log s"
    "qi_ok s'" "qi_index s' = (qi_index s + 2) mod 256"
proof -
  let ?s1 = "qi_put 1 d s"
  let ?s2 = "qi_put 1 (wait_desc env) ?s1"
  let ?s3 = "iommu_write32 1 DMAR_IQT_REG (ucast (qi_tail (vt_units ?s2 1))) ?s2"
  note p1 = qi_put_eq [OF assms(2), of d]
  note p2 = qi_put_eq [OF p1(5), of "wait_desc env"]
  have "\<exists>n. qi_completed env (replicate n Asm_pause @ vt_log ?s3)"
    using assms(1) by (auto simp: responsive_def)
  then obtain s' where s': "qi_wait env ?s3 = Some s'"
    using qi_wait_completes by blast
  obtain n where n: "s' = ?s3\<lparr>vt_log := replicate n Asm_pause @ vt_log ?s3\<rparr>"
    using qi_wait_mem [OF s'] by blast
  have idx: "Suc (qi_index ?s1) mod 256 = (qi_index s + 2) mod 256"
    by (simp add: p1(6) mod_Suc_eq)
  have slot: "qi_slot ?s1 (qi_index ?s1) = qi_slot s (Suc (qi_index s))"
    by (simp add: qi_slot_def p1 del: of_nat_Suc)
  have units: "vt_units ?s2 = (vt_units s)(1 := (vt_units s 1)\<lparr>qi_tail := of_nat (16 * ((qi_index s + 2) mod 256))\<rparr>)"
    unfolding p2(2) idx unfolding p1(2) by simp
  have mem: "vt_mem ?s2 = put_entry (qi_slot s (Suc (qi_index s))) (wait_desc env) (put_entry (qi_slot s (qi_index s)) d (vt_mem s))"
    unfolding p2(1) slot p1(1) ..
  have run: "dmar_issue_qi_request env 1 d s = Some s'"
    using s' by (simp add: dmar_issue_qi_request_def Let_def flip: wait_desc_def)
  have "vt_mem s' = vt_mem ?s2" "vt_units s' = vt_units ?s2" "vt_domains s' = vt_domains ?s2"
    by (simp_all add: n iommu_write32_def)
  moreover have "vt_log s' = replicate n Asm_pause @ iqt_write s (of_nat (16 * ((qi_index s + 2) mod 256))) # vt_log s"
    by (simp add: n iommu_write32_def event_def p1(2,4) p2(4) units iqt_write_def hpa2hva_def DMAR_IQT_REG_def)
  moreover have "qi_ok s'" "qi_index s' = (qi_index s + 2) mod 256"
    using p2(5) p2(6) [unfolded idx] calculation(2) by (simp_all only: qi_ok_def qi_index_def)
  ultimately show thesis
    using run units mem p1(3) p2(3) by (intro that [of s' n]) simp_all
qed

subsection \<open>The addresses of the tables\<close>

definition root_at :: "vtd \<Rightarrow> u8 \<Rightarrow> u64" where
  "root_at s bus = root_table_addr (vt_units s 1) + 16 * ucast bus"

definition ctx_at :: "vtd_env \<Rightarrow> vtd \<Rightarrow> u8 \<Rightarrow> u8 \<Rightarrow> u64" where
  "ctx_at env s bus df = ctx_base env s + 4096 * ucast bus + 16 * ucast df"

definition ir_at :: "vtd \<Rightarrow> u16 \<Rightarrow> u64" where
  "ir_at s i = ir_table_addr (vt_units s 1) + 16 * ucast i"

lemma unat_u8_bound: "unat (b :: u8) < 256"
  using unsigned_less [of b, where 'a = nat] by simp

lemma unat_base_slot:
  fixes base :: u64 and b :: u8
  assumes "unat base + 4096 < 2 ^ 64"
  shows "unat (base + 16 * ucast b) = unat base + 16 * unat b"
    and "unat (base + 16 * ucast b + 8) = unat base + 16 * unat b + 8"
proof -
  have b: "unat (16 * ucast b :: u64) = 16 * unat b"
    using unat_u8_bound [of b] by (simp add: unat_word_ariths unat_ucast_up)
  then show 1: "unat (base + 16 * ucast b) = unat base + 16 * unat b"
    using assms unat_u8_bound [of b] by (subst unat_add_small) simp_all
  then show "unat (base + 16 * ucast b + 8) = unat base + 16 * unat b + 8"
    using assms unat_u8_bound [of b] by (subst unat_add_small) simp_all
qed

lemma unat_page_base:
  fixes base :: u64 and b :: u8
  assumes "unat base + 2 ^ 20 < 2 ^ 64"
  shows "unat (base + 4096 * ucast b) = unat base + 4096 * unat b"
proof -
  have b: "unat (4096 * ucast b :: u64) = 4096 * unat b"
    using unat_u8_bound [of b] by (simp add: unat_word_ariths unat_ucast_up)
  then show ?thesis
    using assms unat_u8_bound [of b] by (subst unat_add_small) simp_all
qed

lemma unat_root_at:
  assumes "vtd_layout env s"
  shows "unat (root_at s b) = unat (root_table_addr (vt_units s 1)) + 16 * unat b"
    and "unat (root_at s b + 8) = unat (root_table_addr (vt_units s 1)) + 16 * unat b + 8"
  using assms unat_base_slot [of "root_table_addr (vt_units s 1)" b]
  by (simp_all add: vtd_layout_def root_at_def Let_def)

lemma unat_ctx_at:
  assumes "vtd_layout env s"
  shows "unat (ctx_at env s b d) = unat (ctx_base env s) + 4096 * unat b + 16 * unat d"
    and "unat (ctx_at env s b d + 8) = unat (ctx_base env s) + 4096 * unat b + 16 * unat d + 8"
proof -
  have c: "unat (ctx_base env s) + 2 ^ 20 < 2 ^ 64"
    using assms by (simp add: vtd_layout_def Let_def)
  then have b: "unat (ctx_base env s + 4096 * ucast b) = unat (ctx_base env s) + 4096 * unat b"
    by (rule unat_page_base)
  then have "unat (ctx_base env s + 4096 * ucast b) + 4096 < 2 ^ 64"
    using c unat_u8_bound [of b] by simp
  then show "unat (ctx_at env s b d) = unat (ctx_base env s) + 4096 * unat b + 16 * unat d"
    "unat (ctx_at env s b d + 8) = unat (ctx_base env s) + 4096 * unat b + 16 * unat d + 8"
    using unat_base_slot [of "ctx_base env s + 4096 * ucast b" d] b by (simp_all add: ctx_at_def)
qed

lemma unat_qi_slot:
  assumes "vtd_layout env s"
  shows "unat (qi_slot s k) = unat (qi_queue (vt_units s 1)) + 16 * (k mod 256)"
    and "unat (qi_slot s k + 8) = unat (qi_queue (vt_units s 1)) + 16 * (k mod 256) + 8"
proof -
  have "(of_nat (k mod 256) :: u64) = ucast (of_nat (k mod 256) :: u8)" "unat (of_nat (k mod 256) :: u8) = k mod 256"
    by (simp_all add: word_nat_eq unat_ucast_up unat_of_nat)
  then show "unat (qi_slot s k) = unat (qi_queue (vt_units s 1)) + 16 * (k mod 256)"
    "unat (qi_slot s k + 8) = unat (qi_queue (vt_units s 1)) + 16 * (k mod 256) + 8"
    using assms unat_base_slot [of "qi_queue (vt_units s 1)" "of_nat (k mod 256)"]
    by (simp_all add: vtd_layout_def qi_slot_def Let_def)
qed

lemma unat_ir_at:
  assumes "vtd_layout env s" "i < 256"
  shows "unat (ir_at s i) = unat (ir_table_addr (vt_units s 1)) + 16 * unat i"
    and "unat (ir_at s i + 8) = unat (ir_table_addr (vt_units s 1)) + 16 * unat i + 8"
proof -
  have i: "unat i < 256"
    using assms(2) by (simp add: word_less_nat_alt)
  then have low: "unat (ucast i :: u8) = unat i"
    by (simp add: unsigned_ucast_eq take_bit_nat_eq_self)
  have "unat (ucast i :: u64) = unat i" "unat (ucast (ucast i :: u8) :: u64) = unat (ucast i :: u8)"
    by (rule unat_ucast_up, simp)+
  then have eq: "(ucast i :: u64) = ucast (ucast i :: u8)"
    by (simp only: word_nat_eq low)
  show "unat (ir_at s i) = unat (ir_table_addr (vt_units s 1)) + 16 * unat i"
    "unat (ir_at s i + 8) = unat (ir_table_addr (vt_units s 1)) + 16 * unat i + 8"
    using assms(1) unat_base_slot [of "ir_table_addr (vt_units s 1)" "ucast i"]
    by (simp_all only: vtd_layout_def ir_at_def Let_def low eq)
qed

subsection \<open>The map by context entries\<close>

definition entry_target :: "u64 \<Rightarrow> u64 \<Rightarrow> dma_target option" where
  "entry_target lo hi = (if bit lo 0 then Some (ucast (drop_bit 8 hi), lo AND NOT (mask 12), hi AND 7) else None)"

lemma dma_map_ctx:
  assumes "tables_ok env s"
  shows "dma_map s (b, d) = entry_target (vt_mem s (ctx_at env s b d)) (vt_mem s (ctx_at env s b d + 8))"
  using assms
  by (auto simp: tables_ok_def dma_map_def dma_walk_def entry_target_def ctx_at_def Let_def)

text \<open>Writes elsewhere keep the invariant and the map.\<close>

definition in_tables :: "vtd_env \<Rightarrow> vtd \<Rightarrow> u64 \<Rightarrow> bool" where
  "in_tables env s a \<longleftrightarrow> (\<exists>b. a = root_at s b) \<or> (\<exists>b d. a = ctx_at env s b d \<or> a = ctx_at env s b d + 8)"

lemma frame_tables:
  assumes "tables_ok env s"
    and units: "root_table_addr (vt_units s' 1) = root_table_addr (vt_units s 1)"
      "dmar_index (vt_units s' 1) = dmar_index (vt_units s 1)"
    and mem: "\<And>a. in_tables env s a \<Longrightarrow> vt_mem s' a = vt_mem s a"
  shows "tables_ok env s'" "dma_map s' = dma_map s"
proof -
  have base: "ctx_base env s' = ctx_base env s"
    by (simp add: ctx_base_def units)
  have r: "vt_mem s' (root_table_addr (vt_units s 1) + 16 * ucast b) = vt_mem s (root_table_addr (vt_units s 1) + 16 * ucast b)"
    for b :: u8
    using mem by (auto simp: in_tables_def root_at_def)
  have c: "vt_mem s' (ctx_base env s + 4096 * ucast b + 16 * ucast d) = vt_mem s (ctx_base env s + 4096 * ucast b + 16 * ucast d)"
    for b d :: u8
    using mem by (auto simp: in_tables_def ctx_at_def)
  show ok: "tables_ok env s'"
    using assms(1) by (simp add: tables_ok_def base units r c)
  show "dma_map s' = dma_map s"
  proof
    fix x :: "u8 \<times> u8"
    have at: "ctx_at env s' (fst x) (snd x) = ctx_at env s (fst x) (snd x)"
      by (simp add: ctx_at_def base)
    have "vt_mem s' (ctx_at env s (fst x) (snd x)) = vt_mem s (ctx_at env s (fst x) (snd x))"
      "vt_mem s' (ctx_at env s (fst x) (snd x) + 8) = vt_mem s (ctx_at env s (fst x) (snd x) + 8)"
      by (rule mem, auto simp: in_tables_def)+
    then show "dma_map s' x = dma_map s x"
      using dma_map_ctx [OF ok, of "fst x" "snd x"] dma_map_ctx [OF assms(1), of "fst x" "snd x"] by (simp add: at)
  qed
qed

lemma put_entry_other: "a \<noteq> p \<Longrightarrow> a \<noteq> p + 8 \<Longrightarrow> put_entry p e m a = m a"
  by (simp add: put_entry_def)

lemma put_entry_same: "put_entry p e m p = lo_64 e" "put_entry p e m (p + 8) = hi_64 e"
  by (simp_all add: put_entry_def)

definition in_page :: "u64 \<Rightarrow> nat \<Rightarrow> u64 \<Rightarrow> bool" where
  "in_page base n a \<longleftrightarrow> unat base \<le> unat a \<and> unat a < unat base + n"

lemma in_tables_range:
  assumes "vtd_layout env s" "in_tables env s a"
  shows "in_page (root_table_addr (vt_units s 1)) 4096 a \<or> in_page (ctx_base env s) (2 ^ 20) a"
proof -
  consider b where "a = root_at s b" | b d where "a = ctx_at env s b d" | b d where "a = ctx_at env s b d + 8"
    using assms(2) by (auto simp: in_tables_def)
  then show ?thesis
  proof cases
    case (1 b)
    then show ?thesis
      using unat_u8_bound [of b] by (simp add: in_page_def unat_root_at [OF assms(1)])
  next
    case (2 b d)
    then show ?thesis
      using unat_u8_bound [of b] unat_u8_bound [of d] by (simp add: in_page_def unat_ctx_at [OF assms(1)])
  next
    case (3 b d)
    then show ?thesis
      using unat_u8_bound [of b] unat_u8_bound [of d] by (simp add: in_page_def unat_ctx_at [OF assms(1)])
  qed
qed

lemma qi_slot_range:
  assumes "vtd_layout env s"
  shows "in_page (qi_queue (vt_units s 1)) 4096 (qi_slot s k)"
    "in_page (qi_queue (vt_units s 1)) 4096 (qi_slot s k + 8)"
  using mod_less_divisor [of 256 k] by (simp_all add: in_page_def unat_qi_slot [OF assms])

lemma ir_at_range:
  assumes "vtd_layout env s" "i < 256"
  shows "in_page (ir_table_addr (vt_units s 1)) 4096 (ir_at s i)"
    "in_page (ir_table_addr (vt_units s 1)) 4096 (ir_at s i + 8)"
  using assms(2) by (simp_all add: in_page_def unat_ir_at [OF assms] word_less_nat_alt)

lemma in_page_apart: "apart (unat p) n (unat q) m \<Longrightarrow> in_page p n a \<Longrightarrow> in_page q m b \<Longrightarrow> a \<noteq> b"
  by (auto simp: apart_def in_page_def)

lemma layout_apart:
  assumes "vtd_layout env s"
  shows "apart (unat (root_table_addr (vt_units s 1))) 4096 (unat (ctx_base env s)) (2 ^ 20)"
    "apart (unat (root_table_addr (vt_units s 1))) 4096 (unat (qi_queue (vt_units s 1))) 4096"
    "apart (unat (root_table_addr (vt_units s 1))) 4096 (unat (ir_table_addr (vt_units s 1))) 4096"
    "apart (unat (ctx_base env s)) (2 ^ 20) (unat (qi_queue (vt_units s 1))) 4096"
    "apart (unat (ctx_base env s)) (2 ^ 20) (unat (ir_table_addr (vt_units s 1))) 4096"
    "apart (unat (qi_queue (vt_units s 1))) 4096 (unat (ir_table_addr (vt_units s 1))) 4096"
  using assms by (simp_all add: vtd_layout_def Let_def)

lemma qi_not_in_tables:
  assumes "vtd_layout env s" "in_tables env s a"
  shows "a \<noteq> qi_slot s k" "a \<noteq> qi_slot s k + 8"
  using in_tables_range [OF assms] layout_apart(2,4) [OF assms(1)] qi_slot_range [OF assms(1), of k]
  by (metis in_page_apart)+

lemma ir_not_in_tables:
  assumes "vtd_layout env s" "in_tables env s a" "i < 256"
  shows "a \<noteq> ir_at s i" "a \<noteq> ir_at s i + 8"
  using in_tables_range [OF assms(1,2)] layout_apart(3,5) [OF assms(1)] ir_at_range [OF assms(1,3)]
  by (metis in_page_apart)+

lemma ir_not_qi:
  assumes "vtd_layout env s" "i < 256"
  shows "ir_at s i \<noteq> qi_slot s k" "ir_at s i \<noteq> qi_slot s k + 8"
    "ir_at s i + 8 \<noteq> qi_slot s k" "ir_at s i + 8 \<noteq> qi_slot s k + 8"
  using layout_apart(6) [OF assms(1)] ir_at_range [OF assms] qi_slot_range [OF assms(1), of k]
  by (metis in_page_apart)+

lemma layout_cong:
  assumes "root_table_addr (vt_units s' 1) = root_table_addr (vt_units s 1)"
    "dmar_index (vt_units s' 1) = dmar_index (vt_units s 1)" "qi_queue (vt_units s' 1) = qi_queue (vt_units s 1)"
    "ir_table_addr (vt_units s' 1) = ir_table_addr (vt_units s 1)"
  shows "vtd_layout env s' = vtd_layout env s"
  by (simp add: vtd_layout_def ctx_base_def assms)

text \<open>A request changes the queue only.\<close>

lemma issue_qi_frame:
  assumes "responsive env" "vtd_wf env s"
  obtains s' n where "dmar_issue_qi_request env 1 d s = Some s'" "vtd_wf env s'" "dma_map s' = dma_map s"
    "\<And>a. (\<And>k. a \<noteq> qi_slot s k \<and> a \<noteq> qi_slot s k + 8) \<Longrightarrow> vt_mem s' a = vt_mem s a"
    "vt_units s' = (vt_units s)(1 := (vt_units s 1)\<lparr>qi_tail := of_nat (16 * ((qi_index s + 2) mod 256))\<rparr>)"
    "vt_domains s' = vt_domains s"
    "vt_log s' = replicate n Asm_pause @ iqt_write s (of_nat (16 * ((qi_index s + 2) mod 256))) # vt_log s"
    "vt_mem s' = put_entry (qi_slot s (Suc (qi_index s))) (wait_desc env) (put_entry (qi_slot s (qi_index s)) d (vt_mem s))"
    "qi_index s' = (qi_index s + 2) mod 256"
proof -
  have wf: "vtd_layout env s" "qi_ok s" "tables_ok env s"
    using assms(2) by (simp_all add: vtd_wf_def)
  obtain s' n where s': "dmar_issue_qi_request env 1 d s = Some s'"
    "vt_mem s' = put_entry (qi_slot s (Suc (qi_index s))) (wait_desc env) (put_entry (qi_slot s (qi_index s)) d (vt_mem s))"
    "vt_units s' = (vt_units s)(1 := (vt_units s 1)\<lparr>qi_tail := of_nat (16 * ((qi_index s + 2) mod 256))\<rparr>)"
    "vt_domains s' = vt_domains s"
    "vt_log s' = replicate n Asm_pause @ iqt_write s (of_nat (16 * ((qi_index s + 2) mod 256))) # vt_log s"
    "qi_ok s'" "qi_index s' = (qi_index s + 2) mod 256"
    by (rule issue_qi [OF assms(1) wf(2)])
  have mem: "vt_mem s' a = vt_mem s a" if "\<And>k. a \<noteq> qi_slot s k \<and> a \<noteq> qi_slot s k + 8" for a
    using that by (simp add: s'(2) put_entry_other)
  have "tables_ok env s'" "dma_map s' = dma_map s"
    by (rule frame_tables [OF wf(3)], simp_all add: s'(3) mem qi_not_in_tables [OF wf(1)])+
  moreover have "vtd_layout env s'"
    using wf(1) layout_cong [of s' s env] by (simp add: s'(3))
  ultimately show thesis
    using s' mem by (intro that [of s' n]) (simp_all add: vtd_wf_def)
qed

subsection \<open>Assigning a device\<close>

lemma aligned_and_not_mask:
  assumes "4096 dvd unat (x :: u64)"
  shows "x AND NOT (mask 12) = x"
  using word_split_mask [of x 12] assms low_mask_zero_iff [of x 12] by simp

lemma ctx_page_aligned:
  assumes "vtd_layout env s"
  shows "(ctx_base env s + 4096 * ucast (b :: u8)) AND NOT (mask 12) = ctx_base env s + 4096 * ucast b"
proof (rule aligned_and_not_mask)
  show "4096 dvd unat (ctx_base env s + 4096 * ucast b)"
    using assms by (subst unat_page_base) (auto simp: vtd_layout_def Let_def)
qed

definition ctx_entry :: "iommu_domain \<Rightarrow> dmar_entry" where
  "ctx_entry d = \<lparr>lo_64 = (trans_table_ptr d AND NOT (mask 12)) OR 1,
     hi_64 = ctx_hi (vmid_to_domainid (dom_vm_id d)) (width_to_aw (addr_width d))\<rparr>"

lemma entry_target_ctx: "entry_target (lo_64 (ctx_entry d)) (hi_64 (ctx_entry d)) = Some (domain_target d)"
  by (simp add: entry_target_def ctx_entry_def domain_target_def page_or_1 ctx_hi_read)

lemma ctx_table_base: "get_ctx_table env (dmar_index (vt_units s 1)) b = ctx_base env s + 4096 * ucast b"
  by (simp add: get_ctx_table_def ctx_base_def PAGE_SIZE_def)

lemma push_drop_page: "push_bit PAGE_SHIFT (drop_bit PAGE_SHIFT x) = (x AND NOT (mask 12) :: u64)"
  unfolding PAGE_SHIFT_def by (rule bit_eqI) (auto simp: bit_simps)

lemma add_iommu_device_eq:
  assumes "vtd_layout env s" "tables_ok env s"
  shows "fst (add_iommu_device env dm b d s) = 0" (is ?r)
    and "vt_units (snd (add_iommu_device env dm b d s)) = vt_units s" (is ?u)
    and "vt_domains (snd (add_iommu_device env dm b d s)) = vt_domains s" (is ?d)
    and "vt_mem (snd (add_iommu_device env dm b d s)) = put_entry (ctx_at env s b d) (ctx_entry dm)
      (if bit (vt_mem s (root_at s b)) 0 then vt_mem s
       else put_entry (root_at s b) \<lparr>lo_64 = (ctx_base env s + 4096 * ucast b) OR 1, hi_64 = 0\<rparr> (vt_mem s))" (is ?m)
proof -
  have re: "root_entry_ptr b s = root_at s b"
    by (simp add: root_entry_ptr_def root_at_def)
  have page: "vt_mem s (root_at s b) AND NOT (mask 12) = ctx_base env s + 4096 * ucast b" if "bit (vt_mem s (root_at s b)) 0"
    using assms(2) that by (auto simp: tables_ok_def root_at_def Let_def)
  have "?r \<and> ?u \<and> ?d \<and> ?m"
  proof (cases "bit (vt_mem s (root_at s b)) 0")
    case True
    then show ?thesis
      unfolding add_iommu_device_def Let_def re present_slice ctx_lo ctx_hi_def [symmetric]
      by (simp add: read_entry_def ctp_slice page hpa2hva_def vt_mem_write_entry put_entry_def ctx_entry_def ctx_at_def)
  next
    case False
    then show ?thesis
      unfolding add_iommu_device_def Let_def re present_slice ctx_lo ctx_hi_def [symmetric] ctx_table_base hva2hpa_def root_lo
      by (simp add: read_entry_def push_drop_page ctx_page_aligned [OF assms(1)] hpa2hva_def vt_mem_write_entry put_entry_def
          ctx_entry_def ctx_at_def)
  qed
  then show ?r ?u ?d ?m
    by blast+
qed

lemma root_ctx_distinct:
  assumes "vtd_layout env s"
  shows "root_at s b \<noteq> ctx_at env s b' d" "root_at s b \<noteq> ctx_at env s b' d + 8"
    "root_at s b + 8 \<noteq> ctx_at env s b' d" "root_at s b + 8 \<noteq> ctx_at env s b' d + 8"
proof -
  have r: "in_page (root_table_addr (vt_units s 1)) 4096 (root_at s b)"
      "in_page (root_table_addr (vt_units s 1)) 4096 (root_at s b + 8)"
    using unat_u8_bound [of b] by (simp_all add: in_page_def unat_root_at [OF assms])
  have c: "in_page (ctx_base env s) (2 ^ 20) (ctx_at env s b' d)"
      "in_page (ctx_base env s) (2 ^ 20) (ctx_at env s b' d + 8)"
    using unat_u8_bound [of b'] unat_u8_bound [of d] by (simp_all add: in_page_def unat_ctx_at [OF assms])
  show "root_at s b \<noteq> ctx_at env s b' d" "root_at s b \<noteq> ctx_at env s b' d + 8"
    "root_at s b + 8 \<noteq> ctx_at env s b' d" "root_at s b + 8 \<noteq> ctx_at env s b' d + 8"
    using r c layout_apart(1) [OF assms] by (metis in_page_apart)+
qed

lemma root_at_inj:
  assumes "vtd_layout env s"
  shows "root_at s b = root_at s b' \<longleftrightarrow> b = b'" "root_at s b \<noteq> root_at s b' + 8"
proof -
  show "root_at s b = root_at s b' \<longleftrightarrow> b = b'"
    by (simp add: word_nat_eq unat_root_at [OF assms])
  have "16 * unat b \<noteq> 16 * unat b' + 8"
    by presburger
  then show "root_at s b \<noteq> root_at s b' + 8"
    by (simp add: word_nat_eq unat_root_at [OF assms])
qed

lemma ctx_at_inj:
  assumes "vtd_layout env s"
  shows "ctx_at env s b d = ctx_at env s b' d' \<longleftrightarrow> b = b' \<and> d = d'" "ctx_at env s b d \<noteq> ctx_at env s b' d' + 8"
    "ctx_at env s b d + 8 = ctx_at env s b' d' + 8 \<longleftrightarrow> b = b' \<and> d = d'" "ctx_at env s b d + 8 \<noteq> ctx_at env s b' d'"
proof -
  have key: "x = x' \<and> y = y'" if "4096 * x + 16 * y = 4096 * x' + 16 * y'" "y < 256" "y' < 256" for x x' y y' :: nat
  proof -
    have "256 * x + y = 256 * x' + y'"
      using that(1) by simp
    then have "(256 * x + y) div 256 = (256 * x' + y') div 256"
      by (rule arg_cong)
    then have "x = x'"
      using that(2,3) by simp
    then show ?thesis
      using that(1) by simp
  qed
  have par: "4096 * x + 16 * y \<noteq> 4096 * x' + 16 * y' + 8" for x x' y y' :: nat
  proof -
    have "16 * a \<noteq> 16 * c + 8" for a c :: nat
      by presburger
    from this [of "256 * x + y" "256 * x' + y'"] show ?thesis
      by simp
  qed
  show eq: "ctx_at env s b d = ctx_at env s b' d' \<longleftrightarrow> b = b' \<and> d = d'"
    using key [of "unat b" "unat d" "unat b'" "unat d'"] unat_u8_bound
    by (auto simp: word_nat_eq unat_ctx_at [OF assms])
  then show "ctx_at env s b d + 8 = ctx_at env s b' d' + 8 \<longleftrightarrow> b = b' \<and> d = d'"
    by simp
  show "ctx_at env s b d \<noteq> ctx_at env s b' d' + 8" "ctx_at env s b d + 8 \<noteq> ctx_at env s b' d'"
    using par [of "unat b" "unat d" "unat b'" "unat d'"] par [of "unat b'" "unat d'" "unat b" "unat d"]
    by (simp_all add: word_nat_eq unat_ctx_at [OF assms])
qed

lemma ctx_update:
  assumes layout: "vtd_layout env s" and ok: "tables_ok env s" and units: "vt_units s' = vt_units s"
    and root: "bit (vt_mem s' (root_at s b)) 0" "vt_mem s' (root_at s b) AND NOT (mask 12) = ctx_base env s + 4096 * ucast b"
    and others: "\<And>b'. b' \<noteq> b \<Longrightarrow> vt_mem s' (root_at s b') = vt_mem s (root_at s b')"
    and ctx: "\<And>b' d'. (b', d') \<noteq> (b, d) \<Longrightarrow> vt_mem s' (ctx_at env s b' d') = vt_mem s (ctx_at env s b' d')"
      "\<And>b' d'. (b', d') \<noteq> (b, d) \<Longrightarrow> vt_mem s' (ctx_at env s b' d' + 8) = vt_mem s (ctx_at env s b' d' + 8)"
  shows "tables_ok env s'"
    and "dma_map s' = (dma_map s)((b, d) := entry_target (vt_mem s' (ctx_at env s b d)) (vt_mem s' (ctx_at env s b d + 8)))"
proof -
  have base: "ctx_base env s' = ctx_base env s" "\<And>b d. ctx_at env s' b d = ctx_at env s b d"
    by (simp_all add: ctx_base_def ctx_at_def units)
  show ok': "tables_ok env s'"
    unfolding tables_ok_def Let_def base units
  proof (intro allI)
    fix b' :: u8
    show "(bit (vt_mem s' (root_table_addr (vt_units s 1) + 16 * ucast b')) 0 \<longrightarrow>
         vt_mem s' (root_table_addr (vt_units s 1) + 16 * ucast b') AND NOT (mask 12) = ctx_base env s + 4096 * ucast b') \<and>
      (\<not> bit (vt_mem s' (root_table_addr (vt_units s 1) + 16 * ucast b')) 0 \<longrightarrow>
         (\<forall>df :: u8. \<not> bit (vt_mem s' (ctx_base env s + 4096 * ucast b' + 16 * ucast df)) 0))"
    proof (cases "b' = b")
      case True
      then show ?thesis
        using root by (simp add: root_at_def)
    next
      case False
      then show ?thesis
        using ok [unfolded tables_ok_def Let_def, rule_format, of b'] others [OF False] ctx(1) [of b']
        by (simp add: root_at_def ctx_at_def)
    qed
  qed
  show "dma_map s' = (dma_map s)((b, d) := entry_target (vt_mem s' (ctx_at env s b d)) (vt_mem s' (ctx_at env s b d + 8)))"
  proof
    fix x :: "u8 \<times> u8"
    show "dma_map s' x = ((dma_map s)((b, d) := entry_target (vt_mem s' (ctx_at env s b d)) (vt_mem s' (ctx_at env s b d + 8)))) x"
      using dma_map_ctx [OF ok, of "fst x" "snd x"] dma_map_ctx [OF ok', of "fst x" "snd x"] ctx [of "fst x" "snd x"]
      by (cases "x = (b, d)") (auto simp: base)
  qed
qed

lemma add_iommu_device_map:
  assumes "vtd_wf env s"
  shows "vtd_wf env (snd (add_iommu_device env dm b d s))"
    and "dma_map (snd (add_iommu_device env dm b d s)) = (dma_map s)((b, d) \<mapsto> domain_target dm)"
    and "\<And>i. i < 256 \<Longrightarrow> read_entry (ir_at s i) (snd (add_iommu_device env dm b d s)) = read_entry (ir_at s i) s"
proof -
  have wf: "vtd_layout env s" "qi_ok s" "tables_ok env s"
    using assms by (simp_all add: vtd_wf_def)
  let ?s' = "snd (add_iommu_device env dm b d s)"
  note eq = add_iommu_device_eq [OF wf(1,3), of dm b d]
  have root: "bit (vt_mem ?s' (root_at s b)) 0" "vt_mem ?s' (root_at s b) AND NOT (mask 12) = ctx_base env s + 4096 * ucast b"
    using wf(3) page_or_1 [of "ctx_base env s + 4096 * ucast b"]
    unfolding eq(4) ctx_page_aligned [OF wf(1)]
    by (auto simp: put_entry_def root_ctx_distinct [OF wf(1)] tables_ok_def root_at_def [symmetric] Let_def)
  have others: "vt_mem ?s' (root_at s b') = vt_mem s (root_at s b')" if "b' \<noteq> b" for b'
    using that by (simp add: eq(4) put_entry_def root_ctx_distinct [OF wf(1)] root_at_inj [OF wf(1)])
  have ctx: "vt_mem ?s' (ctx_at env s b' d') = vt_mem s (ctx_at env s b' d')"
    "vt_mem ?s' (ctx_at env s b' d' + 8) = vt_mem s (ctx_at env s b' d' + 8)" if "(b', d') \<noteq> (b, d)" for b' d'
    using root_ctx_distinct [OF wf(1), of b b' d', symmetric] ctx_at_inj [OF wf(1), of b' d' b d] that
    by (auto simp: eq(4) put_entry_def)
  note ctx_update [OF wf(1,3) eq(2) root others ctx]
  then show "dma_map ?s' = (dma_map s)((b, d) \<mapsto> domain_target dm)" "vtd_wf env ?s'"
    using wf layout_cong [of ?s' s env] entry_target_ctx [of dm]
    by (simp_all add: eq(2,4) put_entry_same vtd_wf_def qi_ok_def)
  fix i :: u16 assume i: "i < 256"
  have "in_tables env s (ctx_at env s b d)" "in_tables env s (ctx_at env s b d + 8)" "in_tables env s (root_at s b)"
    by (auto simp: in_tables_def)
  then have "ir_at s i \<noteq> ctx_at env s b d" "ir_at s i \<noteq> ctx_at env s b d + 8" "ir_at s i \<noteq> root_at s b"
    "ir_at s i + 8 \<noteq> ctx_at env s b d" "ir_at s i + 8 \<noteq> ctx_at env s b d + 8" "ir_at s i + 8 \<noteq> root_at s b"
    using ir_not_in_tables [OF wf(1) _ i] by metis+
  moreover have "in_page (root_table_addr (vt_units s 1)) 4096 (root_at s b + 8)"
    using unat_u8_bound [of b] by (simp add: in_page_def unat_root_at [OF wf(1)])
  then have "root_at s b + 8 \<noteq> ir_at s i" "root_at s b + 8 \<noteq> ir_at s i + 8"
    using ir_at_range [OF wf(1) i] layout_apart(3) [OF wf(1)] by (metis in_page_apart)+
  ultimately show "read_entry (ir_at s i) ?s' = read_entry (ir_at s i) s"
    by (auto simp: read_entry_def eq(4) put_entry_def)
qed

subsection \<open>Removing a device\<close>

definition ctx_inv_desc :: "u16 \<Rightarrow> u16 \<Rightarrow> dmar_entry" where
  "ctx_inv_desc did sid = \<lparr>lo_64 = DMAR_INV_CONTEXT_CACHE_DESC OR
     (DMA_CONTEXT_DEVICE_INVL OR dma_ccmd_did did OR dma_ccmd_sid sid OR dma_ccmd_fm 0), hi_64 = 0\<rparr>"

definition iotlb_inv_desc :: "u16 \<Rightarrow> dmar_entry" where
  "iotlb_inv_desc did = \<lparr>lo_64 = (DMA_IOTLB_DR OR DMA_IOTLB_DW OR DMAR_INV_IOTLB_DESC) OR
     (DMA_IOTLB_DOMAIN_INVL OR dma_iotlb_did did), hi_64 = 0\<rparr>"

lemma or_nonzero_bit: "bit (a :: u64) n \<Longrightarrow> a OR b \<noteq> 0"
  by (metis bit_0_eq bit_or_iff bot_apply bot_bool_def)

lemma context_cache_issue:
  "dmar_invalid_context_cache env u did sid 0 DMAR_CIRG_DEVICE s = dmar_issue_qi_request env u (ctx_inv_desc did sid) s"
proof -
  have "bit DMAR_INV_CONTEXT_CACHE_DESC 0"
    by (simp add: DMAR_INV_CONTEXT_CACHE_DESC_def)
  then show ?thesis
    using or_nonzero_bit by (simp add: dmar_invalid_context_cache_def ctx_inv_desc_def)
qed

lemma iotlb_issue:
  "dmar_invalid_iotlb env u did a m h DMAR_IIRG_DOMAIN s = dmar_issue_qi_request env u (iotlb_inv_desc did) s"
proof -
  have "bit (DMA_IOTLB_DR OR DMA_IOTLB_DW OR DMAR_INV_IOTLB_DESC) 7"
    by (simp add: DMA_IOTLB_DR_def bit_simps)
  then show ?thesis
    using or_nonzero_bit by (simp add: dmar_invalid_iotlb_def iotlb_inv_desc_def Let_def)
qed

text \<open>The state after the context entry is cleared.\<close>

definition cleared :: "vtd_env \<Rightarrow> u8 \<Rightarrow> u8 \<Rightarrow> vtd \<Rightarrow> vtd" where
  "cleared env b d s = iommu_flush_cache (ctx_at env s b d) 16 (write_entry (ctx_at env s b d) \<lparr>lo_64 = 0, hi_64 = 0\<rparr> s)"

lemma cleared_map:
  assumes wf: "vtd_wf env s" and root: "bit (vt_mem s (root_at s b)) 0"
  shows "vtd_wf env (cleared env b d s)" "dma_map (cleared env b d s) = (dma_map s)((b, d) := None)"
    and "\<And>i. i < 256 \<Longrightarrow> read_entry (ir_at s i) (cleared env b d s) = read_entry (ir_at s i) s"
proof -
  have w: "vtd_layout env s" "qi_ok s" "tables_ok env s"
    using wf by (simp_all add: vtd_wf_def)
  let ?s' = "cleared env b d s"
  have mem: "vt_mem ?s' = put_entry (ctx_at env s b d) \<lparr>lo_64 = 0, hi_64 = 0\<rparr> (vt_mem s)"
    by (simp add: cleared_def vt_mem_write_entry put_entry_def)
  have units: "vt_units ?s' = vt_units s"
    by (simp add: cleared_def)
  have roots: "vt_mem ?s' (root_at s b') = vt_mem s (root_at s b')" for b'
    by (simp add: mem put_entry_other root_ctx_distinct [OF w(1)])
  have ptr: "vt_mem s (root_at s b) AND NOT (mask 12) = ctx_base env s + 4096 * ucast b"
    using w(3) root by (auto simp: tables_ok_def root_at_def Let_def)
  have ctx: "vt_mem ?s' (ctx_at env s b' d') = vt_mem s (ctx_at env s b' d')"
    "vt_mem ?s' (ctx_at env s b' d' + 8) = vt_mem s (ctx_at env s b' d' + 8)" if "(b', d') \<noteq> (b, d)" for b' d'
    using ctx_at_inj [OF w(1), of b' d' b d] that by (auto simp: mem put_entry_def)
  note upd = ctx_update [OF w(1,3) units, of b d, unfolded roots, OF root ptr refl ctx]
  show "vtd_wf env ?s'"
    using upd(1) w layout_cong [of ?s' s env] by (simp add: vtd_wf_def qi_ok_def units)
  show "dma_map ?s' = (dma_map s)((b, d) := None)"
    using upd(2) by (simp add: mem put_entry_same entry_target_def)
  fix i :: u16 assume i: "i < 256"
  have "in_tables env s (ctx_at env s b d)" "in_tables env s (ctx_at env s b d + 8)"
    by (auto simp: in_tables_def)
  then have "ir_at s i \<noteq> ctx_at env s b d" "ir_at s i \<noteq> ctx_at env s b d + 8"
    "ir_at s i + 8 \<noteq> ctx_at env s b d" "ir_at s i + 8 \<noteq> ctx_at env s b d + 8"
    using ir_not_in_tables [OF w(1) _ i] by metis+
  then show "read_entry (ir_at s i) ?s' = read_entry (ir_at s i) s"
    by (auto simp: read_entry_def mem put_entry_def)
qed

lemma dma_map_root: "dma_map s (b, d) \<noteq> None \<Longrightarrow> bit (vt_mem s (root_at s b)) 0"
  by (auto simp: dma_map_def dma_walk_def root_at_def Let_def split: if_splits)

lemma remove_iommu_device_eq:
  assumes "tables_ok env s" "bit (vt_mem s (root_at s b)) 0"
  shows "remove_iommu_device env dm b d s =
    do { s1 \<leftarrow> dmar_issue_qi_request env 1 (ctx_inv_desc (vmid_to_domainid (dom_vm_id dm)) (push_bit 8 (ucast b) OR ucast d))
                (cleared env b d s);
         s2 \<leftarrow> dmar_issue_qi_request env 1 (iotlb_inv_desc (vmid_to_domainid (dom_vm_id dm))) s1;
         Some (0, s2) }"
proof -
  have re: "root_entry_ptr b s = root_at s b"
    by (simp add: root_entry_ptr_def root_at_def)
  have "vt_mem s (root_at s b) AND NOT (mask 12) = ctx_base env s + 4096 * ucast b"
    using assms by (auto simp: tables_ok_def root_at_def Let_def)
  then have ptr: "hpa2hva (push_bit PAGE_SHIFT (dmar_get_bitslice (lo_64 (read_entry (root_at s b) s))
      ROOT_ENTRY_LOWER_CTP_MASK ROOT_ENTRY_LOWER_CTP_POS)) + 16 * ucast d = ctx_at env s b d"
    by (simp add: ctp_slice read_entry_def hpa2hva_def ctx_at_def)
  show ?thesis
    unfolding remove_iommu_device_def Let_def re ptr context_cache_issue iotlb_issue cleared_def ..
qed

lemma qi_slot_inj:
  assumes "vtd_layout env s" "k mod 256 \<noteq> j mod 256"
  shows "qi_slot s k \<noteq> qi_slot s j" "qi_slot s k \<noteq> qi_slot s j + 8" "qi_slot s k + 8 \<noteq> qi_slot s j"
    "qi_slot s k + 8 \<noteq> qi_slot s j + 8"
proof -
  have par: "16 * a \<noteq> 16 * c + (8 :: nat)" for a c
    by presburger
  show "qi_slot s k \<noteq> qi_slot s j" "qi_slot s k + 8 \<noteq> qi_slot s j + 8"
    using assms(2) by (simp_all add: word_nat_eq unat_qi_slot [OF assms(1)])
  show "qi_slot s k \<noteq> qi_slot s j + 8" "qi_slot s k + 8 \<noteq> qi_slot s j"
    using par [of "k mod 256" "j mod 256"] par [of "j mod 256" "k mod 256"]
    by (simp_all add: word_nat_eq unat_qi_slot [OF assms(1)])
qed

lemma mod_256_offsets:
  "k mod 256 \<noteq> (k + 1) mod 256" "k mod 256 \<noteq> (k + 2) mod 256" "k mod 256 \<noteq> (k + 3) mod 256"
  "(k + 2) mod 256 \<noteq> (k + 3) mod (256 :: nat)"
  using mod_eq_dvd_iff_nat [of k "k + 1" 256] mod_eq_dvd_iff_nat [of k "k + 2" 256]
    mod_eq_dvd_iff_nat [of k "k + 3" 256] mod_eq_dvd_iff_nat [of "k + 2" "k + 3" 256]
  by (simp_all add: nat_dvd_not_less eq_commute)

lemma qi_entry_kept:
  assumes "vtd_layout env s" "k mod 256 \<noteq> j mod 256"
  shows "put_entry (qi_slot s j) e m (qi_slot s k) = m (qi_slot s k)"
    "put_entry (qi_slot s j) e m (qi_slot s k + 8) = m (qi_slot s k + 8)"
  using qi_slot_inj [OF assms] by (simp_all add: put_entry_other)

lemma two_requests:
  assumes "responsive env" "vtd_wf env s"
  obtains s1 s2 where "dmar_issue_qi_request env 1 d1 s = Some s1" "dmar_issue_qi_request env 1 d2 s1 = Some s2"
    "vtd_wf env s2" "dma_map s2 = dma_map s"
    "\<And>a. (\<And>k. a \<noteq> qi_slot s k \<and> a \<noteq> qi_slot s k + 8) \<Longrightarrow> vt_mem s2 a = vt_mem s a"
    "read_entry (qi_slot s (qi_index s)) s2 = d1" "read_entry (qi_slot s (qi_index s + 2)) s2 = d2"
    "vt_domains s2 = vt_domains s"
    "vt_units s2 = (vt_units s)(1 := (vt_units s 1)\<lparr>qi_tail := of_nat (16 * ((qi_index s + 4) mod 256))\<rparr>)"
proof -
  let ?k = "qi_index s"
  obtain s1 n1 where r1: "dmar_issue_qi_request env 1 d1 s = Some s1" "vtd_wf env s1" "dma_map s1 = dma_map s"
    "\<And>a. (\<And>k. a \<noteq> qi_slot s k \<and> a \<noteq> qi_slot s k + 8) \<Longrightarrow> vt_mem s1 a = vt_mem s a"
    "vt_units s1 = (vt_units s)(1 := (vt_units s 1)\<lparr>qi_tail := of_nat (16 * ((?k + 2) mod 256))\<rparr>)"
    "vt_domains s1 = vt_domains s"
    "vt_mem s1 = put_entry (qi_slot s (Suc ?k)) (wait_desc env) (put_entry (qi_slot s ?k) d1 (vt_mem s))"
    "qi_index s1 = (?k + 2) mod 256"
    by (rule issue_qi_frame [OF assms, of d1]) blast
  obtain s2 n2 where r2: "dmar_issue_qi_request env 1 d2 s1 = Some s2" "vtd_wf env s2" "dma_map s2 = dma_map s1"
    "\<And>a. (\<And>k. a \<noteq> qi_slot s1 k \<and> a \<noteq> qi_slot s1 k + 8) \<Longrightarrow> vt_mem s2 a = vt_mem s1 a"
    "vt_units s2 = (vt_units s1)(1 := (vt_units s1 1)\<lparr>qi_tail := of_nat (16 * ((qi_index s1 + 2) mod 256))\<rparr>)"
    "vt_domains s2 = vt_domains s1"
    "vt_mem s2 = put_entry (qi_slot s1 (Suc (qi_index s1))) (wait_desc env) (put_entry (qi_slot s1 (qi_index s1)) d2 (vt_mem s1))"
    by (rule issue_qi_frame [OF assms(1) r1(2), of d2]) blast
  have slots: "qi_slot s1 j = qi_slot s j" for j
    by (simp add: qi_slot_def r1(5))
  have lay: "vtd_layout env s"
    using assms(2) by (simp add: vtd_wf_def)
  have at: "qi_slot s1 (Suc (qi_index s1)) = qi_slot s (?k + 3)" "qi_slot s1 (qi_index s1) = qi_slot s (?k + 2)"
    unfolding slots r1(8) by (simp_all add: qi_slot_def mod_simps add.commute)
  note kept = qi_entry_kept [OF lay mod_256_offsets(1)] qi_entry_kept [OF lay mod_256_offsets(2)]
    qi_entry_kept [OF lay mod_256_offsets(3)] qi_entry_kept [OF lay mod_256_offsets(4)]
  have mem: "vt_mem s2 = put_entry (qi_slot s (?k + 3)) (wait_desc env) (put_entry (qi_slot s (?k + 2)) d2
      (put_entry (qi_slot s (?k + 1)) (wait_desc env) (put_entry (qi_slot s ?k) d1 (vt_mem s))))"
    unfolding r2(7) at r1(7) Suc_eq_plus1 [of ?k] by (rule refl)
  have "read_entry (qi_slot s ?k) s2 = d1" "read_entry (qi_slot s (?k + 2)) s2 = d2"
    unfolding read_entry_def mem by (simp_all only: kept put_entry_same) simp_all
  moreover have "vt_mem s2 a = vt_mem s a" if "\<And>k. a \<noteq> qi_slot s k \<and> a \<noteq> qi_slot s k + 8" for a
    using r1(4) [OF that] r2(4) [unfolded slots, OF that] by simp
  moreover have "vt_units s2 = (vt_units s)(1 := (vt_units s 1)\<lparr>qi_tail := of_nat (16 * ((?k + 4) mod 256))\<rparr>)"
  proof -
    have "(qi_index s1 + 2) mod 256 = (?k + 4) mod 256"
      unfolding r1(8) by (simp add: mod_simps add.commute)
    then show ?thesis
      unfolding r2(5) by (simp add: r1(5))
  qed
  ultimately show thesis
    using r1(1,3,6) r2(1,2,3,6) by (intro that [of s1 s2]) simp_all
qed

subsection \<open>Interrupt remapping\<close>

definition ir_map :: "vtd \<Rightarrow> u16 \<Rightarrow> dmar_entry" where
  "ir_map s i = read_entry (ir_at s i) s"

lemma ir_at_inj:
  assumes "vtd_layout env s" "i < 256" "j < 256" "i \<noteq> j"
  shows "ir_at s i \<noteq> ir_at s j" "ir_at s i \<noteq> ir_at s j + 8" "ir_at s i + 8 \<noteq> ir_at s j"
    "ir_at s i + 8 \<noteq> ir_at s j + 8"
proof -
  have par: "16 * a \<noteq> 16 * c + (8 :: nat)" for a c
    by presburger
  show "ir_at s i \<noteq> ir_at s j" "ir_at s i + 8 \<noteq> ir_at s j + 8"
    using assms(4) by (simp_all add: word_nat_eq unat_ir_at [OF assms(1,2)] unat_ir_at [OF assms(1,3)])
  show "ir_at s i \<noteq> ir_at s j + 8" "ir_at s i + 8 \<noteq> ir_at s j"
    using par [of "unat i" "unat j"] par [of "unat j" "unat i"]
    by (simp_all add: word_nat_eq unat_ir_at [OF assms(1,2)] unat_ir_at [OF assms(1,3)])
qed

lemma ir_write:
  assumes wf: "vtd_wf env s" and i: "i < 256"
    and s': "s' = iommu_flush_cache (ir_at s i) 16 (write_entry (ir_at s i) e s)"
  shows "vtd_wf env s'" "dma_map s' = dma_map s" "ir_map s' i = e"
    "\<And>j. j < 256 \<Longrightarrow> j \<noteq> i \<Longrightarrow> ir_map s' j = ir_map s j"
proof -
  have w: "vtd_layout env s" "qi_ok s" "tables_ok env s"
    using wf by (simp_all add: vtd_wf_def)
  have mem: "vt_mem s' = put_entry (ir_at s i) e (vt_mem s)"
    by (simp add: s' vt_mem_write_entry put_entry_def)
  have units: "vt_units s' = vt_units s"
    by (simp add: s')
  have "tables_ok env s'" "dma_map s' = dma_map s"
    by (rule frame_tables [OF w(3)], simp_all add: units mem put_entry_other ir_not_in_tables [OF w(1) _ i])+
  then show "vtd_wf env s'" "dma_map s' = dma_map s"
    using w layout_cong [of s' s env] by (simp_all add: vtd_wf_def qi_ok_def units)
  show "ir_map s' i = e"
    by (simp add: ir_map_def read_entry_def mem ir_at_def [of s'] units flip: ir_at_def) (simp add: put_entry_same)
  show "ir_map s' j = ir_map s j" if "j < 256" "j \<noteq> i" for j
    using ir_at_inj [OF w(1) that(1) i that(2)]
    by (simp add: ir_map_def read_entry_def mem ir_at_def [of s'] units put_entry_other flip: ir_at_def)
qed

lemma issue_qi_ir:
  assumes "responsive env" "vtd_wf env s"
  obtains s' where "dmar_issue_qi_request env 1 d s = Some s'" "vtd_wf env s'" "dma_map s' = dma_map s"
    "\<And>i. i < 256 \<Longrightarrow> ir_map s' i = ir_map s i" "read_entry (qi_slot s (qi_index s)) s' = d"
proof -
  have lay: "vtd_layout env s"
    using assms(2) by (simp add: vtd_wf_def)
  obtain s' n where s': "dmar_issue_qi_request env 1 d s = Some s'" "vtd_wf env s'" "dma_map s' = dma_map s"
    "\<And>a. (\<And>k. a \<noteq> qi_slot s k \<and> a \<noteq> qi_slot s k + 8) \<Longrightarrow> vt_mem s' a = vt_mem s a"
    "vt_units s' = (vt_units s)(1 := (vt_units s 1)\<lparr>qi_tail := of_nat (16 * ((qi_index s + 2) mod 256))\<rparr>)"
    "vt_mem s' = put_entry (qi_slot s (Suc (qi_index s))) (wait_desc env) (put_entry (qi_slot s (qi_index s)) d (vt_mem s))"
    by (rule issue_qi_frame [OF assms, of d]) blast
  have at: "ir_at s' i = ir_at s i" for i
    by (simp add: ir_at_def s'(5))
  have "ir_map s' i = ir_map s i" if "i < 256" for i
    using ir_not_qi [OF lay that] by (simp add: ir_map_def at read_entry_def s'(4))
  moreover have "read_entry (qi_slot s (qi_index s)) s' = d"
    unfolding read_entry_def s'(6) Suc_eq_plus1
    by (simp only: qi_entry_kept [OF lay mod_256_offsets(1)] put_entry_same) simp
  ultimately show thesis
    using s'(1-3) by (intro that [of s']) simp_all
qed

subsection \<open>Waiting for a register\<close>

definition rounds :: "nat \<Rightarrow> u64 \<Rightarrow> vtd_event list" where
  "rounds n a = concat (replicate n [Asm_pause, Mmio_read a])"

text \<open>The status register follows the command register: each status bit becomes what was commanded.\<close>

definition gsts_follows :: "vtd_env \<Rightarrow> bool" where
  "gsts_follows env \<longleftrightarrow> (\<forall>base l v m. \<exists>n.
     (mmio_value env (rounds n (base + 0x1c) @ Mmio_write (base + 0x18) v # l) (base + 0x1c) AND m = 0) = (v AND m = 0))"

lemma rounds_Suc: "rounds (Suc n) a @ l = rounds n a @ Asm_pause # Mmio_read a # l"
  unfolding rounds_def by (induction n) simp_all

lemma wait_mem:
  assumes "dmar_wait_completion env u off msk c s = Some s'"
  shows "\<exists>l. s' = s\<lparr>vt_log := l\<rparr>"
proof (rule dmar_wait_completion.raw_induct [OF _ assms])
  fix f env u off msk c s s'
  assume step: "\<And>env u off msk c s s'. f env u off msk c s = Some s' \<Longrightarrow> \<exists>l. s' = s\<lparr>vt_log := l\<rparr>"
    and run: "(let (status, s1) = iommu_read32 env u off s in
       if (status AND msk = 0) = c then Some s1 else f env u off msk c (event Asm_pause s1)) = Some s'"
  show "\<exists>l. s' = s\<lparr>vt_log := l\<rparr>"
  proof (cases "(fst (iommu_read32 env u off s) AND msk = 0) = c")
    case True
    then show ?thesis
      using run by (auto simp: iommu_read32_def Let_def event_def intro: exI)
  next
    case False
    then have "f env u off msk c (event Asm_pause (snd (iommu_read32 env u off s))) = Some s'"
      using run by (simp add: case_prod_beta Let_def)
    then show ?thesis
      using step by (fastforce simp: iommu_read32_def Let_def event_def)
  qed
qed

lemma wait_returns:
  assumes "a = reg_base_addr (drhd (vt_units s u)) + ucast off"
    "(mmio_value env (rounds n a @ vt_log s) a AND msk = 0) = c"
  shows "\<exists>s'. dmar_wait_completion env u off msk c s = Some s'"
  using assms
proof (induction n arbitrary: s)
  case 0
  then show ?case
    by (subst dmar_wait_completion.simps) (simp add: iommu_read32_def hpa2hva_def rounds_def Let_def)
next
  case (Suc n)
  let ?s = "event Asm_pause (event (Mmio_read a) s)"
  have "\<exists>s'. dmar_wait_completion env u off msk c ?s = Some s'"
  proof (rule Suc.IH)
    show "(mmio_value env (rounds n a @ vt_log ?s) a AND msk = 0) = c"
      using Suc.prems(2) unfolding rounds_Suc by (simp add: event_def)
  qed (simp add: Suc.prems(1))
  then show ?case
    by (subst dmar_wait_completion.simps) (auto simp: iommu_read32_def hpa2hva_def Let_def Suc.prems(1))
qed

lemma gcmd_wait:
  assumes "gsts_follows env" "(v AND msk = 0) = c"
  obtains l where "dmar_wait_completion env u DMAR_GSTS_REG msk c (iommu_write32 u DMAR_GCMD_REG v s) = Some (s\<lparr>vt_log := l\<rparr>)"
proof -
  let ?b = "reg_base_addr (drhd (vt_units s u))"
  let ?s = "iommu_write32 u DMAR_GCMD_REG v s"
  obtain n where "(mmio_value env (rounds n (?b + 0x1c) @ Mmio_write (?b + 0x18) v # vt_log s) (?b + 0x1c) AND msk = 0) = (v AND msk = 0)"
    using assms(1) unfolding gsts_follows_def by blast
  then have "(mmio_value env (rounds n (?b + 0x1c) @ vt_log ?s) (?b + 0x1c) AND msk = 0) = c"
    using assms(2) by (simp add: iommu_write32_def event_def hpa2hva_def DMAR_GCMD_REG_def)
  moreover have "?b + 0x1c = reg_base_addr (drhd (vt_units ?s u)) + ucast DMAR_GSTS_REG"
    by (simp add: DMAR_GSTS_REG_def iommu_write32_def)
  ultimately obtain s' where s': "dmar_wait_completion env u DMAR_GSTS_REG msk c ?s = Some s'"
    using wait_returns by blast
  then show thesis
    using wait_mem [OF s'] that by (auto simp: iommu_write32_def event_def)
qed

lemma and_bit_or_same:
  "w AND push_bit n 1 \<noteq> 0 \<Longrightarrow> w OR push_bit n 1 = (w :: 'a::len word)"
proof (rule bit_eqI)
  fix k assume "w AND push_bit n 1 \<noteq> 0"
  then have "bit w n"
    by (simp only: bit_iff_and_push_bit_not_eq_0 not_False_eq_True)
  then show "bit (w OR push_bit n 1) k = bit w k"
    by (auto simp: bit_simps)
qed

lemma enable_intr_remapping:
  assumes "gsts_follows env"
  obtains l where "dmar_enable_intr_remapping env u s =
    Some ((upd_unit u (\<lambda>r. r\<lparr>gcmd := gcmd r OR DMA_GCMD_IRE\<rparr>) s)\<lparr>vt_log := l\<rparr>)"
proof (cases "gcmd (vt_units s u) AND DMA_GCMD_IRE = 0")
  case True
  let ?s = "upd_unit u (\<lambda>r. r\<lparr>gcmd := gcmd r OR DMA_GCMD_IRE\<rparr>) s"
  have "(gcmd (vt_units ?s u) AND DMA_GSTS_IRES = 0) = False"
    by (auto simp: DMA_GCMD_IRE_def DMA_GSTS_IRES_def bit_eq_iff [of _ 0] bit_simps intro: exI [of _ 25])
  from gcmd_wait [OF assms this, of u ?s] show thesis
    using True that by (auto simp: dmar_enable_intr_remapping_def Let_def)
next
  case False
  then have "gcmd (vt_units s u) OR DMA_GCMD_IRE = gcmd (vt_units s u)"
    unfolding DMA_GCMD_IRE_def by (rule and_bit_or_same)
  then have "s = (upd_unit u (\<lambda>r. r\<lparr>gcmd := gcmd r OR DMA_GCMD_IRE\<rparr>) s)\<lparr>vt_log := vt_log s\<rparr>"
    by (simp add: upd_unit_def)
  then show thesis
    using False that [of "vt_log s"] by (simp add: dmar_enable_intr_remapping_def)
qed

lemma gcmd_update_frame:
  fixes s :: vtd and f :: "u32 \<Rightarrow> u32" and l :: "vtd_event list"
  defines "t \<equiv> (upd_unit 1 (\<lambda>r. r\<lparr>gcmd := f (gcmd r)\<rparr>) s)\<lparr>vt_log := l\<rparr>"
  assumes wf: "vtd_wf env s"
  shows "vtd_wf env t" "dma_map t = dma_map s" "\<And>i. ir_map t i = ir_map s i" "\<And>i. ir_at t i = ir_at s i"
    "vt_mem t = vt_mem s" "qi_index t = qi_index s" "\<And>k. qi_slot t k = qi_slot s k"
proof -
  have w: "vtd_layout env s" "qi_ok s" "tables_ok env s"
    using wf by (simp_all add: vtd_wf_def)
  have u: "vt_mem t = vt_mem s" "root_table_addr (vt_units t 1) = root_table_addr (vt_units s 1)"
    "dmar_index (vt_units t 1) = dmar_index (vt_units s 1)" "qi_queue (vt_units t 1) = qi_queue (vt_units s 1)"
    "ir_table_addr (vt_units t 1) = ir_table_addr (vt_units s 1)" "qi_tail (vt_units t 1) = qi_tail (vt_units s 1)"
    by (simp_all add: t_def upd_unit_def)
  have "tables_ok env t" "dma_map t = dma_map s"
    by (rule frame_tables [OF w(3) u(2,3)], simp_all add: u)+
  then show "vtd_wf env t" "dma_map t = dma_map s" "\<And>i. ir_map t i = ir_map s i" "\<And>i. ir_at t i = ir_at s i"
    "vt_mem t = vt_mem s" "qi_index t = qi_index s" "\<And>k. qi_slot t k = qi_slot s k"
    using w layout_cong [OF u(2-5), of env]
    by (simp_all add: vtd_wf_def qi_ok_def ir_map_def ir_at_def read_entry_def u qi_index_def qi_slot_def)
qed

definition iec_desc :: "u16 \<Rightarrow> dmar_entry" where
  "iec_desc i = \<lparr>lo_64 = DMAR_INV_IEC_DESC OR (DMAR_IECI_INDEXED OR dma_iec_index i 0), hi_64 = 0\<rparr>"

lemma iec_issue: "dmar_invalid_iec env u i 0 False s = dmar_issue_qi_request env u (iec_desc i) s"
  by (simp add: dmar_invalid_iec_def iec_desc_def)

subsection \<open>The properties\<close>

text \<open>
  C5. Assigning a device to a domain always succeeds, changes the map that the DMA remapping hardware
  reads at that device only, to the domain identifier, second-level table and address width of the
  domain, and leaves every interrupt remapping entry as it is.
\<close>

theorem add_iommu_device_refines:
  assumes "vtd_wf env s"
  shows "\<exists>s'. add_iommu_device env dm b d s = (0, s') \<and> vtd_wf env s' \<and>
    dma_map s' = (dma_map s)((b, d) \<mapsto> domain_target dm) \<and>
    (\<forall>i \<in> {0..<256}. ir_map s' i = ir_map s i)"
proof (intro exI conjI)
  let ?s = "snd (add_iommu_device env dm b d s)"
  have w: "vtd_layout env s" "tables_ok env s"
    using assms by (simp_all add: vtd_wf_def)
  show "add_iommu_device env dm b d s = (0, ?s)"
    using add_iommu_device_eq(1) [OF w, of dm b d] by (metis prod.collapse)
  show "\<forall>i \<in> {0..<256}. ir_map ?s i = ir_map s i"
    using add_iommu_device_map(3) [OF assms] add_iommu_device_eq(2) [OF w, of dm b d]
    by (simp add: ir_map_def ir_at_def)
qed (rule add_iommu_device_map [OF assms])+

lemma remove_device_map:
  assumes "responsive env" "vtd_wf env s" "dma_map s (b, d) \<noteq> None"
  shows "\<exists>s'. remove_iommu_device env dm b d s = Some (0, s') \<and> vtd_wf env s' \<and>
    dma_map s' = (dma_map s)((b, d) := None) \<and> (\<forall>i \<in> {0..<256}. ir_map s' i = ir_map s i) \<and>
    read_entry (qi_slot s (qi_index s)) s' =
      ctx_inv_desc (vmid_to_domainid (dom_vm_id dm)) (push_bit 8 (ucast b) OR ucast d) \<and>
    read_entry (qi_slot s (qi_index s + 2)) s' = iotlb_inv_desc (vmid_to_domainid (dom_vm_id dm))"
proof -
  have w: "vtd_layout env s" "tables_ok env s"
    using assms(2) by (simp_all add: vtd_wf_def)
  note root = dma_map_root [OF assms(3)]
  note c = cleared_map [OF assms(2) root, where d = d]
  let ?c = "cleared env b d s"
  have at: "qi_slot ?c k = qi_slot s k" "qi_index ?c = qi_index s" "ir_at ?c i = ir_at s i" for k i
    by (simp_all add: cleared_def qi_slot_def qi_index_def ir_at_def)
  obtain s1 s2 where r: "dmar_issue_qi_request env 1 (ctx_inv_desc (vmid_to_domainid (dom_vm_id dm)) (push_bit 8 (ucast b) OR ucast d)) ?c = Some s1"
    "dmar_issue_qi_request env 1 (iotlb_inv_desc (vmid_to_domainid (dom_vm_id dm))) s1 = Some s2"
    "vtd_wf env s2" "dma_map s2 = dma_map ?c"
    "\<And>a. (\<And>k. a \<noteq> qi_slot ?c k \<and> a \<noteq> qi_slot ?c k + 8) \<Longrightarrow> vt_mem s2 a = vt_mem ?c a"
    "read_entry (qi_slot ?c (qi_index ?c)) s2 = ctx_inv_desc (vmid_to_domainid (dom_vm_id dm)) (push_bit 8 (ucast b) OR ucast d)"
    "read_entry (qi_slot ?c (qi_index ?c + 2)) s2 = iotlb_inv_desc (vmid_to_domainid (dom_vm_id dm))"
    "vt_units s2 = (vt_units ?c)(1 := (vt_units ?c 1)\<lparr>qi_tail := of_nat (16 * ((qi_index ?c + 4) mod 256))\<rparr>)"
    by (rule two_requests [OF assms(1) c(1)]) blast
  have "ir_at s2 i = ir_at ?c i" for i
    by (simp add: ir_at_def r(8))
  then have "ir_map s2 i = ir_map s i" if "i < 256" for i
    using ir_not_qi [OF w(1) that] c(3) [OF that] r(5) [unfolded at] by (simp add: ir_map_def at read_entry_def)
  then show ?thesis
    using r c(2) by (intro exI [of _ s2]) (simp add: remove_iommu_device_eq [OF w(2) root] at)
qed

text \<open>
  C6. Removing a device that is assigned returns, provided the hardware completes the invalidation
  requests; the device is then unmapped, no other device and no interrupt entry is affected, and the
  queue holds the requests that flush the context cache for the device and the IOTLB for its domain.
\<close>

theorem remove_iommu_device_refines:
  assumes "responsive env" "vtd_wf env s" "dma_map s (b, d) \<noteq> None"
  shows "\<exists>s'. remove_iommu_device env dm b d s = Some (0, s') \<and> vtd_wf env s' \<and>
    dma_map s' = (dma_map s)((b, d) := None) \<and> (\<forall>i \<in> {0..<256}. ir_map s' i = ir_map s i) \<and>
    read_entry (qi_slot s (qi_index s)) s' =
      ctx_inv_desc (vmid_to_domainid (dom_vm_id dm)) (push_bit 8 (ucast b) OR ucast d) \<and>
    read_entry (qi_slot s (qi_index s + 2)) s' = iotlb_inv_desc (vmid_to_domainid (dom_vm_id dm))"
  by (rule remove_device_map [OF assms])

lemma assign_irte_map:
  assumes "responsive env" "gsts_follows env" "vtd_wf env s" "index < 256"
  shows "\<exists>s'. dmar_assign_irte env sid irte index s = Some s' \<and> vtd_wf env s' \<and> dma_map s' = dma_map s \<and>
    (\<forall>i \<in> {0..<256}. ir_map s' i = (if i = index then effective_irte sid irte else ir_map s i)) \<and>
    read_entry (qi_slot s (qi_index s)) s' = iec_desc index"
proof -
  obtain l where l: "dmar_enable_intr_remapping env 1 s =
      Some ((upd_unit 1 (\<lambda>r. r\<lparr>gcmd := gcmd r OR DMA_GCMD_IRE\<rparr>) s)\<lparr>vt_log := l\<rparr>)"
    by (rule enable_intr_remapping [OF assms(2)])
  define t where "t = (upd_unit 1 (\<lambda>r. r\<lparr>gcmd := gcmd r OR DMA_GCMD_IRE\<rparr>) s)\<lparr>vt_log := l\<rparr>"
  define v where "v = iommu_flush_cache (ir_at t index) 16 (write_entry (ir_at t index) (effective_irte sid irte) t)"
  note t = gcmd_update_frame [OF assms(3), where f = "\<lambda>g. g OR DMA_GCMD_IRE" and l = l, folded t_def]
  note v = ir_write [OF t(1) assms(4) v_def]
  obtain s' where r: "dmar_issue_qi_request env 1 (iec_desc index) v = Some s'" "vtd_wf env s'" "dma_map s' = dma_map v"
    "\<And>i. i < 256 \<Longrightarrow> ir_map s' i = ir_map v i" "read_entry (qi_slot v (qi_index v)) s' = iec_desc index"
    by (rule issue_qi_ir [OF assms(1) v(1)]) blast
  have at: "qi_slot v (qi_index v) = qi_slot s (qi_index s)"
    using t(6,7) by (simp add: qi_slot_def qi_index_def v_def)
  have "dmar_assign_irte env sid irte index s = Some s'"
    using r(1) by (simp add: dmar_assign_irte_def l iec_issue Let_def v_def flip: t_def ir_at_def)
  moreover have "ir_map s' i = (if i = index then effective_irte sid irte else ir_map s i)" if "i < 256" for i
    using r(4) [OF that] v(3) v(4) [OF that] t(3) by simp
  ultimately show ?thesis
    using r(2,3,5) v(2) t(2) at by (intro exI [of _ s']) simp
qed

lemma free_irte_map:
  assumes "responsive env" "vtd_wf env s" "index < 256"
  shows "\<exists>s'. dmar_free_irte env sid index s = Some s' \<and> vtd_wf env s' \<and> dma_map s' = dma_map s \<and>
    (\<forall>i < 256. ir_map s' i = (if i = index then ir_set_present 0 (ir_map s index) else ir_map s i))"
proof -
  define v where "v = iommu_flush_cache (ir_at s index) 16 (write_entry (ir_at s index) (ir_set_present 0 (ir_map s index)) s)"
  note v = ir_write [OF assms(2,3) v_def]
  obtain s' where r: "dmar_issue_qi_request env 1 (iec_desc index) v = Some s'" "vtd_wf env s'" "dma_map s' = dma_map v"
    "\<And>i. i < 256 \<Longrightarrow> ir_map s' i = ir_map v i"
    by (rule issue_qi_ir [OF assms(1) v(1)]) blast
  have "dmar_free_irte env sid index s = Some s'"
    using r(1) by (simp add: dmar_free_irte_def iec_issue Let_def v_def ir_map_def flip: ir_at_def)
  then show ?thesis
    using r v by (intro exI [of _ s']) auto
qed


subsection \<open>Enabling all units\<close>

definition unit_cmd :: "vtd \<Rightarrow> nat \<Rightarrow> u32 \<times> dmar_drhd" where
  "unit_cmd s u = (gcmd (vt_units s u), drhd (vt_units s u))"

lemma issue_returns:
  assumes "responsive env"
  obtains s' where "dmar_issue_qi_request env u d s = Some s'" "unit_cmd s' = unit_cmd s"
proof -
  let ?w = "qi_put u (wait_desc env) (qi_put u d s)"
  let ?t = "iommu_write32 u DMAR_IQT_REG (ucast (qi_tail (vt_units ?w u))) ?w"
  obtain n where "qi_completed env (replicate n Asm_pause @ vt_log ?t)"
    using assms by (auto simp: responsive_def)
  then obtain s' where s': "qi_wait env ?t = Some s'"
    using qi_wait_completes by blast
  have put: "unit_cmd (qi_put u e t) = unit_cmd t" for e t
    by (simp add: fun_eq_iff unit_cmd_def qi_put_def Let_def upd_unit_def)
  have "unit_cmd s' = unit_cmd ?t"
    using qi_wait_mem [OF s'] by (auto simp: fun_eq_iff unit_cmd_def)
  also have "\<dots> = unit_cmd s"
    using put by (simp add: unit_cmd_def iommu_write32_def fun_eq_iff)
  finally show thesis
    using that s' by (simp add: dmar_issue_qi_request_def Let_def flip: wait_desc_def)
qed

lemma enable_translation:
  assumes "gsts_follows env"
  obtains l where "dmar_enable_translation env u s =
    Some ((upd_unit u (\<lambda>r. r\<lparr>gcmd := gcmd r OR DMA_GCMD_TE\<rparr>) s)\<lparr>vt_log := l\<rparr>)"
proof (cases "gcmd (vt_units s u) AND DMA_GCMD_TE = 0")
  case True
  let ?s = "upd_unit u (\<lambda>r. r\<lparr>gcmd := gcmd r OR DMA_GCMD_TE\<rparr>) s"
  have "(gcmd (vt_units ?s u) AND DMA_GSTS_TES = 0) = False"
    by (auto simp: DMA_GCMD_TE_def DMA_GSTS_TES_def bit_eq_iff [of _ 0] bit_simps intro: exI [of _ 31])
  from gcmd_wait [OF assms this, of u ?s] show thesis
    using True that by (auto simp: dmar_enable_translation_def Let_def)
next
  case False
  then have "gcmd (vt_units s u) OR DMA_GCMD_TE = gcmd (vt_units s u)"
    unfolding DMA_GCMD_TE_def by (rule and_bit_or_same)
  then have "s = (upd_unit u (\<lambda>r. r\<lparr>gcmd := gcmd r OR DMA_GCMD_TE\<rparr>) s)\<lparr>vt_log := vt_log s\<rparr>"
    by (simp add: upd_unit_def)
  then show thesis
    using False that [of "vt_log s"] by (simp add: dmar_enable_translation_def)
qed

lemma dmar_enable_returns:
  assumes "responsive env" "gsts_follows env"
  obtains s' where "dmar_enable env u s = Some s'"
    "unit_cmd s' = (unit_cmd s)(u := (gcmd (vt_units s u) OR DMA_GCMD_TE, drhd (vt_units s u)))"
proof -
  have inv: "\<exists>s'. dmar_invalid_context_cache_global env u t = Some s' \<and> unit_cmd s' = unit_cmd t"
    "\<exists>s'. dmar_invalid_iotlb_global env u t = Some s' \<and> unit_cmd s' = unit_cmd t"
    "\<exists>s'. dmar_invalid_iec_global env u t = Some s' \<and> unit_cmd s' = unit_cmd t" for t
    using issue_returns [OF assms(1)]
    by (simp_all add: dmar_invalid_context_cache_global_def dmar_invalid_context_cache_def
        dmar_invalid_iotlb_global_def dmar_invalid_iotlb_def dmar_invalid_iec_global_def dmar_invalid_iec_def Let_def)
      metis+
  obtain s1 s2 s3 where r: "dmar_invalid_context_cache_global env u s = Some s1" "unit_cmd s1 = unit_cmd s"
    "dmar_invalid_iotlb_global env u s1 = Some s2" "unit_cmd s2 = unit_cmd s1"
    "dmar_invalid_iec_global env u s2 = Some s3" "unit_cmd s3 = unit_cmd s2"
    using inv by metis
  obtain l where l: "dmar_enable_translation env u s3 =
      Some ((upd_unit u (\<lambda>r. r\<lparr>gcmd := gcmd r OR DMA_GCMD_TE\<rparr>) s3)\<lparr>vt_log := l\<rparr>)"
    by (rule enable_translation [OF assms(2)])
  have c: "unit_cmd s3 = unit_cmd s"
    using r by simp
  have "gcmd (vt_units s3 v) = gcmd (vt_units s v)" "drhd (vt_units s3 v) = drhd (vt_units s v)" for v
    using fun_cong [OF c, of v] by (simp_all add: unit_cmd_def)
  then show thesis
    using r l by (intro that) (auto simp: dmar_enable_def unit_cmd_def upd_unit_def fun_eq_iff)
qed

lemma enable_loop:
  assumes "responsive env" "gsts_follows env"
  shows "\<exists>s'. do_action_loop (dmar_enable env) us s = Some s' \<and> (\<forall>u. drhd (vt_units s' u) = drhd (vt_units s u)) \<and>
    (\<forall>u. gcmd (vt_units s' u) AND DMA_GCMD_TE = 0 \<longrightarrow>
       gcmd (vt_units s u) AND DMA_GCMD_TE = 0 \<and> (u \<in> set us \<longrightarrow> drhd_ignore (drhd (vt_units s u))))"
proof (induction us arbitrary: s)
  case Nil
  then show ?case
    by simp
next
  case (Cons u us)
  show ?case
  proof (cases "drhd_ignore (drhd (vt_units s u))")
    case True
    then show ?thesis
      using Cons.IH [of s] by (auto simp: One_nat_def)
  next
    case False
    obtain t where t: "dmar_enable env u s = Some t"
      "unit_cmd t = (unit_cmd s)(u := (gcmd (vt_units s u) OR DMA_GCMD_TE, drhd (vt_units s u)))"
      by (rule dmar_enable_returns [OF assms])
    have te: "(g OR DMA_GCMD_TE) AND DMA_GCMD_TE \<noteq> 0" for g
      by (auto simp: DMA_GCMD_TE_def bit_eq_iff [of _ 0] bit_simps intro: exI [of _ 31])
    have c: "gcmd (vt_units t v) = (if v = u then gcmd (vt_units s u) OR DMA_GCMD_TE else gcmd (vt_units s v))"
      "drhd (vt_units t v) = drhd (vt_units s v)" for v
      using fun_cong [OF t(2), of v] by (simp_all add: unit_cmd_def split: if_splits)
    obtain s' where s': "do_action_loop (dmar_enable env) us t = Some s'" "\<forall>v. drhd (vt_units s' v) = drhd (vt_units t v)"
      "\<forall>v. gcmd (vt_units s' v) AND DMA_GCMD_TE = 0 \<longrightarrow>
         gcmd (vt_units t v) AND DMA_GCMD_TE = 0 \<and> (v \<in> set us \<longrightarrow> drhd_ignore (drhd (vt_units t v)))"
      using Cons.IH [of t] by blast
    have "gcmd (vt_units s v) AND DMA_GCMD_TE = 0 \<and> (v \<in> set (u # us) \<longrightarrow> drhd_ignore (drhd (vt_units s v)))"
      if "gcmd (vt_units s' v) AND DMA_GCMD_TE = 0" for v
      using s'(3) [rule_format, OF that] te by (auto simp: c split: if_splits)
    then show ?thesis
      using False t(1) s'(1,2) by (intro exI [of _ s']) (simp add: c)
  qed
qed


subsection \<open>A concrete unit\<close>

fun last_command :: "vtd_event list \<Rightarrow> u64 \<Rightarrow> u32" where
  "last_command [] a = 0"
| "last_command (Mmio_write p v # l) a = (if p + 4 = a then v else last_command l a)"
| "last_command (e # l) a = last_command l a"

definition ex_env :: vtd_env where
  "ex_env = \<lparr>root_tables = 0x100000, ctx_tables = 0x200000, qi_queues = 0x400000, ir_tables = 0x500000,
     qi_status = 0x600000, plat_dmar_info = [\<lparr>drhd_ignore = True, reg_base_addr = 0xFED90000\<rparr>,
       \<lparr>drhd_ignore = False, reg_base_addr = 0xFED91000\<rparr>],
     ppt_pages = ex_ppt, mmio_value = last_command, qi_completed = \<lambda>l. True\<rparr>"

definition ex_unit :: dmar_drhd_rt where
  "ex_unit = \<lparr>dmar_index = 1, drhd = \<lparr>drhd_ignore = False, reg_base_addr = 0xFED91000\<rparr>, root_table_addr = 0x101000,
     ir_table_addr = 0x501000, qi_queue = 0x401000, qi_tail = 0xFF0, gcmd = 0\<rparr>"

definition ex_vtd :: vtd where
  "ex_vtd = \<lparr>vt_mem = \<lambda>a. 0, vt_units = \<lambda>u. ex_unit, vt_domains = \<lambda>d. \<lparr>dom_vm_id = 0, addr_width = 0, trans_table_ptr = 0\<rparr>,
     vt_ppt = \<lparr>pg_mem = \<lambda>a. 0, pg_flushed = [], sanitized_page = 0\<rparr>, vt_log = []\<rparr>"

definition ex_dom :: iommu_domain where
  "ex_dom = \<lparr>dom_vm_id = 1, addr_width = 48, trans_table_ptr = 0x80000\<rparr>"

lemma ex_vtd_wf: "vtd_wf ex_env ex_vtd"
  by (simp add: vtd_wf_def vtd_layout_def qi_ok_def tables_ok_def ex_vtd_def ex_unit_def ex_env_def ctx_base_def
      get_ctx_table_def CONFIG_IOMMU_BUS_NUM_def PAGE_SIZE_def apart_def)

lemma ex_env_responsive: "responsive ex_env" "gsts_follows ex_env"
proof -
  show "responsive ex_env"
    by (simp add: responsive_def ex_env_def)
  show "gsts_follows ex_env"
    unfolding gsts_follows_def by (intro allI exI [of _ 0]) (simp add: ex_env_def rounds_def)
qed

lemma ex_vtd_map: "dma_map ex_vtd x = None"
  by (simp add: dma_map_def dma_walk_def ex_vtd_def)

lemma ex_dom_target: "domain_target ex_dom = (2, 0x80000, 2)"
  by (simp add: domain_target_def ex_dom_def vmid_to_domainid_def width_to_aw_def width_to_level_def LEVEL_WIDTH_def mask_eq_exp_minus_1)

theorem add_iommu_device_refines_witness:
  "\<exists>s'. add_iommu_device ex_env ex_dom 0 0xF8 ex_vtd = (0, s') \<and>
     dma_map s' (0, 0xF8) = Some (2, 0x80000, 2) \<and> dma_map s' (1, 0) = None"
proof -
  show "\<exists>s'. add_iommu_device ex_env ex_dom 0 0xF8 ex_vtd = (0, s') \<and>
     dma_map s' (0, 0xF8) = Some (2, 0x80000, 2) \<and> dma_map s' (1, 0) = None"
    using add_iommu_device_refines [OF ex_vtd_wf, of ex_dom 0 "0xF8"] by (auto simp: ex_vtd_map ex_dom_target)
qed

definition ex_assigned :: vtd where
  "ex_assigned = snd (add_iommu_device ex_env ex_dom 0 0xF8 ex_vtd)"

lemma ex_assigned_ok: "vtd_wf ex_env ex_assigned" "dma_map ex_assigned (0, 0xF8) \<noteq> None"
  unfolding ex_assigned_def by (simp_all add: add_iommu_device_map [OF ex_vtd_wf])

theorem remove_iommu_device_refines_witness:
  "\<exists>s'. remove_iommu_device ex_env ex_dom 0 0xF8 ex_assigned = Some (0, s') \<and> dma_map s' (0, 0xF8) = None"
proof -
  show "\<exists>s'. remove_iommu_device ex_env ex_dom 0 0xF8 ex_assigned = Some (0, s') \<and> dma_map s' (0, 0xF8) = None"
    using remove_iommu_device_refines [OF ex_env_responsive(1) ex_assigned_ok(1) ex_assigned_ok(2), of ex_dom] by auto
qed



end
