(* ===== verification/Acrn_Sched.thy ===== *)
theory Acrn_Sched
  imports Acrn_Bits
begin

text \<open>
  The scheduler: \<^verbatim>\<open>src/hypervisor/common/schedule.c\<close> and the only scheduling policy of
  this configuration (\<^verbatim>\<open>CONFIG_SCHED_NOOP\<close>), \<^verbatim>\<open>src/hypervisor/common/sched_noop.c\<close>.

  Threads are named: the idle thread of a physical CPU, or the thread of a virtual CPU. The
  state holds every \<^verbatim>\<open>struct thread_object\<close>, the \<^verbatim>\<open>struct sched_control\<close> of every
  physical CPU with the private data of the policy, the flags \<^verbatim>\<open>running\<close> of the virtual
  CPUs (which the switch hooks set) and the INIT signals sent to other CPUs. The scheduler lock
  makes every operation atomic, so an execution on several CPUs is a sequence of operations;
  \<open>cpu\<close> is the value of \<^verbatim>\<open>get_pcpu_id()\<close> of the CPU that performs one.
\<close>

subsection \<open>State\<close>

datatype thread = Idle u16 | Vcpu u16 u16

datatype thread_object_state = THREAD_STS_RUNNING | THREAD_STS_RUNNABLE | THREAD_STS_BLOCKED

datatype switch_fn = fn_context_switch_out | fn_context_switch_in

record thread_object =
  t_pcpu_id :: u16
  t_status :: thread_object_state
  t_switch_out :: "switch_fn option"
  t_switch_in :: "switch_fn option"

record sched_control =
  sc_pcpu_id :: u16
  sc_flags :: u64
  sc_curr_obj :: "thread option"
  noop_thread_obj :: "thread option"

text \<open>
  \<^verbatim>\<open>struct ext_context\<close>: the control and segment registers of a virtual CPU, and the part
  of its state that the switch hooks save and restore. The contents of the XSAVE area are kept per
  state component.
\<close>

record segment_sel =
  selector :: u16
  seg_base :: u64
  limit :: u32
  attr :: u32

record ext_context =
  cr3 :: u64
  idtr :: segment_sel
  ldtr :: segment_sel
  gdtr :: segment_sel
  tr_seg :: segment_sel
  cs :: segment_sel
  ss :: segment_sel
  ds :: segment_sel
  es :: segment_sel
  fs :: segment_sel
  gs :: segment_sel
  ia32_star :: u64
  ia32_lstar :: u64
  ia32_fmask :: u64
  ia32_kernel_gs_base :: u64
  xcr0 :: u64
  xss :: u64
  xs_area :: "nat \<Rightarrow> u64"

text \<open>The registers of a physical CPU that the hooks access.\<close>

record pcpu_regs =
  pc_msr :: "u32 \<Rightarrow> u64"
  pc_xcr0 :: u64
  pc_xstate :: "nat \<Rightarrow> u64"

record sched =
  threads :: "thread \<Rightarrow> thread_object"
  sched_ctl :: "u16 \<Rightarrow> sched_control"
  vcpu_running :: "thread \<Rightarrow> bool"
  init_signals :: "u16 list"
  ext_ctx :: "thread \<Rightarrow> ext_context"
  pcpu :: "u16 \<Rightarrow> pcpu_regs"

definition NEED_RESCHEDULE :: u16 where "NEED_RESCHEDULE = 1"
definition DEL_MODE_INIT :: u16 where "DEL_MODE_INIT = 1"

abbreviation status :: "sched \<Rightarrow> thread \<Rightarrow> thread_object_state" where
  "status s t \<equiv> t_status (threads s t)"

abbreviation thread_pcpu :: "sched \<Rightarrow> thread \<Rightarrow> u16" where
  "thread_pcpu s t \<equiv> t_pcpu_id (threads s t)"

abbreviation curr_obj :: "sched \<Rightarrow> u16 \<Rightarrow> thread option" where
  "curr_obj s p \<equiv> sc_curr_obj (sched_ctl s p)"

abbreviation noop_obj :: "sched \<Rightarrow> u16 \<Rightarrow> thread option" where
  "noop_obj s p \<equiv> noop_thread_obj (sched_ctl s p)"

definition upd_ctl :: "u16 \<Rightarrow> (sched_control \<Rightarrow> sched_control) \<Rightarrow> sched \<Rightarrow> sched" where
  "upd_ctl p f s = s\<lparr>sched_ctl := (sched_ctl s)(p := f (sched_ctl s p))\<rparr>"

subsection \<open>Thread status (schedule.c)\<close>

definition is_blocked :: "sched \<Rightarrow> thread \<Rightarrow> bool" where
  "is_blocked s obj \<longleftrightarrow> status s obj = THREAD_STS_BLOCKED"

definition is_runnable :: "sched \<Rightarrow> thread \<Rightarrow> bool" where
  "is_runnable s obj \<longleftrightarrow> status s obj = THREAD_STS_RUNNABLE"

definition is_running :: "sched \<Rightarrow> thread \<Rightarrow> bool" where
  "is_running s obj \<longleftrightarrow> status s obj = THREAD_STS_RUNNING"

definition set_thread_status :: "thread \<Rightarrow> thread_object_state \<Rightarrow> sched \<Rightarrow> sched" where
  "set_thread_status obj st s = s\<lparr>threads := (threads s)(obj := (threads s obj)\<lparr>t_status := st\<rparr>)\<rparr>"

definition sched_get_pcpuid :: "thread \<Rightarrow> sched \<Rightarrow> u16" where
  "sched_get_pcpuid obj s = t_pcpu_id (threads s obj)"

subsection \<open>The policy (sched\_noop.c)\<close>

text \<open>
  \<^verbatim>\<open>sched_noop_init\<close> points \<^verbatim>\<open>ctl->priv\<close> at the per-CPU
  \<^verbatim>\<open>struct sched_noop_control\<close>, whose one field is part of the control block here.
\<close>

definition sched_noop_pick_next :: "u16 \<Rightarrow> u16 \<Rightarrow> sched \<Rightarrow> thread" where
  "sched_noop_pick_next cpu p s =
     (case noop_obj s p of Some t \<Rightarrow> t | None \<Rightarrow> Idle cpu)"

definition sched_noop_sleep :: "thread \<Rightarrow> sched \<Rightarrow> sched" where
  "sched_noop_sleep obj s =
     (if noop_obj s (thread_pcpu s obj) = Some obj
      then upd_ctl (thread_pcpu s obj) (\<lambda>c. c\<lparr>noop_thread_obj := None\<rparr>) s else s)"

definition sched_noop_wake :: "thread \<Rightarrow> sched \<Rightarrow> sched" where
  "sched_noop_wake obj s =
     (if noop_obj s (thread_pcpu s obj) = None
      then upd_ctl (thread_pcpu s obj) (\<lambda>c. c\<lparr>noop_thread_obj := Some obj\<rparr>) s else s)"

subsection \<open>The scheduler (schedule.c)\<close>

definition init_sched :: "u16 \<Rightarrow> sched \<Rightarrow> sched" where
  "init_sched p s =
     upd_ctl p (\<lambda>c. c\<lparr>sc_flags := 0, sc_curr_obj := None, sc_pcpu_id := p\<rparr>) s"

definition init_thread_data :: "thread \<Rightarrow> sched \<Rightarrow> sched" where
  "init_thread_data obj s = set_thread_status obj THREAD_STS_BLOCKED s"

definition send_single_init :: "u16 \<Rightarrow> sched \<Rightarrow> sched" where
  "send_single_init p s = s\<lparr>init_signals := p # init_signals s\<rparr>"

definition make_reschedule_request :: "u16 \<Rightarrow> u16 \<Rightarrow> u16 \<Rightarrow> sched \<Rightarrow> sched" where
  "make_reschedule_request cpu p delmode s =
     (let s1 = upd_ctl p (\<lambda>c. c\<lparr>sc_flags := bitmap_set_lock NEED_RESCHEDULE (sc_flags c)\<rparr>) s
      in if cpu \<noteq> p then (if delmode = DEL_MODE_INIT then send_single_init p s1 else s1) else s1)"

definition need_reschedule :: "u16 \<Rightarrow> sched \<Rightarrow> bool" where
  "need_reschedule p s = bitmap_test NEED_RESCHEDULE (sc_flags (sched_ctl s p))"

text \<open>A switch hook of a virtual CPU's thread sets the flag \<^verbatim>\<open>running\<close> of that virtual CPU.\<close>

subsection \<open>Context switches (vcpu.c)\<close>

definition MSR_IA32_XSS :: u32 where "MSR_IA32_XSS = 0xDA0"
definition MSR_IA32_STAR :: u32 where "MSR_IA32_STAR = 0xC0000081"
definition MSR_IA32_LSTAR :: u32 where "MSR_IA32_LSTAR = 0xC0000082"
definition MSR_IA32_FMASK :: u32 where "MSR_IA32_FMASK = 0xC0000084"
definition MSR_IA32_KERNEL_GS_BASE :: u32 where "MSR_IA32_KERNEL_GS_BASE = 0xC0000102"
definition XCR0_SSE :: u64 where "XCR0_SSE = push_bit 1 1"
definition XCR0_AVX :: u64 where "XCR0_AVX = push_bit 2 1"

definition msr_read :: "u32 \<Rightarrow> pcpu_regs \<Rightarrow> u64" where
  "msr_read reg c = pc_msr c reg"

definition msr_write :: "u32 \<Rightarrow> u64 \<Rightarrow> pcpu_regs \<Rightarrow> pcpu_regs" where
  "msr_write reg val c = c\<lparr>pc_msr := (pc_msr c)(reg := val)\<rparr>"

definition write_xcr :: "u64 \<Rightarrow> pcpu_regs \<Rightarrow> pcpu_regs" where
  "write_xcr val c = c\<lparr>pc_xcr0 := val\<rparr>"

text \<open>
  The instructions XSAVES and XRSTORS with all bits of the instruction mask set: they transfer the
  state components that are enabled in XCR0 or IA32\_XSS.
\<close>

definition xcomponent :: "nat \<Rightarrow> pcpu_regs \<Rightarrow> bool" where
  "xcomponent i c = bit (pc_xcr0 c OR pc_msr c MSR_IA32_XSS) i"

definition asm_xsaves :: "pcpu_regs \<Rightarrow> (nat \<Rightarrow> u64) \<Rightarrow> (nat \<Rightarrow> u64)" where
  "asm_xsaves c area = (\<lambda>i. if xcomponent i c then pc_xstate c i else area i)"

definition asm_xrstors :: "(nat \<Rightarrow> u64) \<Rightarrow> pcpu_regs \<Rightarrow> pcpu_regs" where
  "asm_xrstors area c = c\<lparr>pc_xstate := (\<lambda>i. if xcomponent i c then area i else pc_xstate c i)\<rparr>"

definition save_xsave_area :: "ext_context \<Rightarrow> pcpu_regs \<Rightarrow> ext_context \<times> pcpu_regs" where
  "save_xsave_area ectx c =
     (let ectx1 = ectx\<lparr>xcr0 := pc_xcr0 c\<rparr>;
          c1 = write_xcr (xcr0 ectx1 OR XCR0_SSE OR XCR0_AVX) c;
          ectx2 = ectx1\<lparr>xss := msr_read MSR_IA32_XSS c1\<rparr>
      in (ectx2\<lparr>xs_area := asm_xsaves c1 (xs_area ectx2)\<rparr>, c1))"

definition rstore_xsave_area :: "ext_context \<Rightarrow> pcpu_regs \<Rightarrow> pcpu_regs" where
  "rstore_xsave_area ectx c =
     (let c1 = write_xcr (xcr0 ectx OR XCR0_SSE OR XCR0_AVX) c;
          c2 = msr_write MSR_IA32_XSS (xss ectx) c1;
          c3 = asm_xrstors (xs_area ectx) c2
      in write_xcr (xcr0 ectx) c3)"

definition context_switch_out :: "u16 \<Rightarrow> thread \<Rightarrow> sched \<Rightarrow> sched" where
  "context_switch_out cpu prev s =
     (let c = pcpu s cpu;
          ectx = (ext_ctx s prev)
            \<lparr>ia32_star := msr_read MSR_IA32_STAR c,
             ia32_lstar := msr_read MSR_IA32_LSTAR c,
             ia32_fmask := msr_read MSR_IA32_FMASK c,
             ia32_kernel_gs_base := msr_read MSR_IA32_KERNEL_GS_BASE c\<rparr>;
          (ectx', c') = save_xsave_area ectx c
      in s\<lparr>ext_ctx := (ext_ctx s)(prev := ectx'), pcpu := (pcpu s)(cpu := c'),
           vcpu_running := (vcpu_running s)(prev := False)\<rparr>)"

text \<open>
  \<^verbatim>\<open>load_vmcs\<close> only selects the VMCS that VMREAD and VMWRITE access on the CPU; the model
  keeps the VMCS with its virtual CPU, so it has no effect here.
\<close>

definition context_switch_in :: "u16 \<Rightarrow> thread \<Rightarrow> sched \<Rightarrow> sched" where
  "context_switch_in cpu next s =
     (let ectx = ext_ctx s next;
          c1 = msr_write MSR_IA32_STAR (ia32_star ectx) (pcpu s cpu);
          c2 = msr_write MSR_IA32_LSTAR (ia32_lstar ectx) c1;
          c3 = msr_write MSR_IA32_FMASK (ia32_fmask ectx) c2;
          c4 = msr_write MSR_IA32_KERNEL_GS_BASE (ia32_kernel_gs_base ectx) c3
      in s\<lparr>pcpu := (pcpu s)(cpu := rstore_xsave_area ectx c4),
           vcpu_running := (vcpu_running s)(next := True)\<rparr>)"

definition call_switch :: "switch_fn option \<Rightarrow> u16 \<Rightarrow> thread \<Rightarrow> sched \<Rightarrow> sched" where
  "call_switch f cpu t s =
     (case f of
        None \<Rightarrow> s
      | Some fn_context_switch_out \<Rightarrow> context_switch_out cpu t s
      | Some fn_context_switch_in \<Rightarrow> context_switch_in cpu t s)"

text \<open>
  \<^verbatim>\<open>schedule\<close>: \<open>None\<close> where \<^verbatim>\<open>prev\<close> is a NULL pointer, which is dereferenced.
\<close>

definition schedule :: "u16 \<Rightarrow> sched \<Rightarrow> sched option" where
  "schedule pcpu_id s =
     (case curr_obj s pcpu_id of
        None \<Rightarrow> None
      | Some prev \<Rightarrow>
          let next = sched_noop_pick_next pcpu_id pcpu_id s;
              s1 = upd_ctl pcpu_id (\<lambda>c. c\<lparr>sc_flags := bitmap_clear_lock NEED_RESCHEDULE (sc_flags c)\<rparr>) s;
              s2 = (if is_running s1 prev then set_thread_status prev THREAD_STS_RUNNABLE s1 else s1);
              s3 = set_thread_status next THREAD_STS_RUNNING s2;
              s4 = upd_ctl pcpu_id (\<lambda>c. c\<lparr>sc_curr_obj := Some next\<rparr>) s3
          in Some (if prev \<noteq> next
                   then call_switch (t_switch_in (threads s4 next)) pcpu_id next
                          (call_switch (t_switch_out (threads s4 prev)) pcpu_id prev s4)
                   else s4))"

definition sleep_thread :: "u16 \<Rightarrow> thread \<Rightarrow> sched \<Rightarrow> sched" where
  "sleep_thread cpu obj s =
     (let p = thread_pcpu s obj;
          s1 = sched_noop_sleep obj s;
          s2 = (if is_running s1 obj then make_reschedule_request cpu p DEL_MODE_INIT s1 else s1)
      in set_thread_status obj THREAD_STS_BLOCKED s2)"

definition wake_thread :: "u16 \<Rightarrow> thread \<Rightarrow> sched \<Rightarrow> sched" where
  "wake_thread cpu obj s =
     (if is_blocked s obj
      then make_reschedule_request cpu (thread_pcpu s obj) DEL_MODE_INIT
             (set_thread_status obj THREAD_STS_RUNNABLE (sched_noop_wake obj s))
      else s)"

definition kick_thread :: "u16 \<Rightarrow> thread \<Rightarrow> sched \<Rightarrow> sched" where
  "kick_thread cpu obj s =
     (let p = thread_pcpu s obj in
      if is_running s obj then (if cpu \<noteq> p then send_single_init p s else s)
      else if is_runnable s obj then make_reschedule_request cpu p DEL_MODE_INIT s
      else s)"

text \<open>\<^verbatim>\<open>run_thread\<close>, up to the call of the thread's entry function.\<close>

definition run_thread :: "u16 \<Rightarrow> thread \<Rightarrow> sched \<Rightarrow> sched" where
  "run_thread cpu obj s =
     (let s1 = init_thread_data obj s;
          s2 = upd_ctl cpu (\<lambda>c. c\<lparr>sc_curr_obj := Some obj\<rparr>) s1
      in set_thread_status obj THREAD_STS_RUNNING s2)"

text \<open>\<^verbatim>\<open>run_idle_thread\<close> of hv\_main.c: the idle thread has no switch hooks.\<close>

definition run_idle_thread :: "u16 \<Rightarrow> sched \<Rightarrow> sched" where
  "run_idle_thread cpu s =
     run_thread cpu (Idle cpu)
       (s\<lparr>threads := (threads s)(Idle cpu :=
            (threads s (Idle cpu))\<lparr>t_pcpu_id := cpu, t_switch_out := None, t_switch_in := None\<rparr>)\<rparr>)"

lemmas sched_defs = upd_ctl_def is_blocked_def is_runnable_def is_running_def set_thread_status_def
  sched_noop_pick_next_def sched_noop_sleep_def sched_noop_wake_def init_thread_data_def
  send_single_init_def make_reschedule_request_def need_reschedule_def

lemma call_switch_frame [simp]:
  "threads (call_switch f c t s) = threads s" "sched_ctl (call_switch f c t s) = sched_ctl s"
  "init_signals (call_switch f c t s) = init_signals s"
  by (simp_all add: call_switch_def context_switch_out_def context_switch_in_def save_xsave_area_def Let_def
      split: option.split switch_fn.split)

lemma call_switch_running [simp]:
  "call_switch None c t s = s"
  "vcpu_running (call_switch (Some fn_context_switch_out) c t s) = (vcpu_running s)(t := False)"
  "vcpu_running (call_switch (Some fn_context_switch_in) c t s) = (vcpu_running s)(t := True)"
  by (simp_all add: call_switch_def context_switch_out_def context_switch_in_def save_xsave_area_def Let_def)

subsection \<open>Executions\<close>

text \<open>
  The operations of \<^verbatim>\<open>schedule.c\<close>, on any CPU and any virtual CPU, and the assignment
  \<^verbatim>\<open>vcpu->running = false\<close> of \<^verbatim>\<open>reset_vcpu\<close>.
\<close>

definition clear_running :: "thread \<Rightarrow> sched \<Rightarrow> sched" where
  "clear_running t s = s\<lparr>vcpu_running := (vcpu_running s)(t := False)\<rparr>"

inductive sched_step :: "sched \<Rightarrow> sched \<Rightarrow> bool" where
  step_schedule: "schedule p s = Some s' \<Longrightarrow> sched_step s s'"
| step_sleep: "sched_step s (sleep_thread cpu (Vcpu vm v) s)"
| step_wake: "sched_step s (wake_thread cpu (Vcpu vm v) s)"
| step_kick: "sched_step s (kick_thread cpu (Vcpu vm v) s)"
| step_clear: "sched_step s (clear_running (Vcpu vm v) s)"

inductive_cases sched_stepE: "sched_step s s'"

text \<open>
  The invariant. Every CPU has a current thread of its own; a thread that is RUNNING is the current
  thread of its CPU; the thread the policy holds is not blocked; a virtual CPU's flag
  \<^verbatim>\<open>running\<close> is set only while its thread is current; and whenever the policy would
  pick another thread than the current one, or the current one is not RUNNING any more, a
  reschedule request is pending.
\<close>

definition hooks_ok :: "sched \<Rightarrow> bool" where
  "hooks_ok s \<longleftrightarrow>
     (\<forall>p. thread_pcpu s (Idle p) = p \<and> t_switch_out (threads s (Idle p)) = None \<and>
          t_switch_in (threads s (Idle p)) = None) \<and>
     (\<forall>vm v. t_switch_out (threads s (Vcpu vm v)) = Some fn_context_switch_out \<and>
          t_switch_in (threads s (Vcpu vm v)) = Some fn_context_switch_in)"

fun is_vcpu_thread :: "thread \<Rightarrow> bool" where
  "is_vcpu_thread (Idle p) = False"
| "is_vcpu_thread (Vcpu vm v) = True"

definition cpu_inv :: "sched \<Rightarrow> u16 \<Rightarrow> bool" where
  "cpu_inv s p \<longleftrightarrow>
     (case curr_obj s p of
        None \<Rightarrow> False
      | Some c \<Rightarrow> thread_pcpu s c = p \<and>
          (sched_noop_pick_next p p s \<noteq> c \<or> status s c \<noteq> THREAD_STS_RUNNING \<longrightarrow> need_reschedule p s)) \<and>
     (case noop_obj s p of
        None \<Rightarrow> True
      | Some t \<Rightarrow> thread_pcpu s t = p \<and> status s t \<noteq> THREAD_STS_BLOCKED \<and> is_vcpu_thread t)"

definition thread_inv :: "sched \<Rightarrow> thread \<Rightarrow> bool" where
  "thread_inv s t \<longleftrightarrow>
     (status s t = THREAD_STS_RUNNING \<longrightarrow> curr_obj s (thread_pcpu s t) = Some t) \<and>
     (\<forall>p. t = Idle p \<longrightarrow> status s t \<noteq> THREAD_STS_BLOCKED) \<and>
     (\<forall>vm v. t = Vcpu vm v \<longrightarrow> vcpu_running s t \<longrightarrow> curr_obj s (thread_pcpu s t) = Some t)"

definition sched_inv :: "sched \<Rightarrow> bool" where
  "sched_inv s \<longleftrightarrow> hooks_ok s \<and> (\<forall>p. cpu_inv s p) \<and> (\<forall>t. thread_inv s t)"

lemma need_resched_bits [simp]:
  "bitmap_test NEED_RESCHEDULE (bitmap_set_lock NEED_RESCHEDULE w)"
  "\<not> bitmap_test NEED_RESCHEDULE (bitmap_clear_lock NEED_RESCHEDULE w)"
  by (simp_all add: bm.test_set bm.test_clear NEED_RESCHEDULE_def)

text \<open>What the building blocks do to what the invariant observes.\<close>

lemma pick_next_Some: "noop_obj s p = Some t \<Longrightarrow> sched_noop_pick_next c p s = t"
  and pick_next_None: "noop_obj s p = None \<Longrightarrow> sched_noop_pick_next c p s = Idle c"
  by (simp_all add: sched_noop_pick_next_def)

lemma reschedule_obs [simp]:
  "threads (make_reschedule_request cpu p dm s) = threads s"
  "vcpu_running (make_reschedule_request cpu p dm s) = vcpu_running s"
  "curr_obj (make_reschedule_request cpu p dm s) q = curr_obj s q"
  "noop_obj (make_reschedule_request cpu p dm s) q = noop_obj s q"
  "need_reschedule q (make_reschedule_request cpu p dm s) \<longleftrightarrow> q = p \<or> need_reschedule q s"
  by (simp_all add: make_reschedule_request_def Let_def send_single_init_def upd_ctl_def need_reschedule_def)

lemma init_signal_obs [simp]:
  "threads (send_single_init p s) = threads s" "vcpu_running (send_single_init p s) = vcpu_running s"
  "sched_ctl (send_single_init p s) = sched_ctl s"
  by (simp_all add: send_single_init_def)

lemma status_obs [simp]:
  "threads (set_thread_status t st s) = (threads s)(t := (threads s t)\<lparr>t_status := st\<rparr>)"
  "vcpu_running (set_thread_status t st s) = vcpu_running s"
  "sched_ctl (set_thread_status t st s) = sched_ctl s"
  "need_reschedule q (set_thread_status t st s) = need_reschedule q s"
  by (simp_all add: set_thread_status_def need_reschedule_def)

lemma policy_obs [simp]:
  "threads (sched_noop_sleep t s) = threads s" "threads (sched_noop_wake t s) = threads s"
  "vcpu_running (sched_noop_sleep t s) = vcpu_running s" "vcpu_running (sched_noop_wake t s) = vcpu_running s"
  "curr_obj (sched_noop_sleep t s) q = curr_obj s q" "curr_obj (sched_noop_wake t s) q = curr_obj s q"
  "need_reschedule q (sched_noop_sleep t s) = need_reschedule q s"
  "need_reschedule q (sched_noop_wake t s) = need_reschedule q s"
  "noop_obj (sched_noop_sleep t s) q =
     (if q = thread_pcpu s t \<and> noop_obj s q = Some t then None else noop_obj s q)"
  "noop_obj (sched_noop_wake t s) q =
     (if q = thread_pcpu s t \<and> noop_obj s q = None then Some t else noop_obj s q)"
  by (auto simp: sched_noop_sleep_def sched_noop_wake_def upd_ctl_def need_reschedule_def)

lemma pick_next_cong: "noop_obj s q = noop_obj s' q \<Longrightarrow> sched_noop_pick_next c q s = sched_noop_pick_next c q s'"
  by (simp add: sched_noop_pick_next_def)

lemma sched_invD:
  "sched_inv s \<Longrightarrow> hooks_ok s" "sched_inv s \<Longrightarrow> cpu_inv s p" "sched_inv s \<Longrightarrow> thread_inv s t"
  by (simp_all add: sched_inv_def)

lemma hooks_ok_status:
  assumes "hooks_ok s"
    and "\<And>t. t_pcpu_id (threads s' t) = t_pcpu_id (threads s t)"
    and "\<And>t. t_switch_out (threads s' t) = t_switch_out (threads s t)"
    and "\<And>t. t_switch_in (threads s' t) = t_switch_in (threads s t)"
  shows "hooks_ok s'"
  using assms by (simp add: hooks_ok_def)

lemma reschedule_inv: "sched_inv s \<Longrightarrow> sched_inv (make_reschedule_request cpu p dm s)"
proof -
  assume i: "sched_inv s"
  have "cpu_inv (make_reschedule_request cpu p dm s) q" for q
    using sched_invD(2) [OF i, of q] pick_next_cong [of "make_reschedule_request cpu p dm s" q s]
    by (auto simp: cpu_inv_def split: option.splits)
  moreover have "thread_inv (make_reschedule_request cpu p dm s) t" for t
    using sched_invD(3) [OF i, of t] by (simp add: thread_inv_def)
  ultimately show ?thesis
    using hooks_ok_status [OF sched_invD(1) [OF i]] by (simp add: sched_inv_def)
qed

lemma kick_inv: "sched_inv s \<Longrightarrow> sched_inv (kick_thread cpu t s)"
proof -
  assume i: "sched_inv s"
  then have "sched_inv (send_single_init p s)" for p
    by (simp add: sched_inv_def hooks_ok_def cpu_inv_def thread_inv_def sched_noop_pick_next_def
        need_reschedule_def cong: option.case_cong)
  with i reschedule_inv show ?thesis
    by (simp add: kick_thread_def Let_def)
qed

lemma wake_inv: "sched_inv s \<Longrightarrow> sched_inv (wake_thread cpu (Vcpu vm v) s)"
proof (cases "is_blocked s (Vcpu vm v)")
  case False
  then show "sched_inv s \<Longrightarrow> ?thesis" by (simp add: wake_thread_def)
next
  case True
  let ?t = "Vcpu vm v" and ?s = "wake_thread cpu (Vcpu vm v) s"
  assume i: "sched_inv s"
  have blocked: "status s ?t = THREAD_STS_BLOCKED"
    using True by (simp add: is_blocked_def)
  have obs: "threads ?s = (threads s)(?t := (threads s ?t)\<lparr>t_status := THREAD_STS_RUNNABLE\<rparr>)"
    "vcpu_running ?s = vcpu_running s" "curr_obj ?s q = curr_obj s q"
    "noop_obj ?s q = (if q = thread_pcpu s ?t \<and> noop_obj s q = None then Some ?t else noop_obj s q)"
    "need_reschedule q ?s \<longleftrightarrow> q = thread_pcpu s ?t \<or> need_reschedule q s" for q
    using True by (simp_all add: wake_thread_def)
  have "cpu_inv ?s q" for q
    using sched_invD(2) [OF i, of q] blocked
    by (cases "curr_obj s q"; cases "noop_obj s q")
      (auto simp: cpu_inv_def obs sched_noop_pick_next_def)
  moreover have "thread_inv ?s t" for t
    using sched_invD(3) [OF i, of t] blocked by (auto simp: thread_inv_def obs)
  ultimately show ?thesis
    using hooks_ok_status [OF sched_invD(1) [OF i], of ?s] by (simp add: sched_inv_def obs)
qed

lemma sleep_inv: "sched_inv s \<Longrightarrow> sched_inv (sleep_thread cpu (Vcpu vm v) s)"
proof -
  let ?t = "Vcpu vm v" and ?s = "sleep_thread cpu (Vcpu vm v) s"
  let ?p = "thread_pcpu s ?t"
  assume i: "sched_inv s"
  have obs: "threads ?s = (threads s)(?t := (threads s ?t)\<lparr>t_status := THREAD_STS_BLOCKED\<rparr>)"
    "vcpu_running ?s = vcpu_running s" "curr_obj ?s q = curr_obj s q"
    "noop_obj ?s q = (if q = ?p \<and> noop_obj s q = Some ?t then None else noop_obj s q)"
    "need_reschedule q ?s \<longleftrightarrow> q = ?p \<and> status s ?t = THREAD_STS_RUNNING \<or> need_reschedule q s" for q
    by (auto simp: sleep_thread_def Let_def is_running_def)
  have "cpu_inv ?s q" for q
  proof -
    obtain c where c: "curr_obj s q = Some c" "thread_pcpu s c = q"
        "sched_noop_pick_next q q s \<noteq> c \<or> status s c \<noteq> THREAD_STS_RUNNING \<Longrightarrow> need_reschedule q s"
      using sched_invD(2) [OF i, of q] by (auto simp: cpu_inv_def split: option.splits)
    have "sched_noop_pick_next q q ?s = sched_noop_pick_next q q s \<or> noop_obj s q = Some ?t"
      by (auto simp: sched_noop_pick_next_def obs)
    then have "need_reschedule q ?s"
      if "sched_noop_pick_next q q ?s \<noteq> c \<or> status ?s c \<noteq> THREAD_STS_RUNNING"
      using that c pick_next_Some [of s q ?t q] by (auto simp: obs split: if_splits)
    moreover have "case noop_obj ?s q of None \<Rightarrow> True
        | Some t \<Rightarrow> thread_pcpu ?s t = q \<and> status ?s t \<noteq> THREAD_STS_BLOCKED \<and> is_vcpu_thread t"
      using sched_invD(2) [OF i, of q] by (auto simp: cpu_inv_def obs split: option.splits)
    moreover have "thread_pcpu ?s c = q" "curr_obj ?s q = Some c"
      using c(1,2) by (auto simp: obs)
    ultimately show ?thesis
      by (simp add: cpu_inv_def)
  qed
  moreover have "thread_inv ?s t" for t
    using sched_invD(3) [OF i, of t] by (auto simp: thread_inv_def obs)
  ultimately show ?thesis
    using hooks_ok_status [OF sched_invD(1) [OF i], of ?s] by (simp add: sched_inv_def obs)
qed

text \<open>
  \<^verbatim>\<open>schedule\<close>, in a state with the invariant: the thread the policy picks becomes
  the current one and RUNNING, the request is gone, and the flags \<^verbatim>\<open>running\<close> follow.
\<close>

lemma schedule_obs:
  assumes i: "sched_inv s" and sch: "schedule p s = Some s'"
    and prev: "curr_obj s p = Some prev" and nxt: "nxt = sched_noop_pick_next p p s"
  shows "thread_pcpu s' t = thread_pcpu s t"
    and "status s' t = (if t = nxt then THREAD_STS_RUNNING
       else if t = prev \<and> status s t = THREAD_STS_RUNNING then THREAD_STS_RUNNABLE else status s t)"
    and "curr_obj s' q = (if q = p then Some nxt else curr_obj s q)"
    and "noop_obj s' q = noop_obj s q"
    and "need_reschedule q s' \<longleftrightarrow> q \<noteq> p \<and> need_reschedule q s"
    and "hooks_ok s'"
    and "is_vcpu_thread t \<Longrightarrow> vcpu_running s' t =
       (if prev = nxt then vcpu_running s t
        else if t = nxt then True else if t = prev then False else vcpu_running s t)"
proof -
  define s1 where "s1 = upd_ctl p (\<lambda>c. c\<lparr>sc_flags := bitmap_clear_lock NEED_RESCHEDULE (sc_flags c)\<rparr>) s"
  define s2 where "s2 = (if is_running s1 prev then set_thread_status prev THREAD_STS_RUNNABLE s1 else s1)"
  define s4 where "s4 = upd_ctl p (\<lambda>c. c\<lparr>sc_curr_obj := Some nxt\<rparr>) (set_thread_status nxt THREAD_STS_RUNNING s2)"
  have s': "s' = (if prev \<noteq> nxt
      then call_switch (t_switch_in (threads s4 nxt)) p nxt (call_switch (t_switch_out (threads s4 prev)) p prev s4)
      else s4)"
    using sch [symmetric] prev nxt by (simp add: schedule_def Let_def s1_def s2_def s4_def)
  have 1: "threads s1 = threads s" "vcpu_running s1 = vcpu_running s" "curr_obj s1 q = curr_obj s q"
    "noop_obj s1 q = noop_obj s q" "need_reschedule q s1 \<longleftrightarrow> q \<noteq> p \<and> need_reschedule q s" for q
    by (auto simp: s1_def upd_ctl_def need_reschedule_def)
  have 4: "thread_pcpu s4 t = thread_pcpu s t" "t_switch_in (threads s4 t) = t_switch_in (threads s t)"
    "t_switch_out (threads s4 t) = t_switch_out (threads s t)"
    "status s4 t = (if t = nxt then THREAD_STS_RUNNING
       else if t = prev \<and> status s t = THREAD_STS_RUNNING then THREAD_STS_RUNNABLE else status s t)"
    "vcpu_running s4 = vcpu_running s" "curr_obj s4 q = (if q = p then Some nxt else curr_obj s q)"
    "noop_obj s4 q = noop_obj s q" "need_reschedule q s4 \<longleftrightarrow> q \<noteq> p \<and> need_reschedule q s" for t q
    using 1 by (auto simp: s4_def s2_def upd_ctl_def is_running_def need_reschedule_def)
  note sw = call_switch_frame
  then have sn: "need_reschedule q (call_switch f c t x) = need_reschedule q x" for q f c t x
    by (simp add: need_reschedule_def)
  show "thread_pcpu s' t = thread_pcpu s t"
    "status s' t = (if t = nxt then THREAD_STS_RUNNING
       else if t = prev \<and> status s t = THREAD_STS_RUNNING then THREAD_STS_RUNNABLE else status s t)"
    "curr_obj s' q = (if q = p then Some nxt else curr_obj s q)" "noop_obj s' q = noop_obj s q"
    "need_reschedule q s' \<longleftrightarrow> q \<noteq> p \<and> need_reschedule q s"
    using 4 by (auto simp: s' sw sn)
  show "hooks_ok s'"
    by (rule hooks_ok_status [OF sched_invD(1) [OF i]]) (simp_all add: s' sw 4)
  assume t: "is_vcpu_thread t"
  have h: "t_switch_in (threads s x) = (if is_vcpu_thread x then Some fn_context_switch_in else None)"
    "t_switch_out (threads s x) = (if is_vcpu_thread x then Some fn_context_switch_out else None)" for x
    using sched_invD(1) [OF i] by (cases x; simp add: hooks_ok_def)+
  show "vcpu_running s' t = (if prev = nxt then vcpu_running s t
        else if t = nxt then True else if t = prev then False else vcpu_running s t)"
    using t by (auto simp: s' 4 h call_switch_running)
qed

lemma schedule_inv:
  assumes i: "sched_inv s" and sch: "schedule p s = Some s'"
  shows "sched_inv s'"
proof -
  obtain prev where prev: "curr_obj s p = Some prev"
    using sch by (auto simp: schedule_def split: option.splits)
  define nxt where "nxt = sched_noop_pick_next p p s"
  note obs = schedule_obs [OF i sch prev nxt_def]
  note c = sched_invD(2) [OF i] and t = sched_invD(3) [OF i] and h = sched_invD(1) [OF i]
  have np: "thread_pcpu s nxt = p"
    using c [of p] h by (auto simp: nxt_def sched_noop_pick_next_def cpu_inv_def hooks_ok_def split: option.splits)
  have pp: "thread_pcpu s prev = p"
    using c [of p] prev by (simp add: cpu_inv_def)
  have "cpu_inv s' q" for q
  proof (cases "q = p")
    case True
    have "sched_noop_pick_next p p s' = nxt"
      unfolding nxt_def by (rule pick_next_cong) (rule obs(4))
    then show ?thesis
      using True c [of p] np obs(4) by (auto simp: cpu_inv_def obs(1-5) split: option.splits)
  next
    case False
    have "sched_noop_pick_next q q s' = sched_noop_pick_next q q s"
      by (rule pick_next_cong) (rule obs(4))
    with False c [of q] np pp show ?thesis
      by (auto simp: cpu_inv_def obs(1-5) split: option.splits)
  qed
  moreover have "thread_inv s' x" for x
    using t [of x] np pp prev obs(7) [of x] by (cases x) (auto simp: thread_inv_def obs(1-5))
  ultimately show ?thesis
    using obs(6) by (simp add: sched_inv_def)
qed

lemma clear_running_inv: "sched_inv s \<Longrightarrow> sched_inv (clear_running t s)"
  by (simp add: sched_inv_def hooks_ok_def cpu_inv_def thread_inv_def sched_noop_pick_next_def
      need_reschedule_def clear_running_def cong: option.case_cong)

lemma step_inv: "sched_step s s' \<Longrightarrow> sched_inv s \<Longrightarrow> sched_inv s'"
  by (erule sched_stepE) (auto intro: schedule_inv sleep_inv wake_inv kick_inv clear_running_inv)

lemma steps_inv: "sched_step\<^sup>*\<^sup>* s s' \<Longrightarrow> sched_inv s \<Longrightarrow> sched_inv s'"
  by (induction rule: rtranclp_induct) (auto intro: step_inv)

text \<open>
  The state after every CPU ran \<^verbatim>\<open>init_sched\<close> and \<^verbatim>\<open>run_idle_thread\<close> and the
  threads of the virtual CPUs were initialised: the idle threads run, the others are blocked.
  Virtual CPU \<open>v\<close> of a VM is bound to physical CPU \<open>v\<close>.
\<close>

definition seg_zero :: segment_sel where
  "seg_zero = \<lparr>selector = 0, seg_base = 0, limit = 0, attr = 0\<rparr>"

definition ext_zero :: ext_context where
  "ext_zero = \<lparr>cr3 = 0, idtr = seg_zero, ldtr = seg_zero, gdtr = seg_zero, tr_seg = seg_zero, cs = seg_zero, ss = seg_zero,
     ds = seg_zero, es = seg_zero, fs = seg_zero, gs = seg_zero, ia32_star = 0, ia32_lstar = 0, ia32_fmask = 0,
     ia32_kernel_gs_base = 0, xcr0 = 0, xss = 0, xs_area = (\<lambda>_. 0)\<rparr>"

definition booted :: sched where
  "booted = \<lparr>threads = (\<lambda>t. case t of
       Idle p \<Rightarrow> \<lparr>t_pcpu_id = p, t_status = THREAD_STS_RUNNING, t_switch_out = None, t_switch_in = None\<rparr>
     | Vcpu vm v \<Rightarrow> \<lparr>t_pcpu_id = v, t_status = THREAD_STS_BLOCKED,
         t_switch_out = Some fn_context_switch_out, t_switch_in = Some fn_context_switch_in\<rparr>),
     sched_ctl = (\<lambda>p. \<lparr>sc_pcpu_id = p, sc_flags = 0, sc_curr_obj = Some (Idle p), noop_thread_obj = None\<rparr>),
     vcpu_running = (\<lambda>_. False), init_signals = [],
     ext_ctx = (\<lambda>_. ext_zero\<lparr>xcr0 := 1\<rparr>),
     pcpu = (\<lambda>_. \<lparr>pc_msr = (\<lambda>_. 0), pc_xcr0 = 1, pc_xstate = (\<lambda>_. 0)\<rparr>)\<rparr>"

lemma booted_inv: "sched_inv booted"
  by (auto simp: sched_inv_def hooks_ok_def cpu_inv_def thread_inv_def booted_def
      sched_noop_pick_next_def split: thread.splits)

lemma boot_cpu:
  assumes "noop_obj s p = None"
  shows "curr_obj (run_idle_thread p (init_sched p s)) p = Some (Idle p)"
    "status (run_idle_thread p (init_sched p s)) (Idle p) = THREAD_STS_RUNNING"
    "cpu_inv (run_idle_thread p (init_sched p s)) p"
  using assms
  by (simp_all add: run_idle_thread_def run_thread_def init_sched_def init_thread_data_def Let_def
      upd_ctl_def set_thread_status_def cpu_inv_def sched_noop_pick_next_def)



text \<open>
  C18. A woken thread gets its CPU: waking a blocked thread that is not current any more and whose CPU holds no other thread leaves a
  reschedule request on that CPU (and signals the CPU when it is another one), and the next
  \<^verbatim>\<open>schedule\<close> of that CPU returns with the thread RUNNING, current and its virtual CPU
  marked running.
\<close>

theorem wake_then_scheduled:
  assumes inv: "sched_inv s" and blocked: "is_blocked s (Vcpu vm v)"
    and p: "p = sched_get_pcpuid (Vcpu vm v) s" and free: "noop_obj s p = None"
    and away: "curr_obj s p \<noteq> Some (Vcpu vm v)"
  shows "need_reschedule p (wake_thread cpu (Vcpu vm v) s) \<and>
    (cpu \<noteq> p \<longrightarrow> init_signals (wake_thread cpu (Vcpu vm v) s) = p # init_signals s) \<and>
    (\<exists>s'. schedule p (wake_thread cpu (Vcpu vm v) s) = Some s' \<and> is_running s' (Vcpu vm v) \<and>
       curr_obj s' p = Some (Vcpu vm v) \<and> vcpu_running s' (Vcpu vm v) \<and> \<not> need_reschedule p s')"
proof -
  let ?t = "Vcpu vm v" and ?s = "wake_thread cpu (Vcpu vm v) s"
  have i: "sched_inv ?s"
    by (rule wake_inv [OF inv])
  have tp: "thread_pcpu s ?t = p"
    by (simp add: p sched_get_pcpuid_def)
  have "need_reschedule p ?s" "noop_obj ?s p = Some ?t"
    using blocked free tp by (simp_all add: wake_thread_def)
  then have pick: "?t = sched_noop_pick_next p p ?s"
    by (simp add: pick_next_Some)
  have sig: "cpu \<noteq> p \<longrightarrow> init_signals ?s = p # init_signals s"
    using blocked tp
    by (simp add: wake_thread_def make_reschedule_request_def Let_def send_single_init_def upd_ctl_def
        set_thread_status_def sched_noop_wake_def)
  obtain prev where prev: "curr_obj ?s p = Some prev"
    using sched_invD(2) [OF i, of p] by (auto simp: cpu_inv_def split: option.splits)
  then obtain s' where s': "schedule p ?s = Some s'"
    by (simp add: schedule_def Let_def)
  note obs = schedule_obs [OF i s' prev pick]
  have "prev \<noteq> ?t"
    using away prev blocked by (auto simp: wake_thread_def)
  then have "vcpu_running s' ?t"
    using obs(7) [of ?t] by simp
  with s' obs(2) [of ?t] obs(3) [of p] obs(5) [of p] sig \<open>need_reschedule p ?s\<close> show ?thesis
    by (simp add: is_running_def)
qed

theorem wake_then_scheduled_witness:
  "is_blocked booted (Vcpu 1 2) \<and>
   (\<exists>s'. schedule 2 (wake_thread 0 (Vcpu 1 2) booted) = Some s' \<and> is_running s' (Vcpu 1 2))"
proof -
  have "is_blocked booted (Vcpu 1 2)" "2 = sched_get_pcpuid (Vcpu 1 2) booted" "noop_obj booted 2 = None"
    "curr_obj booted 2 \<noteq> Some (Vcpu 1 2)"
    by (simp_all add: booted_def is_blocked_def sched_get_pcpuid_def)
  with wake_then_scheduled [OF booted_inv this, of 0] show ?thesis
    by blast
qed

text \<open>
  C19. Putting a running thread to sleep stops it: it is BLOCKED at once, its CPU has a reschedule
  request pending, and after the next \<^verbatim>\<open>schedule\<close> of that CPU the idle thread runs and
  the flag \<^verbatim>\<open>running\<close> of the virtual CPU is clear, so the wait loop of
  \<^verbatim>\<open>pause_vcpu\<close> ends.
\<close>

theorem sleep_then_idle:
  assumes inv: "sched_inv s" and run: "is_running s (Vcpu vm v)" and owner: "noop_obj s p = Some (Vcpu vm v)"
    and p: "p = sched_get_pcpuid (Vcpu vm v) s"
  shows "is_blocked (sleep_thread cpu (Vcpu vm v) s) (Vcpu vm v) \<and>
    need_reschedule p (sleep_thread cpu (Vcpu vm v) s) \<and>
    (\<exists>s'. schedule p (sleep_thread cpu (Vcpu vm v) s) = Some s' \<and> curr_obj s' p = Some (Idle p) \<and>
       is_running s' (Idle p) \<and> is_blocked s' (Vcpu vm v) \<and> \<not> vcpu_running s' (Vcpu vm v))"
proof -
  let ?t = "Vcpu vm v" and ?s = "sleep_thread cpu (Vcpu vm v) s"
  have i: "sched_inv ?s"
    by (rule sleep_inv [OF inv])
  have tp: "thread_pcpu s ?t = p"
    by (simp add: p sched_get_pcpuid_def)
  have sl: "noop_obj ?s p = None" "need_reschedule p ?s" "curr_obj ?s p = curr_obj s p"
      "status ?s ?t = THREAD_STS_BLOCKED"
    using run owner tp by (simp_all add: sleep_thread_def Let_def is_running_def)
  have prev: "curr_obj ?s p = Some ?t"
    using sched_invD(3) [OF inv, of ?t] run tp by (simp add: thread_inv_def is_running_def sl)
  then obtain s' where s': "schedule p ?s = Some s'"
    by (simp add: schedule_def Let_def)
  have pick: "Idle p = sched_noop_pick_next p p ?s"
    using sl(1) by (simp add: pick_next_None)
  note obs = schedule_obs [OF i s' prev pick]
  show ?thesis
    using s' sl obs(2) [of "Idle p"] obs(2) [of ?t] obs(3) [of p] obs(7) [of ?t]
    by (simp add: is_running_def is_blocked_def)
qed

theorem sleep_then_idle_witness:
  "\<exists>s s'. sched_inv s \<and> is_running s (Vcpu 1 2) \<and>
     schedule 2 (sleep_thread 0 (Vcpu 1 2) s) = Some s' \<and> \<not> vcpu_running s' (Vcpu 1 2)"
proof -
  define s where "s = the (schedule 2 (wake_thread 0 (Vcpu 1 2) booted))"
  have e: "schedule 2 (wake_thread 0 (Vcpu 1 2) booted) = Some s"
    by (simp add: s_def schedule_def Let_def wake_thread_def booted_def is_blocked_def)
  have "sched_inv s"
    by (rule schedule_inv [OF wake_inv [OF booted_inv] e])
  moreover have "is_running s (Vcpu 1 2)" "noop_obj s 2 = Some (Vcpu 1 2)" "2 = sched_get_pcpuid (Vcpu 1 2) s"
    by (simp_all add: s_def schedule_def Let_def wake_thread_def booted_def is_blocked_def is_running_def
        sched_noop_pick_next_def sched_noop_wake_def upd_ctl_def sched_get_pcpuid_def set_thread_status_def
        make_reschedule_request_def send_single_init_def DEL_MODE_INIT_def)
  ultimately show ?thesis
    using sleep_then_idle [of s 1 2 2 0] by blast
qed

subsection \<open>The context of a virtual CPU\<close>

lemma call_switch_ext_ctx:
  "u \<noteq> t \<Longrightarrow> ext_ctx (call_switch f c u s) t = ext_ctx s t"
  "f \<noteq> Some fn_context_switch_out \<Longrightarrow> ext_ctx (call_switch f c u s) t = ext_ctx s t"
  by (auto simp: call_switch_def context_switch_out_def context_switch_in_def save_xsave_area_def Let_def
      split: option.split switch_fn.split)

lemma schedule_ext_ctx:
  assumes i: "sched_inv s" and sch: "schedule p s = Some s'" and t: "curr_obj s p \<noteq> Some t"
  shows "ext_ctx s' t = ext_ctx s t"
proof -
  obtain prev where prev: "curr_obj s p = Some prev"
    using sch by (auto simp: schedule_def split: option.splits)
  have h: "t_switch_in (threads s x) \<noteq> Some fn_context_switch_out" for x
    using sched_invD(1) [OF i] by (cases x) (simp_all add: hooks_ok_def)
  have x: "ext_ctx (upd_ctl q f s) = ext_ctx s" "ext_ctx (set_thread_status u st s) = ext_ctx s"
    "threads (upd_ctl q f s) = threads s"
    "t_switch_in (threads (set_thread_status u st s) w) = t_switch_in (threads s w)" for q f s u st w
    by (simp_all add: upd_ctl_def set_thread_status_def)
  from sch prev t h show ?thesis
    by (auto simp: schedule_def Let_def x call_switch_ext_ctx(1) call_switch_ext_ctx(2) [OF h])
qed

lemma save_restore_regs:
  assumes "\<And>i. xs_area ectx' i = (if bit (xcr0 ectx' OR XCR0_SSE OR XCR0_AVX OR xss ectx') i then st i else ar i)"
    "bit (xcr0 ectx' OR xss ectx') i"
  shows "pc_xstate (rstore_xsave_area ectx' c) i = st i"
  using assms by (auto simp: rstore_xsave_area_def Let_def asm_xrstors_def xcomponent_def write_xcr_def
      msr_write_def bit_simps)



end
