(* ===== verification/Acrn_Vcpu.thy ===== *)
theory Acrn_Vcpu
  imports Acrn_Sched Acrn_Pgtable
begin

text \<open>
  The state of virtual CPUs and of the hypervisor, and the register accessors of
  \<^verbatim>\<open>src/hypervisor/arch/x86/guest/vcpu.c\<close>.

  A pointer to a virtual CPU is the pair of the identifier of its VM and its index in
  \<^verbatim>\<open>vm->hw.vcpu_array\<close>. The VMCS of a virtual CPU is a function from field encodings to
  values. The record \<open>hv\<close> holds what the modelled functions share: the virtual CPUs, the
  per-VM and per-CPU data, the paging structures, the scheduler, and the list of operations
  performed on the hardware (the last one first).
\<close>

subsection \<open>Constants\<close>

definition ACRN_REQUEST_EXCP :: u16 where "ACRN_REQUEST_EXCP = 0"
definition ACRN_REQUEST_NMI :: u16 where "ACRN_REQUEST_NMI = 3"
definition ACRN_REQUEST_EPT_FLUSH :: u16 where "ACRN_REQUEST_EPT_FLUSH = 5"
definition ACRN_REQUEST_TRP_FAULT :: u16 where "ACRN_REQUEST_TRP_FAULT = 6"
definition ACRN_REQUEST_INIT_VMCS :: u16 where "ACRN_REQUEST_INIT_VMCS = 8"
definition ACRN_REQUEST_LAPIC_RESET :: u16 where "ACRN_REQUEST_LAPIC_RESET = 9"

lemmas request_defs = ACRN_REQUEST_EXCP_def ACRN_REQUEST_NMI_def ACRN_REQUEST_EPT_FLUSH_def
  ACRN_REQUEST_TRP_FAULT_def ACRN_REQUEST_INIT_VMCS_def ACRN_REQUEST_LAPIC_RESET_def

definition VECTOR_INVALID :: u32 where "VECTOR_INVALID = 0x100"
definition HV_ARCH_VCPU_RFLAGS_RF :: u64 where "HV_ARCH_VCPU_RFLAGS_RF = push_bit 16 1"

definition CPU_REG_RSP :: u16 where "CPU_REG_RSP = 4"
definition CPU_REG_RIP :: u16 where "CPU_REG_RIP = 21"
definition CPU_REG_RFLAGS :: u16 where "CPU_REG_RFLAGS = 22"
definition CPU_REG_EFER :: u16 where "CPU_REG_EFER = 23"

definition VMX_GUEST_RIP :: u32 where "VMX_GUEST_RIP = 0x681e"
definition VMX_GUEST_RFLAGS :: u32 where "VMX_GUEST_RFLAGS = 0x6820"
definition VMX_GUEST_IA32_EFER_FULL :: u32 where "VMX_GUEST_IA32_EFER_FULL = 0x2806"
definition VMX_ENTRY_INT_INFO_FIELD :: u32 where "VMX_ENTRY_INT_INFO_FIELD = 0x4016"
definition VMX_ENTRY_EXCEPTION_ERROR_CODE :: u32 where "VMX_ENTRY_EXCEPTION_ERROR_CODE = 0x4018"
definition VMX_INT_INFO_VALID :: u32 where "VMX_INT_INFO_VALID = push_bit 31 1"
definition VMX_INT_TYPE_NMI :: u32 where "VMX_INT_TYPE_NMI = 2"
definition VMX_INT_TYPE_HW_EXP :: u32 where "VMX_INT_TYPE_HW_EXP = 3"

definition BOOT_CPU_ID :: u16 where "BOOT_CPU_ID = 0"
definition INVALID_CPU_ID :: u16 where "INVALID_CPU_ID = 0xffff"
definition MAX_VCPUS_PER_VM :: u16 where "MAX_VCPUS_PER_VM = 4"

subsection \<open>State\<close>

datatype vcpu_state = VCPU_OFFLINE | VCPU_INIT | VCPU_RUNNING | VCPU_ZOMBIE
datatype vm_state = VM_POWERED_OFF | VM_CREATED | VM_STARTED | VM_PAUSED
datatype vm_cpu_mode = CPU_MODE_REAL | CPU_MODE_PROTECTED | CPU_MODE_COMPATIBILITY | CPU_MODE_64BIT

text \<open>\<^verbatim>\<open>struct acrn_vlapic\<close>: the registers the virtual local APIC keeps itself.\<close>

record acrn_vlapic =
  apic_id :: u32
  apic_ldr :: u32
  icr_lo :: u32
  icr_hi :: u32
  msr_apicbase :: u64

text \<open>\<^verbatim>\<open>struct acrn_vcpu\<close> with its \<^verbatim>\<open>arch\<close> part.\<close>

record acrn_vcpu =
  vcpu_id :: u16
  vc_state :: vcpu_state
  prev_state :: vcpu_state
  launched :: bool
  reg_cached :: u64
  reg_updated :: u64
  gprs :: "nat \<Rightarrow> u64"
  rip :: u64
  rflags :: u64
  ia32_efer :: u64
  cr0 :: u64
  cr2 :: u64
  cr4 :: u64
  ia32_spec_ctrl :: u64
  exc_vector :: u32
  exc_error :: u32
  nrexits :: u32
  exit_reason :: u32
  idt_vectoring_info :: u32
  exit_qualification :: u64
  inst_len :: u32
  vcpu_powerup :: bool
  cpu_mode :: vm_cpu_mode
  nr_sipi :: u8
  pending_req :: u64
  vpid :: u16
  guest_msrs :: "nat \<Rightarrow> u64"
  vlapic :: acrn_vlapic
  vmcs :: "u32 \<Rightarrow> u64"
  msr_bitmap :: "nat \<Rightarrow> u8"
  msr_area_guest :: "u32 \<times> u64"
  msr_area_host :: "u32 \<times> u64"

datatype hw_event =
    Invept u64
  | Init_lapic u16
  | Icr_write u32 u32
  | Msr_read u32
  | Msr_write u32 u64
  | Rdtsc
  | Write_xcr u32 u64
  | Vmclear u64
  | Vmptrld u64
  | Vmcs_revision u64 u32
  | Invvpid u64
  | Verw u16
  | Vmrun bool

text \<open>The bits of CR0 and CR4 that \<^verbatim>\<open>virtual_cr.c\<close> keeps set or clear, in static variables.\<close>

record cr_masks =
  cr0_always_on_mask :: u64
  cr0_always_off_mask :: u64
  cr4_always_on_mask :: u64
  cr4_always_off_mask :: u64

text \<open>The CPUID entries of a VM: the first \<^verbatim>\<open>vcpuid_entry_nr\<close> elements of its array.\<close>

record vcpuid_entry =
  ve_eax :: u32
  ve_ebx :: u32
  ve_ecx :: u32
  ve_edx :: u32
  ve_leaf :: u32
  ve_subleaf :: u32
  ve_flags :: u32

record vm_cpuid =
  vcpuid_level :: u32
  vcpuid_xlevel :: u32
  vcpuid_entries :: "vcpuid_entry list"

record hv =
  hv_vcpus :: "u16 \<Rightarrow> u16 \<Rightarrow> acrn_vcpu"
  hv_created :: "u16 \<Rightarrow> u16"
  hv_vm_state :: "u16 \<Rightarrow> vm_state"
  hv_eptp :: "u16 \<Rightarrow> u64"
  hv_ept_ops :: "u16 \<Rightarrow> memory_ops"
  hv_pg :: pgst
  hv_sched :: sched
  hv_pcpu_flag :: "u16 \<Rightarrow> u64"
  hv_shutdown_vm_id :: "u16 \<Rightarrow> u16"
  hv_ever_run_vcpu :: "u16 \<Rightarrow> (u16 \<times> u16) option"
  hv_lapic_id :: "u16 \<Rightarrow> u32"
  hv_hw :: "hw_event list"
  hv_cr_masks :: cr_masks
  hv_cpuid :: "u16 \<Rightarrow> vm_cpuid"
  hv_vmcs_run :: "u16 \<Rightarrow> (u16 \<times> u16) option"

definition upd_vcpu :: "u16 \<Rightarrow> u16 \<Rightarrow> (acrn_vcpu \<Rightarrow> acrn_vcpu) \<Rightarrow> hv \<Rightarrow> hv" where
  "upd_vcpu vm v f h =
     h\<lparr>hv_vcpus := (hv_vcpus h)(vm := (hv_vcpus h vm)(v := f (hv_vcpus h vm v)))\<rparr>"

definition hw_op :: "hw_event \<Rightarrow> hv \<Rightarrow> hv" where
  "hw_op e h = h\<lparr>hv_hw := e # hv_hw h\<rparr>"

text \<open>
  \<^verbatim>\<open>foreach_vcpu\<close>: the indices of the created virtual CPUs that are not offline when the
  loop reaches them; \<open>body\<close> is the loop body.
\<close>

definition foreach_vcpu :: "u16 \<Rightarrow> (u16 \<Rightarrow> hv \<Rightarrow> hv) \<Rightarrow> hv \<Rightarrow> hv" where
  "foreach_vcpu vm body h =
     fold (\<lambda>i h. if vc_state (hv_vcpus h vm (of_nat i)) \<noteq> VCPU_OFFLINE then body (of_nat i) h else h)
       [0..<unat (hv_created h vm)] h"

definition is_vcpu_bsp :: "acrn_vcpu \<Rightarrow> bool" where
  "is_vcpu_bsp vcpu \<longleftrightarrow> vcpu_id vcpu = BOOT_CPU_ID"

definition is_safety_vm :: "u16 \<Rightarrow> bool" where
  "is_safety_vm vm_id \<longleftrightarrow> vm_id = 0"

definition pcpuid_from_vcpu :: "u16 \<Rightarrow> u16 \<Rightarrow> hv \<Rightarrow> u16" where
  "pcpuid_from_vcpu vm v h = sched_get_pcpuid (Vcpu vm v) (hv_sched h)"

subsection \<open>Register accessors\<close>

definition vcpu_get_gpreg :: "acrn_vcpu \<Rightarrow> u32 \<Rightarrow> u64" where
  "vcpu_get_gpreg vcpu reg = gprs vcpu (unat reg)"

definition vcpu_set_gpreg :: "u32 \<Rightarrow> u64 \<Rightarrow> acrn_vcpu \<Rightarrow> acrn_vcpu" where
  "vcpu_set_gpreg reg val vcpu = vcpu\<lparr>gprs := (gprs vcpu)(unat reg := val)\<rparr>"

definition vcpu_get_rip :: "acrn_vcpu \<Rightarrow> u64 \<times> acrn_vcpu" where
  "vcpu_get_rip vcpu =
     (if \<not> bitmap_test CPU_REG_RIP (reg_updated vcpu) then
        let (cached, w) = bitmap_test_and_set_lock CPU_REG_RIP (reg_cached vcpu);
            vcpu1 = vcpu\<lparr>reg_cached := w\<rparr>;
            vcpu2 = (if \<not> cached then vcpu1\<lparr>rip := vmcs vcpu VMX_GUEST_RIP\<rparr> else vcpu1)
        in (rip vcpu2, vcpu2)
      else (rip vcpu, vcpu))"

definition vcpu_set_rip :: "u64 \<Rightarrow> acrn_vcpu \<Rightarrow> acrn_vcpu" where
  "vcpu_set_rip val vcpu =
     vcpu\<lparr>rip := val, reg_updated := bitmap_set_lock CPU_REG_RIP (reg_updated vcpu)\<rparr>"

definition vcpu_set_rsp :: "u64 \<Rightarrow> acrn_vcpu \<Rightarrow> acrn_vcpu" where
  "vcpu_set_rsp val vcpu =
     vcpu\<lparr>gprs := (gprs vcpu)(unat CPU_REG_RSP := val),
          reg_updated := bitmap_set_lock CPU_REG_RSP (reg_updated vcpu)\<rparr>"

definition vcpu_get_efer :: "acrn_vcpu \<Rightarrow> u64 \<times> acrn_vcpu" where
  "vcpu_get_efer vcpu =
     (if \<not> bitmap_test CPU_REG_EFER (reg_updated vcpu) then
        let (cached, w) = bitmap_test_and_set_lock CPU_REG_EFER (reg_cached vcpu);
            vcpu1 = vcpu\<lparr>reg_cached := w\<rparr>;
            vcpu2 = (if \<not> cached then vcpu1\<lparr>ia32_efer := vmcs vcpu VMX_GUEST_IA32_EFER_FULL\<rparr> else vcpu1)
        in (ia32_efer vcpu2, vcpu2)
      else (ia32_efer vcpu, vcpu))"

definition vcpu_set_efer :: "u64 \<Rightarrow> acrn_vcpu \<Rightarrow> acrn_vcpu" where
  "vcpu_set_efer val vcpu =
     vcpu\<lparr>ia32_efer := val, reg_updated := bitmap_set_lock CPU_REG_EFER (reg_updated vcpu)\<rparr>"

definition vcpu_get_rflags :: "acrn_vcpu \<Rightarrow> u64 \<times> acrn_vcpu" where
  "vcpu_get_rflags vcpu =
     (if \<not> bitmap_test CPU_REG_RFLAGS (reg_updated vcpu) then
        let (cached, w) = bitmap_test_and_set_lock CPU_REG_RFLAGS (reg_cached vcpu);
            vcpu1 = vcpu\<lparr>reg_cached := w\<rparr>;
            vcpu2 = (if \<not> cached \<and> launched vcpu then vcpu1\<lparr>rflags := vmcs vcpu VMX_GUEST_RFLAGS\<rparr> else vcpu1)
        in (rflags vcpu2, vcpu2)
      else (rflags vcpu, vcpu))"

definition vcpu_set_rflags :: "u64 \<Rightarrow> acrn_vcpu \<Rightarrow> acrn_vcpu" where
  "vcpu_set_rflags val vcpu =
     vcpu\<lparr>rflags := val, reg_updated := bitmap_set_lock CPU_REG_RFLAGS (reg_updated vcpu)\<rparr>"

definition vcpu_retain_rip :: "acrn_vcpu \<Rightarrow> acrn_vcpu" where
  "vcpu_retain_rip vcpu = vcpu\<lparr>inst_len := 0\<rparr>"

definition exec_vmwrite :: "u32 \<Rightarrow> u64 \<Rightarrow> acrn_vcpu \<Rightarrow> acrn_vcpu" where
  "exec_vmwrite field val vcpu = vcpu\<lparr>vmcs := (vmcs vcpu)(field := val)\<rparr>"

text \<open>The extended context of a virtual CPU is kept with its thread.\<close>

definition upd_ext :: "u16 \<Rightarrow> u16 \<Rightarrow> (ext_context \<Rightarrow> ext_context) \<Rightarrow> hv \<Rightarrow> hv" where
  "upd_ext vm v f h = h\<lparr>hv_sched := (hv_sched h)\<lparr>ext_ctx :=
     (ext_ctx (hv_sched h))(Vcpu vm v := f (ext_ctx (hv_sched h) (Vcpu vm v)))\<rparr>\<rparr>"

text \<open>Reading back a register that was set gives the value that was set.\<close>

lemma get_set_reg:
  "fst (vcpu_get_rip (vcpu_set_rip val vcpu)) = val"
  "fst (vcpu_get_efer (vcpu_set_efer val vcpu)) = val"
  "fst (vcpu_get_rflags (vcpu_set_rflags val vcpu)) = val"
  by (simp_all add: vcpu_get_rip_def vcpu_set_rip_def vcpu_get_efer_def vcpu_set_efer_def
      vcpu_get_rflags_def vcpu_set_rflags_def bm.test_set CPU_REG_RIP_def CPU_REG_EFER_def CPU_REG_RFLAGS_def)

lemma upd_vcpu_same [simp]: "hv_vcpus (upd_vcpu vm v f h) vm v = f (hv_vcpus h vm v)"
  by (simp add: upd_vcpu_def)

lemma upd_vcpu_other: "(vm', v') \<noteq> (vm, v) \<Longrightarrow> hv_vcpus (upd_vcpu vm v f h) vm' v' = hv_vcpus h vm' v'"
  by (auto simp: upd_vcpu_def)

lemma upd_vcpu_fields [simp]:
  "hv_created (upd_vcpu vm v f h) = hv_created h" "hv_vm_state (upd_vcpu vm v f h) = hv_vm_state h"
  "hv_eptp (upd_vcpu vm v f h) = hv_eptp h" "hv_ept_ops (upd_vcpu vm v f h) = hv_ept_ops h"
  "hv_pg (upd_vcpu vm v f h) = hv_pg h" "hv_sched (upd_vcpu vm v f h) = hv_sched h"
  "hv_hw (upd_vcpu vm v f h) = hv_hw h" "hv_pcpu_flag (upd_vcpu vm v f h) = hv_pcpu_flag h"
  "hv_shutdown_vm_id (upd_vcpu vm v f h) = hv_shutdown_vm_id h"
  "hv_ever_run_vcpu (upd_vcpu vm v f h) = hv_ever_run_vcpu h"
  "hv_lapic_id (upd_vcpu vm v f h) = hv_lapic_id h" "hv_cr_masks (upd_vcpu vm v f h) = hv_cr_masks h"
  "hv_cpuid (upd_vcpu vm v f h) = hv_cpuid h" "hv_vmcs_run (upd_vcpu vm v f h) = hv_vmcs_run h"
  by (simp_all add: upd_vcpu_def)

lemma upd_ext_fields [simp]:
  "hv_vcpus (upd_ext vm v f h) = hv_vcpus h"
  "hv_created (upd_ext vm v f h) = hv_created h" "hv_vm_state (upd_ext vm v f h) = hv_vm_state h"
  "hv_eptp (upd_ext vm v f h) = hv_eptp h" "hv_ept_ops (upd_ext vm v f h) = hv_ept_ops h"
  "hv_pg (upd_ext vm v f h) = hv_pg h" "hv_hw (upd_ext vm v f h) = hv_hw h"
  "hv_pcpu_flag (upd_ext vm v f h) = hv_pcpu_flag h"
  "hv_shutdown_vm_id (upd_ext vm v f h) = hv_shutdown_vm_id h"
  "hv_ever_run_vcpu (upd_ext vm v f h) = hv_ever_run_vcpu h" "hv_lapic_id (upd_ext vm v f h) = hv_lapic_id h"
  "threads (hv_sched (upd_ext vm v f h)) = threads (hv_sched h)"
  "sched_ctl (hv_sched (upd_ext vm v f h)) = sched_ctl (hv_sched h)"
  "vcpu_running (hv_sched (upd_ext vm v f h)) = vcpu_running (hv_sched h)"
  "init_signals (hv_sched (upd_ext vm v f h)) = init_signals (hv_sched h)"
  "ext_ctx (hv_sched (upd_ext vm v f h)) =
     (ext_ctx (hv_sched h))(Vcpu vm v := f (ext_ctx (hv_sched h) (Vcpu vm v)))"
  by (simp_all add: upd_ext_def)

end
