(* ===== verification/Acrn_Virq.thy ===== *)
theory Acrn_Virq
  imports Acrn_Vcpu
begin

text \<open>
  Requests and exceptions of a virtual CPU: \<^verbatim>\<open>src/hypervisor/arch/x86/guest/virq.c\<close>.

  \<^verbatim>\<open>exception_type\<close> is an array of 32 entries; a function that reads it with a larger
  index has no defined result, which is the value \<open>None\<close>. The VMCS initialisation a request asks
  for is \<^verbatim>\<open>vmcs.c\<close>, given as the function \<open>init_vmcs\<close>.
\<close>

definition IDT_DE :: u32 where "IDT_DE = 0"
definition IDT_DB :: u32 where "IDT_DB = 1"
definition IDT_NMI :: u32 where "IDT_NMI = 2"
definition IDT_BP :: u32 where "IDT_BP = 3"
definition IDT_OF :: u32 where "IDT_OF = 4"
definition IDT_UD :: u32 where "IDT_UD = 6"
definition IDT_DF :: u32 where "IDT_DF = 8"
definition IDT_TS :: u32 where "IDT_TS = 10"
definition IDT_NP :: u32 where "IDT_NP = 11"
definition IDT_SS :: u32 where "IDT_SS = 12"
definition IDT_GP :: u32 where "IDT_GP = 13"
definition IDT_PF :: u32 where "IDT_PF = 14"
definition IDT_MC :: u32 where "IDT_MC = 18"
definition IDT_VE :: u32 where "IDT_VE = 20"

lemmas idt_defs = IDT_DE_def IDT_DB_def IDT_NMI_def IDT_BP_def IDT_OF_def IDT_UD_def IDT_DF_def
  IDT_TS_def IDT_NP_def IDT_SS_def IDT_GP_def IDT_PF_def IDT_MC_def IDT_VE_def

definition EXCEPTION_ERROR_CODE_VALID :: u32 where "EXCEPTION_ERROR_CODE_VALID = 8"

datatype excep_class = EXCEPTION_CLASS_BENIGN | EXCEPTION_CLASS_CONT | EXCEPTION_CLASS_PF
datatype excep_type = EXCEPTION_FAULT | EXCEPTION_TRAP | EXCEPTION_ABORT | EXCEPTION_INTERRUPT

definition exception_type_table :: "u32 list" where
  "exception_type_table =
     map (\<lambda>v. if v \<in> {8, 10, 11, 12, 13, 14, 17}
              then VMX_INT_TYPE_HW_EXP OR EXCEPTION_ERROR_CODE_VALID else VMX_INT_TYPE_HW_EXP) [0..<32]"

text \<open>\<^verbatim>\<open>exception_type[vector]\<close>.\<close>

definition exception_type :: "u32 \<Rightarrow> u32 option" where
  "exception_type vector =
     (if unat vector < 32 then Some (exception_type_table ! unat vector) else None)"

definition get_exception_type :: "u32 \<Rightarrow> excep_type" where
  "get_exception_type vector =
     (if vector > 31 \<or> vector = IDT_NMI then EXCEPTION_INTERRUPT
      else if vector = IDT_DB \<or> vector = IDT_BP \<or> vector = IDT_OF then EXCEPTION_TRAP
      else if vector = IDT_DF \<or> vector = IDT_MC then EXCEPTION_ABORT
      else EXCEPTION_FAULT)"

definition get_excep_class :: "u32 \<Rightarrow> excep_class" where
  "get_excep_class vector =
     (if vector = IDT_DE \<or> vector = IDT_TS \<or> vector = IDT_NP \<or> vector = IDT_SS \<or> vector = IDT_GP
      then EXCEPTION_CLASS_CONT
      else if vector = IDT_PF \<or> vector = IDT_VE then EXCEPTION_CLASS_PF
      else EXCEPTION_CLASS_BENIGN)"

definition kick_vcpu :: "u16 \<Rightarrow> u16 \<Rightarrow> u16 \<Rightarrow> hv \<Rightarrow> hv" where
  "kick_vcpu cpu vm v h = h\<lparr>hv_sched := kick_thread cpu (Vcpu vm v) (hv_sched h)\<rparr>"

definition vcpu_make_request :: "u16 \<Rightarrow> u16 \<Rightarrow> u16 \<Rightarrow> u16 \<Rightarrow> hv \<Rightarrow> hv" where
  "vcpu_make_request cpu vm v eventid h =
     kick_vcpu cpu vm v
       (upd_vcpu vm v (\<lambda>c. c\<lparr>pending_req := bitmap_set_lock eventid (pending_req c)\<rparr>) h)"

definition vcpu_queue_exception :: "u16 \<Rightarrow> u16 \<Rightarrow> u16 \<Rightarrow> u32 \<Rightarrow> u32 \<Rightarrow> hv \<Rightarrow> hv option" where
  "vcpu_queue_exception cpu vm v vector_arg err_code_arg h =
     (let prev_vector = exc_vector (hv_vcpus h vm v);
          prev_class = get_excep_class prev_vector;
          new_class = get_excep_class vector_arg
      in if prev_vector = IDT_DF \<and> new_class \<noteq> EXCEPTION_CLASS_BENIGN
         then Some (vcpu_make_request cpu vm v ACRN_REQUEST_TRP_FAULT h)
         else
           let (vector, err_code) =
                 (if prev_class = EXCEPTION_CLASS_CONT \<and> new_class = EXCEPTION_CLASS_CONT \<or>
                     prev_class = EXCEPTION_CLASS_PF \<and> new_class \<noteq> EXCEPTION_CLASS_BENIGN
                  then (IDT_DF, 0) else (vector_arg, err_code_arg))
           in (case exception_type vector of
                 None \<Rightarrow> None
               | Some ty \<Rightarrow>
                   Some (vcpu_make_request cpu vm v ACRN_REQUEST_EXCP
                     (upd_vcpu vm v (\<lambda>c. c\<lparr>exc_vector := vector,
                        exc_error := (if ty AND EXCEPTION_ERROR_CODE_VALID \<noteq> 0 then err_code else 0)\<rparr>) h))))"

text \<open>The part of \<^verbatim>\<open>vcpu_inject_exception\<close> that is local to the virtual CPU.\<close>

definition inject_vcpu :: "u32 \<Rightarrow> u32 \<Rightarrow> acrn_vcpu \<Rightarrow> acrn_vcpu" where
  "inject_vcpu vector ty c =
     (let c1 = (if ty AND EXCEPTION_ERROR_CODE_VALID \<noteq> 0
                then exec_vmwrite VMX_ENTRY_EXCEPTION_ERROR_CODE (ucast (exc_error c)) c else c);
          c2 = exec_vmwrite VMX_ENTRY_INT_INFO_FIELD
                 (ucast (VMX_INT_INFO_VALID OR push_bit 8 ty OR (vector AND 0xFF))) c1;
          c3 = c2\<lparr>exc_vector := VECTOR_INVALID\<rparr>
      in if get_exception_type vector = EXCEPTION_FAULT
         then let (fl, c4) = vcpu_get_rflags (vcpu_retain_rip c3)
              in vcpu_set_rflags (fl OR HV_ARCH_VCPU_RFLAGS_RF) c4
         else c3)"

definition vcpu_inject_exception :: "u16 \<Rightarrow> u16 \<Rightarrow> hv \<Rightarrow> (bool \<times> hv) option" where
  "vcpu_inject_exception vm v h =
     (let vector = exc_vector (hv_vcpus h vm v);
          (pending, w) = bitmap_test_and_clear_lock ACRN_REQUEST_EXCP (pending_req (hv_vcpus h vm v));
          h1 = upd_vcpu vm v (\<lambda>c. c\<lparr>pending_req := w\<rparr>) h
      in if pending then
           (case exception_type vector of
              None \<Rightarrow> None
            | Some ty \<Rightarrow> Some (True, upd_vcpu vm v (inject_vcpu vector ty) h1))
         else Some (False, h1))"

definition vcpu_inject_gp :: "u16 \<Rightarrow> u16 \<Rightarrow> u16 \<Rightarrow> u32 \<Rightarrow> hv \<Rightarrow> hv option" where
  "vcpu_inject_gp cpu vm v err_code h = vcpu_queue_exception cpu vm v IDT_GP err_code h"

definition vcpu_inject_pf :: "u16 \<Rightarrow> u16 \<Rightarrow> u16 \<Rightarrow> u64 \<Rightarrow> u32 \<Rightarrow> hv \<Rightarrow> hv option" where
  "vcpu_inject_pf cpu vm v addr err_code h =
     vcpu_queue_exception cpu vm v IDT_PF err_code (upd_vcpu vm v (\<lambda>c. c\<lparr>cr2 := addr\<rparr>) h)"

definition vcpu_inject_ud :: "u16 \<Rightarrow> u16 \<Rightarrow> u16 \<Rightarrow> hv \<Rightarrow> hv option" where
  "vcpu_inject_ud cpu vm v h = vcpu_queue_exception cpu vm v IDT_UD 0 h"

text \<open>Testing and clearing one request.\<close>

definition take_request :: "u16 \<Rightarrow> u16 \<Rightarrow> u16 \<Rightarrow> hv \<Rightarrow> bool \<times> hv" where
  "take_request eventid vm v h =
     (let (pending, w) = bitmap_test_and_clear_lock eventid (pending_req (hv_vcpus h vm v))
      in (pending, upd_vcpu vm v (\<lambda>c. c\<lparr>pending_req := w\<rparr>) h))"

definition acrn_handle_pending_request ::
  "(hv \<Rightarrow> hv) \<Rightarrow> u16 \<Rightarrow> u16 \<Rightarrow> u16 \<Rightarrow> hv \<Rightarrow> (i32 \<times> hv) option" where
  "acrn_handle_pending_request init_vmcs cpu vm v h =
     (let (init, h0) = take_request ACRN_REQUEST_INIT_VMCS vm v h;
          h1 = (if init then init_vmcs h0 else h0);
          (trp, h2) = take_request ACRN_REQUEST_TRP_FAULT vm v h1
      in if trp then Some (- EFAULT, h2)
         else
           let (lapic, h3) = take_request ACRN_REQUEST_LAPIC_RESET vm v h2;
               h4 = (if lapic then hw_op (Init_lapic cpu) h3 else h3);
               (flush, h5) = take_request ACRN_REQUEST_EPT_FLUSH vm v h4;
               h6 = (if flush then hw_op (Invept (hv_eptp h5 vm)) h5 else h5)
           in (case vcpu_inject_exception vm v h6 of
                 None \<Rightarrow> None
               | Some (True, h7) \<Rightarrow> Some (0, h7)
               | Some (False, h7) \<Rightarrow>
                   let (nmi, h8) = take_request ACRN_REQUEST_NMI vm v h7
                   in if nmi then
                        Some (0, upd_vcpu vm v (exec_vmwrite VMX_ENTRY_INT_INFO_FIELD
                          (ucast (VMX_INT_INFO_VALID OR push_bit 8 VMX_INT_TYPE_NMI OR IDT_NMI))) h8)
                      else if idt_vectoring_info (hv_vcpus h8 vm v) AND VMX_INT_INFO_VALID \<noteq> 0 then
                        Some (0, upd_vcpu vm v (\<lambda>c. (exec_vmwrite VMX_ENTRY_INT_INFO_FIELD
                          (ucast (idt_vectoring_info c)) c)\<lparr>idt_vectoring_info := 0\<rparr>) h8)
                      else Some (0, h8)))"

subsection \<open>Requests\<close>

lemma take_request_eq [simp]:
  "take_request e vm v h =
     (bitmap_test e (pending_req (hv_vcpus h vm v)),
      upd_vcpu vm v (\<lambda>c. c\<lparr>pending_req := bitmap_clear_lock e (pending_req c)\<rparr>) h)"
proof -
  have "upd_vcpu vm v (\<lambda>c. c\<lparr>pending_req := bitmap_clear_lock e (pending_req (hv_vcpus h vm v))\<rparr>) h =
      upd_vcpu vm v (\<lambda>c. c\<lparr>pending_req := bitmap_clear_lock e (pending_req c)\<rparr>) h"
    by (simp add: upd_vcpu_def)
  then show ?thesis
    by (simp add: take_request_def)
qed

lemma kick_vcpu_fields [simp]:
  "hv_vcpus (kick_vcpu cpu vm v h) = hv_vcpus h" "hv_eptp (kick_vcpu cpu vm v h) = hv_eptp h"
  "hv_pg (kick_vcpu cpu vm v h) = hv_pg h" "hv_created (kick_vcpu cpu vm v h) = hv_created h"
  "hv_ept_ops (kick_vcpu cpu vm v h) = hv_ept_ops h" "hv_hw (kick_vcpu cpu vm v h) = hv_hw h"
  by (simp_all add: kick_vcpu_def)

lemma hw_op_fields [simp]:
  "hv_vcpus (hw_op e h) = hv_vcpus h" "hv_eptp (hw_op e h) = hv_eptp h" "hv_pg (hw_op e h) = hv_pg h"
  "hv_hw (hw_op e h) = e # hv_hw h"
  by (simp_all add: hw_op_def)

lemma make_request_vcpu:
  "hv_vcpus (vcpu_make_request cpu vm v e h) vm v =
     (hv_vcpus h vm v)\<lparr>pending_req := bitmap_set_lock e (pending_req (hv_vcpus h vm v))\<rparr>"
  by (simp add: vcpu_make_request_def)

lemma request_bits:
  "bitmap_test ACRN_REQUEST_EXCP (bitmap_set_lock ACRN_REQUEST_EXCP w)"
  "bitmap_test ACRN_REQUEST_TRP_FAULT (bitmap_set_lock ACRN_REQUEST_TRP_FAULT w)"
  "bitmap_test ACRN_REQUEST_INIT_VMCS (bitmap_set_lock ACRN_REQUEST_EXCP w) = bitmap_test ACRN_REQUEST_INIT_VMCS w"
  "bitmap_test ACRN_REQUEST_TRP_FAULT (bitmap_set_lock ACRN_REQUEST_EXCP w) = bitmap_test ACRN_REQUEST_TRP_FAULT w"
  "bitmap_test ACRN_REQUEST_NMI (bitmap_set_lock ACRN_REQUEST_EXCP w) = bitmap_test ACRN_REQUEST_NMI w"
  "bitmap_test ACRN_REQUEST_TRP_FAULT (bitmap_clear_lock ACRN_REQUEST_INIT_VMCS w) = bitmap_test ACRN_REQUEST_TRP_FAULT w"
  by (simp_all add: bm.test_set request_defs bm.test_clear)

lemma request_clear:
  "bitmap_test ACRN_REQUEST_EXCP (bitmap_clear_lock ACRN_REQUEST_EXCP w) = False"
  "e \<in> {ACRN_REQUEST_INIT_VMCS, ACRN_REQUEST_TRP_FAULT, ACRN_REQUEST_LAPIC_RESET, ACRN_REQUEST_EPT_FLUSH} \<Longrightarrow>
   bitmap_test ACRN_REQUEST_EXCP (bitmap_clear_lock e w) = bitmap_test ACRN_REQUEST_EXCP w"
  "e \<in> {ACRN_REQUEST_INIT_VMCS, ACRN_REQUEST_TRP_FAULT, ACRN_REQUEST_LAPIC_RESET, ACRN_REQUEST_EPT_FLUSH, ACRN_REQUEST_EXCP} \<Longrightarrow>
   bitmap_test ACRN_REQUEST_NMI (bitmap_clear_lock e w) = bitmap_test ACRN_REQUEST_NMI w"
  by (auto simp: bm.test_clear request_defs)

subsection \<open>Delivery\<close>

text \<open>Handling the requests of a virtual CPU with a pending exception delivers it.\<close>

lemma handle_pending_excp:
  fixes h :: hv and vm v :: u16
  defines "c \<equiv> hv_vcpus h vm v"
  assumes req: "bitmap_test ACRN_REQUEST_EXCP (pending_req c)" "\<not> bitmap_test ACRN_REQUEST_INIT_VMCS (pending_req c)"
    "\<not> bitmap_test ACRN_REQUEST_TRP_FAULT (pending_req c)" and ty: "exception_type (exc_vector c) = Some ty"
  shows "\<exists>w h'. acrn_handle_pending_request init_vmcs cpu vm v h = Some (0, h') \<and>
     hv_vcpus h' vm v = inject_vcpu (exc_vector c) ty (c\<lparr>pending_req := w\<rparr>) \<and>
     \<not> bitmap_test ACRN_REQUEST_EXCP w \<and> (bitmap_test ACRN_REQUEST_NMI w \<longleftrightarrow> bitmap_test ACRN_REQUEST_NMI (pending_req c))"
  by (rule exI [of _ "bitmap_clear_lock ACRN_REQUEST_EXCP (bitmap_clear_lock ACRN_REQUEST_EPT_FLUSH
        (bitmap_clear_lock ACRN_REQUEST_LAPIC_RESET (bitmap_clear_lock ACRN_REQUEST_TRP_FAULT
          (bitmap_clear_lock ACRN_REQUEST_INIT_VMCS (pending_req c)))))"])
    (use req ty in \<open>simp add: acrn_handle_pending_request_def Let_def vcpu_inject_exception_def
       request_bits request_clear c_def\<close>)

lemma inject_vcpu_props:
  "vmcs (inject_vcpu vector ty c) VMX_ENTRY_INT_INFO_FIELD =
     ucast (VMX_INT_INFO_VALID OR push_bit 8 ty OR (vector AND 0xFF))"
  "ty AND EXCEPTION_ERROR_CODE_VALID \<noteq> 0 \<Longrightarrow>
     vmcs (inject_vcpu vector ty c) VMX_ENTRY_EXCEPTION_ERROR_CODE = ucast (exc_error c)"
  "exc_vector (inject_vcpu vector ty c) = VECTOR_INVALID"
  "pending_req (inject_vcpu vector ty c) = pending_req c"
  "get_exception_type vector = EXCEPTION_FAULT \<Longrightarrow> inst_len (inject_vcpu vector ty c) = 0"
  "get_exception_type vector = EXCEPTION_FAULT \<Longrightarrow> bit (rflags (inject_vcpu vector ty c)) 16"
  by (simp_all add: inject_vcpu_def Let_def exec_vmwrite_def vcpu_get_rflags_def vcpu_set_rflags_def
      vcpu_retain_rip_def VMX_ENTRY_INT_INFO_FIELD_def VMX_ENTRY_EXCEPTION_ERROR_CODE_def
      HV_ARCH_VCPU_RFLAGS_RF_def bit_simps)

text \<open>The exceptions that push an error code.\<close>

definition has_error_code :: "u32 \<Rightarrow> bool" where
  "has_error_code vector \<longleftrightarrow> unat vector \<in> {8, 10, 11, 12, 13, 14, 17}"

lemma exception_type_spec:
  assumes "unat vector < 32"
  shows "exception_type vector = Some (if has_error_code vector then 11 else 3)"
proof -
  have "exception_type_table ! unat vector =
      (if unat vector \<in> {8, 10, 11, 12, 13, 14, 17}
       then VMX_INT_TYPE_HW_EXP OR EXCEPTION_ERROR_CODE_VALID else VMX_INT_TYPE_HW_EXP)"
    using assms by (simp add: exception_type_table_def)
  then show ?thesis
    using assms by (simp add: exception_type_def has_error_code_def VMX_INT_TYPE_HW_EXP_def
        EXCEPTION_ERROR_CODE_VALID_def)
qed

lemma type_error_bit:
  "(if b then 11 else 3 :: u32) AND EXCEPTION_ERROR_CODE_VALID \<noteq> 0 \<longleftrightarrow> b"
  by (simp add: EXCEPTION_ERROR_CODE_VALID_def)

text \<open>
  Queueing on a virtual CPU: which exception is recorded, as the architecture's double-fault rules
  have it.
\<close>

lemma queue_exception_records:
  fixes h :: hv and vm v :: u16
  defines "p \<equiv> exc_vector (hv_vcpus h vm v)"
  assumes "unat vector < 32" "\<not> (p = IDT_DF \<and> get_excep_class vector \<noteq> EXCEPTION_CLASS_BENIGN)"
  defines "double \<equiv> get_excep_class p = EXCEPTION_CLASS_CONT \<and> get_excep_class vector = EXCEPTION_CLASS_CONT \<or>
     get_excep_class p = EXCEPTION_CLASS_PF \<and> get_excep_class vector \<noteq> EXCEPTION_CLASS_BENIGN"
  shows "vcpu_queue_exception cpu vm v vector err h =
     Some (vcpu_make_request cpu vm v ACRN_REQUEST_EXCP
       (upd_vcpu vm v (\<lambda>c. c\<lparr>exc_vector := (if double then IDT_DF else vector),
          exc_error := (if double \<or> \<not> has_error_code vector then 0 else err)\<rparr>) h))"
proof -
  have "unat IDT_DF < 32" "has_error_code IDT_DF"
    by (simp_all add: IDT_DF_def has_error_code_def)
  then show ?thesis
    using assms(2,3) exception_type_spec [of IDT_DF] exception_type_spec [OF assms(2)]
    by (auto simp: vcpu_queue_exception_def Let_def p_def double_def type_error_bit)
qed

text \<open>
  C16. An exception that is queued on a virtual CPU with no exception under delivery reaches the
  guest at the next entry: handling the pending requests succeeds, the VM-entry interruption field
  holds a valid hardware exception with that vector (and the error-code flag exactly for the
  vectors that have one), the error code is the queued one, a fault is delivered with the
  instruction pointer kept and the resume flag set, the request is consumed, and a pending NMI is
  kept for a later entry.
\<close>

theorem queue_then_inject:
  fixes h :: hv and vm v :: u16
  defines "c \<equiv> hv_vcpus h vm v"
  assumes vec: "unat vector < 32" and idle: "exc_vector c = VECTOR_INVALID"
    and req: "\<not> bitmap_test ACRN_REQUEST_INIT_VMCS (pending_req c)" "\<not> bitmap_test ACRN_REQUEST_TRP_FAULT (pending_req c)"
  shows "\<exists>h1 h2. vcpu_queue_exception cpu vm v vector err h = Some h1 \<and>
     acrn_handle_pending_request init_vmcs cpu' vm v h1 = Some (0, h2) \<and>
     vmcs (hv_vcpus h2 vm v) VMX_ENTRY_INT_INFO_FIELD =
       ucast (VMX_INT_INFO_VALID OR push_bit 8 (if has_error_code vector then 11 else 3) OR (vector AND 0xFF)) \<and>
     (has_error_code vector \<longrightarrow> vmcs (hv_vcpus h2 vm v) VMX_ENTRY_EXCEPTION_ERROR_CODE = ucast err) \<and>
     (get_exception_type vector = EXCEPTION_FAULT \<longrightarrow>
        inst_len (hv_vcpus h2 vm v) = 0 \<and> bit (rflags (hv_vcpus h2 vm v)) 16) \<and>
     exc_vector (hv_vcpus h2 vm v) = VECTOR_INVALID \<and>
     \<not> bitmap_test ACRN_REQUEST_EXCP (pending_req (hv_vcpus h2 vm v)) \<and>
     (bitmap_test ACRN_REQUEST_NMI (pending_req (hv_vcpus h2 vm v)) \<longleftrightarrow> bitmap_test ACRN_REQUEST_NMI (pending_req c))"
proof -
  define h1 where "h1 = vcpu_make_request cpu vm v ACRN_REQUEST_EXCP
     (upd_vcpu vm v (\<lambda>c. c\<lparr>exc_vector := vector, exc_error := (if has_error_code vector then err else 0)\<rparr>) h)"
  have inv: "get_excep_class VECTOR_INVALID = EXCEPTION_CLASS_BENIGN" "VECTOR_INVALID \<noteq> IDT_DF"
    by (simp_all add: get_excep_class_def VECTOR_INVALID_def idt_defs)
  have q: "vcpu_queue_exception cpu vm v vector err h = Some h1"
    using queue_exception_records [OF vec, of h vm v cpu err] idle inv by (simp add: c_def h1_def)
  let ?ty = "if has_error_code vector then 11 else 3 :: u32"
  have c1: "hv_vcpus h1 vm v = c\<lparr>exc_vector := vector, exc_error := (if has_error_code vector then err else 0),
      pending_req := bitmap_set_lock ACRN_REQUEST_EXCP (pending_req c)\<rparr>"
    by (simp add: h1_def make_request_vcpu c_def)
  obtain h2 w where 2: "acrn_handle_pending_request init_vmcs cpu' vm v h1 = Some (0, h2)"
     "hv_vcpus h2 vm v = inject_vcpu vector ?ty ((hv_vcpus h1 vm v)\<lparr>pending_req := w\<rparr>)"
     "\<not> bitmap_test ACRN_REQUEST_EXCP w" "bitmap_test ACRN_REQUEST_NMI w \<longleftrightarrow> bitmap_test ACRN_REQUEST_NMI (pending_req c)"
    using handle_pending_excp [of h1 vm v ?ty init_vmcs cpu'] req exception_type_spec [OF vec] c1
    by (auto simp: request_bits)
  show ?thesis
    using q 2 inject_vcpu_props(1,3-6) [of vector ?ty] inject_vcpu_props(2) [of ?ty vector]
    by (rule_tac x = h1 in exI, rule_tac x = h2 in exI)
      (simp add: c1 EXCEPTION_ERROR_CODE_VALID_def split: if_splits)
qed

text \<open>A hypervisor state with a freshly initialised virtual CPU, for the witnesses.\<close>

definition vlapic0 :: acrn_vlapic where
  "vlapic0 = \<lparr>apic_id = 0, apic_ldr = 0, icr_lo = 0, icr_hi = 0, msr_apicbase = 0\<rparr>"

definition vcpu0 :: acrn_vcpu where
  "vcpu0 = \<lparr>vcpu_id = 0, vc_state = VCPU_INIT, prev_state = VCPU_OFFLINE, launched = False,
     reg_cached = 0, reg_updated = 0, gprs = (\<lambda>_. 0), rip = 0, rflags = 2, ia32_efer = 0,
     cr0 = 0, cr2 = 0, cr4 = 0, ia32_spec_ctrl = 0, exc_vector = VECTOR_INVALID, exc_error = 0,
     nrexits = 0, exit_reason = 0, idt_vectoring_info = 0, exit_qualification = 0, inst_len = 3, vcpu_powerup = False, cpu_mode = CPU_MODE_REAL, nr_sipi = 0,
     pending_req = 0, vpid = 1, guest_msrs = (\<lambda>_. 0), vlapic = vlapic0, vmcs = (\<lambda>_. 0),
     msr_bitmap = (\<lambda>_. 0), msr_area_guest = (0, 0), msr_area_host = (0, 0)\<rparr>"

definition hv0 :: "(u16 \<Rightarrow> memory_ops) \<Rightarrow> (u16 \<Rightarrow> u64) \<Rightarrow> hv" where
  "hv0 ept_ops eptp = \<lparr>hv_vcpus = (\<lambda>_ v. vcpu0\<lparr>vcpu_id := v\<rparr>), hv_created = (\<lambda>_. 1), hv_vm_state = (\<lambda>_. VM_CREATED),
     hv_eptp = eptp, hv_ept_ops = ept_ops, hv_pg = \<lparr>pg_mem = (\<lambda>_. 0), pg_flushed = [], sanitized_page = 0x7000\<rparr>,
     hv_sched = booted, hv_pcpu_flag = (\<lambda>_. 0), hv_shutdown_vm_id = (\<lambda>_. 0), hv_ever_run_vcpu = (\<lambda>_. None),
     hv_lapic_id = ucast, hv_hw = [],
     hv_cr_masks = \<lparr>cr0_always_on_mask = 0x20, cr0_always_off_mask = 0, cr4_always_on_mask = 0x2000, cr4_always_off_mask = 0\<rparr>,
     hv_cpuid = (\<lambda>_. \<lparr>vcpuid_level = 0, vcpuid_xlevel = 0, vcpuid_entries = []\<rparr>), hv_vmcs_run = (\<lambda>_. None)\<rparr>"

definition hv_ex :: hv where
  "hv_ex = hv0 (\<lambda>_. ppt_mem_ops \<lparr>pml4_base = 0x1000, pdpt_base = 0x2000, pd_base = 0x3000, pt_base = 0x4000\<rparr>) (\<lambda>_. 0)"

lemma bitmap_test_0 [simp]: "\<not> bitmap_test e 0"
  by (simp add: bitmap_test_iff)

theorem queue_then_inject_witness:
  "\<exists>h1 h2. vcpu_queue_exception 1 1 0 IDT_GP 5 hv_ex = Some h1 \<and>
     acrn_handle_pending_request id 1 1 0 h1 = Some (0, h2) \<and>
     vmcs (hv_vcpus h2 1 0) VMX_ENTRY_INT_INFO_FIELD = 0x80000B0D"
proof -
  let ?h = "hv_ex"
  have "unat IDT_GP < 32" "exc_vector (hv_vcpus ?h 1 0) = VECTOR_INVALID" "pending_req (hv_vcpus ?h 1 0) = 0"
    "has_error_code IDT_GP"
    by (simp_all add: IDT_GP_def hv_ex_def hv0_def vcpu0_def has_error_code_def)
  with queue_then_inject [of IDT_GP ?h 1 0 1 5 id 1] show ?thesis
    by (auto simp: IDT_GP_def VMX_INT_INFO_VALID_def)
qed

text \<open>
  C17. Three page faults in a row shut the virtual CPU down: with no exception under delivery, the
  second queued page fault turns into a double fault and the third one into a triple-fault
  request, for which handling the pending requests returns the error that makes the caller shut
  the VM down.
\<close>

theorem triple_fault:
  fixes h :: hv and vm v :: u16
  assumes idle: "exc_vector (hv_vcpus h vm v) = VECTOR_INVALID"
    and init: "\<not> bitmap_test ACRN_REQUEST_INIT_VMCS (pending_req (hv_vcpus h vm v))"
  shows "\<exists>h1 h2 h3 h4. vcpu_inject_pf cpu vm v a1 e1 h = Some h1 \<and>
     vcpu_inject_pf cpu vm v a2 e2 h1 = Some h2 \<and> exc_vector (hv_vcpus h2 vm v) = IDT_DF \<and>
     exc_error (hv_vcpus h2 vm v) = 0 \<and> vcpu_inject_pf cpu vm v a3 e3 h2 = Some h3 \<and>
     acrn_handle_pending_request init_vmcs cpu' vm v h3 = Some (- EFAULT, h4)"
proof -
  have inv: "get_excep_class VECTOR_INVALID = EXCEPTION_CLASS_BENIGN" "VECTOR_INVALID \<noteq> IDT_DF"
    "get_excep_class IDT_PF = EXCEPTION_CLASS_PF" "unat IDT_PF < 32" "IDT_PF \<noteq> IDT_DF"
    by (simp_all add: get_excep_class_def VECTOR_INVALID_def idt_defs)
  note q = queue_exception_records [OF inv(4)]
  obtain h1 where 1: "vcpu_inject_pf cpu vm v a1 e1 h = Some h1" "exc_vector (hv_vcpus h1 vm v) = IDT_PF"
      "pending_req (hv_vcpus h1 vm v) = bitmap_set_lock ACRN_REQUEST_EXCP (pending_req (hv_vcpus h vm v))"
    using q [of "upd_vcpu vm v (\<lambda>c. c\<lparr>cr2 := a1\<rparr>) h" vm v cpu e1] idle inv
    by (simp add: vcpu_inject_pf_def make_request_vcpu)
  obtain h2 where 2: "vcpu_inject_pf cpu vm v a2 e2 h1 = Some h2" "exc_vector (hv_vcpus h2 vm v) = IDT_DF"
      "exc_error (hv_vcpus h2 vm v) = 0"
      "pending_req (hv_vcpus h2 vm v) = bitmap_set_lock ACRN_REQUEST_EXCP (pending_req (hv_vcpus h1 vm v))"
    using q [of "upd_vcpu vm v (\<lambda>c. c\<lparr>cr2 := a2\<rparr>) h1" vm v cpu e2] 1(2) inv
    by (simp add: vcpu_inject_pf_def make_request_vcpu)
  obtain h3 where 3: "vcpu_inject_pf cpu vm v a3 e3 h2 = Some h3"
      "pending_req (hv_vcpus h3 vm v) = bitmap_set_lock ACRN_REQUEST_TRP_FAULT (pending_req (hv_vcpus h2 vm v))"
    using 2(2) inv by (simp add: vcpu_inject_pf_def vcpu_queue_exception_def make_request_vcpu)
  have "\<not> bitmap_test ACRN_REQUEST_INIT_VMCS (pending_req (hv_vcpus h3 vm v))"
    using init by (simp add: 3 2 1 bm.test_set request_defs)
  then obtain h4 where "acrn_handle_pending_request init_vmcs cpu' vm v h3 = Some (- EFAULT, h4)"
    using 3(2) by (simp add: acrn_handle_pending_request_def request_bits)
  with 1 2 3 show ?thesis by blast
qed

theorem triple_fault_witness:
  "\<exists>h1 h2 h3 h4. vcpu_inject_pf 1 1 0 0x1000 2 hv_ex = Some h1 \<and>
     vcpu_inject_pf 1 1 0 0x2000 2 h1 = Some h2 \<and> vcpu_inject_pf 1 1 0 0x3000 2 h2 = Some h3 \<and>
     acrn_handle_pending_request id 1 1 0 h3 = Some (- EFAULT, h4)"
proof -
  let ?h = "hv_ex"
  have "exc_vector (hv_vcpus ?h 1 0) = VECTOR_INVALID" "pending_req (hv_vcpus ?h 1 0) = 0"
    by (simp_all add: hv_ex_def hv0_def vcpu0_def)
  with triple_fault [of ?h 1 0 1 "0x1000" 2 "0x2000" 2 "0x3000" 2 id 1] show ?thesis
    by auto
qed

end
