(* ===== verification/Acrn_Vcpu_Life.thy ===== *)
theory Acrn_Vcpu_Life
  imports Acrn_Virq
begin

text \<open>
  The life cycle of a virtual CPU (\<^verbatim>\<open>src/hypervisor/arch/x86/guest/vcpu.c\<close>): creation,
  the register state after a reset, launching, pausing, resetting and taking it offline, with the
  reset of its local APIC (\<^verbatim>\<open>vlapic.c\<close>).

  The XSAVE area's FPU start-up values of \<^verbatim>\<open>init_xsave\<close> and the initial stack frame of
  a thread are not part of the state.
\<close>

subsection \<open>Register state\<close>

definition REAL_MODE_BSP_INIT_CODE_SEL :: u16 where "REAL_MODE_BSP_INIT_CODE_SEL = 0xf000"
definition REAL_MODE_DATA_SEG_AR :: u32 where "REAL_MODE_DATA_SEG_AR = 0x0093"
definition REAL_MODE_CODE_SEG_AR :: u32 where "REAL_MODE_CODE_SEG_AR = 0x009b"
definition PROTECTED_MODE_DATA_SEG_AR :: u32 where "PROTECTED_MODE_DATA_SEG_AR = 0xc093"
definition PROTECTED_MODE_CODE_SEG_AR :: u32 where "PROTECTED_MODE_CODE_SEG_AR = 0xc09b"
definition REAL_MODE_SEG_LIMIT :: u32 where "REAL_MODE_SEG_LIMIT = 0xffff"
definition PROTECTED_MODE_SEG_LIMIT :: u32 where "PROTECTED_MODE_SEG_LIMIT = 0xffffffff"
definition LDTR_AR :: u32 where "LDTR_AR = 0x0082"
definition TR_AR :: u32 where "TR_AR = 0x008b"
definition MSR_IA32_EFER_LMA_BIT :: u64 where "MSR_IA32_EFER_LMA_BIT = push_bit 10 1"
definition CR0_PE :: u64 where "CR0_PE = push_bit 0 1"
definition CR0_ET :: u64 where "CR0_ET = push_bit 4 1"
definition CR0_NE :: u64 where "CR0_NE = push_bit 5 1"
definition CR0_NW :: u64 where "CR0_NW = push_bit 29 1"
definition CR0_CD :: u64 where "CR0_CD = push_bit 30 1"
definition XCR0_INIT :: u64 where "XCR0_INIT = 1"
definition XSS_INIT :: u64 where "XSS_INIT = 0"

record acrn_descriptor_ptr =
  dp_limit :: u16
  dp_base :: u64

text \<open>\<^verbatim>\<open>struct acrn_vcpu_regs\<close>, without its reserved fields.\<close>

record acrn_vcpu_regs =
  r_gprs :: "nat \<Rightarrow> u64"
  r_gdt :: acrn_descriptor_ptr
  r_idt :: acrn_descriptor_ptr
  r_rip :: u64
  r_cs_base :: u64
  r_cr0 :: u64
  r_cr4 :: u64
  r_cr3 :: u64
  r_ia32_efer :: u64
  r_cs_ar :: u32
  r_cs_limit :: u32
  r_cs_sel :: u16
  r_ss_sel :: u16
  r_ds_sel :: u16
  r_es_sel :: u16
  r_fs_sel :: u16
  r_gs_sel :: u16
  r_ldt_sel :: u16
  r_tr_sel :: u16

definition set_vcpu_mode :: "u32 \<Rightarrow> u64 \<Rightarrow> u64 \<Rightarrow> acrn_vcpu \<Rightarrow> acrn_vcpu" where
  "set_vcpu_mode cs_attr efer cr vcpu =
     (if efer AND MSR_IA32_EFER_LMA_BIT \<noteq> 0 then
        if cs_attr AND 0x2000 \<noteq> 0 then vcpu\<lparr>cpu_mode := CPU_MODE_64BIT\<rparr>
        else vcpu\<lparr>cpu_mode := CPU_MODE_COMPATIBILITY\<rparr>
      else if cr AND CR0_PE \<noteq> 0 then vcpu\<lparr>cpu_mode := CPU_MODE_PROTECTED\<rparr>
      else vcpu\<lparr>cpu_mode := CPU_MODE_REAL\<rparr>)"

text \<open>
  \<^verbatim>\<open>set_vcpu_regs\<close>. The loop over the segments walks the six fields from CS to GS and the
  six selectors of the argument in the same order.
\<close>

definition set_ext_regs :: "acrn_vcpu_regs \<Rightarrow> ext_context \<Rightarrow> ext_context" where
  "set_ext_regs r ectx =
     (let pe = r_cr0 r AND CR0_PE \<noteq> 0;
          at = (if pe then PROTECTED_MODE_DATA_SEG_AR else REAL_MODE_DATA_SEG_AR);
          lim = (if pe then PROTECTED_MODE_SEG_LIMIT else REAL_MODE_SEG_LIMIT);
          seg = (\<lambda>sel. \<lparr>selector = sel, seg_base = 0, limit = lim, attr = at\<rparr>)
      in ectx\<lparr>
          ia32_kernel_gs_base := 0,
          cs := \<lparr>selector = r_cs_sel r, seg_base = r_cs_base r, limit = r_cs_limit r, attr = r_cs_ar r\<rparr>,
          ss := seg (r_ss_sel r), ds := seg (r_ds_sel r), es := seg (r_es_sel r),
          fs := seg (r_fs_sel r), gs := seg (r_gs_sel r),
          gdtr := (gdtr ectx)\<lparr>seg_base := dp_base (r_gdt r), limit := ucast (dp_limit (r_gdt r))\<rparr>,
          idtr := (idtr ectx)\<lparr>seg_base := dp_base (r_idt r), limit := ucast (dp_limit (r_idt r))\<rparr>,
          ldtr := \<lparr>selector = r_ldt_sel r, seg_base = 0, limit = 0xFFFF, attr = LDTR_AR\<rparr>,
          tr_seg := \<lparr>selector = r_tr_sel r, seg_base = 0, limit = 0xFFFF, attr = TR_AR\<rparr>,
          cr3 := r_cr3 r\<rparr>)"

definition set_run_regs :: "acrn_vcpu_regs \<Rightarrow> acrn_vcpu \<Rightarrow> acrn_vcpu" where
  "set_run_regs r vcpu =
     (let c1 = vcpu\<lparr>gprs := r_gprs r\<rparr>;
          c2 = vcpu_set_rip (r_rip r) c1;
          c3 = vcpu_set_efer (r_ia32_efer r) c2;
          c4 = vcpu_set_rsp (r_gprs r (unat CPU_REG_RSP)) c3;
          c5 = vcpu_set_rflags 0x02 c4;
          c6 = c5\<lparr>cr0 := r_cr0 r, cr4 := r_cr4 r\<rparr>
      in set_vcpu_mode (r_cs_ar r) (r_ia32_efer r) (r_cr0 r) c6)"

definition set_vcpu_regs :: "acrn_vcpu_regs \<Rightarrow> u16 \<Rightarrow> u16 \<Rightarrow> hv \<Rightarrow> hv" where
  "set_vcpu_regs r vm v h = upd_vcpu vm v (set_run_regs r) (upd_ext vm v (set_ext_regs r) h)"

definition realmode_init_vregs :: acrn_vcpu_regs where
  "realmode_init_vregs =
     \<lparr>r_gprs = (\<lambda>_. 0)(2 := 0x00080600), r_gdt = \<lparr>dp_limit = 0xFFFF, dp_base = 0\<rparr>, r_idt = \<lparr>dp_limit = 0xFFFF, dp_base = 0\<rparr>,
      r_rip = 0xFFF0, r_cs_base = 0xFFFF0000, r_cr0 = CR0_ET OR CR0_NE OR CR0_CD OR CR0_NW, r_cr4 = 0, r_cr3 = 0,
      r_ia32_efer = 0, r_cs_ar = REAL_MODE_CODE_SEG_AR, r_cs_limit = 0xFFFF, r_cs_sel = REAL_MODE_BSP_INIT_CODE_SEL,
      r_ss_sel = 0, r_ds_sel = 0, r_es_sel = 0, r_fs_sel = 0, r_gs_sel = 0, r_ldt_sel = 0, r_tr_sel = 0\<rparr>"

definition protect_mode_init_vregs :: acrn_vcpu_regs where
  "protect_mode_init_vregs =
     \<lparr>r_gprs = (\<lambda>_. 0), r_gdt = \<lparr>dp_limit = 0, dp_base = 0\<rparr>, r_idt = \<lparr>dp_limit = 0, dp_base = 0\<rparr>,
      r_rip = 0, r_cs_base = 0, r_cr0 = CR0_ET OR CR0_NE OR CR0_PE OR CR0_NW OR CR0_CD, r_cr4 = 0, r_cr3 = 0,
      r_ia32_efer = 0, r_cs_ar = PROTECTED_MODE_CODE_SEG_AR, r_cs_limit = PROTECTED_MODE_SEG_LIMIT, r_cs_sel = 0x10,
      r_ss_sel = 0x18, r_ds_sel = 0x18, r_es_sel = 0x18, r_fs_sel = 0, r_gs_sel = 0, r_ldt_sel = 0, r_tr_sel = 0\<rparr>"

definition reset_vcpu_regs :: "u16 \<Rightarrow> u16 \<Rightarrow> hv \<Rightarrow> hv" where
  "reset_vcpu_regs vm v h = set_vcpu_regs realmode_init_vregs vm v h"

definition set_vcpu_startup_entry :: "u64 \<Rightarrow> u16 \<Rightarrow> u16 \<Rightarrow> hv \<Rightarrow> hv" where
  "set_vcpu_startup_entry entry vm v h =
     (let sel = ucast (drop_bit 4 entry AND 0xFFFF) :: u16
      in upd_vcpu vm v (vcpu_set_rip 0)
           (upd_ext vm v (\<lambda>e. e\<lparr>cs := (cs e)\<lparr>selector := sel, seg_base := push_bit 4 (ucast sel)\<rparr>\<rparr>) h))"

subsection \<open>The local APIC at reset (vlapic.c)\<close>

definition DEFAULT_APIC_BASE :: u64 where "DEFAULT_APIC_BASE = 0xfee00000"
definition APICBASE_BSP :: u64 where "APICBASE_BSP = 0x100"
definition APICBASE_X2APIC :: u64 where "APICBASE_X2APIC = 0x400"
definition APICBASE_ENABLED :: u64 where "APICBASE_ENABLED = 0x800"
definition LOGICAL_ID_MASK :: u32 where "LOGICAL_ID_MASK = 0xF"
definition CLUSTER_ID_MASK :: u32 where "CLUSTER_ID_MASK = 0xFFFF0"

definition vlapic_get_apicid :: "acrn_vlapic \<Rightarrow> u32" where
  "vlapic_get_apicid l = apic_id l"

definition vlapic_build_id :: "u16 \<Rightarrow> u32" where
  "vlapic_build_id vid = ucast vid"

definition vlapic_build_x2apic_id :: "u16 \<Rightarrow> acrn_vlapic \<Rightarrow> acrn_vlapic" where
  "vlapic_build_x2apic_id vid l =
     (let aid = vlapic_build_id vid;
          logical_id = aid AND LOGICAL_ID_MASK;
          cluster_id = drop_bit 4 (aid AND CLUSTER_ID_MASK)
      in l\<lparr>apic_id := aid, apic_ldr := push_bit 16 cluster_id OR push_bit (unat logical_id) 1\<rparr>)"

text \<open>\<open>vid\<close> is the \<^verbatim>\<open>vcpu_id\<close> of the virtual CPU the local APIC points back to.\<close>

definition vlapic_reset :: "u16 \<Rightarrow> acrn_vlapic \<Rightarrow> acrn_vlapic" where
  "vlapic_reset vid l =
     (let base = DEFAULT_APIC_BASE OR APICBASE_ENABLED OR APICBASE_X2APIC;
          l1 = l\<lparr>msr_apicbase := (if vid = BOOT_CPU_ID then base OR APICBASE_BSP else base)\<rparr>;
          l2 = l1\<lparr>apic_id := 0, apic_ldr := 0, icr_lo := 0, icr_hi := 0\<rparr>
      in vlapic_build_x2apic_id vid l2)"

definition vlapic_init :: "u16 \<Rightarrow> acrn_vlapic \<Rightarrow> acrn_vlapic" where
  "vlapic_init vid l = vlapic_reset vid l"

definition vlapic_create :: "acrn_vcpu \<Rightarrow> acrn_vcpu" where
  "vlapic_create vcpu = vcpu\<lparr>vlapic := vlapic_init (vcpu_id vcpu) (vlapic vcpu)\<rparr>"

subsection \<open>Creation\<close>

text \<open>
  The zeroed \<^verbatim>\<open>struct acrn_vcpu\<close>. The thread status is left alone by \<open>memset_vcpu\<close>: the
  value 0 is no enumerator, nothing reads it, and \<^verbatim>\<open>prepare_vcpu\<close> sets it afterwards.
\<close>

definition vlapic_zero :: acrn_vlapic where
  "vlapic_zero = \<lparr>apic_id = 0, apic_ldr = 0, icr_lo = 0, icr_hi = 0, msr_apicbase = 0\<rparr>"

definition vcpu_zero :: acrn_vcpu where
  "vcpu_zero = \<lparr>vcpu_id = 0, vc_state = VCPU_OFFLINE, prev_state = VCPU_OFFLINE, launched = False,
     reg_cached = 0, reg_updated = 0, gprs = (\<lambda>_. 0), rip = 0, rflags = 0, ia32_efer = 0,
     cr0 = 0, cr2 = 0, cr4 = 0, ia32_spec_ctrl = 0, exc_vector = 0, exc_error = 0,
     nrexits = 0, exit_reason = 0, idt_vectoring_info = 0, exit_qualification = 0, inst_len = 0,
     vcpu_powerup = False, cpu_mode = CPU_MODE_REAL, nr_sipi = 0, pending_req = 0, vpid = 0,
     guest_msrs = (\<lambda>_. 0), vlapic = vlapic_zero, vmcs = (\<lambda>_. 0),
     msr_bitmap = (\<lambda>_. 0), msr_area_guest = (0, 0), msr_area_host = (0, 0)\<rparr>"

definition memset_vcpu :: "u16 \<Rightarrow> u16 \<Rightarrow> hv \<Rightarrow> hv" where
  "memset_vcpu vm v h =
     upd_ext vm v (\<lambda>_. ext_zero)
       (upd_vcpu vm v (\<lambda>_. vcpu_zero)
         (h\<lparr>hv_sched := (hv_sched h)
            \<lparr>threads := (threads (hv_sched h))(Vcpu vm v := (threads (hv_sched h) (Vcpu vm v))
               \<lparr>t_pcpu_id := 0, t_switch_out := None, t_switch_in := None\<rparr>),
             vcpu_running := (vcpu_running (hv_sched h))(Vcpu vm v := False)\<rparr>\<rparr>))"

definition init_xsave :: "u16 \<Rightarrow> u16 \<Rightarrow> hv \<Rightarrow> hv" where
  "init_xsave vm v h = upd_ext vm v (\<lambda>e. e\<lparr>xcr0 := XCR0_INIT, xss := XSS_INIT\<rparr>) h"

definition vcpu_not_running :: "u16 \<Rightarrow> u16 \<Rightarrow> hv \<Rightarrow> hv" where
  "vcpu_not_running vm v h = h\<lparr>hv_sched := clear_running (Vcpu vm v) (hv_sched h)\<rparr>"

text \<open>\<^verbatim>\<open>create_vcpu\<close>: the status, the handle of the virtual CPU when it is 0, the new state.\<close>

definition create_vcpu :: "u16 \<Rightarrow> u16 \<Rightarrow> hv \<Rightarrow> i32 \<times> u16 option \<times> hv" where
  "create_vcpu pcpu_id vm h =
     (let v = hv_created h vm in
      if v < MAX_VCPUS_PER_VM then
        let h1 = memset_vcpu vm v h;
            h2 = upd_vcpu vm v (\<lambda>c. c\<lparr>vcpu_id := v\<rparr>) h1;
            h3 = h2\<lparr>hv_ever_run_vcpu := (hv_ever_run_vcpu h2)(pcpu_id := Some (vm, v))\<rparr>;
            h4 = upd_vcpu vm v (\<lambda>c. vlapic_create (c\<lparr>vpid := 1 + vm * MAX_VCPUS_PER_VM + vcpu_id c,
                   exc_vector := VECTOR_INVALID, vcpu_powerup := False\<rparr>)) h3;
            h5 = vcpu_not_running vm v (upd_vcpu vm v (\<lambda>c. c\<lparr>launched := False\<rparr>) h4);
            h6 = upd_vcpu vm v (\<lambda>c. c\<lparr>nr_sipi := 0, vc_state := VCPU_INIT\<rparr>) h5;
            h7 = reset_vcpu_regs vm v (init_xsave vm v h6)
        in (0, Some v, h7\<lparr>hv_created := (hv_created h7)(vm := hv_created h7 vm + 1)\<rparr>)
      else (- EINVAL, None, h))"

definition prepare_vcpu :: "u16 \<Rightarrow> u16 \<Rightarrow> hv \<Rightarrow> i32 \<times> hv" where
  "prepare_vcpu vm pcpu_id h =
     (case create_vcpu pcpu_id vm h of
        (ret, Some v, h1) \<Rightarrow>
          (ret, h1\<lparr>hv_sched := init_thread_data (Vcpu vm v) ((hv_sched h1)
             \<lparr>threads := (threads (hv_sched h1))(Vcpu vm v := (threads (hv_sched h1) (Vcpu vm v))
                \<lparr>t_pcpu_id := pcpu_id, t_switch_out := Some fn_context_switch_out,
                 t_switch_in := Some fn_context_switch_in\<rparr>)\<rparr>)\<rparr>)
      | (ret, None, h1) \<Rightarrow> (ret, h1))"

subsection \<open>Launching, pausing, resetting\<close>

definition launch_vcpu :: "u16 \<Rightarrow> u16 \<Rightarrow> u16 \<Rightarrow> hv \<Rightarrow> hv" where
  "launch_vcpu cpu vm v h =
     (let h1 = upd_vcpu vm v (\<lambda>c. c\<lparr>vc_state := VCPU_RUNNING\<rparr>) h
      in h1\<lparr>hv_sched := wake_thread cpu (Vcpu vm v) (hv_sched h1)\<rparr>)"

definition offline_vcpu :: "u16 \<Rightarrow> u16 \<Rightarrow> hv \<Rightarrow> hv" where
  "offline_vcpu vm v h =
     upd_vcpu vm v (\<lambda>c. c\<lparr>vc_state := VCPU_OFFLINE\<rparr>)
       (h\<lparr>hv_ever_run_vcpu := (hv_ever_run_vcpu h)(pcpuid_from_vcpu vm v h := None)\<rparr>)"

definition memset_run_context :: "acrn_vcpu \<Rightarrow> acrn_vcpu" where
  "memset_run_context c =
     c\<lparr>gprs := (\<lambda>_. 0), cr0 := 0, cr2 := 0, cr4 := 0, rip := 0, rflags := 0, ia32_spec_ctrl := 0, ia32_efer := 0\<rparr>"

definition reset_vcpu :: "u16 \<Rightarrow> u16 \<Rightarrow> u16 \<Rightarrow> hv \<Rightarrow> hv" where
  "reset_vcpu cpu vm v h =
     (let h1 = upd_vcpu vm v (\<lambda>c. c\<lparr>vc_state := VCPU_INIT, launched := False\<rparr>) h;
          h2 = vcpu_not_running vm v h1;
          h3 = upd_vcpu vm v (\<lambda>c. memset_run_context (c\<lparr>nr_sipi := 0, exc_vector := VECTOR_INVALID\<rparr>)) h2;
          h4 = upd_vcpu vm v (\<lambda>c. c\<lparr>vlapic := vlapic_reset (vcpu_id c) (vlapic c)\<rparr>) h3;
          h5 = vcpu_make_request cpu vm v ACRN_REQUEST_LAPIC_RESET h4
      in reset_vcpu_regs vm v h5)"

text \<open>
  The wait of \<^verbatim>\<open>pause_vcpu\<close> for a virtual CPU of another physical CPU. Only that CPU can end
  it, by its next \<^verbatim>\<open>schedule\<close>, for which the sleep has left a request; the state after the
  wait is the one this \<^verbatim>\<open>schedule\<close> leaves. \<open>None\<close>: the loop does not end.
\<close>

definition wait_not_running :: "u16 \<Rightarrow> u16 \<Rightarrow> hv \<Rightarrow> hv option" where
  "wait_not_running vm v h =
     (if vcpu_running (hv_sched h) (Vcpu vm v) then
        (case schedule (pcpuid_from_vcpu vm v h) (hv_sched h) of
           None \<Rightarrow> None
         | Some s \<Rightarrow> if vcpu_running s (Vcpu vm v) then None else Some (h\<lparr>hv_sched := s\<rparr>))
      else Some h)"

definition pause_vcpu :: "u16 \<Rightarrow> u16 \<Rightarrow> u16 \<Rightarrow> hv \<Rightarrow> hv option" where
  "pause_vcpu cpu vm v h =
     (let st = vc_state (hv_vcpus h vm v) in
      if st = VCPU_RUNNING \<or> st = VCPU_INIT then
        let h1 = upd_vcpu vm v (\<lambda>c. c\<lparr>prev_state := vc_state c\<rparr>) h;
            h2 = upd_vcpu vm v (\<lambda>c. c\<lparr>vc_state := VCPU_ZOMBIE\<rparr>) h1
        in if prev_state (hv_vcpus h2 vm v) = VCPU_RUNNING then
             let h3 = h2\<lparr>hv_sched := sleep_thread cpu (Vcpu vm v) (hv_sched h2)\<rparr>
             in if pcpuid_from_vcpu vm v h3 \<noteq> cpu then wait_not_running vm v h3 else Some h3
           else Some h2
      else Some h)"

definition vcpumask2pcpumask :: "u16 \<Rightarrow> u64 \<Rightarrow> hv \<Rightarrow> u64" where
  "vcpumask2pcpumask vm vdmask h =
     fold (\<lambda>i dmask. if vdmask AND push_bit i 1 \<noteq> 0
                       then bitmap_set_nolock (pcpuid_from_vcpu vm (of_nat i) h) dmask else dmask)
       [0..<unat (hv_created h vm)] 0"

subsection \<open>A virtual CPU executes only in state RUNNING\<close>

text \<open>
  The invariant of the life cycle: the scheduler's invariant, and the thread of a virtual CPU is
  blocked unless the virtual CPU is in state RUNNING.
\<close>

definition life_inv :: "hv \<Rightarrow> bool" where
  "life_inv h \<longleftrightarrow> sched_inv (hv_sched h) \<and>
     (\<forall>vm v. \<not> is_blocked (hv_sched h) (Vcpu vm v) \<longrightarrow> vc_state (hv_vcpus h vm v) = VCPU_RUNNING)"

lemma life_invD:
  assumes "life_inv h"
  shows "sched_inv (hv_sched h)"
    "vc_state (hv_vcpus h vm v) \<noteq> VCPU_RUNNING \<Longrightarrow> is_blocked (hv_sched h) (Vcpu vm v)"
  using assms by (auto simp: life_inv_def)

lemma sched_inv_ext [simp]: "sched_inv (s\<lparr>ext_ctx := e\<rparr>) = sched_inv s"
  by (simp add: sched_inv_def hooks_ok_def cpu_inv_def thread_inv_def sched_noop_pick_next_def
      need_reschedule_def cong: option.case_cong)

lemma sched_upd_ext [simp]: "sched_inv (hv_sched (upd_ext vm v f h)) = sched_inv (hv_sched h)"
  by (simp add: upd_ext_def)

lemma kick_threads [simp]:
  "threads (kick_thread cpu t s) = threads s" "vcpu_running (kick_thread cpu t s) = vcpu_running s"
  "ext_ctx (kick_thread cpu t s) = ext_ctx s" "curr_obj (kick_thread cpu t s) p = curr_obj s p"
  "noop_obj (kick_thread cpu t s) p = noop_obj s p"
  by (simp_all add: kick_thread_def Let_def make_reschedule_request_def send_single_init_def upd_ctl_def)

lemma sched_make_request [simp]:
  "hv_sched (vcpu_make_request cpu vm v e h) = kick_thread cpu (Vcpu vm v) (hv_sched h)"
  by (simp add: vcpu_make_request_def kick_vcpu_def)

text \<open>Waking and putting to sleep.\<close>

lemma wake_blocked:
  "is_blocked (wake_thread cpu t s) u \<longleftrightarrow> u \<noteq> t \<and> is_blocked s u"
  by (auto simp: wake_thread_def is_blocked_def)

lemma sleep_blocked:
  "is_blocked (sleep_thread cpu t s) u \<longleftrightarrow> u = t \<or> is_blocked s u"
  by (auto simp: sleep_thread_def is_blocked_def Let_def)

lemma sleep_obs:
  "vcpu_running (sleep_thread cpu t s) = vcpu_running s" "thread_pcpu (sleep_thread cpu t s) u = thread_pcpu s u"
  "curr_obj (sleep_thread cpu t s) q = curr_obj s q" "noop_obj (sleep_thread cpu t s) (thread_pcpu s t) \<noteq> Some t"
  by (simp_all add: sleep_thread_def Let_def)

lemma schedule_blocked:
  assumes i: "sched_inv s" and sch: "schedule p s = Some s'"
  shows "is_blocked s (Vcpu vm v) \<Longrightarrow> is_blocked s' (Vcpu vm v)"
    "is_blocked s' (Vcpu vm v) \<Longrightarrow> is_blocked s (Vcpu vm v)"
proof -
  obtain prev where prev: "curr_obj s p = Some prev"
    using sch by (auto simp: schedule_def split: option.splits)
  have "sched_noop_pick_next p p s = Vcpu vm v \<Longrightarrow> \<not> is_blocked s (Vcpu vm v)"
    using sched_invD(2) [OF i, of p]
    by (auto simp: cpu_inv_def sched_noop_pick_next_def is_blocked_def split: option.splits)
  then show "is_blocked s (Vcpu vm v) \<Longrightarrow> is_blocked s' (Vcpu vm v)"
    "is_blocked s' (Vcpu vm v) \<Longrightarrow> is_blocked s (Vcpu vm v)"
    using schedule_obs(2) [OF i sch prev refl, of "Vcpu vm v"] by (auto simp: is_blocked_def split: if_splits)
qed

text \<open>The wait for a virtual CPU that was put to sleep always ends.\<close>

lemma wait_ends:
  assumes i: "sched_inv s" and s: "s = sleep_thread cpu (Vcpu vm v) s0" and i0: "sched_inv s0"
    and h: "hv_sched h = s"
  shows "\<exists>s'. wait_not_running vm v h = Some (h\<lparr>hv_sched := s'\<rparr>) \<and> sched_inv s' \<and>
     \<not> vcpu_running s' (Vcpu vm v) \<and> (\<forall>vm v. is_blocked s' (Vcpu vm v) = is_blocked s (Vcpu vm v))"
proof (cases "vcpu_running s (Vcpu vm v)")
  case False
  then show ?thesis
    using h i by (intro exI [of _ s]) (simp add: wait_not_running_def)
next
  case True
  let ?t = "Vcpu vm v" and ?p = "pcpuid_from_vcpu vm v h"
  have p: "?p = thread_pcpu s ?t"
    by (simp add: pcpuid_from_vcpu_def sched_get_pcpuid_def h)
  have prev: "curr_obj s ?p = Some ?t"
    using sched_invD(3) [OF i, of ?t] True by (simp add: thread_inv_def p)
  then obtain s' where s': "schedule ?p s = Some s'"
    by (simp add: schedule_def Let_def)
  have "noop_obj s ?p \<noteq> Some ?t"
    by (simp add: p s sleep_obs)
  then have "sched_noop_pick_next ?p ?p s \<noteq> ?t"
    by (auto simp: sched_noop_pick_next_def split: option.splits)
  then have "\<not> vcpu_running s' ?t"
    using schedule_obs(7) [OF i s' prev refl, of ?t] by simp
  moreover have "is_blocked s' (Vcpu vm v) = is_blocked s (Vcpu vm v)" for vm v
    using schedule_blocked [OF i s'] by blast
  ultimately show ?thesis
    using s' True h schedule_inv [OF i s']
    by (intro exI [of _ s']) (simp add: wait_not_running_def)
qed

definition zombie :: "u16 \<Rightarrow> u16 \<Rightarrow> hv \<Rightarrow> hv" where
  "zombie vm v h = upd_vcpu vm v (\<lambda>c. c\<lparr>prev_state := vc_state c, vc_state := VCPU_ZOMBIE\<rparr>) h"

lemma upd_vcpu_compose: "upd_vcpu vm v f (upd_vcpu vm v g h) = upd_vcpu vm v (\<lambda>c. f (g c)) h"
  by (simp add: upd_vcpu_def)

lemma pause_vcpu_ok:
  assumes i: "life_inv h"
  shows "\<exists>s'. pause_vcpu cpu vm v h =
       Some (if vc_state (hv_vcpus h vm v) \<in> {VCPU_RUNNING, VCPU_INIT} then (zombie vm v h)\<lparr>hv_sched := s'\<rparr> else h) \<and>
     sched_inv s' \<and> is_blocked s' (Vcpu vm v) \<and>
     (vc_state (hv_vcpus h vm v) = VCPU_RUNNING \<longrightarrow> pcpuid_from_vcpu vm v h \<noteq> cpu \<longrightarrow> \<not> vcpu_running s' (Vcpu vm v)) \<and>
     (\<forall>vm' v'. (vm', v') \<noteq> (vm, v) \<longrightarrow> is_blocked s' (Vcpu vm' v') = is_blocked (hv_sched h) (Vcpu vm' v'))"
proof (cases "vc_state (hv_vcpus h vm v) = VCPU_RUNNING")
  case False
  have "pause_vcpu cpu vm v h =
     Some (if vc_state (hv_vcpus h vm v) \<in> {VCPU_RUNNING, VCPU_INIT} then (zombie vm v h)\<lparr>hv_sched := hv_sched h\<rparr> else h)"
    using False by (simp add: pause_vcpu_def Let_def zombie_def upd_vcpu_compose)
  then show ?thesis
    using False life_invD(1) [OF i] life_invD(2) [OF i False] by (intro exI [of _ "hv_sched h"]) simp
next
  case True
  let ?s = "sleep_thread cpu (Vcpu vm v) (hv_sched h)" and ?z = "zombie vm v h"
  have inv0: "sched_inv ?s"
    by (rule sleep_inv [OF life_invD(1) [OF i]])
  have same: "pcpuid_from_vcpu vm v (?z\<lparr>hv_sched := ?s\<rparr>) = pcpuid_from_vcpu vm v h"
    by (simp add: pcpuid_from_vcpu_def sched_get_pcpuid_def sleep_obs)
  obtain s' where s': "wait_not_running vm v (?z\<lparr>hv_sched := ?s\<rparr>) = Some (?z\<lparr>hv_sched := s'\<rparr>)" "sched_inv s'"
      "\<not> vcpu_running s' (Vcpu vm v)" "\<forall>vm v. is_blocked s' (Vcpu vm v) = is_blocked ?s (Vcpu vm v)"
    using wait_ends [OF inv0 refl life_invD(1) [OF i], of "?z\<lparr>hv_sched := ?s\<rparr>"] by auto
  have p: "pause_vcpu cpu vm v h =
      (if pcpuid_from_vcpu vm v h \<noteq> cpu then wait_not_running vm v (?z\<lparr>hv_sched := ?s\<rparr>) else Some (?z\<lparr>hv_sched := ?s\<rparr>))"
    using True same by (simp add: pause_vcpu_def Let_def zombie_def upd_vcpu_compose)
  show ?thesis
    using p True s' inv0
    by (intro exI [of _ "if pcpuid_from_vcpu vm v h \<noteq> cpu then s' else ?s"]) (auto simp: sleep_blocked)
qed

lemma pause_vcpu_life:
  assumes i: "life_inv h" and p: "pause_vcpu cpu vm v h = Some h'"
  shows "life_inv h'" "is_blocked (hv_sched h') (Vcpu vm v)"
proof -
  obtain s' where s': "pause_vcpu cpu vm v h =
       Some (if vc_state (hv_vcpus h vm v) \<in> {VCPU_RUNNING, VCPU_INIT} then (zombie vm v h)\<lparr>hv_sched := s'\<rparr> else h)"
     "sched_inv s'" "is_blocked s' (Vcpu vm v)"
     "\<forall>vm' v'. (vm', v') \<noteq> (vm, v) \<longrightarrow> is_blocked s' (Vcpu vm' v') = is_blocked (hv_sched h) (Vcpu vm' v')"
    using pause_vcpu_ok [OF i] by blast
  have z: "vc_state (hv_vcpus (zombie vm v h) vm' v') =
      (if (vm', v') = (vm, v) then VCPU_ZOMBIE else vc_state (hv_vcpus h vm' v'))" for vm' v'
    by (auto simp: zombie_def upd_vcpu_def)
  show "is_blocked (hv_sched h') (Vcpu vm v)"
    using p s'(1,3) life_invD(2) [OF i, of vm v] by (auto split: if_splits)
  have "vc_state (hv_vcpus h vm' v') = VCPU_RUNNING"
    if "\<not> is_blocked s' (Vcpu vm' v')" "(vm', v') \<noteq> (vm, v)" for vm' v'
    using that s'(4) i by (auto simp: life_inv_def)
  then show "life_inv h'"
    using p s'(1-3) i by (auto simp: life_inv_def z split: if_splits)
qed

lemma launch_vcpu_life:
  assumes "life_inv h"
  shows "life_inv (launch_vcpu cpu vm v h)"
  using assms wake_inv [of "hv_sched h"]
  by (auto simp: life_inv_def launch_vcpu_def Let_def wake_blocked upd_vcpu_def)

lemma make_request_life:
  assumes "life_inv h"
  shows "life_inv (vcpu_make_request cpu vm v e h)"
  using assms kick_inv
  by (auto simp: life_inv_def is_blocked_def vcpu_make_request_def kick_vcpu_def upd_vcpu_def)

lemma sched_step_life:
  assumes "life_inv h"
  shows "schedule p (hv_sched h) = Some s \<Longrightarrow> life_inv (h\<lparr>hv_sched := s\<rparr>)"
    "life_inv (h\<lparr>hv_sched := kick_thread cpu t (hv_sched h)\<rparr>)"
proof -
  assume "schedule p (hv_sched h) = Some s"
  with assms show "life_inv (h\<lparr>hv_sched := s\<rparr>)"
    using schedule_inv schedule_blocked(1) [of "hv_sched h" p s] by (simp add: life_inv_def) blast
next
  show "life_inv (h\<lparr>hv_sched := kick_thread cpu t (hv_sched h)\<rparr>)"
    using assms kick_inv by (simp add: life_inv_def is_blocked_def)
qed

lemma set_vcpu_mode_state [simp]:
  "vc_state (set_vcpu_mode a e c vcpu) = vc_state vcpu" "pending_req (set_vcpu_mode a e c vcpu) = pending_req vcpu"
  "exc_vector (set_vcpu_mode a e c vcpu) = exc_vector vcpu" "nr_sipi (set_vcpu_mode a e c vcpu) = nr_sipi vcpu"
  "vcpu_id (set_vcpu_mode a e c vcpu) = vcpu_id vcpu" "vlapic (set_vcpu_mode a e c vcpu) = vlapic vcpu"
  "launched (set_vcpu_mode a e c vcpu) = launched vcpu"
  "idt_vectoring_info (set_vcpu_mode a e c vcpu) = idt_vectoring_info vcpu"
  by (simp_all add: set_vcpu_mode_def)

lemma reset_vcpu_obs:
  shows "vc_state (hv_vcpus (reset_vcpu cpu vm v h) vm v) = VCPU_INIT"
    "nr_sipi (hv_vcpus (reset_vcpu cpu vm v h) vm v) = 0"
    "vcpu_id (hv_vcpus (reset_vcpu cpu vm v h) vm v) = vcpu_id (hv_vcpus h vm v)"
    "exc_vector (hv_vcpus (reset_vcpu cpu vm v h) vm v) = VECTOR_INVALID"
    "pending_req (hv_vcpus (reset_vcpu cpu vm v h) vm v) =
       bitmap_set_lock ACRN_REQUEST_LAPIC_RESET (pending_req (hv_vcpus h vm v))"
    "vlapic (hv_vcpus (reset_vcpu cpu vm v h) vm v) = vlapic_reset (vcpu_id (hv_vcpus h vm v)) (vlapic (hv_vcpus h vm v))"
    "(vm', v') \<noteq> (vm, v) \<Longrightarrow> hv_vcpus (reset_vcpu cpu vm v h) vm' v' = hv_vcpus h vm' v'"
    "threads (hv_sched (reset_vcpu cpu vm v h)) = threads (hv_sched h)"
    "sched_inv (hv_sched h) \<Longrightarrow> sched_inv (hv_sched (reset_vcpu cpu vm v h))"
    "hv_created (reset_vcpu cpu vm v h) = hv_created h" "hv_hw (reset_vcpu cpu vm v h) = hv_hw h"
  by (simp_all add: reset_vcpu_def Let_def reset_vcpu_regs_def set_vcpu_regs_def vcpu_make_request_def kick_vcpu_def
      set_run_regs_def vcpu_set_rip_def vcpu_set_efer_def vcpu_set_rsp_def vcpu_set_rflags_def memset_run_context_def
      vcpu_not_running_def kick_inv clear_running_inv)
    (auto simp: upd_vcpu_def clear_running_def)

lemma reset_vcpu_life:
  assumes "life_inv h" "is_blocked (hv_sched h) (Vcpu vm v)"
  shows "life_inv (reset_vcpu cpu vm v h)"
proof -
  have "vc_state (hv_vcpus (reset_vcpu cpu vm v h) vm' v') = VCPU_RUNNING"
    if "\<not> is_blocked (hv_sched h) (Vcpu vm' v')" for vm' v'
    using that assms reset_vcpu_obs(7) [of vm' v' vm v cpu h] by (force simp: life_inv_def)
  with assms(1) show ?thesis
    by (simp add: life_inv_def reset_vcpu_obs is_blocked_def)
qed

end
