(* ===== verification/Acrn_Vlapic.thy ===== *)
theory Acrn_Vlapic
  imports Acrn_Vcpu_Life
begin

text \<open>
  The virtual local APIC in x2APIC mode with the physical one passed through
  (\<^verbatim>\<open>src/hypervisor/arch/x86/guest/vlapic.c\<close>): the registers the hypervisor emulates (ID,
  LDR, ICR), the delivery of INIT and SIPI to a virtual CPU and the forwarding of other
  interprocessor interrupts.
\<close>

definition APIC_VECTOR_MASK :: u32 where "APIC_VECTOR_MASK = 0x000000ff"
definition APIC_DELMODE_MASK :: u32 where "APIC_DELMODE_MASK = 0x00000700"
definition APIC_DELMODE_LOWPR :: u32 where "APIC_DELMODE_LOWPR = 0x00000100"
definition APIC_DELMODE_SMI :: u32 where "APIC_DELMODE_SMI = 0x00000200"
definition APIC_DELMODE_RESERVED1 :: u32 where "APIC_DELMODE_RESERVED1 = 0x00000300"
definition APIC_DELMODE_INIT :: u32 where "APIC_DELMODE_INIT = 0x00000500"
definition APIC_DELMODE_STARTUP :: u32 where "APIC_DELMODE_STARTUP = 0x00000600"
definition APIC_DELMODE_RESERVED2 :: u32 where "APIC_DELMODE_RESERVED2 = 0x00000700"
definition APIC_DESTMODE_LOG :: u32 where "APIC_DESTMODE_LOG = 0x00000800"
definition APIC_LEVEL_MASK :: u32 where "APIC_LEVEL_MASK = 0x00004000"
definition APIC_TRIGMOD_MASK :: u32 where "APIC_TRIGMOD_MASK = 0x00008000"
definition APIC_DEST_MASK :: u32 where "APIC_DEST_MASK = 0x000c0000"
definition APIC_DEST_DESTFLD :: u32 where "APIC_DEST_DESTFLD = 0"
definition APIC_ICR_MASK :: u64 where "APIC_ICR_MASK = 0x000C0FFF"
definition APIC_OFFSET_ID :: u32 where "APIC_OFFSET_ID = 0x20"
definition APIC_OFFSET_LDR :: u32 where "APIC_OFFSET_LDR = 0xD0"
definition APIC_OFFSET_ICR_LOW :: u32 where "APIC_OFFSET_ICR_LOW = 0x300"
definition MSR_IA32_EXT_XAPICID :: u32 where "MSR_IA32_EXT_XAPICID = 0x802"
definition MSR_IA32_EXT_APIC_LDR :: u32 where "MSR_IA32_EXT_APIC_LDR = 0x80D"
definition MSR_IA32_EXT_APIC_ICR :: u32 where "MSR_IA32_EXT_APIC_ICR = 0x830"

text \<open>\<^verbatim>\<open>sizeof(struct lapic_regs)\<close>: 256 registers of 4 bytes, rounded up to the alignment of a page.\<close>

definition sizeof_lapic_regs :: u32 where "sizeof_lapic_regs = 0x1000"

subsection \<open>Destinations\<close>

text \<open>The loop with \<^verbatim>\<open>break\<close>: the first virtual CPU that is not offline and has the ID.\<close>

definition vm_apicid2vcpu_id :: "u16 \<Rightarrow> u32 \<Rightarrow> hv \<Rightarrow> u16" where
  "vm_apicid2vcpu_id vm lapicid h =
     (case find (\<lambda>i. vc_state (hv_vcpus h vm (of_nat i)) \<noteq> VCPU_OFFLINE \<and>
                     vlapic_get_apicid (vlapic (hv_vcpus h vm (of_nat i))) = lapicid)
             [0..<unat (hv_created h vm)] of
        None \<Rightarrow> INVALID_CPU_ID
      | Some i \<Rightarrow> vcpu_id (hv_vcpus h vm (of_nat i)))"

definition set_dest_mask_phys :: "u16 \<Rightarrow> u64 \<Rightarrow> u32 \<Rightarrow> hv \<Rightarrow> u64" where
  "set_dest_mask_phys vm dmask dest h =
     (let v = vm_apicid2vcpu_id vm dest h
      in if v < hv_created h vm then bitmap_set_nolock v dmask else dmask)"

definition vlapic_calc_dest :: "u16 \<Rightarrow> u32 \<Rightarrow> hv \<Rightarrow> u64" where
  "vlapic_calc_dest vm dest h = set_dest_mask_phys vm 0 dest h"

subsection \<open>INIT and SIPI\<close>

definition vlapic_process_init_sipi :: "u16 \<Rightarrow> u16 \<Rightarrow> u16 \<Rightarrow> u32 \<Rightarrow> u32 \<Rightarrow> hv \<Rightarrow> hv option" where
  "vlapic_process_init_sipi cpu vm v mode icr_low h =
     (if vcpu_id (hv_vcpus h vm v) \<noteq> BOOT_CPU_ID then
        if mode = APIC_DELMODE_INIT then
          (case pause_vcpu cpu vm v h of
             None \<Rightarrow> None
           | Some h1 \<Rightarrow> Some (upd_vcpu vm v (\<lambda>c. c\<lparr>nr_sipi := 1\<rparr>) (reset_vcpu cpu vm v h1)))
        else if mode = APIC_DELMODE_STARTUP then
          Some (if vc_state (hv_vcpus h vm v) = VCPU_INIT \<and> nr_sipi (hv_vcpus h vm v) \<noteq> 0 then
                  let h1 = upd_vcpu vm v (\<lambda>c. c\<lparr>nr_sipi := nr_sipi c - 1\<rparr>) h;
                      h2 = set_vcpu_startup_entry (ucast (push_bit 12 (icr_low AND APIC_VECTOR_MASK))) vm v h1;
                      h3 = vcpu_make_request cpu vm v ACRN_REQUEST_INIT_VMCS h2
                  in launch_vcpu cpu vm v h3
                else h)
        else Some h
      else Some h)"

subsection \<open>Register accesses\<close>

definition vlapic_read :: "acrn_vlapic \<Rightarrow> u32 \<Rightarrow> i32 \<times> u64" where
  "vlapic_read l offset_arg =
     (if offset_arg > sizeof_lapic_regs then (- EACCES, 0)
      else
        let offset = offset_arg AND NOT 3 in
        if offset = APIC_OFFSET_ID then (0, ucast (apic_id l))
        else if offset = APIC_OFFSET_LDR then (0, ucast (apic_ldr l))
        else if offset = APIC_OFFSET_ICR_LOW then (0, ucast (icr_lo l) OR push_bit 32 (ucast (icr_hi l)))
        else (- EACCES, 0))"

definition vlapic_get_apicbase :: "acrn_vlapic \<Rightarrow> u64" where
  "vlapic_get_apicbase l = msr_apicbase l"

definition x2apic_msr_to_regoff :: "u32 \<Rightarrow> u32" where
  "x2apic_msr_to_regoff msr = push_bit 4 ((msr - 0x800) AND 0x3FF)"

definition vlapic_x2apic_pt_icr_access :: "u16 \<Rightarrow> u16 \<Rightarrow> u64 \<Rightarrow> hv \<Rightarrow> (i32 \<times> hv) option" where
  "vlapic_x2apic_pt_icr_access cpu vm val h =
     (let vapic_id = ucast (drop_bit 32 val) :: u32;
          icr_low = ucast val :: u32;
          mode = icr_low AND APIC_DELMODE_MASK;
          reserved_bits = NOT (APIC_VECTOR_MASK OR APIC_DELMODE_MASK OR APIC_DESTMODE_LOG OR
                               APIC_LEVEL_MASK OR APIC_TRIGMOD_MASK OR APIC_DEST_MASK)
      in if icr_low AND reserved_bits \<noteq> 0 then Some (-1, h)
         else
           let phys = (icr_low AND APIC_DESTMODE_LOG = 0);
               shorthand = icr_low AND APIC_DEST_MASK
           in if \<not> phys \<or> shorthand \<noteq> APIC_DEST_DESTFLD then Some (0, h)
              else
                let v = vm_apicid2vcpu_id vm vapic_id h
                in if v < hv_created h vm \<and> vc_state (hv_vcpus h vm v) \<noteq> VCPU_OFFLINE then
                     if mode = APIC_DELMODE_INIT \<or> mode = APIC_DELMODE_STARTUP then
                       map_option (\<lambda>h'. (0, h')) (vlapic_process_init_sipi cpu vm v mode icr_low h)
                     else if mode = APIC_DELMODE_LOWPR \<or> mode = APIC_DELMODE_SMI \<or>
                             mode = APIC_DELMODE_RESERVED1 \<or> mode = APIC_DELMODE_RESERVED2 then Some (0, h)
                     else Some (0, hw_op (Icr_write (hv_lapic_id h (pcpuid_from_vcpu vm v h)) icr_low) h)
                   else Some (0, h))"

definition vlapic_x2apic_read :: "acrn_vcpu \<Rightarrow> u32 \<Rightarrow> i32 \<times> u64 option" where
  "vlapic_x2apic_read vcpu msr =
     (if msr = MSR_IA32_EXT_APIC_LDR \<or> msr = MSR_IA32_EXT_XAPICID \<or> msr = MSR_IA32_EXT_APIC_ICR
      then let (e, val) = vlapic_read (vlapic vcpu) (x2apic_msr_to_regoff msr) in (e, Some val)
      else (-1, None))"

definition vlapic_x2apic_write :: "u16 \<Rightarrow> u16 \<Rightarrow> u16 \<Rightarrow> u32 \<Rightarrow> u64 \<Rightarrow> hv \<Rightarrow> (i32 \<times> hv) option" where
  "vlapic_x2apic_write cpu vm v msr val h =
     (if msr = MSR_IA32_EXT_APIC_ICR then
        let h1 = upd_vcpu vm v (\<lambda>c. c\<lparr>vlapic := (vlapic c)
              \<lparr>icr_hi := ucast (drop_bit 32 val),
               icr_lo := ucast (val AND APIC_ICR_MASK) OR APIC_LEVEL_MASK\<rparr>\<rparr>) h
        in vlapic_x2apic_pt_icr_access cpu vm val h1
      else Some (-1, h))"

subsection \<open>The INIT-SIPI sequence\<close>

lemma init_life:
  assumes i: "life_inv h" and p: "vlapic_process_init_sipi cpu vm v mode icr_low h = Some h'"
  shows "life_inv h'"
proof -
  have vm: "life_inv (upd_vcpu vm v f h)" if "life_inv h" "\<And>c. vc_state (f c) = vc_state c" for f h
    using that by (auto simp: life_inv_def upd_vcpu_def)
  have entry: "life_inv (set_vcpu_startup_entry e vm v h)" if "life_inv h" for e h
  proof -
    have "life_inv (upd_ext vm v g h)" for g
      using that by (simp add: life_inv_def is_blocked_def)
    then show ?thesis
      by (simp add: set_vcpu_startup_entry_def Let_def vm vcpu_set_rip_def)
  qed
  show ?thesis
    using p i pause_vcpu_life [OF i] reset_vcpu_life
    by (auto simp: vlapic_process_init_sipi_def Let_def split: if_splits option.splits
        intro!: vm launch_vcpu_life make_request_life entry)
qed

lemma pause_same_vcpu:
  assumes i: "life_inv h" and p: "pause_vcpu cpu vm v h = Some h'"
  shows "pending_req (hv_vcpus h' vm v) = pending_req (hv_vcpus h vm v)"
    "vcpu_id (hv_vcpus h' vm v) = vcpu_id (hv_vcpus h vm v)" "vlapic (hv_vcpus h' vm v) = vlapic (hv_vcpus h vm v)"
    "(vm', v') \<noteq> (vm, v) \<Longrightarrow> hv_vcpus h' vm' v' = hv_vcpus h vm' v'" "hv_created h' = hv_created h" "hv_hw h' = hv_hw h"
  using pause_vcpu_ok [OF i, of cpu vm v] p by (auto simp: zombie_def upd_vcpu_def split: if_splits)

lemma sipi_entry:
  fixes w :: u32
  shows "(ucast (drop_bit 4 (ucast (push_bit 12 (w AND APIC_VECTOR_MASK)) :: u64) AND 0xFFFF) :: u16) =
      push_bit 8 (ucast (w AND 0xFF))"
    "push_bit 4 (ucast (push_bit 8 (ucast (w AND 0xFF)) :: u16)) = (push_bit 12 (ucast (w AND 0xFF)) :: u64)"
proof -
  have m: "(0xFF :: u32) = mask 8" "(0xFFFF :: u64) = mask 16"
    by (simp_all add: mask_eq_exp_minus_1)
  show "(ucast (drop_bit 4 (ucast (push_bit 12 (w AND APIC_VECTOR_MASK)) :: u64) AND 0xFFFF) :: u16) =
      push_bit 8 (ucast (w AND 0xFF))"
    unfolding APIC_VECTOR_MASK_def m by (rule bit_eqI) (auto simp: bit_simps)
  show "push_bit 4 (ucast (push_bit 8 (ucast (w AND 0xFF)) :: u16)) = (push_bit 12 (ucast (w AND 0xFF)) :: u64)"
    unfolding m by (rule bit_eqI) (auto simp: bit_simps)
qed


lemma life_hv0: "life_inv (hv0 ops eptp)"
  using booted_inv by (simp add: life_inv_def hv0_def) (simp add: booted_def is_blocked_def)

lemma life_hv_ex: "life_inv hv_ex"
  unfolding hv_ex_def by (rule life_hv0)


subsection \<open>Interprocessor interrupts\<close>

text \<open>
  What \<^verbatim>\<open>create_vcpu\<close> establishes: virtual CPU \<open>v\<close> has \<^verbatim>\<open>vcpu_id\<close> and APIC ID \<open>v\<close>, and
  there are at most \<^verbatim>\<open>MAX_VCPUS_PER_VM\<close> of them.
\<close>

definition vcpu_ids_ok :: "u16 \<Rightarrow> hv \<Rightarrow> bool" where
  "vcpu_ids_ok vm h \<longleftrightarrow> hv_created h vm \<le> MAX_VCPUS_PER_VM \<and>
     (\<forall>v. v < hv_created h vm \<longrightarrow> vcpu_id (hv_vcpus h vm v) = v \<and> apic_id (vlapic (hv_vcpus h vm v)) = ucast v)"

lemma ucast_u16_u32_inject: "(ucast (a :: u16) :: u32) = ucast b \<Longrightarrow> a = b"
  by transfer (simp add: take_bit_eq_mod)

lemma apicid_find:
  assumes ids: "vcpu_ids_ok vm h"
  shows "vm_apicid2vcpu_id vm d h = INVALID_CPU_ID \<and>
       (\<nexists>v. v < hv_created h vm \<and> vc_state (hv_vcpus h vm v) \<noteq> VCPU_OFFLINE \<and> ucast v = d) \<or>
     vm_apicid2vcpu_id vm d h < hv_created h vm \<and>
       vc_state (hv_vcpus h vm (vm_apicid2vcpu_id vm d h)) \<noteq> VCPU_OFFLINE \<and> ucast (vm_apicid2vcpu_id vm d h) = d"
proof -
  let ?P = "\<lambda>i. vc_state (hv_vcpus h vm (of_nat i)) \<noteq> VCPU_OFFLINE \<and>
    vlapic_get_apicid (vlapic (hv_vcpus h vm (of_nat i))) = d" and ?n = "unat (hv_created h vm)"
  have lt: "of_nat i < hv_created h vm" if "i < ?n" for i
  proof -
    have "unat (of_nat i :: u16) \<le> i"
      by (simp add: unat_of_nat)
    with that show ?thesis
      by (simp add: word_less_nat_alt)
  qed
  have vid: "vcpu_id (hv_vcpus h vm (of_nat i)) = of_nat i" "apic_id (vlapic (hv_vcpus h vm (of_nat i))) = ucast (of_nat i :: u16)"
    if "i < ?n" for i
    using ids lt [OF that] by (simp_all add: vcpu_ids_ok_def)
  show ?thesis
  proof (cases "find ?P [0..<?n]")
    case None
    then have none: "\<not> ?P i" if "i < ?n" for i
      using that by (auto simp: find_None_iff)
    have "\<not> (vc_state (hv_vcpus h vm v) \<noteq> VCPU_OFFLINE \<and> ucast v = d)" if "v < hv_created h vm" for v
      using none [of "unat v"] vid [of "unat v"] that by (simp add: vlapic_get_apicid_def word_less_nat_alt)
    then show ?thesis
      using None by (auto simp: vm_apicid2vcpu_id_def)
  next
    case (Some i)
    then have "i < ?n" "?P i"
      by (auto simp: find_Some_iff)
    then show ?thesis
      using Some vid [of i] lt [of i] by (simp add: vm_apicid2vcpu_id_def vlapic_get_apicid_def)
  qed
qed

lemma apicid_hit:
  assumes ids: "vcpu_ids_ok vm h" and v: "v < hv_created h vm" "vc_state (hv_vcpus h vm v) \<noteq> VCPU_OFFLINE"
  shows "vm_apicid2vcpu_id vm (ucast v) h = v"
  using apicid_find [OF ids, of "ucast v"] v by (auto dest: ucast_u16_u32_inject)

lemma process_init_sipi_frame:
  assumes i: "life_inv h"
  shows "\<exists>h'. vlapic_process_init_sipi cpu vm v mode icr h = Some h' \<and> life_inv h' \<and> hv_hw h' = hv_hw h \<and>
     (\<forall>vm' v'. (vm', v') \<noteq> (vm, v) \<longrightarrow> hv_vcpus h' vm' v' = hv_vcpus h vm' v')"
proof -
  obtain h0 where h0: "pause_vcpu cpu vm v h = Some h0"
    using pause_vcpu_ok [OF i] by blast
  have "\<exists>h'. vlapic_process_init_sipi cpu vm v mode icr h = Some h'"
    using h0 by (auto simp: vlapic_process_init_sipi_def)
  then obtain h' where h': "vlapic_process_init_sipi cpu vm v mode icr h = Some h'" ..
  have "hv_hw h' = hv_hw h \<and> ((vm', v') \<noteq> (vm, v) \<longrightarrow> hv_vcpus h' vm' v' = hv_vcpus h vm' v')" for vm' v'
    using h' h0 pause_same_vcpu [OF i h0] reset_vcpu_obs(7) [of vm' v' vm v cpu h0]
    by (auto simp: vlapic_process_init_sipi_def Let_def reset_vcpu_obs launch_vcpu_def vcpu_make_request_def
        kick_vcpu_def set_vcpu_startup_entry_def upd_vcpu_other split: if_splits)
  with h' init_life [OF i h'] show ?thesis by blast
qed



subsection \<open>Executions of virtual CPUs\<close>

text \<open>
  The operations on the state of a virtual CPU, on any physical CPU and in any order: scheduling,
  requests, launching, pausing, and the ICR accesses of the guest.
\<close>

inductive life_step :: "hv \<Rightarrow> hv \<Rightarrow> bool" where
  life_schedule: "schedule p (hv_sched h) = Some s \<Longrightarrow> life_step h (h\<lparr>hv_sched := s\<rparr>)"
| life_request: "life_step h (vcpu_make_request cpu vm v e h)"
| life_launch: "life_step h (launch_vcpu cpu vm v h)"
| life_pause: "pause_vcpu cpu vm v h = Some h' \<Longrightarrow> life_step h h'"
| life_init_sipi: "vlapic_process_init_sipi cpu vm v mode icr h = Some h' \<Longrightarrow> life_step h h'"
| life_icr: "vlapic_x2apic_write cpu vm v msr val h = Some (ret, h') \<Longrightarrow> life_step h h'"

inductive_cases life_stepE: "life_step h h'"

lemma icr_access_life:
  assumes i: "life_inv h" and acc: "vlapic_x2apic_pt_icr_access cpu vm val h = Some (ret, h')"
  shows "life_inv h'"
proof -
  have "life_inv (hw_op e h)" for e
    using i by (simp add: hw_op_def life_inv_def)
  then show ?thesis
    using acc i init_life [OF i] by (auto simp: vlapic_x2apic_pt_icr_access_def Let_def split: if_splits)
qed

lemma icr_write_life:
  assumes i: "life_inv h" and w: "vlapic_x2apic_write cpu vm v msr val h = Some (ret, h')"
  shows "life_inv h'"
proof (cases "msr = MSR_IA32_EXT_APIC_ICR")
  case True
  let ?h = "upd_vcpu vm v (\<lambda>c. c\<lparr>vlapic := (vlapic c)\<lparr>icr_hi := ucast (drop_bit 32 val),
     icr_lo := ucast (val AND APIC_ICR_MASK) OR APIC_LEVEL_MASK\<rparr>\<rparr>) h"
  have "life_inv ?h"
    using i by (auto simp: life_inv_def upd_vcpu_def)
  moreover have "vlapic_x2apic_pt_icr_access cpu vm val ?h = Some (ret, h')"
    using w True by (simp add: vlapic_x2apic_write_def)
  ultimately show ?thesis
    by (rule icr_access_life)
next
  case False
  then show ?thesis
    using i w by (simp add: vlapic_x2apic_write_def)
qed

lemma life_step_inv:
  assumes st: "life_step h h'" and i: "life_inv h"
  shows "life_inv h'"
  using st
proof cases
  case life_schedule
  then show ?thesis using sched_step_life(1) [OF i] by simp
next
  case life_request
  then show ?thesis using make_request_life [OF i] by simp
next
  case life_launch
  then show ?thesis using launch_vcpu_life [OF i] by simp
next
  case life_pause
  then show ?thesis by (rule pause_vcpu_life(1) [OF i])
next
  case life_init_sipi
  then show ?thesis by (rule init_life [OF i])
next
  case life_icr
  then show ?thesis by (rule icr_write_life [OF i])
qed

lemma life_steps_inv:
  assumes "life_step\<^sup>*\<^sup>* h h'" "life_inv h"
  shows "life_inv h'"
  using assms
proof (induction rule: rtranclp_induct)
  case (step y z)
  then show ?case using life_step_inv by blast
qed



end
