(* ===== verification/Acrn_Pci.thy ===== *)
theory Acrn_Pci
  imports Acrn_Dmar Acrn_Vlapic
begin

text \<open>
  The physical PCI configuration space (\<^verbatim>\<open>src/hypervisor/hw/pci.c\<close>), the state the virtual devices
  of a VM share, and the remapping of passthrough interrupts
  (\<^verbatim>\<open>src/hypervisor/arch/x86/guest/assign.c\<close>). Every physical port access is an event; the value a
  port returns after a history of accesses is a parameter of the board. \<open>None\<close>: a panic, an access
  outside an array or a wait without end.
\<close>

definition PCI_BAR_COUNT :: u32 where "PCI_BAR_COUNT = 0x6"
definition PCI_REGMAX :: u32 where "PCI_REGMAX = 0xFF"
definition PCI_HDRMAX :: u32 where "PCI_HDRMAX = 0x3F"
definition PCI_CONFIG_ADDR :: u32 where "PCI_CONFIG_ADDR = 0xCF8"
definition PCI_CONFIG_DATA :: u32 where "PCI_CONFIG_DATA = 0xCFC"
definition PCI_CFG_ENABLE :: u32 where "PCI_CFG_ENABLE = 0x80000000"
definition PCIR_VENDOR :: u32 where "PCIR_VENDOR = 0x00"
definition PCIR_DEVICE :: u32 where "PCIR_DEVICE = 0x02"
definition PCIR_COMMAND :: u32 where "PCIR_COMMAND = 0x04"
definition PCIM_CMD_INTXDIS :: u32 where "PCIM_CMD_INTXDIS = 0x400"
definition PCIR_REVID :: u32 where "PCIR_REVID = 0x08"
definition PCIR_SUBCLASS :: u32 where "PCIR_SUBCLASS = 0x0A"
definition PCIR_CLASS :: u32 where "PCIR_CLASS = 0x0B"
definition PCIR_HDRTYPE :: u32 where "PCIR_HDRTYPE = 0x0E"
definition PCIM_HDRTYPE_NORMAL :: u32 where "PCIM_HDRTYPE_NORMAL = 0x00"
definition PCIR_BARS :: u32 where "PCIR_BARS = 0x10"
definition PCIM_BAR_SPACE :: u32 where "PCIM_BAR_SPACE = 0x01"
definition PCIM_BAR_IO_SPACE :: u32 where "PCIM_BAR_IO_SPACE = 0x01"
definition PCIM_BAR_MEM_TYPE :: u32 where "PCIM_BAR_MEM_TYPE = 0x06"
definition PCIM_BAR_MEM_32 :: u32 where "PCIM_BAR_MEM_32 = 0x00"
definition PCIM_BAR_MEM_64 :: u32 where "PCIM_BAR_MEM_64 = 0x04"
definition PCIR_CAP_PTR :: u32 where "PCIR_CAP_PTR = 0x34"
definition PCI_BASE_ADDRESS_MEM_MASK :: u64 where "PCI_BASE_ADDRESS_MEM_MASK = NOT 0x0f"
definition PCICAP_ID :: u32 where "PCICAP_ID = 0x0"
definition PCICAP_NEXTPTR :: u32 where "PCICAP_NEXTPTR = 0x1"
definition PCIY_MSI :: u8 where "PCIY_MSI = 0x05"
definition PCIR_MSI_CTRL :: u32 where "PCIR_MSI_CTRL = 0x02"
definition PCIM_MSICTRL_64BIT :: u32 where "PCIM_MSICTRL_64BIT = 0x80"
definition PCIM_MSICTRL_MSI_ENABLE :: u32 where "PCIM_MSICTRL_MSI_ENABLE = 0x01"
definition PCIR_MSI_ADDR :: u32 where "PCIR_MSI_ADDR = 0x4"
definition PCIR_MSI_ADDR_HIGH :: u32 where "PCIR_MSI_ADDR_HIGH = 0x8"
definition PCIR_MSI_DATA :: u32 where "PCIR_MSI_DATA = 0x8"
definition PCIR_MSI_DATA_64BIT :: u32 where "PCIR_MSI_DATA_64BIT = 0xC"
definition PCIR_INTERRUPT_PIN :: u32 where "PCIR_INTERRUPT_PIN = 0x3D"
definition PCIR_INTERRUPT_LINE :: u32 where "PCIR_INTERRUPT_LINE = 0x3C"
definition INTERRUPT_LINE_NO_CONNECTION :: u8 where "INTERRUPT_LINE_NO_CONNECTION = 0xFF"
definition MSI_DATA_DELIVER_MODE_MASK :: u32 where "MSI_DATA_DELIVER_MODE_MASK = push_bit 8 7"
definition MSI_DATA_TRIGGER_MODE :: u32 where "MSI_DATA_TRIGGER_MODE = push_bit 15 1"
definition MSI_DATA_LEVEL_TRIGGER_MODE :: u32 where "MSI_DATA_LEVEL_TRIGGER_MODE = push_bit 14 1"
definition MSG_INITIAL_VALUE :: u32 where "MSG_INITIAL_VALUE = 0xFEE00000"
definition PCIM_MSICTRL_MMC_MASK :: u32 where "PCIM_MSICTRL_MMC_MASK = 0x000E"
definition PCIM_MSICTRL_MME_MASK :: u32 where "PCIM_MSICTRL_MME_MASK = 0x0070"
definition PCIC_BRIDGE :: u8 where "PCIC_BRIDGE = 0x06"
definition PCIS_BRIDGE_HOST :: u8 where "PCIS_BRIDGE_HOST = 0x00"
definition PCIM_NEXTPTR :: u32 where "PCIM_NEXTPTR = 0xFF"
definition PCI_USB_CONTROLLER :: u16 where "PCI_USB_CONTROLLER = 0xA0"
definition PCI_ETH_CONTROLLER :: u16 where "PCI_ETH_CONTROLLER = 0xFE"
definition PCI_DISABLED_CONFIG_ADDR :: u32 where "PCI_DISABLED_CONFIG_ADDR = 0x00FFFF00"
definition CONFIG_MAX_PCI_DEV_NUM :: nat where "CONFIG_MAX_PCI_DEV_NUM = 96"

subsection \<open>Virtual devices of a VM\<close>

datatype pci_bar_type = PCIBAR_NONE | PCIBAR_IO_SPACE | PCIBAR_MEM32 | PCIBAR_MEM64 | PCIBAR_MEM64HI

record pci_bar =
  bar_type :: pci_bar_type
  bar_size :: u64
  bar_base :: u64
  bar_base_hpa :: u64
  bar_fixed :: u32
  bar_mask :: u32

record pci_msi =
  is_64bit :: bool
  capoff :: u32
  caplen :: u32

text \<open>The tables of device operations: \<^verbatim>\<open>vhostbridge_ops\<close> and \<^verbatim>\<open>pci_pt_dev_ops\<close>.\<close>

datatype pci_vdev_ops = Vhostbridge_ops | Pci_pt_dev_ops

datatype pci_emu_type = PCI_DEV_TYPE_PTDEV | PCI_DEV_TYPE_HVEMUL

record acrn_vm_pci_dev_config =
  cfg_emu_type :: pci_emu_type
  cfg_vbdf :: u16
  cfg_pbdf :: u16
  cfg_vbar_base :: "u64 list"
  cfg_vdev_ops :: "pci_vdev_ops option"

text \<open>\<^verbatim>\<open>cfgdata\<close> is the list of its 256 bytes; the 16 and 32 bit views are little endian.\<close>

record pci_vdev =
  vd_bdf :: u16
  vd_pbdf :: u16
  cfgdata :: "u8 list"
  nr_bars :: u32
  vd_bar :: "pci_bar list"
  vd_msi :: pci_msi
  pci_dev_config :: acrn_vm_pci_dev_config
  vdev_ops :: pci_vdev_ops

record acrn_vpci =
  vpci_addr :: u32
  pci_vdevs :: "pci_vdev list"

subsection \<open>The machine\<close>

datatype pio_event = Pio_write nat u16 u32 | Pio_read nat u16

record pio_request =
  direction :: u32
  pio_address :: u64
  pio_size :: u64
  pio_value :: u32

text \<open>The read and write handlers that are registered for a range of ports.\<close>

datatype io_handler = Pci_cfgaddr | Pci_cfgdata | Vrtc

record vm_io_handler_desc =
  port_start :: u16
  port_end :: u16
  io_fn :: "io_handler option"

record machine =
  m_hv :: hv
  m_vtd :: vtd
  m_pio :: "pio_event list"
  m_vpci :: "u16 \<Rightarrow> acrn_vpci"
  m_iommu :: "u16 \<Rightarrow> u16"
  m_emul_pio :: "u16 \<Rightarrow> nat \<Rightarrow> vm_io_handler_desc"
  m_req :: "u16 \<Rightarrow> u16 \<Rightarrow> pio_request"
  m_vrtc_offset :: "u16 \<Rightarrow> u8"

record board =
  bd_vtd :: vtd_env
  bd_port :: "pio_event list \<Rightarrow> nat \<Rightarrow> u16 \<Rightarrow> u32"
  bd_lapic_ldr :: "u16 \<Rightarrow> u32"
  bd_pci_devs :: "u16 \<Rightarrow> acrn_vm_pci_dev_config list"

definition pio_write8 :: "u8 \<Rightarrow> u16 \<Rightarrow> machine \<Rightarrow> machine" where
  "pio_write8 v port m = m\<lparr>m_pio := Pio_write 1 port (ucast v) # m_pio m\<rparr>"
definition pio_write16 :: "u16 \<Rightarrow> u16 \<Rightarrow> machine \<Rightarrow> machine" where
  "pio_write16 v port m = m\<lparr>m_pio := Pio_write 2 port (ucast v) # m_pio m\<rparr>"
definition pio_write32 :: "u32 \<Rightarrow> u16 \<Rightarrow> machine \<Rightarrow> machine" where
  "pio_write32 v port m = m\<lparr>m_pio := Pio_write 4 port v # m_pio m\<rparr>"
definition pio_read8 :: "board \<Rightarrow> u16 \<Rightarrow> machine \<Rightarrow> u8 \<times> machine" where
  "pio_read8 bd port m = (ucast (bd_port bd (m_pio m) 1 port), m\<lparr>m_pio := Pio_read 1 port # m_pio m\<rparr>)"
definition pio_read16 :: "board \<Rightarrow> u16 \<Rightarrow> machine \<Rightarrow> u16 \<times> machine" where
  "pio_read16 bd port m = (ucast (bd_port bd (m_pio m) 2 port), m\<lparr>m_pio := Pio_read 2 port # m_pio m\<rparr>)"
definition pio_read32 :: "board \<Rightarrow> u16 \<Rightarrow> machine \<Rightarrow> u32 \<times> machine" where
  "pio_read32 bd port m = (bd_port bd (m_pio m) 4 port, m\<lparr>m_pio := Pio_read 4 port # m_pio m\<rparr>)"

subsection \<open>Physical configuration space\<close>

definition pci_pdev_calc_address :: "u16 \<Rightarrow> u32 \<Rightarrow> u32" where
  "pci_pdev_calc_address bdf offset = push_bit 8 (ucast bdf) OR (offset OR PCI_CFG_ENABLE)"

definition data_port :: "u32 \<Rightarrow> u16" where
  "data_port offset = ucast PCI_CONFIG_DATA + ucast (offset AND 3)"

definition pci_pdev_read_cfg :: "board \<Rightarrow> u16 \<Rightarrow> u32 \<Rightarrow> u32 \<Rightarrow> machine \<Rightarrow> u32 \<times> machine" where
  "pci_pdev_read_cfg bd bdf offset bytes m =
     (let addr = pci_pdev_calc_address bdf offset;
          m1 = pio_write32 addr (ucast PCI_CONFIG_ADDR) m
      in if bytes = 1 then let (v, m2) = pio_read8 bd (data_port offset) m1 in (ucast v, m2)
         else if bytes = 2 then let (v, m2) = pio_read16 bd (data_port offset) m1 in (ucast v, m2)
         else pio_read32 bd (data_port offset) m1)"

definition pci_pdev_write_cfg :: "u16 \<Rightarrow> u32 \<Rightarrow> u32 \<Rightarrow> u32 \<Rightarrow> machine \<Rightarrow> machine" where
  "pci_pdev_write_cfg bdf offset bytes val m =
     (let addr = pci_pdev_calc_address bdf offset;
          m1 = pio_write32 addr (ucast PCI_CONFIG_ADDR) m
      in if bytes = 1 then pio_write8 (ucast val) (data_port offset) m1
         else if bytes = 2 then pio_write16 (ucast val) (data_port offset) m1
         else pio_write32 val (data_port offset) m1)"

subsection \<open>Passthrough interrupts\<close>

definition MSI_ADDR_RH :: u64 where "MSI_ADDR_RH = 1"
definition MSI_ADDR_DESTMODE_LOGICAL :: u64 where "MSI_ADDR_DESTMODE_LOGICAL = 1"
definition MSI_ADDR_DESTMODE_PHYS :: u64 where "MSI_ADDR_DESTMODE_PHYS = 0"
definition MSI_DATA_DELMODE_FIXED :: u64 where "MSI_DATA_DELMODE_FIXED = 0"
definition MSI_DATA_DELMODE_LOPRI :: u64 where "MSI_DATA_DELMODE_LOPRI = 1"

text \<open>The registers by their \<^verbatim>\<open>full\<close> views; the bit fields are read with \<open>bitfield_get\<close>.\<close>

record ptirq_msi_info =
  vmsi_addr :: u64
  vmsi_data :: u32
  pmsi_addr :: u64
  pmsi_data :: u32

function calculate_logical_dest_loop :: "board \<Rightarrow> u64 \<Rightarrow> u32 \<Rightarrow> u32" where
  "calculate_logical_dest_loop bd pcpu_mask dest_mask =
     (let pcpu_id = ffs64 pcpu_mask
      in if pcpu_id < of_nat MAX_PCPU_NUM
         then calculate_logical_dest_loop bd (bitmap_clear_nolock pcpu_id pcpu_mask) (dest_mask OR bd_lapic_ldr bd pcpu_id)
         else dest_mask)"
  by pat_completeness auto

lemma ffs64_found:
  assumes "unat (ffs64 w) < 64"
  shows "bit w (unat (ffs64 w))" "\<And>i. i < unat (ffs64 w) \<Longrightarrow> \<not> bit w i"
proof -
  obtain n where n: "find (\<lambda>i. bit w i) [0..<64] = Some n"
    using assms by (cases "find (\<lambda>i. bit w i) [0..<64]") (simp_all add: ffs64_def INVALID_BIT_INDEX_def)
  have f: "n < 64" "bit w n" "\<forall>i<n. \<not> bit w i"
    using n by (auto simp: find_Some_iff)
  then show "bit w (unat (ffs64 w))" "\<And>i. i < unat (ffs64 w) \<Longrightarrow> \<not> bit w i"
    by (simp_all add: ffs64_def n unat_of_nat_small)
qed

lemma ffs64_none:
  assumes "\<not> unat (ffs64 w) < 64"
  shows "w = 0"
proof (rule bit_word_eqI)
  fix n assume "n < LENGTH(64)"
  moreover have "find (\<lambda>i. bit w i) [0..<64] = None"
    using assms by (cases "find (\<lambda>i. bit w i) [0..<64]") (auto simp: ffs64_def find_Some_iff unat_of_nat_small)
  ultimately show "bit w n = bit 0 n"
    by (auto simp: find_None_iff)
qed

lemma clear_first_decreases:
  assumes "ffs64 w < of_nat MAX_PCPU_NUM"
  shows "card {i. bit (bitmap_clear_nolock (ffs64 w) w) i} < card {i. bit w i}"
proof (rule psubset_card_mono)
  have small: "unat (ffs64 w) < 4"
    using assms by (simp add: MAX_PCPU_NUM_def word_less_nat_alt)
  have "{i. bit w i} \<subseteq> {..<64}"
    using bit_imp_le_length by fastforce
  then show "finite {i. bit w i}"
    by (rule finite_subset) simp
  show "{i. bit (bitmap_clear_nolock (ffs64 w) w) i} \<subset> {i. bit w i}"
    using ffs64_found(1) [of w] small by (auto simp: bit_bitmap_clear bit_nr_mod)
qed

termination calculate_logical_dest_loop
  by (relation "measure (\<lambda>(bd, w, d). card {i. bit w i})") (auto intro: clear_first_decreases [simplified])

definition calculate_logical_dest_mask :: "board \<Rightarrow> u64 \<Rightarrow> u32" where
  "calculate_logical_dest_mask bd pdmask = calculate_logical_dest_loop bd pdmask 0"

definition msi_irte_index :: "u16 \<Rightarrow> u16 \<Rightarrow> u16" where
  "msi_irte_index vm_id virt_bdf = ((virt_bdf AND 0x3F) OR push_bit 6 vm_id) AND 0xFF"

definition build_irte :: "board \<Rightarrow> u16 \<Rightarrow> ptirq_msi_info \<Rightarrow> u32 \<Rightarrow> hv \<Rightarrow> dmar_entry" where
  "build_irte bd vm msi vector h =
     (let dest = bitfield_get 12 8 (vmsi_addr msi);
          vdmask = vlapic_calc_dest vm (ucast dest) h;
          pdmask = vcpumask2pcpumask vm vdmask h;
          dm = bitfield_get 8 3 (ucast (vmsi_data msi));
          delmode = (if dm \<noteq> MSI_DATA_DELMODE_FIXED \<and> dm \<noteq> MSI_DATA_DELMODE_LOPRI then MSI_DATA_DELMODE_LOPRI else dm);
          dest_mask = calculate_logical_dest_mask bd pdmask
      in ir_set_dest (ucast dest_mask) (ir_set_rh MSI_ADDR_RH (ir_set_dest_mode MSI_ADDR_DESTMODE_LOGICAL
           (ir_set_delivery_mode delmode (ir_set_vector (ucast vector) \<lparr>lo_64 = 0, hi_64 = 0\<rparr>)))))"

definition remappable_addr :: "u16 \<Rightarrow> u64" where
  "remappable_addr index =
     bitfield_set 20 12 0xFEE (bitfield_set 5 15 (ucast index AND mask 15) (bitfield_set 4 1 1
       (bitfield_set 3 1 0 (bitfield_set 2 1 (drop_bit 15 (ucast index)) 0))))"

definition ptirq_build_physical_msi ::
  "board \<Rightarrow> u16 \<Rightarrow> ptirq_msi_info \<Rightarrow> u16 \<Rightarrow> u16 \<Rightarrow> u32 \<Rightarrow> machine \<Rightarrow> (ptirq_msi_info \<times> machine) option" where
  "ptirq_build_physical_msi bd vm msi virt_bdf phys_bdf vector m =
     (let irte = build_irte bd vm msi vector (m_hv m);
          index = msi_irte_index vm virt_bdf
      in do {
           vt \<leftarrow> dmar_assign_irte (bd_vtd bd) phys_bdf irte index (m_vtd m);
           Some (msi\<lparr>pmsi_data := 0, pmsi_addr := remappable_addr index\<rparr>, m\<lparr>m_vtd := vt\<rparr>)
         })"

definition remove_msix_remapping :: "board \<Rightarrow> u16 \<Rightarrow> u16 \<Rightarrow> u32 \<Rightarrow> machine \<Rightarrow> machine option" where
  "remove_msix_remapping bd vm virt_bdf entry_nr m =
     do {
       vt \<leftarrow> dmar_free_irte (bd_vtd bd) 0 (msi_irte_index vm virt_bdf) (m_vtd m);
       Some (m\<lparr>m_vtd := vt\<rparr>)
     }"

definition ptirq_msix_remap ::
  "board \<Rightarrow> u16 \<Rightarrow> u16 \<Rightarrow> u16 \<Rightarrow> u16 \<Rightarrow> ptirq_msi_info \<Rightarrow> machine \<Rightarrow> (ptirq_msi_info \<times> machine) option" where
  "ptirq_msix_remap bd vm virt_bdf phys_bdf entry_nr msi m =
     ptirq_build_physical_msi bd vm msi virt_bdf phys_bdf (ucast (bitfield_get 0 8 (ucast (vmsi_data msi)))) m"

fun remove_msix_loop :: "board \<Rightarrow> u16 \<Rightarrow> u16 \<Rightarrow> nat list \<Rightarrow> machine \<Rightarrow> machine option" where
  "remove_msix_loop bd vm virt_bdf [] m = Some m"
| "remove_msix_loop bd vm virt_bdf (i # is) m =
     do { m1 \<leftarrow> remove_msix_remapping bd vm virt_bdf (of_nat i) m; remove_msix_loop bd vm virt_bdf is m1 }"

definition ptirq_remove_msix_remapping :: "board \<Rightarrow> u16 \<Rightarrow> u16 \<Rightarrow> u32 \<Rightarrow> machine \<Rightarrow> machine option" where
  "ptirq_remove_msix_remapping bd vm virt_bdf vector_count m =
     remove_msix_loop bd vm virt_bdf [0..<unat vector_count] m"

end
