(* ===== verification/Acrn_Ept.thy ===== *)
theory Acrn_Ept
  imports Acrn_Paging_Ops Acrn_Virq
begin

text \<open>
  The memory of a VM: \<^verbatim>\<open>src/hypervisor/arch/x86/guest/ept.c\<close> and the address
  translation of \<^verbatim>\<open>src/hypervisor/arch/x86/guest/guest_memory.c\<close>.

  The EPT operations add, modify and delete memory regions of the guest-physical address space
  and ask every virtual CPU of the VM to flush its cached translations. An operation that returns
  \<open>hv option\<close> is \<open>None\<close> where the page-table function it calls does not return.
\<close>

definition INVALID_HPA :: u64 where "INVALID_HPA = push_bit 52 1"

definition get_ept_entry :: "u16 \<Rightarrow> hv \<Rightarrow> u64" where
  "get_ept_entry vm h = hv_eptp h vm"

definition destroy_ept :: "u16 \<Rightarrow> hv \<Rightarrow> hv" where
  "destroy_ept vm h =
     (if hv_eptp h vm \<noteq> 0 then h\<lparr>hv_pg := memset_page (hv_eptp h vm) (hv_pg h)\<rparr> else h)"

text \<open>The loop that asks for the flush at the end of the three operations.\<close>

definition request_ept_flush :: "u16 \<Rightarrow> u16 \<Rightarrow> hv \<Rightarrow> hv" where
  "request_ept_flush cpu vm h =
     foreach_vcpu vm (\<lambda>i. vcpu_make_request cpu vm i ACRN_REQUEST_EPT_FLUSH) h"

text \<open>A cacheable mapping gets the snoop bit.\<close>

definition snoop_prot :: "u64 \<Rightarrow> u64" where
  "snoop_prot prot = (if prot AND EPT_MT_MASK \<noteq> EPT_UNCACHED then prot OR EPT_SNOOP_CTRL else prot)"

definition ept_add_mr :: "u16 \<Rightarrow> u16 \<Rightarrow> u64 \<Rightarrow> u64 \<Rightarrow> u64 \<Rightarrow> u64 \<Rightarrow> u64 \<Rightarrow> hv \<Rightarrow> hv option" where
  "ept_add_mr cpu vm pml4_page hpa gpa sz prot_orig h =
     (case mmu_add pml4_page hpa gpa sz (snoop_prot prot_orig) (hv_ept_ops h vm) (hv_pg h) of
        None \<Rightarrow> None
      | Some pg \<Rightarrow> Some (request_ept_flush cpu vm (h\<lparr>hv_pg := pg\<rparr>)))"

definition ept_modify_mr :: "u16 \<Rightarrow> u16 \<Rightarrow> u64 \<Rightarrow> u64 \<Rightarrow> u64 \<Rightarrow> u64 \<Rightarrow> u64 \<Rightarrow> hv \<Rightarrow> hv option" where
  "ept_modify_mr cpu vm pml4_page gpa sz prot_set prot_clr h =
     (case mmu_modify_or_del pml4_page gpa sz (snoop_prot prot_set) prot_clr (hv_ept_ops h vm) MR_MODIFY (hv_pg h) of
        None \<Rightarrow> None
      | Some pg \<Rightarrow> Some (request_ept_flush cpu vm (h\<lparr>hv_pg := pg\<rparr>)))"

definition ept_del_mr :: "u16 \<Rightarrow> u16 \<Rightarrow> u64 \<Rightarrow> u64 \<Rightarrow> u64 \<Rightarrow> hv \<Rightarrow> hv option" where
  "ept_del_mr cpu vm pml4_page gpa sz h =
     (case mmu_modify_or_del pml4_page gpa sz 0 0 (hv_ept_ops h vm) MR_DEL (hv_pg h) of
        None \<Rightarrow> None
      | Some pg \<Rightarrow> Some (request_ept_flush cpu vm (h\<lparr>hv_pg := pg\<rparr>)))"

text \<open>\<^verbatim>\<open>flush_address_space\<close> of mmu.c: one cache line of 64 bytes after the other.\<close>

definition flush_address_space :: "u64 \<Rightarrow> u64 \<Rightarrow> pgst \<Rightarrow> pgst" where
  "flush_address_space addr sz s =
     fold (\<lambda>i s. s\<lparr>pg_flushed := (addr + 64 * of_nat i) # pg_flushed s\<rparr>) [0..<(unat sz + 63) div 64] s"

definition ept_flush_leaf_page :: "u64 \<Rightarrow> u64 \<Rightarrow> pgst \<Rightarrow> pgst" where
  "ept_flush_leaf_page pge sz s =
     (if pg_mem s pge AND EPT_MT_MASK \<noteq> EPT_UNCACHED
      then flush_address_space (hpa2hva (pg_mem s pge AND NOT (sz - 1))) sz s else s)"

definition walk_ept_table :: "u16 \<Rightarrow> (u64 \<Rightarrow> u64 \<Rightarrow> pgst \<Rightarrow> pgst) \<Rightarrow> hv \<Rightarrow> hv" where
  "walk_ept_table vm cb h =
     h\<lparr>hv_pg := walk_page_table (get_ept_entry vm h) (hv_ept_ops h vm) cb (hv_pg h)\<rparr>"

subsection \<open>Translation (guest\_memory.c)\<close>

text \<open>The host address, and the page size that is stored unless the address is invalid.\<close>

definition local_gpa2hpa :: "u16 \<Rightarrow> u64 \<Rightarrow> hv \<Rightarrow> u64 \<times> u32 option" where
  "local_gpa2hpa vm gpa h =
     (let (hpa, pg_size) =
        (case lookup_address (get_ept_entry vm h) gpa (hv_ept_ops h vm) (hv_pg h) of
           None \<Rightarrow> (INVALID_HPA, 0)
         | Some (pgentry, pg_size) \<Rightarrow>
             (((pg_mem (hv_pg h) pgentry AND NOT EPT_PFN_HIGH_MASK) AND NOT (pg_size - 1)) OR
               (gpa AND (pg_size - 1)), pg_size))
      in (hpa, if hpa \<noteq> INVALID_HPA then Some (ucast pg_size) else None))"

definition gpa2hpa :: "u16 \<Rightarrow> u64 \<Rightarrow> hv \<Rightarrow> u64" where
  "gpa2hpa vm gpa h = fst (local_gpa2hpa vm gpa h)"

definition gpa2hva :: "u16 \<Rightarrow> u64 \<Rightarrow> hv \<Rightarrow> u64" where
  "gpa2hva vm x h = (let hpa = gpa2hpa vm x h in if hpa = INVALID_HPA then 0 else hpa2hva hpa)"

subsection \<open>The EPT of a VM as an abstract map\<close>

text \<open>
  What \<^verbatim>\<open>create_vm\<close> sets up for a VM and the EPT operations keep: the operations and the
  root of its own static page arrays, and well-formed tables. \<open>ept_map\<close> is the abstract view: the
  host address and the rights of a guest address.
\<close>

definition ept_wf :: "(u16 \<Rightarrow> pgtable_pages_info) \<Rightarrow> bool \<Rightarrow> nat \<Rightarrow> u16 \<Rightarrow> hv \<Rightarrow> bool" where
  "ept_wf pages f4k lim vm h \<longleftrightarrow>
     hv_ept_ops h vm = init_ept_mem_ops pages f4k vm (is_safety_vm vm) \<and>
     hv_eptp h vm = pml4_base (pages vm) \<and> pgwf (hv_ept_ops h vm) lim (hv_pg h)"

definition ept_map :: "bool \<Rightarrow> u16 \<Rightarrow> hv \<Rightarrow> nat \<Rightarrow> (nat \<times> u64) option" where
  "ept_map f4k vm h g = tr (hv_ept_ops h vm) (ept_rmask f4k) (hv_pg h) IA32E_PML4 g"

lemma ept_info [simp]:
  "info (init_ept_mem_ops pages f4k vm enf) = pages vm"
  "get_pt_page (init_ept_mem_ops pages f4k vm enf) = Some ept_get_pt_page"
  by (simp_all add: init_ept_mem_ops_def)

lemma hpa_of_entry:
  fixes e :: u64
  assumes e: "e AND (mask 52 AND NOT (mask 39)) = 0" and k: "k \<le> 39" and g: "g < 2 ^ 64"
  defines "a \<equiv> unat (e AND (mask 39 AND NOT (mask k))) + g mod 2 ^ k"
  shows "((e AND NOT EPT_PFN_HIGH_MASK) AND NOT (of_nat (2 ^ k) - 1)) OR (of_nat g AND (of_nat (2 ^ k) - 1)) = of_nat a"
    "a < 2 ^ 52"
proof -
  have m: "NOT EPT_PFN_HIGH_MASK = mask 52" "of_nat (2 ^ k) - 1 = (mask k :: u64)"
    by (simp_all add: EPT_PFN_HIGH_MASK_def mask_eq_exp_minus_1)
  have nb: "\<not> bit (e AND (mask 52 AND NOT (mask 39))) i" for i
    by (simp add: e)
  have x: "(e AND mask 52) AND NOT (mask k) = e AND (mask 39 AND NOT (mask k))"
  proof (rule bit_eqI)
    fix i assume "possible_bit TYPE(64 word) i"
    then show "bit ((e AND mask 52) AND NOT (mask k)) i = bit (e AND (mask 39 AND NOT (mask k))) i"
      using nb [of i] by (auto simp: bit_simps)
  qed
  let ?x = "e AND (mask 39 AND NOT (mask k))" and ?y = "of_nat g AND mask k :: u64"
  have "?x AND ?y = 0"
    by (rule bit_eqI) (auto simp: bit_simps)
  then have or: "?x OR ?y = ?x + ?y"
    by (simp add: disjunctive_add_eq_or)
  have y: "unat ?y = g mod 2 ^ k"
    using g by (simp only: unat_and_mask unat_of_nat_u64)
  have x39: "unat ?x < 2 ^ 39"
  proof -
    have "unat ?x = unat e mod 2 ^ 39 div 2 ^ k * 2 ^ k"
      by (simp only: and.assoc [symmetric] unat_and_not_mask unat_and_mask)
    also have "\<dots> \<le> unat e mod 2 ^ 39"
      by simp
    also have "\<dots> < 2 ^ 39"
      by simp
    finally show ?thesis .
  qed
  have "(2 :: nat) ^ k \<le> 2 ^ 39"
    using k by (rule power_increasing) simp
  moreover have "g mod 2 ^ k < 2 ^ k"
    by simp
  ultimately have a: "a < 2 ^ 39 + 2 ^ 39"
    using x39 unfolding a_def by linarith
  then show "a < 2 ^ 52" by simp
  have "?x + ?y = of_nat (unat ?x) + of_nat (unat ?y)"
    by (simp only: of_nat_unat) simp
  also have "\<dots> = of_nat a"
    by (simp only: y a_def of_nat_add)
  finally show "((e AND NOT EPT_PFN_HIGH_MASK) AND NOT (of_nat (2 ^ k) - 1)) OR (of_nat g AND (of_nat (2 ^ k) - 1)) = of_nat a"
    by (simp only: m x or)
qed

lemma invalid_hpa_nat: "a < 2 ^ 52 \<Longrightarrow> (of_nat a :: u64) \<noteq> INVALID_HPA"
  by (simp add: INVALID_HPA_def word_nat_eq unat_of_nat_small)

text \<open>The translation the code computes is the abstract one.\<close>

lemma ept_wfD:
  assumes "ept_wf pages f4k lim vm h"
  shows "hv_ept_ops h vm = init_ept_mem_ops pages f4k vm (is_safety_vm vm)"
    "hv_eptp h vm = pml4_base (pages vm)" "pgwf (init_ept_mem_ops pages f4k vm (is_safety_vm vm)) lim (hv_pg h)"
  using assms by (auto simp: ept_wf_def)

lemma ept_lookup:
  assumes wf: "ept_wf pages f4k lim vm h" and g: "g < lim"
  obtains (miss) "lookup_address (get_ept_entry vm h) (of_nat g) (hv_ept_ops h vm) (hv_pg h) = None"
      "ept_map f4k vm h g = None"
    | (page) p l where
      "lookup_address (get_ept_entry vm h) (of_nat g) (hv_ept_ops h vm) (hv_pg h) = Some (p, of_nat (2 ^ level_shift l))"
      "l \<noteq> IA32E_PML4" "pg_mem (hv_pg h) p AND (mask 52 AND NOT (mask 39)) = 0"
      "\<And>g'. level_index l g' = level_index l g \<Longrightarrow>
         ept_map f4k vm h g' = Some (leaf (ept_rmask f4k) (level_shift l) g' (pg_mem (hv_pg h) p))"
proof -
  let ?ops = "init_ept_mem_ops pages f4k vm (is_safety_vm vm)"
  note w = ept_wfD [OF wf]
  have e: "get_ept_entry vm h = pml4_base (info ?ops)"
    by (simp add: get_ept_entry_def w(2))
  note lk = ept.lookup_address_walk [OF w(3) g]
  show thesis
  proof (cases "lookup_address (pml4_base (info ?ops)) (of_nat g) ?ops (hv_pg h)")
    case None
    then show thesis
      using lk miss by (simp add: e w(1) ept_map_def)
  next
    case (Some x)
    obtain p sz where x: "x = (p, sz)" by force
    with Some lk obtain l where l: "l \<noteq> IA32E_PML4" "p = slot ?ops l (level_index l g)" "sz = of_nat (2 ^ level_shift l)"
        "present ?ops (pg_mem (hv_pg h) p)" "leaf_entry l (pg_mem (hv_pg h) p)" "valid_slot ?ops lim l (level_index l g)"
        "\<And>g'. level_index l g' = level_index l g \<Longrightarrow>
           tr ?ops (ept_rmask f4k) (hv_pg h) IA32E_PML4 g' = Some (leaf (ept_rmask f4k) (level_shift l) g' (pg_mem (hv_pg h) p))"
      by auto
    have "entry_ok ?ops lim l (level_index l g) (pg_mem (hv_pg h) p)"
      using pgwfD(3) [OF w(3) l(6)] l(2) by (simp add: tab_def)
    then have "pg_mem (hv_pg h) p AND (mask 52 AND NOT (mask 39)) = 0"
      using l(4,5) by (simp add: entry_ok_def)
    then show thesis
      using page [of p l] Some x l by (simp add: e w(1) ept_map_def)
  qed
qed

lemma ept_lim: "ept_wf pages f4k lim vm h \<Longrightarrow> lim \<le> 2 ^ 48"
  by (rule layout_base(4) [OF pgwfD(1) [OF ept_wfD(3)]])

lemma gpa2hpa_map:
  assumes wf: "ept_wf pages f4k lim vm h" and g: "g < lim"
  shows "gpa2hpa vm (of_nat g) h = (case ept_map f4k vm h g of None \<Rightarrow> INVALID_HPA | Some (a, _) \<Rightarrow> of_nat a) \<and>
    (\<forall>a r. ept_map f4k vm h g = Some (a, r) \<longrightarrow> a < 2 ^ 52)"
proof (cases rule: ept_lookup [OF wf g])
  case 1
  then show ?thesis
    by (simp add: gpa2hpa_def local_gpa2hpa_def)
next
  case (2 p l)
  have g64: "g < 2 ^ 64"
    using g ept_lim [OF wf] by simp
  have "level_shift l \<le> 39" by (cases l) simp_all
  note h = hpa_of_entry [OF 2(3) this g64]
  have "gpa2hpa vm (of_nat g) h = of_nat (fst (leaf (ept_rmask f4k) (level_shift l) g (pg_mem (hv_pg h) p)))"
    unfolding gpa2hpa_def local_gpa2hpa_def Let_def 2(1) option.case prod.case h(1) leaf_def fst_conv ..
  then show ?thesis
    using h(2) 2(4) [OF refl] by (simp add: leaf_def)
qed

subsection \<open>Flush requests\<close>

lemma make_request_fields [simp]:
  "hv_pg (vcpu_make_request cpu vm v e h) = hv_pg h" "hv_eptp (vcpu_make_request cpu vm v e h) = hv_eptp h"
  "hv_ept_ops (vcpu_make_request cpu vm v e h) = hv_ept_ops h"
  "hv_created (vcpu_make_request cpu vm v e h) = hv_created h"
  "vc_state (hv_vcpus (vcpu_make_request cpu vm v e h) vm' v') = vc_state (hv_vcpus h vm' v')"
  by (simp_all add: vcpu_make_request_def upd_vcpu_def)

lemma make_request_pending:
  "pending_req (hv_vcpus (vcpu_make_request cpu vm v e h) vm' v') =
     (if vm' = vm \<and> v' = v then bitmap_set_lock e (pending_req (hv_vcpus h vm v)) else pending_req (hv_vcpus h vm' v'))"
  by (auto simp: vcpu_make_request_def upd_vcpu_def)

lemma flush_bits [simp]:
  "bitmap_test ACRN_REQUEST_EPT_FLUSH (bitmap_set_lock ACRN_REQUEST_EPT_FLUSH w)"
  by (simp add: bm.test_set ACRN_REQUEST_EPT_FLUSH_def)

lemma flush_fold:
  fixes h :: hv and vm cpu :: u16
  defines "body \<equiv> \<lambda>i h. if vc_state (hv_vcpus h vm (of_nat i)) \<noteq> VCPU_OFFLINE
      then vcpu_make_request cpu vm (of_nat i) ACRN_REQUEST_EPT_FLUSH h else h"
  shows "hv_pg (fold body [0..<n] h) = hv_pg h \<and> hv_eptp (fold body [0..<n] h) = hv_eptp h \<and>
    hv_ept_ops (fold body [0..<n] h) = hv_ept_ops h \<and> hv_created (fold body [0..<n] h) = hv_created h \<and>
    (\<forall>vm' v'. vc_state (hv_vcpus (fold body [0..<n] h) vm' v') = vc_state (hv_vcpus h vm' v')) \<and>
    (\<forall>i<n. vc_state (hv_vcpus h vm (of_nat i)) \<noteq> VCPU_OFFLINE \<longrightarrow>
       bitmap_test ACRN_REQUEST_EPT_FLUSH (pending_req (hv_vcpus (fold body [0..<n] h) vm (of_nat i))))"
proof (induction n)
  case (Suc n)
  then show ?case
    by (auto simp: body_def make_request_pending less_Suc_eq)
qed simp

lemma request_ept_flush_props:
  "hv_pg (request_ept_flush cpu vm h) = hv_pg h" "hv_eptp (request_ept_flush cpu vm h) = hv_eptp h"
  "hv_ept_ops (request_ept_flush cpu vm h) = hv_ept_ops h"
  "v < hv_created h vm \<Longrightarrow> vc_state (hv_vcpus h vm v) \<noteq> VCPU_OFFLINE \<Longrightarrow>
     bitmap_test ACRN_REQUEST_EPT_FLUSH (pending_req (hv_vcpus (request_ept_flush cpu vm h) vm v))"
proof -
  note f = flush_fold [of vm cpu "unat (hv_created h vm)" h]
  show "hv_pg (request_ept_flush cpu vm h) = hv_pg h" "hv_eptp (request_ept_flush cpu vm h) = hv_eptp h"
    "hv_ept_ops (request_ept_flush cpu vm h) = hv_ept_ops h"
    using f by (simp_all add: request_ept_flush_def foreach_vcpu_def)
  assume "v < hv_created h vm" "vc_state (hv_vcpus h vm v) \<noteq> VCPU_OFFLINE"
  then show "bitmap_test ACRN_REQUEST_EPT_FLUSH (pending_req (hv_vcpus (request_ept_flush cpu vm h) vm v))"
    using conjunct2 [OF conjunct2 [OF conjunct2 [OF conjunct2 [OF conjunct2 [OF f]]]], rule_format, of "unat v"]
    by (simp add: request_ept_flush_def foreach_vcpu_def word_less_nat_alt)
qed

text \<open>Every active virtual CPU of the VM will flush its cached translations.\<close>

definition flush_requested :: "u16 \<Rightarrow> hv \<Rightarrow> bool" where
  "flush_requested vm h \<longleftrightarrow>
     (\<forall>v < hv_created h vm. vc_state (hv_vcpus h vm v) \<noteq> VCPU_OFFLINE \<longrightarrow>
        bitmap_test ACRN_REQUEST_EPT_FLUSH (pending_req (hv_vcpus h vm v)))"

lemma flush_requested_request: "flush_requested vm (request_ept_flush cpu vm h)"
proof -
  have "hv_created (request_ept_flush cpu vm h) = hv_created h"
    "vc_state (hv_vcpus (request_ept_flush cpu vm h) vm' v') = vc_state (hv_vcpus h vm' v')" for vm' v'
    using flush_fold [of vm cpu "unat (hv_created h vm)" h] by (simp_all add: request_ept_flush_def foreach_vcpu_def)
  then show ?thesis
    using request_ept_flush_props(4) by (simp add: flush_requested_def)
qed

subsection \<open>Adding, deleting and modifying memory regions\<close>

lemma page_aligned_nat: "4096 dvd a \<Longrightarrow> page_down a = a" "4096 dvd a \<Longrightarrow> page_up a = a"
  by (auto simp: page_down_def page_up_def)

lemma snoop_prot_ok:
  "prot_bits prot \<Longrightarrow> prot_bits (snoop_prot prot)" "bit prot 0 \<Longrightarrow> bit (snoop_prot prot) 0"
proof -
  have "EPT_SNOOP_CTRL AND (mask 52 AND NOT (mask 12)) = 0"
    by (simp add: EPT_SNOOP_CTRL_def mask_eq_exp_minus_1)
  then show "prot_bits prot \<Longrightarrow> prot_bits (snoop_prot prot)"
    by (simp add: snoop_prot_def prot_bits_def and_or_zero)
  show "bit prot 0 \<Longrightarrow> bit (snoop_prot prot) 0"
    by (simp add: snoop_prot_def bit_simps)
qed

text \<open>Free memory: no address of the range is translated.\<close>

lemma map_free:
  assumes "ept_wf pages f4k lim vm h" "x < lim" "gpa2hpa vm (of_nat x) h = INVALID_HPA"
  shows "ept_map f4k vm h x = None"
proof (cases "ept_map f4k vm h x")
  case (Some y)
  obtain a r where y: "y = (a, r)" by force
  then show ?thesis
    using gpa2hpa_map [OF assms(1,2)] assms(3) invalid_hpa_nat [of a] Some by simp
qed

text \<open>From the update of the tables to what the VM's translation becomes.\<close>

lemma ept_update_map:
  assumes wf: "ept_wf pages f4k lim vm h"
    and up: "pg_update (init_ept_mem_ops pages f4k vm (is_safety_vm vm)) (ept_rmask f4k) lim IA32E_PML4 v ve F (hv_pg h) pg"
    and h': "h' = request_ept_flush cpu vm (h\<lparr>hv_pg := pg\<rparr>)"
  shows "ept_wf pages f4k lim vm h'"
    "x < lim \<Longrightarrow> ept_map f4k vm h' x = (if v \<le> x \<and> x < ve then F x (ept_map f4k vm h x) else ept_map f4k vm h x)"
    "flush_requested vm h'"
proof -
  note w = ept_wfD [OF wf] and d = pg_updateD [OF up]
  show "ept_wf pages f4k lim vm h'"
    using w d(1) by (simp add: ept_wf_def h' request_ept_flush_props)
  show "ept_map f4k vm h' x = (if v \<le> x \<and> x < ve then F x (ept_map f4k vm h x) else ept_map f4k vm h x)" if "x < lim"
    using d(4) [OF that] w(1) by (simp add: ept_map_def h' request_ept_flush_props)
  show "flush_requested vm h'"
    unfolding h' by (rule flush_requested_request)
qed

lemma gpa2hpa_same:
  assumes "ept_wf pages f4k lim vm h" "ept_wf pages f4k lim vm h'" "x < lim" "ept_map f4k vm h' x = ept_map f4k vm h x"
  shows "gpa2hpa vm (of_nat x) h' = gpa2hpa vm (of_nat x) h"
  using gpa2hpa_map [OF assms(1,3)] gpa2hpa_map [OF assms(2,3)] assms(4) by simp

lemma ept_add_mr_update:
  fixes hpa gpa sz prot :: u64
  assumes wf: "ept_wf pages f4k lim vm h" and sz: "sz \<noteq> 0"
    and al: "4096 dvd unat gpa" "4096 dvd unat hpa" "4096 dvd unat sz"
    and bound: "unat gpa + unat sz \<le> lim" "unat hpa + unat sz \<le> 2 ^ 39"
    and prot: "bit prot 0" "prot_bits prot"
    and free: "\<And>x. unat gpa \<le> x \<Longrightarrow> x < unat gpa + unat sz \<Longrightarrow> gpa2hpa vm (of_nat x) h = INVALID_HPA"
  shows "\<exists>pg. ept_add_mr cpu vm (get_ept_entry vm h) hpa gpa sz prot h =
       Some (request_ept_flush cpu vm (h\<lparr>hv_pg := pg\<rparr>)) \<and>
     pg_update (init_ept_mem_ops pages f4k vm (is_safety_vm vm)) (ept_rmask f4k) lim IA32E_PML4
       (unat gpa) (unat gpa + unat sz) (map_range (unat hpa) (unat gpa) (snoop_prot prot AND ept_rmask f4k)) (hv_pg h) pg"
proof -
  let ?ops = "init_ept_mem_ops pages f4k vm (is_safety_vm vm)" and ?g = "unat gpa" and ?n = "unat sz"
  note w = ept_wfD [OF wf]
  have pu: "page_up (?g + ?n) = ?g + ?n" "page_down ?g = ?g" "page_down (unat hpa) = unat hpa"
    using al by (simp_all add: page_aligned_nat)
  have fr: "tr ?ops (ept_rmask f4k) (hv_pg h) IA32E_PML4 x = None" if "?g \<le> x" "x < ?g + ?n" for x
    using map_free [OF wf _ free [OF that]] that bound(1) w(1) by (simp add: ept_map_def)
  obtain pg where pg: "mmu_add (pml4_base (info ?ops)) hpa gpa sz (snoop_prot prot) ?ops (hv_pg h) = Some pg"
      "pg_update ?ops (ept_rmask f4k) lim IA32E_PML4 ?g (?g + ?n)
         (map_range (unat hpa) ?g (snoop_prot prot AND ept_rmask f4k)) (hv_pg h) pg"
    using ept.mmu_add_update [OF w(3) sz, of gpa hpa "snoop_prot prot"] bound pu snoop_prot_ok prot fr
    by (auto simp: ept.prot_ok_def ept.large_only_ok_def)
  have "ept_add_mr cpu vm (get_ept_entry vm h) hpa gpa sz prot h = Some (request_ept_flush cpu vm (h\<lparr>hv_pg := pg\<rparr>))"
    using pg(1) w by (simp add: ept_add_mr_def get_ept_entry_def)
  with pg(2) show ?thesis by blast
qed

text \<open>
  C4. Adding a memory region to a VM works and does exactly that: for a page-aligned region whose
  guest addresses are not mapped yet, \<^verbatim>\<open>ept_add_mr\<close> returns, every guest address of the
  region is afterwards translated to the corresponding host address with the given rights, every
  other guest address is translated as before, the page tables stay well-formed and every active
  virtual CPU of the VM is asked to flush.
\<close>

theorem ept_add_mr_maps:
  fixes hpa gpa sz prot :: u64
  assumes wf: "ept_wf pages f4k lim vm h" and sz: "sz \<noteq> 0"
    and al: "4096 dvd unat gpa" "4096 dvd unat hpa" "4096 dvd unat sz"
    and bound: "unat gpa + unat sz \<le> lim" "unat hpa + unat sz \<le> 2 ^ 39"
    and prot: "bit prot 0" "prot_bits prot"
    and free: "\<And>x. unat gpa \<le> x \<Longrightarrow> x < unat gpa + unat sz \<Longrightarrow> gpa2hpa vm (of_nat x) h = INVALID_HPA"
  shows "\<exists>h'. ept_add_mr cpu vm (get_ept_entry vm h) hpa gpa sz prot h = Some h' \<and>
    ept_wf pages f4k lim vm h' \<and> flush_requested vm h' \<and>
    (\<forall>x<lim. gpa2hpa vm (of_nat x) h' =
       (if unat gpa \<le> x \<and> x < unat gpa + unat sz then of_nat (unat hpa + (x - unat gpa))
        else gpa2hpa vm (of_nat x) h)) \<and>
    (\<forall>x. unat gpa \<le> x \<and> x < unat gpa + unat sz \<longrightarrow>
       ept_map f4k vm h' x = Some (unat hpa + (x - unat gpa), snoop_prot prot AND ept_rmask f4k))"
proof -
  let ?g = "unat gpa" and ?n = "unat sz"
  obtain pg where add: "ept_add_mr cpu vm (get_ept_entry vm h) hpa gpa sz prot h = Some (request_ept_flush cpu vm (h\<lparr>hv_pg := pg\<rparr>))"
    and pg: "pg_update (init_ept_mem_ops pages f4k vm (is_safety_vm vm)) (ept_rmask f4k) lim IA32E_PML4 ?g (?g + ?n)
       (map_range (unat hpa) ?g (snoop_prot prot AND ept_rmask f4k)) (hv_pg h) pg"
    using ept_add_mr_update [OF assms] by blast
  define h' where h': "h' = request_ept_flush cpu vm (h\<lparr>hv_pg := pg\<rparr>)"
  note u = ept_update_map [OF wf pg h']
  have inr: "ept_map f4k vm h' x = Some (unat hpa + (x - ?g), snoop_prot prot AND ept_rmask f4k)"
    if "?g \<le> x" "x < ?g + ?n" for x
    using u(2) [of x] that bound(1) by (simp add: map_range_def)
  have "gpa2hpa vm (of_nat x) h' = (if ?g \<le> x \<and> x < ?g + ?n then of_nat (unat hpa + (x - ?g)) else gpa2hpa vm (of_nat x) h)"
    if x: "x < lim" for x
    using gpa2hpa_map [OF u(1) x] inr [of x] gpa2hpa_same [OF wf u(1) x] u(2) [OF x] by auto
  with add [folded h'] u(1,3) inr show ?thesis by blast
qed

text \<open>
  A concrete EPT for the witnesses: the page arrays of two VMs for the 10-GByte address space of
  this configuration, and a VM whose first GByte is mapped by one large page.
\<close>

definition ept_space :: nat where "ept_space = 0x280000000"

definition ex_pages :: "u16 \<Rightarrow> pgtable_pages_info" where
  "ex_pages vm = (if vm = 0
     then \<lparr>pml4_base = 0x100000, pdpt_base = 0x101000, pd_base = 0x102000, pt_base = 0x200000\<rparr>
     else \<lparr>pml4_base = 0x2100000, pdpt_base = 0x2101000, pd_base = 0x2102000, pt_base = 0x2200000\<rparr>)"

definition ex_hv :: "(u64 \<Rightarrow> u64) \<Rightarrow> hv" where
  "ex_hv m = (hv0 (\<lambda>vm. init_ept_mem_ops ex_pages False vm (is_safety_vm vm)) (\<lambda>vm. pml4_base (ex_pages vm)))
     \<lparr>hv_pg := \<lparr>pg_mem = m, pg_flushed = [], sanitized_page = 0x7000\<rparr>\<rparr>"

definition ex_mem :: "u64 \<Rightarrow> u64" where
  "ex_mem = (\<lambda>_. 0)(0x100000 := 0x101007, 0x101000 := 0x400000B7)"

lemma ex_layout: "pages_layout (init_ept_mem_ops ex_pages False vm enf) ept_space"
proof -
  have "level_base l (ex_pages vm) AND mask 12 = 0 \<and>
      unat (level_base l (ex_pages vm)) + 4096 * level_pages l (init_ept_mem_ops ex_pages False vm enf) ept_space \<le> 2 ^ 39" for l
    by (cases l) (simp_all add: ex_pages_def ept_space_def PDPT_PAGE_NUM_def PD_PAGE_NUM_def PT_PAGE_NUM_def
        mask_eq_exp_minus_1)
  moreover have "unat (level_base l (ex_pages vm)) + 4096 * level_pages l (init_ept_mem_ops ex_pages False vm enf) ept_space
        \<le> unat (level_base l' (ex_pages vm)) \<or>
      unat (level_base l' (ex_pages vm)) + 4096 * level_pages l' (init_ept_mem_ops ex_pages False vm enf) ept_space
        \<le> unat (level_base l (ex_pages vm))" if "l' \<noteq> l" for l l'
    using that by (cases l; cases l')
      (simp_all add: ex_pages_def ept_space_def PDPT_PAGE_NUM_def PD_PAGE_NUM_def PT_PAGE_NUM_def)
  ultimately show ?thesis
    by (simp add: pages_layout_def) (simp add: ept_space_def)
qed

lemma ex_zero_wf: "ept_wf ex_pages False ept_space vm (ex_hv (\<lambda>_. 0))"
proof -
  have "pgwf (init_ept_mem_ops ex_pages False vm enf) ept_space \<lparr>pg_mem = \<lambda>_. 0, pg_flushed = [], sanitized_page = 0x7000\<rparr>" for enf
    using ex_layout [of vm enf] ept.pres_zero [of ex_pages False vm enf]
    by (simp add: pgwf_def entry_ok_def tab_def present_def mask_eq_exp_minus_1)
  then show ?thesis
    by (simp add: ept_wf_def ex_hv_def hv0_def)
qed

lemma ex_zero_free: "gpa2hpa vm (of_nat x) (ex_hv (\<lambda>_. 0)) = INVALID_HPA"
  using ept.pres_zero [of ex_pages False vm]
  by (simp add: gpa2hpa_def local_gpa2hpa_def lookup_address_def ex_hv_def hv0_def)

theorem ept_add_mr_maps_witness:
  "\<exists>h'. ept_add_mr 0 0 (get_ept_entry 0 (ex_hv (\<lambda>_. 0))) 0x40000000 0x200000 0x3000 0x37 (ex_hv (\<lambda>_. 0)) = Some h' \<and>
     gpa2hpa 0 0x201234 h' = 0x40001234"
proof -
  have "bit (0x37 :: u64) 0" "prot_bits 0x37"
    by (simp_all add: prot_bits_def mask_eq_exp_minus_1)
  with ept_add_mr_maps [OF ex_zero_wf, of "0x3000" "0x200000" "0x40000000" "0x37" 0 0] ex_zero_free
  obtain h' where "ept_add_mr 0 0 (get_ept_entry 0 (ex_hv (\<lambda>_. 0))) 0x40000000 0x200000 0x3000 0x37 (ex_hv (\<lambda>_. 0)) = Some h'"
    "\<forall>x<ept_space. gpa2hpa 0 (of_nat x) h' =
       (if 0x200000 \<le> x \<and> x < 0x203000 then of_nat (0x40000000 + (x - 0x200000)) else gpa2hpa 0 (of_nat x) (ex_hv (\<lambda>_. 0)))"
    by (auto simp: ept_space_def)
  moreover from this(2) [rule_format, of "0x201234"] have "gpa2hpa 0 (of_nat 0x201234) h' = 0x40001234"
    by (simp add: ept_space_def)
  ultimately show ?thesis by auto
qed

lemma ept_del_mr_update:
  fixes gpa sz :: u64
  assumes wf: "ept_wf pages f4k lim vm h" and sz: "sz \<noteq> 0"
    and al: "4096 dvd unat gpa" "4096 dvd unat sz" and bound: "unat gpa + unat sz \<le> lim"
    and root: "\<And>x. unat gpa \<le> x \<Longrightarrow> x < unat gpa + unat sz \<Longrightarrow> pgentry_present (hv_ept_ops h vm) (pg_mem (hv_pg h) (pml4e_offset (get_ept_entry vm h) (of_nat x))) \<noteq> 0"
  shows "\<exists>pg. ept_del_mr cpu vm (get_ept_entry vm h) gpa sz h = Some (request_ept_flush cpu vm (h\<lparr>hv_pg := pg\<rparr>)) \<and>
     pg_update (init_ept_mem_ops pages f4k vm (is_safety_vm vm)) (ept_rmask f4k) lim IA32E_PML4
       (unat gpa) (unat gpa + unat sz) (change_range (ept_rmask f4k) MR_DEL 0 0) (hv_pg h) pg"
proof -
  let ?ops = "init_ept_mem_ops pages f4k vm (is_safety_vm vm)" and ?g = "unat gpa" and ?n = "unat sz"
  note w = ept_wfD [OF wf]
  have pu: "page_up (?g + ?n) = ?g + ?n" "page_down ?g = ?g"
    using al by (simp_all add: page_aligned_nat)
  have "present ?ops (tab ?ops (hv_pg h) IA32E_PML4 (x div 2 ^ 39))" if "?g \<le> x" "x < ?g + ?n" for x
    using root [OF that] ept.pml4e_slot [OF pgwfD(1) [OF w(3)], of x] that bound w
    by (simp add: present_def tab_def get_ept_entry_def)
  then have pp: "ept.pml4_present pages f4k vm (is_safety_vm vm) MR_DEL ?g (?g + ?n) (hv_pg h)"
    using bound by (simp add: ept.pml4_present_def)
  have "change_ok ?ops MR_DEL 0 0"
    by (simp add: change_ok_def MR_DEL_def MR_MODIFY_def)
  then obtain pg where pg: "mmu_modify_or_del (pml4_base (info ?ops)) gpa sz 0 0 ?ops MR_DEL (hv_pg h) = Some pg"
      "pg_update ?ops (ept_rmask f4k) lim IA32E_PML4 ?g (?g + ?n) (change_range (ept_rmask f4k) MR_DEL 0 0) (hv_pg h) pg"
    using ept.mmu_modify_or_del_update [OF w(3) sz, of gpa MR_DEL 0 0] bound pu pp by auto
  have "ept_del_mr cpu vm (get_ept_entry vm h) gpa sz h = Some (request_ept_flush cpu vm (h\<lparr>hv_pg := pg\<rparr>))"
    using pg(1) w by (simp add: ept_del_mr_def get_ept_entry_def)
  with pg(2) show ?thesis by blast
qed

text \<open>
  C12. Deleting a memory region works and does exactly that: \<^verbatim>\<open>ept_del_mr\<close> returns, no
  guest address of the region is translated any more, every other guest address is translated as
  before, even where a large page had to be split, and every active virtual CPU is asked to flush.
\<close>

theorem ept_del_mr_unmaps:
  fixes gpa sz :: u64
  assumes wf: "ept_wf pages f4k lim vm h" and sz: "sz \<noteq> 0"
    and al: "4096 dvd unat gpa" "4096 dvd unat sz" and bound: "unat gpa + unat sz \<le> lim"
    and root: "\<And>x. unat gpa \<le> x \<Longrightarrow> x < unat gpa + unat sz \<Longrightarrow> pgentry_present (hv_ept_ops h vm) (pg_mem (hv_pg h) (pml4e_offset (get_ept_entry vm h) (of_nat x))) \<noteq> 0"
  shows "\<exists>h'. ept_del_mr cpu vm (get_ept_entry vm h) gpa sz h = Some h' \<and>
    ept_wf pages f4k lim vm h' \<and> flush_requested vm h' \<and>
    (\<forall>x<lim. gpa2hpa vm (of_nat x) h' =
       (if unat gpa \<le> x \<and> x < unat gpa + unat sz then INVALID_HPA else gpa2hpa vm (of_nat x) h))"
proof -
  let ?g = "unat gpa" and ?n = "unat sz"
  obtain pg where del: "ept_del_mr cpu vm (get_ept_entry vm h) gpa sz h = Some (request_ept_flush cpu vm (h\<lparr>hv_pg := pg\<rparr>))"
    and pg: "pg_update (init_ept_mem_ops pages f4k vm (is_safety_vm vm)) (ept_rmask f4k) lim IA32E_PML4 ?g (?g + ?n)
       (change_range (ept_rmask f4k) MR_DEL 0 0) (hv_pg h) pg"
    using ept_del_mr_update [OF assms] by blast
  define h' where h': "h' = request_ept_flush cpu vm (h\<lparr>hv_pg := pg\<rparr>)"
  note u = ept_update_map [OF wf pg h']
  have "gpa2hpa vm (of_nat x) h' = (if ?g \<le> x \<and> x < ?g + ?n then INVALID_HPA else gpa2hpa vm (of_nat x) h)"
    if x: "x < lim" for x
    using gpa2hpa_map [OF u(1) x] gpa2hpa_same [OF wf u(1) x] u(2) [OF x]
    by (auto simp: change_range_def MR_DEL_def MR_MODIFY_def)
  with del [folded h'] u(1,3) show ?thesis by blast
qed

lemma ex_mem_wf: "ept_wf ex_pages False ept_space 0 (ex_hv ex_mem)"
proof -
  let ?ops = "init_ept_mem_ops ex_pages False 0 True"
  let ?s = "\<lparr>pg_mem = ex_mem, pg_flushed = [], sanitized_page = 0x7000\<rparr>"
  note lay = ex_layout [of 0 True]
  have pz: "\<not> present ?ops 0"
    using ept.pres_zero by (simp add: present_def)
  have p7: "present ?ops 0x101007" "present ?ops 0x400000B7"
    by (rule ept.present_bit0; simp)+
  have s4: "slot ?ops IA32E_PML4 0 = 0x100000" "slot ?ops IA32E_PDPT 0 = 0x101000"
    by (simp_all add: slot_def ex_pages_def)
  have v4: "valid_slot ?ops ept_space IA32E_PML4 0" "valid_slot ?ops ept_space IA32E_PDPT 0"
    by (simp_all add: ept_space_def PDPT_PAGE_NUM_def)
  have t: "tab ?ops ?s l i = (if l = IA32E_PML4 \<and> i = 0 then 0x101007 else if l = IA32E_PDPT \<and> i = 0 then 0x400000B7 else 0)"
    if "valid_slot ?ops ept_space l i" for l i
    using slot_inject [OF lay that v4(1)] slot_inject [OF lay that v4(2)]
    by (auto simp: tab_def ex_mem_def s4)
  have "entry_ok ?ops ept_space IA32E_PML4 0 0x101007"
    using p7 by (simp add: entry_ok_def leaf_entry_def ex_pages_def ept_space_def PDPT_PAGE_NUM_def mask_eq_exp_minus_1)
  moreover have "entry_ok ?ops ept_space IA32E_PDPT 0 0x400000B7"
    using p7 by (simp add: entry_ok_def leaf_entry_def PAGE_PS_def mask_eq_exp_minus_1)
  moreover have "entry_ok ?ops ept_space l i 0" for l i
    using pz by (simp add: entry_ok_def)
  ultimately have "pgwf ?ops ept_space ?s"
    using lay by (simp add: pgwf_def t mask_eq_exp_minus_1)
  then show ?thesis
    by (simp add: ept_wf_def ex_hv_def hv0_def is_safety_vm_def)
qed

lemma ex_mem_root:
  "x < 0x40000000 \<Longrightarrow>
   pgentry_present (hv_ept_ops (ex_hv ex_mem) 0)
     (pg_mem (hv_pg (ex_hv ex_mem)) (pml4e_offset (get_ept_entry 0 (ex_hv ex_mem)) (of_nat x))) \<noteq> 0"
  using ept.pml4e_slot [OF ex_layout, of x 0 True] ept.pres_bit0 [of "0x101007" ex_pages False 0 True]
  by (simp add: ex_hv_def hv0_def is_safety_vm_def ept_space_def get_ept_entry_def slot_def ex_mem_def ex_pages_def)

theorem ept_del_mr_unmaps_witness:
  "\<exists>h'. ept_del_mr 0 0 (get_ept_entry 0 (ex_hv ex_mem)) 0x200000 0x1000 (ex_hv ex_mem) = Some h' \<and>
     gpa2hpa 0 0x200123 h' = INVALID_HPA \<and> gpa2hpa 0 0x201123 h' = gpa2hpa 0 0x201123 (ex_hv ex_mem)"
proof -
  from ept_del_mr_unmaps [OF ex_mem_wf, of "0x1000" "0x200000" 0] ex_mem_root
  obtain h' where "ept_del_mr 0 0 (get_ept_entry 0 (ex_hv ex_mem)) 0x200000 0x1000 (ex_hv ex_mem) = Some h'"
    "\<forall>x<ept_space. gpa2hpa 0 (of_nat x) h' =
       (if 0x200000 \<le> x \<and> x < 0x201000 then INVALID_HPA else gpa2hpa 0 (of_nat x) (ex_hv ex_mem))"
    by (auto simp: ept_space_def)
  moreover from this(2) [rule_format, of "0x200123"] this(2) [rule_format, of "0x201123"]
  have "gpa2hpa 0 (of_nat 0x200123) h' = INVALID_HPA"
    "gpa2hpa 0 (of_nat 0x201123) h' = gpa2hpa 0 (of_nat 0x201123) (ex_hv ex_mem)"
    by (simp_all add: ept_space_def)
  ultimately show ?thesis by auto
qed

lemma ept_modify_mr_update:
  fixes gpa sz prot_set prot_clr :: u64
  assumes wf: "ept_wf pages f4k lim vm h" and sz: "sz \<noteq> 0"
    and al: "4096 dvd unat gpa" "4096 dvd unat sz" and bound: "unat gpa + unat sz \<le> lim"
    and ok: "modify_ok MR_MODIFY (snoop_prot prot_set) prot_clr"
  shows "\<exists>pg. ept_modify_mr cpu vm (get_ept_entry vm h) gpa sz prot_set prot_clr h =
       Some (request_ept_flush cpu vm (h\<lparr>hv_pg := pg\<rparr>)) \<and>
     pg_update (init_ept_mem_ops pages f4k vm (is_safety_vm vm)) (ept_rmask f4k) lim IA32E_PML4
       (unat gpa) (unat gpa + unat sz) (change_range (ept_rmask f4k) MR_MODIFY (snoop_prot prot_set) prot_clr) (hv_pg h) pg"
proof -
  let ?ops = "init_ept_mem_ops pages f4k vm (is_safety_vm vm)" and ?g = "unat gpa" and ?n = "unat sz"
  note w = ept_wfD [OF wf]
  have pu: "page_up (?g + ?n) = ?g + ?n" "page_down ?g = ?g"
    using al by (simp_all add: page_aligned_nat)
  obtain pg where pg: "mmu_modify_or_del (pml4_base (info ?ops)) gpa sz (snoop_prot prot_set) prot_clr ?ops MR_MODIFY (hv_pg h) = Some pg"
      "pg_update ?ops (ept_rmask f4k) lim IA32E_PML4 ?g (?g + ?n)
         (change_range (ept_rmask f4k) MR_MODIFY (snoop_prot prot_set) prot_clr) (hv_pg h) pg"
    using ept.mmu_modify_or_del_update [OF w(3) sz, of gpa MR_MODIFY "snoop_prot prot_set" prot_clr] bound pu ept.modify_change_ok [OF ok]
    by (auto simp: ept.pml4_present_def)
  have "ept_modify_mr cpu vm (get_ept_entry vm h) gpa sz prot_set prot_clr h = Some (request_ept_flush cpu vm (h\<lparr>hv_pg := pg\<rparr>))"
    using pg(1) w by (simp add: ept_modify_mr_def get_ept_entry_def)
  with pg(2) show ?thesis by blast
qed

text \<open>
  C13. Modifying the rights of a memory region changes the rights of exactly that region:
  \<^verbatim>\<open>ept_modify_mr\<close> returns, no guest address is translated to another host address than
  before, the rights of every mapped page of the region lose the cleared bits and gain the set
  ones, and every other address keeps its rights.
\<close>

theorem ept_modify_mr_rights:
  fixes gpa sz prot_set prot_clr :: u64
  assumes wf: "ept_wf pages f4k lim vm h" and sz: "sz \<noteq> 0"
    and al: "4096 dvd unat gpa" "4096 dvd unat sz" and bound: "unat gpa + unat sz \<le> lim"
    and ok: "modify_ok MR_MODIFY (snoop_prot prot_set) prot_clr"
  shows "\<exists>h'. ept_modify_mr cpu vm (get_ept_entry vm h) gpa sz prot_set prot_clr h = Some h' \<and>
    ept_wf pages f4k lim vm h' \<and> flush_requested vm h' \<and>
    (\<forall>x<lim. gpa2hpa vm (of_nat x) h' = gpa2hpa vm (of_nat x) h) \<and>
    (\<forall>x<lim. ept_map f4k vm h' x =
       (if unat gpa \<le> x \<and> x < unat gpa + unat sz
        then map_option (\<lambda>(a, r). (a, ((r AND NOT prot_clr) OR snoop_prot prot_set) AND ept_rmask f4k)) (ept_map f4k vm h x)
        else ept_map f4k vm h x))"
proof -
  let ?g = "unat gpa" and ?n = "unat sz"
  obtain pg where md: "ept_modify_mr cpu vm (get_ept_entry vm h) gpa sz prot_set prot_clr h =
      Some (request_ept_flush cpu vm (h\<lparr>hv_pg := pg\<rparr>))"
    and pg: "pg_update (init_ept_mem_ops pages f4k vm (is_safety_vm vm)) (ept_rmask f4k) lim IA32E_PML4 ?g (?g + ?n)
       (change_range (ept_rmask f4k) MR_MODIFY (snoop_prot prot_set) prot_clr) (hv_pg h) pg"
    using ept_modify_mr_update [OF assms] by blast
  define h' where h': "h' = request_ept_flush cpu vm (h\<lparr>hv_pg := pg\<rparr>)"
  note u = ept_update_map [OF wf pg h']
  have map: "ept_map f4k vm h' x =
       (if ?g \<le> x \<and> x < ?g + ?n
        then map_option (\<lambda>(a, r). (a, ((r AND NOT prot_clr) OR snoop_prot prot_set) AND ept_rmask f4k)) (ept_map f4k vm h x)
        else ept_map f4k vm h x)" if "x < lim" for x
    using u(2) [OF that] by (simp add: change_range_def)
  have "gpa2hpa vm (of_nat x) h' = gpa2hpa vm (of_nat x) h" if x: "x < lim" for x
    using gpa2hpa_map [OF u(1) x] gpa2hpa_map [OF wf x] map [OF x] by (auto split: option.splits)
  with md [folded h'] u(1,3) map show ?thesis by blast
qed

theorem ept_modify_mr_rights_witness:
  "\<exists>h'. ept_modify_mr 0 0 (get_ept_entry 0 (ex_hv ex_mem)) 0x200000 0x1000 1 0x30 (ex_hv ex_mem) = Some h' \<and>
     gpa2hpa 0 0x200123 h' = gpa2hpa 0 0x200123 (ex_hv ex_mem)"
proof -
  have "modify_ok MR_MODIFY (snoop_prot 1) 0x30"
    by (simp add: modify_ok_def snoop_prot_def EPT_MT_MASK_def EPT_UNCACHED_def prot_bits_def PAGE_PS_def mask_eq_exp_minus_1)
  with ept_modify_mr_rights [OF ex_mem_wf, of "0x1000" "0x200000" 1 "0x30" 0]
  obtain h' where "ept_modify_mr 0 0 (get_ept_entry 0 (ex_hv ex_mem)) 0x200000 0x1000 1 0x30 (ex_hv ex_mem) = Some h'"
    "\<forall>x<ept_space. gpa2hpa 0 (of_nat x) h' = gpa2hpa 0 (of_nat x) (ex_hv ex_mem)"
    by (auto simp: ept_space_def)
  moreover from this(2) [rule_format, of "0x200123"]
  have "gpa2hpa 0 (of_nat 0x200123) h' = gpa2hpa 0 (of_nat 0x200123) (ex_hv ex_mem)"
    by (simp add: ept_space_def)
  ultimately show ?thesis by auto
qed

end
