(* ===== verification/Acrn_Vpci.thy ===== *)
theory Acrn_Vpci
  imports Acrn_Pci Acrn_Ept
begin

text \<open>
  The virtual PCI bus of a VM: \<^verbatim>\<open>src/hypervisor/dm/vpci\<close> (\<^verbatim>\<open>vdev.c\<close>, \<^verbatim>\<open>vhostbridge.c\<close>,
  \<^verbatim>\<open>vmsi.c\<close>, \<^verbatim>\<open>pci_pt.c\<close>, \<^verbatim>\<open>vpci.c\<close>). A virtual device is named by its VM and its index in
  \<^verbatim>\<open>pci_vdevs\<close>; \<open>cpu\<close> is the physical CPU that executes the code.
\<close>

definition get_vdev :: "u16 \<Rightarrow> nat \<Rightarrow> machine \<Rightarrow> pci_vdev" where
  "get_vdev vm i m = pci_vdevs (m_vpci m vm) ! i"

definition upd_vpci :: "u16 \<Rightarrow> (acrn_vpci \<Rightarrow> acrn_vpci) \<Rightarrow> machine \<Rightarrow> machine" where
  "upd_vpci vm f m = m\<lparr>m_vpci := (m_vpci m)(vm := f (m_vpci m vm))\<rparr>"

definition put_vdev :: "u16 \<Rightarrow> nat \<Rightarrow> pci_vdev \<Rightarrow> machine \<Rightarrow> machine" where
  "put_vdev vm i d m = upd_vpci vm (\<lambda>p. p\<lparr>pci_vdevs := (pci_vdevs p)[i := d]\<rparr>) m"

subsection \<open>The virtual configuration space\<close>

definition pci_bar_offset :: "u32 \<Rightarrow> u32" where
  "pci_bar_offset idx = PCIR_BARS + push_bit 2 idx"

definition in_range :: "u32 \<Rightarrow> u32 \<Rightarrow> u32 \<Rightarrow> bool" where
  "in_range value lower len \<longleftrightarrow> value \<ge> lower \<and> value < lower + len"

definition le16 :: "u8 list \<Rightarrow> u16" where
  "le16 bs = ucast (bs ! 0) OR push_bit 8 (ucast (bs ! 1))"

definition le32 :: "u8 list \<Rightarrow> u32" where
  "le32 bs = ucast (bs ! 0) OR push_bit 8 (ucast (bs ! 1)) OR push_bit 16 (ucast (bs ! 2)) OR push_bit 24 (ucast (bs ! 3))"

definition pci_vdev_read_cfg_u8 :: "pci_vdev \<Rightarrow> u32 \<Rightarrow> u8 option" where
  "pci_vdev_read_cfg_u8 vdev offset =
     (let k = unat offset in if k < length (cfgdata vdev) then Some (cfgdata vdev ! k) else None)"

definition pci_vdev_read_cfg_u16 :: "pci_vdev \<Rightarrow> u32 \<Rightarrow> u16 option" where
  "pci_vdev_read_cfg_u16 vdev offset =
     (let k = 2 * unat (drop_bit 1 offset)
      in if k + 1 < length (cfgdata vdev) then Some (le16 (drop k (cfgdata vdev))) else None)"

definition pci_vdev_read_cfg_u32 :: "pci_vdev \<Rightarrow> u32 \<Rightarrow> u32 option" where
  "pci_vdev_read_cfg_u32 vdev offset =
     (let k = 4 * unat (drop_bit 2 offset)
      in if k + 3 < length (cfgdata vdev) then Some (le32 (drop k (cfgdata vdev))) else None)"

definition pci_vdev_write_cfg_u8 :: "u32 \<Rightarrow> u8 \<Rightarrow> pci_vdev \<Rightarrow> pci_vdev option" where
  "pci_vdev_write_cfg_u8 offset val vdev =
     (let k = unat offset
      in if k < length (cfgdata vdev) then Some (vdev\<lparr>cfgdata := (cfgdata vdev)[k := val]\<rparr>) else None)"

definition pci_vdev_write_cfg_u16 :: "u32 \<Rightarrow> u16 \<Rightarrow> pci_vdev \<Rightarrow> pci_vdev option" where
  "pci_vdev_write_cfg_u16 offset val vdev =
     (let k = 2 * unat (drop_bit 1 offset)
      in if k + 1 < length (cfgdata vdev)
         then Some (vdev\<lparr>cfgdata := (cfgdata vdev)[k := ucast val, k + 1 := ucast (drop_bit 8 val)]\<rparr>) else None)"

definition pci_vdev_write_cfg_u32 :: "u32 \<Rightarrow> u32 \<Rightarrow> pci_vdev \<Rightarrow> pci_vdev option" where
  "pci_vdev_write_cfg_u32 offset val vdev =
     (let k = 4 * unat (drop_bit 2 offset)
      in if k + 3 < length (cfgdata vdev)
         then Some (vdev\<lparr>cfgdata := (cfgdata vdev)[k := ucast val, k + 1 := ucast (drop_bit 8 val),
                k + 2 := ucast (drop_bit 16 val), k + 3 := ucast (drop_bit 24 val)]\<rparr>) else None)"

definition vbar_access :: "pci_vdev \<Rightarrow> u32 \<Rightarrow> bool" where
  "vbar_access vdev offset \<longleftrightarrow> offset \<ge> pci_bar_offset 0 \<and> offset < pci_bar_offset (nr_bars vdev)"

definition has_msi_cap :: "pci_vdev \<Rightarrow> bool" where
  "has_msi_cap vdev \<longleftrightarrow> capoff (vd_msi vdev) \<noteq> 0"

definition msicap_access :: "pci_vdev \<Rightarrow> u32 \<Rightarrow> bool" where
  "msicap_access vdev offset \<longleftrightarrow>
     has_msi_cap vdev \<and> in_range offset (capoff (vd_msi vdev)) (caplen (vd_msi vdev))"

definition pci_vdev_read_cfg :: "pci_vdev \<Rightarrow> u32 \<Rightarrow> u32 \<Rightarrow> u32 option" where
  "pci_vdev_read_cfg vdev offset bytes =
     (if bytes = 1 then map_option ucast (pci_vdev_read_cfg_u8 vdev offset)
      else if bytes = 2 then map_option ucast (pci_vdev_read_cfg_u16 vdev offset)
      else pci_vdev_read_cfg_u32 vdev offset)"

definition pci_vdev_write_cfg :: "u32 \<Rightarrow> u32 \<Rightarrow> u32 \<Rightarrow> pci_vdev \<Rightarrow> pci_vdev option" where
  "pci_vdev_write_cfg offset bytes val vdev =
     (if bytes = 1 then pci_vdev_write_cfg_u8 offset (ucast val) vdev
      else if bytes = 2 then pci_vdev_write_cfg_u16 offset (ucast val) vdev
      else pci_vdev_write_cfg_u32 offset val vdev)"

definition pci_find_vdev :: "acrn_vpci \<Rightarrow> u16 \<Rightarrow> nat option" where
  "pci_find_vdev vpci vbdf = find (\<lambda>i. vd_bdf (pci_vdevs vpci ! i) = vbdf) [0..<length (pci_vdevs vpci)]"

definition pci_vdev_read_bar :: "pci_vdev \<Rightarrow> u32 \<Rightarrow> u32 option" where
  "pci_vdev_read_bar vdev idx = pci_vdev_read_cfg_u32 vdev (pci_bar_offset idx)"

definition PCI_VBAR_BASE_LIMIT :: u64 where "PCI_VBAR_BASE_LIMIT = 0xC0000000"
definition PCI_VBAR_TOP_LIMIT :: u64 where "PCI_VBAR_TOP_LIMIT = 0xE0000000"

definition vbar_base_is_valid :: "u64 \<Rightarrow> u64 \<Rightarrow> bool" where
  "vbar_base_is_valid base sz \<longleftrightarrow> \<not> (base < PCI_VBAR_BASE_LIMIT \<or> base + sz > PCI_VBAR_TOP_LIMIT)"

definition bar_at :: "pci_vdev \<Rightarrow> u32 \<Rightarrow> pci_bar option" where
  "bar_at vdev idx = (if unat idx < length (vd_bar vdev) then Some (vd_bar vdev ! unat idx) else None)"

definition put_bar :: "u32 \<Rightarrow> pci_bar \<Rightarrow> pci_vdev \<Rightarrow> pci_vdev" where
  "put_bar idx b vdev = vdev\<lparr>vd_bar := (vd_bar vdev)[unat idx := b]\<rparr>"

definition pci_vdev_update_bar_base :: "u32 \<Rightarrow> pci_vdev \<Rightarrow> pci_vdev option" where
  "pci_vdev_update_bar_base idx vdev =
     do {
       vbar \<leftarrow> bar_at vdev idx;
       lo \<leftarrow> pci_vdev_read_cfg_u32 vdev (pci_bar_offset idx);
       base \<leftarrow> (if bar_type vbar \<noteq> PCIBAR_NONE \<and> lo \<noteq> NOT 0 then
                  do {
                    let base = ucast (lo AND bar_mask vbar);
                    (base, vbar) \<leftarrow>
                      (if bar_type vbar = PCIBAR_MEM64 then
                         do {
                           vbar1 \<leftarrow> bar_at vdev (idx + 1);
                           hi \<leftarrow> pci_vdev_read_cfg_u32 vdev (pci_bar_offset idx + 4);
                           Some (if hi \<noteq> NOT 0 then base OR push_bit 32 (ucast (hi AND bar_mask vbar1)) else 0, vbar1)
                         }
                       else Some (base, vbar));
                    Some (if bar_type vbar = PCIBAR_IO_SPACE then base AND 0xffff else base)
                  }
                else Some (0 :: u64));
       let base = (if base \<noteq> 0 \<and> \<not> vbar_base_is_valid base (bar_size vbar) then 0 else base);
       Some (put_bar idx (vbar\<lparr>bar_base := base\<rparr>) vdev)
     }"

definition pci_vdev_write_bar :: "u32 \<Rightarrow> u32 \<Rightarrow> pci_vdev \<Rightarrow> pci_vdev option" where
  "pci_vdev_write_bar idx val vdev =
     do {
       vbar \<leftarrow> bar_at vdev idx;
       vdev1 \<leftarrow> pci_vdev_write_cfg_u32 (pci_bar_offset idx) ((val AND bar_mask vbar) OR bar_fixed vbar) vdev;
       pci_vdev_update_bar_base (if bar_type vbar = PCIBAR_MEM64HI then idx - 1 else idx) vdev1
     }"

subsection \<open>The host bridge\<close>

definition init_vhostbridge :: "pci_vdev \<Rightarrow> pci_vdev option" where
  "init_vhostbridge vdev =
     do {
       d \<leftarrow> pci_vdev_write_cfg_u16 PCIR_VENDOR 0x8086 vdev;
       d \<leftarrow> pci_vdev_write_cfg_u16 PCIR_DEVICE 0x5af0 d;
       d \<leftarrow> pci_vdev_write_cfg_u8 PCIR_REVID 0xb d;
       d \<leftarrow> pci_vdev_write_cfg_u8 PCIR_HDRTYPE (ucast PCIM_HDRTYPE_NORMAL) d;
       d \<leftarrow> pci_vdev_write_cfg_u8 PCIR_CLASS PCIC_BRIDGE d;
       d \<leftarrow> pci_vdev_write_cfg_u8 PCIR_SUBCLASS PCIS_BRIDGE_HOST d;
       pci_vdev_write_cfg_u8 PCIR_INTERRUPT_LINE INTERRUPT_LINE_NO_CONNECTION d
     }"

definition deinit_vhostbridge :: "machine \<Rightarrow> machine option" where
  "deinit_vhostbridge m = Some m"

definition vhostbridge_read_cfg :: "pci_vdev \<Rightarrow> u32 \<Rightarrow> u32 \<Rightarrow> u32 option" where
  "vhostbridge_read_cfg vdev offset bytes = pci_vdev_read_cfg vdev offset bytes"

definition vhostbridge_write_cfg :: "u32 \<Rightarrow> u32 \<Rightarrow> u32 \<Rightarrow> machine \<Rightarrow> machine option" where
  "vhostbridge_write_cfg offset bytes val m = Some m"

subsection \<open>Message signalled interrupts\<close>

definition enable_disable_msi :: "board \<Rightarrow> pci_vdev \<Rightarrow> bool \<Rightarrow> machine \<Rightarrow> machine" where
  "enable_disable_msi bd vdev enable m =
     (let (msgctrl, m1) = pci_pdev_read_cfg bd (vd_pbdf vdev) (capoff (vd_msi vdev) + PCIR_MSI_CTRL) 2 m;
          msgctrl = (if enable then msgctrl OR PCIM_MSICTRL_MSI_ENABLE else msgctrl AND NOT PCIM_MSICTRL_MSI_ENABLE)
      in pci_pdev_write_cfg (vd_pbdf vdev) (capoff (vd_msi vdev) + PCIR_MSI_CTRL) 2 msgctrl m1)"

definition vmsi_info :: "pci_vdev \<Rightarrow> ptirq_msi_info option" where
  "vmsi_info vdev =
     (let off = capoff (vd_msi vdev) in
      do {
        addrlo \<leftarrow> pci_vdev_read_cfg_u32 vdev (off + PCIR_MSI_ADDR);
        (addrhi, msgdata) \<leftarrow>
          (if is_64bit (vd_msi vdev) then
             do {
               hi \<leftarrow> pci_vdev_read_cfg_u32 vdev (off + PCIR_MSI_ADDR_HIGH);
               d \<leftarrow> pci_vdev_read_cfg_u16 vdev (off + PCIR_MSI_DATA_64BIT);
               Some (hi, d)
             }
           else do { d \<leftarrow> pci_vdev_read_cfg_u16 vdev (off + PCIR_MSI_DATA); Some (0, d) });
        Some \<lparr>vmsi_addr = ucast addrlo OR push_bit 32 (ucast addrhi), vmsi_data = ucast msgdata, pmsi_addr = 0, pmsi_data = 0\<rparr>
      })"

definition remap_vmsi :: "board \<Rightarrow> u16 \<Rightarrow> pci_vdev \<Rightarrow> machine \<Rightarrow> machine option" where
  "remap_vmsi bd vm vdev m =
     (let off = capoff (vd_msi vdev); pbdf = vd_pbdf vdev in
      do {
        msi \<leftarrow> vmsi_info vdev;
        let vector = bitfield_get 0 8 (ucast (vmsi_data msi));
        if vector \<ge> 0x10 \<and> vector \<le> 0xfe then
          do {
            (msi, m1) \<leftarrow> ptirq_msix_remap bd vm (vd_bdf vdev) pbdf 0 msi m;
            let m2 = pci_pdev_write_cfg pbdf (off + PCIR_MSI_ADDR) 4 (ucast (pmsi_addr msi)) m1;
            let m3 = (if is_64bit (vd_msi vdev) then
                        pci_pdev_write_cfg pbdf (off + PCIR_MSI_DATA_64BIT) 2 (ucast (ucast (pmsi_data msi) :: u16))
                          (pci_pdev_write_cfg pbdf (off + PCIR_MSI_ADDR_HIGH) 4 (ucast (drop_bit 32 (pmsi_addr msi))) m2)
                      else pci_pdev_write_cfg pbdf (off + PCIR_MSI_DATA) 2 (ucast (ucast (pmsi_data msi) :: u16)) m2);
            Some (enable_disable_msi bd vdev True m3)
          }
        else Some m
      })"

definition msi_32_ro_mask :: "u8 list" where
  "msi_32_ro_mask = [0xff, 0xff, 0xfe, 0xff, 0xff, 0x0f, 0xf0, 0xff, 0x00, 0xff, 0xff, 0xff]"

definition msi_64_ro_mask :: "u8 list" where
  "msi_64_ro_mask = [0xff, 0xff, 0xfe, 0xff, 0xff, 0x0f, 0xf0, 0xff, 0xff, 0xff, 0xff, 0xff, 0x00, 0xff, 0xff, 0xff]"

text \<open>\<open>bytes\<close> bytes of the table from index \<open>k\<close> replace the low bytes of \<open>~0U\<close>.\<close>

definition copy_ro_mask :: "u8 list \<Rightarrow> nat \<Rightarrow> nat \<Rightarrow> u32 option" where
  "copy_ro_mask tbl k bytes =
     (if k + bytes \<le> length tbl \<and> bytes \<le> 4 then Some (le32 (take bytes (drop k tbl) @ replicate 4 0xff)) else None)"

definition vmsi_write_cfg :: "board \<Rightarrow> u16 \<Rightarrow> nat \<Rightarrow> u32 \<Rightarrow> u32 \<Rightarrow> u32 \<Rightarrow> machine \<Rightarrow> machine option" where
  "vmsi_write_cfg bd vm i offset bytes val m =
     (let vdev = get_vdev vm i m;
          tbl = (if is_64bit (vd_msi vdev) then msi_64_ro_mask else msi_32_ro_mask)
      in do {
           ro_mask \<leftarrow> copy_ro_mask tbl (unat (offset - capoff (vd_msi vdev))) (unat bytes);
           if ro_mask \<noteq> NOT 0 then
             do {
               old \<leftarrow> pci_vdev_read_cfg vdev offset bytes;
               vdev1 \<leftarrow> pci_vdev_write_cfg offset bytes ((old AND ro_mask) OR (val AND NOT ro_mask)) vdev;
               let m1 = enable_disable_msi bd vdev1 False (put_vdev vm i vdev1 m);
               msgctrl \<leftarrow> pci_vdev_read_cfg vdev1 (capoff (vd_msi vdev1) + PCIR_MSI_CTRL) 2;
               if msgctrl AND PCIM_MSICTRL_MSI_ENABLE \<noteq> 0 then remap_vmsi bd vm vdev1 m1 else Some m1
             }
           else Some m
         })"

definition deinit_vmsi :: "board \<Rightarrow> u16 \<Rightarrow> nat \<Rightarrow> machine \<Rightarrow> machine option" where
  "deinit_vmsi bd vm i m =
     (let vdev = get_vdev vm i m
      in if has_msi_cap vdev then ptirq_remove_msix_remapping bd vm (vd_bdf vdev) 1 m else Some m)"

partial_function (option) vmsi_find_cap :: "board \<Rightarrow> u16 \<Rightarrow> u32 \<Rightarrow> machine \<Rightarrow> (u32 option \<times> machine) option" where
  "vmsi_find_cap bd pbdf val m =
     (if val \<noteq> 0 \<and> val \<noteq> 0xFF then
        let (cap, m1) = pci_pdev_read_cfg bd pbdf (val + PCICAP_ID) 1 m
        in if ucast cap = PCIY_MSI then Some (Some val, m1)
           else let (val1, m2) = pci_pdev_read_cfg bd pbdf (val + PCICAP_NEXTPTR) 1 m1
                in vmsi_find_cap bd pbdf val1 m2
      else Some (None, m))"

definition init_vmsi :: "board \<Rightarrow> u16 \<Rightarrow> nat \<Rightarrow> machine \<Rightarrow> machine option" where
  "init_vmsi bd vm i m =
     (let vdev = get_vdev vm i m; pbdf = vd_pbdf vdev in
      do {
        let (val, m1) = pci_pdev_read_cfg bd pbdf PCIR_CAP_PTR 1 m;
        (found, m2) \<leftarrow> vmsi_find_cap bd pbdf val m1;
        let vdev1 = (case found of None \<Rightarrow> vdev | Some c \<Rightarrow> vdev\<lparr>vd_msi := (vd_msi vdev)\<lparr>capoff := c\<rparr>\<rparr>);
        let off = capoff (vd_msi vdev1);
        vdev2 \<leftarrow> pci_vdev_write_cfg PCIR_CAP_PTR 1 off vdev1;
        if has_msi_cap vdev2 then
          do {
            let (val, m3) = pci_pdev_read_cfg bd pbdf off 4 m2;
            let b64 = (val AND push_bit 16 PCIM_MSICTRL_64BIT \<noteq> 0);
            let vdev3 = vdev2\<lparr>vd_msi := (vd_msi vdev2)\<lparr>is_64bit := b64, caplen := if b64 then 14 else 10\<rparr>\<rparr>;
            let val = val AND NOT (push_bit 8 PCIM_NEXTPTR);
            let val = val AND NOT (push_bit 16 PCIM_MSICTRL_MMC_MASK);
            let val = val AND NOT (push_bit 16 PCIM_MSICTRL_MME_MASK);
            vdev4 \<leftarrow> pci_vdev_write_cfg off 4 val vdev3;
            vdev5 \<leftarrow> pci_vdev_write_cfg (off + PCIR_MSI_ADDR) 4 MSG_INITIAL_VALUE vdev4;
            let msi_data_addr = off + (if b64 then PCIR_MSI_DATA_64BIT else PCIR_MSI_DATA);
            let (val, m4) = pci_pdev_read_cfg bd pbdf msi_data_addr 4 m3;
            let val = val AND NOT (MSI_DATA_TRIGGER_MODE OR MSI_DATA_LEVEL_TRIGGER_MODE OR MSI_DATA_DELIVER_MODE_MASK);
            let val = val OR MSI_DATA_LEVEL_TRIGGER_MODE;
            vdev6 \<leftarrow> pci_vdev_write_cfg msi_data_addr 4 val vdev5;
            Some (put_vdev vm i vdev6 m4)
          }
        else Some (put_vdev vm i vdev2 m2)
      })"

subsection \<open>Passthrough devices\<close>

definition pci_get_bar_type :: "u32 \<Rightarrow> pci_bar_type" where
  "pci_get_bar_type val =
     (if val AND PCIM_BAR_SPACE \<noteq> PCIM_BAR_IO_SPACE then
        if val AND PCIM_BAR_MEM_TYPE = PCIM_BAR_MEM_32 then PCIBAR_MEM32
        else if val AND PCIM_BAR_MEM_TYPE = PCIM_BAR_MEM_64 then PCIBAR_MEM64
        else PCIBAR_NONE
      else PCIBAR_NONE)"

definition vdev_pt_unmap_mem_vbar :: "u16 \<Rightarrow> u16 \<Rightarrow> nat \<Rightarrow> u32 \<Rightarrow> machine \<Rightarrow> machine option" where
  "vdev_pt_unmap_mem_vbar cpu vm i idx m =
     do {
       vbar \<leftarrow> bar_at (get_vdev vm i m) idx;
       if bar_base vbar \<noteq> 0 then
         do {
           h \<leftarrow> ept_del_mr cpu vm (hv_eptp (m_hv m) vm) (bar_base vbar) (bar_size vbar) (m_hv m);
           Some (m\<lparr>m_hv := h\<rparr>)
         }
       else Some m
     }"

definition vdev_pt_map_mem_vbar :: "u16 \<Rightarrow> u16 \<Rightarrow> nat \<Rightarrow> u32 \<Rightarrow> machine \<Rightarrow> machine option" where
  "vdev_pt_map_mem_vbar cpu vm i idx m =
     do {
       vbar \<leftarrow> bar_at (get_vdev vm i m) idx;
       if bar_base vbar \<noteq> 0 then
         do {
           h1 \<leftarrow> ept_del_mr cpu vm (hv_eptp (m_hv m) vm) (bar_base vbar) (bar_size vbar) (m_hv m);
           h2 \<leftarrow> ept_add_mr cpu vm (hv_eptp h1 vm) (bar_base_hpa vbar) (bar_base vbar) (bar_size vbar)
                   (EPT_WR OR EPT_RD OR EPT_UNCACHED) h1;
           Some (m\<lparr>m_hv := h2\<rparr>)
         }
       else Some m
     }"

definition vdev_write_bar :: "u16 \<Rightarrow> nat \<Rightarrow> u32 \<Rightarrow> u32 \<Rightarrow> machine \<Rightarrow> machine option" where
  "vdev_write_bar vm i idx val m =
     do { d \<leftarrow> pci_vdev_write_bar idx val (get_vdev vm i m); Some (put_vdev vm i d m) }"

definition vdev_pt_write_vbar :: "u16 \<Rightarrow> u16 \<Rightarrow> nat \<Rightarrow> u32 \<Rightarrow> u32 \<Rightarrow> machine \<Rightarrow> machine option" where
  "vdev_pt_write_vbar cpu vm i idx val m =
     do {
       vbar \<leftarrow> bar_at (get_vdev vm i m) idx;
       case bar_type vbar of
         PCIBAR_NONE \<Rightarrow> Some m
       | t \<Rightarrow>
           do {
             let update_idx = (if t = PCIBAR_MEM64HI then idx - 1 else idx);
             m1 \<leftarrow> vdev_pt_unmap_mem_vbar cpu vm i update_idx m;
             m2 \<leftarrow> vdev_write_bar vm i idx val m1;
             vdev_pt_map_mem_vbar cpu vm i update_idx m2
           }
     }"

text \<open>
  The size a BAR decodes: all ones are written, the register is read back and restored.
\<close>

definition probe_bar :: "board \<Rightarrow> u16 \<Rightarrow> u32 \<Rightarrow> u32 \<Rightarrow> machine \<Rightarrow> u32 \<times> machine" where
  "probe_bar bd pbdf offset restore m =
     (let m1 = pci_pdev_write_cfg pbdf offset 4 (NOT 0) m;
          (size32, m2) = pci_pdev_read_cfg bd pbdf offset 4 m1
      in (size32, pci_pdev_write_cfg pbdf offset 4 restore m2))"

definition upd_bar :: "u16 \<Rightarrow> nat \<Rightarrow> u32 \<Rightarrow> (pci_bar \<Rightarrow> pci_bar) \<Rightarrow> machine \<Rightarrow> machine option" where
  "upd_bar vm i idx f m =
     do { b \<leftarrow> bar_at (get_vdev vm i m) idx; Some (put_vdev vm i (put_bar idx (f b) (get_vdev vm i m)) m) }"

definition vbar_config :: "u16 \<Rightarrow> nat \<Rightarrow> u32 \<Rightarrow> machine \<Rightarrow> u64 option" where
  "vbar_config vm i idx m =
     (let bs = cfg_vbar_base (pci_dev_config (get_vdev vm i m)) in if unat idx < length bs then Some (bs ! unat idx) else None)"

text \<open>One round of the loop over the BARs; the flag tells whether a 64-bit BAR took two of them.\<close>

definition init_bar :: "board \<Rightarrow> u16 \<Rightarrow> u16 \<Rightarrow> nat \<Rightarrow> u32 \<Rightarrow> machine \<Rightarrow> (bool \<times> machine) option" where
  "init_bar bd cpu vm i idx m =
     (let pbdf = vd_pbdf (get_vdev vm i m);
          offset = pci_bar_offset idx;
          msk = PCI_BASE_ADDRESS_MEM_MASK;
          (lo, m1) = pci_pdev_read_cfg bd pbdf offset 4 m;
          type = pci_get_bar_type lo
      in if type = PCIBAR_NONE then Some (False, m1)
         else do {
           let (hi, m2) = (if type = PCIBAR_MEM64 then pci_pdev_read_cfg bd pbdf (offset + 4) 4 m1 else (0, m1));
           let base_hpa = (ucast lo AND msk) OR push_bit 32 (ucast hi);
           m3 \<leftarrow> upd_bar vm i idx (\<lambda>b. b\<lparr>bar_base_hpa := base_hpa\<rparr>) m2;
           if base_hpa \<noteq> 0 then
             do {
               let (size32, m4) = probe_bar bd pbdf offset lo m3;
               let sz = ucast size32 AND msk;
               m5 \<leftarrow> upd_bar vm i idx (\<lambda>b. b\<lparr>bar_type := type, bar_mask := ucast sz,
                        bar_fixed := ucast (ucast lo AND NOT msk), bar_size := sz\<rparr>) m4;
               vb \<leftarrow> vbar_config vm i idx m5;
               if type = PCIBAR_MEM64 then
                 do {
                   let (size32h, m6) = probe_bar bd pbdf (pci_bar_offset (idx + 1)) hi m5;
                   let sz = sz OR push_bit 32 (ucast size32h);
                   let sz = round_page_up (sz AND NOT (sz - 1));
                   m7 \<leftarrow> upd_bar vm i idx (\<lambda>b. b\<lparr>bar_size := sz\<rparr>) m6;
                   m8 \<leftarrow> upd_bar vm i (idx + 1) (\<lambda>b. b\<lparr>bar_mask := size32h, bar_type := PCIBAR_MEM64HI\<rparr>) m7;
                   m9 \<leftarrow> vdev_write_bar vm i idx (ucast vb) m8;
                   m10 \<leftarrow> vdev_write_bar vm i (idx + 1) (ucast (drop_bit 32 vb)) m9;
                   m11 \<leftarrow> vdev_pt_map_mem_vbar cpu vm i idx m10;
                   Some (True, m11)
                 }
               else
                 do {
                   let sz = round_page_up (sz AND NOT (sz - 1));
                   m6 \<leftarrow> upd_bar vm i idx (\<lambda>b. b\<lparr>bar_size := sz\<rparr>) m5;
                   m7 \<leftarrow> vdev_write_bar vm i idx (ucast vb) m6;
                   m8 \<leftarrow> vdev_pt_map_mem_vbar cpu vm i idx m7;
                   Some (False, m8)
                 }
             }
           else Some (False, m3)
         })"

function init_bar_loop :: "board \<Rightarrow> u16 \<Rightarrow> u16 \<Rightarrow> nat \<Rightarrow> nat \<Rightarrow> machine \<Rightarrow> machine option" where
  "init_bar_loop bd cpu vm i idx m =
     (if idx < unat PCI_BAR_COUNT then
        do {
          (two, m1) \<leftarrow> init_bar bd cpu vm i (of_nat idx) m;
          init_bar_loop bd cpu vm i (if two then idx + 2 else idx + 1) m1
        }
      else Some m)"
  by pat_completeness auto

termination
  by (relation "measure (\<lambda>(bd, cpu, vm, i, idx, m). unat PCI_BAR_COUNT - idx)") (auto split: if_splits)

definition init_vdev_pt :: "board \<Rightarrow> u16 \<Rightarrow> u16 \<Rightarrow> nat \<Rightarrow> machine \<Rightarrow> machine option" where
  "init_vdev_pt bd cpu vm i m =
     init_bar_loop bd cpu vm i 0 (put_vdev vm i ((get_vdev vm i m)\<lparr>nr_bars := PCI_BAR_COUNT\<rparr>) m)"

subsection \<open>Assignment\<close>

definition vm_domain :: "u16 \<Rightarrow> machine \<Rightarrow> iommu_domain" where
  "vm_domain vm m = vt_domains (m_vtd m) (m_iommu m vm)"

definition assign_vdev_pt_iommu_domain :: "board \<Rightarrow> u16 \<Rightarrow> nat \<Rightarrow> machine \<Rightarrow> machine option" where
  "assign_vdev_pt_iommu_domain bd vm i m =
     (let pbdf = vd_pbdf (get_vdev vm i m);
          (ret, vt) = add_iommu_device (bd_vtd bd) (vm_domain vm m) (ucast (drop_bit 8 pbdf)) (ucast pbdf) (m_vtd m)
      in if ret \<noteq> 0 then None else Some (m\<lparr>m_vtd := vt\<rparr>))"

definition remove_vdev_pt_iommu_domain :: "board \<Rightarrow> u16 \<Rightarrow> nat \<Rightarrow> machine \<Rightarrow> machine option" where
  "remove_vdev_pt_iommu_domain bd vm i m =
     (let pbdf = vd_pbdf (get_vdev vm i m) in
      do {
        (ret, vt) \<leftarrow> remove_iommu_device (bd_vtd bd) (vm_domain vm m) (ucast (drop_bit 8 pbdf)) (ucast pbdf) (m_vtd m);
        if ret \<noteq> 0 then None else Some (m\<lparr>m_vtd := vt\<rparr>)
      })"

definition eth_fields :: "(u32 \<times> u32) list" where
  "eth_fields = [(0xa4, 4), (0xa8, 4)]"

definition usb_fields :: "(u32 \<times> u32) list" where
  "usb_fields = [(0x40, 4), (0x44, 4), (0x50, 4), (0x60, 2), (0x94, 4), (0xa4, 2), (0xb0, 4), (0xb4, 4), (0xb8, 4),
     (0xbc, 4), (0xd0, 4), (0xd4, 4), (0xd8, 1)]"

text \<open>Copies fields of the physical configuration space to the virtual one.\<close>

fun copy_cfg_fields :: "board \<Rightarrow> u16 \<Rightarrow> nat \<Rightarrow> (u32 \<times> u32) list \<Rightarrow> machine \<Rightarrow> machine option" where
  "copy_cfg_fields bd vm i [] m = Some m"
| "copy_cfg_fields bd vm i ((offset, len) # rest) m =
     do {
       let (val, m1) = pci_pdev_read_cfg bd (vd_pbdf (get_vdev vm i m)) offset len m;
       d \<leftarrow> pci_vdev_write_cfg offset len val (get_vdev vm i m1);
       copy_cfg_fields bd vm i rest (put_vdev vm i d m1)
     }"

definition header_fields :: "(u32 \<times> u32) list" where
  "header_fields = map (\<lambda>index. (of_nat (4 * index), 4))
     (filter (\<lambda>index. index < unat PCIR_BARS div 4 \<or> index > unat PCIR_BARS div 4 + unat PCI_BAR_COUNT - 1)
        [0..<(unat PCI_HDRMAX + 1) div 4])"

definition init_default_cfg :: "board \<Rightarrow> u16 \<Rightarrow> nat \<Rightarrow> machine \<Rightarrow> machine option" where
  "init_default_cfg bd vm i m =
     (let pbdf = vd_pbdf (get_vdev vm i m);
          (cmd, m1) = pci_pdev_read_cfg bd pbdf PCIR_COMMAND 2 m;
          pci_command = (ucast cmd :: u16) OR ucast PCIM_CMD_INTXDIS;
          m2 = pci_pdev_write_cfg pbdf PCIR_COMMAND 2 (ucast pci_command) m1
      in do {
           m3 \<leftarrow> copy_cfg_fields bd vm i header_fields m2;
           d \<leftarrow> pci_vdev_write_cfg PCIR_INTERRUPT_PIN 1 0 (get_vdev vm i m3);
           let m4 = put_vdev vm i d m3;
           if pbdf = PCI_USB_CONTROLLER then copy_cfg_fields bd vm i usb_fields m4
           else if pbdf = PCI_ETH_CONTROLLER then copy_cfg_fields bd vm i eth_fields m4
           else Some m4
         })"

definition vpci_init_pt_dev :: "board \<Rightarrow> u16 \<Rightarrow> u16 \<Rightarrow> nat \<Rightarrow> machine \<Rightarrow> machine option" where
  "vpci_init_pt_dev bd cpu vm i m =
     do {
       m1 \<leftarrow> init_default_cfg bd vm i m;
       m2 \<leftarrow> init_vmsi bd vm i m1;
       m3 \<leftarrow> init_vdev_pt bd cpu vm i m2;
       assign_vdev_pt_iommu_domain bd vm i m3
     }"

definition vpci_deinit_pt_dev :: "board \<Rightarrow> u16 \<Rightarrow> nat \<Rightarrow> machine \<Rightarrow> machine option" where
  "vpci_deinit_pt_dev bd vm i m =
     do { m1 \<leftarrow> remove_vdev_pt_iommu_domain bd vm i m; deinit_vmsi bd vm i m1 }"

subsection \<open>Configuration accesses of the guest\<close>

definition pci_bar_index :: "u32 \<Rightarrow> u32" where
  "pci_bar_index offset = drop_bit 2 (offset - PCIR_BARS)"

definition vpci_write_pt_dev_cfg :: "board \<Rightarrow> u16 \<Rightarrow> u16 \<Rightarrow> nat \<Rightarrow> u32 \<Rightarrow> u32 \<Rightarrow> u32 \<Rightarrow> machine \<Rightarrow> machine option" where
  "vpci_write_pt_dev_cfg bd cpu vm i offset bytes val m =
     (let vdev = get_vdev vm i m in
      if vbar_access vdev offset then
        if bytes = 4 \<and> offset AND 0x3 = 0 then vdev_pt_write_vbar cpu vm i (pci_bar_index offset) val m else Some m
      else if msicap_access vdev offset then vmsi_write_cfg bd vm i offset bytes val m
      else if offset \<ge> PCIR_COMMAND \<and> offset < PCIR_REVID then
        if offset = PCIR_COMMAND + 1 \<and> bytes = 1
        then Some (pci_pdev_write_cfg (vd_pbdf vdev) offset bytes (val OR drop_bit 8 PCIM_CMD_INTXDIS) m)
        else if offset = PCIR_COMMAND \<and> (bytes = 2 \<or> bytes = 4)
        then Some (pci_pdev_write_cfg (vd_pbdf vdev) offset bytes (val OR PCIM_CMD_INTXDIS) m)
        else Some (pci_pdev_write_cfg (vd_pbdf vdev) offset bytes val m)
      else Some m)"

definition vpci_read_pt_dev_cfg :: "board \<Rightarrow> u16 \<Rightarrow> nat \<Rightarrow> u32 \<Rightarrow> u32 \<Rightarrow> machine \<Rightarrow> (u32 \<times> machine) option" where
  "vpci_read_pt_dev_cfg bd vm i offset bytes m =
     (let vdev = get_vdev vm i m in
      if vbar_access vdev offset then
        if bytes = 4 \<and> offset AND 0x3 = 0
        then do { v \<leftarrow> pci_vdev_read_bar vdev (pci_bar_index offset); Some (v, m) }
        else Some (NOT 0, m)
      else if offset \<ge> PCIR_COMMAND \<and> offset < PCIR_REVID
      then Some (pci_pdev_read_cfg bd (vd_pbdf vdev) offset bytes m)
      else do { v \<leftarrow> pci_vdev_read_cfg vdev offset bytes; Some (v, m) })"

definition init_vdev :: "board \<Rightarrow> u16 \<Rightarrow> u16 \<Rightarrow> nat \<Rightarrow> machine \<Rightarrow> machine option" where
  "init_vdev bd cpu vm i m =
     (case vdev_ops (get_vdev vm i m) of
        Vhostbridge_ops \<Rightarrow> do { d \<leftarrow> init_vhostbridge (get_vdev vm i m); Some (put_vdev vm i d m) }
      | Pci_pt_dev_ops \<Rightarrow> vpci_init_pt_dev bd cpu vm i m)"

definition deinit_vdev :: "board \<Rightarrow> u16 \<Rightarrow> nat \<Rightarrow> machine \<Rightarrow> machine option" where
  "deinit_vdev bd vm i m =
     (case vdev_ops (get_vdev vm i m) of
        Vhostbridge_ops \<Rightarrow> deinit_vhostbridge m
      | Pci_pt_dev_ops \<Rightarrow> vpci_deinit_pt_dev bd vm i m)"

definition read_cfg :: "board \<Rightarrow> u16 \<Rightarrow> u16 \<Rightarrow> u32 \<Rightarrow> u32 \<Rightarrow> machine \<Rightarrow> (u32 \<times> machine) option" where
  "read_cfg bd vm bdf offset bytes m =
     (case pci_find_vdev (m_vpci m vm) bdf of
        None \<Rightarrow> Some (NOT 0, m)
      | Some i \<Rightarrow>
          (case vdev_ops (get_vdev vm i m) of
             Vhostbridge_ops \<Rightarrow> do { v \<leftarrow> vhostbridge_read_cfg (get_vdev vm i m) offset bytes; Some (v, m) }
           | Pci_pt_dev_ops \<Rightarrow> vpci_read_pt_dev_cfg bd vm i offset bytes m))"

definition write_cfg :: "board \<Rightarrow> u16 \<Rightarrow> u16 \<Rightarrow> u16 \<Rightarrow> u32 \<Rightarrow> u32 \<Rightarrow> u32 \<Rightarrow> machine \<Rightarrow> machine option" where
  "write_cfg bd cpu vm bdf offset bytes val m =
     (case pci_find_vdev (m_vpci m vm) bdf of
        None \<Rightarrow> Some m
      | Some i \<Rightarrow>
          (case vdev_ops (get_vdev vm i m) of
             Vhostbridge_ops \<Rightarrow> vhostbridge_write_cfg offset bytes val m
           | Pci_pt_dev_ops \<Rightarrow> vpci_write_pt_dev_cfg bd cpu vm i offset bytes val m))"

definition set_pio_value :: "u16 \<Rightarrow> u16 \<Rightarrow> u32 \<Rightarrow> machine \<Rightarrow> machine" where
  "set_pio_value vm v val m =
     m\<lparr>m_req := (m_req m)(vm := (m_req m vm)(v := (m_req m vm v)\<lparr>pio_value := val\<rparr>))\<rparr>"

definition pci_cfgaddr_io_read :: "u16 \<Rightarrow> u16 \<Rightarrow> u16 \<Rightarrow> u16 \<Rightarrow> machine \<Rightarrow> machine" where
  "pci_cfgaddr_io_read vm v addr bytes m =
     set_pio_value vm v (if addr = ucast PCI_CONFIG_ADDR \<and> bytes = 4 then vpci_addr (m_vpci m vm) else NOT 0) m"

definition pci_cfgaddr_io_write :: "u16 \<Rightarrow> u16 \<Rightarrow> u16 \<Rightarrow> u32 \<Rightarrow> machine \<Rightarrow> machine" where
  "pci_cfgaddr_io_write vm addr bytes val m =
     (if addr = ucast PCI_CONFIG_ADDR \<and> bytes = 4
      then upd_vpci vm (\<lambda>p. p\<lparr>vpci_addr := val AND NOT 0x7f000003\<rparr>) m else m)"

definition vpci_is_valid_access_offset :: "u32 \<Rightarrow> u32 \<Rightarrow> bool" where
  "vpci_is_valid_access_offset offset bytes \<longleftrightarrow> offset AND (bytes - 1) = 0"

definition vpci_is_valid_access_byte :: "u32 \<Rightarrow> bool" where
  "vpci_is_valid_access_byte bytes \<longleftrightarrow> bytes = 1 \<or> bytes = 2 \<or> bytes = 4"

definition vpci_is_valid_access :: "u32 \<Rightarrow> u32 \<Rightarrow> bool" where
  "vpci_is_valid_access offset bytes \<longleftrightarrow> vpci_is_valid_access_byte bytes \<and> vpci_is_valid_access_offset offset bytes"

definition cfg_addr_enable :: "u32 \<Rightarrow> bool" where "cfg_addr_enable a \<longleftrightarrow> bit a 31"
definition cfg_addr_bdf :: "u32 \<Rightarrow> u16" where "cfg_addr_bdf a = ucast (drop_bit 8 a)"
definition cfg_addr_reg_num :: "u32 \<Rightarrow> u32" where "cfg_addr_reg_num a = a AND 0xFF"

definition pci_cfgdata_io_read :: "board \<Rightarrow> u16 \<Rightarrow> u16 \<Rightarrow> u16 \<Rightarrow> u16 \<Rightarrow> machine \<Rightarrow> machine option" where
  "pci_cfgdata_io_read bd vm v addr bytes m =
     (let offset = ucast addr - PCI_CONFIG_DATA;
          cfg_addr = vpci_addr (m_vpci m vm);
          m1 = upd_vpci vm (\<lambda>p. p\<lparr>vpci_addr := PCI_DISABLED_CONFIG_ADDR\<rparr>) m;
          target_reg = cfg_addr_reg_num cfg_addr + offset
      in if cfg_addr_enable cfg_addr \<and> vpci_is_valid_access target_reg (ucast bytes) then
           do {
             (val, m2) \<leftarrow> read_cfg bd vm (cfg_addr_bdf cfg_addr) target_reg (ucast bytes) m1;
             Some (set_pio_value vm v val m2)
           }
         else Some (set_pio_value vm v (NOT 0) m1))"

definition pci_cfgdata_io_write :: "board \<Rightarrow> u16 \<Rightarrow> u16 \<Rightarrow> u16 \<Rightarrow> u16 \<Rightarrow> u32 \<Rightarrow> machine \<Rightarrow> machine option" where
  "pci_cfgdata_io_write bd cpu vm addr bytes val m =
     (let offset = ucast addr - PCI_CONFIG_DATA;
          cfg_addr = vpci_addr (m_vpci m vm);
          m1 = upd_vpci vm (\<lambda>p. p\<lparr>vpci_addr := PCI_DISABLED_CONFIG_ADDR\<rparr>) m;
          target_reg = cfg_addr_reg_num cfg_addr + offset
      in if cfg_addr_enable cfg_addr \<and> vpci_is_valid_access target_reg (ucast bytes)
         then write_cfg bd cpu vm (cfg_addr_bdf cfg_addr) target_reg (ucast bytes) val m1
         else Some m1)"

subsection \<open>The bus of a VM\<close>

text \<open>A slot of \<^verbatim>\<open>pci_vdevs\<close> in the zeroed structure of a VM.\<close>

definition blank_bar :: pci_bar where
  "blank_bar = \<lparr>bar_type = PCIBAR_NONE, bar_size = 0, bar_base = 0, bar_base_hpa = 0, bar_fixed = 0, bar_mask = 0\<rparr>"

definition new_vdev :: "acrn_vm_pci_dev_config \<Rightarrow> pci_vdev" where
  "new_vdev dev_config =
     \<lparr>vd_bdf = cfg_vbdf dev_config, vd_pbdf = cfg_pbdf dev_config, cfgdata = replicate (unat PCI_REGMAX + 1) 0,
      nr_bars = 0, vd_bar = replicate (unat PCI_BAR_COUNT) blank_bar, vd_msi = \<lparr>is_64bit = False, capoff = 0, caplen = 0\<rparr>,
      pci_dev_config = dev_config,
      vdev_ops = (case cfg_vdev_ops dev_config of Some o' \<Rightarrow> o' | None \<Rightarrow> Pci_pt_dev_ops)\<rparr>"

definition vpci_init_vdev :: "board \<Rightarrow> u16 \<Rightarrow> u16 \<Rightarrow> acrn_vm_pci_dev_config \<Rightarrow> machine \<Rightarrow> machine option" where
  "vpci_init_vdev bd cpu vm dev_config m =
     (let n = length (pci_vdevs (m_vpci m vm))
      in if n < CONFIG_MAX_PCI_DEV_NUM
         then init_vdev bd cpu vm n (upd_vpci vm (\<lambda>p. p\<lparr>pci_vdevs := pci_vdevs p @ [new_vdev dev_config]\<rparr>) m)
         else None)"

fun vpci_init_loop :: "board \<Rightarrow> u16 \<Rightarrow> u16 \<Rightarrow> acrn_vm_pci_dev_config list \<Rightarrow> machine \<Rightarrow> machine option" where
  "vpci_init_loop bd cpu vm [] m = Some m"
| "vpci_init_loop bd cpu vm (c # rest) m =
     do { m1 \<leftarrow> vpci_init_vdev bd cpu vm c m; vpci_init_loop bd cpu vm rest m1 }"

definition vpci_init_vdevs :: "board \<Rightarrow> u16 \<Rightarrow> u16 \<Rightarrow> machine \<Rightarrow> machine option" where
  "vpci_init_vdevs bd cpu vm m = vpci_init_loop bd cpu vm (bd_pci_devs bd vm) m"

definition PIC_MASTER_PIO_IDX :: nat where "PIC_MASTER_PIO_IDX = 0"
definition PIC_SLAVE_PIO_IDX :: nat where "PIC_SLAVE_PIO_IDX = PIC_MASTER_PIO_IDX + 1"
definition PIC_ELC_PIO_IDX :: nat where "PIC_ELC_PIO_IDX = PIC_SLAVE_PIO_IDX + 1"
definition PCI_CFGADDR_PIO_IDX :: nat where "PCI_CFGADDR_PIO_IDX = PIC_ELC_PIO_IDX + 1"
definition PCI_CFGDATA_PIO_IDX :: nat where "PCI_CFGDATA_PIO_IDX = PCI_CFGADDR_PIO_IDX + 1"
definition UART_PIO_IDX0 :: nat where "UART_PIO_IDX0 = PCI_CFGDATA_PIO_IDX + 1"
definition UART_PIO_IDX1 :: nat where "UART_PIO_IDX1 = UART_PIO_IDX0 + 1"
definition PM1A_EVT_PIO_IDX :: nat where "PM1A_EVT_PIO_IDX = UART_PIO_IDX1 + 1"
definition PM1A_CNT_PIO_IDX :: nat where "PM1A_CNT_PIO_IDX = PM1A_EVT_PIO_IDX + 1"
definition PM1B_EVT_PIO_IDX :: nat where "PM1B_EVT_PIO_IDX = PM1A_CNT_PIO_IDX + 1"
definition PM1B_CNT_PIO_IDX :: nat where "PM1B_CNT_PIO_IDX = PM1B_EVT_PIO_IDX + 1"
definition RTC_PIO_IDX :: nat where "RTC_PIO_IDX = PM1B_CNT_PIO_IDX + 1"
definition VIRTUAL_PM1A_CNT_PIO_IDX :: nat where "VIRTUAL_PM1A_CNT_PIO_IDX = RTC_PIO_IDX + 1"
definition KB_PIO_IDX :: nat where "KB_PIO_IDX = VIRTUAL_PM1A_CNT_PIO_IDX + 1"
definition CF9_PIO_IDX :: nat where "CF9_PIO_IDX = KB_PIO_IDX + 1"
definition PIO_RESET_REG_IDX :: nat where "PIO_RESET_REG_IDX = CF9_PIO_IDX + 1"
definition EMUL_PIO_IDX_MAX :: nat where "EMUL_PIO_IDX_MAX = PIO_RESET_REG_IDX + 1"

record vm_io_range =
  io_base :: u16
  io_len :: u16

definition register_pio_emulation_handler :: "u16 \<Rightarrow> nat \<Rightarrow> vm_io_range \<Rightarrow> io_handler \<Rightarrow> machine \<Rightarrow> machine" where
  "register_pio_emulation_handler vm pio_idx rng fn m =
     m\<lparr>m_emul_pio := (m_emul_pio m)(vm := (m_emul_pio m vm)(pio_idx :=
         \<lparr>port_start = io_base rng, port_end = io_base rng + io_len rng, io_fn = Some fn\<rparr>))\<rparr>"

definition vpci_init :: "board \<Rightarrow> u16 \<Rightarrow> u16 \<Rightarrow> machine \<Rightarrow> machine option" where
  "vpci_init bd cpu vm m =
     (let m1 = upd_vpci vm (\<lambda>p. p\<lparr>vpci_addr := PCI_DISABLED_CONFIG_ADDR\<rparr>) m;
          (d, vt) = create_iommu_domain vm (hva2hpa (hv_eptp (m_hv m1) vm)) 48 (m_vtd m1);
          m2 = m1\<lparr>m_vtd := vt, m_iommu := (m_iommu m1)(vm := d)\<rparr>
      in do {
           m3 \<leftarrow> vpci_init_vdevs bd cpu vm m2;
           let m4 = register_pio_emulation_handler vm PCI_CFGADDR_PIO_IDX
                      \<lparr>io_base = ucast PCI_CONFIG_ADDR, io_len = 1\<rparr> Pci_cfgaddr m3;
           Some (register_pio_emulation_handler vm PCI_CFGDATA_PIO_IDX
                      \<lparr>io_base = ucast PCI_CONFIG_DATA, io_len = 4\<rparr> Pci_cfgdata m4)
         })"

fun vpci_cleanup_loop :: "board \<Rightarrow> u16 \<Rightarrow> nat list \<Rightarrow> machine \<Rightarrow> machine option" where
  "vpci_cleanup_loop bd vm [] m = Some m"
| "vpci_cleanup_loop bd vm (i # is) m = do { m1 \<leftarrow> deinit_vdev bd vm i m; vpci_cleanup_loop bd vm is m1 }"

definition vpci_cleanup :: "board \<Rightarrow> u16 \<Rightarrow> machine \<Rightarrow> machine option" where
  "vpci_cleanup bd vm m = vpci_cleanup_loop bd vm [0..<length (pci_vdevs (m_vpci m vm))] m"

end
