(* ===== verification/Acrn_Vpci_Safe.thy ===== *)
theory Acrn_Vpci_Safe
  imports Acrn_Vpci
begin

text \<open>
  What a guest can do to the physical machine through its virtual PCI bus: the invariant of the
  virtual devices, the configuration accesses that reach hardware, and the BARs it can program.
\<close>

subsection \<open>Well-formed devices\<close>

definition vdev_wf :: "pci_vdev \<Rightarrow> bool" where
  "vdev_wf d \<longleftrightarrow> length (cfgdata d) = 256 \<and> length (vd_bar d) = 6 \<and> nr_bars d \<le> 6 \<and>
     (\<forall>j < 6. bar_type (vd_bar d ! j) = PCIBAR_MEM64 \<longrightarrow> j < 5) \<and>
     (\<forall>j < 6. bar_type (vd_bar d ! j) = PCIBAR_MEM64HI \<longrightarrow> 0 < j) \<and>
     (has_msi_cap d \<longrightarrow> 4 dvd unat (capoff (vd_msi d)) \<and> 0x40 \<le> unat (capoff (vd_msi d)) \<and> unat (capoff (vd_msi d)) + 16 \<le> 256 \<and>
        caplen (vd_msi d) = (if is_64bit (vd_msi d) then 14 else 10))"

definition vpci_wf :: "acrn_vpci \<Rightarrow> bool" where
  "vpci_wf p \<longleftrightarrow> vpci_addr p AND 0x7f000003 = 0 \<and> (\<forall>d \<in> set (pci_vdevs p). vdev_wf d)"

subsection \<open>Configuration bytes\<close>

lemma slot_bounds:
  fixes n :: nat
  assumes "n < 256"
  shows "2 * (n div 2) < 255" "4 * (n div 4) < 253"
proof -
  have "n div 2 \<le> 127" "n div 4 \<le> 63"
    using div_le_mono [of n 255 2] div_le_mono [of n 255 4] assms by simp_all
  then show "2 * (n div 2) < 255" "4 * (n div 4) < 253"
    by linarith+
qed

lemma read_u8_some: "length (cfgdata d) = 256 \<Longrightarrow> unat off < 256 \<Longrightarrow> \<exists>v. pci_vdev_read_cfg_u8 d off = Some v"
  by (simp add: pci_vdev_read_cfg_u8_def)

lemma read_u16_some: "length (cfgdata d) = 256 \<Longrightarrow> unat off < 256 \<Longrightarrow> \<exists>v. pci_vdev_read_cfg_u16 d off = Some v"
  by (simp add: pci_vdev_read_cfg_u16_def Let_def unat_shiftr slot_bounds)

lemma read_u32_some: "length (cfgdata d) = 256 \<Longrightarrow> unat off < 256 \<Longrightarrow> \<exists>v. pci_vdev_read_cfg_u32 d off = Some v"
  by (simp add: pci_vdev_read_cfg_u32_def Let_def unat_shiftr slot_bounds)

lemma read_cfg_some: "length (cfgdata d) = 256 \<Longrightarrow> unat off < 256 \<Longrightarrow> \<exists>v. pci_vdev_read_cfg d off bytes = Some v"
  using read_u8_some read_u16_some read_u32_some by (auto simp: pci_vdev_read_cfg_def)

text \<open>A write changes the bytes only and keeps their number.\<close>

definition only_cfg :: "pci_vdev \<Rightarrow> pci_vdev \<Rightarrow> bool" where
  "only_cfg d d' \<longleftrightarrow> (\<exists>c. length c = length (cfgdata d) \<and> d' = d\<lparr>cfgdata := c\<rparr>)"

lemma only_cfg_wf: "only_cfg d d' \<Longrightarrow> vdev_wf d \<Longrightarrow> vdev_wf d'"
  by (auto simp: only_cfg_def vdev_wf_def has_msi_cap_def)

lemma only_cfgI: "length c = length (cfgdata d) \<Longrightarrow> only_cfg d (d\<lparr>cfgdata := c\<rparr>)"
  by (auto simp: only_cfg_def)

lemma le32_bytes:
  "le32 (ucast v # ucast (drop_bit 8 v) # ucast (drop_bit 16 v) # ucast (drop_bit 24 v) # bs) = v"
proof (rule bit_word_eqI)
  fix n assume "n < LENGTH(32)"
  then consider "n < 8" | "8 \<le> n" "n < 16" | "16 \<le> n" "n < 24" | "24 \<le> n" "n < 32"
    by force
  then show "bit (le32 (ucast v # ucast (drop_bit 8 v) # ucast (drop_bit 16 v) # ucast (drop_bit 24 v) # bs)) n = bit v n"
    by cases (auto simp: le32_def bit_simps)
qed

lemma drop_four:
  assumes "k + 3 < length xs"
  shows "drop k (xs[k := a, k + 1 := b, k + 2 := c, k + 3 := d]) = a # b # c # d # drop (k + 4) xs"
proof -
  have "drop k (xs[k := a, k + 1 := b, k + 2 := c, k + 3 := d]) = (drop k xs)[0 := a, 1 := b, 2 := c, 3 := d]"
    using assms by (simp add: drop_update_swap)
  moreover have "drop k xs = xs ! k # xs ! (k + 1) # xs ! (k + 2) # xs ! (k + 3) # drop (k + 4) xs"
    using assms Cons_nth_drop_Suc [of k xs] Cons_nth_drop_Suc [of "k + 1" xs] Cons_nth_drop_Suc [of "k + 2" xs]
      Cons_nth_drop_Suc [of "k + 3" xs] by (simp add: eval_nat_numeral)
  ultimately show ?thesis
    by (simp add: eval_nat_numeral)
qed

lemma write_u32_some:
  assumes "length (cfgdata d) = 256" "unat off < 256"
  shows "\<exists>d'. pci_vdev_write_cfg_u32 off v d = Some d' \<and> only_cfg d d' \<and> pci_vdev_read_cfg_u32 d' off = Some v"
proof -
  let ?k = "4 * unat (drop_bit 2 off)"
  have k: "?k + 3 < 256"
    using assms(2) by (simp add: unat_shiftr slot_bounds)
  have "le32 (drop ?k ((cfgdata d)[?k := ucast v, ?k + 1 := ucast (drop_bit 8 v), ?k + 2 := ucast (drop_bit 16 v),
      ?k + 3 := ucast (drop_bit 24 v)])) = v"
    using drop_four [of ?k "cfgdata d"] k assms(1) by (simp only: le32_bytes)
  then show ?thesis
    using k assms(1) by (simp add: pci_vdev_write_cfg_u32_def pci_vdev_read_cfg_u32_def Let_def only_cfgI)
qed

lemma write_cfg_some:
  assumes "length (cfgdata d) = 256" "unat off < 256"
  shows "\<exists>d'. pci_vdev_write_cfg off bytes v d = Some d' \<and> only_cfg d d'"
proof -
  have "2 * (unat off div 2) + 1 < 256"
    using slot_bounds(1) [OF assms(2)] by simp
  then show ?thesis
    using write_u32_some [OF assms, of v] assms
    by (auto simp: pci_vdev_write_cfg_def pci_vdev_write_cfg_u8_def pci_vdev_write_cfg_u16_def Let_def only_cfgI unat_shiftr)
qed

subsection \<open>Base address registers\<close>

lemma unat_bar_offset: "unat idx < 6 \<Longrightarrow> unat (pci_bar_offset idx) = 16 + 4 * unat idx"
  unfolding pci_bar_offset_def PCIR_BARS_def
  by (subst unat_add_small) (simp_all add: unat_shiftl)

lemma unat_bar_offset_4: "unat idx < 5 \<Longrightarrow> unat (pci_bar_offset idx + 4) = 20 + 4 * unat idx"
  by (subst unat_add_small) (simp_all add: unat_bar_offset)

lemma bar_at_some: "length (vd_bar d) = 6 \<Longrightarrow> unat idx < 6 \<Longrightarrow> bar_at d idx = Some (vd_bar d ! unat idx)"
  by (simp add: bar_at_def)

lemma unat_or_push:
  fixes l h :: u32
  shows "unat (ucast l OR push_bit 32 (ucast h) :: u64) = unat l + unat h * 2 ^ 32"
proof -
  have "ucast l AND push_bit 32 (ucast h) = (0 :: u64)"
    by (rule bit_word_eqI) (auto simp: bit_simps dest: bit_imp_le_length)
  then have "(ucast l OR push_bit 32 (ucast h) :: u64) = ucast l + push_bit 32 (ucast h)"
    by (simp add: disjunctive_add_eq_or)
  moreover have "unat (push_bit 32 (ucast h) :: u64) = unat h * 2 ^ 32"
    using unat_u32_bound [of h] by (subst unat_shiftl) (simp_all add: unat_ucast_up)
  ultimately show ?thesis
    using unat_u32_bound [of l] unat_u32_bound [of h] by (simp add: unat_add_small unat_ucast_up)
qed

lemma hi_bound:
  fixes l h msk :: u32
  assumes "h \<noteq> NOT 0"
  shows "unat (ucast l OR push_bit 32 (ucast (h AND msk)) :: u64) < 0xFFFFFFFF00000000"
proof -
  have "unat h \<noteq> 0xFFFFFFFF"
    using assms by (auto simp: word_nat_eq unsigned_minus_1_eq_mask mask_eq_exp_minus_1)
  then have "unat h < 0xFFFFFFFF"
    using unat_u32_bound [of h] by linarith
  then have "unat (h AND msk) < 0xFFFFFFFF"
    using word_and_le2 [of h msk] by (simp add: word_le_nat_alt)
  then show ?thesis
    using unat_u32_bound [of l] by (simp add: unat_or_push)
qed

lemma bar_base_range:
  assumes "unat b < 0xFFFFFFFF00000000" "unat sz \<le> 2 ^ 32" "vbar_base_is_valid b sz"
  shows "0xC0000000 \<le> unat b \<and> unat b + unat sz \<le> 0xE0000000"
proof -
  have "unat (b + sz) = unat b + unat sz"
    using assms(1,2) by (intro unat_add_small) simp
  then show ?thesis
    using assms(3) by (simp add: vbar_base_is_valid_def PCI_VBAR_BASE_LIMIT_def PCI_VBAR_TOP_LIMIT_def
        word_le_nat_alt word_less_nat_alt not_less)
qed

lemma update_base_some:
  assumes wf: "vdev_wf d" and idx: "unat idx < 6"
  defines "vb \<equiv> vd_bar d ! unat idx"
  shows "\<exists>b. pci_vdev_update_bar_base idx d = Some (put_bar idx (vb\<lparr>bar_base := b\<rparr>) d) \<and>
     (b = 0 \<or> vbar_base_is_valid b (bar_size vb)) \<and> unat b < 0xFFFFFFFF00000000"
proof -
  have w: "length (cfgdata d) = 256" "length (vd_bar d) = 6" "bar_type vb = PCIBAR_MEM64 \<Longrightarrow> unat idx < 5"
    using wf idx by (auto simp: vdev_wf_def vb_def)
  obtain lo where lo: "pci_vdev_read_cfg_u32 d (pci_bar_offset idx) = Some lo"
    using read_u32_some [OF w(1), of "pci_bar_offset idx"] idx by (auto simp: unat_bar_offset)
  have small: "unat (ucast (l :: u32) :: u64) < 0xFFFFFFFF00000000" for l
    using unat_u32_bound [of l] by (simp add: unat_ucast_up)
  have and_small: "unat (x AND 0xffff :: u64) < 0xFFFFFFFF00000000" for x
    using word_and_le1 [of x "0xffff"] by (simp add: word_le_nat_alt)
  have "\<exists>b. unat b < 0xFFFFFFFF00000000 \<and> pci_vdev_update_bar_base idx d =
      Some (put_bar idx (vb\<lparr>bar_base := if b \<noteq> 0 \<and> \<not> vbar_base_is_valid b (bar_size vb) then 0 else b\<rparr>) d)"
  proof (cases "bar_type vb \<noteq> PCIBAR_NONE \<and> lo \<noteq> NOT 0")
    case False
    then show ?thesis
      using lo w idx by (intro exI [of _ 0]) (auto simp: pci_vdev_update_bar_base_def bar_at_some vb_def Let_def)
  next
    case True
    note valid = this
    show ?thesis
    proof (cases "bar_type vb = PCIBAR_MEM64")
      case False
      then show ?thesis
        using lo w idx valid small and_small
        by (intro exI [of _ "if bar_type vb = PCIBAR_IO_SPACE then ucast (lo AND bar_mask vb) AND 0xffff else ucast (lo AND bar_mask vb)"])
          (simp add: pci_vdev_update_bar_base_def bar_at_some vb_def Let_def)
    next
      case True
      then have i5: "unat idx < 5"
        by (rule w(3))
      then have "unat (idx + 1) = unat idx + 1"
        by (subst unat_add_small) simp_all
      then have b1: "bar_at d (idx + 1) = Some (vd_bar d ! (unat idx + 1))"
        using w(2) i5 by (simp add: bar_at_def)
      obtain hi where hi: "pci_vdev_read_cfg_u32 d (pci_bar_offset idx + 4) = Some hi"
        using read_u32_some [OF w(1), of "pci_bar_offset idx + 4"] i5 by (auto simp: unat_bar_offset_4)
      let ?b = "if hi \<noteq> NOT 0 then ucast (lo AND bar_mask vb) OR push_bit 32 (ucast (hi AND bar_mask (vd_bar d ! (unat idx + 1)))) else (0 :: u64)"
      let ?b' = "if bar_type (vd_bar d ! (unat idx + 1)) = PCIBAR_IO_SPACE then ?b AND 0xffff else ?b"
      have "unat ?b' < 0xFFFFFFFF00000000"
        using hi_bound and_small by simp
      then show ?thesis
        using lo w(2) idx valid True b1 hi
        by (intro exI [of _ ?b']) (simp add: pci_vdev_update_bar_base_def bar_at_some vb_def Let_def)
    qed
  qed
  then obtain b where b: "unat b < 0xFFFFFFFF00000000" "pci_vdev_update_bar_base idx d =
      Some (put_bar idx (vb\<lparr>bar_base := if b \<noteq> 0 \<and> \<not> vbar_base_is_valid b (bar_size vb) then 0 else b\<rparr>) d)"
    by blast
  show ?thesis
    using b by (intro exI [of _ "if b \<noteq> 0 \<and> \<not> vbar_base_is_valid b (bar_size vb) then 0 else b"]) simp
qed

lemma read_u32_cong: "cfgdata d = cfgdata d' \<Longrightarrow> pci_vdev_read_cfg_u32 d off = pci_vdev_read_cfg_u32 d' off"
  by (simp only: pci_vdev_read_cfg_u32_def)

text \<open>The effect of a write to a BAR: the register, and the base of the BAR it belongs to.\<close>

definition bar_owner :: "pci_vdev \<Rightarrow> u32 \<Rightarrow> u32" where
  "bar_owner d idx = (if bar_type (vd_bar d ! unat idx) = PCIBAR_MEM64HI then idx - 1 else idx)"

lemma bar_owner_less:
  assumes "vdev_wf d" "unat idx < 6"
  shows "unat (bar_owner d idx) < 6"
proof (cases "bar_type (vd_bar d ! unat idx) = PCIBAR_MEM64HI")
  case True
  then have "0 < unat idx"
    using assms by (auto simp: vdev_wf_def)
  then have "unat (idx - 1) = unat idx - 1"
    by (subst unat_diff_small) (simp_all add: word_le_nat_alt)
  then show ?thesis
    using assms(2) True by (simp add: bar_owner_def)
qed (use assms in \<open>simp add: bar_owner_def\<close>)

lemma write_bar_some:
  assumes wf: "vdev_wf d" and idx: "unat idx < 6"
  defines "k \<equiv> bar_owner d idx"
  shows "\<exists>d' b. pci_vdev_write_bar idx val d = Some d' \<and> vdev_wf d' \<and>
     pci_vdev_read_bar d' idx = Some ((val AND bar_mask (vd_bar d ! unat idx)) OR bar_fixed (vd_bar d ! unat idx)) \<and>
     vd_bar d' = (vd_bar d)[unat k := (vd_bar d ! unat k)\<lparr>bar_base := b\<rparr>] \<and>
     (b = 0 \<or> vbar_base_is_valid b (bar_size (vd_bar d ! unat k))) \<and> unat b < 0xFFFFFFFF00000000 \<and>
     vd_bdf d' = vd_bdf d \<and> vd_pbdf d' = vd_pbdf d \<and> vdev_ops d' = vdev_ops d \<and> vd_msi d' = vd_msi d"
proof -
  let ?v = "(val AND bar_mask (vd_bar d ! unat idx)) OR bar_fixed (vd_bar d ! unat idx)"
  have w: "length (cfgdata d) = 256" "length (vd_bar d) = 6"
    using wf by (simp_all add: vdev_wf_def)
  have k6: "unat k < 6"
    using bar_owner_less [OF wf idx] by (simp add: k_def)
  obtain d1 where d1: "pci_vdev_write_cfg_u32 (pci_bar_offset idx) ?v d = Some d1" "only_cfg d d1"
    "pci_vdev_read_cfg_u32 d1 (pci_bar_offset idx) = Some ?v"
    using write_u32_some [OF w(1), of "pci_bar_offset idx" ?v] idx by (auto simp: unat_bar_offset)
  obtain c where c: "d1 = d\<lparr>cfgdata := c\<rparr>"
    using d1(2) by (auto simp: only_cfg_def)
  obtain b where b: "pci_vdev_update_bar_base k d1 = Some (put_bar k ((vd_bar d ! unat k)\<lparr>bar_base := b\<rparr>) d1)"
    "b = 0 \<or> vbar_base_is_valid b (bar_size (vd_bar d ! unat k))" "unat b < 0xFFFFFFFF00000000"
    using update_base_some [OF only_cfg_wf [OF d1(2) wf] k6] by (auto simp: c)
  have wf': "vdev_wf (put_bar k ((vd_bar d ! unat k)\<lparr>bar_base := b\<rparr>) d1)"
    using only_cfg_wf [OF d1(2) wf] k6 by (auto simp: vdev_wf_def put_bar_def c has_msi_cap_def nth_list_update)
  have run: "pci_vdev_write_bar idx val d = pci_vdev_update_bar_base k d1"
    using d1(1) w idx by (simp add: pci_vdev_write_bar_def bar_at_some k_def bar_owner_def)
  let ?d' = "put_bar k ((vd_bar d ! unat k)\<lparr>bar_base := b\<rparr>) d1"
  have "pci_vdev_read_bar ?d' idx = Some ?v"
    using d1(3) read_u32_cong [of ?d' d1 "pci_bar_offset idx"] by (simp add: pci_vdev_read_bar_def put_bar_def)
  then show ?thesis
    unfolding run b(1)
    using b(2,3) wf' by (intro exI [of _ ?d'] exI [of _ b]) (simp add: put_bar_def c)
qed

text \<open>
  C33. Writing a BAR of a virtual device and reading it back returns the written value with the bits
  the hardware implements and the fixed bits of the register; the guest-physical base that results
  is 0 or the whole BAR lies in the window from 3 GByte to 3.5 GByte, for BARs of up to 4 GByte.
\<close>

theorem vbar_write_read:
  assumes "vdev_wf d" "unat idx < 6" "unat (bar_size (vd_bar d ! unat (bar_owner d idx))) \<le> 2 ^ 32"
  shows "\<exists>d'. pci_vdev_write_bar idx val d = Some d' \<and>
    pci_vdev_read_bar d' idx = Some ((val AND bar_mask (vd_bar d ! unat idx)) OR bar_fixed (vd_bar d ! unat idx)) \<and>
    (let vb = vd_bar d' ! unat (bar_owner d idx)
     in bar_base vb = 0 \<or> 0xC0000000 \<le> unat (bar_base vb) \<and> unat (bar_base vb) + unat (bar_size vb) \<le> 0xE0000000)"
proof -
  let ?k = "bar_owner d idx"
  have k: "unat ?k < length (vd_bar d)"
    using bar_owner_less [OF assms(1,2)] assms(1) by (simp add: vdev_wf_def)
  obtain d' b where d': "pci_vdev_write_bar idx val d = Some d'"
     "pci_vdev_read_bar d' idx = Some ((val AND bar_mask (vd_bar d ! unat idx)) OR bar_fixed (vd_bar d ! unat idx))"
     "vd_bar d' = (vd_bar d)[unat ?k := (vd_bar d ! unat ?k)\<lparr>bar_base := b\<rparr>]"
     "b = 0 \<or> vbar_base_is_valid b (bar_size (vd_bar d ! unat ?k))" "unat b < 0xFFFFFFFF00000000"
    using write_bar_some [OF assms(1,2), of val] by blast
  have "b = 0 \<or> 0xC0000000 \<le> unat b \<and> unat b + unat (bar_size (vd_bar d ! unat ?k)) \<le> 0xE0000000"
    using d'(4) bar_base_range [OF d'(5) assms(3)] by blast
  then show ?thesis
    using d'(1-3) k by (intro exI [of _ d']) (simp add: Let_def)
qed

subsection \<open>Configuration cycles\<close>

text \<open>
  A trace of configuration cycles, most recent first: the address of a register of a device in
  \<open>dev\<close>, then one data access. A write that covers the second byte of the command register sets
  INTx disable.
\<close>

definition keeps_intx :: "u32 \<Rightarrow> nat \<Rightarrow> u32 \<Rightarrow> bool" where
  "keeps_intx off n v \<longleftrightarrow> (unat off \<le> 5 \<and> 5 < unat off + n \<longrightarrow> bit v (8 * (5 - unat off) + 2))"

inductive cfg_trace :: "(u16 \<Rightarrow> bool) \<Rightarrow> pio_event list \<Rightarrow> bool" for dev where
  cfg_none: "cfg_trace dev []"
| cfg_read: "cfg_trace dev evs \<Longrightarrow> dev b \<Longrightarrow> unat off < 256 \<Longrightarrow>
     cfg_trace dev (Pio_read n (data_port off) # Pio_write 4 0xCF8 (pci_pdev_calc_address b off) # evs)"
| cfg_write: "cfg_trace dev evs \<Longrightarrow> dev b \<Longrightarrow> unat off < 256 \<Longrightarrow> keeps_intx off n v \<Longrightarrow>
     cfg_trace dev (Pio_write n (data_port off) v # Pio_write 4 0xCF8 (pci_pdev_calc_address b off) # evs)"

lemma cfg_trace_append: "cfg_trace dev evs \<Longrightarrow> cfg_trace dev fvs \<Longrightarrow> cfg_trace dev (evs @ fvs)"
  by (induction rule: cfg_trace.induct) (auto intro: cfg_trace.intros)

definition cfg_io :: "(u16 \<Rightarrow> bool) \<Rightarrow> machine \<Rightarrow> machine \<Rightarrow> bool" where
  "cfg_io dev m m' \<longleftrightarrow> (\<exists>evs. m_pio m' = evs @ m_pio m \<and> cfg_trace dev evs)"

lemma cfg_io_refl [simp]: "cfg_io dev m m"
  by (auto simp: cfg_io_def intro: cfg_none)

lemma cfg_io_trans: "cfg_io dev m m' \<Longrightarrow> cfg_io dev m' m'' \<Longrightarrow> cfg_io dev m m''"
  unfolding cfg_io_def using cfg_trace_append by fastforce

lemma cfg_io_same: "m_pio m' = m_pio m \<Longrightarrow> cfg_io dev m m'"
  by (auto simp: cfg_io_def intro: cfg_none)

lemma pdev_read_io:
  assumes "dev b" "unat off < 256"
  shows "cfg_io dev m (snd (pci_pdev_read_cfg bd b off n m))"
    "\<exists>l. snd (pci_pdev_read_cfg bd b off n m) = m\<lparr>m_pio := l\<rparr>"
proof -
  let ?k = "if n = 1 then 1 else if n = 2 then 2 else 4"
  have k: "snd (pci_pdev_read_cfg bd b off n m) =
      m\<lparr>m_pio := Pio_read ?k (data_port off) # Pio_write 4 0xCF8 (pci_pdev_calc_address b off) # m_pio m\<rparr>"
    by (simp add: pci_pdev_read_cfg_def pio_read8_def pio_read16_def pio_read32_def pio_write32_def Let_def PCI_CONFIG_ADDR_def)
  then show "cfg_io dev m (snd (pci_pdev_read_cfg bd b off n m))"
    "\<exists>l. snd (pci_pdev_read_cfg bd b off n m) = m\<lparr>m_pio := l\<rparr>"
    using cfg_read [OF cfg_none, of dev b off ?k] assms by (auto simp: cfg_io_def)
qed

definition access_value :: "u32 \<Rightarrow> u32 \<Rightarrow> nat \<times> u32" where
  "access_value n v = (if n = 1 then (1, ucast (ucast v :: u8)) else if n = 2 then (2, ucast (ucast v :: u16)) else (4, v))"

lemma pdev_write_io:
  assumes "dev b" "unat off < 256" "keeps_intx off (fst (access_value n v)) (snd (access_value n v))"
  shows "cfg_io dev m (pci_pdev_write_cfg b off n v m)"
    "\<exists>l. pci_pdev_write_cfg b off n v m = m\<lparr>m_pio := l\<rparr>"
proof -
  have k: "pci_pdev_write_cfg b off n v m =
      m\<lparr>m_pio := Pio_write (fst (access_value n v)) (data_port off) (snd (access_value n v)) #
        Pio_write 4 0xCF8 (pci_pdev_calc_address b off) # m_pio m\<rparr>"
    by (simp add: pci_pdev_write_cfg_def pio_write8_def pio_write16_def pio_write32_def Let_def PCI_CONFIG_ADDR_def access_value_def)
  then show "cfg_io dev m (pci_pdev_write_cfg b off n v m)" "\<exists>l. pci_pdev_write_cfg b off n v m = m\<lparr>m_pio := l\<rparr>"
    using cfg_write [OF cfg_none, of dev b off] assms by (auto simp: cfg_io_def)
qed

lemma keeps_intx_far: "5 < unat off \<Longrightarrow> keeps_intx off n v"
  by (simp add: keeps_intx_def)

subsection \<open>Message signalled interrupts\<close>

lemma unat_cap_offset:
  assumes "vdev_wf d" "has_msi_cap d" "unat k < 16"
  shows "unat (capoff (vd_msi d) + k) = unat (capoff (vd_msi d)) + unat k" "unat (capoff (vd_msi d) + k) < 256"
    "5 < unat (capoff (vd_msi d) + k)"
proof -
  show "unat (capoff (vd_msi d) + k) = unat (capoff (vd_msi d)) + unat k"
    using assms by (subst unat_add_small) (simp_all add: vdev_wf_def)
  then show "unat (capoff (vd_msi d) + k) < 256" "5 < unat (capoff (vd_msi d) + k)"
    using assms by (simp_all add: vdev_wf_def)
qed

lemma enable_disable_msi_io:
  assumes "vdev_wf d" "has_msi_cap d" "dev (vd_pbdf d)"
  shows "cfg_io dev m (enable_disable_msi bd d en m)" "\<exists>l. enable_disable_msi bd d en m = m\<lparr>m_pio := l\<rparr>"
proof -
  let ?r = "pci_pdev_read_cfg bd (vd_pbdf d) (capoff (vd_msi d) + PCIR_MSI_CTRL) 2 m"
  note r = pdev_read_io [where dev = dev and b = "vd_pbdf d" and off = "capoff (vd_msi d) + PCIR_MSI_CTRL" and bd = bd and n = 2 and m = m]
  obtain v where e: "enable_disable_msi bd d en m = pci_pdev_write_cfg (vd_pbdf d) (capoff (vd_msi d) + PCIR_MSI_CTRL) 2 v (snd ?r)"
    by (simp add: enable_disable_msi_def case_prod_beta Let_def)
  note w = pdev_write_io [where dev = dev and b = "vd_pbdf d" and off = "capoff (vd_msi d) + PCIR_MSI_CTRL" and n = 2 and v = v and m = "snd ?r"]
  have o: "unat (capoff (vd_msi d) + PCIR_MSI_CTRL) < 256" "5 < unat (capoff (vd_msi d) + PCIR_MSI_CTRL)"
    using unat_cap_offset(2,3) [OF assms(1,2), of PCIR_MSI_CTRL] by (simp_all add: PCIR_MSI_CTRL_def)
  show "cfg_io dev m (enable_disable_msi bd d en m)" "\<exists>l. enable_disable_msi bd d en m = m\<lparr>m_pio := l\<rparr>"
    using r assms(3) o w keeps_intx_far [OF o(2)] unfolding e by (auto intro: cfg_io_trans)
qed

lemma msi_index_less: "msi_irte_index vm b < 256"
proof -
  have "msi_irte_index vm b \<le> 0xFF"
    unfolding msi_irte_index_def by (rule word_and_le1)
  then show ?thesis
    by (simp add: word_le_nat_alt word_less_nat_alt)
qed

lemma remap_returns:
  assumes "responsive (bd_vtd bd)" "gsts_follows (bd_vtd bd)" "vtd_wf (bd_vtd bd) (m_vtd m)"
  obtains msi' vt where "ptirq_msix_remap bd vm vb pb n msi m = Some (msi', m\<lparr>m_vtd := vt\<rparr>)"
    "vtd_wf (bd_vtd bd) vt" "dma_map vt = dma_map (m_vtd m)"
    "\<And>i. i < 256 \<Longrightarrow> i \<noteq> msi_irte_index vm vb \<Longrightarrow> ir_map vt i = ir_map (m_vtd m) i"
    "ir_map vt (msi_irte_index vm vb) =
       effective_irte pb (build_irte bd vm msi (ucast (bitfield_get 0 8 (ucast (vmsi_data msi)))) (m_hv m))"
    "msi' = msi\<lparr>pmsi_data := 0, pmsi_addr := remappable_addr (msi_irte_index vm vb)\<rparr>"
proof -
  let ?irte = "build_irte bd vm msi (ucast (bitfield_get 0 8 (ucast (vmsi_data msi)))) (m_hv m)"
  obtain vt where vt: "dmar_assign_irte (bd_vtd bd) pb ?irte (msi_irte_index vm vb) (m_vtd m) = Some vt"
    "vtd_wf (bd_vtd bd) vt" "dma_map vt = dma_map (m_vtd m)"
    "\<And>i. i < 256 \<Longrightarrow> ir_map vt i = (if i = msi_irte_index vm vb then effective_irte pb ?irte else ir_map (m_vtd m) i)"
    using assign_irte_map [OF assms msi_index_less, of pb ?irte vm vb] by fastforce
  then show thesis
    using msi_index_less [of vm vb]
    by (intro that [of _ vt]) (simp_all add: ptirq_msix_remap_def ptirq_build_physical_msi_def Let_def)
qed

definition io_frame :: "machine \<Rightarrow> machine \<Rightarrow> bool" where
  "io_frame m m' \<longleftrightarrow> (\<exists>vt l. m' = m\<lparr>m_vtd := vt, m_pio := l\<rparr>)"

lemma io_frame_refl [simp]: "io_frame m m"
proof -
  have "m = m\<lparr>m_vtd := m_vtd m, m_pio := m_pio m\<rparr>"
    by simp
  then show ?thesis
    unfolding io_frame_def by blast
qed

lemma io_frame_trans: "io_frame m m' \<Longrightarrow> io_frame m' m'' \<Longrightarrow> io_frame m m''"
  unfolding io_frame_def by (elim exE, simp, intro exI, rule refl)

lemma io_frame_pio: "io_frame m (m\<lparr>m_pio := l\<rparr>)"
proof -
  have "m\<lparr>m_pio := l\<rparr> = m\<lparr>m_vtd := m_vtd m, m_pio := l\<rparr>"
    by simp
  then show ?thesis
    unfolding io_frame_def by blast
qed

text \<open>The interrupt entries and DMA mappings that other devices use stay as they are.\<close>

definition irq_confined :: "board \<Rightarrow> u16 \<Rightarrow> pci_vdev \<Rightarrow> machine \<Rightarrow> machine \<Rightarrow> bool" where
  "irq_confined bd vm d m m' \<longleftrightarrow> vtd_wf (bd_vtd bd) (m_vtd m') \<and> dma_map (m_vtd m') = dma_map (m_vtd m) \<and>
     (\<forall>i < 256. i \<noteq> msi_irte_index vm (vd_bdf d) \<longrightarrow> ir_map (m_vtd m') i = ir_map (m_vtd m) i) \<and>
     (ir_map (m_vtd m') (msi_irte_index vm (vd_bdf d)) = ir_map (m_vtd m) (msi_irte_index vm (vd_bdf d)) \<or>
      (\<exists>irte. ir_map (m_vtd m') (msi_irte_index vm (vd_bdf d)) = effective_irte (vd_pbdf d) irte))"

lemma cap_write_io:
  assumes "vdev_wf d" "has_msi_cap d" "dev (vd_pbdf d)" "unat k < 16"
  shows "cfg_io dev m (pci_pdev_write_cfg (vd_pbdf d) (capoff (vd_msi d) + k) n v m)"
    "\<exists>l. pci_pdev_write_cfg (vd_pbdf d) (capoff (vd_msi d) + k) n v m = m\<lparr>m_pio := l\<rparr>"
  using unat_cap_offset(2,3) [OF assms(1,2,4)]
  by (intro pdev_write_io [where dev = dev] assms(3) keeps_intx_far; simp)+

lemma vmsi_info_some:
  assumes "vdev_wf d" "has_msi_cap d"
  obtains msi where "vmsi_info d = Some msi"
proof -
  have len: "length (cfgdata d) = 256"
    using assms(1) by (simp add: vdev_wf_def)
  have "\<exists>v. pci_vdev_read_cfg_u32 d (capoff (vd_msi d) + k) = Some v" "\<exists>v. pci_vdev_read_cfg_u16 d (capoff (vd_msi d) + k) = Some v"
    if "unat k < 16" for k
    using read_u32_some [OF len] read_u16_some [OF len] unat_cap_offset(2) [OF assms that] by blast+
  from this [of PCIR_MSI_ADDR] this [of PCIR_MSI_ADDR_HIGH] this [of PCIR_MSI_DATA_64BIT] this [of PCIR_MSI_DATA]
  show thesis
    using that by (cases "is_64bit (vd_msi d)") (auto simp: vmsi_info_def PCIR_MSI_ADDR_def PCIR_MSI_ADDR_HIGH_def PCIR_MSI_DATA_64BIT_def PCIR_MSI_DATA_def Let_def)
qed

lemma irq_confined_pio:
  assumes "vtd_wf (bd_vtd bd) (m_vtd m)" "m_vtd m' = m_vtd m"
  shows "irq_confined bd vm d m m'"
  using assms by (simp add: irq_confined_def)

text \<open>A step of configuration cycles.\<close>

definition io_step :: "(u16 \<Rightarrow> bool) \<Rightarrow> machine \<Rightarrow> machine \<Rightarrow> bool" where
  "io_step dev m m' \<longleftrightarrow> cfg_io dev m m' \<and> (\<exists>l. m' = m\<lparr>m_pio := l\<rparr>)"

lemma io_step_trans:
  assumes "io_step dev m m'" "io_step dev m' m''"
  shows "io_step dev m m''"
proof -
  obtain l l' where "m' = m\<lparr>m_pio := l\<rparr>" "m'' = m'\<lparr>m_pio := l'\<rparr>"
    using assms by (auto simp: io_step_def)
  then have "m'' = m\<lparr>m_pio := l'\<rparr>"
    by simp
  then show ?thesis
    using assms cfg_io_trans unfolding io_step_def by blast
qed

lemma io_step_frame: "io_step dev m m' \<Longrightarrow> io_frame m m'" "io_step dev m m' \<Longrightarrow> m_vtd m' = m_vtd m"
  using io_frame_pio by (auto simp: io_step_def)

lemma remap_vmsi_ok:
  assumes wf: "vdev_wf d" "has_msi_cap d" and dev: "dev (vd_pbdf d)"
    and hw: "responsive (bd_vtd bd)" "gsts_follows (bd_vtd bd)" "vtd_wf (bd_vtd bd) (m_vtd m)"
  shows "\<exists>m'. remap_vmsi bd vm d m = Some m' \<and> cfg_io dev m m' \<and> io_frame m m' \<and> irq_confined bd vm d m m'"
proof -
  obtain msi where msi: "vmsi_info d = Some msi"
    by (rule vmsi_info_some [OF wf])
  let ?vec = "bitfield_get 0 8 (ucast (vmsi_data msi))"
  show ?thesis
  proof (cases "?vec \<ge> 0x10 \<and> ?vec \<le> 0xfe")
    case False
    then show ?thesis
      using msi hw(3) by (auto simp: remap_vmsi_def Let_def irq_confined_pio)
  next
    case True
    obtain msi' vt where r: "ptirq_msix_remap bd vm (vd_bdf d) (vd_pbdf d) 0 msi m = Some (msi', m\<lparr>m_vtd := vt\<rparr>)"
      "vtd_wf (bd_vtd bd) vt" "dma_map vt = dma_map (m_vtd m)"
      "\<And>i. i < 256 \<Longrightarrow> i \<noteq> msi_irte_index vm (vd_bdf d) \<Longrightarrow> ir_map vt i = ir_map (m_vtd m) i"
      "ir_map vt (msi_irte_index vm (vd_bdf d)) =
         effective_irte (vd_pbdf d) (build_irte bd vm msi (ucast (bitfield_get 0 8 (ucast (vmsi_data msi)))) (m_hv m))"
      by (rule remap_returns [OF hw, where vm = vm and vb = "vd_bdf d" and pb = "vd_pbdf d" and n = 0 and msi = msi]) blast
    have w: "io_step dev t (pci_pdev_write_cfg (vd_pbdf d) (capoff (vd_msi d) + k) n v t)" if "unat k < 16" for k n v t
      using cap_write_io [where dev = dev, OF wf dev that] by (auto simp: io_step_def)
    have e: "io_step dev t (enable_disable_msi bd d en t)" for en t
      using enable_disable_msi_io [where dev = dev, OF wf dev] by (auto simp: io_step_def)
    have small: "unat PCIR_MSI_ADDR < 16" "unat PCIR_MSI_ADDR_HIGH < 16" "unat PCIR_MSI_DATA < 16" "unat PCIR_MSI_DATA_64BIT < 16"
      by (simp_all add: PCIR_MSI_ADDR_def PCIR_MSI_ADDR_HIGH_def PCIR_MSI_DATA_64BIT_def PCIR_MSI_DATA_def)
    let ?m1 = "m\<lparr>m_vtd := vt\<rparr>"
    have "\<exists>m'. remap_vmsi bd vm d m = Some m' \<and> io_step dev ?m1 m'"
      using True msi r(1) w [OF small(1)] w [OF small(2)] w [OF small(3)] w [OF small(4)] e
      by (cases "is_64bit (vd_msi d)") (simp add: remap_vmsi_def Let_def; meson io_step_trans)+
    then obtain m' where m': "remap_vmsi bd vm d m = Some m'" "io_step dev ?m1 m'"
      by blast
    have "cfg_io dev m m'"
      using m'(2) by (simp add: io_step_def cfg_io_def)
    moreover have "io_frame m m'"
      using m'(2) by (auto simp: io_step_def io_frame_def)
    moreover have "irq_confined bd vm d m m'"
      using r(2-5) io_step_frame(2) [OF m'(2)] by (auto simp: irq_confined_def)
    ultimately show ?thesis
      using m'(1) by blast
  qed
qed

lemma valid_access:
  assumes "vpci_is_valid_access off n"
  shows "n = 1 \<or> n = 2 \<or> n = 4" "unat n dvd unat off"
proof -
  show n: "n = 1 \<or> n = 2 \<or> n = 4"
    using assms by (auto simp: vpci_is_valid_access_def vpci_is_valid_access_byte_def)
  have "off AND (n - 1) = 0"
    using assms by (simp add: vpci_is_valid_access_def vpci_is_valid_access_offset_def)
  then show "unat n dvd unat off"
    using n low_mask_zero_iff [of off 1] low_mask_zero_iff [of off 2] by (auto simp: mask_eq_exp_minus_1)
qed

lemma aligned_room:
  fixes k n c :: nat
  assumes "n dvd k" "k < c" "n dvd c"
  shows "k + n \<le> c"
proof -
  obtain a b where "k = n * a" "c = n * b"
    using assms(1,3) by (auto elim!: dvdE)
  then have "n * a < n * b"
    using assms(2) by simp
  then have "a < b"
    by simp
  then have "n * Suc a \<le> n * b"
    by (intro mult_le_mono2) simp
  then show ?thesis
    using \<open>k = n * a\<close> \<open>c = n * b\<close> by simp
qed

lemma msicap_offset:
  assumes "vdev_wf d" "msicap_access d off"
  shows "has_msi_cap d" "unat (off - capoff (vd_msi d)) = unat off - unat (capoff (vd_msi d))"
    "unat (capoff (vd_msi d)) \<le> unat off" "unat off < unat (capoff (vd_msi d)) + (if is_64bit (vd_msi d) then 14 else 10)"
proof -
  show has: "has_msi_cap d"
    using assms(2) by (simp add: msicap_access_def)
  have r: "capoff (vd_msi d) \<le> off" "off < capoff (vd_msi d) + caplen (vd_msi d)"
    using assms(2) by (simp_all add: msicap_access_def in_range_def)
  then show "unat (off - capoff (vd_msi d)) = unat off - unat (capoff (vd_msi d))" "unat (capoff (vd_msi d)) \<le> unat off"
    by (simp_all add: unat_diff_small word_le_nat_alt)
  have "unat (caplen (vd_msi d)) = (if is_64bit (vd_msi d) then 14 else 10)"
    using assms(1) has by (simp add: vdev_wf_def)
  then show "unat off < unat (capoff (vd_msi d)) + (if is_64bit (vd_msi d) then 14 else 10)"
    using r(2) unat_cap_offset(1) [OF assms(1) has, of "caplen (vd_msi d)"] by (simp add: word_less_nat_alt split: if_splits)
qed

lemma ro_mask_some:
  assumes "vdev_wf d" "msicap_access d off" "vpci_is_valid_access off n"
  shows "\<exists>r. copy_ro_mask (if is_64bit (vd_msi d) then msi_64_ro_mask else msi_32_ro_mask)
    (unat (off - capoff (vd_msi d))) (unat n) = Some r"
proof -
  note o = msicap_offset [OF assms(1,2)]
  have n: "unat n = 1 \<or> unat n = 2 \<or> unat n = 4"
    using valid_access(1) [OF assms(3)] by auto
  have cap: "4 dvd unat (capoff (vd_msi d))"
    using assms(1) o(1) by (simp add: vdev_wf_def)
  then have "unat n dvd unat (capoff (vd_msi d))"
    using n by (auto elim: dvd_trans [rotated])
  then have al: "unat n dvd unat off - unat (capoff (vd_msi d))"
    using valid_access(2) [OF assms(3)] by simp
  have lt: "unat off - unat (capoff (vd_msi d)) < (if is_64bit (vd_msi d) then 16 else 12)"
    using o(3,4) by (auto split: if_splits)
  have "unat n dvd (if is_64bit (vd_msi d) then 16 else 12)"
    using n by auto
  from aligned_room [OF al lt this] show ?thesis
    using n unfolding o(2) by (auto simp: copy_ro_mask_def msi_64_ro_mask_def msi_32_ro_mask_def)
qed

definition dev_frame :: "u16 \<Rightarrow> nat \<Rightarrow> machine \<Rightarrow> machine \<Rightarrow> bool" where
  "dev_frame vm i m m' \<longleftrightarrow> (\<exists>d'. only_cfg (get_vdev vm i m) d' \<and> io_frame (put_vdev vm i d' m) m')"

lemma only_cfg_fields:
  "only_cfg d d' \<Longrightarrow> vd_msi d' = vd_msi d \<and> vd_pbdf d' = vd_pbdf d \<and> vd_bdf d' = vd_bdf d \<and> vdev_ops d' = vdev_ops d \<and>
     has_msi_cap d' = has_msi_cap d \<and> vd_bar d' = vd_bar d"
  by (auto simp: only_cfg_def has_msi_cap_def)

lemma only_cfg_refl: "only_cfg d d"
  unfolding only_cfg_def by (rule exI [of _ "cfgdata d"]) simp

lemma put_get_vdev: "put_vdev vm i (get_vdev vm i m) m = m"
  by (simp add: put_vdev_def get_vdev_def upd_vpci_def)

lemma dev_frame_refl: "dev_frame vm i m m"
  unfolding dev_frame_def by (rule exI [of _ "get_vdev vm i m"]) (simp add: only_cfg_refl put_get_vdev)

lemma vmsi_write_cfg_ok:
  assumes wf: "vdev_wf (get_vdev vm i m)" "msicap_access (get_vdev vm i m) off" "vpci_is_valid_access off n"
    and dev: "dev (vd_pbdf (get_vdev vm i m))"
    and hw: "responsive (bd_vtd bd)" "gsts_follows (bd_vtd bd)" "vtd_wf (bd_vtd bd) (m_vtd m)"
  shows "\<exists>m'. vmsi_write_cfg bd vm i off n val m = Some m' \<and> cfg_io dev m m' \<and> dev_frame vm i m m' \<and>
    irq_confined bd vm (get_vdev vm i m) m m'"
proof -
  let ?d = "get_vdev vm i m"
  note o = msicap_offset [OF wf(1,2)]
  have len: "length (cfgdata ?d) = 256"
    using wf(1) by (simp add: vdev_wf_def)
  have off: "unat off < 256"
    using o(1,4) wf(1) by (auto simp: vdev_wf_def split: if_splits)
  obtain ro where ro: "copy_ro_mask (if is_64bit (vd_msi ?d) then msi_64_ro_mask else msi_32_ro_mask)
      (unat (off - capoff (vd_msi ?d))) (unat n) = Some ro"
    using ro_mask_some [OF wf] by blast
  show ?thesis
  proof (cases "ro = NOT 0")
    case True
    then show ?thesis
      using ro hw(3) by (simp add: vmsi_write_cfg_def Let_def dev_frame_refl irq_confined_pio)
  next
    case False
    obtain old where old: "pci_vdev_read_cfg ?d off n = Some old"
      using read_cfg_some [OF len off] by blast
    obtain d1 where d1: "pci_vdev_write_cfg off n ((old AND ro) OR (val AND NOT ro)) ?d = Some d1" "only_cfg ?d d1"
      using write_cfg_some [OF len off] by blast
    note f = only_cfg_fields [OF d1(2)]
    have wf1: "vdev_wf d1" "has_msi_cap d1" "dev (vd_pbdf d1)"
      using only_cfg_wf [OF d1(2) wf(1)] f o(1) dev by simp_all
    have off1: "unat (capoff (vd_msi d1) + PCIR_MSI_CTRL) < 256"
      using unat_cap_offset(2) [OF wf1(1,2), of PCIR_MSI_CTRL] by (simp add: PCIR_MSI_CTRL_def)
    have len1: "length (cfgdata d1) = 256"
      using wf1(1) by (simp add: vdev_wf_def)
    obtain ctl where ctl: "pci_vdev_read_cfg d1 (capoff (vd_msi d1) + PCIR_MSI_CTRL) 2 = Some ctl"
      using read_cfg_some [OF len1 off1] by blast
    let ?p = "put_vdev vm i d1 m"
    let ?m1 = "enable_disable_msi bd d1 False ?p"
    have e: "cfg_io dev ?p ?m1" "\<exists>l. ?m1 = ?p\<lparr>m_pio := l\<rparr>"
      by (rule enable_disable_msi_io [where dev = dev, OF wf1])+
    have v1: "m_vtd ?m1 = m_vtd m" "m_pio ?p = m_pio m" "io_frame ?p ?m1"
      using e(2) io_frame_pio by (auto simp: put_vdev_def upd_vpci_def)
    have "\<exists>m'. (if ctl AND PCIM_MSICTRL_MSI_ENABLE \<noteq> 0 then remap_vmsi bd vm d1 ?m1 else Some ?m1) = Some m' \<and>
        cfg_io dev ?m1 m' \<and> io_frame ?m1 m' \<and> irq_confined bd vm d1 ?m1 m'"
      using remap_vmsi_ok [where dev = dev and bd = bd, OF wf1 hw(1,2), of ?m1 vm] hw(3) v1(1) by (auto simp: irq_confined_pio)
    then obtain m' where m': "(if ctl AND PCIM_MSICTRL_MSI_ENABLE \<noteq> 0 then remap_vmsi bd vm d1 ?m1 else Some ?m1) = Some m'"
      "cfg_io dev ?m1 m'" "io_frame ?m1 m'" "irq_confined bd vm d1 ?m1 m'"
      by blast
    have "vmsi_write_cfg bd vm i off n val m = Some m'"
      using ro False old d1(1) ctl m'(1) by (simp add: vmsi_write_cfg_def Let_def)
    moreover have "cfg_io dev m m'"
      using cfg_io_trans [OF cfg_io_trans [OF cfg_io_same [OF v1(2)] e(1)] m'(2)] .
    moreover have "dev_frame vm i m m'"
      using d1(2) io_frame_trans [OF v1(3) m'(3)] by (auto simp: dev_frame_def)
    moreover have "irq_confined bd vm ?d m m'"
      using m'(4) f v1(1) by (simp add: irq_confined_def)
    ultimately show ?thesis
      by blast
  qed
qed

subsection \<open>Accesses to a passthrough device\<close>

definition vdev_id :: "pci_vdev \<Rightarrow> u16 \<times> u16 \<times> pci_vdev_ops" where
  "vdev_id d = (vd_bdf d, vd_pbdf d, vdev_ops d)"

text \<open>
  What a configuration write of a VM may change: hardware configuration of the devices in \<open>dev\<close>,
  the bytes and BARs of its own virtual devices, and interrupt entries of the block of the VM.
\<close>

definition vm_confined :: "board \<Rightarrow> (u16 \<Rightarrow> bool) \<Rightarrow> u16 \<Rightarrow> machine \<Rightarrow> machine \<Rightarrow> bool" where
  "vm_confined bd dev vm m m' \<longleftrightarrow>
     cfg_io dev m m' \<and> vpci_wf (m_vpci m' vm) \<and> (\<forall>vm'. vm' \<noteq> vm \<longrightarrow> m_vpci m' vm' = m_vpci m vm') \<and>
     map vdev_id (pci_vdevs (m_vpci m' vm)) = map vdev_id (pci_vdevs (m_vpci m vm)) \<and>
     vtd_wf (bd_vtd bd) (m_vtd m') \<and> dma_map (m_vtd m') = dma_map (m_vtd m) \<and>
     (\<forall>i < 256. drop_bit 6 i \<noteq> vm \<longrightarrow> ir_map (m_vtd m') i = ir_map (m_vtd m) i)"

lemma msi_index_block:
  assumes "vm < 4"
  shows "drop_bit 6 (msi_irte_index vm b) = vm"
proof (rule bit_word_eqI)
  fix n assume "n < LENGTH(16)"
  have "vm AND mask 2 = vm"
  proof -
    have "unat vm < 4"
      using assms by (simp add: word_less_nat_alt)
    then have "unat (vm AND mask 2) = unat vm"
      by (simp add: unat_and_mask)
    then show ?thesis
      by (simp add: word_nat_eq)
  qed
  then have "bit vm n \<Longrightarrow> n < 2"
    by (metis bit_and_iff bit_mask_iff)
  moreover have "msi_irte_index vm b = ((b AND mask 6) OR push_bit 6 vm) AND mask 8"
    by (simp add: msi_irte_index_def mask_eq_exp_minus_1)
  ultimately show "bit (drop_bit 6 (msi_irte_index vm b)) n = bit vm n"
    using \<open>n < LENGTH(16)\<close> by (simp only:) (auto simp: bit_simps)
qed

lemma put_vdev_wf:
  assumes "vpci_wf (m_vpci m vm)" "vdev_wf d'"
  shows "vpci_wf (m_vpci (put_vdev vm i d' m) vm)"
  using assms set_update_subset_insert [of "pci_vdevs (m_vpci m vm)" i d']
  by (auto simp: vpci_wf_def put_vdev_def upd_vpci_def)

lemma put_vdev_id:
  assumes "i < length (pci_vdevs (m_vpci m vm))" "vdev_id d' = vdev_id (get_vdev vm i m)"
  shows "map vdev_id (pci_vdevs (m_vpci (put_vdev vm i d' m) vm)) = map vdev_id (pci_vdevs (m_vpci m vm))"
  using assms by (simp add: put_vdev_def upd_vpci_def map_update get_vdev_def list_update_same_conv)

lemma get_vdev_wf: "vpci_wf (m_vpci m vm) \<Longrightarrow> i < length (pci_vdevs (m_vpci m vm)) \<Longrightarrow> vdev_wf (get_vdev vm i m)"
  by (simp add: vpci_wf_def get_vdev_def)

lemma confined_by_frame:
  assumes wf: "vpci_wf (m_vpci m vm)" and i: "i < length (pci_vdevs (m_vpci m vm))" and vm: "vm < 4"
    and io: "cfg_io dev m m'" and frame: "dev_frame vm i m m'" and irq: "irq_confined bd vm (get_vdev vm i m) m m'"
  shows "vm_confined bd dev vm m m'"
proof -
  obtain d' vt l where d': "only_cfg (get_vdev vm i m) d'" "m' = (put_vdev vm i d' m)\<lparr>m_vtd := vt, m_pio := l\<rparr>"
    using frame by (auto simp: dev_frame_def io_frame_def)
  have v: "m_vpci m' = m_vpci (put_vdev vm i d' m)"
    by (simp add: d'(2))
  have "vpci_wf (m_vpci m' vm)"
    unfolding v using put_vdev_wf [OF wf only_cfg_wf [OF d'(1) get_vdev_wf [OF wf i]]] .
  moreover have "map vdev_id (pci_vdevs (m_vpci m' vm)) = map vdev_id (pci_vdevs (m_vpci m vm))"
    unfolding v using put_vdev_id [OF i, of d'] only_cfg_fields [OF d'(1)] by (simp add: vdev_id_def)
  moreover have "m_vpci m' vm' = m_vpci m vm'" if "vm' \<noteq> vm" for vm'
    unfolding v using that by (simp add: put_vdev_def upd_vpci_def)
  moreover have "ir_map (m_vtd m') k = ir_map (m_vtd m) k" if "k < 256" "drop_bit 6 k \<noteq> vm" for k
    using irq that msi_index_block [OF vm] by (auto simp: irq_confined_def)
  ultimately show ?thesis
    using io irq by (simp add: vm_confined_def irq_confined_def)
qed

lemma vbar_write_frame:
  assumes wf: "vpci_wf (m_vpci m vm)" and i: "i < length (pci_vdevs (m_vpci m vm))" and idx: "unat idx < 6"
    and run: "vdev_pt_write_vbar cpu vm i idx val m = Some m'"
  shows "\<exists>d' h. vdev_wf d' \<and> vdev_id d' = vdev_id (get_vdev vm i m) \<and> m' = (put_vdev vm i d' m)\<lparr>m_hv := h\<rparr>"
proof -
  let ?d = "get_vdev vm i m"
  have w: "vdev_wf ?d"
    by (rule get_vdev_wf [OF wf i])
  have at: "bar_at ?d idx = Some (vd_bar ?d ! unat idx)"
    using w idx by (intro bar_at_some) (simp_all add: vdev_wf_def)
  show ?thesis
  proof (cases "bar_type (vd_bar ?d ! unat idx) = PCIBAR_NONE")
    case True
    then have "m' = (put_vdev vm i ?d m)\<lparr>m_hv := m_hv m\<rparr>"
      using run at by (simp add: vdev_pt_write_vbar_def put_get_vdev)
    then show ?thesis
      using w by blast
  next
    case False
    obtain d1 b where d1: "pci_vdev_write_bar idx val ?d = Some d1" "vdev_wf d1"
      "vd_bdf d1 = vd_bdf ?d" "vd_pbdf d1 = vd_pbdf ?d" "vdev_ops d1 = vdev_ops ?d"
      using write_bar_some [OF w idx, of val] by blast
    let ?k = "bar_owner ?d idx"
    have run': "do { m1 \<leftarrow> vdev_pt_unmap_mem_vbar cpu vm i ?k m; m2 \<leftarrow> vdev_write_bar vm i idx val m1;
        vdev_pt_map_mem_vbar cpu vm i ?k m2 } = Some m'"
      using run at False by (auto simp: vdev_pt_write_vbar_def bar_owner_def Let_def split: pci_bar_type.splits)
    have unmap: "\<exists>h. t' = t\<lparr>m_hv := h\<rparr>" if "vdev_pt_unmap_mem_vbar cpu vm i k t = Some t'" for k t t'
      using that by (auto simp: vdev_pt_unmap_mem_vbar_def bind_eq_Some_conv split: if_splits intro: exI [of _ "m_hv t"])
    have maps: "\<exists>h. t' = t\<lparr>m_hv := h\<rparr>" if "vdev_pt_map_mem_vbar cpu vm i k t = Some t'" for k t t'
      using that by (auto simp: vdev_pt_map_mem_vbar_def bind_eq_Some_conv split: if_splits intro: exI [of _ "m_hv t"])
    obtain m1 m2 where m1: "vdev_pt_unmap_mem_vbar cpu vm i ?k m = Some m1" "vdev_write_bar vm i idx val m1 = Some m2"
      "vdev_pt_map_mem_vbar cpu vm i ?k m2 = Some m'"
      using run' by (auto simp: bind_eq_Some_conv)
    obtain h1 where h1: "m1 = m\<lparr>m_hv := h1\<rparr>"
      using unmap [OF m1(1)] by blast
    have "get_vdev vm i m1 = ?d"
      by (simp add: h1 get_vdev_def)
    then have "m2 = put_vdev vm i d1 m1"
      using m1(2) d1(1) by (simp add: vdev_write_bar_def)
    then have "m2 = (put_vdev vm i d1 m)\<lparr>m_hv := h1\<rparr>"
      by (simp add: h1 put_vdev_def upd_vpci_def)
    moreover obtain h2 where "m' = m2\<lparr>m_hv := h2\<rparr>"
      using maps [OF m1(3)] by blast
    ultimately have "m' = (put_vdev vm i d1 m)\<lparr>m_hv := h2\<rparr>"
      by simp
    then show ?thesis
      using d1 by (auto simp: vdev_id_def)
  qed
qed

lemma unat_bar_index:
  assumes "vdev_wf d" "vbar_access d off"
  shows "unat (pci_bar_index off) < 6"
proof -
  have n: "unat (nr_bars d) \<le> 6"
    using assms(1) by (simp add: vdev_wf_def word_le_nat_alt)
  then have "unat (push_bit 2 (nr_bars d)) = 4 * unat (nr_bars d)"
    by (subst unat_shiftl) simp_all
  then have o: "unat (pci_bar_offset (nr_bars d)) = 16 + 4 * unat (nr_bars d)"
    using n unfolding pci_bar_offset_def PCIR_BARS_def by (subst unat_add_small) simp_all
  have r: "PCIR_BARS \<le> off" "unat off < 16 + 4 * unat (nr_bars d)"
    using assms(2) o by (simp_all add: vbar_access_def pci_bar_offset_def word_less_nat_alt)
  then have "unat (off - PCIR_BARS) = unat off - 16"
    by (simp add: unat_diff_small PCIR_BARS_def)
  then have "unat (pci_bar_index off) = (unat off - 16) div 4"
    by (simp add: pci_bar_index_def unat_shiftr)
  then show ?thesis
    using r(2) n by (simp add: less_mult_imp_div_less)
qed

lemma or_intx_keeps:
  "keeps_intx PCIR_COMMAND 2 (ucast (ucast (v OR PCIM_CMD_INTXDIS) :: u16))" "keeps_intx PCIR_COMMAND 4 (v OR PCIM_CMD_INTXDIS)"
  "keeps_intx (PCIR_COMMAND + 1) 1 (ucast (ucast (v OR drop_bit 8 PCIM_CMD_INTXDIS) :: u8))"
proof -
  have m: "PCIM_CMD_INTXDIS = push_bit 10 1"
    by (simp add: PCIM_CMD_INTXDIS_def)
  show "keeps_intx PCIR_COMMAND 2 (ucast (ucast (v OR PCIM_CMD_INTXDIS) :: u16))" "keeps_intx PCIR_COMMAND 4 (v OR PCIM_CMD_INTXDIS)"
    "keeps_intx (PCIR_COMMAND + 1) 1 (ucast (ucast (v OR drop_bit 8 PCIM_CMD_INTXDIS) :: u8))"
    by (simp_all add: keeps_intx_def PCIR_COMMAND_def m bit_simps)
qed

lemma command_write_io:
  assumes "dev b" "vpci_is_valid_access off n" "off \<ge> PCIR_COMMAND" "off < PCIR_REVID"
  shows "io_step dev m (if off = PCIR_COMMAND + 1 \<and> n = 1 then pci_pdev_write_cfg b off n (v OR drop_bit 8 PCIM_CMD_INTXDIS) m
     else if off = PCIR_COMMAND \<and> (n = 2 \<or> n = 4) then pci_pdev_write_cfg b off n (v OR PCIM_CMD_INTXDIS) m
     else pci_pdev_write_cfg b off n v m)"
proof -
  have range: "4 \<le> unat off" "unat off < 8"
    using assms(3,4) by (simp_all add: PCIR_COMMAND_def PCIR_REVID_def word_le_nat_alt word_less_nat_alt)
  have n: "n = 1 \<or> n = 2 \<or> n = 4" "unat n dvd unat off"
    using valid_access [OF assms(2)] by simp_all
  have w: "io_step dev m (pci_pdev_write_cfg b off n u m)"
    if "keeps_intx off (fst (access_value n u)) (snd (access_value n u))" for u
    using pdev_write_io [where dev = dev and b = b and off = off and n = n and v = u and m = m] assms(1) range that
    by (auto simp: io_step_def)
  have off4: "off = PCIR_COMMAND \<longleftrightarrow> unat off = 4" "off = PCIR_COMMAND + 1 \<longleftrightarrow> unat off = 5"
    by (simp_all add: PCIR_COMMAND_def word_nat_eq)
  consider "off = PCIR_COMMAND + 1" "n = 1" | "off = PCIR_COMMAND" "n = 2" | "off = PCIR_COMMAND" "n = 4"
    | "\<not> (unat off \<le> 5 \<and> 5 < unat off + unat n)"
  proof -
    have "unat off = 4 \<or> unat off = 5 \<or> unat off = 6 \<or> unat off = 7"
      using range by linarith
    then show thesis
      using n that unfolding off4 by (elim disjE) auto
  qed
  then show ?thesis
  proof cases
    case 1
    then show ?thesis
      using w [of "v OR drop_bit 8 PCIM_CMD_INTXDIS"] or_intx_keeps by (simp add: access_value_def)
  next
    case 2
    then show ?thesis
      using w [of "v OR PCIM_CMD_INTXDIS"] or_intx_keeps by (simp add: access_value_def PCIR_COMMAND_def)
  next
    case 3
    then show ?thesis
      using w [of "v OR PCIM_CMD_INTXDIS"] or_intx_keeps by (simp add: access_value_def PCIR_COMMAND_def)
  next
    case 4
    then have "keeps_intx off (fst (access_value n u)) (snd (access_value n u))" for u
      using n(1) by (auto simp: keeps_intx_def access_value_def)
    then have "io_step dev m (pci_pdev_write_cfg b off n u m)" for u
      using w by simp
    then show ?thesis
      by (split if_split, split if_split) blast
  qed
qed

lemma pt_write_confined:
  assumes wf: "vpci_wf (m_vpci m vm)" and i: "i < length (pci_vdevs (m_vpci m vm))" and vm: "vm < 4"
    and acc: "vpci_is_valid_access off n" and dev: "dev (vd_pbdf (get_vdev vm i m))"
    and hw: "responsive (bd_vtd bd)" "gsts_follows (bd_vtd bd)" "vtd_wf (bd_vtd bd) (m_vtd m)"
  shows "\<not> vbar_access (get_vdev vm i m) off \<Longrightarrow> vpci_write_pt_dev_cfg bd cpu vm i off n val m \<noteq> None"
    and "vpci_write_pt_dev_cfg bd cpu vm i off n val m = Some m' \<Longrightarrow> vm_confined bd dev vm m m'"
proof -
  let ?d = "get_vdev vm i m"
  have w: "vdev_wf ?d"
    by (rule get_vdev_wf [OF wf i])
  have same: "vm_confined bd dev vm m m"
    using wf hw(3) by (simp add: vm_confined_def)
  show "\<not> vbar_access ?d off \<Longrightarrow> vpci_write_pt_dev_cfg bd cpu vm i off n val m \<noteq> None"
    using vmsi_write_cfg_ok [where dev = dev, OF w _ acc dev hw] by (auto simp: vpci_write_pt_dev_cfg_def Let_def)
  assume run: "vpci_write_pt_dev_cfg bd cpu vm i off n val m = Some m'"
  consider (bar) "vbar_access ?d off" | (msi) "\<not> vbar_access ?d off" "msicap_access ?d off"
    | (cmd) "\<not> vbar_access ?d off" "\<not> msicap_access ?d off" "off \<ge> PCIR_COMMAND" "off < PCIR_REVID"
    | (other) "m' = m"
    using run by (fastforce simp: vpci_write_pt_dev_cfg_def Let_def split: if_splits)
  then show "vm_confined bd dev vm m m'"
  proof cases
    case bar
    show ?thesis
    proof (cases "m' = m")
      case False
      then have v: "vdev_pt_write_vbar cpu vm i (pci_bar_index off) val m = Some m'"
        using run bar by (auto simp: vpci_write_pt_dev_cfg_def Let_def split: if_splits)
      obtain d' h where d': "vdev_wf d'" "vdev_id d' = vdev_id ?d" "m' = (put_vdev vm i d' m)\<lparr>m_hv := h\<rparr>"
        using vbar_write_frame [OF wf i unat_bar_index [OF w bar] v] by blast
      have "m_vpci m' = m_vpci (put_vdev vm i d' m)" "m_pio m' = m_pio m" "m_vtd m' = m_vtd m"
        by (simp_all add: d'(3) put_vdev_def upd_vpci_def)
      then show ?thesis
        using put_vdev_wf [OF wf d'(1), of i] put_vdev_id [OF i d'(2)] hw(3) cfg_io_same [of m' m dev]
        by (simp add: vm_confined_def) (simp add: put_vdev_def upd_vpci_def)
    qed (use same in simp)
  next
    case msi
    then have "vmsi_write_cfg bd vm i off n val m = Some m'"
      using run by (simp add: vpci_write_pt_dev_cfg_def Let_def)
    then show ?thesis
      using vmsi_write_cfg_ok [where dev = dev, OF w msi(2) acc dev hw, of val] confined_by_frame [OF wf i vm, of dev m' bd]
      by simp
  next
    case cmd
    then have "m' = (if off = PCIR_COMMAND + 1 \<and> n = 1 then pci_pdev_write_cfg (vd_pbdf ?d) off n (val OR drop_bit 8 PCIM_CMD_INTXDIS) m
       else if off = PCIR_COMMAND \<and> (n = 2 \<or> n = 4) then pci_pdev_write_cfg (vd_pbdf ?d) off n (val OR PCIM_CMD_INTXDIS) m
       else pci_pdev_write_cfg (vd_pbdf ?d) off n val m)"
      using run by (auto simp: vpci_write_pt_dev_cfg_def Let_def split: if_splits)
    then have "io_step dev m m'"
      using command_write_io [of dev, OF dev acc cmd(3,4), of m val] by (simp only:)
    then show ?thesis
      using same by (auto simp: io_step_def vm_confined_def)
  next
    case other
    then show ?thesis
      using same by simp
  qed
qed

subsection \<open>The configuration ports\<close>

text \<open>The passthrough devices of a VM, by their physical addresses.\<close>

definition pt_devices :: "u16 \<Rightarrow> machine \<Rightarrow> u16 \<Rightarrow> bool" where
  "pt_devices vm m b \<longleftrightarrow> (\<exists>d \<in> set (pci_vdevs (m_vpci m vm)). vdev_ops d = Pci_pt_dev_ops \<and> vd_pbdf d = b)"

definition cfgdata_port :: "u16 \<Rightarrow> bool" where
  "cfgdata_port addr \<longleftrightarrow> 0xCFC \<le> addr \<and> addr \<le> 0xCFF"

definition cfg_target :: "u16 \<Rightarrow> u16 \<Rightarrow> machine \<Rightarrow> u32" where
  "cfg_target vm addr m = cfg_addr_reg_num (vpci_addr (m_vpci m vm)) + (ucast addr - PCI_CONFIG_DATA)"

lemma find_vdev_some:
  assumes "pci_find_vdev p b = Some i"
  shows "i < length (pci_vdevs p)" "vd_bdf (pci_vdevs p ! i) = b"
  using assms by (auto simp: pci_find_vdev_def find_Some_iff)

lemma unat_cfg_target:
  assumes "vpci_wf (m_vpci m vm)" "cfgdata_port addr"
  shows "unat (cfg_target vm addr m) < 256"
proof -
  let ?a = "vpci_addr (m_vpci m vm)"
  have "?a AND 0x7f000003 = 0"
    using assms(1) by (simp add: vpci_wf_def)
  then have "?a AND 0x3 = 0"
    by (rule and_sub_zero) simp
  then have "4 dvd unat ?a"
    using low_mask_zero_iff [of ?a 2] by (simp add: mask_eq_exp_minus_1)
  then have "4 dvd unat ?a mod 256"
    by (simp add: dvd_mod_iff)
  moreover have reg: "unat (cfg_addr_reg_num ?a) = unat ?a mod 256"
    using unat_and_mask [of ?a 8] by (simp add: cfg_addr_reg_num_def mask_eq_exp_minus_1)
  ultimately have "unat (cfg_addr_reg_num ?a) + 4 \<le> 256"
    by (intro aligned_room) (simp_all add: reg)
  moreover have "unat (ucast addr - PCI_CONFIG_DATA :: u32) = unat addr - 0xCFC" "unat addr - 0xCFC < 4"
    using assms(2) by (simp_all add: cfgdata_port_def PCI_CONFIG_DATA_def unat_diff_small word_le_nat_alt unat_ucast_up) arith
  ultimately show ?thesis
    unfolding cfg_target_def by (subst unat_add_small) simp_all
qed

lemma disable_wf: "vpci_wf p \<Longrightarrow> vpci_wf (p\<lparr>vpci_addr := PCI_DISABLED_CONFIG_ADDR\<rparr>)"
  by (simp add: vpci_wf_def PCI_DISABLED_CONFIG_ADDR_def)

lemma disable_confined:
  assumes "vpci_wf (m_vpci m vm)" "vtd_wf (bd_vtd bd) (m_vtd m)"
  shows "vm_confined bd dev vm m (upd_vpci vm (\<lambda>p. p\<lparr>vpci_addr := PCI_DISABLED_CONFIG_ADDR\<rparr>) m)"
  using assms disable_wf [OF assms(1)] cfg_io_same [of "upd_vpci vm (\<lambda>p. p\<lparr>vpci_addr := PCI_DISABLED_CONFIG_ADDR\<rparr>) m" m dev]
  by (simp add: vm_confined_def upd_vpci_def)

lemma vm_confined_trans:
  "vm_confined bd dev vm m m1 \<Longrightarrow> vm_confined bd dev vm m1 m2 \<Longrightarrow> vm_confined bd dev vm m m2"
  unfolding vm_confined_def by (auto intro: cfg_io_trans)

text \<open>Both directions of an access to the data port.\<close>

lemma config_write_confined:
  assumes "vpci_wf (m_vpci m vm)" "vm < 4" "cfgdata_port addr"
    and "responsive (bd_vtd bd)" "gsts_follows (bd_vtd bd)" "vtd_wf (bd_vtd bd) (m_vtd m)"
  shows "case pci_cfgdata_io_write bd cpu vm addr n val m of
      None \<Rightarrow> \<exists>d \<in> set (pci_vdevs (m_vpci m vm)). vbar_access d (cfg_target vm addr m)
    | Some m' \<Rightarrow> vm_confined bd (pt_devices vm m) vm m m'"
proof -
  let ?a = "vpci_addr (m_vpci m vm)"
  let ?m1 = "upd_vpci vm (\<lambda>p. p\<lparr>vpci_addr := PCI_DISABLED_CONFIG_ADDR\<rparr>) m"
  let ?t = "cfg_target vm addr m"
  have m1: "vm_confined bd (pt_devices vm m) vm m ?m1" "vpci_wf (m_vpci ?m1 vm)" "vtd_wf (bd_vtd bd) (m_vtd ?m1)"
    "pci_vdevs (m_vpci ?m1 vm) = pci_vdevs (m_vpci m vm)"
    using disable_confined [OF assms(1,6), where dev = "pt_devices vm m"] disable_wf [OF assms(1)] assms(6) by (simp_all add: upd_vpci_def)
  show ?thesis
  proof (cases "cfg_addr_enable ?a \<and> vpci_is_valid_access ?t (ucast n)")
    case False
    then show ?thesis
      using m1(1) by (auto simp: pci_cfgdata_io_write_def Let_def cfg_target_def)
  next
    case True
    then have run: "pci_cfgdata_io_write bd cpu vm addr n val m = write_cfg bd cpu vm (cfg_addr_bdf ?a) ?t (ucast n) val ?m1"
      by (simp add: pci_cfgdata_io_write_def Let_def cfg_target_def)
    show ?thesis
    proof (cases "pci_find_vdev (m_vpci ?m1 vm) (cfg_addr_bdf ?a)")
      case None
      then show ?thesis
        using m1(1) by (simp add: run write_cfg_def)
    next
      case (Some i)
      note i = find_vdev_some(1) [OF Some]
      have d: "get_vdev vm i ?m1 \<in> set (pci_vdevs (m_vpci m vm))"
        using i m1(4) by (simp add: get_vdev_def)
      show ?thesis
      proof (cases "vdev_ops (get_vdev vm i ?m1)")
        case Vhostbridge_ops
        then show ?thesis
          using Some m1(1) by (simp add: run write_cfg_def vhostbridge_write_cfg_def)
      next
        case Pci_pt_dev_ops
        have dev: "pt_devices vm m (vd_pbdf (get_vdev vm i ?m1))"
          using d Pci_pt_dev_ops by (auto simp: pt_devices_def)
        note pt = pt_write_confined [OF m1(2) i assms(2) conjunct2 [OF True], where dev = "pt_devices vm m" and bd = bd,
            OF dev assms(4,5) m1(3), of cpu val]
        have w: "write_cfg bd cpu vm (cfg_addr_bdf ?a) ?t (ucast n) val ?m1 = vpci_write_pt_dev_cfg bd cpu vm i ?t (ucast n) val ?m1"
          using Some Pci_pt_dev_ops by (simp add: write_cfg_def)
        show ?thesis
        proof (cases "vpci_write_pt_dev_cfg bd cpu vm i ?t (ucast n) val ?m1")
          case None
          then have "vbar_access (get_vdev vm i ?m1) ?t"
            using pt(1) by blast
          then show ?thesis
            using None d w unfolding run by auto
        next
          case (Some m')
          then show ?thesis
            using vm_confined_trans [OF m1(1) pt(2) [OF Some]] w unfolding run by simp
        qed
      qed
    qed
  qed
qed

lemma config_read_returns:
  assumes "vpci_wf (m_vpci m vm)" "cfgdata_port addr"
  shows "\<exists>m'. pci_cfgdata_io_read bd vm v addr n m = Some m' \<and> cfg_io (pt_devices vm m) m m' \<and> m_vtd m' = m_vtd m \<and>
    m_vpci m' = (m_vpci m)(vm := (m_vpci m vm)\<lparr>vpci_addr := PCI_DISABLED_CONFIG_ADDR\<rparr>) \<and>
    (pci_find_vdev (m_vpci m vm) (cfg_addr_bdf (vpci_addr (m_vpci m vm))) = None \<or>
     \<not> vpci_is_valid_access (cfg_target vm addr m) (ucast n) \<longrightarrow> pio_value (m_req m' vm v) = NOT 0)"
proof -
  let ?a = "vpci_addr (m_vpci m vm)"
  let ?m1 = "upd_vpci vm (\<lambda>p. p\<lparr>vpci_addr := PCI_DISABLED_CONFIG_ADDR\<rparr>) m"
  let ?t = "cfg_target vm addr m"
  have m1: "m_vpci ?m1 = (m_vpci m)(vm := (m_vpci m vm)\<lparr>vpci_addr := PCI_DISABLED_CONFIG_ADDR\<rparr>)"
    "pci_vdevs (m_vpci ?m1 vm) = pci_vdevs (m_vpci m vm)" "m_pio ?m1 = m_pio m"
    by (simp_all add: upd_vpci_def)
  have vtd1: "m_vtd ?m1 = m_vtd m"
    by (simp add: upd_vpci_def)
  have find: "pci_find_vdev (m_vpci ?m1 vm) b = pci_find_vdev (m_vpci m vm) b" for b
    by (simp add: pci_find_vdev_def m1(2))
  have val: "m_vpci (set_pio_value vm v x t) = m_vpci t" "m_vtd (set_pio_value vm v x t) = m_vtd t" "m_pio (set_pio_value vm v x t) = m_pio t"
    "pio_value (m_req (set_pio_value vm v x t) vm v) = x" for x t
    by (simp_all add: set_pio_value_def)
  have t: "unat ?t < 256"
    by (rule unat_cfg_target [OF assms])
  show ?thesis
  proof (cases "cfg_addr_enable ?a \<and> vpci_is_valid_access ?t (ucast n)")
    case False
    then show ?thesis
      using m1 val vtd1 cfg_io_same [of _ m] by (auto simp: pci_cfgdata_io_read_def Let_def cfg_target_def)
  next
    case True
    then have run: "pci_cfgdata_io_read bd vm v addr n m =
        do { (x, m2) \<leftarrow> read_cfg bd vm (cfg_addr_bdf ?a) ?t (ucast n) ?m1; Some (set_pio_value vm v x m2) }"
      by (simp add: pci_cfgdata_io_read_def Let_def cfg_target_def)
    have "\<exists>x m2. read_cfg bd vm (cfg_addr_bdf ?a) ?t (ucast n) ?m1 = Some (x, m2) \<and> cfg_io (pt_devices vm m) ?m1 m2 \<and>
        m_vtd m2 = m_vtd m \<and> m_vpci m2 = m_vpci ?m1 \<and> (pci_find_vdev (m_vpci m vm) (cfg_addr_bdf ?a) = None \<longrightarrow> x = NOT 0)"
    proof (cases "pci_find_vdev (m_vpci ?m1 vm) (cfg_addr_bdf ?a)")
      case None
      then show ?thesis
        by (simp add: read_cfg_def vtd1)
    next
      case (Some i)
      note i = find_vdev_some(1) [OF Some]
      let ?d = "get_vdev vm i ?m1"
      have d: "?d \<in> set (pci_vdevs (m_vpci m vm))"
        using i m1(2) by (simp add: get_vdev_def)
      then have w: "vdev_wf ?d" "length (cfgdata ?d) = 256"
        using assms(1) by (auto simp: vpci_wf_def vdev_wf_def)
      have some: "pci_find_vdev (m_vpci m vm) (cfg_addr_bdf ?a) = Some i"
        using Some find by simp
      obtain x where x: "pci_vdev_read_cfg ?d ?t (ucast n) = Some x"
        using read_cfg_some [OF w(2) t] by blast
      show ?thesis
      proof (cases "vdev_ops ?d")
        case Vhostbridge_ops
        then show ?thesis
          using Some some x vtd1 by (simp add: read_cfg_def vhostbridge_read_cfg_def)
      next
        case Pci_pt_dev_ops
        then have dev: "pt_devices vm m (vd_pbdf ?d)"
          using d by (auto simp: pt_devices_def)
        have "\<exists>y. pci_vdev_read_bar ?d (pci_bar_index ?t) = Some y" if "vbar_access ?d ?t"
          using unat_bar_index [OF w(1) that] read_u32_some [OF w(2), of "pci_bar_offset (pci_bar_index ?t)"]
          by (simp add: pci_vdev_read_bar_def unat_bar_offset)
        then obtain y where y: "vbar_access ?d ?t \<Longrightarrow> pci_vdev_read_bar ?d (pci_bar_index ?t) = Some y"
          by blast
        note r = pdev_read_io [where dev = "pt_devices vm m" and b = "vd_pbdf ?d" and off = ?t and bd = bd and n = "ucast n" and m = ?m1,
            OF dev t]
        have "m_vpci (snd (pci_pdev_read_cfg bd (vd_pbdf ?d) ?t (ucast n) ?m1)) = m_vpci ?m1"
          "m_vtd (snd (pci_pdev_read_cfg bd (vd_pbdf ?d) ?t (ucast n) ?m1)) = m_vtd m"
          using r(2) vtd1 by auto
        then have "\<exists>x m2. vpci_read_pt_dev_cfg bd vm i ?t (ucast n) ?m1 = Some (x, m2) \<and> cfg_io (pt_devices vm m) ?m1 m2 \<and>
            m_vtd m2 = m_vtd m \<and> m_vpci m2 = m_vpci ?m1"
          using x y r(1) vtd1 by (cases "pci_pdev_read_cfg bd (vd_pbdf ?d) ?t (ucast n) ?m1") (simp add: vpci_read_pt_dev_cfg_def Let_def)
        then show ?thesis
          using Some some Pci_pt_dev_ops by (simp add: read_cfg_def)
      qed
    qed
    then obtain x m2 where x: "read_cfg bd vm (cfg_addr_bdf ?a) ?t (ucast n) ?m1 = Some (x, m2)" "cfg_io (pt_devices vm m) ?m1 m2"
      "m_vtd m2 = m_vtd m" "m_vpci m2 = m_vpci ?m1" "pci_find_vdev (m_vpci m vm) (cfg_addr_bdf ?a) = None \<longrightarrow> x = NOT 0"
      by (elim exE conjE) (rule that)
    have "cfg_io (pt_devices vm m) m (set_pio_value vm v x m2)"
      using x(2) m1(3) val(3) by (simp add: cfg_io_def)
    then show ?thesis
      using x True val m1(1) unfolding run by (intro exI [of _ "set_pio_value vm v x m2"]) simp
  qed
qed


text \<open>
  C11. A guest read of the PCI data port always completes, without an access outside the configuration
  bytes, whatever the address register holds; it disables the address register, answers all ones when
  no device of the VM is selected or the access is not aligned, and causes configuration cycles to the
  VM's own devices only.
\<close>

theorem guest_config_read_returns:
  assumes "vpci_wf (m_vpci m vm)" "cfgdata_port addr"
  shows "\<exists>m'. pci_cfgdata_io_read bd vm v addr n m = Some m' \<and> cfg_io (pt_devices vm m) m m' \<and>
    m_vpci m' = (m_vpci m)(vm := (m_vpci m vm)\<lparr>vpci_addr := PCI_DISABLED_CONFIG_ADDR\<rparr>) \<and>
    (pci_find_vdev (m_vpci m vm) (cfg_addr_bdf (vpci_addr (m_vpci m vm))) = None \<or>
     \<not> vpci_is_valid_access (cfg_target vm addr m) (ucast n) \<longrightarrow> pio_value (m_req m' vm v) = NOT 0)"
  using config_read_returns [OF assms, of bd v n] by blast

subsection \<open>A concrete machine\<close>

definition ex_dev_config :: acrn_vm_pci_dev_config where
  "ex_dev_config = \<lparr>cfg_emu_type = PCI_DEV_TYPE_PTDEV, cfg_vbdf = 0x8, cfg_pbdf = 0xF8,
     cfg_vbar_base = replicate 6 0, cfg_vdev_ops = None\<rparr>"

text \<open>A device with a 64-bit BAR of 8 GByte and a 32-bit BAR of 4 KByte.\<close>

definition ex_vdev :: pci_vdev where
  "ex_vdev = (new_vdev ex_dev_config)\<lparr>nr_bars := 6, vd_bar :=
     [blank_bar\<lparr>bar_type := PCIBAR_MEM64, bar_size := 0x200000000, bar_fixed := 4\<rparr>,
      blank_bar\<lparr>bar_type := PCIBAR_MEM64HI, bar_mask := 0xFFFFFFFE\<rparr>,
      blank_bar\<lparr>bar_type := PCIBAR_MEM32, bar_size := 0x1000, bar_mask := 0xFFFFF000\<rparr>,
      blank_bar, blank_bar, blank_bar]\<rparr>"

definition ex_board :: board where
  "ex_board = \<lparr>bd_vtd = ex_env, bd_port = \<lambda>l n p. 0, bd_lapic_ldr = \<lambda>c. push_bit (unat c) 1, bd_pci_devs = \<lambda>vm. [ex_dev_config]\<rparr>"

definition ex_machine :: machine where
  "ex_machine = \<lparr>m_hv = hv_ex, m_vtd = ex_vtd, m_pio = [],
     m_vpci = \<lambda>vm. \<lparr>vpci_addr = 0x80000804, pci_vdevs = [ex_vdev]\<rparr>, m_iommu = \<lambda>vm. 1,
     m_emul_pio = \<lambda>vm i. \<lparr>port_start = 0, port_end = 0, io_fn = None\<rparr>,
     m_req = \<lambda>vm v. \<lparr>direction = 0, pio_address = 0, pio_size = 0, pio_value = 0\<rparr>, m_vrtc_offset = \<lambda>vm. 0\<rparr>"

lemma less_6: "(\<forall>j < 6. P j) \<longleftrightarrow> P 0 \<and> P 1 \<and> P 2 \<and> P 3 \<and> P 4 \<and> P (5 :: nat)"
proof -
  have "j < 6 \<longleftrightarrow> j = 0 \<or> j = 1 \<or> j = 2 \<or> j = 3 \<or> j = 4 \<or> j = 5" for j :: nat
    by arith
  then show ?thesis
    by auto
qed

lemma ex_vdev_wf: "vdev_wf ex_vdev"
  unfolding vdev_wf_def less_6
  by (simp add: ex_vdev_def new_vdev_def ex_dev_config_def blank_bar_def has_msi_cap_def PCI_REGMAX_def)

lemma ex_vpci_wf: "vpci_wf (m_vpci ex_machine vm)"
  using ex_vdev_wf by (simp add: vpci_wf_def ex_machine_def)

theorem vbar_write_read_witness:
  "\<exists>d'. pci_vdev_write_bar 2 0xD0000123 ex_vdev = Some d' \<and> pci_vdev_read_bar d' 2 = Some 0xD0000000"
  using vbar_write_read [OF ex_vdev_wf, of 2 "0xD0000123"]
  by (auto simp: bar_owner_def ex_vdev_def blank_bar_def)


theorem guest_config_read_returns_witness:
  "\<exists>m'. pci_cfgdata_io_read ex_board 1 0 0xCFF 4 ex_machine = Some m' \<and> pio_value (m_req m' 1 0) = 0xFFFFFFFF"
proof -
  have "\<not> vpci_is_valid_access (cfg_target 1 0xCFF ex_machine) 4"
    by (simp add: vpci_is_valid_access_def vpci_is_valid_access_offset_def cfg_target_def ex_machine_def cfg_addr_reg_num_def
        PCI_CONFIG_DATA_def)
  then show ?thesis
    using guest_config_read_returns [OF ex_vpci_wf, of "0xCFF" ex_board 1 0 4] by (auto simp: cfgdata_port_def)
qed

text \<open>
  The limit check of a BAR wraps around: a guest that programs an 8 GByte BAR just below the end
  of the 64-bit address space passes the check, so its base is outside the window that the
  hypervisor reserves for device memory.
\<close>

theorem vbar_limit_wraps:
  "\<exists>d'. pci_vdev_write_bar 1 0xFFFFFFFF ex_vdev = Some d' \<and> bar_base (vd_bar d' ! 0) = 0xFFFFFFFE00000000 \<and>
     vbar_base_is_valid 0xFFFFFFFE00000000 (bar_size (vd_bar d' ! 0))"
proof -
  have "map_option (\<lambda>d. (bar_base (vd_bar d ! 0), bar_size (vd_bar d ! 0))) (pci_vdev_write_bar 1 0xFFFFFFFF ex_vdev) =
      Some (0xFFFFFFFE00000000, 0x200000000)"
    by code_simp
  moreover have "vbar_base_is_valid 0xFFFFFFFE00000000 0x200000000"
    by (simp add: vbar_base_is_valid_def PCI_VBAR_BASE_LIMIT_def PCI_VBAR_TOP_LIMIT_def)
  ultimately show ?thesis
    by auto
qed

end
