(* ===== verification/Acrn_Isolation.thy ===== *)
theory Acrn_Isolation
  imports Acrn_Ept
begin

text \<open>
  Memory isolation between VMs: an EPT operation of one VM leaves the translation of every other VM
  alone, and as long as every region that is added to a VM lies in the host memory that VM owns, no
  two VMs ever reach the same host page.
\<close>

subsection \<open>Other VMs\<close>

definition ept_tables :: "(u16 \<Rightarrow> pgtable_pages_info) \<Rightarrow> bool \<Rightarrow> nat \<Rightarrow> u16 \<Rightarrow> u64 \<Rightarrow> bool" where
  "ept_tables pages f4k lim vm a = in_tables (init_ept_mem_ops pages f4k vm (is_safety_vm vm)) lim a"

lemma tab_frame:
  assumes fr: "pg_frame ops lim s s'" and lay: "pages_layout ops' lim" and v: "valid_slot ops' lim l i"
    and dj: "\<And>a. \<not> (in_tables ops lim a \<and> in_tables ops' lim a)"
  shows "tab ops' s' l i = tab ops' s l i"
  using slot_in_tables [OF lay v] dj [of "slot ops' l i"] fr by (simp add: pg_frame_def tab_def)

lemma other_vm_unchanged:
  assumes wf: "ept_wf pages f4k lim vm' h"
    and fr: "pg_frame (init_ept_mem_ops pages f4k vm (is_safety_vm vm)) lim (hv_pg h) pg"
    and dj: "\<And>a. \<not> (ept_tables pages f4k lim vm a \<and> ept_tables pages f4k lim vm' a)"
    and h': "h' = request_ept_flush cpu vm (h\<lparr>hv_pg := pg\<rparr>)"
  shows "ept_wf pages f4k lim vm' h'" "x < lim \<Longrightarrow> ept_map f4k vm' h' x = ept_map f4k vm' h x"
proof -
  let ?o = "init_ept_mem_ops pages f4k vm' (is_safety_vm vm')"
  note w = ept_wfD [OF wf]
  have tabs: "tab ?o pg l i = tab ?o (hv_pg h) l i" if "valid_slot ?o lim l i" for l i
    using dj by (intro tab_frame [OF fr pgwfD(1) [OF w(3)] that]) (simp add: ept_tables_def)
  have "sanitized_page pg = sanitized_page (hv_pg h)"
    using fr by (simp add: pg_frame_def)
  then have "pgwf ?o lim pg"
    using w(3) tabs by (simp add: pgwf_def)
  then show "ept_wf pages f4k lim vm' h'"
    using w by (simp add: ept_wf_def h' request_ept_flush_props)
  show "ept_map f4k vm' h' x = ept_map f4k vm' h x" if "x < lim"
  proof -
    have "lim \<le> 2 ^ 48"
      by (rule layout_base(4) [OF pgwfD(1) [OF w(3)]])
    then have "valid_slot ?o lim IA32E_PML4 (level_index IA32E_PML4 x)"
      using that by (simp add: div_less_iff_less_mult)
    then have "tr ?o (ept_rmask f4k) pg IA32E_PML4 x = tr ?o (ept_rmask f4k) (hv_pg h) IA32E_PML4 x"
      by (intro ept.tr_cong [OF w(3)] tabs)
    then show ?thesis
      by (simp add: ept_map_def h' request_ept_flush_props w(1))
  qed
qed

subsection \<open>Executions\<close>

text \<open>
  Calls of the EPT operations for any VM, as their contracts allow them: aligned regions in range,
  only free guest memory is added, and it is added from host memory of the VM.
\<close>

inductive mem_step :: "(u16 \<Rightarrow> pgtable_pages_info) \<Rightarrow> bool \<Rightarrow> nat \<Rightarrow> u16 set \<Rightarrow> (u16 \<Rightarrow> nat set) \<Rightarrow> hv \<Rightarrow> hv \<Rightarrow> bool"
  for pages f4k lim VMs own where
  mem_add: "vm \<in> VMs \<Longrightarrow> sz \<noteq> 0 \<Longrightarrow> 4096 dvd unat gpa \<Longrightarrow> 4096 dvd unat hpa \<Longrightarrow> 4096 dvd unat sz \<Longrightarrow>
    unat gpa + unat sz \<le> lim \<Longrightarrow> unat hpa + unat sz \<le> 2 ^ 39 \<Longrightarrow> bit prot 0 \<Longrightarrow> prot_bits prot \<Longrightarrow>
    (\<And>x. unat gpa \<le> x \<Longrightarrow> x < unat gpa + unat sz \<Longrightarrow> gpa2hpa vm (of_nat x) h = INVALID_HPA) \<Longrightarrow>
    {unat hpa..<unat hpa + unat sz} \<subseteq> own vm \<Longrightarrow>
    ept_add_mr cpu vm (get_ept_entry vm h) hpa gpa sz prot h = Some h' \<Longrightarrow> mem_step pages f4k lim VMs own h h'"
| mem_del: "vm \<in> VMs \<Longrightarrow> sz \<noteq> 0 \<Longrightarrow> 4096 dvd unat gpa \<Longrightarrow> 4096 dvd unat sz \<Longrightarrow> unat gpa + unat sz \<le> lim \<Longrightarrow>
    (\<And>x. unat gpa \<le> x \<Longrightarrow> x < unat gpa + unat sz \<Longrightarrow>
       pgentry_present (hv_ept_ops h vm) (pg_mem (hv_pg h) (pml4e_offset (get_ept_entry vm h) (of_nat x))) \<noteq> 0) \<Longrightarrow>
    ept_del_mr cpu vm (get_ept_entry vm h) gpa sz h = Some h' \<Longrightarrow> mem_step pages f4k lim VMs own h h'"
| mem_modify: "vm \<in> VMs \<Longrightarrow> sz \<noteq> 0 \<Longrightarrow> 4096 dvd unat gpa \<Longrightarrow> 4096 dvd unat sz \<Longrightarrow> unat gpa + unat sz \<le> lim \<Longrightarrow>
    modify_ok MR_MODIFY (snoop_prot prot_set) prot_clr \<Longrightarrow>
    ept_modify_mr cpu vm (get_ept_entry vm h) gpa sz prot_set prot_clr h = Some h' \<Longrightarrow> mem_step pages f4k lim VMs own h h'"

definition confined :: "bool \<Rightarrow> nat \<Rightarrow> nat set \<Rightarrow> u16 \<Rightarrow> hv \<Rightarrow> bool" where
  "confined f4k lim A vm h \<longleftrightarrow> (\<forall>x<lim. \<forall>a r. ept_map f4k vm h x = Some (a, r) \<longrightarrow> a \<in> A)"

definition mem_inv :: "(u16 \<Rightarrow> pgtable_pages_info) \<Rightarrow> bool \<Rightarrow> nat \<Rightarrow> u16 set \<Rightarrow> (u16 \<Rightarrow> nat set) \<Rightarrow> hv \<Rightarrow> bool" where
  "mem_inv pages f4k lim VMs own h \<longleftrightarrow> (\<forall>vm\<in>VMs. ept_wf pages f4k lim vm h \<and> confined f4k lim (own vm) vm h)"

definition separate_tables :: "(u16 \<Rightarrow> pgtable_pages_info) \<Rightarrow> bool \<Rightarrow> nat \<Rightarrow> u16 set \<Rightarrow> bool" where
  "separate_tables pages f4k lim VMs \<longleftrightarrow> (\<forall>vm\<in>VMs. \<forall>vm'\<in>VMs. vm \<noteq> vm' \<longrightarrow>
     (\<forall>a. \<not> (ept_tables pages f4k lim vm a \<and> ept_tables pages f4k lim vm' a)))"

text \<open>Each of the three operations is an update of the tables of one VM that stays inside its memory.\<close>

lemma mem_update_inv:
  assumes inv: "mem_inv pages f4k lim VMs own h" and sep: "separate_tables pages f4k lim VMs" and vm: "vm \<in> VMs"
    and up: "pg_update (init_ept_mem_ops pages f4k vm (is_safety_vm vm)) (ept_rmask f4k) lim IA32E_PML4 v ve F (hv_pg h) pg"
    and F: "\<And>x a r. v \<le> x \<Longrightarrow> x < ve \<Longrightarrow> x < lim \<Longrightarrow> F x (ept_map f4k vm h x) = Some (a, r) \<Longrightarrow>
       a \<in> own vm \<or> (\<exists>r'. ept_map f4k vm h x = Some (a, r'))"
  shows "mem_inv pages f4k lim VMs own (request_ept_flush cpu vm (h\<lparr>hv_pg := pg\<rparr>))"
proof -
  define h' where h': "h' = request_ept_flush cpu vm (h\<lparr>hv_pg := pg\<rparr>)"
  have i: "ept_wf pages f4k lim w h" "confined f4k lim (own w) w h" if "w \<in> VMs" for w
    using inv that by (auto simp: mem_inv_def)
  note u = ept_update_map [OF i(1) [OF vm] up h']
  have "ept_wf pages f4k lim w h' \<and> confined f4k lim (own w) w h'" if w: "w \<in> VMs" for w
  proof (cases "w = vm")
    case True
    have "a \<in> own vm" if "x < lim" "ept_map f4k vm h' x = Some (a, r)" for x a r
      using that u(2) [of x] i(2) [OF vm] F [of x a r] by (auto simp: confined_def split: if_splits)
    then show ?thesis
      using u(1) True by (auto simp: confined_def)
  next
    case False
    have "\<not> (ept_tables pages f4k lim vm a \<and> ept_tables pages f4k lim w a)" for a
      using sep vm w False by (auto simp: separate_tables_def)
    note o = other_vm_unchanged [OF i(1) [OF w] pg_updateD(2) [OF up] this h']
    show ?thesis
      using o(1) i(2) [OF w] o(2) by (auto simp: confined_def)
  qed
  then show ?thesis
    by (simp add: mem_inv_def h')
qed

lemma mem_step_inv:
  assumes st: "mem_step pages f4k lim VMs own h h'" and inv: "mem_inv pages f4k lim VMs own h"
    and sep: "separate_tables pages f4k lim VMs"
  shows "mem_inv pages f4k lim VMs own h'"
  using st
proof cases
  case (mem_add vm sz gpa hpa prot cpu)
  have "ept_wf pages f4k lim vm h"
    using inv mem_add(1) by (simp add: mem_inv_def)
  then obtain pg where e: "h' = request_ept_flush cpu vm (h\<lparr>hv_pg := pg\<rparr>)" and
    up: "pg_update (init_ept_mem_ops pages f4k vm (is_safety_vm vm)) (ept_rmask f4k) lim IA32E_PML4
       (unat gpa) (unat gpa + unat sz) (map_range (unat hpa) (unat gpa) (snoop_prot prot AND ept_rmask f4k)) (hv_pg h) pg"
    using ept_add_mr_update [of pages f4k lim vm h sz gpa hpa prot cpu] mem_add by auto
  have "a \<in> own vm" if "unat gpa \<le> x" "x < unat gpa + unat sz"
      "map_range (unat hpa) (unat gpa) (snoop_prot prot AND ept_rmask f4k) x y = Some (a, r)" for x y a r
    using that by (intro subsetD [OF mem_add(11)]) (auto simp: map_range_def)
  then show ?thesis
    unfolding e by (intro mem_update_inv [OF inv sep mem_add(1) up]) blast
next
  case (mem_del vm sz gpa cpu)
  have "ept_wf pages f4k lim vm h"
    using inv mem_del(1) by (simp add: mem_inv_def)
  then obtain pg where e: "h' = request_ept_flush cpu vm (h\<lparr>hv_pg := pg\<rparr>)" and
    up: "pg_update (init_ept_mem_ops pages f4k vm (is_safety_vm vm)) (ept_rmask f4k) lim IA32E_PML4
       (unat gpa) (unat gpa + unat sz) (change_range (ept_rmask f4k) MR_DEL 0 0) (hv_pg h) pg"
    using ept_del_mr_update [of pages f4k lim vm h sz gpa cpu] mem_del by auto
  show ?thesis
    unfolding e by (rule mem_update_inv [OF inv sep mem_del(1) up])
      (simp add: change_range_def MR_DEL_def MR_MODIFY_def)
next
  case (mem_modify vm sz gpa prot_set prot_clr cpu)
  have "ept_wf pages f4k lim vm h"
    using inv mem_modify(1) by (simp add: mem_inv_def)
  then obtain pg where e: "h' = request_ept_flush cpu vm (h\<lparr>hv_pg := pg\<rparr>)" and
    up: "pg_update (init_ept_mem_ops pages f4k vm (is_safety_vm vm)) (ept_rmask f4k) lim IA32E_PML4
       (unat gpa) (unat gpa + unat sz) (change_range (ept_rmask f4k) MR_MODIFY (snoop_prot prot_set) prot_clr) (hv_pg h) pg"
    using ept_modify_mr_update [of pages f4k lim vm h sz gpa prot_set prot_clr cpu] mem_modify by auto
  show ?thesis
    unfolding e by (rule mem_update_inv [OF inv sep mem_modify(1) up]) (auto simp: change_range_def)
qed

lemma mem_steps_inv:
  assumes "(mem_step pages f4k lim VMs own)\<^sup>*\<^sup>* h h'" "mem_inv pages f4k lim VMs own h" "separate_tables pages f4k lim VMs"
  shows "mem_inv pages f4k lim VMs own h'"
  using assms by (induction rule: rtranclp_induct) (simp_all add: mem_step_inv)

lemma confined_gpa2hpa:
  assumes wf: "ept_wf pages f4k lim vm h" and c: "confined f4k lim A vm h" and x: "x < lim"
    and v: "gpa2hpa vm (of_nat x) h \<noteq> INVALID_HPA"
  shows "unat (gpa2hpa vm (of_nat x) h) \<in> A"
proof -
  obtain a r where a: "ept_map f4k vm h x = Some (a, r)"
    using gpa2hpa_map [OF wf x] v by (cases "ept_map f4k vm h x") auto
  then have "a < 2 ^ 52" "gpa2hpa vm (of_nat x) h = of_nat a"
    using gpa2hpa_map [OF wf x] by simp_all
  then have "unat (gpa2hpa vm (of_nat x) h) = a"
    by (simp add: unat_of_nat_small)
  with a c x show ?thesis
    by (auto simp: confined_def)
qed

text \<open>
  C1. VMs are isolated from each other in memory: when the page-table arrays of the VMs and the
  host memory they own are disjoint, then after any sequence of additions (each from memory the VM
  owns), deletions and modifications, by any VM and in any order, no guest address of one VM is
  translated to the same host address as a guest address of another VM.
\<close>

theorem vms_isolated:
  assumes "mem_inv pages f4k lim VMs own h" "separate_tables pages f4k lim VMs"
    and run: "(mem_step pages f4k lim VMs own)\<^sup>*\<^sup>* h h'"
    and own: "vm \<in> VMs" "vm' \<in> VMs" "own vm \<inter> own vm' = {}" and x: "x < lim" "y < lim"
    and valid: "gpa2hpa vm (of_nat x) h' \<noteq> INVALID_HPA" "gpa2hpa vm' (of_nat y) h' \<noteq> INVALID_HPA"
  shows "gpa2hpa vm (of_nat x) h' \<noteq> gpa2hpa vm' (of_nat y) h'"
proof -
  have i: "ept_wf pages f4k lim w h' \<and> confined f4k lim (own w) w h'" if "w \<in> VMs" for w
    using mem_steps_inv [OF run assms(1,2)] that by (simp add: mem_inv_def)
  then have "unat (gpa2hpa vm (of_nat x) h') \<in> own vm" "unat (gpa2hpa vm' (of_nat y) h') \<in> own vm'"
    using confined_gpa2hpa own(1,2) x valid by blast+
  with own(3) show ?thesis by auto
qed

lemma ex_separate: "separate_tables ex_pages False ept_space {0, 1}"
proof -
  have 0: "unat a < 0x2000000" if t: "ept_tables ex_pages False ept_space 0 a" for a
  proof -
    obtain l where "unat a < unat (level_base l (ex_pages 0)) + 4096 * level_pages l (init_ept_mem_ops ex_pages False 0 True) ept_space"
      using t by (auto simp: ept_tables_def in_tables_def is_safety_vm_def)
    then show ?thesis
      by (cases l) (simp_all add: ex_pages_def ept_space_def PDPT_PAGE_NUM_def PD_PAGE_NUM_def PT_PAGE_NUM_def)
  qed
  have 1: "0x2000000 < unat a" if t: "ept_tables ex_pages False ept_space 1 a" for a
  proof -
    obtain l where "unat (level_base l (ex_pages 1)) \<le> unat a"
      using t by (auto simp: ept_tables_def in_tables_def)
    then show ?thesis
      by (cases l) (simp_all add: ex_pages_def)
  qed
  show ?thesis
    using 0 1 by (fastforce simp: separate_tables_def)
qed

text \<open>One page is added to each of two VMs.\<close>

definition ex_own :: "u16 \<Rightarrow> nat set" where
  "ex_own vm = (if vm = 0 then {0x40000000..<0x80000000} else {0x80000000..<0xC0000000})"

lemma ex_add_page:
  fixes hpa :: u64
  assumes inv: "mem_inv ex_pages False ept_space {0, 1} ex_own h" and vm: "vm \<in> {0, 1}"
    and free: "\<And>x. x < 4096 \<Longrightarrow> ept_map False vm h x = None" and hpa: "hpa = (if vm = 0 then 0x40000000 else 0x80000000)"
  shows "\<exists>h'. mem_step ex_pages False ept_space {0, 1} ex_own h h' \<and>
     (\<exists>r. ept_map False vm h' 0 = Some (unat hpa, r)) \<and>
     (\<forall>w\<in>{0, 1}. w \<noteq> vm \<longrightarrow> (\<forall>x<ept_space. ept_map False w h' x = ept_map False w h x))"
proof -
  have wf: "ept_wf ex_pages False ept_space w h" if "w \<in> {0, 1}" for w
    using inv that by (auto simp: mem_inv_def)
  have fr: "gpa2hpa vm (of_nat x) h = INVALID_HPA" if "unat (0 :: u64) \<le> x" "x < unat (0 :: u64) + unat (0x1000 :: u64)" for x
    using gpa2hpa_map [OF wf [OF vm], of x] free [of x] that by (simp add: ept_space_def)
  have p: "(0x1000 :: u64) \<noteq> 0" "4096 dvd unat (0 :: u64)" "4096 dvd unat hpa" "4096 dvd unat (0x1000 :: u64)"
      "unat (0 :: u64) + unat (0x1000 :: u64) \<le> ept_space" "unat hpa + unat (0x1000 :: u64) \<le> 2 ^ 39"
      "bit (0x37 :: u64) 0" "prot_bits 0x37"
    by (simp_all add: hpa ept_space_def prot_bits_def mask_eq_exp_minus_1)
  from ept_add_mr_update [OF wf [OF vm] p fr, of 0] obtain pg where
      add: "ept_add_mr 0 vm (get_ept_entry vm h) hpa 0 0x1000 0x37 h = Some (request_ept_flush 0 vm (h\<lparr>hv_pg := pg\<rparr>))"
    and up: "pg_update (init_ept_mem_ops ex_pages False vm (is_safety_vm vm)) (ept_rmask False) ept_space IA32E_PML4
       (unat (0 :: u64)) (unat (0 :: u64) + unat (0x1000 :: u64))
       (map_range (unat hpa) (unat (0 :: u64)) (snoop_prot 0x37 AND ept_rmask False)) (hv_pg h) pg"
    by blast
  have "{unat hpa..<unat hpa + unat (0x1000 :: u64)} \<subseteq> ex_own vm"
    using vm by (auto simp: hpa ex_own_def)
  then have st: "mem_step ex_pages False ept_space {0, 1} ex_own h (request_ept_flush 0 vm (h\<lparr>hv_pg := pg\<rparr>))"
    using fr by (intro mem_add [where own = ex_own, OF vm p _ _ add])
  have "\<exists>r. ept_map False vm (request_ept_flush 0 vm (h\<lparr>hv_pg := pg\<rparr>)) 0 = Some (unat hpa, r)"
    using ept_update_map(2) [OF wf [OF vm] up refl, of 0 0] by (simp add: map_range_def ept_space_def)
  moreover have "ept_map False w (request_ept_flush 0 vm (h\<lparr>hv_pg := pg\<rparr>)) x = ept_map False w h x"
    if "w \<in> {0, 1}" "w \<noteq> vm" "x < ept_space" for w x
    using that ex_separate vm by (intro other_vm_unchanged(2) [OF wf [OF that(1)] pg_updateD(2) [OF up] _ refl])
      (auto simp: separate_tables_def)
  ultimately show ?thesis
    using st by blast
qed

theorem vms_isolated_witness:
  "\<exists>h'. (mem_step ex_pages False ept_space {0, 1} ex_own)\<^sup>*\<^sup>* (ex_hv (\<lambda>_. 0)) h' \<and>
     gpa2hpa 0 0 h' \<noteq> INVALID_HPA \<and> gpa2hpa 1 0 h' \<noteq> INVALID_HPA \<and> gpa2hpa 0 0 h' \<noteq> gpa2hpa 1 0 h'"
proof -
  let ?h = "ex_hv (\<lambda>_. 0)" and ?inv = "mem_inv ex_pages False ept_space {0, 1} ex_own"
  have none: "ept_map False vm ?h x = None" if "x < ept_space" for vm x
    using map_free [OF ex_zero_wf that ex_zero_free] .
  have inv: "?inv ?h"
    using none by (simp add: mem_inv_def confined_def ex_zero_wf)
  obtain h1 r1 where h1: "mem_step ex_pages False ept_space {0, 1} ex_own ?h h1" "ept_map False 0 h1 0 = Some (0x40000000, r1)"
      "\<forall>x<ept_space. ept_map False 1 h1 x = ept_map False 1 ?h x"
    using ex_add_page [OF inv, of 0 "0x40000000"] none by (auto simp: ept_space_def)
  have inv1: "?inv h1"
    by (rule mem_step_inv [OF h1(1) inv ex_separate])
  obtain h2 r2 where h2: "mem_step ex_pages False ept_space {0, 1} ex_own h1 h2" "ept_map False 1 h2 0 = Some (0x80000000, r2)"
      "\<forall>x<ept_space. ept_map False 0 h2 x = ept_map False 0 h1 x"
    using ex_add_page [OF inv1, of 1 "0x80000000"] none h1(3) by (auto simp: ept_space_def)
  have inv2: "?inv h2"
    by (rule mem_step_inv [OF h2(1) inv1 ex_separate])
  have run: "(mem_step ex_pages False ept_space {0, 1} ex_own)\<^sup>*\<^sup>* ?h h2"
    using h1(1) h2(1) by (rule rtranclp.rtrancl_into_rtrancl [OF r_into_rtranclp])
  have "ept_wf ex_pages False ept_space 0 h2" "ept_wf ex_pages False ept_space 1 h2"
    using inv2 by (simp_all add: mem_inv_def)
  then have v: "gpa2hpa 0 (of_nat 0) h2 \<noteq> INVALID_HPA" "gpa2hpa 1 (of_nat 0) h2 \<noteq> INVALID_HPA"
    using gpa2hpa_map [of ex_pages False ept_space 0 h2 0] gpa2hpa_map [of ex_pages False ept_space 1 h2 0]
      h2(2,3) h1(2) invalid_hpa_nat [of "0x40000000"] invalid_hpa_nat [of "0x80000000"] by (simp_all add: ept_space_def)
  have "ex_own 0 \<inter> ex_own 1 = {}"
    by (simp add: ex_own_def)
  then have "gpa2hpa 0 (of_nat 0) h2 \<noteq> gpa2hpa 1 (of_nat 0) h2"
    using v by (intro vms_isolated [OF inv ex_separate run]) (simp_all add: ept_space_def)
  with run v show ?thesis by auto
qed

end
