(* ===== verification/Acrn_Vm_Memory.thy ===== *)
theory Acrn_Vm_Memory
  imports Acrn_Isolation Acrn_E820 Acrn_Vcpu_Life
begin

text \<open>
  The memory of a VM at its creation (\<^verbatim>\<open>src/hypervisor/arch/x86/guest/vm.c\<close>): the EPT root,
  the virtual memory map and the mapping of the host memory the configuration assigns to the VM.
\<close>

subsection \<open>The mapping of the configured memory\<close>

text \<open>
  The loop of \<^verbatim>\<open>prepare_prelaunched_vm_memmap\<close> over the entries of the memory map; an entry of
  length 0 ends it. \<open>None\<close>: a call of \<^verbatim>\<open>ept_add_mr\<close> does not return.
\<close>

fun memmap_loop :: "u16 \<Rightarrow> u16 \<Rightarrow> e820_entry list \<Rightarrow> u64 \<Rightarrow> u64 \<Rightarrow> hv \<Rightarrow> hv option" where
  "memmap_loop cpu vm [] base_hpa remaining h = Some h"
| "memmap_loop cpu vm (entry # rest) base_hpa remaining h =
     (if e820_length entry = 0 then Some h
      else
        let add = (\<lambda>prot. ept_add_mr cpu vm (hv_eptp h vm) base_hpa (baseaddr entry) (e820_length entry) prot h)
        in if e820_type entry = E820_TYPE_RAM \<and> remaining \<ge> e820_length entry then
             (case add (EPT_RWX OR EPT_WB) of
                None \<Rightarrow> None
              | Some h1 \<Rightarrow> memmap_loop cpu vm rest (base_hpa + e820_length entry) (remaining - e820_length entry) h1)
           else if e820_type entry \<noteq> E820_TYPE_RAM \<and> baseaddr entry < MEM_1M \<and> remaining \<ge> e820_length entry then
             (case add (EPT_RWX OR EPT_UNCACHED) of
                None \<Rightarrow> None
              | Some h1 \<Rightarrow> memmap_loop cpu vm rest (base_hpa + e820_length entry) (remaining - e820_length entry) h1)
           else memmap_loop cpu vm rest base_hpa remaining h)"

definition prepare_prelaunched_vm_memmap ::
  "u16 \<Rightarrow> u16 \<Rightarrow> e820_entry list \<Rightarrow> acrn_vm_mem_config \<Rightarrow> hv \<Rightarrow> hv option" where
  "prepare_prelaunched_vm_memmap cpu vm e820_entries cfg h =
     memmap_loop cpu vm e820_entries (start_hpa cfg) (mem_size cfg) h"

subsection \<open>Creation\<close>

text \<open>
  The first part of \<^verbatim>\<open>create_vm\<close>, up to the mapping of the memory. \<open>memset_vm\<close> is the
  \<^verbatim>\<open>memset\<close> of the \<^verbatim>\<open>struct acrn_vm\<close> with its array of virtual CPUs.
\<close>

definition memset_vm :: "u16 \<Rightarrow> hv \<Rightarrow> hv" where
  "memset_vm vm h =
     (let h1 = fold (\<lambda>i. memset_vcpu vm (of_nat i)) [0..<unat MAX_VCPUS_PER_VM] h
      in h1\<lparr>hv_created := (hv_created h1)(vm := 0), hv_vm_state := (hv_vm_state h1)(vm := VM_POWERED_OFF),
            hv_eptp := (hv_eptp h1)(vm := 0)\<rparr>)"

definition create_vm_ept :: "(u16 \<Rightarrow> pgtable_pages_info) \<Rightarrow> bool \<Rightarrow> u16 \<Rightarrow> hv \<Rightarrow> hv" where
  "create_vm_ept pages force_4k vm h =
     (let ops = init_ept_mem_ops pages force_4k vm (is_safety_vm vm);
          h1 = h\<lparr>hv_ept_ops := (hv_ept_ops h)(vm := ops)\<rparr>;
          (eptp, pg1) = get_pml4_page ops (info ops) (hv_pg h1);
          h2 = h1\<lparr>hv_eptp := (hv_eptp h1)(vm := eptp), hv_pg := pg1\<rparr>
      in h2\<lparr>hv_pg := sanitize_pte (hv_eptp h2 vm) ops (hv_pg h2)\<rparr>)"

definition create_vm_memory ::
  "(u16 \<Rightarrow> pgtable_pages_info) \<Rightarrow> bool \<Rightarrow> u16 \<Rightarrow> u16 \<Rightarrow> acrn_vm_mem_config \<Rightarrow> hv \<Rightarrow> hv option" where
  "create_vm_memory pages force_4k cpu vm cfg h =
     prepare_prelaunched_vm_memmap cpu vm (create_prelaunched_vm_e820 cfg) cfg
       (create_vm_ept pages force_4k vm (memset_vm vm h))"

subsection \<open>A linear map\<close>

text \<open>The first \<open>n\<close> bytes of the guest's memory are mapped to the host memory from \<open>hp\<close> on, with rights \<open>R\<close>.\<close>

definition linear_map ::
  "(u16 \<Rightarrow> pgtable_pages_info) \<Rightarrow> bool \<Rightarrow> nat \<Rightarrow> u16 \<Rightarrow> nat \<Rightarrow> nat \<Rightarrow> (nat \<Rightarrow> u64) \<Rightarrow> hv \<Rightarrow> bool" where
  "linear_map pages f4k lim vm hp n R h \<longleftrightarrow> ept_wf pages f4k lim vm h \<and>
     (\<forall>x<lim. ept_map f4k vm h x = (if x < n then Some (hp + x, R x AND ept_rmask f4k) else None))"

lemma linear_map_add:
  fixes hpa gpa len prot :: u64
  assumes lin: "linear_map pages f4k lim vm hp n R h" and gpa: "unat gpa = n" and hpa: "unat hpa = hp + n"
    and al: "4096 dvd n" "4096 dvd hp + n" "4096 dvd unat len" and len: "len \<noteq> 0"
    and bound: "n + unat len \<le> lim" "hp + n + unat len \<le> 2 ^ 39" and prot: "bit prot 0" "prot_bits prot"
  shows "\<exists>h'. ept_add_mr cpu vm (hv_eptp h vm) hpa gpa len prot h = Some h' \<and>
     linear_map pages f4k lim vm hp (n + unat len) (\<lambda>x. if x < n then R x else snoop_prot prot) h'"
proof -
  have wf: "ept_wf pages f4k lim vm h" and m: "\<And>x. x < lim \<Longrightarrow>
      ept_map f4k vm h x = (if x < n then Some (hp + x, R x AND ept_rmask f4k) else None)"
    using lin by (auto simp: linear_map_def)
  have free: "gpa2hpa vm (of_nat x) h = INVALID_HPA" if "unat gpa \<le> x" "x < unat gpa + unat len" for x
    using gpa2hpa_map [OF wf, of x] m [of x] that bound(1) gpa by simp
  obtain pg where pg: "ept_add_mr cpu vm (get_ept_entry vm h) hpa gpa len prot h = Some (request_ept_flush cpu vm (h\<lparr>hv_pg := pg\<rparr>))"
      "pg_update (init_ept_mem_ops pages f4k vm (is_safety_vm vm)) (ept_rmask f4k) lim IA32E_PML4 (unat gpa) (unat gpa + unat len)
         (map_range (unat hpa) (unat gpa) (snoop_prot prot AND ept_rmask f4k)) (hv_pg h) pg"
    using ept_add_mr_update [where hpa = hpa and gpa = gpa and cpu = cpu, OF wf len _ _ al(3) _ _ prot free] al bound gpa hpa
    by auto
  note u = ept_update_map [OF wf pg(2) refl, where cpu = cpu]
  have "linear_map pages f4k lim vm hp (n + unat len) (\<lambda>x. if x < n then R x else snoop_prot prot)
      (request_ept_flush cpu vm (h\<lparr>hv_pg := pg\<rparr>))"
    using u(1) by (auto simp: linear_map_def u(2) m gpa hpa map_range_def)
  with pg(1) show ?thesis
    by (auto simp: get_ept_entry_def)
qed

lemma memset_vm_fields [simp]:
  "hv_pg (memset_vm vm h) = hv_pg h" "hv_ept_ops (memset_vm vm h) = hv_ept_ops h"
proof -
  have "hv_pg (fold (\<lambda>i. memset_vcpu vm (of_nat i)) xs h) = hv_pg h \<and>
      hv_ept_ops (fold (\<lambda>i. memset_vcpu vm (of_nat i)) xs h) = hv_ept_ops h" for xs
    by (induction xs arbitrary: h) (simp_all add: memset_vcpu_def)
  then show "hv_pg (memset_vm vm h) = hv_pg h" "hv_ept_ops (memset_vm vm h) = hv_ept_ops h"
    by (simp_all add: memset_vm_def Let_def)
qed

text \<open>The page arrays are in the zeroed data of the image; the new root maps nothing.\<close>

lemma create_vm_ept_fields:
  "hv_ept_ops (create_vm_ept pages f4k vm h) vm = init_ept_mem_ops pages f4k vm (is_safety_vm vm)"
  "hv_eptp (create_vm_ept pages f4k vm h) vm = pml4_base (pages vm)"
  "hv_pg (create_vm_ept pages f4k vm h) =
     sanitize_pte (pml4_base (pages vm)) (init_ept_mem_ops pages f4k vm (is_safety_vm vm)) (memset_page (pml4_base (pages vm)) (hv_pg h))"
  by (simp_all add: create_vm_ept_def Let_def ept_get_pml4_page_def init_ept_mem_ops_def)

lemma create_vm_ept_empty:
  fixes pages f4k vm
  defines "ops \<equiv> init_ept_mem_ops pages f4k vm (is_safety_vm vm)"
  assumes lay: "pages_layout ops lim" and san: "sanitized_page (hv_pg h) AND mask 12 = 0"
    and zero: "\<And>a. in_tables ops lim a \<Longrightarrow> pg_mem (hv_pg h) a = 0"
  shows "linear_map pages f4k lim vm hp 0 R (create_vm_ept pages f4k vm h)"
proof -
  let ?s = "memset_page (table_page ops IA32E_PML4 0) (hv_pg h)" and ?z = "sanitized_page (hv_pg h)"
  let ?pg = "hv_pg (create_vm_ept pages f4k vm h)"
  have root: "pml4_base (pages vm) = table_page ops IA32E_PML4 0"
    by (simp add: table_page_def ops_def)
  note f = create_vm_ept_fields [of pages f4k vm h, folded ops_def]
  have pg: "?pg = fold (\<lambda>i. set_pgentry (entry_ptr (table_page ops IA32E_PML4 0) (of_nat i)) ?z ops) [0..<512] ?s"
    using f(3) ept.sanitize_pte_fill [of "table_page ops IA32E_PML4 0" pages f4k vm "is_safety_vm vm" ?s]
    by (simp add: root ops_def [symmetric])
  have t0: "tab ops ?s l i = 0" if "valid_slot ops lim l i" for l i
    using zero [OF slot_in_tables [OF lay that]] by (simp add: tab_def memset_page_def)
  have t: "tab ops ?pg l i = (if l = IA32E_PML4 then ?z else 0)" if v: "valid_slot ops lim l i" for l i
    unfolding pg
    using ept.fill_page_tab [OF lay [unfolded ops_def], where l = IA32E_PML4 and k = 0 and n = 512 and l' = l and j = i and f = "\<lambda>_. ?z" and s = ?s] v t0 [OF v]
    by (auto simp: ops_def [symmetric])
  have np: "\<not> present ops ?z" "\<not> present ops 0"
    unfolding ops_def by (rule ept.not_present_aligned, simp add: san)+
  have ps: "?z AND PAGE_PS = 0"
    using and_sub_zero [OF san, of PAGE_PS] by (simp add: PAGE_PS_def mask_eq_exp_minus_1)
  have "sanitized_page ?pg = ?z"
    unfolding pg ops_def by (simp only: ept.fill_page_san) (simp add: memset_page_def)
  then have "pgwf ops lim ?pg" "\<And>x. x < lim \<Longrightarrow> tr ops (ept_rmask f4k) ?pg IA32E_PML4 x = None"
    using ept.empty_tables [OF lay [unfolded ops_def], of ?pg] san np ps t unfolding ops_def [symmetric] by auto
  then show ?thesis
    by (simp add: linear_map_def ept_wf_def ept_map_def f) (simp add: ops_def)
qed

subsection \<open>The memory of a created VM\<close>

text \<open>
  C2. The memory of a VM at its creation: with zeroed page arrays and a page-aligned range of host
  memory larger than 1 MByte that fits the address space of the EPT, the creation returns, and the
  guest sees exactly its configured memory: guest address \<open>x\<close> below the configured size is host
  address \<open>start_hpa + x\<close>, uncached in the BIOS area from \<open>0xF0000\<close> to 1 MByte and write-back
  elsewhere, and no other guest address is mapped.
\<close>

theorem vm_memory_created:
  fixes pages f4k vm h cfg
  defines "ops \<equiv> init_ept_mem_ops pages f4k vm (is_safety_vm vm)"
  assumes lay: "pages_layout ops lim" and san: "sanitized_page (hv_pg h) AND mask 12 = 0"
    and zero: "\<And>a. in_tables ops lim a \<Longrightarrow> pg_mem (hv_pg h) a = 0"
    and al: "4096 dvd unat (start_hpa cfg)" "4096 dvd unat (mem_size cfg)"
    and bound: "0x100000 < unat (mem_size cfg)" "unat (mem_size cfg) \<le> lim" "unat (start_hpa cfg) + unat (mem_size cfg) \<le> 2 ^ 39"
  shows "\<exists>h'. create_vm_memory pages f4k cpu vm cfg h = Some h' \<and> ept_wf pages f4k lim vm h' \<and>
     (\<forall>x<lim. ept_map f4k vm h' x =
        (if x < unat (mem_size cfg)
         then Some (unat (start_hpa cfg) + x,
           snoop_prot (EPT_RWX OR (if 0xF0000 \<le> x \<and> x < 0x100000 then EPT_UNCACHED else EPT_WB)) AND ept_rmask f4k)
         else None))"
proof -
  let ?hp = "start_hpa cfg" and ?sz = "mem_size cfg"
  let ?h0 = "create_vm_ept pages f4k vm (memset_vm vm h)"
  have prots: "bit (EPT_RWX OR EPT_WB) 0" "prot_bits (EPT_RWX OR EPT_WB)" "bit (EPT_RWX OR EPT_UNCACHED) 0"
      "prot_bits (EPT_RWX OR EPT_UNCACHED)"
    by (simp_all add: EPT_RWX_def EPT_RD_def EPT_WR_def EPT_EXE_def EPT_WB_def EPT_UNCACHED_def prot_bits_def mask_eq_exp_minus_1)
  have u: "unat (?hp + 0xF0000) = unat ?hp + 0xF0000" "unat (?hp + 0x100000) = unat ?hp + 0x100000"
      "unat (?sz - 0x100000) = unat ?sz - 0x100000" "unat (?sz - 0xF0000) = unat ?sz - 0xF0000"
    using bound by (simp_all add: unat_add_small unat_diff_small word_nat_order)
  have ne: "?sz \<noteq> 0x100000"
    using bound(1) by auto
  have l0: "linear_map pages f4k lim vm (unat ?hp) 0 R ?h0" for R
    by (rule create_vm_ept_empty) (use lay san zero in \<open>auto simp: ops_def\<close>)
  obtain h1 where h1: "ept_add_mr cpu vm (hv_eptp ?h0 vm) ?hp 0 0xF0000 (EPT_RWX OR EPT_WB) ?h0 = Some h1"
      "linear_map pages f4k lim vm (unat ?hp) 0xF0000 (\<lambda>x. snoop_prot (EPT_RWX OR EPT_WB)) h1"
    using linear_map_add [OF l0, of 0 ?hp "0xF0000" "EPT_RWX OR EPT_WB" cpu] al bound prots by auto
  obtain h2 where h2: "ept_add_mr cpu vm (hv_eptp h1 vm) (?hp + 0xF0000) 0xF0000 0x10000 (EPT_RWX OR EPT_UNCACHED) h1 = Some h2"
      "linear_map pages f4k lim vm (unat ?hp) 0x100000
        (\<lambda>x. if x < 0xF0000 then snoop_prot (EPT_RWX OR EPT_WB) else snoop_prot (EPT_RWX OR EPT_UNCACHED)) h2"
    using linear_map_add [OF h1(2), of "0xF0000" "?hp + 0xF0000" "0x10000" "EPT_RWX OR EPT_UNCACHED" cpu] al bound prots u
    by auto
  obtain h3 where h3: "ept_add_mr cpu vm (hv_eptp h2 vm) (?hp + 0x100000) 0x100000 (?sz - 0x100000) (EPT_RWX OR EPT_WB) h2 = Some h3"
      "linear_map pages f4k lim vm (unat ?hp) (unat ?sz)
        (\<lambda>x. if x < 0x100000 then if x < 0xF0000 then snoop_prot (EPT_RWX OR EPT_WB) else snoop_prot (EPT_RWX OR EPT_UNCACHED)
             else snoop_prot (EPT_RWX OR EPT_WB)) h3"
    using linear_map_add [OF h2(2), of "0x100000" "?hp + 0x100000" "?sz - 0x100000" "EPT_RWX OR EPT_WB" cpu] al bound prots u ne
    by auto
  have "create_vm_memory pages f4k cpu vm cfg h = Some h3"
    using h1(1) h2(1) h3(1) [unfolded add.commute [of ?hp "0x100000"]] bound u ne
    by (simp add: create_vm_memory_def prepare_prelaunched_vm_memmap_def create_prelaunched_vm_e820_def pre_ve820_template_def
        Let_def VE820_ENTRIES_def ENTRY_HPA1_def E820_TYPE_RAM_def E820_TYPE_RESERVED_def MEM_1M_def word_nat_order word_nat_eq)
  with h3(2) show ?thesis
    by (auto simp: linear_map_def)
qed


theorem vm_memory_created_witness:
  "\<exists>h'. create_vm_memory ex_pages False 0 0 \<lparr>start_hpa = 0x40000000, mem_size = 0x20000000\<rparr> (ex_hv (\<lambda>_. 0)) = Some h' \<and>
     ept_map False 0 h' 0x123456 = Some (0x40123456, snoop_prot (EPT_RWX OR EPT_WB) AND ept_rmask False) \<and>
     ept_map False 0 h' 0x20000000 = None"
proof -
  let ?c = "\<lparr>start_hpa = 0x40000000, mem_size = 0x20000000\<rparr>"
  have "\<exists>h'. create_vm_memory ex_pages False 0 0 ?c (ex_hv (\<lambda>_. 0)) = Some h' \<and> ept_wf ex_pages False ept_space 0 h' \<and>
     (\<forall>x<ept_space. ept_map False 0 h' x =
        (if x < unat (mem_size ?c)
         then Some (unat (start_hpa ?c) + x,
           snoop_prot (EPT_RWX OR (if 0xF0000 \<le> x \<and> x < 0x100000 then EPT_UNCACHED else EPT_WB)) AND ept_rmask False)
         else None))"
    by (rule vm_memory_created [OF ex_layout]) (simp_all add: ex_hv_def ept_space_def mask_eq_exp_minus_1)
  then show ?thesis
    by (simp add: ept_space_def) force
qed

end
