(* ===== verification/Acrn_Vm.thy ===== *)
theory Acrn_Vm
  imports Acrn_Vpci_Safe Acrn_Vm_Memory
begin

text \<open>
  Starting, pausing and shutting down a VM (\<^verbatim>\<open>src/hypervisor/arch/x86/guest/vm.c\<close>,
  \<^verbatim>\<open>guest/vm_reset.c\<close>, the offline requests of \<^verbatim>\<open>arch/x86/cpu.c\<close>). \<open>None\<close>: the operation panics
  or waits without end.
\<close>

definition NEED_OFFLINE :: u16 where "NEED_OFFLINE = 1"
definition NEED_SHUTDOWN_VM :: u16 where "NEED_SHUTDOWN_VM = 2"

subsection \<open>Lifting to the machine\<close>

definition on_hv :: "(hv \<Rightarrow> hv) \<Rightarrow> machine \<Rightarrow> machine" where
  "on_hv f m = m\<lparr>m_hv := f (m_hv m)\<rparr>"

definition try_hv :: "(hv \<Rightarrow> hv option) \<Rightarrow> machine \<Rightarrow> machine option" where
  "try_hv f m = map_option (\<lambda>h. m\<lparr>m_hv := h\<rparr>) (f (m_hv m))"

text \<open>\<^verbatim>\<open>foreach_vcpu\<close> with a body that may not return.\<close>

fun foreach_vcpu_opt :: "u16 \<Rightarrow> (u16 \<Rightarrow> hv \<Rightarrow> hv option) \<Rightarrow> nat list \<Rightarrow> hv \<Rightarrow> hv option" where
  "foreach_vcpu_opt vm body [] h = Some h"
| "foreach_vcpu_opt vm body (i # is) h =
     (if vc_state (hv_vcpus h vm (of_nat i)) \<noteq> VCPU_OFFLINE
      then do { h1 \<leftarrow> body (of_nat i) h; foreach_vcpu_opt vm body is h1 }
      else foreach_vcpu_opt vm body is h)"

subsection \<open>Requests to a physical CPU\<close>

definition set_pcpu_flag :: "u16 \<Rightarrow> u16 \<Rightarrow> hv \<Rightarrow> hv" where
  "set_pcpu_flag flag p h = h\<lparr>hv_pcpu_flag := (hv_pcpu_flag h)(p := bitmap_set_lock flag (hv_pcpu_flag h p))\<rparr>"

definition take_pcpu_flag :: "u16 \<Rightarrow> u16 \<Rightarrow> hv \<Rightarrow> bool \<times> hv" where
  "take_pcpu_flag flag p h =
     (let (set, w) = bitmap_test_and_clear_lock flag (hv_pcpu_flag h p)
      in (set, h\<lparr>hv_pcpu_flag := (hv_pcpu_flag h)(p := w)\<rparr>))"

definition make_pcpu_offline :: "u16 \<Rightarrow> u16 \<Rightarrow> hv \<Rightarrow> hv" where
  "make_pcpu_offline cpu p h =
     (let h1 = set_pcpu_flag NEED_OFFLINE p h
      in if cpu \<noteq> p then h1\<lparr>hv_sched := send_single_init p (hv_sched h1)\<rparr> else h1)"

definition need_offline :: "u16 \<Rightarrow> hv \<Rightarrow> bool \<times> hv" where
  "need_offline p h = take_pcpu_flag NEED_OFFLINE p h"

definition make_shutdown_vm_request :: "u16 \<Rightarrow> u16 \<Rightarrow> hv \<Rightarrow> hv" where
  "make_shutdown_vm_request cpu p h =
     (let h1 = set_pcpu_flag NEED_SHUTDOWN_VM p h
      in if cpu \<noteq> p then h1\<lparr>hv_sched := send_single_init p (hv_sched h1)\<rparr> else h1)"

definition need_shutdown_vm :: "u16 \<Rightarrow> hv \<Rightarrow> bool \<times> hv" where
  "need_shutdown_vm p h = take_pcpu_flag NEED_SHUTDOWN_VM p h"

subsection \<open>The life of a VM\<close>

definition get_pcpu_bitmap :: "u16 \<Rightarrow> hv \<Rightarrow> u64" where
  "get_pcpu_bitmap vm h =
     fold (\<lambda>i bm. if vc_state (hv_vcpus h vm (of_nat i)) \<noteq> VCPU_OFFLINE
                    then bitmap_set_nolock (pcpuid_from_vcpu vm (of_nat i) h) bm else bm)
       [0..<unat (hv_created h vm)] 0"

definition get_vm_bsp_pcpu_id :: "u16 \<Rightarrow> u64 \<Rightarrow> u16" where
  "get_vm_bsp_pcpu_id phys_cpu_num affinity0 =
     (let cpu_id = ffs64 affinity0 in if cpu_id < phys_cpu_num then cpu_id else INVALID_CPU_ID)"

definition start_vm :: "u16 \<Rightarrow> u16 \<Rightarrow> hv \<Rightarrow> hv" where
  "start_vm cpu vm h =
     (let h1 = h\<lparr>hv_vm_state := (hv_vm_state h)(vm := VM_STARTED)\<rparr>;
          h2 = vcpu_make_request cpu vm BOOT_CPU_ID ACRN_REQUEST_INIT_VMCS h1
      in launch_vcpu cpu vm BOOT_CPU_ID h2)"

definition pause_vm :: "u16 \<Rightarrow> u16 \<Rightarrow> hv \<Rightarrow> hv option" where
  "pause_vm cpu vm h =
     (if hv_vm_state h vm = VM_STARTED then
        do {
          h1 \<leftarrow> foreach_vcpu_opt vm (\<lambda>v. pause_vcpu cpu vm v) [0..<unat (hv_created h vm)] h;
          Some (h1\<lparr>hv_vm_state := (hv_vm_state h1)(vm := VM_PAUSED)\<rparr>)
        }
      else Some h)"

text \<open>
  One round of the second loop of \<^verbatim>\<open>shutdown_vm\<close>. \<^verbatim>\<open>wait_pcpus_offline\<close> after it only waits,
  for a bounded time.
\<close>

definition shutdown_vcpu :: "u16 \<Rightarrow> u16 \<Rightarrow> u64 \<Rightarrow> u16 \<Rightarrow> hv \<Rightarrow> hv" where
  "shutdown_vcpu cpu vm bm v h =
     (let h1 = offline_vcpu vm v (reset_vcpu cpu vm v h)
      in if bitmap_test (pcpuid_from_vcpu vm v h1) bm then make_pcpu_offline cpu (pcpuid_from_vcpu vm v h1) h1 else h1)"

definition shutdown_vcpus :: "u16 \<Rightarrow> u16 \<Rightarrow> hv \<Rightarrow> hv" where
  "shutdown_vcpus cpu vm h =
     (let h1 = h\<lparr>hv_vm_state := (hv_vm_state h)(vm := VM_POWERED_OFF)\<rparr>;
          bm = get_pcpu_bitmap vm h1;
          (bm, h2) = (if bitmap_test cpu bm then (bitmap_clear_nolock cpu bm, make_pcpu_offline cpu cpu h1) else (bm, h1))
      in foreach_vcpu vm (\<lambda>v. shutdown_vcpu cpu vm bm v) h2)"

definition shutdown_vm :: "board \<Rightarrow> u16 \<Rightarrow> u16 \<Rightarrow> machine \<Rightarrow> (i32 \<times> machine) option" where
  "shutdown_vm bd cpu vm m =
     do {
       let m1 = on_hv (shutdown_vcpus cpu vm) m;
       m2 \<leftarrow> vpci_cleanup bd vm m1;
       let m3 = m2\<lparr>m_vtd := destroy_iommu_domain (m_iommu m2 vm) (m_vtd m2)\<rparr>;
       Some (0, on_hv (destroy_ept vm) m3)
     }"

definition fatal_error_shutdown_vm :: "u16 \<Rightarrow> u16 \<Rightarrow> u16 \<Rightarrow> hv \<Rightarrow> hv option" where
  "fatal_error_shutdown_vm cpu vm v h =
     do {
       h1 \<leftarrow> pause_vm cpu vm h;
       let p = pcpuid_from_vcpu vm v h1;
       let h2 = h1\<lparr>hv_shutdown_vm_id := (hv_shutdown_vm_id h1)(p := vm)\<rparr>;
       Some (make_shutdown_vm_request cpu p h2)
     }"

definition shutdown_vm_from_idle :: "board \<Rightarrow> u16 \<Rightarrow> machine \<Rightarrow> machine option" where
  "shutdown_vm_from_idle bd p m =
     (let vm = hv_shutdown_vm_id (m_hv m) p
      in if hv_vm_state (m_hv m) vm = VM_PAUSED then map_option snd (shutdown_vm bd p vm m) else Some m)"

end
