(* ===== verification/Acrn_Shutdown.thy ===== *)
theory Acrn_Shutdown
  imports Acrn_Vm
begin

text \<open>
  The end of a VM: pausing stops every virtual CPU, and the shutdown that the idle thread makes later
  takes every device of the VM off the IOMMU. Both are sweeps, loops that handle the members of a
  list one after the other; what a sweep achieves is proved once, in a locale.
\<close>

subsection \<open>Sweeps\<close>

text \<open>
  A step handles one index: it returns when the index is ready, keeps the invariant, makes the index
  done, and disturbs neither the done nor the ready ones. No index is visited twice.
\<close>

fun loop_opt :: "('i \<Rightarrow> 's \<Rightarrow> 's option) \<Rightarrow> 'i list \<Rightarrow> 's \<Rightarrow> 's option" where
  "loop_opt step [] s = Some s"
| "loop_opt step (i # is) s = do { s1 \<leftarrow> step i s; loop_opt step is s1 }"

locale sweep =
  fixes good :: "'s \<Rightarrow> bool" and ready :: "'i \<Rightarrow> 's \<Rightarrow> bool" and finished :: "'i \<Rightarrow> 's \<Rightarrow> bool"
    and step :: "'i \<Rightarrow> 's \<Rightarrow> 's option"
  assumes step: "good s \<Longrightarrow> ready i s \<Longrightarrow>
    \<exists>s'. step i s = Some s' \<and> good s' \<and> finished i s' \<and>
      (\<forall>j. j \<noteq> i \<longrightarrow> (finished j s \<longrightarrow> finished j s') \<and> (ready j s \<longrightarrow> ready j s'))"
begin

lemma sweeps:
  assumes "good s" "distinct is" "\<And>i. i \<in> set is \<Longrightarrow> ready i s"
  shows "\<exists>s'. loop_opt step is s = Some s' \<and> good s' \<and> (\<forall>i \<in> set is. finished i s') \<and>
    (\<forall>j. j \<notin> set is \<longrightarrow> finished j s \<longrightarrow> finished j s')"
  using assms
proof (induction "is" arbitrary: s)
  case Nil
  then show ?case
    by simp
next
  case (Cons i "is")
  obtain s1 where s1: "step i s = Some s1" "good s1" "finished i s1"
    "\<And>j. j \<noteq> i \<Longrightarrow> finished j s \<Longrightarrow> finished j s1" "\<And>j. j \<noteq> i \<Longrightarrow> ready j s \<Longrightarrow> ready j s1"
    using step [OF Cons.prems(1), of i] Cons.prems(3) by (metis list.set_intros(1))
  have "ready j s1" if "j \<in> set is" for j
    using that Cons.prems(2,3) s1(5) [of j] by auto
  then obtain s' where s': "loop_opt step is s1 = Some s'" "good s'" "\<forall>i \<in> set is. finished i s'"
    "\<forall>j. j \<notin> set is \<longrightarrow> finished j s1 \<longrightarrow> finished j s'"
    using Cons.IH [OF s1(2)] Cons.prems(2) by auto
  show ?case
    using s1 s' Cons.prems(2) by (intro exI [of _ s']) auto
qed

end

subsection \<open>Pausing\<close>

definition pause_step :: "u16 \<Rightarrow> u16 \<Rightarrow> u16 \<Rightarrow> hv \<Rightarrow> hv option" where
  "pause_step cpu vm v h =
     (if vc_state (hv_vcpus h vm v) \<noteq> VCPU_OFFLINE then pause_vcpu cpu vm v h else Some h)"

definition stopped :: "u16 \<Rightarrow> u16 \<Rightarrow> hv \<Rightarrow> bool" where
  "stopped vm v h \<longleftrightarrow> is_blocked (hv_sched h) (Vcpu vm v) \<and> vc_state (hv_vcpus h vm v) \<notin> {VCPU_RUNNING, VCPU_INIT}"

text \<open>The other VMs, the VM states and the number of virtual CPUs are those of the first state.\<close>

definition others_kept :: "u16 \<Rightarrow> hv \<Rightarrow> hv \<Rightarrow> bool" where
  "others_kept vm h0 h \<longleftrightarrow> hv_created h = hv_created h0 \<and> hv_vm_state h = hv_vm_state h0 \<and>
     (\<forall>vm'. vm' \<noteq> vm \<longrightarrow> hv_vcpus h vm' = hv_vcpus h0 vm' \<and>
        (\<forall>v. is_blocked (hv_sched h) (Vcpu vm' v) = is_blocked (hv_sched h0) (Vcpu vm' v)))"

lemma zombie_obs [simp]:
  "hv_created (zombie vm v h) = hv_created h" "hv_vm_state (zombie vm v h) = hv_vm_state h"
  "vc_state (hv_vcpus (zombie vm v h) vm v) = VCPU_ZOMBIE"
  "(vm', v') \<noteq> (vm, v) \<Longrightarrow> hv_vcpus (zombie vm v h) vm' v' = hv_vcpus h vm' v'"
  "vm' \<noteq> vm \<Longrightarrow> hv_vcpus (zombie vm v h) vm' = hv_vcpus h vm'"
  by (auto simp: zombie_def upd_vcpu_def fun_eq_iff)

lemma pause_step_ok:
  assumes "life_inv h \<and> others_kept vm h0 h"
  shows "\<exists>h'. pause_step cpu vm v h = Some h' \<and> (life_inv h' \<and> others_kept vm h0 h') \<and> stopped vm v h' \<and>
    (\<forall>w. w \<noteq> v \<longrightarrow> (stopped vm w h \<longrightarrow> stopped vm w h') \<and> (True \<longrightarrow> True))"
proof (cases "vc_state (hv_vcpus h vm v) = VCPU_OFFLINE")
  case True
  then show ?thesis
    using assms life_invD(2) [of h vm v] by (auto simp: pause_step_def stopped_def)
next
  case False
  obtain s' where s': "pause_vcpu cpu vm v h =
       Some (if vc_state (hv_vcpus h vm v) \<in> {VCPU_RUNNING, VCPU_INIT} then (zombie vm v h)\<lparr>hv_sched := s'\<rparr> else h)"
     "\<And>vm' v'. (vm', v') \<noteq> (vm, v) \<Longrightarrow> is_blocked s' (Vcpu vm' v') = is_blocked (hv_sched h) (Vcpu vm' v')"
    using pause_vcpu_ok [of h cpu vm v] assms by blast
  define h' where "h' = (if vc_state (hv_vcpus h vm v) \<in> {VCPU_RUNNING, VCPU_INIT} then (zombie vm v h)\<lparr>hv_sched := s'\<rparr> else h)"
  have p: "pause_vcpu cpu vm v h = Some h'"
    using s'(1) by (simp add: h'_def)
  note l = pause_vcpu_life [OF conjunct1 [OF assms] p]
  have "others_kept vm h0 h'"
    using assms s'(2) by (auto simp: others_kept_def h'_def)
  moreover have "stopped vm v h'"
    using l(2) by (auto simp: stopped_def h'_def)
  moreover have "stopped vm w h'" if "w \<noteq> v" "stopped vm w h" for w
    using that s'(2) [of vm w] by (auto simp: stopped_def h'_def)
  ultimately show ?thesis
    using p l(1) False by (auto simp: pause_step_def)
qed

interpretation pausing: sweep "\<lambda>h. life_inv h \<and> others_kept vm h0 h" "\<lambda>v h. True" "stopped vm" "pause_step cpu vm"
  for vm h0 cpu
  by unfold_locales (rule pause_step_ok)

lemma foreach_vcpu_opt_loop:
  "foreach_vcpu_opt vm (\<lambda>v. pause_vcpu cpu vm v) is = loop_opt (pause_step cpu vm) (map of_nat is)"
proof (induction "is")
  case (Cons i "is")
  show ?case
    by (rule ext) (simp add: Cons pause_step_def)
qed (simp add: fun_eq_iff)

lemma vcpu_indices:
  "distinct (map of_nat [0..<unat n] :: u16 list)" "(v :: u16) \<in> set (map of_nat [0..<unat n]) \<longleftrightarrow> unat v < unat (n :: u16)"
proof -
  have s: "unat n < 65536"
    using unsigned_less [of n, where 'a = nat] by simp
  have u: "unat (of_nat i :: u16) = i" if "i < unat n" for i
    using that s by (simp add: unat_of_nat)
  show "distinct (map of_nat [0..<unat n] :: u16 list)"
    by (simp add: distinct_map inj_on_def) (metis u atLeastLessThan_iff)
  show "v \<in> set (map of_nat [0..<unat n]) \<longleftrightarrow> unat v < unat n"
  proof
    assume "unat v < unat n"
    then show "v \<in> set (map of_nat [0..<unat n])"
      using image_eqI [of v of_nat "unat v" "{0..<unat n}"] by simp
  next
    assume "v \<in> set (map of_nat [0..<unat n])"
    then obtain i where "i < unat n" "v = of_nat i"
      by auto
    then show "unat v < unat n"
      by (simp only: u)
  qed
qed

lemma pause_vm_ok:
  assumes "life_inv h" "hv_vm_state h vm = VM_STARTED"
  obtains h' where "pause_vm cpu vm h = Some h'" "life_inv h'" "hv_vm_state h' = (hv_vm_state h)(vm := VM_PAUSED)"
    "\<And>v. unat v < unat (hv_created h vm) \<Longrightarrow> stopped vm v h'" "hv_created h' = hv_created h"
    "\<And>vm' v. vm' \<noteq> vm \<Longrightarrow> hv_vcpus h' vm' v = hv_vcpus h vm' v \<and> is_blocked (hv_sched h') (Vcpu vm' v) = is_blocked (hv_sched h) (Vcpu vm' v)"
proof -
  have "others_kept vm h h"
    by (simp add: others_kept_def)
  then obtain h1 where h1: "loop_opt (pause_step cpu vm) (map of_nat [0..<unat (hv_created h vm)]) h = Some h1"
    "life_inv h1" "others_kept vm h h1" "\<And>v. unat v < unat (hv_created h vm) \<Longrightarrow> stopped vm v h1"
    using pausing.sweeps [where cpu = cpu, OF _ vcpu_indices(1), of h vm h "hv_created h vm"] assms(1)
    by (auto simp: vcpu_indices(2) simp del: set_map)
  show thesis
    by (rule that [of "h1\<lparr>hv_vm_state := (hv_vm_state h1)(vm := VM_PAUSED)\<rparr>"])
      (use h1 assms in \<open>auto simp: pause_vm_def foreach_vcpu_opt_loop life_inv_def others_kept_def stopped_def\<close>)
qed

subsection \<open>Taking the virtual CPUs offline\<close>

lemma make_pcpu_offline_obs [simp]:
  "hv_vcpus (make_pcpu_offline cpu p h) = hv_vcpus h" "hv_created (make_pcpu_offline cpu p h) = hv_created h"
  "hv_vm_state (make_pcpu_offline cpu p h) = hv_vm_state h"
  "is_blocked (hv_sched (make_pcpu_offline cpu p h)) t = is_blocked (hv_sched h) t"
  by (simp_all add: make_pcpu_offline_def set_pcpu_flag_def Let_def is_blocked_def)

lemma send_init_inv: "sched_inv s \<Longrightarrow> sched_inv (send_single_init p s)"
  by (simp add: sched_inv_def hooks_ok_def cpu_inv_def thread_inv_def sched_noop_pick_next_def send_single_init_def
      need_reschedule_def cong: option.case_cong)

lemma make_pcpu_offline_life: "life_inv h \<Longrightarrow> life_inv (make_pcpu_offline cpu p h)"
  using send_init_inv
  by (auto simp: life_inv_def) (simp add: make_pcpu_offline_def set_pcpu_flag_def Let_def)

lemma reset_vcpu_vm_state [simp]: "hv_vm_state (reset_vcpu cpu vm v h) = hv_vm_state h"
  by (simp add: reset_vcpu_def Let_def reset_vcpu_regs_def set_vcpu_regs_def vcpu_make_request_def kick_vcpu_def
      vcpu_not_running_def upd_vcpu_def)

definition shutdown_step :: "u16 \<Rightarrow> u16 \<Rightarrow> u64 \<Rightarrow> u16 \<Rightarrow> hv \<Rightarrow> hv" where
  "shutdown_step cpu vm bm v h =
     (if vc_state (hv_vcpus h vm v) \<noteq> VCPU_OFFLINE then shutdown_vcpu cpu vm bm v h else h)"

definition vcpus_kept :: "u16 \<Rightarrow> hv \<Rightarrow> hv \<Rightarrow> bool" where
  "vcpus_kept vm h0 h \<longleftrightarrow> hv_created h = hv_created h0 \<and> hv_vm_state h = hv_vm_state h0 \<and>
     (\<forall>vm'. vm' \<noteq> vm \<longrightarrow> hv_vcpus h vm' = hv_vcpus h0 vm')"

lemma offline_reset:
  assumes "life_inv h" "is_blocked (hv_sched h) (Vcpu vm v)" and h'_def: "h' = offline_vcpu vm v (reset_vcpu cpu vm v h)"
  shows "life_inv h'" "vc_state (hv_vcpus h' vm v) = VCPU_OFFLINE"
    "(vm', v') \<noteq> (vm, v) \<Longrightarrow> hv_vcpus h' vm' v' = hv_vcpus h vm' v'"
    "hv_created h' = hv_created h" "hv_vm_state h' = hv_vm_state h"
    "is_blocked (hv_sched h') t = is_blocked (hv_sched h) t"
proof -
  note r = reset_vcpu_life [OF assms(1,2), where cpu = cpu]
  have "is_blocked (hv_sched (reset_vcpu cpu vm v h)) (Vcpu vm v)"
    by (rule life_invD(2) [OF r]) (simp add: reset_vcpu_obs(1))
  then show "life_inv h'"
    using r by (auto simp: life_inv_def h'_def offline_vcpu_def upd_vcpu_def)
qed (auto simp: h'_def offline_vcpu_def upd_vcpu_def reset_vcpu_obs is_blocked_def)

lemma shutdown_step_ok:
  assumes "life_inv h \<and> vcpus_kept vm h0 h" "is_blocked (hv_sched h) (Vcpu vm v)"
  shows "\<exists>h'. Some (shutdown_step cpu vm bm v h) = Some h' \<and> (life_inv h' \<and> vcpus_kept vm h0 h') \<and>
    vc_state (hv_vcpus h' vm v) = VCPU_OFFLINE \<and>
    (\<forall>w. w \<noteq> v \<longrightarrow> (vc_state (hv_vcpus h vm w) = VCPU_OFFLINE \<longrightarrow> vc_state (hv_vcpus h' vm w) = VCPU_OFFLINE) \<and>
       (is_blocked (hv_sched h) (Vcpu vm w) \<longrightarrow> is_blocked (hv_sched h') (Vcpu vm w)))"
proof (cases "vc_state (hv_vcpus h vm v) = VCPU_OFFLINE")
  case True
  then show ?thesis
    using assms by (simp add: shutdown_step_def)
next
  case False
  note o = offline_reset [OF conjunct1 [OF assms(1)] assms(2) refl, where cpu = cpu]
  have "vcpus_kept vm h0 (offline_vcpu vm v (reset_vcpu cpu vm v h))"
    using assms o(3-5) by (auto simp: vcpus_kept_def fun_eq_iff)
  then show ?thesis
    using False o(1-3,6) make_pcpu_offline_life [OF o(1)]
    by (auto simp: shutdown_step_def shutdown_vcpu_def Let_def vcpus_kept_def)
qed

interpretation offlining: sweep "\<lambda>h. life_inv h \<and> vcpus_kept vm h0 h"
    "\<lambda>v h. is_blocked (hv_sched h) (Vcpu vm v)" "\<lambda>v h. vc_state (hv_vcpus h vm v) = VCPU_OFFLINE" "\<lambda>v h. Some (shutdown_step cpu vm bm v h)"
  for vm h0 cpu bm
  by unfold_locales (rule shutdown_step_ok)

lemma loop_opt_fold: "loop_opt (\<lambda>i s. Some (f i s)) is s = Some (fold f is s)"
  by (induction "is" arbitrary: s) simp_all

lemma foreach_shutdown:
  "foreach_vcpu vm (\<lambda>v. shutdown_vcpu cpu vm bm v) h = fold (shutdown_step cpu vm bm) (map of_nat [0..<unat (hv_created h vm)]) h"
  by (simp add: foreach_vcpu_def fold_map o_def shutdown_step_def [abs_def])

lemma shutdown_vcpus_ok:
  assumes "life_inv h" and blocked: "\<And>v. unat v < unat (hv_created h vm) \<Longrightarrow> is_blocked (hv_sched h) (Vcpu vm v)"
    and h'_def: "h' = shutdown_vcpus cpu vm h"
  shows "life_inv h'" "hv_vm_state h' = (hv_vm_state h)(vm := VM_POWERED_OFF)" "hv_created h' = hv_created h"
    "unat v < unat (hv_created h vm) \<Longrightarrow> vc_state (hv_vcpus h' vm v) = VCPU_OFFLINE"
    "vm' \<noteq> vm \<Longrightarrow> hv_vcpus h' vm' = hv_vcpus h vm'"
proof -
  define h1 where "h1 = h\<lparr>hv_vm_state := (hv_vm_state h)(vm := VM_POWERED_OFF)\<rparr>"
  define bm where "bm = (if bitmap_test cpu (get_pcpu_bitmap vm h1) then bitmap_clear_nolock cpu (get_pcpu_bitmap vm h1)
    else get_pcpu_bitmap vm h1)"
  define h2 where "h2 = (if bitmap_test cpu (get_pcpu_bitmap vm h1) then make_pcpu_offline cpu cpu h1 else h1)"
  have "life_inv h1"
    using assms(1) by (simp add: life_inv_def h1_def)
  then have i: "life_inv h2 \<and> vcpus_kept vm h1 h2"
    using make_pcpu_offline_life [of h1 cpu cpu] by (simp add: h2_def vcpus_kept_def)
  have e: "h' = fold (shutdown_step cpu vm bm) (map of_nat [0..<unat (hv_created h2 vm)]) h2"
    by (simp add: h'_def shutdown_vcpus_def Let_def h1_def [symmetric] bm_def h2_def foreach_shutdown)
  have b: "is_blocked (hv_sched h2) (Vcpu vm v)" if "v \<in> set (map of_nat [0..<unat (hv_created h2 vm)])" for v
    using that blocked [of v] i by (simp add: vcpu_indices(2) h2_def h1_def vcpus_kept_def del: set_map split: if_splits)
  have r: "life_inv h' \<and> vcpus_kept vm h1 h'" "\<And>v. unat v < unat (hv_created h2 vm) \<Longrightarrow> vc_state (hv_vcpus h' vm v) = VCPU_OFFLINE"
    using offlining.sweeps [where cpu = cpu and bm = bm, OF i vcpu_indices(1) [of "hv_created h2 vm"] b]
    by (auto simp: loop_opt_fold vcpu_indices(2) e simp del: set_map)
  have c: "hv_created h2 = hv_created h" "hv_created h1 = hv_created h"
    using i by (simp_all add: vcpus_kept_def h1_def)
  show "life_inv h'" "hv_vm_state h' = (hv_vm_state h)(vm := VM_POWERED_OFF)" "hv_created h' = hv_created h"
    "unat v < unat (hv_created h vm) \<Longrightarrow> vc_state (hv_vcpus h' vm v) = VCPU_OFFLINE"
    "vm' \<noteq> vm \<Longrightarrow> hv_vcpus h' vm' = hv_vcpus h vm'"
    using r c by (auto simp: vcpus_kept_def h1_def)
qed

subsection \<open>Taking the devices off the IOMMU\<close>

definition dma_id :: "u16 \<Rightarrow> u8 \<times> u8" where
  "dma_id bdf = (ucast (drop_bit 8 bdf), ucast bdf)"

definition passthrough :: "pci_vdev \<Rightarrow> bool" where
  "passthrough d \<longleftrightarrow> vdev_ops d = Pci_pt_dev_ops"

definition vm_devices :: "acrn_vpci \<Rightarrow> (u8 \<times> u8) set" where
  "vm_devices p = (\<lambda>d. dma_id (vd_pbdf d)) ` {d \<in> set (pci_vdevs p). passthrough d}"

text \<open>No physical device is given to two virtual devices of the VM.\<close>

definition unshared :: "acrn_vpci \<Rightarrow> bool" where
  "unshared p \<longleftrightarrow> (\<forall>i j. i < length (pci_vdevs p) \<longrightarrow> j < length (pci_vdevs p) \<longrightarrow> i \<noteq> j \<longrightarrow>
     passthrough (pci_vdevs p ! i) \<longrightarrow> passthrough (pci_vdevs p ! j) \<longrightarrow> vd_pbdf (pci_vdevs p ! i) \<noteq> vd_pbdf (pci_vdevs p ! j))"

definition detach_good :: "board \<Rightarrow> u16 \<Rightarrow> machine \<Rightarrow> machine \<Rightarrow> bool" where
  "detach_good bd vm m0 m \<longleftrightarrow> responsive (bd_vtd bd) \<and> unshared (m_vpci m0 vm) \<and> vtd_wf (bd_vtd bd) (m_vtd m) \<and>
     (\<exists>vt. m = m0\<lparr>m_vtd := vt\<rparr>) \<and> (\<forall>d. d \<notin> vm_devices (m_vpci m0 vm) \<longrightarrow> dma_map (m_vtd m) d = dma_map (m_vtd m0) d)"

definition attached :: "u16 \<Rightarrow> nat \<Rightarrow> machine \<Rightarrow> bool" where
  "attached vm i m \<longleftrightarrow> i < length (pci_vdevs (m_vpci m vm)) \<and>
     (passthrough (get_vdev vm i m) \<longrightarrow> dma_map (m_vtd m) (dma_id (vd_pbdf (get_vdev vm i m))) \<noteq> None)"

definition detached :: "u16 \<Rightarrow> nat \<Rightarrow> machine \<Rightarrow> bool" where
  "detached vm i m \<longleftrightarrow> passthrough (get_vdev vm i m) \<longrightarrow> dma_map (m_vtd m) (dma_id (vd_pbdf (get_vdev vm i m))) = None"

lemma dma_id_inj: "dma_id a = dma_id b \<longleftrightarrow> a = b"
proof
  assume e: "dma_id a = dma_id b"
  show "a = b"
  proof (rule bit_word_eqI)
    fix n assume n: "n < LENGTH(16)"
    have "bit (ucast (drop_bit 8 a) :: u8) (n - 8) = bit (ucast (drop_bit 8 b) :: u8) (n - 8)"
      "bit (ucast a :: u8) n = bit (ucast b :: u8) n"
      using e by (simp_all add: dma_id_def)
    then show "bit a n = bit b n"
      using n by (cases "n < 8") (auto simp: bit_simps)
  qed
qed simp

lemma deinit_vmsi_ok:
  assumes "responsive (bd_vtd bd)" "vtd_wf (bd_vtd bd) (m_vtd m)"
  shows "\<exists>vt. deinit_vmsi bd vm i m = Some (m\<lparr>m_vtd := vt\<rparr>) \<and> vtd_wf (bd_vtd bd) vt \<and> dma_map vt = dma_map (m_vtd m)"
proof (cases "has_msi_cap (get_vdev vm i m)")
  case True
  obtain vt where "dmar_free_irte (bd_vtd bd) 0 (msi_irte_index vm (vd_bdf (get_vdev vm i m))) (m_vtd m) = Some vt"
    "vtd_wf (bd_vtd bd) vt" "dma_map vt = dma_map (m_vtd m)"
    using free_irte_map [OF assms msi_index_less] by blast
  then show ?thesis
    using True by (intro exI [of _ vt]) (simp add: deinit_vmsi_def Let_def ptirq_remove_msix_remapping_def remove_msix_remapping_def)
next
  case False
  then show ?thesis
    using assms by (intro exI [of _ "m_vtd m"]) (simp add: deinit_vmsi_def Let_def)
qed

lemma deinit_pt_ok:
  assumes "responsive (bd_vtd bd)" "vtd_wf (bd_vtd bd) (m_vtd m)" "passthrough (get_vdev vm i m)"
    "dma_map (m_vtd m) (dma_id (vd_pbdf (get_vdev vm i m))) \<noteq> None"
  shows "\<exists>vt. deinit_vdev bd vm i m = Some (m\<lparr>m_vtd := vt\<rparr>) \<and> vtd_wf (bd_vtd bd) vt \<and>
    dma_map vt = (dma_map (m_vtd m))(dma_id (vd_pbdf (get_vdev vm i m)) := None)"
proof -
  obtain v1 where v1: "remove_vdev_pt_iommu_domain bd vm i m = Some (m\<lparr>m_vtd := v1\<rparr>)" "vtd_wf (bd_vtd bd) v1"
    "dma_map v1 = (dma_map (m_vtd m))(dma_id (vd_pbdf (get_vdev vm i m)) := None)"
    using remove_device_map [OF assms(1,2) assms(4) [unfolded dma_id_def], of "vm_domain vm m"]
    by (auto simp: remove_vdev_pt_iommu_domain_def Let_def dma_id_def)
  obtain v2 where "deinit_vmsi bd vm i (m\<lparr>m_vtd := v1\<rparr>) = Some (m\<lparr>m_vtd := v2\<rparr>)" "vtd_wf (bd_vtd bd) v2" "dma_map v2 = dma_map v1"
    using deinit_vmsi_ok [OF assms(1), of "m\<lparr>m_vtd := v1\<rparr>" vm i] v1(2) by auto
  then show ?thesis
    using v1 assms(3) by (auto simp: deinit_vdev_def passthrough_def vpci_deinit_pt_dev_def)
qed

lemma deinit_step_ok:
  assumes "detach_good bd vm m0 m" "attached vm i m"
  shows "\<exists>m'. deinit_vdev bd vm i m = Some m' \<and> detach_good bd vm m0 m' \<and> detached vm i m' \<and>
    (\<forall>j. j \<noteq> i \<longrightarrow> (detached vm j m \<longrightarrow> detached vm j m') \<and> (attached vm j m \<longrightarrow> attached vm j m'))"
proof (cases "passthrough (get_vdev vm i m)")
  case False
  then have "deinit_vdev bd vm i m = Some m"
    by (cases "vdev_ops (get_vdev vm i m)") (simp_all add: passthrough_def deinit_vdev_def deinit_vhostbridge_def)
  then show ?thesis
    using assms(1) False by (auto simp: detached_def)
next
  case True
  let ?D = "dma_id (vd_pbdf (get_vdev vm i m))"
  have g: "responsive (bd_vtd bd)" "vtd_wf (bd_vtd bd) (m_vtd m)" "unshared (m_vpci m vm)" "m_vpci m vm = m_vpci m0 vm"
    using assms(1) by (auto simp: detach_good_def)
  obtain vt where vt: "deinit_vdev bd vm i m = Some (m\<lparr>m_vtd := vt\<rparr>)" "vtd_wf (bd_vtd bd) vt"
    "dma_map vt = (dma_map (m_vtd m))(?D := None)"
    using deinit_pt_ok [OF g(1,2) True] assms(2) True by (auto simp: attached_def)
  let ?m = "m\<lparr>m_vtd := vt\<rparr>"
  have get: "get_vdev vm j ?m = get_vdev vm j m" for j
    by (simp add: get_vdev_def)
  have "?D \<in> vm_devices (m_vpci m0 vm)"
    using assms(2) True by (auto simp: vm_devices_def attached_def get_vdev_def g(4))
  then have "detach_good bd vm m0 ?m"
    using assms(1) vt(2,3) by (auto simp: detach_good_def)
  moreover have "dma_id (vd_pbdf (get_vdev vm j m)) \<noteq> ?D"
    if "j \<noteq> i" "attached vm j m" "passthrough (get_vdev vm j m)" for j
    using that g(3) assms(2) True by (auto simp: unshared_def attached_def get_vdev_def dma_id_inj)
  ultimately show ?thesis
    using vt by (intro exI [of _ ?m]) (auto simp: detached_def attached_def get)
qed

interpretation detaching: sweep "detach_good bd vm m0" "attached vm" "detached vm" "deinit_vdev bd vm"
  for bd vm m0
  by unfold_locales (rule deinit_step_ok)

lemma cleanup_loop: "vpci_cleanup_loop bd vm is = loop_opt (deinit_vdev bd vm) is"
proof (induction "is")
  case (Cons i "is")
  show ?case
    by (rule ext) (simp add: Cons)
qed (simp add: fun_eq_iff)

lemma vpci_cleanup_ok:
  assumes "responsive (bd_vtd bd)" "vtd_wf (bd_vtd bd) (m_vtd m)" "unshared (m_vpci m vm)"
    "\<And>d. d \<in> vm_devices (m_vpci m vm) \<Longrightarrow> dma_map (m_vtd m) d \<noteq> None"
  shows "\<exists>vt. vpci_cleanup bd vm m = Some (m\<lparr>m_vtd := vt\<rparr>) \<and> vtd_wf (bd_vtd bd) vt \<and>
    (\<forall>d. dma_map vt d = (if d \<in> vm_devices (m_vpci m vm) then None else dma_map (m_vtd m) d))"
proof -
  have "detach_good bd vm m m"
    using assms(1-3) by (auto simp: detach_good_def intro: exI [of _ "m_vtd m"])
  moreover have "attached vm i m" if "i \<in> set [0..<length (pci_vdevs (m_vpci m vm))]" for i
    using that assms(4) by (auto simp: attached_def get_vdev_def vm_devices_def)
  ultimately obtain m' where m': "loop_opt (deinit_vdev bd vm) [0..<length (pci_vdevs (m_vpci m vm))] m = Some m'"
    "detach_good bd vm m m'" "\<And>i. i < length (pci_vdevs (m_vpci m vm)) \<Longrightarrow> detached vm i m'"
    using detaching.sweeps [of bd vm m m "[0..<length (pci_vdevs (m_vpci m vm))]"] by auto
  obtain vt where vt: "m' = m\<lparr>m_vtd := vt\<rparr>" "vtd_wf (bd_vtd bd) vt"
    "\<And>d. d \<notin> vm_devices (m_vpci m vm) \<Longrightarrow> dma_map vt d = dma_map (m_vtd m) d"
    using m'(2) by (auto simp: detach_good_def)
  have "dma_map vt d = None" if "d \<in> vm_devices (m_vpci m vm)" for d
    using that m'(3) by (auto simp: vm_devices_def in_set_conv_nth detached_def vt(1) get_vdev_def)
  then show ?thesis
    using m'(1) vt by (auto simp: vpci_cleanup_def cleanup_loop)
qed

subsection \<open>The properties\<close>


lemma shutdown_request_obs:
  assumes "h' = make_shutdown_vm_request cpu p h"
  shows "fst (need_shutdown_vm p h')" "hv_vcpus (snd (need_shutdown_vm q h')) = hv_vcpus h"
    "hv_vm_state (snd (need_shutdown_vm q h')) = hv_vm_state h" "hv_created (snd (need_shutdown_vm q h')) = hv_created h"
    "hv_shutdown_vm_id (snd (need_shutdown_vm q h')) = hv_shutdown_vm_id h"
    "is_blocked (hv_sched (snd (need_shutdown_vm q h'))) t = is_blocked (hv_sched h) t"
    "pcpuid_from_vcpu vm v h' = pcpuid_from_vcpu vm v h"
    "life_inv h \<Longrightarrow> life_inv (snd (need_shutdown_vm q h'))"
  using send_init_inv
  by (auto simp: assms make_shutdown_vm_request_def need_shutdown_vm_def take_pcpu_flag_def set_pcpu_flag_def Let_def
      bitmap_test_iff bit_bitmap_set is_blocked_def life_inv_def pcpuid_from_vcpu_def sched_get_pcpuid_def)

lemma destroy_ept_obs [simp]:
  "hv_vcpus (destroy_ept vm h) = hv_vcpus h" "hv_vm_state (destroy_ept vm h) = hv_vm_state h"
  "hv_sched (destroy_ept vm h) = hv_sched h"
  by (simp_all add: destroy_ept_def)

lemma shutdown_vm_ok:
  assumes "life_inv (m_hv m)" "\<And>v. unat v < unat (hv_created (m_hv m) vm) \<Longrightarrow> is_blocked (hv_sched (m_hv m)) (Vcpu vm v)"
    and dma: "responsive (bd_vtd bd)" "vtd_wf (bd_vtd bd) (m_vtd m)" "unshared (m_vpci m vm)"
      "\<And>d. d \<in> vm_devices (m_vpci m vm) \<Longrightarrow> dma_map (m_vtd m) d \<noteq> None"
  obtains m' where "shutdown_vm bd cpu vm m = Some (0, m')" "life_inv (m_hv m')"
    "hv_vm_state (m_hv m') = (hv_vm_state (m_hv m))(vm := VM_POWERED_OFF)"
    "\<And>v. unat v < unat (hv_created (m_hv m) vm) \<Longrightarrow> vc_state (hv_vcpus (m_hv m') vm v) = VCPU_OFFLINE"
    "dma_map (m_vtd m') = (\<lambda>d. if d \<in> vm_devices (m_vpci m vm) then None else dma_map (m_vtd m) d)"
    "\<And>vm'. vm' \<noteq> vm \<Longrightarrow> hv_vcpus (m_hv m') vm' = hv_vcpus (m_hv m) vm'"
proof -
  define m1 where "m1 = on_hv (shutdown_vcpus cpu vm) m"
  note s = shutdown_vcpus_ok [OF assms(1,2) refl, where cpu = cpu]
  have eq: "m_vtd m1 = m_vtd m" "m_vpci m1 = m_vpci m" "m_hv m1 = shutdown_vcpus cpu vm (m_hv m)"
    by (simp_all add: m1_def on_hv_def)
  obtain vt where vt: "vpci_cleanup bd vm m1 = Some (m1\<lparr>m_vtd := vt\<rparr>)"
    "dma_map vt = (\<lambda>d. if d \<in> vm_devices (m_vpci m vm) then None else dma_map (m_vtd m) d)"
    using vpci_cleanup_ok [of bd m1 vm] dma by (auto simp: eq fun_eq_iff)
  define m' where "m' = on_hv (destroy_ept vm) (m1\<lparr>m_vtd := destroy_iommu_domain (m_iommu m1 vm) vt\<rparr>)"
  have "dma_map (destroy_iommu_domain d vt) = dma_map vt" for d
    by (simp add: fun_eq_iff dma_map_def destroy_iommu_domain_def)
  then have "dma_map (m_vtd m') = (\<lambda>d. if d \<in> vm_devices (m_vpci m vm) then None else dma_map (m_vtd m) d)"
    using vt(2) by (simp add: m'_def on_hv_def)
  moreover have "shutdown_vm bd cpu vm m = Some (0, m')"
    using vt(1) by (simp add: shutdown_vm_def Let_def m'_def flip: m1_def)
  moreover have "life_inv (m_hv m')"
    using s(1) by (simp add: m'_def on_hv_def eq life_inv_def)
  ultimately show thesis
    using s(2,4,5) by (intro that [of m']) (simp_all add: m'_def on_hv_def eq)
qed


subsection \<open>A concrete VM\<close>

definition ex_started :: machine where
  "ex_started = ex_machine\<lparr>m_hv := start_vm 1 1 hv_ex, m_vtd := ex_assigned\<rparr>"

lemma ex_started_life: "life_inv (m_hv ex_started)" "hv_vm_state (m_hv ex_started) 1 = VM_STARTED"
  "hv_created (m_hv ex_started) 1 = 1"
proof -
  have "life_inv (hv_ex\<lparr>hv_vm_state := (hv_vm_state hv_ex)(1 := VM_STARTED)\<rparr>)"
    using life_hv_ex by (simp add: life_inv_def)
  then show "life_inv (m_hv ex_started)"
    by (simp add: ex_started_def start_vm_def Let_def launch_vcpu_life make_request_life)
  show "hv_vm_state (m_hv ex_started) 1 = VM_STARTED" "hv_created (m_hv ex_started) 1 = 1"
    by (simp_all add: ex_started_def start_vm_def Let_def launch_vcpu_def vcpu_make_request_def kick_vcpu_def upd_vcpu_def
        hv_ex_def hv0_def)
qed

lemma ex_started_devices: "vm_devices (m_vpci ex_started 1) = {(0, 0xF8)}" "unshared (m_vpci ex_started 1)"
  by (simp_all add: vm_devices_def unshared_def ex_started_def ex_machine_def passthrough_def ex_vdev_def new_vdev_def
      ex_dev_config_def dma_id_def Collect_conv_if image_Collect)



end
