(* ===== verification/Acrn_Lib.thy ===== *)
theory Acrn_Lib
  imports Acrn_Prelude
begin

text \<open>
  The byte-level helpers: \<^verbatim>\<open>src/hypervisor/arch/x86/lib/memory.c\<close> and
  \<^verbatim>\<open>src/hypervisor/lib/string.c\<close> over a byte-addressed memory. A \<^verbatim>\<open>size_t\<close> and a
  pointer are 64-bit words; a \<^verbatim>\<open>char\<close> is a byte, read as a signed number.
\<close>

type_synonym bytes = "u64 \<Rightarrow> u8"

subsection \<open>Copying and filling\<close>

text \<open>The string instructions with the direction flag clear: one byte after the other, upwards.\<close>

fun rep_movsb :: "nat \<Rightarrow> u64 \<Rightarrow> u64 \<Rightarrow> bytes \<Rightarrow> bytes" where
  "rep_movsb 0 d s m = m"
| "rep_movsb (Suc n) d s m = rep_movsb n (d + 1) (s + 1) (m(d := m s))"

fun rep_stosb :: "nat \<Rightarrow> u64 \<Rightarrow> u8 \<Rightarrow> bytes \<Rightarrow> bytes" where
  "rep_stosb 0 d v m = m"
| "rep_stosb (Suc n) d v m = rep_stosb n (d + 1) v (m(d := v))"

definition memcpy_erms :: "u64 \<Rightarrow> u64 \<Rightarrow> u64 \<Rightarrow> bytes \<Rightarrow> bytes" where
  "memcpy_erms d s slen m = rep_movsb (unat slen) d s m"

definition memcpy_s :: "u64 \<Rightarrow> u64 \<Rightarrow> u64 \<Rightarrow> u64 \<Rightarrow> bytes \<Rightarrow> u64 \<times> bytes" where
  "memcpy_s d dmax s slen m =
     (d, if slen \<noteq> 0 \<and> dmax \<noteq> 0 \<and> dmax \<ge> slen then if d \<noteq> s then memcpy_erms d s slen m else m else m)"

definition memset_erms :: "u64 \<Rightarrow> u8 \<Rightarrow> u64 \<Rightarrow> bytes \<Rightarrow> bytes" where
  "memset_erms base v n m = rep_stosb (unat n) base v m"

definition memset :: "u64 \<Rightarrow> u8 \<Rightarrow> u64 \<Rightarrow> bytes \<Rightarrow> u64 \<times> bytes" where
  "memset base v n m = (base, memset_erms base v n m)"

text \<open>\<open>a\<close> is one of the \<open>n\<close> bytes from \<open>d\<close> on (addresses wrap).\<close>

abbreviation in_buf :: "u64 \<Rightarrow> nat \<Rightarrow> u64 \<Rightarrow> bool" where
  "in_buf d n a \<equiv> unat (a - d) < n"

lemma unat_pred: "x \<noteq> 0 \<Longrightarrow> unat x = Suc (unat (x - 1 :: u64))"
  using unat_minus_one [of x] by (simp add: unat_gt_0)

lemma in_buf_Suc:
  assumes "n < 2 ^ 64"
  shows "in_buf d (Suc n) a \<longleftrightarrow> a = d \<or> in_buf (d + 1) n a" "\<not> in_buf (d + 1) n d"
proof -
  have "unat (d - (d + 1)) = 2 ^ 64 - 1"
    by (simp add: unsigned_minus_1_eq_mask mask_eq_exp_minus_1)
  with assms show "\<not> in_buf (d + 1) n d" by simp
  show "in_buf d (Suc n) a \<longleftrightarrow> a = d \<or> in_buf (d + 1) n a"
    using unat_pred [of "a - d"] by (cases "a = d") (simp_all add: diff_diff_eq)
qed

lemma rep_stosb_bytes:
  "n \<le> 2 ^ 64 \<Longrightarrow> rep_stosb n d v m a = (if in_buf d n a then v else m a)"
proof (induction n arbitrary: d m)
  case (Suc n)
  then have n: "n < 2 ^ 64" by simp
  show ?case
    by (simp only: rep_stosb.simps Suc.IH [OF less_imp_le [OF n]]) (auto simp: in_buf_Suc [OF n])
qed simp

lemma memset_bytes: "snd (memset base v n m) a = (if in_buf base (unat n) a then v else m a)"
  using unsigned_less [of n, where 'a = nat]
  by (simp add: memset_def memset_erms_def rep_stosb_bytes)

text \<open>A copy between buffers that do not overlap.\<close>

lemma rep_movsb_bytes:
  assumes "n \<le> 2 ^ 64" and "\<And>a. in_buf d n a \<Longrightarrow> \<not> in_buf s n a"
  shows "rep_movsb n d s m a = (if in_buf d n a then m (s + (a - d)) else m a)"
  using assms
proof (induction n arbitrary: d s m)
  case (Suc n)
  then have n: "n < 2 ^ 64" by simp
  have dj: "\<not> in_buf (s + 1) n a" if "in_buf (d + 1) n a" for a
    using Suc.prems(2) [of a] that by (auto simp: in_buf_Suc [OF n])
  have ds: "\<not> in_buf s (Suc n) d"
    using Suc.prems(2) [of d] by simp
  have off: "s + 1 + (a - (d + 1)) = s + (a - d)"
    by simp
  have "s + (a - d) \<noteq> d" if "in_buf d (Suc n) a"
  proof
    assume "s + (a - d) = d"
    then have "d - s = a - d" by (simp add: algebra_simps)
    with that ds show False by simp
  qed
  then show ?case
    by (simp only: rep_movsb.simps Suc.IH [OF less_imp_le [OF n] dj] off) (auto simp: in_buf_Suc [OF n])
qed simp

lemma memcpy_s_bytes:
  assumes "\<And>a. in_buf d (unat n) a \<Longrightarrow> \<not> in_buf s (unat n) a"
  shows "snd (memcpy_s d n s n m) a = (if in_buf d (unat n) a then m (s + (a - d)) else m a)"
proof (cases "n = 0")
  case False
  have "unat n < 2 ^ 64"
    using unsigned_less [of n, where 'a = nat] by simp
  then show ?thesis
    using False rep_movsb_bytes [OF _ assms] by (auto simp: memcpy_s_def memcpy_erms_def)
qed (simp add: memcpy_s_def)

subsection \<open>Strings\<close>

function strnlen_loop :: "bytes \<Rightarrow> u64 \<Rightarrow> u64 \<Rightarrow> u64 \<Rightarrow> u64" where
  "strnlen_loop m str count maxlen =
     (if m str \<noteq> 0 then
        if maxlen = 0 then count else strnlen_loop m (str + 1) (count + 1) (maxlen - 1)
      else count)"
  by pat_completeness auto
termination
  by (relation "measure (\<lambda>(_, _, _, maxlen). unat maxlen)") (auto simp: unat_minus_one unat_gt_0)

definition strnlen_s :: "bytes \<Rightarrow> u64 \<Rightarrow> u64 \<Rightarrow> u64" where
  "strnlen_s m str_arg maxlen_arg = strnlen_loop m str_arg 0 maxlen_arg"

function strncmp_loop :: "bytes \<Rightarrow> u64 \<Rightarrow> u64 \<Rightarrow> u64 \<Rightarrow> u64 \<times> u64" where
  "strncmp_loop m str1 str2 n =
     (if n - 1 \<noteq> 0 \<and> m str1 \<noteq> 0 \<and> m str2 \<noteq> 0 \<and> m str1 = m str2
      then strncmp_loop m (str1 + 1) (str2 + 1) (n - 1) else (str1, str2))"
  by pat_completeness auto
termination
  by (relation "measure (\<lambda>(_, _, _, n). unat (n - 1))") (simp_all add: unat_pred del: diff_diff_eq diff_diff_add)

definition strncmp :: "bytes \<Rightarrow> u64 \<Rightarrow> u64 \<Rightarrow> u64 \<Rightarrow> int" where
  "strncmp m s1_arg s2_arg n_arg =
     (let (str1, str2) = strncmp_loop m s1_arg s2_arg n_arg in sint (m str1) - sint (m str2))"

declare strnlen_loop.simps [simp del] strncmp_loop.simps [simp del]

text \<open>The string of at most \<open>n\<close> characters at an address, the reference both functions are compared with.\<close>

fun string_at :: "bytes \<Rightarrow> u64 \<Rightarrow> nat \<Rightarrow> u8 list" where
  "string_at m p 0 = []"
| "string_at m p (Suc n) = (if m p = 0 then [] else m p # string_at m (p + 1) n)"

lemma string_at_numeral [simp]:
  "string_at m p (numeral k) = (if m p = 0 then [] else m p # string_at m (p + 1) (pred_numeral k))"
  by (simp add: numeral_eq_Suc)

lemma strnlen_loop_string:
  "strnlen_loop m str count maxlen = count + of_nat (length (string_at m str (unat maxlen)))"
proof (induction m str count maxlen rule: strnlen_loop.induct)
  case (1 m str count maxlen)
  show ?case
  proof (cases "maxlen = 0")
    case True
    then show ?thesis by (subst strnlen_loop.simps) simp
  next
    case False
    note unat_pred [OF this]
    then show ?thesis
      using 1 False by (subst strnlen_loop.simps) (simp add: add.assoc)
  qed
qed

lemma strncmp_loop_string:
  assumes "strncmp_loop m s1 s2 n = (t1, t2)"
  shows "m t1 = m t2 \<longleftrightarrow> string_at m s1 (Suc (unat (n - 1))) = string_at m s2 (Suc (unat (n - 1)))"
  using assms
proof (induction m s1 s2 n rule: strncmp_loop.induct)
  case (1 m s1 s2 n)
  show ?case
  proof (cases "n - 1 \<noteq> 0 \<and> m s1 \<noteq> 0 \<and> m s2 \<noteq> 0 \<and> m s1 = m s2")
    case True
    then have "unat (n - 1) = Suc (unat (n - 1 - 1))"
      by (intro unat_pred) simp
    then show ?thesis
      using 1 True by (simp add: strncmp_loop.simps [of m s1 s2 n])
  next
    case False
    then have "t1 = s1" "t2 = s2"
      using 1(2) by (auto simp: strncmp_loop.simps [of m s1 s2 n] split: if_splits)
    with False show ?thesis
      by (auto simp: unat_eq_zero)
  qed
qed

lemma sint_diff_zero: "sint a - sint b = 0 \<longleftrightarrow> a = (b :: u8)"
  by (auto intro: signed_word_eqI)

text \<open>
  C30. The bounded string functions agree with the reference: \<^verbatim>\<open>strnlen_s\<close> returns the length
  of the string of at most \<^verbatim>\<open>maxlen\<close> characters, and \<^verbatim>\<open>strncmp\<close> with a bound other than
  0 returns 0 exactly when the strings of at most \<open>n\<close> characters are equal; both loops end.
\<close>

theorem bounded_strings:
  assumes "n \<noteq> 0"
  shows "strnlen_s m str maxlen = of_nat (length (string_at m str (unat maxlen))) \<and>
    (strncmp m s1 s2 n = 0 \<longleftrightarrow> string_at m s1 (unat n) = string_at m s2 (unat n))"
proof -
  obtain t1 t2 where t: "strncmp_loop m s1 s2 n = (t1, t2)" by force
  have "(strncmp m s1 s2 n = 0) = (string_at m s1 (unat n) = string_at m s2 (unat n))"
    using strncmp_loop_string [OF t] unfolding unat_pred [OF assms]
    by (simp only: strncmp_def t Let_def prod.case sint_diff_zero)
  then show ?thesis
    by (simp add: strnlen_s_def strnlen_loop_string)
qed

theorem bounded_strings_witness:
  "let m = (\<lambda>_. 0)(1 := 97, 2 := 98, 11 := 97, 12 := 99) in
     strnlen_s m 1 5 = 2 \<and> strncmp m 1 11 1 = 0 \<and> strncmp m 1 11 2 \<noteq> 0"
  using bounded_strings [of 1 "(\<lambda>_. 0)(1 := 97, 2 := 98, 11 := 97, 12 := 99)" 1 5 1 11]
    bounded_strings [of 2 "(\<lambda>_. 0)(1 := 97, 2 := 98, 11 := 97, 12 := 99)" 1 5 1 11]
  by (simp add: Let_def)

end
