(* ===== verification/Acrn_Guest_Memory.thy ===== *)
theory Acrn_Guest_Memory
  imports Acrn_Ept Acrn_Lib
begin

text \<open>
  Copying between the hypervisor and a VM: the rest of
  \<^verbatim>\<open>src/hypervisor/arch/x86/guest/guest_memory.c\<close>. The bytes of the memory and the
  AC flag, which \<^verbatim>\<open>stac\<close> and \<^verbatim>\<open>clac\<close> switch, are the state; the paging structures
  are read from the hypervisor state and are not among these bytes.
\<close>

record memst =
  mem_bytes :: bytes
  mem_ac :: bool

definition stac :: "memst \<Rightarrow> memst" where
  "stac m = m\<lparr>mem_ac := True\<rparr>"

definition clac :: "memst \<Rightarrow> memst" where
  "clac m = m\<lparr>mem_ac := False\<rparr>"

definition local_copy_gpa ::
  "u16 \<Rightarrow> u64 \<Rightarrow> u64 \<Rightarrow> u32 \<Rightarrow> u32 \<Rightarrow> bool \<Rightarrow> hv \<Rightarrow> memst \<Rightarrow> u32 \<times> memst" where
  "local_copy_gpa vm h_ptr gpa sz fix_pg_size cp_from_vm h m =
     (let (hpa, pg) = local_gpa2hpa vm gpa h in
      if hpa = INVALID_HPA then (0, m)
      else
        let pg_size = (if fix_pg_size \<noteq> 0 then fix_pg_size else case pg of Some p \<Rightarrow> p | None \<Rightarrow> 0);
            offset_in_pg = ucast gpa AND (pg_size - 1);
            len = (if sz > pg_size - offset_in_pg then pg_size - offset_in_pg else sz);
            g_ptr = hpa2hva hpa;
            m1 = stac m;
            m2 = (if cp_from_vm
                  then m1\<lparr>mem_bytes := snd (memcpy_s h_ptr (ucast len) g_ptr (ucast len) (mem_bytes m1))\<rparr>
                  else m1\<lparr>mem_bytes := snd (memcpy_s g_ptr (ucast len) h_ptr (ucast len) (mem_bytes m1))\<rparr>)
        in (len, clac m2))"

lemma local_copy_len: "fst (local_copy_gpa vm h_ptr gpa sz fix frm h m) \<le> sz"
  by (auto simp: local_copy_gpa_def Let_def split: prod.splits)

text \<open>The loop of \<^verbatim>\<open>copy_gpa\<close>; every round but the last copies at least one byte.\<close>

function copy_gpa :: "u16 \<Rightarrow> u64 \<Rightarrow> u64 \<Rightarrow> u32 \<Rightarrow> bool \<Rightarrow> hv \<Rightarrow> memst \<Rightarrow> i32 \<times> memst" where
  "copy_gpa vm h_ptr gpa sz cp_from_vm h m =
     (if sz > 0 then
        let (len, m1) = local_copy_gpa vm h_ptr gpa sz 0 cp_from_vm h m in
        if len = 0 then (- EINVAL, m1)
        else copy_gpa vm (h_ptr + ucast len) (gpa + ucast len) (sz - len) cp_from_vm h m1
      else (0, m))"
  by pat_completeness auto
termination
proof (relation "measure (\<lambda>(_, _, _, sz, _). unat sz)", simp)
  fix vm h_ptr gpa and sz :: u32 and frm h m p and len :: u32 and m1
  assume p: "p = local_copy_gpa vm h_ptr gpa sz 0 frm h m" "(len, m1) = p" and len: "len \<noteq> 0"
  then have "len \<le> sz"
    using local_copy_len [of vm h_ptr gpa sz 0 frm h m] by (metis fst_conv)
  then show "((vm, h_ptr + ucast len, gpa + ucast len, sz - len, frm, h, m1), vm, h_ptr, gpa, sz, frm, h, m)
      \<in> measure (\<lambda>(_, _, _, sz, _). unat sz)"
    using len unat_eq_zero [of len] by (simp add: unat_diff_small word_nat_order)
qed

declare copy_gpa.simps [simp del]

definition copy_from_gpa :: "u16 \<Rightarrow> u64 \<Rightarrow> u64 \<Rightarrow> u32 \<Rightarrow> hv \<Rightarrow> memst \<Rightarrow> i32 \<times> memst" where
  "copy_from_gpa vm h_ptr gpa sz h m = copy_gpa vm h_ptr gpa sz True h m"

definition copy_to_gpa :: "u16 \<Rightarrow> u64 \<Rightarrow> u64 \<Rightarrow> u32 \<Rightarrow> hv \<Rightarrow> memst \<Rightarrow> memst" where
  "copy_to_gpa vm h_ptr gpa sz h m = snd (copy_gpa vm h_ptr gpa sz False h m)"

subsection \<open>One page\<close>

lemma in_block:
  fixes g :: nat
  assumes "j < b - g mod b"
  shows "(g + j) div b = g div b" "(g + j) mod b = g mod b + j"
proof -
  have x: "g + j = (g mod b + j) + b * (g div b)"
    using mod_mult_div_eq [of g b] by linarith
  have y: "g mod b + j < b" "b \<noteq> 0"
    using assms by linarith+
  show "(g + j) div b = g div b"
    unfolding x div_mult_self2 [OF y(2)] using div_less [OF y(1)] by simp
  show "(g + j) mod b = g mod b + j"
    unfolding x mod_mult_self2 using mod_less [OF y(1)] .
qed

text \<open>A mapped address, the size of its page, and the addresses of the rest of the page.\<close>

lemma local_gpa2hpa_page:
  assumes wf: "ept_wf pages f4k lim vm h" and g: "g < lim" and m: "ept_map f4k vm h g = Some (a, r)"
  obtains k where "local_gpa2hpa vm (of_nat g) h = (of_nat a, Some (2 ^ k))" "k \<le> 30" "a < 2 ^ 52"
    "\<And>j. j < 2 ^ k - g mod 2 ^ k \<Longrightarrow> ept_map f4k vm h (g + j) = Some (a + j, r)"
proof (cases rule: ept_lookup [OF wf g])
  case 1
  with m show thesis by simp
next
  case (2 p l)
  let ?k = "level_shift l" and ?e = "pg_mem (hv_pg h) p"
  have g64: "g < 2 ^ 64"
    using g ept_lim [OF wf] by simp
  have k: "?k \<le> 30" using 2(2) by (cases l) simp_all
  then have "?k \<le> 39" by simp
  note he = hpa_of_entry [OF 2(3) this g64]
  have a: "a = unat (?e AND (mask 39 AND NOT (mask ?k))) + g mod 2 ^ ?k" "r = ?e AND ept_rmask f4k"
    using m 2(4) [OF refl] by (simp_all add: leaf_def)
  have "ucast (of_nat (2 ^ ?k) :: u64) = (2 ^ ?k :: u32)"
    using 2(2) by (cases l) simp_all
  then have "local_gpa2hpa vm (of_nat g) h = (of_nat a, Some (2 ^ ?k))"
    using invalid_hpa_nat [OF he(2)] unfolding local_gpa2hpa_def Let_def 2(1) option.case prod.case he(1) a(1)
    by simp
  moreover have "ept_map f4k vm h (g + j) = Some (a + j, r)" if j: "j < 2 ^ ?k - g mod 2 ^ ?k" for j
  proof -
    have "(g + j) div 2 ^ ?k = g div 2 ^ ?k" "(g + j) mod 2 ^ ?k = g mod 2 ^ ?k + j"
      using in_block [OF j] by simp_all
    then show ?thesis
      using 2(4) [of "g + j"] by (simp add: leaf_def a)
  qed
  moreover have "a < 2 ^ 52"
    using he(2) a(1) by simp
  ultimately show thesis
    using that k by blast
qed


lemma copy_offset:
  assumes k: "k \<le> 30" and g: "g < 2 ^ 64"
  shows "(2 ^ k :: u32) - (ucast (of_nat g :: u64) AND (2 ^ k - 1)) = of_nat (2 ^ k - g mod 2 ^ k)"
proof -
  have "ucast (of_nat g :: u64) AND (2 ^ k - 1) = (of_nat g AND mask k :: u32)"
    by (rule bit_eqI) (auto simp: bit_simps mask_eq_exp_minus_1 [symmetric])
  also have "\<dots> = of_nat (g mod 2 ^ k)"
  proof -
    have "(2 :: nat) ^ k dvd 2 ^ 32"
      using k by (intro le_imp_power_dvd) simp
    then have "g mod 2 ^ 32 mod 2 ^ k = g mod 2 ^ k"
      by (rule mod_mod_cancel)
    moreover have "g mod 2 ^ k < 2 ^ 30"
      using k by (intro less_le_trans [OF mod_less_divisor] power_increasing) simp_all
    ultimately have "g mod 2 ^ 32 mod 2 ^ k = g mod 2 ^ k" "g mod 2 ^ k < 2 ^ 32"
      by simp_all
    then show ?thesis
      by (simp only: word_nat_eq unat_and_mask unat_of_nat) simp
  qed
  finally show ?thesis
    using of_nat_diff [of "g mod 2 ^ k" "2 ^ k", where 'a = u32] by simp
qed

lemma local_copy_chunk:
  assumes wf: "ept_wf pages f4k lim vm h" and g: "g < lim" and e: "ept_map f4k vm h g = Some (a, r)" and sz: "sz \<noteq> 0"
  obtains len where "len \<noteq> 0" "unat len \<le> unat sz"
    "\<And>j. j < unat len \<Longrightarrow> ept_map f4k vm h (g + j) = Some (a + j, r)"
    "local_copy_gpa vm p (of_nat g) sz 0 frm h m =
       (len, \<lparr>mem_bytes = snd (memcpy_s (if frm then p else of_nat a) (ucast len) (if frm then of_nat a else p)
                (ucast len) (mem_bytes m)), mem_ac = False\<rparr>)"
proof -
  obtain k where k: "local_gpa2hpa vm (of_nat g) h = (of_nat a, Some (2 ^ k))" "k \<le> 30" "a < 2 ^ 52"
      "\<And>j. j < 2 ^ k - g mod 2 ^ k \<Longrightarrow> ept_map f4k vm h (g + j) = Some (a + j, r)"
    by (rule local_gpa2hpa_page [OF wf g e]) (rule that)
  have g64: "g < 2 ^ 64"
    using g ept_lim [OF wf] by simp
  let ?rest = "2 ^ k - g mod 2 ^ k :: nat"
  have "(2 :: nat) ^ k \<le> 2 ^ 30"
    using k(2) by (rule power_increasing) simp
  then have "?rest < 2 ^ LENGTH(32)"
    by simp
  then have rest: "unat (of_nat ?rest :: u32) = ?rest" "0 < ?rest"
    by (rule unat_of_nat_small) simp
  define len where "len = (if sz > of_nat ?rest then of_nat ?rest else sz)"
  have "len \<noteq> 0" "unat len \<le> unat sz" "unat len \<le> ?rest"
    using rest sz by (auto simp: len_def word_nat_order word_nat_eq)
  moreover have "local_copy_gpa vm p (of_nat g) sz 0 frm h m =
       (len, \<lparr>mem_bytes = snd (memcpy_s (if frm then p else of_nat a) (ucast len) (if frm then of_nat a else p)
                (ucast len) (mem_bytes m)), mem_ac = False\<rparr>)"
    unfolding local_copy_gpa_def k(1) Let_def prod.case
    using invalid_hpa_nat [OF k(3)]
    by (cases m) (simp add: copy_offset [OF k(2) g64] len_def stac_def clac_def hpa2hva_def del: of_nat_diff)
  ultimately show thesis
    using that k(4) by (meson less_le_trans)
qed


lemma split_below:
  fixes U V :: nat
  assumes "V = (if l \<le> U then U - l else U + N - l)" "l \<le> n" "n < N"
  shows "U < n \<longleftrightarrow> U < l \<or> V < n - l" "V < n - l \<Longrightarrow> U = l + V"
  using assms by (auto split: if_splits)

lemma in_buf_split:
  assumes "l \<le> n" "n < 2 ^ 64"
  shows "in_buf p n x \<longleftrightarrow> in_buf p l x \<or> in_buf (p + of_nat l) (n - l) x"
    "in_buf (p + of_nat l) (n - l) x \<Longrightarrow> unat (x - p) = l + unat (x - (p + of_nat l))"
proof -
  have "unat (of_nat l :: u64) = l"
    using assms by (simp add: unat_of_nat_small)
  then have "unat (x - (p + of_nat l)) = (if l \<le> unat (x - p) then unat (x - p) - l else unat (x - p) + 2 ^ 64 - l)"
    using unat_sub_if_size [of "x - p" "of_nat l"] by (simp only: diff_diff_eq word_size word_nat_order) simp
  note n = split_below [OF this assms]
  show "in_buf p n x \<longleftrightarrow> in_buf p l x \<or> in_buf (p + of_nat l) (n - l) x"
    "in_buf (p + of_nat l) (n - l) x \<Longrightarrow> unat (x - p) = l + unat (x - (p + of_nat l))"
    by (rule n)+
qed

lemma in_buf_offset: "in_buf (of_nat a) n x \<Longrightarrow> \<exists>j<n. x = of_nat (a + j)"
  by (rule exI [of _ "unat (x - of_nat a)"]) simp

lemma unat_ucast_len: "unat (ucast (len :: u32) :: u64) = unat len"
  by (simp add: unat_ucast_up)

lemma copy_gpa_stop:
  assumes wf: "ept_wf pages f4k lim vm h" and g: "g < lim" and e: "ept_map f4k vm h g = None" and sz: "sz \<noteq> 0"
  shows "copy_gpa vm p (of_nat g) sz frm h m = (- EINVAL, m)"
proof -
  have "fst (local_gpa2hpa vm (of_nat g) h) = INVALID_HPA"
    using gpa2hpa_map [OF wf g] e by (simp add: gpa2hpa_def)
  then have "local_copy_gpa vm p (of_nat g) sz 0 frm h m = (0, m)"
    by (cases "local_gpa2hpa vm (of_nat g) h") (simp add: local_copy_gpa_def)
  then show ?thesis
    using sz by (subst copy_gpa.simps) (simp add: word_gt_0)
qed

subsection \<open>Reading guest memory\<close>

lemma copy_from_bytes:
  assumes wf: "ept_wf pages f4k lim vm h" and k: "k \<le> unat sz" "g + k \<le> lim"
    and e: "\<And>j. j < k \<Longrightarrow> \<exists>r. ept_map f4k vm h (g + j) = Some (A (g + j), r)"
    and stop: "k = unat sz \<or> g + k < lim \<and> ept_map f4k vm h (g + k) = None"
    and dj: "\<And>j. j < k \<Longrightarrow> \<not> in_buf p (unat sz) (of_nat (A (g + j)))"
  shows "\<exists>m'. copy_gpa vm p (of_nat g) sz True h m = (if k = unat sz then 0 else - EINVAL, m') \<and>
    (\<forall>a. mem_bytes m' a = (if in_buf p k a then mem_bytes m (of_nat (A (g + unat (a - p)))) else mem_bytes m a))"
  using k e stop dj
proof (induction "unat sz" arbitrary: sz g p k m rule: less_induct)
  case less
  note k = less.prems(1,2) and e = less.prems(3) and stop = less.prems(4) and dj = less.prems(5)
  have sz32: "unat sz < 2 ^ 64"
    using unat_u32_bound [of sz] by simp
  consider "sz = 0" | "sz \<noteq> 0" "k = 0" | "sz \<noteq> 0" "k \<noteq> 0" by blast
  then show ?case
  proof cases
    case 1
    then show ?thesis
      using k by (subst copy_gpa.simps) simp
  next
    case 2
    then have "g < lim" "ept_map f4k vm h g = None"
      using stop unat_eq_zero [of sz] by auto
    then show ?thesis
      using copy_gpa_stop [OF wf] 2 unat_eq_zero [of sz] by auto
  next
    case 3
    then have g: "g < lim" using k by simp
    obtain r where g0: "ept_map f4k vm h g = Some (A g, r)"
      using e [of 0] 3 by auto
    obtain len where len: "len \<noteq> 0" "unat len \<le> unat sz"
        "\<And>j. j < unat len \<Longrightarrow> ept_map f4k vm h (g + j) = Some (A g + j, r)"
        "local_copy_gpa vm p (of_nat g) sz 0 True h m =
          (len, \<lparr>mem_bytes = snd (memcpy_s p (ucast len) (of_nat (A g)) (ucast len) (mem_bytes m)), mem_ac = False\<rparr>)"
      by (rule local_copy_chunk [OF wf g g0 3(1), where p = p and frm = True and m = m]) (rule that; simp)
    let ?l = "unat len"
    define m1 where "m1 = snd (memcpy_s p (ucast len) (of_nat (A g)) (ucast len) (mem_bytes m))"
    have lk: "?l \<le> k"
      using stop len(2) len(3) [of k] by (cases "k < unat len") auto
    have l0: "0 < ?l"
      using len(1) unat_eq_zero [of len] by simp
    have A: "A (g + j) = A g + j" if "j < ?l" for j
      using e [of j] len(3) [OF that] that lk by auto
    have "k < 2 ^ 64"
      using k(1) sz32 by simp
    note sp1 = in_buf_split [OF len(2) sz32, where p = p] and sp2 = in_buf_split [OF lk this, where p = p]
    have m1: "m1 a = (if in_buf p ?l a then mem_bytes m (of_nat (A (g + unat (a - p)))) else mem_bytes m a)" for a
    proof -
      have "\<not> in_buf (of_nat (A g)) ?l x" if x: "in_buf p ?l x" for x
      proof
        assume "in_buf (of_nat (A g)) ?l x"
        then obtain j where "j < ?l" "x = of_nat (A g + j)"
          using in_buf_offset by blast
        with dj [of j] A [of j] lk have "\<not> in_buf p (unat sz) x" by simp
        with x len(2) show False by linarith
      qed
      then have "m1 a = (if in_buf p ?l a then mem_bytes m (of_nat (A g) + (a - p)) else mem_bytes m a)"
        using memcpy_s_bytes [of p "ucast len" "of_nat (A g)" "mem_bytes m" a] by (simp add: m1_def unat_ucast_len)
      then show ?thesis
        using A [of "unat (a - p)"] by simp
    qed
    have u: "unat (sz - len) = unat sz - ?l"
      using len(2) by (simp add: unat_diff_small word_nat_order)
    let ?m1 = "\<lparr>mem_bytes = m1, mem_ac = False\<rparr>"
    have "\<exists>m'. copy_gpa vm (p + of_nat ?l) (of_nat (g + ?l)) (sz - len) True h ?m1 =
          (if k - ?l = unat (sz - len) then 0 else - EINVAL, m') \<and>
        (\<forall>a. mem_bytes m' a = (if in_buf (p + of_nat ?l) (k - ?l) a
           then mem_bytes ?m1 (of_nat (A (g + ?l + unat (a - (p + of_nat ?l))))) else mem_bytes ?m1 a))"
    proof (rule less.hyps)
      show "unat (sz - len) < unat sz" "k - ?l \<le> unat (sz - len)" "g + ?l + (k - ?l) \<le> lim"
        using u l0 len(2) k lk by simp_all
      show "\<exists>r. ept_map f4k vm h (g + ?l + j) = Some (A (g + ?l + j), r)" if "j < k - ?l" for j
        using e [of "?l + j"] that by (simp add: add.assoc)
      show "k - ?l = unat (sz - len) \<or> g + ?l + (k - ?l) < lim \<and> ept_map f4k vm h (g + ?l + (k - ?l)) = None"
        using stop u lk by auto
      show "\<not> in_buf (p + of_nat ?l) (unat (sz - len)) (of_nat (A (g + ?l + j)))" if "j < k - ?l" for j
        using dj [of "?l + j"] that sp1(1) by (simp add: u add.assoc)
    qed
    then obtain m' where m': "copy_gpa vm (p + of_nat ?l) (of_nat (g + ?l)) (sz - len) True h ?m1 =
          (if k - ?l = unat (sz - len) then 0 else - EINVAL, m')"
        "\<And>a. mem_bytes m' a = (if in_buf (p + of_nat ?l) (k - ?l) a
           then m1 (of_nat (A (g + ?l + unat (a - (p + of_nat ?l))))) else m1 a)"
      by auto
    have "copy_gpa vm p (of_nat g) sz True h m = (if k = unat sz then 0 else - EINVAL, m')"
      using m'(1) 3(1) len(1,2,4) lk k(1) u
      by (subst copy_gpa.simps) (auto simp: word_gt_0 m1_def)
    moreover have "mem_bytes m' a = (if in_buf p k a then mem_bytes m (of_nat (A (g + unat (a - p)))) else mem_bytes m a)" for a
    proof (cases "in_buf (p + of_nat ?l) (k - ?l) a")
      case True
      have x: "unat (a - p) = ?l + unat (a - (p + of_nat ?l))" "in_buf p k a"
        using sp2 True by auto
      then have "\<not> in_buf p ?l (of_nat (A (g + unat (a - p))))"
        using dj [of "unat (a - p)"] len(2) by linarith
      then show ?thesis
        using True x by (simp add: m'(2) m1 add.assoc)
    next
      case False
      then show ?thesis
        using sp2(1) [of a] by (simp add: m'(2) m1)
    qed
    ultimately show ?thesis by blast
  qed
qed


subsection \<open>Writing guest memory\<close>

lemma copy_to_bytes:
  assumes wf: "ept_wf pages f4k lim vm h" and bound: "g + unat sz \<le> lim"
    and e: "\<And>j. j < unat sz \<Longrightarrow> \<exists>r. ept_map f4k vm h (g + j) = Some (A (g + j), r)"
    and dj: "\<And>j. j < unat sz \<Longrightarrow> \<not> in_buf p (unat sz) (of_nat (A (g + j)))"
    and inj: "\<And>i j. i < unat sz \<Longrightarrow> j < unat sz \<Longrightarrow> i \<noteq> j \<Longrightarrow> (of_nat (A (g + i)) :: u64) \<noteq> of_nat (A (g + j))"
  shows "\<exists>m'. copy_gpa vm p (of_nat g) sz False h m = (0, m') \<and>
    (\<forall>j<unat sz. mem_bytes m' (of_nat (A (g + j))) = mem_bytes m (p + of_nat j)) \<and>
    (\<forall>a. (\<forall>j<unat sz. a \<noteq> of_nat (A (g + j))) \<longrightarrow> mem_bytes m' a = mem_bytes m a)"
  using bound e dj inj
proof (induction "unat sz" arbitrary: sz g p m rule: less_induct)
  case less
  note bound = less.prems(1) and e = less.prems(2) and dj = less.prems(3) and inj = less.prems(4)
  have sz32: "unat sz < 2 ^ 32"
    using unat_u32_bound [of sz] by simp
  then have sz64: "unat sz < 2 ^ 64" by simp
  show ?case
  proof (cases "sz = 0")
    case True
    then show ?thesis
      by (subst copy_gpa.simps) simp
  next
    case False
    then have sz0: "0 < unat sz"
      using unat_eq_zero [of sz] by simp
    then have g: "g < lim" using bound by simp
    obtain r where g0: "ept_map f4k vm h g = Some (A g, r)"
      using e [of 0] sz0 by auto
    obtain len where len: "len \<noteq> 0" "unat len \<le> unat sz"
        "\<And>j. j < unat len \<Longrightarrow> ept_map f4k vm h (g + j) = Some (A g + j, r)"
        "local_copy_gpa vm p (of_nat g) sz 0 False h m =
          (len, \<lparr>mem_bytes = snd (memcpy_s (of_nat (A g)) (ucast len) p (ucast len) (mem_bytes m)), mem_ac = False\<rparr>)"
      by (rule local_copy_chunk [OF wf g g0 False, where p = p and frm = False and m = m]) (rule that; simp)
    let ?l = "unat len" and ?F = "\<lambda>j. of_nat (A (g + j)) :: u64"
    define m1 where "m1 = snd (memcpy_s (of_nat (A g)) (ucast len) p (ucast len) (mem_bytes m))"
    have l0: "0 < ?l"
      using len(1) unat_eq_zero [of len] by simp
    have A: "?F j = of_nat (A g) + of_nat j" if "j < ?l" for j
    proof -
      have "A (g + j) = A g + j"
        using e [of j] len(2) len(3) [OF that] that by auto
      then show ?thesis by simp
    qed
    have frame: "\<exists>j<?l. x = ?F j" if "in_buf (of_nat (A g)) ?l x" for x
      using A [OF that] that by (intro exI [of _ "unat (x - of_nat (A g))"]) simp
    have src: "\<not> in_buf (of_nat (A g)) ?l (p + of_nat j)" if "j < unat sz" for j
    proof
      assume "in_buf (of_nat (A g)) ?l (p + of_nat j)"
      then obtain i where i: "i < ?l" "p + of_nat j = ?F i"
        using frame by blast
      have "unat (p + of_nat j - p) = j"
        using that sz64 by (simp add: unat_of_nat_small)
      then have "in_buf p (unat sz) (?F i)"
        unfolding i(2) [symmetric] using that by simp
      with dj [of i] i(1) len(2) show False by simp
    qed
    have m1: "m1 a = (if in_buf (of_nat (A g)) ?l a then mem_bytes m (p + (a - of_nat (A g))) else mem_bytes m a)" for a
    proof -
      have "\<not> in_buf p ?l x" if "in_buf (of_nat (A g)) ?l x" for x
        using frame [OF that] dj len(2) by (metis less_le_trans)
      then show ?thesis
        using memcpy_s_bytes [of "of_nat (A g)" "ucast len" p "mem_bytes m" a] by (simp add: m1_def unat_ucast_len)
    qed
    have m1F: "m1 (?F j) = mem_bytes m (p + of_nat j)" if "j < ?l" for j
    proof -
      have "j < 2 ^ 64" using that len(2) sz64 by linarith
      then have "unat (of_nat j :: u64) = j" by (simp add: unat_of_nat_small)
      then show ?thesis
        using that by (simp add: m1 A)
    qed
    have u: "unat (sz - len) = unat sz - ?l"
      using len(2) by (simp add: unat_diff_small word_nat_order)
    let ?m1 = "\<lparr>mem_bytes = m1, mem_ac = False\<rparr>"
    have "\<exists>m'. copy_gpa vm (p + of_nat ?l) (of_nat (g + ?l)) (sz - len) False h ?m1 = (0, m') \<and>
      (\<forall>j<unat (sz - len). mem_bytes m' (of_nat (A (g + ?l + j))) = mem_bytes ?m1 (p + of_nat ?l + of_nat j)) \<and>
      (\<forall>a. (\<forall>j<unat (sz - len). a \<noteq> of_nat (A (g + ?l + j))) \<longrightarrow> mem_bytes m' a = mem_bytes ?m1 a)"
    proof (rule less.hyps)
      show "unat (sz - len) < unat sz" "g + ?l + unat (sz - len) \<le> lim"
        using u l0 len(2) bound by simp_all
      show "\<exists>r. ept_map f4k vm h (g + ?l + j) = Some (A (g + ?l + j), r)" if "j < unat (sz - len)" for j
        using e [of "?l + j"] that u by (simp add: add.assoc)
      show "\<not> in_buf (p + of_nat ?l) (unat (sz - len)) (of_nat (A (g + ?l + j)))" if "j < unat (sz - len)" for j
        using dj [of "?l + j"] that in_buf_split(1) [OF len(2) sz64, where p = p] by (simp add: u add.assoc)
      show "of_nat (A (g + ?l + i)) \<noteq> (of_nat (A (g + ?l + j)) :: u64)"
        if "i < unat (sz - len)" "j < unat (sz - len)" "i \<noteq> j" for i j
        using inj [of "?l + i" "?l + j"] that u by (simp add: add.assoc)
    qed
    then obtain m' where m': "copy_gpa vm (p + of_nat ?l) (of_nat (g + ?l)) (sz - len) False h ?m1 = (0, m')"
        "\<And>j. j < unat sz - ?l \<Longrightarrow> mem_bytes m' (?F (?l + j)) = m1 (p + of_nat (?l + j))"
        "\<And>a. (\<And>j. j < unat sz - ?l \<Longrightarrow> a \<noteq> ?F (?l + j)) \<Longrightarrow> mem_bytes m' a = m1 a"
      unfolding u by (auto simp: add.assoc)
    have "copy_gpa vm p (of_nat g) sz False h m = (0, m')"
      using m'(1) False len(1,4) by (subst copy_gpa.simps) (auto simp: word_gt_0 m1_def)
    moreover have "mem_bytes m' (?F j) = mem_bytes m (p + of_nat j)" if j: "j < unat sz" for j
    proof (cases "j < ?l")
      case True
      have "mem_bytes m' (?F j) = m1 (?F j)"
        by (rule m'(3), rule inj) (use True j in auto)
      then show ?thesis
        using m1F [OF True] by simp
    next
      case False
      then show ?thesis
        using m'(2) [of "j - ?l"] src [OF j] j by (simp add: m1)
    qed
    moreover have "mem_bytes m' a = mem_bytes m a" if a: "\<forall>j<unat sz. a \<noteq> ?F j" for a
    proof -
      have "mem_bytes m' a = m1 a"
        by (rule m'(3)) (use a in auto)
      moreover have "\<not> in_buf (of_nat (A g)) ?l a"
        using frame [of a] a len(2) less_le_trans by blast
      ultimately show ?thesis by (simp add: m1)
    qed
    ultimately show ?thesis by blast
  qed
qed


subsection \<open>Properties\<close>

lemma gpa2hpa_valid:
  assumes wf: "ept_wf pages f4k lim vm h" and x: "x < lim"
  shows "gpa2hpa vm (of_nat x) h \<noteq> INVALID_HPA \<Longrightarrow>
      \<exists>r. ept_map f4k vm h x = Some (fst (the (ept_map f4k vm h x)), r) \<and>
        of_nat (fst (the (ept_map f4k vm h x))) = gpa2hpa vm (of_nat x) h"
    "gpa2hpa vm (of_nat x) h = INVALID_HPA \<Longrightarrow> ept_map f4k vm h x = None"
  using gpa2hpa_map [OF wf x] map_free [OF wf x]
  by (cases "ept_map f4k vm h x"; simp split: prod.splits)+

text \<open>
  C29. Reading guest memory copies up to the first address that is not mapped: with the first \<open>k\<close>
  guest addresses mapped and the next one not (or \<open>k\<close> the whole size), \<^verbatim>\<open>copy_from_gpa\<close>
  ends, returns 0 exactly when everything was mapped and \<^verbatim>\<open>-EINVAL\<close> otherwise, byte \<open>j < k\<close>
  of the buffer is the byte at the host address of guest address \<open>g + j\<close>, also across page
  boundaries and large pages, and no other byte of the memory changes.
\<close>

theorem copy_from_gpa_reads:
  fixes sz :: u32
  assumes wf: "ept_wf pages f4k lim vm h" and k: "k \<le> unat sz" "g + unat sz \<le> lim"
    and mapped: "\<And>j. j < k \<Longrightarrow> gpa2hpa vm (of_nat (g + j)) h \<noteq> INVALID_HPA"
    and stop: "k = unat sz \<or> gpa2hpa vm (of_nat (g + k)) h = INVALID_HPA"
    and dj: "\<And>j. j < k \<Longrightarrow> \<not> in_buf p (unat sz) (gpa2hpa vm (of_nat (g + j)) h)"
  shows "\<exists>m'. copy_from_gpa vm p (of_nat g) sz h m = (if k = unat sz then 0 else - EINVAL, m') \<and>
    (\<forall>a. mem_bytes m' a =
      (if in_buf p k a then mem_bytes m (gpa2hpa vm (of_nat (g + unat (a - p))) h) else mem_bytes m a))"
proof -
  define A where "A x = fst (the (ept_map f4k vm h x))" for x
  have v: "\<exists>r. ept_map f4k vm h (g + j) = Some (A (g + j), r)" "of_nat (A (g + j)) = gpa2hpa vm (of_nat (g + j)) h"
    if "j < k" for j
  proof -
    have "g + j < lim" using that k by linarith
    from gpa2hpa_valid(1) [OF wf this mapped [OF that]]
    show "\<exists>r. ept_map f4k vm h (g + j) = Some (A (g + j), r)" "of_nat (A (g + j)) = gpa2hpa vm (of_nat (g + j)) h"
      unfolding A_def by blast+
  qed
  have s: "k = unat sz \<or> g + k < lim \<and> ept_map f4k vm h (g + k) = None"
  proof (cases "k = unat sz")
    case False
    then have "g + k < lim" using k by simp
    with False show ?thesis
      using gpa2hpa_valid(2) [OF wf, of "g + k"] stop by blast
  qed simp
  have "\<exists>m'. copy_gpa vm p (of_nat g) sz True h m = (if k = unat sz then 0 else - EINVAL, m') \<and>
    (\<forall>a. mem_bytes m' a = (if in_buf p k a then mem_bytes m (of_nat (A (g + unat (a - p)))) else mem_bytes m a))"
  proof (rule copy_from_bytes [OF wf k(1) _ v(1) s])
    show "g + k \<le> lim" using k by linarith
    show "\<not> in_buf p (unat sz) (of_nat (A (g + j)))" if "j < k" for j
      unfolding v(2) [OF that] by (rule dj [OF that])
  qed
  then obtain m' where m': "copy_gpa vm p (of_nat g) sz True h m = (if k = unat sz then 0 else - EINVAL, m')"
    "\<And>a. mem_bytes m' a = (if in_buf p k a then mem_bytes m (of_nat (A (g + unat (a - p)))) else mem_bytes m a)"
    by blast
  have "mem_bytes m' a = (if in_buf p k a then mem_bytes m (gpa2hpa vm (of_nat (g + unat (a - p))) h) else mem_bytes m a)" for a
    using m'(2) [of a] v(2) [of "unat (a - p)"] by (simp del: of_nat_add)
  with m'(1) show ?thesis
    unfolding copy_from_gpa_def by blast
qed

text \<open>
  C28. What the hypervisor writes to guest memory it reads back: when the guest addresses are
  mapped to host addresses that differ from each other and from both buffers,
  \<^verbatim>\<open>copy_to_gpa\<close> followed by \<^verbatim>\<open>copy_from_gpa\<close> succeeds and fills the second buffer
  with the bytes of the first; the write changes no memory but that of the guest range.
\<close>

theorem copy_roundtrip:
  fixes sz :: u32 and m :: memst
  assumes wf: "ept_wf pages f4k lim vm h" and bound: "g + unat sz \<le> lim"
    and mapped: "\<And>j. j < unat sz \<Longrightarrow> gpa2hpa vm (of_nat (g + j)) h \<noteq> INVALID_HPA"
    and inj: "\<And>i j. i < unat sz \<Longrightarrow> j < unat sz \<Longrightarrow> i \<noteq> j \<Longrightarrow>
        gpa2hpa vm (of_nat (g + i)) h \<noteq> gpa2hpa vm (of_nat (g + j)) h"
    and p: "\<And>j. j < unat sz \<Longrightarrow> \<not> in_buf p (unat sz) (gpa2hpa vm (of_nat (g + j)) h)"
    and q: "\<And>j. j < unat sz \<Longrightarrow> \<not> in_buf q (unat sz) (gpa2hpa vm (of_nat (g + j)) h)"
  defines "m1 \<equiv> copy_to_gpa vm p (of_nat g) sz h m"
  shows "\<exists>m2. copy_from_gpa vm q (of_nat g) sz h m1 = (0, m2) \<and>
    (\<forall>j<unat sz. mem_bytes m2 (q + of_nat j) = mem_bytes m (p + of_nat j)) \<and>
    (\<forall>a. (\<forall>j<unat sz. a \<noteq> gpa2hpa vm (of_nat (g + j)) h) \<longrightarrow> mem_bytes m1 a = mem_bytes m a)"
proof -
  define A where "A x = fst (the (ept_map f4k vm h x))" for x
  have v: "\<exists>r. ept_map f4k vm h (g + j) = Some (A (g + j), r)" "of_nat (A (g + j)) = gpa2hpa vm (of_nat (g + j)) h"
    if "j < unat sz" for j
  proof -
    have "g + j < lim" using that bound by linarith
    from gpa2hpa_valid(1) [OF wf this mapped [OF that]]
    show "\<exists>r. ept_map f4k vm h (g + j) = Some (A (g + j), r)" "of_nat (A (g + j)) = gpa2hpa vm (of_nat (g + j)) h"
      unfolding A_def by blast+
  qed
  have "\<exists>m'. copy_gpa vm p (of_nat g) sz False h m = (0, m') \<and>
    (\<forall>j<unat sz. mem_bytes m' (of_nat (A (g + j))) = mem_bytes m (p + of_nat j)) \<and>
    (\<forall>a. (\<forall>j<unat sz. a \<noteq> of_nat (A (g + j))) \<longrightarrow> mem_bytes m' a = mem_bytes m a)"
    by (rule copy_to_bytes [OF wf bound v(1)]) (use p inj in \<open>simp_all only: v(2) not_False_eq_True\<close>)
  then have to: "\<And>j. j < unat sz \<Longrightarrow> mem_bytes m1 (of_nat (A (g + j))) = mem_bytes m (p + of_nat j)"
      "\<And>a. \<forall>j<unat sz. a \<noteq> of_nat (A (g + j)) \<Longrightarrow> mem_bytes m1 a = mem_bytes m a"
    by (auto simp: m1_def copy_to_gpa_def)
  have "\<exists>m2. copy_gpa vm q (of_nat g) sz True h m1 = (if unat sz = unat sz then 0 else - EINVAL, m2) \<and>
    (\<forall>a. mem_bytes m2 a = (if in_buf q (unat sz) a then mem_bytes m1 (of_nat (A (g + unat (a - q)))) else mem_bytes m1 a))"
    by (rule copy_from_bytes [OF wf order_refl bound v(1) disjI1 [OF refl]]) (use q in \<open>simp_all only: v(2) not_False_eq_True\<close>)
  then obtain m2 where m2: "copy_gpa vm q (of_nat g) sz True h m1 = (0, m2)"
    "\<And>a. in_buf q (unat sz) a \<Longrightarrow> mem_bytes m2 a = mem_bytes m1 (of_nat (A (g + unat (a - q))))"
    by auto
  have "mem_bytes m2 (q + of_nat j) = mem_bytes m (p + of_nat j)" if j: "j < unat sz" for j
  proof -
    have "unat (q + of_nat j - q) = j"
      using j unat_u32_bound [of sz] by (simp add: unat_of_nat_small)
    with m2(2) [of "q + of_nat j"] to(1) [OF j] j show ?thesis by simp
  qed
  moreover have "mem_bytes m1 a = mem_bytes m a" if "\<forall>j<unat sz. a \<noteq> gpa2hpa vm (of_nat (g + j)) h" for a
  proof (rule to(2), intro allI impI)
    fix j assume "j < unat sz"
    with that show "a \<noteq> of_nat (A (g + j))"
      unfolding v(2) [OF \<open>j < unat sz\<close>] by blast
  qed
  ultimately show ?thesis
    using m2(1) unfolding copy_from_gpa_def by blast
qed


text \<open>The VM of the example maps its first GByte to host memory from \<open>0x40000000\<close> on.\<close>

lemma ex_mem_hpa:
  assumes x: "x < 0x40000000"
  shows "gpa2hpa 0 (of_nat x) (ex_hv ex_mem) = of_nat (0x40000000 + x)"
proof -
  let ?ops = "init_ept_mem_ops ex_pages False 0 True"
  have p: "present ?ops 0x101007" "present ?ops 0x400000B7"
    by (rule ept.present_bit0; simp)+
  have "x div 2 ^ 39 = 0" "x div 2 ^ 30 = 0" "x mod 2 ^ 30 = x"
    using x by simp_all
  then have "ept_map False 0 (ex_hv ex_mem) x = Some (0x40000000 + x, 0x37)"
    using p by (simp add: ept_map_def ex_hv_def hv0_def is_safety_vm_def tr.simps Let_def tab_def slot_def ex_mem_def ex_pages_def
        leaf_entry_def PAGE_PS_def leaf_def ept_rmask_def mask_eq_exp_minus_1)
  then show ?thesis
    using gpa2hpa_map [OF ex_mem_wf, of x] x by (simp add: ept_space_def)
qed

lemma ex_mem_end: "gpa2hpa 0 (of_nat 0x40000000) (ex_hv ex_mem) = INVALID_HPA"
proof -
  let ?ops = "init_ept_mem_ops ex_pages False 0 True"
  have "present ?ops 0x101007"
    by (rule ept.present_bit0; simp)
  moreover have "\<not> present ?ops 0"
    using ept.pres_zero by (simp add: present_def)
  ultimately have "ept_map False 0 (ex_hv ex_mem) 0x40000000 = None"
    by (simp add: ept_map_def ex_hv_def hv0_def is_safety_vm_def tr.simps Let_def tab_def slot_def ex_mem_def ex_pages_def)
  then show ?thesis
    using gpa2hpa_map [OF ex_mem_wf, of "0x40000000"] by (simp add: ept_space_def)
qed

lemma far_from_buf:
  fixes p :: u64
  assumes "p \<le> 0x10000" "n \<le> 0x10000" "x < 0x40000000"
  shows "\<not> in_buf p n (of_nat (0x40000000 + x))"
proof -
  have "unat (of_nat (0x40000000 + x) :: u64) = 0x40000000 + x"
    using assms(3) by (intro unat_of_nat_small) simp
  then have "unat (of_nat (0x40000000 + x) - p) = 0x40000000 + x - unat p"
    using assms(1) by (subst unat_diff_small) (simp_all only: word_nat_order, simp)
  with assms show ?thesis by (simp add: word_nat_order)
qed

theorem copy_from_gpa_reads_witness:
  "\<exists>m'. copy_from_gpa 0 0x1000 0x3FFFFFFE 4 (ex_hv ex_mem) \<lparr>mem_bytes = \<lambda>a. ucast a, mem_ac = False\<rparr> = (- EINVAL, m') \<and>
     mem_bytes m' 0x1001 = 0xFF \<and> mem_bytes m' 0x1002 = 2"
proof -
  let ?m = "\<lparr>mem_bytes = \<lambda>a. ucast a, mem_ac = False\<rparr>"
  have hpa: "gpa2hpa 0 (of_nat (0x3FFFFFFE + j)) (ex_hv ex_mem) = of_nat (0x40000000 + (0x3FFFFFFE + j))" if "j < 2" for j
    using that by (intro ex_mem_hpa) simp
  have "\<exists>m'. copy_from_gpa 0 0x1000 (of_nat 0x3FFFFFFE) 4 (ex_hv ex_mem) ?m = (if 2 = unat (4 :: u32) then 0 else - EINVAL, m') \<and>
    (\<forall>a. mem_bytes m' a =
      (if in_buf 0x1000 2 a then mem_bytes ?m (gpa2hpa 0 (of_nat (0x3FFFFFFE + unat (a - 0x1000))) (ex_hv ex_mem)) else mem_bytes ?m a))"
  proof (rule copy_from_gpa_reads [OF ex_mem_wf])
    show "gpa2hpa 0 (of_nat (0x3FFFFFFE + j)) (ex_hv ex_mem) \<noteq> INVALID_HPA" if "j < 2" for j
      unfolding hpa [OF that] by (rule invalid_hpa_nat) (use that in simp)
    show "\<not> in_buf 0x1000 (unat (4 :: u32)) (gpa2hpa 0 (of_nat (0x3FFFFFFE + j)) (ex_hv ex_mem))" if "j < 2" for j
      unfolding hpa [OF that] by (rule far_from_buf) (use that in simp_all)
  qed (use ex_mem_end in \<open>simp_all add: ept_space_def\<close>)
  then show ?thesis
    using hpa [of 1] by auto
qed

theorem copy_roundtrip_witness:
  "\<exists>m2. copy_from_gpa 0 0x2000 0x1FFE 4 (ex_hv ex_mem)
        (copy_to_gpa 0 0x1000 0x1FFE 4 (ex_hv ex_mem) \<lparr>mem_bytes = \<lambda>a. ucast a, mem_ac = False\<rparr>) = (0, m2) \<and>
     mem_bytes m2 0x2003 = 3"
proof -
  let ?m = "\<lparr>mem_bytes = \<lambda>a. ucast a, mem_ac = False\<rparr>" and ?n = "unat (4 :: u32)"
  have hpa: "gpa2hpa 0 (of_nat (0x1FFE + j)) (ex_hv ex_mem) = of_nat (0x40000000 + (0x1FFE + j))" if "j < ?n" for j
    using that by (intro ex_mem_hpa) simp
  have "\<exists>m2. copy_from_gpa 0 0x2000 (of_nat 0x1FFE) 4 (ex_hv ex_mem) (copy_to_gpa 0 0x1000 (of_nat 0x1FFE) 4 (ex_hv ex_mem) ?m) = (0, m2) \<and>
    (\<forall>j<?n. mem_bytes m2 (0x2000 + of_nat j) = mem_bytes ?m (0x1000 + of_nat j)) \<and>
    (\<forall>a. (\<forall>j<?n. a \<noteq> gpa2hpa 0 (of_nat (0x1FFE + j)) (ex_hv ex_mem)) \<longrightarrow>
       mem_bytes (copy_to_gpa 0 0x1000 (of_nat 0x1FFE) 4 (ex_hv ex_mem) ?m) a = mem_bytes ?m a)"
  proof (rule copy_roundtrip [OF ex_mem_wf])
    show "gpa2hpa 0 (of_nat (0x1FFE + j)) (ex_hv ex_mem) \<noteq> INVALID_HPA" if "j < ?n" for j
      unfolding hpa [OF that] by (rule invalid_hpa_nat) (use that in simp)
    show "gpa2hpa 0 (of_nat (0x1FFE + i)) (ex_hv ex_mem) \<noteq> gpa2hpa 0 (of_nat (0x1FFE + j)) (ex_hv ex_mem)"
      if "i < ?n" "j < ?n" "i \<noteq> j" for i j
      unfolding hpa [OF that(1)] hpa [OF that(2)] using that by (subst of_nat_u64_eq) simp_all
    show "\<not> in_buf 0x1000 ?n (gpa2hpa 0 (of_nat (0x1FFE + j)) (ex_hv ex_mem))"
      "\<not> in_buf 0x2000 ?n (gpa2hpa 0 (of_nat (0x1FFE + j)) (ex_hv ex_mem))" if "j < ?n" for j
      unfolding hpa [OF that] by (rule far_from_buf; use that in simp)+
  qed (simp add: ept_space_def)
  then obtain m2 where "copy_from_gpa 0 0x2000 0x1FFE 4 (ex_hv ex_mem) (copy_to_gpa 0 0x1000 0x1FFE 4 (ex_hv ex_mem) ?m) = (0, m2)"
    "\<forall>j<?n. mem_bytes m2 (0x2000 + of_nat j) = mem_bytes ?m (0x1000 + of_nat j)"
    by auto
  moreover from this(2) have "mem_bytes m2 (0x2000 + of_nat 3) = mem_bytes ?m (0x1000 + of_nat 3)"
    by (rule allE [of _ 3]) simp
  ultimately show ?thesis by auto
qed

end
