(* ===== verification/Acrn_Reset_Defects.thy ===== *)
theory Acrn_Reset_Defects
  imports Acrn_Vlapic
begin

text \<open>
  Two executions in which \<^verbatim>\<open>reset_vcpu\<close> (\<^verbatim>\<open>src/hypervisor/arch/x86/guest/vcpu.c\<close>) leaves the
  virtual CPU in a state the rest of the code does not expect: a request for an exception whose
  vector has been invalidated, and a cleared \<^verbatim>\<open>running\<close> flag of a thread that keeps running.
\<close>

lemma queue_ok:
  assumes vec: "unat vec < 32" and idle: "exc_vector (hv_vcpus h vm v) = VECTOR_INVALID"
  shows "\<exists>h1. vcpu_queue_exception cpu vm v vec err h = Some h1 \<and>
    pending_req (hv_vcpus h1 vm v) = bitmap_set_lock ACRN_REQUEST_EXCP (pending_req (hv_vcpus h vm v))"
proof -
  have "get_excep_class VECTOR_INVALID = EXCEPTION_CLASS_BENIGN" "VECTOR_INVALID \<noteq> IDT_DF"
    by (simp_all add: get_excep_class_def VECTOR_INVALID_def IDT_DF_def IDT_DE_def IDT_TS_def IDT_NP_def IDT_SS_def IDT_GP_def IDT_PF_def IDT_VE_def)
  moreover obtain ty where "exception_type vec = Some ty"
    using vec by (simp add: exception_type_def exception_type_table_def)
  ultimately show ?thesis
    using idle by (simp add: vcpu_queue_exception_def Let_def make_request_vcpu)
qed

text \<open>
  C24. A reset leaves a queued exception half alive: \<^verbatim>\<open>reset_vcpu\<close> sets the vector to
  \<^verbatim>\<open>VECTOR_INVALID\<close> but keeps the request, so that handling the requests of the reset virtual
  CPU indexes the 32 entries of \<^verbatim>\<open>exception_type\<close> with 256. \<open>init_vmcs\<close> does not change
  the exception and the requests of the virtual CPU.
\<close>

theorem reset_keeps_exception_request:
  assumes vec: "unat vec < 32" and idle: "exc_vector (hv_vcpus h vm v) = VECTOR_INVALID"
    and trp: "\<not> bitmap_test ACRN_REQUEST_TRP_FAULT (pending_req (hv_vcpus h vm v))"
    and init: "\<And>h. exc_vector (hv_vcpus (init_vmcs h) vm v) = exc_vector (hv_vcpus h vm v) \<and>
      pending_req (hv_vcpus (init_vmcs h) vm v) = pending_req (hv_vcpus h vm v)"
  shows "\<exists>h1. vcpu_queue_exception cpu vm v vec err h = Some h1 \<and>
     acrn_handle_pending_request init_vmcs cpu' vm v (reset_vcpu cpu'' vm v h1) = None"
proof -
  obtain h1 where h1: "vcpu_queue_exception cpu vm v vec err h = Some h1"
      "pending_req (hv_vcpus h1 vm v) = bitmap_set_lock ACRN_REQUEST_EXCP (pending_req (hv_vcpus h vm v))"
    using queue_ok [OF vec idle] by blast
  have n: "exception_type VECTOR_INVALID = None"
    by (simp add: exception_type_def VECTOR_INVALID_def exception_type_table_def)
  define c where "c = hv_vcpus (reset_vcpu cpu'' vm v h1) vm v"
  have c: "exc_vector c = VECTOR_INVALID" "bitmap_test ACRN_REQUEST_EXCP (pending_req c)"
      "\<not> bitmap_test ACRN_REQUEST_TRP_FAULT (pending_req c)"
    using trp by (simp_all add: c_def reset_vcpu_obs h1 bm.test_set request_defs)
  have "acrn_handle_pending_request init_vmcs cpu' vm v (reset_vcpu cpu'' vm v h1) = None"
    using c init n by (simp add: acrn_handle_pending_request_def Let_def vcpu_inject_exception_def
       request_bits request_clear flip: c_def)
  with h1 show ?thesis by blast
qed
theorem reset_keeps_exception_request_witness:
  "\<exists>h1. vcpu_queue_exception 0 1 2 IDT_GP 0 hv_ex = Some h1 \<and>
     acrn_handle_pending_request (\<lambda>c. c) 2 1 2 (reset_vcpu 0 1 2 h1) = None"
  using reset_keeps_exception_request [of IDT_GP hv_ex 1 2 "\<lambda>c. c" 0 0 2 0]
  by (simp add: IDT_GP_def hv_ex_def hv0_def vcpu0_def)

lemma reset_sched_obs:
  "curr_obj (hv_sched (reset_vcpu cpu vm v h)) p = curr_obj (hv_sched h) p"
  "noop_obj (hv_sched (reset_vcpu cpu vm v h)) p = noop_obj (hv_sched h) p"
  "vcpu_running (hv_sched (reset_vcpu cpu vm v h)) = (vcpu_running (hv_sched h))(Vcpu vm v := False)"
  by (simp_all add: reset_vcpu_def Let_def reset_vcpu_regs_def set_vcpu_regs_def vcpu_not_running_def clear_running_def)

text \<open>Waking a blocked thread that is still current: the next schedule of its CPU switches nothing.\<close>

lemma wake_current:
  assumes i: "sched_inv s" and t: "is_blocked s (Vcpu vm v)" "thread_pcpu s (Vcpu vm v) = p" "noop_obj s p = None"
    "curr_obj s p = Some (Vcpu vm v)"
  shows "\<exists>s'. schedule p (wake_thread cpu (Vcpu vm v) s) = Some s' \<and> is_running s' (Vcpu vm v) \<and>
    vcpu_running s' (Vcpu vm v) = vcpu_running s (Vcpu vm v)"
proof -
  let ?t = "Vcpu vm v" and ?s = "wake_thread cpu (Vcpu vm v) s"
  have o: "curr_obj ?s p = Some ?t" "noop_obj ?s p = Some ?t" "vcpu_running ?s = vcpu_running s"
    using t by (simp_all add: wake_thread_def)
  have pick: "?t = sched_noop_pick_next p p ?s"
    by (simp add: pick_next_Some [OF o(2)])
  obtain s' where s': "schedule p ?s = Some s'"
    using o(1) by (simp add: schedule_def Let_def)
  note obs = schedule_obs [OF wake_inv [OF i] s' o(1) pick]
  show ?thesis
    using s' obs(2) [of ?t] obs(7) [of ?t] o(3) by (simp add: is_running_def)
qed

text \<open>
  C25. A virtual CPU can execute while its flag \<^verbatim>\<open>running\<close> is clear, so that a later
  \<^verbatim>\<open>pause_vcpu\<close> from another CPU does not wait for it: secondary virtual CPU 2 of VM 1, running
  on CPU 2, sends INIT to itself, another CPU sends the SIPI before CPU 2 schedules, and the
  \<^verbatim>\<open>schedule\<close> of CPU 2 then picks the thread that is still current and calls no switch hook.
\<close>

theorem self_init_loses_running_flag:
  "\<exists>h0 s1 h2 h3 s4.
     h0 = launch_vcpu 0 1 2 hv_ex \<and> schedule 2 (hv_sched h0) = Some s1 \<and> vcpu_running s1 (Vcpu 1 2) \<and>
     vlapic_process_init_sipi 2 1 2 APIC_DELMODE_INIT 0 (h0\<lparr>hv_sched := s1\<rparr>) = Some h2 \<and>
     vlapic_process_init_sipi 0 1 2 APIC_DELMODE_STARTUP 0x9F h2 = Some h3 \<and>
     schedule 2 (hv_sched h3) = Some s4 \<and>
     is_running s4 (Vcpu 1 2) \<and> vc_state (hv_vcpus h3 1 2) = VCPU_RUNNING \<and> \<not> vcpu_running s4 (Vcpu 1 2)"
proof -
  let ?t = "Vcpu 1 2" and ?h0 = "launch_vcpu 0 1 2 hv_ex"
  let ?w = "wake_thread 0 ?t booted"
  have s0: "hv_sched ?h0 = ?w"
    by (simp add: launch_vcpu_def hv_ex_def hv0_def)
  have o0: "curr_obj ?w 2 = Some (Idle 2)" "noop_obj ?w 2 = Some ?t" "thread_pcpu ?w ?t = 2"
    by (simp_all add: wake_thread_def booted_def is_blocked_def)
  obtain s1 where s1: "schedule 2 ?w = Some s1"
    using o0(1) by (simp add: schedule_def Let_def)
  have pick: "?t = sched_noop_pick_next 2 2 ?w"
    by (simp add: pick_next_Some [OF o0(2)])
  note ob = schedule_obs [OF wake_inv [OF booted_inv] s1 o0(1) pick]
  have o1: "curr_obj s1 2 = Some ?t" "noop_obj s1 2 = Some ?t" "thread_pcpu s1 ?t = 2" "vcpu_running s1 ?t"
    using ob(1) [of ?t] ob(3) [of 2] ob(4) [of 2] ob(7) [of ?t] o0 by simp_all
  define h1 where "h1 = ?h0\<lparr>hv_sched := s1\<rparr>"
  have h1: "vc_state (hv_vcpus h1 1 2) = VCPU_RUNNING" "vcpu_id (hv_vcpus h1 1 2) = 2" "hv_sched h1 = s1"
    by (simp_all add: h1_def launch_vcpu_def Let_def hv_ex_def hv0_def vcpu0_def)
  have l1: "life_inv h1"
    unfolding h1_def using sched_step_life(1) [OF launch_vcpu_life [OF life_hv_ex]] s1 by (simp add: s0)
  define hp where "hp = (zombie 1 2 h1)\<lparr>hv_sched := sleep_thread 2 ?t s1\<rparr>"
  have pz: "pause_vcpu 2 1 2 h1 = Some hp"
    using h1 o1(3) by (simp add: pause_vcpu_def Let_def zombie_def upd_vcpu_compose hp_def pcpuid_from_vcpu_def
        sched_get_pcpuid_def sleep_obs)
  define h2 where "h2 = upd_vcpu 1 2 (\<lambda>c. c\<lparr>nr_sipi := 1\<rparr>) (reset_vcpu 2 1 2 hp)"
  have init: "vlapic_process_init_sipi 2 1 2 APIC_DELMODE_INIT 0 h1 = Some h2"
    using h1 pz by (simp add: vlapic_process_init_sipi_def h2_def BOOT_CPU_ID_def)
  have vid: "vcpu_id (hv_vcpus hp 1 2) = 2"
    using h1 by (simp add: hp_def zombie_def)
  have o2: "vc_state (hv_vcpus h2 1 2) = VCPU_INIT" "nr_sipi (hv_vcpus h2 1 2) = 1" "vcpu_id (hv_vcpus h2 1 2) = 2"
    "is_blocked (hv_sched h2) ?t" "thread_pcpu (hv_sched h2) ?t = 2" "noop_obj (hv_sched h2) 2 = None"
    "curr_obj (hv_sched h2) 2 = Some ?t" "\<not> vcpu_running (hv_sched h2) ?t"
    using o1 vid by (simp_all add: h2_def reset_vcpu_obs reset_sched_obs hp_def is_blocked_def)
      (simp_all add: sleep_thread_def Let_def)
  have i2: "sched_inv (hv_sched h2)"
    using life_invD(1) [OF init_life [OF l1 init]] .
  define hx where "hx = vcpu_make_request 0 1 2 ACRN_REQUEST_INIT_VMCS
    (set_vcpu_startup_entry (ucast (push_bit 12 ((0x9F :: u32) AND APIC_VECTOR_MASK))) 1 2 (upd_vcpu 1 2 (\<lambda>c. c\<lparr>nr_sipi := nr_sipi c - 1\<rparr>) h2))"
  have ox: "is_blocked (hv_sched hx) ?t" "thread_pcpu (hv_sched hx) ?t = 2" "noop_obj (hv_sched hx) 2 = None"
    "curr_obj (hv_sched hx) 2 = Some ?t" "\<not> vcpu_running (hv_sched hx) ?t" "sched_inv (hv_sched hx)"
    using o2 i2 by (simp_all add: hx_def set_vcpu_startup_entry_def Let_def is_blocked_def kick_inv)
  have sipi: "vlapic_process_init_sipi 0 1 2 APIC_DELMODE_STARTUP 0x9F h2 = Some (launch_vcpu 0 1 2 hx)"
    unfolding vlapic_process_init_sipi_def Let_def hx_def
    using o2 by (simp add: BOOT_CPU_ID_def APIC_DELMODE_INIT_def APIC_DELMODE_STARTUP_def)
  have h3: "hv_sched (launch_vcpu 0 1 2 hx) = wake_thread 0 ?t (hv_sched hx)"
      "vc_state (hv_vcpus (launch_vcpu 0 1 2 hx) 1 2) = VCPU_RUNNING"
    by (simp_all add: launch_vcpu_def Let_def)
  obtain s4 where "schedule 2 (hv_sched (launch_vcpu 0 1 2 hx)) = Some s4" "is_running s4 ?t" "\<not> vcpu_running s4 ?t"
    using wake_current [OF ox(6,1-4), of 0] ox(5) h3(1) by auto
  with s1 s0 o1(4) init [unfolded h1_def] sipi h3(2) show ?thesis
    by (intro exI [of _ ?h0] exI [of _ s1] exI [of _ h2] exI [of _ "launch_vcpu 0 1 2 hx"] exI [of _ s4]) simp
qed
end
