(* ===== verification/Acrn_Caps.thy ===== *)
theory Acrn_Caps
  imports Acrn_Vcpu
begin

text \<open>
  What the hypervisor finds out about the processor when it boots
  (\<^verbatim>\<open>src/hypervisor/arch/x86/cpu_caps.c\<close>), and the mitigations of \<^verbatim>\<open>arch/x86/security.c\<close>:
  which ones the processor needs, and what is executed before a VM entry. CPUID is a function of
  the leaf and the subleaf.
\<close>

subsection \<open>Capabilities\<close>

definition FEAT_1_ECX :: u32 where "FEAT_1_ECX = 0"
definition X86_FEATURE_MONITOR :: u32 where "X86_FEATURE_MONITOR = ((push_bit 5 FEAT_1_ECX) + 3)"
definition X86_FEATURE_OSXSAVE :: u32 where "X86_FEATURE_OSXSAVE = ((push_bit 5 FEAT_1_ECX) + 27)"
definition FEAT_7_0_EDX :: u32 where "FEAT_7_0_EDX = 4"
definition X86_FEATURE_MDS_CLEAR :: u32 where "X86_FEATURE_MDS_CLEAR = ((push_bit 5 FEAT_7_0_EDX) + 10)"
definition X86_FEATURE_L1D_FLUSH :: u32 where "X86_FEATURE_L1D_FLUSH = ((push_bit 5 FEAT_7_0_EDX) + 28)"
definition X86_FEATURE_ARCH_CAP :: u32 where "X86_FEATURE_ARCH_CAP = ((push_bit 5 FEAT_7_0_EDX) + 29)"
definition X86_FEATURE_SSBD :: u32 where "X86_FEATURE_SSBD = ((push_bit 5 FEAT_7_0_EDX) + 31)"
definition FEAT_1_EDX :: u32 where "FEAT_1_EDX = 1"
definition FEAT_7_0_EBX :: u32 where "FEAT_7_0_EBX = 2"
definition FEAT_7_0_ECX :: u32 where "FEAT_7_0_ECX = 3"
definition FEAT_8000_0001_ECX :: u32 where "FEAT_8000_0001_ECX = 5"
definition FEAT_8000_0001_EDX :: u32 where "FEAT_8000_0001_EDX = 6"
definition FEAT_8000_0007_EDX :: u32 where "FEAT_8000_0007_EDX = 7"
definition FEAT_8000_0008_EBX :: u32 where "FEAT_8000_0008_EBX = 8"
definition FEATURE_WORDS :: u32 where "FEATURE_WORDS = 9"
definition CPUID_VENDORSTRING :: u32 where "CPUID_VENDORSTRING = 0"
definition CPUID_FEATURES :: u32 where "CPUID_FEATURES = 1"
definition CPUID_EXTEND_FEATURE :: u32 where "CPUID_EXTEND_FEATURE = 7"
definition CPUID_MAX_EXTENDED_FUNCTION :: u32 where "CPUID_MAX_EXTENDED_FUNCTION = 0x80000000"
definition CPUID_EXTEND_FUNCTION_1 :: u32 where "CPUID_EXTEND_FUNCTION_1 = 0x80000001"
definition CPUID_EXTEND_FUNCTION_2 :: u32 where "CPUID_EXTEND_FUNCTION_2 = 0x80000002"
definition CPUID_EXTEND_FUNCTION_3 :: u32 where "CPUID_EXTEND_FUNCTION_3 = 0x80000003"
definition CPUID_EXTEND_FUNCTION_4 :: u32 where "CPUID_EXTEND_FUNCTION_4 = 0x80000004"
definition CPUID_EXTEND_INVA_TSC :: u32 where "CPUID_EXTEND_INVA_TSC = 0x80000007"
definition CPUID_EXTEND_ADDRESS_SIZE :: u32 where "CPUID_EXTEND_ADDRESS_SIZE = 0x80000008"

record cpuid_regs =
  r_eax :: u32
  r_ebx :: u32
  r_ecx :: u32
  r_edx :: u32

record cpuinfo_x86 =
  displayfamily :: u8
  displaymodel :: u8
  virt_bits :: u8
  phys_bits :: u8
  cpuid_level :: u32
  extended_cpuid_level :: u32
  cpuid_leaves :: "nat \<Rightarrow> u32"
  model_name :: "nat \<Rightarrow> u8"

definition pcpu_has_cap :: "cpuinfo_x86 \<Rightarrow> u32 \<Rightarrow> bool" where
  "pcpu_has_cap b feat =
     (let feat_idx = drop_bit 5 feat;
          feat_bit = feat AND 0x1f
      in if feat_idx \<ge> FEATURE_WORDS then False
         else cpuid_leaves b (unat feat_idx) AND push_bit (unat feat_bit) 1 \<noteq> 0)"

definition has_monitor_cap :: "cpuinfo_x86 \<Rightarrow> bool" where
  "has_monitor_cap b = pcpu_has_cap b X86_FEATURE_MONITOR"

definition set_leaf :: "u32 \<Rightarrow> u32 \<Rightarrow> cpuinfo_x86 \<Rightarrow> cpuinfo_x86" where
  "set_leaf i w b = b\<lparr>cpuid_leaves := (cpuid_leaves b)(unat i := w)\<rparr>"

definition init_pcpu_capabilities :: "(u32 \<Rightarrow> u32 \<Rightarrow> cpuid_regs) \<Rightarrow> cpuinfo_x86 \<Rightarrow> cpuinfo_x86" where
  "init_pcpu_capabilities cpuid b =
     (let b1 = b\<lparr>cpuid_level := r_eax (cpuid CPUID_VENDORSTRING 0)\<rparr>;
          f = cpuid CPUID_FEATURES 0;
          eax = r_eax f;
          b2 = set_leaf FEAT_1_EDX (r_edx f) (set_leaf FEAT_1_ECX (r_ecx f) b1);
          family_id = drop_bit 8 eax AND 0xf;
          family = (if family_id = 0xF then family_id + (drop_bit 20 eax AND 0xff) else family_id);
          b3 = b2\<lparr>displayfamily := ucast family\<rparr>;
          model_id = drop_bit 4 eax AND 0xf;
          model = (if family_id = 0x06 \<or> family_id = 0xF then model_id + push_bit 4 (drop_bit 16 eax AND 0xf) else model_id);
          b4 = b3\<lparr>displaymodel := ucast model\<rparr>;
          x = cpuid CPUID_EXTEND_FEATURE 0;
          b5 = set_leaf FEAT_7_0_EDX (r_edx x) (set_leaf FEAT_7_0_ECX (r_ecx x) (set_leaf FEAT_7_0_EBX (r_ebx x) b4));
          b6 = b5\<lparr>extended_cpuid_level := r_eax (cpuid CPUID_MAX_EXTENDED_FUNCTION 0)\<rparr>;
          y = cpuid CPUID_EXTEND_FUNCTION_1 0;
          b7 = set_leaf FEAT_8000_0001_EDX (r_edx y) (set_leaf FEAT_8000_0001_ECX (r_ecx y) b6);
          b8 = set_leaf FEAT_8000_0007_EDX (r_edx (cpuid CPUID_EXTEND_INVA_TSC 0)) b7;
          z = cpuid CPUID_EXTEND_ADDRESS_SIZE 0;
          b9 = set_leaf FEAT_8000_0008_EBX (r_ebx z) b8
      in b9\<lparr>virt_bits := ucast (drop_bit 8 (r_eax z) AND 0xff), phys_bits := ucast (r_eax z AND 0xff)\<rparr>)"

text \<open>The four bytes of a word, the lowest first, at \<open>i\<close> of the model name.\<close>

definition put_name :: "nat \<Rightarrow> u32 \<Rightarrow> cpuinfo_x86 \<Rightarrow> cpuinfo_x86" where
  "put_name i w b = b\<lparr>model_name := (model_name b)(i := ucast w, i + 1 := ucast (drop_bit 8 w),
     i + 2 := ucast (drop_bit 16 w), i + 3 := ucast (drop_bit 24 w))\<rparr>"

definition put_names :: "nat \<Rightarrow> cpuid_regs \<Rightarrow> cpuinfo_x86 \<Rightarrow> cpuinfo_x86" where
  "put_names i r b =
     put_name (i + 12) (r_edx r) (put_name (i + 8) (r_ecx r) (put_name (i + 4) (r_ebx r) (put_name i (r_eax r) b)))"

definition init_pcpu_model_name :: "(u32 \<Rightarrow> u32 \<Rightarrow> cpuid_regs) \<Rightarrow> cpuinfo_x86 \<Rightarrow> cpuinfo_x86" where
  "init_pcpu_model_name cpuid b =
     (let b1 = put_names 32 (cpuid CPUID_EXTEND_FUNCTION_4 0)
                 (put_names 16 (cpuid CPUID_EXTEND_FUNCTION_3 0) (put_names 0 (cpuid CPUID_EXTEND_FUNCTION_2 0) b))
      in b1\<lparr>model_name := (model_name b1)(48 := 0)\<rparr>)"

definition get_pcpu_info :: "cpuinfo_x86 \<Rightarrow> cpuinfo_x86" where
  "get_pcpu_info b = b"

subsection \<open>Mitigations\<close>

definition MSR_IA32_ARCH_CAPABILITIES :: u32 where "MSR_IA32_ARCH_CAPABILITIES = 0x10A"
definition IA32_ARCH_CAP_SKIP_L1DFL_VMENTRY :: u64 where "IA32_ARCH_CAP_SKIP_L1DFL_VMENTRY = push_bit 3 1"
definition IA32_ARCH_CAP_MDS_NO :: u64 where "IA32_ARCH_CAP_MDS_NO = push_bit 5 1"
definition IA32_ARCH_CAP_SSB_NO :: u64 where "IA32_ARCH_CAP_SSB_NO = push_bit 4 1"
definition MSR_IA32_FLUSH_CMD :: u32 where "MSR_IA32_FLUSH_CMD = 0x10B"
definition IA32_L1D_FLUSH :: u64 where "IA32_L1D_FLUSH = push_bit 0 1"
definition HOST_GDT_RING0_DATA_SEL :: u16 where "HOST_GDT_RING0_DATA_SEL = 0x10"

text \<open>The static variables of \<^verbatim>\<open>security.c\<close>.\<close>

record cpu_security =
  skip_l1dfl_vmentry :: bool
  cpu_md_clear :: bool

definition check_cpu_security_cap ::
  "cpuinfo_x86 \<Rightarrow> (u32 \<Rightarrow> u64) \<Rightarrow> cpu_security \<Rightarrow> bool \<times> cpu_security" where
  "check_cpu_security_cap b msr s =
     (let arch = pcpu_has_cap b X86_FEATURE_ARCH_CAP;
          caps = msr MSR_IA32_ARCH_CAPABILITIES;
          s1 = (if arch then s\<lparr>skip_l1dfl_vmentry := (caps AND IA32_ARCH_CAP_SKIP_L1DFL_VMENTRY \<noteq> 0)\<rparr> else s);
          mds_no = (arch \<and> caps AND IA32_ARCH_CAP_MDS_NO \<noteq> 0);
          ssb_no = (arch \<and> caps AND IA32_ARCH_CAP_SSB_NO \<noteq> 0);
          ret = True;
          ret1 = (if \<not> pcpu_has_cap b X86_FEATURE_L1D_FLUSH \<and> \<not> skip_l1dfl_vmentry s1 then False else ret);
          ret2 = (if \<not> pcpu_has_cap b X86_FEATURE_SSBD \<and> \<not> ssb_no then False else ret1)
      in if \<not> mds_no then
           if pcpu_has_cap b X86_FEATURE_MDS_CLEAR then
             (ret2, s1\<lparr>cpu_md_clear := (if \<not> skip_l1dfl_vmentry s1 then False else True)\<rparr>)
           else (False, s1)
         else (ret2, s1))"

definition cpu_l1d_flush :: "cpuinfo_x86 \<Rightarrow> cpu_security \<Rightarrow> hv \<Rightarrow> hv" where
  "cpu_l1d_flush b s h =
     (if \<not> skip_l1dfl_vmentry s \<and> pcpu_has_cap b X86_FEATURE_L1D_FLUSH
      then hw_op (Msr_write MSR_IA32_FLUSH_CMD IA32_L1D_FLUSH) h else h)"

definition verw_buffer_overwriting :: "hv \<Rightarrow> hv" where
  "verw_buffer_overwriting h = hw_op (Verw HOST_GDT_RING0_DATA_SEL) h"

definition cpu_internal_buffers_clear :: "cpu_security \<Rightarrow> hv \<Rightarrow> hv" where
  "cpu_internal_buffers_clear s h = (if cpu_md_clear s then verw_buffer_overwriting h else h)"

end
