(* ===== verification/Acrn_Vcr.thy ===== *)
theory Acrn_Vcr
  imports Acrn_Vlapic Acrn_Guest_Memory Acrn_Mmu Acrn_Caps
begin

text \<open>
  The control registers of a virtual CPU (\<^verbatim>\<open>src/hypervisor/arch/x86/guest/virtual_cr.c\<close>), its
  emulated MSRs as far as these need them (\<^verbatim>\<open>guest/vmsr.c\<close>, \<^verbatim>\<open>guest/vcpu.c\<close>), and what
  the processor answers: MSRs, the time stamp counter, CPUID, the memory of the guest.
\<close>

subsection \<open>The processor\<close>

text \<open>
  A read of an MSR or of the time stamp counter is an event, so that it may answer differently every
  time. \<open>hw_mem\<close> is the memory at the VM exit, \<open>hw_stack\<close> the address of the local buffer that a
  handler copies guest memory to, \<open>hw_caps\<close> and \<open>hw_security\<close> what the hypervisor found out about the
  processor when it booted, \<open>hw_addr\<close> the address of the pages the VMCS points to, and
  \<open>hw_host\<close> the registers of the hypervisor itself. \<open>hw_vmrun\<close> is the execution of the guest up to the
  next VM exit: the status of the entry and the general registers, CR2 and VMCS it leaves.
\<close>

datatype hw_object =
    Vmcs_page u16 u16
  | Msr_bitmap u16 u16
  | Msr_area_guest u16 u16
  | Msr_area_host u16 u16
  | Io_bitmap u16

datatype host_reg =
    Host_es | Host_cs | Host_ss | Host_ds | Host_fs | Host_gs | Host_gdt_base | Host_idt_base | Host_tss
  | Host_cr0 | Host_cr3 | Host_cr4 | Host_vm_exit

record hw_env =
  hw_msr :: "hw_event list \<Rightarrow> u32 \<Rightarrow> u64"
  hw_tsc :: "hw_event list \<Rightarrow> u64"
  hw_cpuid :: "u32 \<Rightarrow> u32 \<Rightarrow> cpuid_regs"
  hw_mem :: memst
  hw_stack :: u64
  hw_caps :: cpuinfo_x86
  hw_security :: cpu_security
  hw_addr :: "hw_object \<Rightarrow> u64"
  hw_host :: "host_reg \<Rightarrow> u64"
  hw_vmrun :: "hw_event list \<Rightarrow> acrn_vcpu \<Rightarrow> i32 \<times> (nat \<Rightarrow> u64) \<times> u64 \<times> (u32 \<Rightarrow> u64)"

definition hv_msr_read :: "hw_env \<Rightarrow> u32 \<Rightarrow> hv \<Rightarrow> u64 \<times> hv" where
  "hv_msr_read env msr h = (hw_msr env (hv_hw h) msr, hw_op (Msr_read msr) h)"

definition hv_msr_write :: "u32 \<Rightarrow> u64 \<Rightarrow> hv \<Rightarrow> hv" where
  "hv_msr_write msr v h = hw_op (Msr_write msr v) h"

definition exec_vmread64 :: "u32 \<Rightarrow> acrn_vcpu \<Rightarrow> u64" where
  "exec_vmread64 field c = vmcs c field"

definition exec_vmread32 :: "u32 \<Rightarrow> acrn_vcpu \<Rightarrow> u32" where
  "exec_vmread32 field c = ucast (exec_vmread64 field c)"

definition exec_vmwrite32 :: "u32 \<Rightarrow> u32 \<Rightarrow> acrn_vcpu \<Rightarrow> acrn_vcpu" where
  "exec_vmwrite32 field v c = exec_vmwrite field (ucast v) c"

definition exec_vmwrite16 :: "u32 \<Rightarrow> u16 \<Rightarrow> acrn_vcpu \<Rightarrow> acrn_vcpu" where
  "exec_vmwrite16 field v c = exec_vmwrite field (ucast v) c"

definition on_vcpu :: "u16 \<Rightarrow> u16 \<Rightarrow> (acrn_vcpu \<Rightarrow> 'a \<times> acrn_vcpu) \<Rightarrow> hv \<Rightarrow> 'a \<times> hv" where
  "on_vcpu vm v f h = (fst (f (hv_vcpus h vm v)), upd_vcpu vm v (\<lambda>c. snd (f c)) h)"

subsection \<open>Constants\<close>

definition CPU_REG_CR0 :: u16 where "CPU_REG_CR0 = 16"
definition CPU_REG_CR4 :: u16 where "CPU_REG_CR4 = 19"
definition CR0_PG :: u64 where "CR0_PG = push_bit 31 1"
definition CR0_TRAP_MASK :: u64 where "CR0_TRAP_MASK = CR0_PE OR CR0_PG OR CR0_WP OR CR0_CD OR CR0_NW"
definition CR0_AM :: u64 where "CR0_AM = push_bit 18 1"
definition CR0_TS :: u64 where "CR0_TS = push_bit 3 1"
definition CR0_EM :: u64 where "CR0_EM = push_bit 2 1"
definition CR0_MP :: u64 where "CR0_MP = push_bit 1 1"
definition CR0_RESERVED_MASK :: u64 where "CR0_RESERVED_MASK = NOT (CR0_PG OR CR0_CD OR CR0_NW OR CR0_AM OR CR0_WP OR CR0_NE OR CR0_ET OR CR0_TS OR CR0_EM OR CR0_MP OR CR0_PE)"
definition CR4_PSE :: u64 where "CR4_PSE = push_bit 4 1"
definition CR4_PAE :: u64 where "CR4_PAE = push_bit 5 1"
definition CR4_VMXE :: u64 where "CR4_VMXE = push_bit 13 1"
definition CR4_PCIDE :: u64 where "CR4_PCIDE = push_bit 17 1"
definition CR4_PKE :: u64 where "CR4_PKE = push_bit 22 1"
definition CR4_SMXE :: u64 where "CR4_SMXE = push_bit 14 1"
definition CR4_DE :: u64 where "CR4_DE = push_bit 3 1"
definition CR4_MCE :: u64 where "CR4_MCE = push_bit 6 1"
definition CR4_PCE :: u64 where "CR4_PCE = push_bit 8 1"
definition CR4_VME :: u64 where "CR4_VME = push_bit 0 1"
definition CR4_PVI :: u64 where "CR4_PVI = push_bit 1 1"
definition CR4_TRAP_MASK :: u64 where "CR4_TRAP_MASK = CR4_PSE OR CR4_PAE OR CR4_VMXE OR CR4_PCIDE OR CR4_SMEP OR CR4_SMAP OR CR4_PKE OR CR4_SMXE OR CR4_DE OR CR4_MCE OR CR4_PCE OR CR4_VME OR CR4_PVI"
definition CR4_TSD :: u64 where "CR4_TSD = push_bit 2 1"
definition CR4_PGE :: u64 where "CR4_PGE = push_bit 7 1"
definition CR4_OSFXSR :: u64 where "CR4_OSFXSR = push_bit 9 1"
definition CR4_OSXSAVE :: u64 where "CR4_OSXSAVE = push_bit 18 1"
definition CR4_FSGSBASE :: u64 where "CR4_FSGSBASE = push_bit 16 1"
definition CR4_OSXMMEXCPT :: u64 where "CR4_OSXMMEXCPT = push_bit 10 1"
definition CR4_UMIP :: u64 where "CR4_UMIP = push_bit 11 1"
definition CR4_RESERVED_MASK :: u64 where "CR4_RESERVED_MASK = NOT (CR4_VME OR CR4_PVI OR CR4_TSD OR CR4_DE OR CR4_PSE OR CR4_PAE OR CR4_MCE OR CR4_PGE OR CR4_PCE OR CR4_OSFXSR OR CR4_PCIDE OR CR4_OSXSAVE OR CR4_SMEP OR CR4_FSGSBASE OR CR4_VMXE OR CR4_OSXMMEXCPT OR CR4_SMAP OR CR4_PKE OR CR4_SMXE OR CR4_UMIP)"
definition PAE_PDPTE_FIXED_RESVD_BITS :: u64 where "PAE_PDPTE_FIXED_RESVD_BITS = 0x1E6"
definition VMX_GUEST_CR0 :: u32 where "VMX_GUEST_CR0 = 0x6800"
definition VMX_GUEST_CR3 :: u32 where "VMX_GUEST_CR3 = 0x6802"
definition VMX_GUEST_CR4 :: u32 where "VMX_GUEST_CR4 = 0x6804"
definition VMX_CR0_READ_SHADOW :: u32 where "VMX_CR0_READ_SHADOW = 0x6004"
definition VMX_CR4_READ_SHADOW :: u32 where "VMX_CR4_READ_SHADOW = 0x6006"
definition VMX_CR0_GUEST_HOST_MASK :: u32 where "VMX_CR0_GUEST_HOST_MASK = 0x6000"
definition VMX_CR4_GUEST_HOST_MASK :: u32 where "VMX_CR4_GUEST_HOST_MASK = 0x6002"
definition VMX_GUEST_CS_ATTR :: u32 where "VMX_GUEST_CS_ATTR = 0x4816"
definition VMX_GUEST_TR_ATTR :: u32 where "VMX_GUEST_TR_ATTR = 0x4822"
definition VMX_ENTRY_CONTROLS :: u32 where "VMX_ENTRY_CONTROLS = 0x4012"
definition VMX_ENTRY_CTLS_IA32E_MODE :: u32 where "VMX_ENTRY_CTLS_IA32E_MODE = push_bit 9 1"
definition VMX_GUEST_PDPTE0_FULL :: u32 where "VMX_GUEST_PDPTE0_FULL = 0x280A"
definition VMX_GUEST_PDPTE1_FULL :: u32 where "VMX_GUEST_PDPTE1_FULL = 0x280C"
definition VMX_GUEST_PDPTE2_FULL :: u32 where "VMX_GUEST_PDPTE2_FULL = 0x280E"
definition VMX_GUEST_PDPTE3_FULL :: u32 where "VMX_GUEST_PDPTE3_FULL = 0x2810"
definition VMX_GUEST_IA32_PAT_FULL :: u32 where "VMX_GUEST_IA32_PAT_FULL = 0x2804"
definition PAT_MEM_TYPE_UC :: u64 where "PAT_MEM_TYPE_UC = 0"
definition PAT_ALL_UC_VALUE :: u64 where "PAT_ALL_UC_VALUE = (PAT_MEM_TYPE_UC + (push_bit 8 PAT_MEM_TYPE_UC) + (push_bit 16 PAT_MEM_TYPE_UC) + (push_bit 24 PAT_MEM_TYPE_UC) + (push_bit 32 PAT_MEM_TYPE_UC) + (push_bit 40 PAT_MEM_TYPE_UC) + (push_bit 48 PAT_MEM_TYPE_UC) + (push_bit 56 PAT_MEM_TYPE_UC))"
definition MSR_IA32_EFER_LME_BIT :: u64 where "MSR_IA32_EFER_LME_BIT = push_bit 8 1"
definition NUM_WORLD_MSRS :: u32 where "NUM_WORLD_MSRS = 2"
definition NUM_COMMON_MSRS :: u32 where "NUM_COMMON_MSRS = 18"
definition NUM_GUEST_MSRS :: u32 where "NUM_GUEST_MSRS = NUM_WORLD_MSRS + NUM_COMMON_MSRS"
definition MSR_IA32_VMX_CR0_FIXED0 :: u32 where "MSR_IA32_VMX_CR0_FIXED0 = 0x486"
definition MSR_IA32_VMX_CR0_FIXED1 :: u32 where "MSR_IA32_VMX_CR0_FIXED1 = 0x487"
definition MSR_IA32_VMX_CR4_FIXED0 :: u32 where "MSR_IA32_VMX_CR4_FIXED0 = 0x488"
definition MSR_IA32_VMX_CR4_FIXED1 :: u32 where "MSR_IA32_VMX_CR4_FIXED1 = 0x489"
definition MSR_IA32_PAT :: u32 where "MSR_IA32_PAT = 0x277"
definition MSR_IA32_TSC_ADJUST :: u32 where "MSR_IA32_TSC_ADJUST = 0x3B"
definition MSR_IA32_TSC_DEADLINE :: u32 where "MSR_IA32_TSC_DEADLINE = 0x6E0"
definition MSR_RSVD :: u32 where "MSR_RSVD = 0xFFFFFFFF"
definition MSR_IA32_BIOS_SIGN_ID :: u32 where "MSR_IA32_BIOS_SIGN_ID = 0x8B"
definition MSR_IA32_TIME_STAMP_COUNTER :: u32 where "MSR_IA32_TIME_STAMP_COUNTER = 0x10"
definition MSR_IA32_FEATURE_CONTROL :: u32 where "MSR_IA32_FEATURE_CONTROL = 0x3A"
definition MSR_IA32_MCG_CAP :: u32 where "MSR_IA32_MCG_CAP = 0x179"
definition MSR_SMI_COUNT :: u32 where "MSR_SMI_COUNT = 0x34"
definition MSR_IA32_MISC_ENABLE :: u32 where "MSR_IA32_MISC_ENABLE = 0x1A0"
definition MSR_IA32_MCG_STATUS :: u32 where "MSR_IA32_MCG_STATUS = 0x17A"
definition MSR_IA32_P5_MC_ADDR :: u32 where "MSR_IA32_P5_MC_ADDR = 0"
definition MSR_IA32_P5_MC_TYPE :: u32 where "MSR_IA32_P5_MC_TYPE = 0x1"

subsection \<open>Emulated MSRs\<close>

definition emulated_guest_msrs :: "u32 list" where
  "emulated_guest_msrs =
     [MSR_IA32_PAT, MSR_IA32_TSC_ADJUST, MSR_IA32_TSC_DEADLINE, MSR_RSVD, MSR_IA32_BIOS_SIGN_ID,
      MSR_IA32_TIME_STAMP_COUNTER, MSR_RSVD, MSR_RSVD, MSR_IA32_FEATURE_CONTROL, MSR_IA32_MCG_CAP, MSR_SMI_COUNT,
      MSR_IA32_MISC_ENABLE, MSR_IA32_MCG_STATUS, MSR_IA32_P5_MC_ADDR, MSR_IA32_P5_MC_TYPE, MSR_RSVD, MSR_RSVD,
      MSR_RSVD, MSR_RSVD, MSR_RSVD]"

definition vmsr_get_guest_msr_index :: "u32 \<Rightarrow> u32" where
  "vmsr_get_guest_msr_index msr =
     (case find (\<lambda>index. emulated_guest_msrs ! index = msr) [0..<unat NUM_GUEST_MSRS] of
        Some index \<Rightarrow> of_nat index
      | None \<Rightarrow> NUM_GUEST_MSRS)"

definition vcpu_get_guest_msr :: "acrn_vcpu \<Rightarrow> u32 \<Rightarrow> u64" where
  "vcpu_get_guest_msr c msr = guest_msrs c (unat (vmsr_get_guest_msr_index msr))"

definition vcpu_set_guest_msr :: "u32 \<Rightarrow> u64 \<Rightarrow> acrn_vcpu \<Rightarrow> acrn_vcpu" where
  "vcpu_set_guest_msr msr val c =
     c\<lparr>guest_msrs := (guest_msrs c)(unat (vmsr_get_guest_msr_index msr) := val)\<rparr>"

subsection \<open>Reading CR0 and CR4\<close>

definition vcpu_get_cr0 :: "acrn_vcpu \<Rightarrow> u64 \<times> acrn_vcpu" where
  "vcpu_get_cr0 c =
     (let (cached, w) = bitmap_test_and_set_lock CPU_REG_CR0 (reg_cached c);
          c1 = c\<lparr>reg_cached := w\<rparr>;
          msk = exec_vmread64 VMX_CR0_GUEST_HOST_MASK c1;
          c2 = (if \<not> cached then c1\<lparr>cr0 := (exec_vmread64 VMX_CR0_READ_SHADOW c1 AND msk) OR
                                             (exec_vmread64 VMX_GUEST_CR0 c1 AND NOT msk)\<rparr> else c1)
      in (cr0 c2, c2))"

definition vcpu_get_cr4 :: "acrn_vcpu \<Rightarrow> u64 \<times> acrn_vcpu" where
  "vcpu_get_cr4 c =
     (let (cached, w) = bitmap_test_and_set_lock CPU_REG_CR4 (reg_cached c);
          c1 = c\<lparr>reg_cached := w\<rparr>;
          msk = exec_vmread64 VMX_CR4_GUEST_HOST_MASK c1;
          c2 = (if \<not> cached then c1\<lparr>cr4 := (exec_vmread64 VMX_CR4_READ_SHADOW c1 AND msk) OR
                                             (exec_vmread64 VMX_GUEST_CR4 c1 AND NOT msk)\<rparr> else c1)
      in (cr4 c2, c2))"

definition vcpu_set_cr2 :: "u64 \<Rightarrow> acrn_vcpu \<Rightarrow> acrn_vcpu" where
  "vcpu_set_cr2 val c = c\<lparr>cr2 := val\<rparr>"

definition is_long_mode :: "acrn_vcpu \<Rightarrow> bool \<times> acrn_vcpu" where
  "is_long_mode c = (let (e, c1) = vcpu_get_efer c in (e AND MSR_IA32_EFER_LMA_BIT \<noteq> 0, c1))"

definition is_paging_enabled :: "acrn_vcpu \<Rightarrow> bool \<times> acrn_vcpu" where
  "is_paging_enabled c = (let (x, c1) = vcpu_get_cr0 c in (x AND CR0_PG \<noteq> 0, c1))"

definition is_pae :: "acrn_vcpu \<Rightarrow> bool \<times> acrn_vcpu" where
  "is_pae c = (let (x, c1) = vcpu_get_cr4 c in (x AND CR4_PAE \<noteq> 0, c1))"

definition get_vcpu_mode :: "acrn_vcpu \<Rightarrow> vm_cpu_mode" where
  "get_vcpu_mode c = cpu_mode c"

subsection \<open>PAE page directory pointers\<close>

definition get_pae_pdpt_addr :: "u64 \<Rightarrow> u64" where
  "get_pae_pdpt_addr c3 = c3 AND 0xFFFFFFE0"

definition load_u64 :: "memst \<Rightarrow> u64 \<Rightarrow> u64" where
  "load_u64 m a = fold (\<lambda>k w. w OR push_bit (8 * k) (ucast (mem_bytes m (a + of_nat k)))) [0..<8] 0"

definition load_pdptrs :: "hw_env \<Rightarrow> u16 \<Rightarrow> u16 \<Rightarrow> hv \<Rightarrow> i32 \<times> hv" where
  "load_pdptrs env vm v h =
     (let guest_cr3 = exec_vmread64 VMX_GUEST_CR3 (hv_vcpus h vm v);
          (err, m) = copy_from_gpa vm (hw_stack env) (get_pae_pdpt_addr guest_cr3) 32 h (hw_mem env);
          pdpte = (\<lambda>i. load_u64 m (hw_stack env + 8 * of_nat i));
          maxphyaddr = phys_bits (hw_caps env);
          rsvd_bits_mask = push_bit (unat maxphyaddr) (push_bit (unat (63 - ucast maxphyaddr + 1 :: u32)) 1 - 1)
                             OR PAE_PDPTE_FIXED_RESVD_BITS
      in if err \<noteq> 0 then (- EFAULT, h)
         else if \<exists>i \<in> set [0..<4]. pdpte i AND PAGE_PRESENT \<noteq> 0 \<and> pdpte i AND rsvd_bits_mask \<noteq> 0 then (- EFAULT, h)
         else (0, upd_vcpu vm v (\<lambda>c. exec_vmwrite VMX_GUEST_PDPTE3_FULL (pdpte 3)
                (exec_vmwrite VMX_GUEST_PDPTE2_FULL (pdpte 2) (exec_vmwrite VMX_GUEST_PDPTE1_FULL (pdpte 1)
                  (exec_vmwrite VMX_GUEST_PDPTE0_FULL (pdpte 0) c)))) h))"

subsection \<open>Writing CR0\<close>

definition is_cr0_write_valid :: "u64 \<Rightarrow> u64 \<Rightarrow> acrn_vcpu \<Rightarrow> bool \<times> acrn_vcpu" where
  "is_cr0_write_valid always_off ncr0 c =
     (if ncr0 AND always_off \<noteq> 0 then (False, c)
      else
        let (cur, c1) = vcpu_get_cr0 c in
        if cur AND CR0_PE \<noteq> 0 \<and> ncr0 AND CR0_PE = 0 then (False, c1)
        else
          let (no_pae, c2) = (if ncr0 AND CR0_PG \<noteq> 0 then (let (p, d) = is_pae c1 in (\<not> p, d)) else (False, c1));
              (long, c3) = (if no_pae then (let (e, d) = vcpu_get_efer c2 in (e AND MSR_IA32_EFER_LME_BIT \<noteq> 0, d)) else (False, c2))
          in if no_pae \<and> long then (False, c3)
             else if ncr0 AND CR0_PE = 0 \<and> ncr0 AND CR0_PG \<noteq> 0 then (False, c3)
             else if ncr0 AND CR0_CD = 0 \<and> ncr0 AND CR0_NW \<noteq> 0 then (False, c3)
             else (True, c3))"

text \<open>
  The change of paging and mode: \<open>True\<close> when \<^verbatim>\<open>err_found\<close> is set, after the injection of a general
  protection fault.
\<close>

definition cr0_paging_change ::
  "hw_env \<Rightarrow> u16 \<Rightarrow> u16 \<Rightarrow> u16 \<Rightarrow> bool \<Rightarrow> u64 \<Rightarrow> hv \<Rightarrow> (bool \<times> hv) option" where
  "cr0_paging_change env cpu vm v old_paging cr0_mask h =
     (if \<not> old_paging \<and> cr0_mask AND CR0_PG \<noteq> 0 then
        let (efer, h1) = on_vcpu vm v vcpu_get_efer h in
        if efer AND MSR_IA32_EFER_LME_BIT \<noteq> 0 then
          let cs_attr = exec_vmread32 VMX_GUEST_CS_ATTR (hv_vcpus h1 vm v);
              tr_attr = exec_vmread32 VMX_GUEST_TR_ATTR (hv_vcpus h1 vm v)
          in if cs_attr AND 0x2000 \<noteq> 0 \<or> tr_attr AND 0xf = 3 then
               map_option (Pair True) (vcpu_inject_gp cpu vm v 0 h1)
             else Some (False, upd_vcpu vm v (\<lambda>c.
               let c1 = exec_vmwrite32 VMX_ENTRY_CONTROLS (exec_vmread32 VMX_ENTRY_CONTROLS c OR VMX_ENTRY_CTLS_IA32E_MODE) c;
                   (e, c2) = vcpu_get_efer c1
               in vcpu_set_efer (e OR MSR_IA32_EFER_LMA_BIT) c2) h1)
        else
          let (pae, h2) = on_vcpu vm v is_pae h1 in
          if pae then
            let (ret, h3) = load_pdptrs env vm v h2
            in if ret \<noteq> 0 then map_option (Pair True) (vcpu_inject_gp cpu vm v 0 h3) else Some (False, h3)
          else Some (False, h2)
      else if old_paging \<and> cr0_mask AND CR0_PG = 0 then
        let (efer, h1) = on_vcpu vm v vcpu_get_efer h in
        if efer AND MSR_IA32_EFER_LME_BIT \<noteq> 0 then
          if get_vcpu_mode (hv_vcpus h1 vm v) = CPU_MODE_COMPATIBILITY then
            Some (False, upd_vcpu vm v (\<lambda>c.
               let c1 = exec_vmwrite32 VMX_ENTRY_CONTROLS (exec_vmread32 VMX_ENTRY_CONTROLS c AND NOT VMX_ENTRY_CTLS_IA32E_MODE) c;
                   (e, c2) = vcpu_get_efer c1
               in vcpu_set_efer (e AND NOT MSR_IA32_EFER_LMA_BIT) c2) h1)
          else map_option (Pair True) (vcpu_inject_gp cpu vm v 0 h1)
        else Some (False, h1)
      else Some (False, h))"

text \<open>The part of \<^verbatim>\<open>vmx_write_cr0\<close> for a write by the guest, before the registers are written.\<close>

definition cr0_guest_write :: "hw_env \<Rightarrow> u16 \<Rightarrow> u16 \<Rightarrow> u16 \<Rightarrow> u64 \<Rightarrow> u64 \<Rightarrow> hv \<Rightarrow> (bool \<times> hv) option" where
  "cr0_guest_write env cpu vm v ncr0 cr0_mask h =
     (let (valid, h1) = on_vcpu vm v (is_cr0_write_valid (cr0_always_off_mask (hv_cr_masks h)) ncr0) h in
      if \<not> valid then map_option (Pair True) (vcpu_inject_gp cpu vm v 0 h1)
      else
        let (old_paging, h2) = on_vcpu vm v is_paging_enabled h1;
            (cur, h3) = on_vcpu vm v vcpu_get_cr0 h2;
            changed = cur XOR ncr0
        in do {
             (err, h4) \<leftarrow> cr0_paging_change env cpu vm v old_paging cr0_mask h3;
             if err then Some (True, h4)
             else
               let h5 = (if changed AND CR0_CD \<noteq> 0 then
                           upd_vcpu vm v (\<lambda>c. exec_vmwrite VMX_GUEST_IA32_PAT_FULL
                             (if cr0_mask AND CR0_CD \<noteq> 0 then PAT_ALL_UC_VALUE else vcpu_get_guest_msr c MSR_IA32_PAT) c) h4
                         else h4);
                   h6 = (if changed AND (CR0_PG OR CR0_WP OR CR0_CD) \<noteq> 0
                         then vcpu_make_request cpu vm v ACRN_REQUEST_EPT_FLUSH h5 else h5)
               in Some (False, h6)
           })"

definition write_cr0_fields :: "u64 \<Rightarrow> u64 \<Rightarrow> acrn_vcpu \<Rightarrow> acrn_vcpu" where
  "write_cr0_fields always_on cr0_mask c =
     (let cr0_vmx = (always_on OR cr0_mask) AND NOT (CR0_CD OR CR0_NW);
          shadow = cr0_mask OR CR0_NE;
          c1 = exec_vmwrite VMX_CR0_READ_SHADOW (shadow AND 0xFFFFFFFF) (exec_vmwrite VMX_GUEST_CR0 (cr0_vmx AND 0xFFFFFFFF) c)
      in c1\<lparr>reg_cached := bitmap_clear_lock CPU_REG_CR0 (reg_cached c1)\<rparr>)"

definition vmx_write_cr0 :: "hw_env \<Rightarrow> u16 \<Rightarrow> u16 \<Rightarrow> u16 \<Rightarrow> u64 \<Rightarrow> bool \<Rightarrow> hv \<Rightarrow> hv option" where
  "vmx_write_cr0 env cpu vm v ncr0 is_init h =
     (let cr0_mask = ncr0 AND NOT CR0_RESERVED_MASK in
      do {
        (err, h1) \<leftarrow> (if \<not> is_init then cr0_guest_write env cpu vm v ncr0 cr0_mask h else Some (False, h));
        Some (if \<not> err then upd_vcpu vm v (write_cr0_fields (cr0_always_on_mask (hv_cr_masks h1)) cr0_mask) h1 else h1)
      })"

definition vcpu_set_cr0 :: "hw_env \<Rightarrow> u16 \<Rightarrow> u16 \<Rightarrow> u16 \<Rightarrow> u64 \<Rightarrow> bool \<Rightarrow> hv \<Rightarrow> hv option" where
  "vcpu_set_cr0 env cpu vm v val is_init h = vmx_write_cr0 env cpu vm v val is_init h"

subsection \<open>Writing CR4\<close>

definition is_cr4_write_valid :: "u16 \<Rightarrow> u64 \<Rightarrow> u64 \<Rightarrow> acrn_vcpu \<Rightarrow> bool \<times> acrn_vcpu" where
  "is_cr4_write_valid vm always_off ncr4 c =
     (if ncr4 AND always_off \<noteq> 0 then (False, c)
      else if ncr4 AND CR4_VMXE \<noteq> 0 \<or> ncr4 AND CR4_SMXE \<noteq> 0 \<or> ncr4 AND CR4_PKE \<noteq> 0 \<or> ncr4 AND CR4_PCE \<noteq> 0 \<or>
              ncr4 AND CR4_DE \<noteq> 0 \<or> ncr4 AND CR4_VME \<noteq> 0 \<or> ncr4 AND CR4_PVI \<noteq> 0 \<or>
              (\<not> is_safety_vm vm \<and> ncr4 AND CR4_MCE \<noteq> 0) then (False, c)
      else if ncr4 AND CR4_PCIDE \<noteq> 0 then (False, c)
      else
        let (long, c1) = is_long_mode c
        in if long \<and> ncr4 AND CR4_PAE = 0 then (False, c1) else (True, c1))"

definition cr4_guest_write :: "hw_env \<Rightarrow> u16 \<Rightarrow> u16 \<Rightarrow> u16 \<Rightarrow> u64 \<Rightarrow> hv \<Rightarrow> (bool \<times> hv) option" where
  "cr4_guest_write env cpu vm v ncr4 h =
     (let (valid, h1) = on_vcpu vm v (is_cr4_write_valid vm (cr4_always_off_mask (hv_cr_masks h)) ncr4) h in
      if \<not> valid then map_option (Pair True) (vcpu_inject_gp cpu vm v 0 h1)
      else
        let (old_cr4, h2) = on_vcpu vm v vcpu_get_cr4 h1 in
        if (ncr4 XOR old_cr4) AND (CR4_PGE OR CR4_PSE OR CR4_PAE OR CR4_SMEP OR CR4_SMAP) \<noteq> 0 then
          let (paging, h3) = (if ncr4 AND CR4_PAE \<noteq> 0 then on_vcpu vm v is_paging_enabled h2 else (False, h2));
              (long, h4) = (if paging then on_vcpu vm v is_long_mode h3 else (False, h3));
              (ret, h5) = (if paging \<and> \<not> long then load_pdptrs env vm v h4 else (0, h4))
          in if ret \<noteq> 0 then map_option (Pair True) (vcpu_inject_gp cpu vm v 0 h5)
             else Some (False, vcpu_make_request cpu vm v ACRN_REQUEST_EPT_FLUSH h5)
        else Some (False, h2))"

definition write_cr4_fields :: "u64 \<Rightarrow> u64 \<Rightarrow> acrn_vcpu \<Rightarrow> acrn_vcpu" where
  "write_cr4_fields always_on ncr4 c =
     (let c1 = exec_vmwrite VMX_CR4_READ_SHADOW (ncr4 AND 0xFFFFFFFF)
                 (exec_vmwrite VMX_GUEST_CR4 ((always_on OR ncr4) AND 0xFFFFFFFF) c)
      in c1\<lparr>reg_cached := bitmap_clear_lock CPU_REG_CR4 (reg_cached c1)\<rparr>)"

definition vmx_write_cr4 :: "hw_env \<Rightarrow> u16 \<Rightarrow> u16 \<Rightarrow> u16 \<Rightarrow> u64 \<Rightarrow> bool \<Rightarrow> hv \<Rightarrow> hv option" where
  "vmx_write_cr4 env cpu vm v ncr4 is_init h =
     do {
       (err, h1) \<leftarrow> (if \<not> is_init then cr4_guest_write env cpu vm v ncr4 h else Some (False, h));
       Some (if \<not> err then upd_vcpu vm v (write_cr4_fields (cr4_always_on_mask (hv_cr_masks h1)) ncr4) h1 else h1)
     }"

definition vcpu_set_cr4 :: "hw_env \<Rightarrow> u16 \<Rightarrow> u16 \<Rightarrow> u16 \<Rightarrow> u64 \<Rightarrow> bool \<Rightarrow> hv \<Rightarrow> hv option" where
  "vcpu_set_cr4 env cpu vm v val is_init h = vmx_write_cr4 env cpu vm v val is_init h"

subsection \<open>The masks\<close>

definition init_cr0_cr4_host_mask :: "hw_env \<Rightarrow> u16 \<Rightarrow> u16 \<Rightarrow> hv \<Rightarrow> hv" where
  "init_cr0_cr4_host_mask env vm v h =
     (let (fixed0, h1) = hv_msr_read env MSR_IA32_VMX_CR0_FIXED0 h;
          (fixed1, h2) = hv_msr_read env MSR_IA32_VMX_CR0_FIXED1 h1;
          cr0_host_owned_bits = (NOT (fixed0 XOR fixed1) OR CR0_TRAP_MASK) AND NOT CR0_RESERVED_MASK;
          on0 = fixed0 AND NOT (CR0_PE OR CR0_PG);
          off0 = (NOT fixed1 OR CR0_RESERVED_MASK) AND 0xffffffffe005003f;
          (fixed0', h3) = hv_msr_read env MSR_IA32_VMX_CR4_FIXED0 h2;
          (fixed1', h4) = hv_msr_read env MSR_IA32_VMX_CR4_FIXED1 h3;
          cr4_host_owned_bits = (NOT (fixed0' XOR fixed1') OR CR4_TRAP_MASK) AND NOT CR4_RESERVED_MASK;
          off4 = NOT fixed1' OR CR4_RESERVED_MASK;
          h5 = h4\<lparr>hv_cr_masks := \<lparr>cr0_always_on_mask = on0, cr0_always_off_mask = off0,
                 cr4_always_on_mask = fixed0', cr4_always_off_mask = off4\<rparr>\<rparr>
      in upd_vcpu vm v (\<lambda>c. exec_vmwrite VMX_CR4_GUEST_HOST_MASK cr4_host_owned_bits
           (exec_vmwrite VMX_CR0_GUEST_HOST_MASK cr0_host_owned_bits c)) h5)"

subsection \<open>Control register accesses\<close>

text \<open>Bits \<open>msb\<close> to \<open>lsb\<close> of an exit qualification, in place.\<close>

definition vm_exit_qualification_bit_mask :: "u64 \<Rightarrow> nat \<Rightarrow> nat \<Rightarrow> u64" where
  "vm_exit_qualification_bit_mask exit_qual msb lsb =
     exit_qual AND ((push_bit (msb + 1) 1 - 1) - (push_bit lsb 1 - 1))"

definition vm_exit_cr_access_cr_num :: "u64 \<Rightarrow> u64" where
  "vm_exit_cr_access_cr_num q = drop_bit 0 (vm_exit_qualification_bit_mask q 3 0)"

definition vm_exit_cr_access_type :: "u64 \<Rightarrow> u64" where
  "vm_exit_cr_access_type q = drop_bit 4 (vm_exit_qualification_bit_mask q 5 4)"

definition vm_exit_cr_access_reg_idx :: "u64 \<Rightarrow> u64" where
  "vm_exit_cr_access_reg_idx q = drop_bit 8 (vm_exit_qualification_bit_mask q 11 8)"

definition cr_access_vmexit_handler :: "hw_env \<Rightarrow> u16 \<Rightarrow> u16 \<Rightarrow> u16 \<Rightarrow> hv \<Rightarrow> (i32 \<times> hv) option" where
  "cr_access_vmexit_handler env cpu vm v h =
     (let exit_qual = exit_qualification (hv_vcpus h vm v);
          idx = ucast (vm_exit_cr_access_reg_idx exit_qual) :: u32;
          reg = vcpu_get_gpreg (hv_vcpus h vm v) idx;
          sel = push_bit 4 (vm_exit_cr_access_type exit_qual) OR vm_exit_cr_access_cr_num exit_qual
      in if sel = 0x00 then map_option (Pair 0) (vcpu_set_cr0 env cpu vm v reg False h)
         else if sel = 0x04 then map_option (Pair 0) (vcpu_set_cr4 env cpu vm v reg False h)
         else if sel = 0x30 then
           (let (cur, h1) = on_vcpu vm v vcpu_get_cr0 h
            in map_option (Pair 0) (vcpu_set_cr0 env cpu vm v ((cur AND NOT 0x0e) OR (drop_bit 16 exit_qual AND 0x0f)) False h1))
         else Some (- ERANGE, h))"

end
