(* ===== verification/Acrn_Cpuid.thy ===== *)
theory Acrn_Cpuid
  imports Acrn_Vcr
begin

text \<open>
  CPUID emulation (\<^verbatim>\<open>src/hypervisor/arch/x86/guest/vcpuid.c\<close>): the entries a VM is given when it
  is created, their lookup and the leaves that depend on the virtual CPU. The physical CPUID is the
  parameter \<open>hw_cpuid\<close>. \<open>None\<close>: an entry beyond the \<open>MAX_VM_VCPUID_ENTRIES\<close> of the array is written,
  or the null pointer of a missing entry is read.
\<close>

definition APIC_ID_MASK :: u32 where "APIC_ID_MASK = 0xFF000000"
definition APIC_ID_SHIFT :: u32 where "APIC_ID_SHIFT = 24"
definition CPUID_CHECK_SUBLEAF :: u32 where "CPUID_CHECK_SUBLEAF = push_bit 0 1"
definition CPUID_EAX_ARAT :: u32 where "CPUID_EAX_ARAT = push_bit 2 1"
definition CPUID_EAX_XCR0_BNDCSR :: u32 where "CPUID_EAX_XCR0_BNDCSR = push_bit 4 1"
definition CPUID_EAX_XCR0_BNDREGS :: u32 where "CPUID_EAX_XCR0_BNDREGS = push_bit 3 1"
definition CPUID_EAX_XSAVES :: u32 where "CPUID_EAX_XSAVES = push_bit 3 1"
definition CPUID_EBX_HLE :: u32 where "CPUID_EBX_HLE = push_bit 4 1"
definition CPUID_EBX_INVPCID :: u32 where "CPUID_EBX_INVPCID = push_bit 10 1"
definition CPUID_EBX_MPX :: u32 where "CPUID_EBX_MPX = push_bit 14 1"
definition CPUID_EBX_PQE :: u32 where "CPUID_EBX_PQE = push_bit 15 1"
definition CPUID_EBX_PQM :: u32 where "CPUID_EBX_PQM = push_bit 12 1"
definition CPUID_EBX_PROC_TRC :: u32 where "CPUID_EBX_PROC_TRC = push_bit 25 1"
definition CPUID_EBX_SGX :: u32 where "CPUID_EBX_SGX = push_bit 2 1"
definition CPUID_ECX_DS_CPL :: u32 where "CPUID_ECX_DS_CPL = push_bit 4 1"
definition CPUID_ECX_DTES64 :: u32 where "CPUID_ECX_DTES64 = push_bit 2 1"
definition CPUID_ECX_EST :: u32 where "CPUID_ECX_EST = push_bit 7 1"
definition CPUID_ECX_L2_ASSOCIATIVITY_FIELD_POS :: u32 where "CPUID_ECX_L2_ASSOCIATIVITY_FIELD_POS = 12"
definition CPUID_ECX_L2_ASSOCIATIVITY_FIELD_MASK :: u32 where "CPUID_ECX_L2_ASSOCIATIVITY_FIELD_MASK = push_bit (unat CPUID_ECX_L2_ASSOCIATIVITY_FIELD_POS) 0xF"
definition CPUID_ECX_MONITOR :: u32 where "CPUID_ECX_MONITOR = push_bit 3 1"
definition CPUID_ECX_OSXSAVE :: u32 where "CPUID_ECX_OSXSAVE = push_bit 27 1"
definition CPUID_ECX_PCID :: u32 where "CPUID_ECX_PCID = push_bit 17 1"
definition CPUID_ECX_PDCM :: u32 where "CPUID_ECX_PDCM = push_bit 15 1"
definition CPUID_ECX_PT_STATE :: u32 where "CPUID_ECX_PT_STATE = push_bit 8 1"
definition CPUID_ECX_SDBG :: u32 where "CPUID_ECX_SDBG = push_bit 11 1"
definition CPUID_ECX_SGX_LC :: u32 where "CPUID_ECX_SGX_LC = push_bit 30 1"
definition CPUID_ECX_SMX :: u32 where "CPUID_ECX_SMX = push_bit 6 1"
definition CPUID_ECX_TM2 :: u32 where "CPUID_ECX_TM2 = push_bit 8 1"
definition CPUID_ECX_VMX :: u32 where "CPUID_ECX_VMX = push_bit 5 1"
definition CPUID_ECX_xTPR :: u32 where "CPUID_ECX_xTPR = push_bit 14 1"
definition CPUID_EDX_ACPI :: u32 where "CPUID_EDX_ACPI = push_bit 22 1"
definition CPUID_EDX_DE :: u32 where "CPUID_EDX_DE = push_bit 2 1"
definition CPUID_EDX_DTES :: u32 where "CPUID_EDX_DTES = push_bit 21 1"
definition CPUID_EDX_HTT :: u32 where "CPUID_EDX_HTT = push_bit 28 1"
definition CPUID_EDX_MCA :: u32 where "CPUID_EDX_MCA = push_bit 14 1"
definition CPUID_EDX_MCE :: u32 where "CPUID_EDX_MCE = push_bit 7 1"
definition CPUID_EDX_MTRR :: u32 where "CPUID_EDX_MTRR = push_bit 12 1"
definition CPUID_EDX_PBE :: u32 where "CPUID_EDX_PBE = push_bit 31 1"
definition CPUID_EDX_STIBP :: u32 where "CPUID_EDX_STIBP = push_bit 27 1"
definition CPUID_EDX_TM1 :: u32 where "CPUID_EDX_TM1 = push_bit 29 1"
definition CPUID_EDX_TSX_FORCE_ABORT :: u32 where "CPUID_EDX_TSX_FORCE_ABORT = push_bit 13 1"
definition CPUID_EDX_VME :: u32 where "CPUID_EDX_VME = push_bit 1 1"
definition CPUID_EDX_XD_BIT_AVIL :: u32 where "CPUID_EDX_XD_BIT_AVIL = push_bit 20 1"
definition L2_WAYS_OF_ASSOCIATIVITY :: u32 where "L2_WAYS_OF_ASSOCIATIVITY = 4"
definition MSR_IA32_MISC_ENABLE_LIMIT_CPUID :: u64 where "MSR_IA32_MISC_ENABLE_LIMIT_CPUID = push_bit 22 1"
definition MSR_IA32_MISC_ENABLE_XD_DISABLE :: u64 where "MSR_IA32_MISC_ENABLE_XD_DISABLE = push_bit 34 1"
definition VIRT_CRYSTAL_CLOCK_FREQ :: u32 where "VIRT_CRYSTAL_CLOCK_FREQ = 0x16C2154"
definition XSAVE_HEADER_AREA_SIZE :: u32 where "XSAVE_HEADER_AREA_SIZE = 64"
definition XSAVE_LEGACY_AREA_SIZE :: u32 where "XSAVE_LEGACY_AREA_SIZE = 512"
definition MAX_VM_VCPUID_ENTRIES :: u32 where "MAX_VM_VCPUID_ENTRIES = 64"

subsection \<open>Lookup\<close>

definition vcpuid_zero :: vcpuid_entry where
  "vcpuid_zero = \<lparr>ve_eax = 0, ve_ebx = 0, ve_ecx = 0, ve_edx = 0, ve_leaf = 0, ve_subleaf = 0, ve_flags = 0\<rparr>"

text \<open>The array behind its first \<^verbatim>\<open>vcpuid_entry_nr\<close> elements is zero.\<close>

definition vcpuid_at :: "vcpuid_entry list \<Rightarrow> nat \<Rightarrow> vcpuid_entry" where
  "vcpuid_at ents i = (if i < length ents then ents ! i else vcpuid_zero)"

definition entry_matches :: "u32 \<Rightarrow> u32 \<Rightarrow> vcpuid_entry \<Rightarrow> bool" where
  "entry_matches lf subleaf e \<longleftrightarrow>
     ve_leaf e = lf \<and> \<not> (ve_flags e AND CPUID_CHECK_SUBLEAF \<noteq> 0 \<and> ve_subleaf e \<noteq> subleaf)"

fun scan_entries :: "u32 \<Rightarrow> u32 \<Rightarrow> vcpuid_entry list \<Rightarrow> vcpuid_entry option" where
  "scan_entries lf subleaf [] = None"
| "scan_entries lf subleaf (tmp # ents) =
     (if ve_leaf tmp < lf then scan_entries lf subleaf ents
      else if ve_leaf tmp = lf then
        if ve_flags tmp AND CPUID_CHECK_SUBLEAF \<noteq> 0 \<and> ve_subleaf tmp \<noteq> subleaf then scan_entries lf subleaf ents
        else Some tmp
      else None)"

definition local_find_vcpuid_entry :: "vm_cpuid \<Rightarrow> u32 \<Rightarrow> u32 \<Rightarrow> vcpuid_entry option" where
  "local_find_vcpuid_entry t lf subleaf =
     (let ents = vcpuid_entries t;
          half = length ents div 2;
          i = (if ve_leaf (vcpuid_at ents half) < lf then half else 0)
      in scan_entries lf subleaf (drop i ents))"

definition find_vcpuid_entry :: "vm_cpuid \<Rightarrow> u32 \<Rightarrow> u32 \<Rightarrow> vcpuid_entry option" where
  "find_vcpuid_entry t lf subleaf =
     (case local_find_vcpuid_entry t lf subleaf of
        Some e \<Rightarrow> Some e
      | None \<Rightarrow>
          let lim = (if lf AND CPUID_MAX_EXTENDED_FUNCTION \<noteq> 0 then vcpuid_xlevel t else vcpuid_level t)
          in if lf > lim then local_find_vcpuid_entry t (vcpuid_level t) subleaf else None)"

subsection \<open>Filling the entries\<close>

definition set_vcpuid_entry :: "vcpuid_entry \<Rightarrow> vm_cpuid \<Rightarrow> vm_cpuid option" where
  "set_vcpuid_entry e t =
     (if length (vcpuid_entries t) < unat MAX_VM_VCPUID_ENTRIES
      then Some (t\<lparr>vcpuid_entries := vcpuid_entries t @ [e]\<rparr>) else None)"

definition init_vcpuid_entry :: "hw_env \<Rightarrow> u32 \<Rightarrow> u32 \<Rightarrow> u32 \<Rightarrow> vcpuid_entry" where
  "init_vcpuid_entry env lf subleaf flags =
     (let r = hw_cpuid env lf subleaf;
          phys = \<lparr>ve_eax = r_eax r, ve_ebx = r_ebx r, ve_ecx = r_ecx r, ve_edx = r_edx r,
                  ve_leaf = lf, ve_subleaf = subleaf, ve_flags = flags\<rparr>
      in if lf = 0x06 then phys\<lparr>ve_eax := CPUID_EAX_ARAT, ve_ebx := 0, ve_ecx := 0, ve_edx := 0\<rparr>
         else if lf = 0x07 then
           phys\<lparr>ve_ebx := ve_ebx phys AND NOT (CPUID_EBX_INVPCID OR CPUID_EBX_PQM OR CPUID_EBX_PQE)
                    AND NOT CPUID_EBX_SGX AND NOT CPUID_EBX_MPX AND NOT CPUID_EBX_PROC_TRC AND NOT CPUID_EBX_HLE,
                ve_ecx := ve_ecx phys AND NOT CPUID_ECX_SGX_LC,
                ve_edx := ve_edx phys AND NOT CPUID_EDX_STIBP AND NOT CPUID_EDX_TSX_FORCE_ABORT\<rparr>
         else if lf = 0x15 then phys\<lparr>ve_ecx := VIRT_CRYSTAL_CLOCK_FREQ\<rparr>
         else if lf = 0x80000006 then
           phys\<lparr>ve_ecx := (ve_ecx phys AND NOT CPUID_ECX_L2_ASSOCIATIVITY_FIELD_MASK)
                    OR push_bit (unat CPUID_ECX_L2_ASSOCIATIVITY_FIELD_POS) L2_WAYS_OF_ASSOCIATIVITY\<rparr>
         else phys)"

fun extended_loop :: "hw_env \<Rightarrow> nat list \<Rightarrow> vm_cpuid \<Rightarrow> vm_cpuid option" where
  "extended_loop env [] t = Some t"
| "extended_loop env (i # is) t =
     do { t1 \<leftarrow> set_vcpuid_entry (init_vcpuid_entry env (of_nat i) 0 0) t; extended_loop env is t1 }"

definition set_vcpuid_extended_function :: "hw_env \<Rightarrow> vm_cpuid \<Rightarrow> vm_cpuid option" where
  "set_vcpuid_extended_function env t =
     (let entry = init_vcpuid_entry env CPUID_MAX_EXTENDED_FUNCTION 0 0 in
      do {
        t1 \<leftarrow> set_vcpuid_entry entry t;
        let t2 = t1\<lparr>vcpuid_xlevel := ve_eax entry\<rparr>;
        extended_loop env [unat CPUID_EXTEND_FUNCTION_2..<unat (ve_eax entry) + 1] t2
      })"

text \<open>The loop over the subleaves of leaf 4, which a subleaf of type zero ends.\<close>

function leaf_4_loop :: "hw_env \<Rightarrow> u32 \<Rightarrow> vm_cpuid \<Rightarrow> vm_cpuid option" where
  "leaf_4_loop env j t =
     (let entry = init_vcpuid_entry env 4 j CPUID_CHECK_SUBLEAF in
      if ve_eax entry = 0 then Some t
      else (case set_vcpuid_entry entry t of None \<Rightarrow> None | Some t1 \<Rightarrow> leaf_4_loop env (j + 1) t1))"
  by pat_completeness auto
termination
  by (relation "measure (\<lambda>(env, j, t). unat MAX_VM_VCPUID_ENTRIES - length (vcpuid_entries t))")
    (auto simp: set_vcpuid_entry_def split: if_splits)

declare leaf_4_loop.simps [simp del]

definition set_basic_leaf :: "hw_env \<Rightarrow> u32 \<Rightarrow> vm_cpuid \<Rightarrow> vm_cpuid option" where
  "set_basic_leaf env i t =
     (if i = 1 \<or> i = 0xb \<or> i = 0xd then Some t
      else if i = 0x04 then leaf_4_loop env 0 t
      else if i = 0x07 then set_vcpuid_entry (init_vcpuid_entry env i 0 CPUID_CHECK_SUBLEAF) t
      else if i = 0x05 \<or> i = 0x08 \<or> i = 0x09 \<or> i = 0x0a \<or> i = 0x0c \<or> i = 0x0e \<or> i = 0x0f \<or> i = 0x10 \<or>
              i = 0x11 \<or> i = 0x12 \<or> i = 0x13 \<or> i = 0x14 then Some t
      else set_vcpuid_entry (init_vcpuid_entry env i 0 0) t)"

fun basic_loop :: "hw_env \<Rightarrow> nat list \<Rightarrow> vm_cpuid \<Rightarrow> vm_cpuid option" where
  "basic_loop env [] t = Some t"
| "basic_loop env (i # is) t = do { t1 \<leftarrow> set_basic_leaf env (of_nat i) t; basic_loop env is t1 }"

definition set_vcpuid_entries :: "hw_env \<Rightarrow> vm_cpuid \<Rightarrow> vm_cpuid option" where
  "set_vcpuid_entries env t =
     (let entry = init_vcpuid_entry env 0 0 0 in
      do {
        t1 \<leftarrow> set_vcpuid_entry entry t;
        let t2 = t1\<lparr>vcpuid_level := ve_eax entry\<rparr>;
        t3 \<leftarrow> basic_loop env [1..<unat (ve_eax entry) + 1] t2;
        set_vcpuid_extended_function env t3
      })"

subsection \<open>The leaves of a virtual CPU\<close>

definition is_percpu_related :: "u32 \<Rightarrow> bool" where
  "is_percpu_related lf \<longleftrightarrow> lf = 0x1 \<or> lf = 0xb \<or> lf = 0xd \<or> lf = 0x80000001"

definition guest_cpuid_01h :: "hw_env \<Rightarrow> u16 \<Rightarrow> acrn_vcpu \<Rightarrow> cpuid_regs \<times> acrn_vcpu" where
  "guest_cpuid_01h env vm c =
     (let apicid = vlapic_get_apicid (vlapic c);
          r = hw_cpuid env 1 0;
          ebx = (r_ebx r AND NOT APIC_ID_MASK) OR push_bit (unat APIC_ID_SHIFT) apicid;
          ecx = r_ecx r AND NOT CPUID_ECX_MONITOR AND NOT (CPUID_ECX_DTES64 OR CPUID_ECX_DS_CPL) AND NOT CPUID_ECX_SMX
                  AND NOT CPUID_ECX_EST AND NOT CPUID_ECX_TM2 AND NOT CPUID_ECX_xTPR AND NOT CPUID_ECX_PDCM
                  AND NOT CPUID_ECX_SDBG AND NOT CPUID_ECX_PCID AND NOT CPUID_ECX_VMX;
          (x, c1) = vcpu_get_cr4 c;
          ecx1 = ecx AND NOT CPUID_ECX_OSXSAVE;
          ecx2 = (if x AND CR4_OSXSAVE \<noteq> 0 then ecx1 OR CPUID_ECX_OSXSAVE else ecx1);
          edx = r_edx r AND NOT CPUID_EDX_DTES AND NOT CPUID_EDX_VME AND NOT CPUID_EDX_DE AND NOT CPUID_EDX_MTRR
                  AND NOT CPUID_EDX_ACPI AND NOT CPUID_EDX_TM1 AND NOT CPUID_EDX_PBE;
          edx1 = (if is_safety_vm vm then edx AND NOT CPUID_EDX_HTT
                  else edx AND NOT CPUID_EDX_MCE AND NOT CPUID_EDX_MCA)
      in (\<lparr>r_eax = r_eax r, r_ebx = ebx, r_ecx = ecx2, r_edx = edx1\<rparr>, c1))"

definition guest_cpuid_0bh :: "u16 \<Rightarrow> acrn_vcpu \<Rightarrow> cpuid_regs \<Rightarrow> cpuid_regs" where
  "guest_cpuid_0bh created_vcpus c r =
     (let subleaf = r_ecx r;
          ecx = subleaf AND 0xFF;
          r1 = (if subleaf = 0 then r\<lparr>r_eax := 0, r_ebx := 1, r_ecx := ecx OR push_bit 8 1\<rparr>
                else if subleaf = 1 then
                  r\<lparr>r_eax := (if created_vcpus = 1 then 0 else ucast (fls32 (ucast created_vcpus - 1)) + 1),
                    r_ebx := ucast created_vcpus, r_ecx := ecx OR push_bit 8 2\<rparr>
                else r\<lparr>r_eax := 0, r_ebx := 0, r_ecx := ecx\<rparr>)
      in r1\<lparr>r_edx := vlapic_get_apicid (vlapic c)\<rparr>)"

definition guest_cpuid_0dh :: "hw_env \<Rightarrow> cpuid_regs \<Rightarrow> cpuid_regs" where
  "guest_cpuid_0dh env r =
     (let subleaf = r_ecx r;
          avx_area_size = r_eax (hw_cpuid env 0x0d 2);
          p = hw_cpuid env 0x0d subleaf
      in if subleaf = 0 then
           p\<lparr>r_eax := r_eax p AND NOT CPUID_EAX_XCR0_BNDREGS AND NOT CPUID_EAX_XCR0_BNDCSR,
             r_ecx := XSAVE_LEGACY_AREA_SIZE + XSAVE_HEADER_AREA_SIZE + avx_area_size\<rparr>
         else if subleaf = 1 then
           p\<lparr>r_eax := r_eax p AND NOT CPUID_EAX_XSAVES, r_ecx := r_ecx p AND NOT CPUID_ECX_PT_STATE\<rparr>
         else if subleaf = 2 then p
         else \<lparr>r_eax = 0, r_ebx = 0, r_ecx = 0, r_edx = 0\<rparr>)"

definition guest_cpuid_80000001h :: "hw_env \<Rightarrow> acrn_vcpu \<Rightarrow> cpuid_regs" where
  "guest_cpuid_80000001h env c =
     (let p = hw_cpuid env 0x80000001 0
      in if vcpu_get_guest_msr c MSR_IA32_MISC_ENABLE AND MSR_IA32_MISC_ENABLE_XD_DISABLE \<noteq> 0
         then p\<lparr>r_edx := r_edx p AND NOT CPUID_EDX_XD_BIT_AVIL\<rparr> else p)"

definition guest_limit_cpuid :: "acrn_vcpu \<Rightarrow> vm_cpuid \<Rightarrow> u32 \<Rightarrow> cpuid_regs \<Rightarrow> cpuid_regs option" where
  "guest_limit_cpuid c t lf r =
     (if vcpu_get_guest_msr c MSR_IA32_MISC_ENABLE AND MSR_IA32_MISC_ENABLE_LIMIT_CPUID \<noteq> 0 then
        if lf = 0 then Some (r\<lparr>r_eax := 2\<rparr>)
        else if (lf > 2 \<and> lf < CPUID_MAX_EXTENDED_FUNCTION) \<or> lf > vcpuid_xlevel t then
          (case find_vcpuid_entry t 2 0 of
             None \<Rightarrow> None
           | Some e \<Rightarrow> Some \<lparr>r_eax = ve_eax e, r_ebx = ve_ebx e, r_ecx = ve_ecx e, r_edx = ve_edx e\<rparr>)
        else Some r
      else Some r)"

definition guest_cpuid :: "hw_env \<Rightarrow> u16 \<Rightarrow> u16 \<Rightarrow> cpuid_regs \<Rightarrow> hv \<Rightarrow> (cpuid_regs \<times> hv) option" where
  "guest_cpuid env vm v r h =
     (let lf = r_eax r; subleaf = r_ecx r; t = hv_cpuid h vm; c = hv_vcpus h vm v;
          (r1, h1) = (if \<not> is_percpu_related lf then
               (case find_vcpuid_entry t lf subleaf of
                  Some e \<Rightarrow> (\<lparr>r_eax = ve_eax e, r_ebx = ve_ebx e, r_ecx = ve_ecx e, r_edx = ve_edx e\<rparr>, h)
                | None \<Rightarrow> (\<lparr>r_eax = 0, r_ebx = 0, r_ecx = 0, r_edx = 0\<rparr>, h))
             else if lf = 0x01 then on_vcpu vm v (guest_cpuid_01h env vm) h
             else if lf = 0x0b then (guest_cpuid_0bh (hv_created h vm) c r, h)
             else if lf = 0x0d then (guest_cpuid_0dh env r, h)
             else (guest_cpuid_80000001h env c, h))
      in map_option (\<lambda>x. (x, h1)) (guest_limit_cpuid (hv_vcpus h1 vm v) t lf r1))"

end
