(* ===== verification/Acrn_Vmsr.thy ===== *)
theory Acrn_Vmsr
  imports Acrn_Cpuid
begin

text \<open>
  MSR emulation (\<^verbatim>\<open>src/hypervisor/arch/x86/guest/vmsr.c\<close>, \<^verbatim>\<open>guest/ucode.c\<close>, the TSC deadline
  of \<^verbatim>\<open>guest/vlapic.c\<close>): the bitmap that selects the accesses that exit, the handlers of these
  exits, and the virtual time stamp counter.
\<close>

definition CPU_REG_RAX :: u32 where "CPU_REG_RAX = 0"
definition CPU_REG_RCX :: u32 where "CPU_REG_RCX = 1"
definition CPU_REG_RDX :: u32 where "CPU_REG_RDX = 2"
definition CPU_REG_RBX :: u32 where "CPU_REG_RBX = 3"
definition INTERCEPT_DISABLE :: u32 where "INTERCEPT_DISABLE = 0"
definition INTERCEPT_READ :: u32 where "INTERCEPT_READ = push_bit 0 1"
definition INTERCEPT_WRITE :: u32 where "INTERCEPT_WRITE = push_bit 1 1"
definition INTERCEPT_READ_WRITE :: u32 where "INTERCEPT_READ_WRITE = INTERCEPT_READ OR INTERCEPT_WRITE"
definition MSR_FEATURE_CONFIG :: u32 where "MSR_FEATURE_CONFIG = 0x13C"
definition MSR_IA32_APIC_BASE :: u32 where "MSR_IA32_APIC_BASE = 0x1B"
definition MSR_IA32_CSTAR :: u32 where "MSR_IA32_CSTAR = 0xC0000083"
definition MSR_IA32_EFER :: u32 where "MSR_IA32_EFER = 0xC0000080"
definition MSR_IA32_EFER_MASK :: u64 where "MSR_IA32_EFER_MASK = 0xD01"
definition MSR_IA32_EXT_APIC_CUR_COUNT :: u32 where "MSR_IA32_EXT_APIC_CUR_COUNT = 0x839"
definition MSR_IA32_EXT_APIC_DIV_CONF :: u32 where "MSR_IA32_EXT_APIC_DIV_CONF = 0x83E"
definition MSR_IA32_EXT_APIC_EOI :: u32 where "MSR_IA32_EXT_APIC_EOI = 0x80B"
definition MSR_IA32_EXT_APIC_ESR :: u32 where "MSR_IA32_EXT_APIC_ESR = 0x828"
definition MSR_IA32_EXT_APIC_INIT_COUNT :: u32 where "MSR_IA32_EXT_APIC_INIT_COUNT = 0x838"
definition MSR_IA32_EXT_APIC_IRR0 :: u32 where "MSR_IA32_EXT_APIC_IRR0 = 0x820"
definition MSR_IA32_EXT_APIC_IRR1 :: u32 where "MSR_IA32_EXT_APIC_IRR1 = 0x821"
definition MSR_IA32_EXT_APIC_IRR2 :: u32 where "MSR_IA32_EXT_APIC_IRR2 = 0x822"
definition MSR_IA32_EXT_APIC_IRR3 :: u32 where "MSR_IA32_EXT_APIC_IRR3 = 0x823"
definition MSR_IA32_EXT_APIC_IRR4 :: u32 where "MSR_IA32_EXT_APIC_IRR4 = 0x824"
definition MSR_IA32_EXT_APIC_IRR5 :: u32 where "MSR_IA32_EXT_APIC_IRR5 = 0x825"
definition MSR_IA32_EXT_APIC_IRR6 :: u32 where "MSR_IA32_EXT_APIC_IRR6 = 0x826"
definition MSR_IA32_EXT_APIC_IRR7 :: u32 where "MSR_IA32_EXT_APIC_IRR7 = 0x827"
definition MSR_IA32_EXT_APIC_ISR0 :: u32 where "MSR_IA32_EXT_APIC_ISR0 = 0x810"
definition MSR_IA32_EXT_APIC_ISR1 :: u32 where "MSR_IA32_EXT_APIC_ISR1 = 0x811"
definition MSR_IA32_EXT_APIC_ISR2 :: u32 where "MSR_IA32_EXT_APIC_ISR2 = 0x812"
definition MSR_IA32_EXT_APIC_ISR3 :: u32 where "MSR_IA32_EXT_APIC_ISR3 = 0x813"
definition MSR_IA32_EXT_APIC_ISR4 :: u32 where "MSR_IA32_EXT_APIC_ISR4 = 0x814"
definition MSR_IA32_EXT_APIC_ISR5 :: u32 where "MSR_IA32_EXT_APIC_ISR5 = 0x815"
definition MSR_IA32_EXT_APIC_ISR6 :: u32 where "MSR_IA32_EXT_APIC_ISR6 = 0x816"
definition MSR_IA32_EXT_APIC_ISR7 :: u32 where "MSR_IA32_EXT_APIC_ISR7 = 0x817"
definition MSR_IA32_EXT_APIC_LVT_CMCI :: u32 where "MSR_IA32_EXT_APIC_LVT_CMCI = 0x82F"
definition MSR_IA32_EXT_APIC_LVT_ERROR :: u32 where "MSR_IA32_EXT_APIC_LVT_ERROR = 0x837"
definition MSR_IA32_EXT_APIC_LVT_LINT0 :: u32 where "MSR_IA32_EXT_APIC_LVT_LINT0 = 0x835"
definition MSR_IA32_EXT_APIC_LVT_LINT1 :: u32 where "MSR_IA32_EXT_APIC_LVT_LINT1 = 0x836"
definition MSR_IA32_EXT_APIC_LVT_PMI :: u32 where "MSR_IA32_EXT_APIC_LVT_PMI = 0x834"
definition MSR_IA32_EXT_APIC_LVT_THERMAL :: u32 where "MSR_IA32_EXT_APIC_LVT_THERMAL = 0x833"
definition MSR_IA32_EXT_APIC_LVT_TIMER :: u32 where "MSR_IA32_EXT_APIC_LVT_TIMER = 0x832"
definition MSR_IA32_EXT_APIC_PPR :: u32 where "MSR_IA32_EXT_APIC_PPR = 0x80A"
definition MSR_IA32_EXT_APIC_SELF_IPI :: u32 where "MSR_IA32_EXT_APIC_SELF_IPI = 0x83F"
definition MSR_IA32_EXT_APIC_SIVR :: u32 where "MSR_IA32_EXT_APIC_SIVR = 0x80F"
definition MSR_IA32_EXT_APIC_TMR0 :: u32 where "MSR_IA32_EXT_APIC_TMR0 = 0x818"
definition MSR_IA32_EXT_APIC_TMR1 :: u32 where "MSR_IA32_EXT_APIC_TMR1 = 0x819"
definition MSR_IA32_EXT_APIC_TMR2 :: u32 where "MSR_IA32_EXT_APIC_TMR2 = 0x81A"
definition MSR_IA32_EXT_APIC_TMR3 :: u32 where "MSR_IA32_EXT_APIC_TMR3 = 0x81B"
definition MSR_IA32_EXT_APIC_TMR4 :: u32 where "MSR_IA32_EXT_APIC_TMR4 = 0x81C"
definition MSR_IA32_EXT_APIC_TMR5 :: u32 where "MSR_IA32_EXT_APIC_TMR5 = 0x81D"
definition MSR_IA32_EXT_APIC_TMR6 :: u32 where "MSR_IA32_EXT_APIC_TMR6 = 0x81E"
definition MSR_IA32_EXT_APIC_TMR7 :: u32 where "MSR_IA32_EXT_APIC_TMR7 = 0x81F"
definition MSR_IA32_EXT_APIC_TPR :: u32 where "MSR_IA32_EXT_APIC_TPR = 0x808"
definition MSR_IA32_EXT_APIC_VERSION :: u32 where "MSR_IA32_EXT_APIC_VERSION = 0x803"
definition MSR_IA32_FEATURE_CONTROL_LOCK :: u32 where "MSR_IA32_FEATURE_CONTROL_LOCK = push_bit 0 1"
definition MSR_IA32_FS_BASE :: u32 where "MSR_IA32_FS_BASE = 0xC0000100"
definition MSR_IA32_GS_BASE :: u32 where "MSR_IA32_GS_BASE = 0xC0000101"
definition MSR_IA32_MC0_CTL :: u32 where "MSR_IA32_MC0_CTL = 0x400"
definition MSR_IA32_MC0_CTL2 :: u32 where "MSR_IA32_MC0_CTL2 = 0x280"
definition MSR_IA32_MC0_STATUS :: u32 where "MSR_IA32_MC0_STATUS = 0x401"
definition MSR_IA32_MC4_CTL2 :: u32 where "MSR_IA32_MC4_CTL2 = 0x284"
definition MSR_IA32_MC9_CTL2 :: u32 where "MSR_IA32_MC9_CTL2 = 0x289"
definition MSR_IA32_MC_STATUS_ADDRV :: u64 where "MSR_IA32_MC_STATUS_ADDRV = push_bit 58 1"
definition MSR_IA32_MC_STATUS_MISCV :: u64 where "MSR_IA32_MC_STATUS_MISCV = push_bit 59 1"
definition MSR_IA32_MISC_ENABLE_MASK :: u64 where "MSR_IA32_MISC_ENABLE_MASK = MSR_IA32_MISC_ENABLE_LIMIT_CPUID OR MSR_IA32_MISC_ENABLE_XD_DISABLE"
definition MSR_IA32_MONITOR_FILTER_SIZE :: u32 where "MSR_IA32_MONITOR_FILTER_SIZE = 0x6"
definition MSR_IA32_PLATFORM_ID :: u32 where "MSR_IA32_PLATFORM_ID = 0x17"
definition MSR_IA32_PRED_CMD :: u32 where "MSR_IA32_PRED_CMD = 0x49"
definition MSR_IA32_SPEC_CTRL :: u32 where "MSR_IA32_SPEC_CTRL = 0x48"
definition MSR_IA32_SPEC_CTRL_STIBP :: u64 where "MSR_IA32_SPEC_CTRL_STIBP = push_bit 1 1"
definition MSR_IA32_SYSENTER_CS :: u32 where "MSR_IA32_SYSENTER_CS = 0x174"
definition MSR_IA32_SYSENTER_EIP :: u32 where "MSR_IA32_SYSENTER_EIP = 0x176"
definition MSR_IA32_SYSENTER_ESP :: u32 where "MSR_IA32_SYSENTER_ESP = 0x175"
definition MSR_IA32_TSC_AUX :: u32 where "MSR_IA32_TSC_AUX = 0xC0000103"
definition MSR_PLATFORM_INFO :: u32 where "MSR_PLATFORM_INFO = 0xCE"
definition MCG_CAP_FOR_SAFETY_VM :: u64 where "MCG_CAP_FOR_SAFETY_VM = 0x40A"
definition LOW_MSR_START :: u32 where "LOW_MSR_START = 0"
definition LOW_MSR_END :: u32 where "LOW_MSR_END = 0x1FFF"
definition HIGH_MSR_START :: u32 where "HIGH_MSR_START = 0xC0000000"
definition HIGH_MSR_END :: u32 where "HIGH_MSR_END = 0xC0001FFF"
definition NUM_MC_BANKS :: u32 where "NUM_MC_BANKS = 10"
definition NUM_UNINTERCEPTED_MSRS :: u32 where "NUM_UNINTERCEPTED_MSRS = 16"
definition NUM_X2APIC_MSRS :: u32 where "NUM_X2APIC_MSRS = 44"
definition PAT_FIELD_RSV_BITS :: u64 where "PAT_FIELD_RSV_BITS = 0xF8"
definition VMX_MSR_BITMAP_FULL :: u32 where "VMX_MSR_BITMAP_FULL = 0x2004"
definition VMX_TSC_OFFSET_FULL :: u32 where "VMX_TSC_OFFSET_FULL = 0x2010"

definition unintercepted_msrs :: "u32 list" where
  "unintercepted_msrs =
     [MSR_IA32_PLATFORM_ID, MSR_IA32_PRED_CMD, MSR_PLATFORM_INFO, MSR_IA32_FLUSH_CMD, MSR_FEATURE_CONFIG,
      MSR_IA32_SYSENTER_CS, MSR_IA32_SYSENTER_ESP, MSR_IA32_SYSENTER_EIP, MSR_IA32_STAR, MSR_IA32_LSTAR,
      MSR_IA32_CSTAR, MSR_IA32_FMASK, MSR_IA32_FS_BASE, MSR_IA32_GS_BASE, MSR_IA32_KERNEL_GS_BASE, MSR_IA32_TSC_AUX]"

definition x2apic_msrs :: "u32 list" where
  "x2apic_msrs =
     [MSR_IA32_EXT_XAPICID, MSR_IA32_EXT_APIC_VERSION, MSR_IA32_EXT_APIC_TPR, MSR_IA32_EXT_APIC_PPR,
      MSR_IA32_EXT_APIC_EOI, MSR_IA32_EXT_APIC_LDR, MSR_IA32_EXT_APIC_SIVR,
      MSR_IA32_EXT_APIC_ISR0, MSR_IA32_EXT_APIC_ISR1, MSR_IA32_EXT_APIC_ISR2, MSR_IA32_EXT_APIC_ISR3,
      MSR_IA32_EXT_APIC_ISR4, MSR_IA32_EXT_APIC_ISR5, MSR_IA32_EXT_APIC_ISR6, MSR_IA32_EXT_APIC_ISR7,
      MSR_IA32_EXT_APIC_TMR0, MSR_IA32_EXT_APIC_TMR1, MSR_IA32_EXT_APIC_TMR2, MSR_IA32_EXT_APIC_TMR3,
      MSR_IA32_EXT_APIC_TMR4, MSR_IA32_EXT_APIC_TMR5, MSR_IA32_EXT_APIC_TMR6, MSR_IA32_EXT_APIC_TMR7,
      MSR_IA32_EXT_APIC_IRR0, MSR_IA32_EXT_APIC_IRR1, MSR_IA32_EXT_APIC_IRR2, MSR_IA32_EXT_APIC_IRR3,
      MSR_IA32_EXT_APIC_IRR4, MSR_IA32_EXT_APIC_IRR5, MSR_IA32_EXT_APIC_IRR6, MSR_IA32_EXT_APIC_IRR7,
      MSR_IA32_EXT_APIC_ESR, MSR_IA32_EXT_APIC_LVT_CMCI, MSR_IA32_EXT_APIC_ICR, MSR_IA32_EXT_APIC_LVT_TIMER,
      MSR_IA32_EXT_APIC_LVT_THERMAL, MSR_IA32_EXT_APIC_LVT_PMI, MSR_IA32_EXT_APIC_LVT_LINT0,
      MSR_IA32_EXT_APIC_LVT_LINT1, MSR_IA32_EXT_APIC_LVT_ERROR, MSR_IA32_EXT_APIC_INIT_COUNT,
      MSR_IA32_EXT_APIC_CUR_COUNT, MSR_IA32_EXT_APIC_DIV_CONF, MSR_IA32_EXT_APIC_SELF_IPI]"

definition is_x2apic_msr :: "u32 \<Rightarrow> bool" where
  "is_x2apic_msr msr \<longleftrightarrow> msr \<in> set x2apic_msrs"

subsection \<open>The MSR bitmap\<close>

definition enable_msr_interception :: "u32 \<Rightarrow> u32 \<Rightarrow> (nat \<Rightarrow> u8) \<Rightarrow> nat \<Rightarrow> u8" where
  "enable_msr_interception msr_arg mode bm =
     (let high = msr_arg AND HIGH_MSR_START \<noteq> 0;
          read_offset = (if high then 1024 else 0);
          write_offset = (if high then 2048 + 1024 else 2048);
          msr = msr_arg AND 0x1FFF;
          msr_bit = push_bit (unat (msr AND 0x7)) 1;
          msr_index = unat (drop_bit 3 msr);
          r = read_offset + msr_index;
          b1 = (if mode AND INTERCEPT_READ = INTERCEPT_READ then bm(r := bm r OR msr_bit)
                else bm(r := bm r AND NOT msr_bit));
          w = write_offset + msr_index
      in if mode AND INTERCEPT_WRITE = INTERCEPT_WRITE then b1(w := b1 w OR msr_bit)
         else b1(w := b1 w AND NOT msr_bit))"

definition intercept_all :: "u32 \<Rightarrow> u32 list \<Rightarrow> (nat \<Rightarrow> u8) \<Rightarrow> nat \<Rightarrow> u8" where
  "intercept_all mode msrs bm = fold (\<lambda>msr. enable_msr_interception msr mode) msrs bm"

definition intercept_x2apic_msrs :: "u32 \<Rightarrow> (nat \<Rightarrow> u8) \<Rightarrow> nat \<Rightarrow> u8" where
  "intercept_x2apic_msrs mode bm = intercept_all mode x2apic_msrs bm"

definition set_bitmap :: "((nat \<Rightarrow> u8) \<Rightarrow> nat \<Rightarrow> u8) \<Rightarrow> u16 \<Rightarrow> u16 \<Rightarrow> hv \<Rightarrow> hv" where
  "set_bitmap f vm v h = upd_vcpu vm v (\<lambda>c. c\<lparr>msr_bitmap := f (msr_bitmap c)\<rparr>) h"

subsection \<open>The TSC deadline\<close>

definition vlapic_get_tsc_deadline_msr :: "hw_env \<Rightarrow> u16 \<Rightarrow> u16 \<Rightarrow> hv \<Rightarrow> u64 \<times> hv" where
  "vlapic_get_tsc_deadline_msr env vm v h =
     (let (x, h1) = hv_msr_read env MSR_IA32_TSC_DEADLINE h
      in if x = 0 then (0, upd_vcpu vm v (vcpu_set_guest_msr MSR_IA32_TSC_DEADLINE 0) h1)
         else (vcpu_get_guest_msr (hv_vcpus h1 vm v) MSR_IA32_TSC_DEADLINE, h1))"

definition vlapic_set_tsc_deadline_msr :: "u16 \<Rightarrow> u16 \<Rightarrow> u64 \<Rightarrow> hv \<Rightarrow> hv" where
  "vlapic_set_tsc_deadline_msr vm v val_arg h =
     (let h1 = upd_vcpu vm v (vcpu_set_guest_msr MSR_IA32_TSC_DEADLINE val_arg) h
      in if val_arg \<noteq> 0 then
           let val = val_arg - exec_vmread64 VMX_TSC_OFFSET_FULL (hv_vcpus h1 vm v);
               val1 = (if val = 0 then val + 1 else val)
           in hv_msr_write MSR_IA32_TSC_DEADLINE val1 h1
         else hv_msr_write MSR_IA32_TSC_DEADLINE 0 h1)"

definition set_tsc_msr_interception :: "hw_env \<Rightarrow> u16 \<Rightarrow> u16 \<Rightarrow> bool \<Rightarrow> hv \<Rightarrow> hv" where
  "set_tsc_msr_interception env vm v interception h =
     (let is_intercepted = (msr_bitmap (hv_vcpus h vm v) (unat (drop_bit 3 MSR_IA32_TSC_DEADLINE))
                              AND push_bit (unat (MSR_IA32_TSC_DEADLINE AND 0x7)) 1 \<noteq> 0) in
      if \<not> interception \<and> is_intercepted then
        let h1 = set_bitmap (enable_msr_interception MSR_IA32_TSC_DEADLINE INTERCEPT_DISABLE) vm v h;
            h2 = set_bitmap (enable_msr_interception MSR_IA32_TSC_ADJUST INTERCEPT_WRITE) vm v h1;
            (x, h3) = hv_msr_read env MSR_IA32_TSC_DEADLINE h2
        in if x \<noteq> 0 then hv_msr_write MSR_IA32_TSC_DEADLINE (vcpu_get_guest_msr (hv_vcpus h3 vm v) MSR_IA32_TSC_DEADLINE) h3
           else upd_vcpu vm v (vcpu_set_guest_msr MSR_IA32_TSC_DEADLINE 0) h3
      else if interception \<and> \<not> is_intercepted then
        let h1 = set_bitmap (enable_msr_interception MSR_IA32_TSC_DEADLINE INTERCEPT_READ_WRITE) vm v h;
            h2 = set_bitmap (enable_msr_interception MSR_IA32_TSC_ADJUST INTERCEPT_READ_WRITE) vm v h1;
            (x, h3) = hv_msr_read env MSR_IA32_TSC_DEADLINE h2
        in upd_vcpu vm v (vcpu_set_guest_msr MSR_IA32_TSC_DEADLINE x) h3
      else h)"

subsection \<open>Initialisation\<close>

definition init_msr_area :: "u16 \<Rightarrow> u16 \<Rightarrow> hv \<Rightarrow> hv" where
  "init_msr_area vm v h =
     upd_vcpu vm v (\<lambda>c. c\<lparr>msr_area_guest := (MSR_IA32_TSC_AUX, 0),
       msr_area_host := (MSR_IA32_TSC_AUX, ucast (pcpuid_from_vcpu vm v h))\<rparr>) h"

definition update_msr_bitmap_x2apic_passthru :: "hw_env \<Rightarrow> u16 \<Rightarrow> u16 \<Rightarrow> hv \<Rightarrow> hv" where
  "update_msr_bitmap_x2apic_passthru env vm v h =
     (let h1 = set_bitmap (intercept_x2apic_msrs INTERCEPT_DISABLE) vm v h;
          h2 = set_bitmap (enable_msr_interception MSR_IA32_EXT_XAPICID INTERCEPT_READ) vm v h1;
          h3 = set_bitmap (enable_msr_interception MSR_IA32_EXT_APIC_LDR INTERCEPT_READ) vm v h2;
          h4 = set_bitmap (enable_msr_interception MSR_IA32_EXT_APIC_ICR INTERCEPT_READ_WRITE) vm v h3
      in set_tsc_msr_interception env vm v (exec_vmread64 VMX_TSC_OFFSET_FULL (hv_vcpus h4 vm v) \<noteq> 0) h4)"

text \<open>The numbers from \<open>lo\<close> to \<open>hi\<close> that a loop over MSRs visits.\<close>

definition msr_range :: "u32 \<Rightarrow> u32 \<Rightarrow> u32 list" where
  "msr_range lo hi = map of_nat [unat lo..<unat hi + 1]"

definition base_msr_bitmap :: "bool \<Rightarrow> (nat \<Rightarrow> u8) \<Rightarrow> nat \<Rightarrow> u8" where
  "base_msr_bitmap safety b =
     (let b1 = intercept_all INTERCEPT_READ_WRITE (msr_range LOW_MSR_START LOW_MSR_END) b;
          b2 = intercept_all INTERCEPT_READ_WRITE (msr_range HIGH_MSR_START HIGH_MSR_END) b1;
          b3 = intercept_all INTERCEPT_DISABLE unintercepted_msrs b2;
          b4 = enable_msr_interception MSR_IA32_TIME_STAMP_COUNTER INTERCEPT_WRITE b3;
          b5 = enable_msr_interception MSR_IA32_EFER INTERCEPT_WRITE b4
      in if safety then
           let b6 = intercept_all INTERCEPT_DISABLE (map of_nat [unat MSR_IA32_MC0_CTL2..<unat MSR_IA32_MC4_CTL2]) b5;
               b7 = intercept_all INTERCEPT_DISABLE (map (\<lambda>i. MSR_IA32_MC0_CTL + 4 * of_nat i) [0..<unat NUM_MC_BANKS]) b6
           in intercept_all INTERCEPT_READ (map (\<lambda>i. MSR_IA32_MC0_STATUS + 4 * of_nat i) [0..<unat NUM_MC_BANKS]) b7
         else b5)"

definition init_msr_emulation :: "hw_env \<Rightarrow> u16 \<Rightarrow> u16 \<Rightarrow> hv \<Rightarrow> hv" where
  "init_msr_emulation env vm v h =
     (let h1 = set_bitmap (base_msr_bitmap (is_safety_vm vm)) vm v h;
          h2 = update_msr_bitmap_x2apic_passthru env vm v h1;
          h3 = upd_vcpu vm v (exec_vmwrite VMX_MSR_BITMAP_FULL (hw_addr env (Msr_bitmap vm v))) h2
      in if \<not> vcpu_powerup (hv_vcpus h3 vm v) then init_msr_area vm v h3 else h3)"

subsection \<open>The memory types\<close>

definition is_pat_mem_type_invalid :: "u64 \<Rightarrow> bool" where
  "is_pat_mem_type_invalid x \<longleftrightarrow> x AND PAT_FIELD_RSV_BITS \<noteq> 0 \<or> x AND 0x6 = 0x2"

definition write_pat_msr :: "u16 \<Rightarrow> u16 \<Rightarrow> u64 \<Rightarrow> hv \<Rightarrow> i32 \<times> hv" where
  "write_pat_msr vm v val h =
     (if \<exists>i \<in> set [0..<8]. is_pat_mem_type_invalid (drop_bit (i * 8) val AND 0xff) then (- EINVAL, h)
      else
        let h1 = upd_vcpu vm v (vcpu_set_guest_msr MSR_IA32_PAT val) h;
            (x, h2) = on_vcpu vm v vcpu_get_cr0 h1
        in (0, if x AND CR0_CD = 0 then upd_vcpu vm v (exec_vmwrite VMX_GUEST_IA32_PAT_FULL val) h2 else h2))"

definition is_mc_ctl2_msr :: "u32 \<Rightarrow> bool" where
  "is_mc_ctl2_msr msr \<longleftrightarrow> msr \<ge> MSR_IA32_MC0_CTL2 \<and> msr < MSR_IA32_MC0_CTL2 + NUM_MC_BANKS"

definition is_mc_ctl_msr :: "u32 \<Rightarrow> bool" where
  "is_mc_ctl_msr msr \<longleftrightarrow> msr \<ge> MSR_IA32_MC0_CTL \<and> msr < MSR_IA32_MC0_CTL + 4 * NUM_MC_BANKS \<and> msr mod 4 = 0"

definition is_mc_status_msr :: "u32 \<Rightarrow> bool" where
  "is_mc_status_msr msr \<longleftrightarrow> msr \<ge> MSR_IA32_MC0_STATUS \<and> msr < MSR_IA32_MC0_STATUS + 4 * NUM_MC_BANKS \<and> msr mod 4 = 1"

subsection \<open>Reading an MSR\<close>

definition get_microcode_version :: "hw_env \<Rightarrow> hv \<Rightarrow> u64 \<times> hv" where
  "get_microcode_version env h = hv_msr_read env MSR_IA32_BIOS_SIGN_ID (hv_msr_write MSR_IA32_BIOS_SIGN_ID 0 h)"

definition rdmsr_default :: "hw_env \<Rightarrow> u16 \<Rightarrow> u16 \<Rightarrow> u32 \<Rightarrow> hv \<Rightarrow> i32 \<times> u64 \<times> hv" where
  "rdmsr_default env vm v msr h =
     (if is_mc_ctl2_msr msr \<or> is_mc_ctl_msr msr then (if is_safety_vm vm then (0, 0, h) else (- EACCES, 0, h))
      else if is_mc_status_msr msr then
        if is_safety_vm vm then
          let (x, h1) = hv_msr_read env msr h
          in (0, x AND NOT (MSR_IA32_MC_STATUS_ADDRV OR MSR_IA32_MC_STATUS_MISCV), h1)
        else (- EACCES, 0, h)
      else if is_x2apic_msr msr then
        (case vlapic_x2apic_read (hv_vcpus h vm v) msr of (err, x) \<Rightarrow> (err, case x of Some y \<Rightarrow> y | None \<Rightarrow> 0, h))
      else (- EACCES, 0, h))"

definition rdmsr_value :: "hw_env \<Rightarrow> u16 \<Rightarrow> u16 \<Rightarrow> u32 \<Rightarrow> hv \<Rightarrow> i32 \<times> u64 \<times> hv" where
  "rdmsr_value env vm v msr h =
     (let c = hv_vcpus h vm v in
      if msr = MSR_IA32_P5_MC_ADDR \<or> msr = MSR_IA32_P5_MC_TYPE \<or> msr = MSR_IA32_MCG_STATUS then (0, 0, h)
      else if msr = MSR_IA32_TSC_DEADLINE then (0, vlapic_get_tsc_deadline_msr env vm v h)
      else if msr = MSR_IA32_TSC_ADJUST then (0, vcpu_get_guest_msr c MSR_IA32_TSC_ADJUST, h)
      else if msr = MSR_IA32_BIOS_SIGN_ID then (0, get_microcode_version env h)
      else if msr = MSR_IA32_PAT then (0, vcpu_get_guest_msr c MSR_IA32_PAT, h)
      else if msr = MSR_IA32_APIC_BASE then (0, vlapic_get_apicbase (vlapic c), h)
      else if msr = MSR_IA32_FEATURE_CONTROL then (0, ucast MSR_IA32_FEATURE_CONTROL_LOCK, h)
      else if msr = MSR_IA32_MISC_ENABLE then (0, vcpu_get_guest_msr c MSR_IA32_MISC_ENABLE, h)
      else if msr = MSR_IA32_SPEC_CTRL then
        (let (x, h1) = hv_msr_read env MSR_IA32_SPEC_CTRL h in (0, x AND NOT MSR_IA32_SPEC_CTRL_STIBP, h1))
      else if msr = MSR_IA32_MONITOR_FILTER_SIZE then (0, 0, h)
      else if msr = MSR_IA32_MCG_CAP then (0, if is_safety_vm vm then MCG_CAP_FOR_SAFETY_VM else 0, h)
      else rdmsr_default env vm v msr h)"

definition rdmsr_vmexit_handler :: "hw_env \<Rightarrow> u16 \<Rightarrow> u16 \<Rightarrow> hv \<Rightarrow> i32 \<times> hv" where
  "rdmsr_vmexit_handler env vm v h =
     (let msr = ucast (vcpu_get_gpreg (hv_vcpus h vm v) CPU_REG_RCX);
          (err, x, h1) = rdmsr_value env vm v msr h
      in (err, if err = 0 then
                 upd_vcpu vm v (\<lambda>c. vcpu_set_gpreg CPU_REG_RDX (drop_bit 32 x)
                   (vcpu_set_gpreg CPU_REG_RAX (x AND 0xffffffff) c)) h1
               else h1))"

subsection \<open>The time stamp counter\<close>

definition rdtsc :: "hw_env \<Rightarrow> hv \<Rightarrow> u64 \<times> hv" where
  "rdtsc env h = (hw_tsc env (hv_hw h), hw_op Rdtsc h)"

definition set_guest_tsc :: "hw_env \<Rightarrow> u16 \<Rightarrow> u16 \<Rightarrow> u64 \<Rightarrow> hv \<Rightarrow> hv" where
  "set_guest_tsc env vm v guest_tsc h =
     (let (now, h1) = rdtsc env h;
          tsc_delta = guest_tsc - now;
          tsc_offset_delta = tsc_delta - exec_vmread64 VMX_TSC_OFFSET_FULL (hv_vcpus h1 vm v);
          tsc_adjust = vcpu_get_guest_msr (hv_vcpus h1 vm v) MSR_IA32_TSC_ADJUST;
          h2 = upd_vcpu vm v (vcpu_set_guest_msr MSR_IA32_TSC_ADJUST (tsc_adjust + tsc_offset_delta)) h1;
          h3 = upd_vcpu vm v (exec_vmwrite VMX_TSC_OFFSET_FULL tsc_delta) h2
      in set_tsc_msr_interception env vm v (tsc_delta \<noteq> 0) h3)"

definition set_guest_tsc_adjust :: "hw_env \<Rightarrow> u16 \<Rightarrow> u16 \<Rightarrow> u64 \<Rightarrow> hv \<Rightarrow> hv" where
  "set_guest_tsc_adjust env vm v tsc_adjust h =
     (let tsc_adjust_delta = tsc_adjust - vcpu_get_guest_msr (hv_vcpus h vm v) MSR_IA32_TSC_ADJUST;
          tsc_offset = exec_vmread64 VMX_TSC_OFFSET_FULL (hv_vcpus h vm v);
          h1 = upd_vcpu vm v (exec_vmwrite VMX_TSC_OFFSET_FULL (tsc_offset + tsc_adjust_delta)) h;
          h2 = upd_vcpu vm v (vcpu_set_guest_msr MSR_IA32_TSC_ADJUST tsc_adjust) h1
      in set_tsc_msr_interception env vm v (tsc_offset + tsc_adjust_delta \<noteq> 0) h2)"

subsection \<open>Writing an MSR\<close>

definition set_guest_ia32_misc_enable :: "u16 \<Rightarrow> u16 \<Rightarrow> u16 \<Rightarrow> u64 \<Rightarrow> hv \<Rightarrow> i32 \<times> hv" where
  "set_guest_ia32_misc_enable cpu vm v val h =
     (let cur = vcpu_get_guest_msr (hv_vcpus h vm v) MSR_IA32_MISC_ENABLE;
          changed = val XOR cur
      in if changed AND NOT MSR_IA32_MISC_ENABLE_MASK \<noteq> 0 then (- EACCES, h)
         else
           let h1 = (if changed AND MSR_IA32_MISC_ENABLE_MASK \<noteq> 0 then
                       upd_vcpu vm v (vcpu_set_guest_msr MSR_IA32_MISC_ENABLE
                         ((cur AND NOT MSR_IA32_MISC_ENABLE_MASK) OR (val AND MSR_IA32_MISC_ENABLE_MASK))) h
                     else h)
           in if val AND MSR_IA32_MISC_ENABLE_XD_DISABLE \<noteq> 0 then
                let (efer, h2) = on_vcpu vm v vcpu_get_efer h1
                in if efer AND MSR_IA32_EFER_NXE_BIT \<noteq> 0 then
                     (0, vcpu_make_request cpu vm v ACRN_REQUEST_EPT_FLUSH
                           (upd_vcpu vm v (vcpu_set_efer (efer AND NOT MSR_IA32_EFER_NXE_BIT)) h2))
                   else (0, h2)
              else (0, h1))"

text \<open>The other registers that \<^verbatim>\<open>guest_cpuid\<close> is given are not read for this leaf.\<close>

definition write_efer_msr :: "hw_env \<Rightarrow> u16 \<Rightarrow> u16 \<Rightarrow> u16 \<Rightarrow> u64 \<Rightarrow> hv \<Rightarrow> (i32 \<times> hv) option" where
  "write_efer_msr env cpu vm v val h =
     (let (guest_efer, h1) = on_vcpu vm v vcpu_get_efer h;
          changed = guest_efer XOR val
      in if changed AND NOT MSR_IA32_EFER_MASK \<noteq> 0 then Some (- EACCES, h1)
         else
           let (paging, h2) = (if changed AND MSR_IA32_EFER_LME_BIT \<noteq> 0 then on_vcpu vm v is_paging_enabled h1 else (False, h1))
           in if paging then Some (- EACCES, h2)
              else do {
                (r, h3) \<leftarrow> guest_cpuid env vm v \<lparr>r_eax = CPUID_EXTEND_FUNCTION_1, r_ebx = 0, r_ecx = 0, r_edx = 0\<rparr> h2;
                if r_edx r AND CPUID_EDX_XD_BIT_AVIL = 0 \<and> val AND MSR_IA32_EFER_NXE_BIT \<noteq> 0 then Some (- EACCES, h3)
                else
                  let new_val = (if changed AND MSR_IA32_EFER_LMA_BIT \<noteq> 0
                                 then (val AND NOT MSR_IA32_EFER_LMA_BIT) OR (guest_efer AND MSR_IA32_EFER_LMA_BIT) else val);
                      h4 = upd_vcpu vm v (vcpu_set_efer new_val) h3
                  in Some (0, if changed AND MSR_IA32_EFER_NXE_BIT \<noteq> 0
                              then vcpu_make_request cpu vm v ACRN_REQUEST_EPT_FLUSH h4 else h4)
              })"

definition wrmsr_default :: "u16 \<Rightarrow> u16 \<Rightarrow> u16 \<Rightarrow> u32 \<Rightarrow> u64 \<Rightarrow> hv \<Rightarrow> (i32 \<times> hv) option" where
  "wrmsr_default cpu vm v msr val h =
     (if is_mc_ctl2_msr msr \<or> is_mc_ctl_msr msr \<or> is_mc_status_msr msr then
        Some (if \<not> is_safety_vm vm then - EACCES else 0, h)
      else if is_x2apic_msr msr then vlapic_x2apic_write cpu vm v msr val h
      else Some (- EACCES, h))"

definition wrmsr_value :: "hw_env \<Rightarrow> u16 \<Rightarrow> u16 \<Rightarrow> u16 \<Rightarrow> u32 \<Rightarrow> u64 \<Rightarrow> hv \<Rightarrow> (i32 \<times> hv) option" where
  "wrmsr_value env cpu vm v msr val h =
     (if msr = MSR_IA32_TSC_DEADLINE then Some (0, vlapic_set_tsc_deadline_msr vm v val h)
      else if msr = MSR_IA32_TSC_ADJUST then Some (0, set_guest_tsc_adjust env vm v val h)
      else if msr = MSR_IA32_TIME_STAMP_COUNTER then Some (0, set_guest_tsc env vm v val h)
      else if msr = MSR_IA32_P5_MC_ADDR \<or> msr = MSR_IA32_P5_MC_TYPE \<or> msr = MSR_IA32_MCG_STATUS \<or>
              msr = MSR_IA32_BIOS_SIGN_ID then Some (if val \<noteq> 0 then - EACCES else 0, h)
      else if msr = MSR_IA32_PAT then Some (write_pat_msr vm v val h)
      else if msr = MSR_IA32_EFER then write_efer_msr env cpu vm v val h
      else if msr = MSR_IA32_MISC_ENABLE then Some (set_guest_ia32_misc_enable cpu vm v val h)
      else if msr = MSR_IA32_SPEC_CTRL then Some (0, hv_msr_write MSR_IA32_SPEC_CTRL (val AND NOT MSR_IA32_SPEC_CTRL_STIBP) h)
      else if msr = MSR_IA32_MONITOR_FILTER_SIZE then Some (0, h)
      else wrmsr_default cpu vm v msr val h)"

definition wrmsr_vmexit_handler :: "hw_env \<Rightarrow> u16 \<Rightarrow> u16 \<Rightarrow> u16 \<Rightarrow> hv \<Rightarrow> (i32 \<times> hv) option" where
  "wrmsr_vmexit_handler env cpu vm v h =
     (let c = hv_vcpus h vm v
      in wrmsr_value env cpu vm v (ucast (vcpu_get_gpreg c CPU_REG_RCX))
           (push_bit 32 (vcpu_get_gpreg c CPU_REG_RDX) OR (vcpu_get_gpreg c CPU_REG_RAX AND 0xFFFFFFFF)) h)"

end
