(* ===== verification/Acrn_Vmcs.thy ===== *)
theory Acrn_Vmcs
  imports Acrn_Vmsr
begin

text \<open>
  The VMCS of a virtual CPU (\<^verbatim>\<open>src/hypervisor/arch/x86/guest/vmcs.c\<close>) and the run of the guest
  up to the next VM exit, \<^verbatim>\<open>run_vcpu\<close> of \<^verbatim>\<open>guest/vcpu.c\<close>. The VMCS that \<^verbatim>\<open>vmptrld\<close> made
  current is the one of the virtual CPU at hand, as it is wherever the code accesses it.
\<close>

definition VMX_GUEST_GDTR_BASE :: u32 where "VMX_GUEST_GDTR_BASE = 0x6816"
definition VMX_GUEST_GDTR_LIMIT :: u32 where "VMX_GUEST_GDTR_LIMIT = 0x4810"
definition VMX_GUEST_IDTR_BASE :: u32 where "VMX_GUEST_IDTR_BASE = 0x6818"
definition VMX_GUEST_IDTR_LIMIT :: u32 where "VMX_GUEST_IDTR_LIMIT = 0x4812"
definition VMX_GUEST_CS_SEL :: u32 where "VMX_GUEST_CS_SEL = 0x802"
definition VMX_GUEST_CS_BASE :: u32 where "VMX_GUEST_CS_BASE = 0x6808"
definition VMX_GUEST_CS_LIMIT :: u32 where "VMX_GUEST_CS_LIMIT = 0x4802"
definition VMX_GUEST_SS_SEL :: u32 where "VMX_GUEST_SS_SEL = 0x804"
definition VMX_GUEST_SS_BASE :: u32 where "VMX_GUEST_SS_BASE = 0x680A"
definition VMX_GUEST_SS_LIMIT :: u32 where "VMX_GUEST_SS_LIMIT = 0x4804"
definition VMX_GUEST_SS_ATTR :: u32 where "VMX_GUEST_SS_ATTR = 0x4818"
definition VMX_GUEST_DS_SEL :: u32 where "VMX_GUEST_DS_SEL = 0x806"
definition VMX_GUEST_DS_BASE :: u32 where "VMX_GUEST_DS_BASE = 0x680C"
definition VMX_GUEST_DS_LIMIT :: u32 where "VMX_GUEST_DS_LIMIT = 0x4806"
definition VMX_GUEST_DS_ATTR :: u32 where "VMX_GUEST_DS_ATTR = 0x481A"
definition VMX_GUEST_ES_SEL :: u32 where "VMX_GUEST_ES_SEL = 0x800"
definition VMX_GUEST_ES_BASE :: u32 where "VMX_GUEST_ES_BASE = 0x6806"
definition VMX_GUEST_ES_LIMIT :: u32 where "VMX_GUEST_ES_LIMIT = 0x4800"
definition VMX_GUEST_ES_ATTR :: u32 where "VMX_GUEST_ES_ATTR = 0x4814"
definition VMX_GUEST_FS_SEL :: u32 where "VMX_GUEST_FS_SEL = 0x808"
definition VMX_GUEST_FS_BASE :: u32 where "VMX_GUEST_FS_BASE = 0x680E"
definition VMX_GUEST_FS_LIMIT :: u32 where "VMX_GUEST_FS_LIMIT = 0x4808"
definition VMX_GUEST_FS_ATTR :: u32 where "VMX_GUEST_FS_ATTR = 0x481C"
definition VMX_GUEST_GS_SEL :: u32 where "VMX_GUEST_GS_SEL = 0x80A"
definition VMX_GUEST_GS_BASE :: u32 where "VMX_GUEST_GS_BASE = 0x6810"
definition VMX_GUEST_GS_LIMIT :: u32 where "VMX_GUEST_GS_LIMIT = 0x480A"
definition VMX_GUEST_GS_ATTR :: u32 where "VMX_GUEST_GS_ATTR = 0x481E"
definition VMX_GUEST_TR_SEL :: u32 where "VMX_GUEST_TR_SEL = 0x80E"
definition VMX_GUEST_TR_BASE :: u32 where "VMX_GUEST_TR_BASE = 0x6814"
definition VMX_GUEST_TR_LIMIT :: u32 where "VMX_GUEST_TR_LIMIT = 0x480E"
definition VMX_GUEST_LDTR_SEL :: u32 where "VMX_GUEST_LDTR_SEL = 0x80C"
definition VMX_GUEST_LDTR_BASE :: u32 where "VMX_GUEST_LDTR_BASE = 0x6812"
definition VMX_GUEST_LDTR_LIMIT :: u32 where "VMX_GUEST_LDTR_LIMIT = 0x480C"
definition VMX_GUEST_LDTR_ATTR :: u32 where "VMX_GUEST_LDTR_ATTR = 0x4820"
definition MSR_IA32_MISC_ENABLE_MONITOR_ENA :: u64 where "MSR_IA32_MISC_ENABLE_MONITOR_ENA = push_bit 18 1"
definition MSR_IA32_MISC_ENABLE_PMA :: u64 where "MSR_IA32_MISC_ENABLE_PMA = push_bit 7 1"
definition MSR_IA32_MISC_ENABLE_EITS :: u64 where "MSR_IA32_MISC_ENABLE_EITS = push_bit 16 1"
definition MSR_IA32_MISC_ENABLE_TCC :: u64 where "MSR_IA32_MISC_ENABLE_TCC = push_bit 3 1"
definition MSR_IA32_MISC_BTS_UNAVILABLE :: u64 where "MSR_IA32_MISC_BTS_UNAVILABLE = push_bit 11 1"
definition MSR_IA32_MISC_PEBS_UNAVILABLE :: u64 where "MSR_IA32_MISC_PEBS_UNAVILABLE = push_bit 12 1"
definition VMX_GUEST_IA32_SYSENTER_CS :: u32 where "VMX_GUEST_IA32_SYSENTER_CS = 0x482A"
definition VMX_GUEST_IA32_SYSENTER_ESP :: u32 where "VMX_GUEST_IA32_SYSENTER_ESP = 0x6824"
definition VMX_GUEST_IA32_SYSENTER_EIP :: u32 where "VMX_GUEST_IA32_SYSENTER_EIP = 0x6826"
definition VMX_GUEST_PENDING_DEBUG_EXCEPT :: u32 where "VMX_GUEST_PENDING_DEBUG_EXCEPT = 0x6822"
definition VMX_GUEST_IA32_DEBUGCTL_FULL :: u32 where "VMX_GUEST_IA32_DEBUGCTL_FULL = 0x2802"
definition VMX_GUEST_INTERRUPTIBILITY_INFO :: u32 where "VMX_GUEST_INTERRUPTIBILITY_INFO = 0x4824"
definition VMX_GUEST_ACTIVITY_STATE :: u32 where "VMX_GUEST_ACTIVITY_STATE = 0x4826"
definition VMX_GUEST_SMBASE :: u32 where "VMX_GUEST_SMBASE = 0x4828"
definition PAT_MEM_TYPE_WB :: u64 where "PAT_MEM_TYPE_WB = 0x6"
definition PAT_MEM_TYPE_WT :: u64 where "PAT_MEM_TYPE_WT = 0x4"
definition PAT_MEM_TYPE_UCM :: u64 where "PAT_MEM_TYPE_UCM = 0x7"
definition PAT_POWER_ON_VALUE :: u64 where "PAT_POWER_ON_VALUE = (PAT_MEM_TYPE_WB + (push_bit 8 PAT_MEM_TYPE_WT) + (push_bit 16 PAT_MEM_TYPE_UCM) + (push_bit 24 PAT_MEM_TYPE_UC) + (push_bit 32 PAT_MEM_TYPE_WB) + (push_bit 40 PAT_MEM_TYPE_WT) + (push_bit 48 PAT_MEM_TYPE_UCM) + (push_bit 56 PAT_MEM_TYPE_UC))"
definition VMX_GUEST_DR7 :: u32 where "VMX_GUEST_DR7 = 0x681A"
definition DR7_INIT_VALUE :: u64 where "DR7_INIT_VALUE = 0x400"
definition VMX_HOST_ES_SEL :: u32 where "VMX_HOST_ES_SEL = 0xC00"
definition VMX_HOST_CS_SEL :: u32 where "VMX_HOST_CS_SEL = 0xC02"
definition VMX_HOST_SS_SEL :: u32 where "VMX_HOST_SS_SEL = 0xC04"
definition VMX_HOST_DS_SEL :: u32 where "VMX_HOST_DS_SEL = 0xC06"
definition VMX_HOST_FS_SEL :: u32 where "VMX_HOST_FS_SEL = 0xC08"
definition VMX_HOST_GS_SEL :: u32 where "VMX_HOST_GS_SEL = 0xC0A"
definition VMX_HOST_TR_SEL :: u32 where "VMX_HOST_TR_SEL = 0xC0C"
definition HOST_GDT_RING0_SEG_SELECTORS :: u32 where "HOST_GDT_RING0_SEG_SELECTORS = 0x3"
definition X64_SEG_DESC_SIZE :: u32 where "X64_SEG_DESC_SIZE = 0x8"
definition HOST_GDT_RING0_LDT_SEL :: u32 where "HOST_GDT_RING0_LDT_SEL = HOST_GDT_RING0_SEG_SELECTORS * X64_SEG_DESC_SIZE"
definition HOST_GDT_RING0_CPU_TSS_SEL :: u16 where "HOST_GDT_RING0_CPU_TSS_SEL = ((ucast HOST_GDT_RING0_LDT_SEL))"
definition VMX_HOST_GDTR_BASE :: u32 where "VMX_HOST_GDTR_BASE = 0x6C0C"
definition VMX_HOST_TR_BASE :: u32 where "VMX_HOST_TR_BASE = 0x6C0A"
definition VMX_HOST_IDTR_BASE :: u32 where "VMX_HOST_IDTR_BASE = 0x6C0E"
definition VMX_HOST_IA32_PAT_FULL :: u32 where "VMX_HOST_IA32_PAT_FULL = 0x2C00"
definition VMX_HOST_IA32_EFER_FULL :: u32 where "VMX_HOST_IA32_EFER_FULL = 0x2C02"
definition VMX_HOST_CR0 :: u32 where "VMX_HOST_CR0 = 0x6C00"
definition VMX_HOST_CR3 :: u32 where "VMX_HOST_CR3 = 0x6C02"
definition VMX_HOST_CR4 :: u32 where "VMX_HOST_CR4 = 0x6C04"
definition VMX_HOST_FS_BASE :: u32 where "VMX_HOST_FS_BASE = 0x6C06"
definition VMX_HOST_GS_BASE :: u32 where "VMX_HOST_GS_BASE = 0x6C08"
definition VMX_HOST_RIP :: u32 where "VMX_HOST_RIP = 0x6C16"
definition VMX_HOST_IA32_SYSENTER_CS :: u32 where "VMX_HOST_IA32_SYSENTER_CS = 0x4C00"
definition VMX_HOST_IA32_SYSENTER_ESP :: u32 where "VMX_HOST_IA32_SYSENTER_ESP = 0x6C10"
definition VMX_HOST_IA32_SYSENTER_EIP :: u32 where "VMX_HOST_IA32_SYSENTER_EIP = 0x6C12"
definition MSR_IA32_VMX_PINBASED_CTLS :: u32 where "MSR_IA32_VMX_PINBASED_CTLS = 0x481"
definition VMX_PINBASED_CTLS_IRQ_EXIT :: u32 where "VMX_PINBASED_CTLS_IRQ_EXIT = push_bit 0 1"
definition VMX_PIN_VM_EXEC_CONTROLS :: u32 where "VMX_PIN_VM_EXEC_CONTROLS = 0x4000"
definition MSR_IA32_VMX_PROCBASED_CTLS :: u32 where "MSR_IA32_VMX_PROCBASED_CTLS = 0x482"
definition VMX_PROCBASED_CTLS_TSC_OFF :: u32 where "VMX_PROCBASED_CTLS_TSC_OFF = push_bit 3 1"
definition VMX_PROCBASED_CTLS_TPR_SHADOW :: u32 where "VMX_PROCBASED_CTLS_TPR_SHADOW = push_bit 21 1"
definition VMX_PROCBASED_CTLS_IO_BITMAP :: u32 where "VMX_PROCBASED_CTLS_IO_BITMAP = push_bit 25 1"
definition VMX_PROCBASED_CTLS_MSR_BITMAP :: u32 where "VMX_PROCBASED_CTLS_MSR_BITMAP = push_bit 28 1"
definition VMX_PROCBASED_CTLS_SECONDARY :: u32 where "VMX_PROCBASED_CTLS_SECONDARY = push_bit 31 1"
definition VMX_PROCBASED_CTLS_CR3_LOAD :: u32 where "VMX_PROCBASED_CTLS_CR3_LOAD = push_bit 15 1"
definition VMX_PROCBASED_CTLS_CR3_STORE :: u32 where "VMX_PROCBASED_CTLS_CR3_STORE = push_bit 16 1"
definition VMX_PROCBASED_CTLS_CR8_LOAD :: u32 where "VMX_PROCBASED_CTLS_CR8_LOAD = push_bit 19 1"
definition VMX_PROCBASED_CTLS_CR8_STORE :: u32 where "VMX_PROCBASED_CTLS_CR8_STORE = push_bit 20 1"
definition VMX_PROCBASED_CTLS_INVLPG :: u32 where "VMX_PROCBASED_CTLS_INVLPG = push_bit 9 1"
definition VMX_PROCBASED_CTLS_RDPMC :: u32 where "VMX_PROCBASED_CTLS_RDPMC = push_bit 11 1"
definition VMX_PROCBASED_CTLS_MWAIT :: u32 where "VMX_PROCBASED_CTLS_MWAIT = push_bit 10 1"
definition VMX_PROCBASED_CTLS_MOV_DR :: u32 where "VMX_PROCBASED_CTLS_MOV_DR = push_bit 23 1"
definition VMX_PROCBASED_CTLS_MONITOR :: u32 where "VMX_PROCBASED_CTLS_MONITOR = push_bit 29 1"
definition VMX_PROC_VM_EXEC_CONTROLS :: u32 where "VMX_PROC_VM_EXEC_CONTROLS = 0x4002"
definition MSR_IA32_VMX_PROCBASED_CTLS2 :: u32 where "MSR_IA32_VMX_PROCBASED_CTLS2 = 0x48B"
definition VMX_PROCBASED_CTLS2_VAPIC :: u32 where "VMX_PROCBASED_CTLS2_VAPIC = push_bit 0 1"
definition VMX_PROCBASED_CTLS2_EPT :: u32 where "VMX_PROCBASED_CTLS2_EPT = push_bit 1 1"
definition VMX_PROCBASED_CTLS2_RDTSCP :: u32 where "VMX_PROCBASED_CTLS2_RDTSCP = push_bit 3 1"
definition VMX_PROCBASED_CTLS2_UNRESTRICT :: u32 where "VMX_PROCBASED_CTLS2_UNRESTRICT = push_bit 7 1"
definition VMX_PROCBASED_CTLS2_VPID :: u32 where "VMX_PROCBASED_CTLS2_VPID = push_bit 5 1"
definition VMX_PROCBASED_CTLS2_XSVE_XRSTR :: u32 where "VMX_PROCBASED_CTLS2_XSVE_XRSTR = push_bit 20 1"
definition VMX_PROCBASED_CTLS2_WBINVD :: u32 where "VMX_PROCBASED_CTLS2_WBINVD = push_bit 6 1"
definition VMX_TPR_THRESHOLD :: u32 where "VMX_TPR_THRESHOLD = 0x401C"
definition VMX_PROC_VM_EXEC_CONTROLS2 :: u32 where "VMX_PROC_VM_EXEC_CONTROLS2 = 0x401E"
definition VMX_EPT_POINTER_FULL :: u32 where "VMX_EPT_POINTER_FULL = 0x201A"
definition VMX_EXCEPTION_BITMAP :: u32 where "VMX_EXCEPTION_BITMAP = 0x4004"
definition VMX_PF_ERROR_CODE_MASK :: u32 where "VMX_PF_ERROR_CODE_MASK = 0x4006"
definition VMX_PF_ERROR_CODE_MATCH :: u32 where "VMX_PF_ERROR_CODE_MATCH = 0x4008"
definition VMX_CR3_TARGET_COUNT :: u32 where "VMX_CR3_TARGET_COUNT = 0x400A"
definition VMX_IO_BITMAP_A_FULL :: u32 where "VMX_IO_BITMAP_A_FULL = 0x2000"
definition VMX_IO_BITMAP_B_FULL :: u32 where "VMX_IO_BITMAP_B_FULL = 0x2002"
definition VMX_EXECUTIVE_VMCS_PTR_FULL :: u32 where "VMX_EXECUTIVE_VMCS_PTR_FULL = 0x200C"
definition VMX_VMS_LINK_PTR_FULL :: u32 where "VMX_VMS_LINK_PTR_FULL = 0x2800"
definition VMX_CR3_TARGET_0 :: u32 where "VMX_CR3_TARGET_0 = 0x6008"
definition VMX_CR3_TARGET_1 :: u32 where "VMX_CR3_TARGET_1 = 0x600A"
definition VMX_CR3_TARGET_2 :: u32 where "VMX_CR3_TARGET_2 = 0x600C"
definition VMX_CR3_TARGET_3 :: u32 where "VMX_CR3_TARGET_3 = 0x600E"
definition VMX_ENTRY_CTLS_LOAD_EFER :: u32 where "VMX_ENTRY_CTLS_LOAD_EFER = push_bit 15 1"
definition VMX_ENTRY_CTLS_LOAD_PAT :: u32 where "VMX_ENTRY_CTLS_LOAD_PAT = push_bit 14 1"
definition MSR_IA32_VMX_ENTRY_CTLS :: u32 where "MSR_IA32_VMX_ENTRY_CTLS = 0x484"
definition VMX_ENTRY_CTLS_LOAD_DEBUGCTL :: u32 where "VMX_ENTRY_CTLS_LOAD_DEBUGCTL = push_bit 2 1"
definition VMX_ENTRY_MSR_LOAD_COUNT :: u32 where "VMX_ENTRY_MSR_LOAD_COUNT = 0x4014"
definition VMX_ENTRY_MSR_LOAD_ADDR_FULL :: u32 where "VMX_ENTRY_MSR_LOAD_ADDR_FULL = 0x200A"
definition VMX_ENTRY_INSTR_LENGTH :: u32 where "VMX_ENTRY_INSTR_LENGTH = 0x401A"
definition MSR_IA32_VMX_EXIT_CTLS :: u32 where "MSR_IA32_VMX_EXIT_CTLS = 0x483"
definition VMX_EXIT_CTLS_ACK_IRQ :: u32 where "VMX_EXIT_CTLS_ACK_IRQ = push_bit 15 1"
definition VMX_EXIT_CTLS_SAVE_PAT :: u32 where "VMX_EXIT_CTLS_SAVE_PAT = push_bit 18 1"
definition VMX_EXIT_CTLS_LOAD_PAT :: u32 where "VMX_EXIT_CTLS_LOAD_PAT = push_bit 19 1"
definition VMX_EXIT_CTLS_LOAD_EFER :: u32 where "VMX_EXIT_CTLS_LOAD_EFER = push_bit 21 1"
definition VMX_EXIT_CTLS_SAVE_EFER :: u32 where "VMX_EXIT_CTLS_SAVE_EFER = push_bit 20 1"
definition VMX_EXIT_CTLS_HOST_ADDR64 :: u32 where "VMX_EXIT_CTLS_HOST_ADDR64 = push_bit 9 1"
definition VMX_EXIT_CTLS_SAVE_DEBUGCTL :: u32 where "VMX_EXIT_CTLS_SAVE_DEBUGCTL = push_bit 2 1"
definition VMX_EXIT_CONTROLS :: u32 where "VMX_EXIT_CONTROLS = 0x400C"
definition VMX_EXIT_MSR_STORE_COUNT :: u32 where "VMX_EXIT_MSR_STORE_COUNT = 0x400E"
definition VMX_EXIT_MSR_LOAD_COUNT :: u32 where "VMX_EXIT_MSR_LOAD_COUNT = 0x4010"
definition VMX_EXIT_MSR_STORE_ADDR_FULL :: u32 where "VMX_EXIT_MSR_STORE_ADDR_FULL = 0x2006"
definition VMX_EXIT_MSR_LOAD_ADDR_FULL :: u32 where "VMX_EXIT_MSR_LOAD_ADDR_FULL = 0x2008"
definition MSR_IA32_VMX_BASIC :: u32 where "MSR_IA32_VMX_BASIC = 0x480"
definition VMX_GUEST_RSP :: u32 where "VMX_GUEST_RSP = 0x681C"
definition VMX_VPID :: u32 where "VMX_VPID = 0"
definition VMX_EXIT_INSTR_LEN :: u32 where "VMX_EXIT_INSTR_LEN = 0x440C"
definition VMX_EXIT_REASON :: u32 where "VMX_EXIT_REASON = 0x4402"
definition VMX_VMENTRY_FAIL :: u32 where "VMX_VMENTRY_FAIL = 0x80000000"
definition VMX_INSTR_ERROR :: u32 where "VMX_INSTR_ERROR = 0x4400"

definition VMX_VPID_TYPE_ALL_CONTEXT :: u64 where "VMX_VPID_TYPE_ALL_CONTEXT = 2"

text \<open>\<^verbatim>\<open>MSR_AREA_COUNT\<close>, the number of MSRs switched at VM entry and VM exit.\<close>

definition MSR_AREA_COUNT :: u32 where "MSR_AREA_COUNT = 1"

text \<open>A sequence of writes to the VMCS, the first one first.\<close>

definition vmwrites :: "(u32 \<times> u64) list \<Rightarrow> acrn_vcpu \<Rightarrow> acrn_vcpu" where
  "vmwrites ws c = fold (\<lambda>(field, x) d. exec_vmwrite field x d) ws c"

subsection \<open>The guest state\<close>

definition load_segment :: "segment_sel \<Rightarrow> u32 \<Rightarrow> u32 \<Rightarrow> u32 \<Rightarrow> u32 \<Rightarrow> (u32 \<times> u64) list" where
  "load_segment seg SEL BASE LIMIT ATTR =
     [(SEL, ucast (selector seg)), (BASE, seg_base seg), (LIMIT, ucast (limit seg)), (ATTR, ucast (attr seg))]"

definition guest_state_writes :: "ext_context \<Rightarrow> u64 \<Rightarrow> (u32 \<times> u64) list" where
  "guest_state_writes ectx c3 =
     [(VMX_GUEST_CR3, c3),
      (VMX_GUEST_GDTR_BASE, seg_base (gdtr ectx)), (VMX_GUEST_GDTR_LIMIT, ucast (limit (gdtr ectx))),
      (VMX_GUEST_IDTR_BASE, seg_base (idtr ectx)), (VMX_GUEST_IDTR_LIMIT, ucast (limit (idtr ectx)))] @
     load_segment (cs ectx) VMX_GUEST_CS_SEL VMX_GUEST_CS_BASE VMX_GUEST_CS_LIMIT VMX_GUEST_CS_ATTR @
     load_segment (ss ectx) VMX_GUEST_SS_SEL VMX_GUEST_SS_BASE VMX_GUEST_SS_LIMIT VMX_GUEST_SS_ATTR @
     load_segment (ds ectx) VMX_GUEST_DS_SEL VMX_GUEST_DS_BASE VMX_GUEST_DS_LIMIT VMX_GUEST_DS_ATTR @
     load_segment (es ectx) VMX_GUEST_ES_SEL VMX_GUEST_ES_BASE VMX_GUEST_ES_LIMIT VMX_GUEST_ES_ATTR @
     load_segment (fs ectx) VMX_GUEST_FS_SEL VMX_GUEST_FS_BASE VMX_GUEST_FS_LIMIT VMX_GUEST_FS_ATTR @
     load_segment (gs ectx) VMX_GUEST_GS_SEL VMX_GUEST_GS_BASE VMX_GUEST_GS_LIMIT VMX_GUEST_GS_ATTR @
     load_segment (tr_seg ectx) VMX_GUEST_TR_SEL VMX_GUEST_TR_BASE VMX_GUEST_TR_LIMIT VMX_GUEST_TR_ATTR @
     load_segment (ldtr ectx) VMX_GUEST_LDTR_SEL VMX_GUEST_LDTR_BASE VMX_GUEST_LDTR_LIMIT VMX_GUEST_LDTR_ATTR"

text \<open>The value that \<^verbatim>\<open>MSR_IA32_MISC_ENABLE\<close> of the guest has, from the physical one.\<close>

definition guest_misc_enable :: "u64 \<Rightarrow> u64" where
  "guest_misc_enable x =
     x AND NOT (MSR_IA32_MISC_ENABLE_MONITOR_ENA OR MSR_IA32_MISC_ENABLE_PMA OR MSR_IA32_MISC_ENABLE_EITS OR
                MSR_IA32_MISC_ENABLE_TCC)
       OR MSR_IA32_MISC_BTS_UNAVILABLE OR MSR_IA32_MISC_PEBS_UNAVILABLE"

text \<open>
  The writes of CR4 and CR0 are those of the initialisation, which succeed
  (\<open>vcpu_set_cr_init\<close> below).
\<close>

definition init_guest_vmx :: "hw_env \<Rightarrow> u16 \<Rightarrow> u16 \<Rightarrow> u16 \<Rightarrow> u64 \<Rightarrow> u64 \<Rightarrow> u64 \<Rightarrow> hv \<Rightarrow> hv" where
  "init_guest_vmx env cpu vm v c0 c3 c4 h =
     (let ectx = ext_ctx (hv_sched h) (Vcpu vm v);
          h1 = the (vcpu_set_cr4 env cpu vm v c4 True h);
          h2 = the (vcpu_set_cr0 env cpu vm v c0 True h1);
          h3 = upd_vcpu vm v (vmwrites (guest_state_writes ectx c3)) h2;
          (misc, h4) = hv_msr_read env MSR_IA32_MISC_ENABLE h3;
          h5 = upd_vcpu vm v (\<lambda>c. vcpu_set_guest_msr MSR_IA32_P5_MC_TYPE 0 (vcpu_set_guest_msr MSR_IA32_P5_MC_ADDR 0
                 (vcpu_set_guest_msr MSR_IA32_MCG_STATUS 0 (vcpu_set_guest_msr MSR_IA32_MCG_CAP 0
                   (vcpu_set_guest_msr MSR_IA32_MISC_ENABLE (guest_misc_enable misc) c))))) h4;
          h6 = upd_vcpu vm v (vmwrites
                 [(VMX_GUEST_IA32_SYSENTER_CS, 0), (VMX_GUEST_IA32_SYSENTER_ESP, 0), (VMX_GUEST_IA32_SYSENTER_EIP, 0),
                  (VMX_GUEST_PENDING_DEBUG_EXCEPT, 0), (VMX_GUEST_IA32_DEBUGCTL_FULL, 0),
                  (VMX_GUEST_INTERRUPTIBILITY_INFO, 0), (VMX_GUEST_ACTIVITY_STATE, 0), (VMX_GUEST_SMBASE, 0)]) h5;
          h7 = upd_vcpu vm v (\<lambda>c. if vcpu_powerup c = False
                 then exec_vmwrite VMX_GUEST_IA32_PAT_FULL PAT_POWER_ON_VALUE (vcpu_set_guest_msr MSR_IA32_PAT PAT_POWER_ON_VALUE c)
                 else c) h6
      in upd_vcpu vm v (exec_vmwrite VMX_GUEST_DR7 DR7_INIT_VALUE) h7)"

definition init_guest_state :: "hw_env \<Rightarrow> u16 \<Rightarrow> u16 \<Rightarrow> u16 \<Rightarrow> hv \<Rightarrow> hv" where
  "init_guest_state env cpu vm v h =
     init_guest_vmx env cpu vm v (cr0 (hv_vcpus h vm v)) (cr3 (ext_ctx (hv_sched h) (Vcpu vm v)))
       (cr4 (hv_vcpus h vm v) AND NOT (CR4_VMXE OR CR4_SMXE OR CR4_MCE)) h"

subsection \<open>The host state\<close>

definition host_sel :: "hw_env \<Rightarrow> host_reg \<Rightarrow> u64" where
  "host_sel env r = ucast (ucast (hw_host env r) :: u16)"

definition init_host_state :: "hw_env \<Rightarrow> u16 \<Rightarrow> u16 \<Rightarrow> hv \<Rightarrow> hv" where
  "init_host_state env vm v h =
     (let h1 = upd_vcpu vm v (vmwrites
                 [(VMX_HOST_ES_SEL, host_sel env Host_es), (VMX_HOST_CS_SEL, host_sel env Host_cs),
                  (VMX_HOST_SS_SEL, host_sel env Host_ss), (VMX_HOST_DS_SEL, host_sel env Host_ds),
                  (VMX_HOST_FS_SEL, host_sel env Host_fs), (VMX_HOST_GS_SEL, host_sel env Host_gs),
                  (VMX_HOST_TR_SEL, ucast HOST_GDT_RING0_CPU_TSS_SEL),
                  (VMX_HOST_GDTR_BASE, hw_host env Host_gdt_base), (VMX_HOST_TR_BASE, hw_host env Host_tss),
                  (VMX_HOST_IDTR_BASE, hw_host env Host_idt_base)]) h;
          (pat, h2) = hv_msr_read env MSR_IA32_PAT h1;
          h3 = upd_vcpu vm v (exec_vmwrite VMX_HOST_IA32_PAT_FULL pat) h2;
          (efer, h4) = hv_msr_read env MSR_IA32_EFER h3;
          h5 = upd_vcpu vm v (vmwrites
                 [(VMX_HOST_IA32_EFER_FULL, efer), (VMX_HOST_CR0, hw_host env Host_cr0),
                  (VMX_HOST_CR3, hw_host env Host_cr3), (VMX_HOST_CR4, hw_host env Host_cr4)]) h4;
          (fs_base, h6) = hv_msr_read env MSR_IA32_FS_BASE h5;
          h7 = upd_vcpu vm v (exec_vmwrite VMX_HOST_FS_BASE fs_base) h6;
          (gs_base, h8) = hv_msr_read env MSR_IA32_GS_BASE h7
      in upd_vcpu vm v (vmwrites
           [(VMX_HOST_GS_BASE, gs_base), (VMX_HOST_RIP, hw_host env Host_vm_exit), (VMX_HOST_IA32_SYSENTER_CS, 0),
            (VMX_HOST_IA32_SYSENTER_ESP, 0), (VMX_HOST_IA32_SYSENTER_EIP, 0)]) h8)"

subsection \<open>The controls\<close>

definition check_vmx_ctrl :: "hw_env \<Rightarrow> u32 \<Rightarrow> u32 \<Rightarrow> hv \<Rightarrow> u32 \<times> hv" where
  "check_vmx_ctrl env msr ctrl_req h =
     (let (vmx_msr, h1) = hv_msr_read env msr h;
          vmx_msr_low = ucast vmx_msr;
          vmx_msr_high = ucast (drop_bit 32 vmx_msr)
      in ((ctrl_req AND vmx_msr_high) OR vmx_msr_low, h1))"

definition proc_ctls_request :: u32 where
  "proc_ctls_request = VMX_PROCBASED_CTLS_TSC_OFF OR VMX_PROCBASED_CTLS_TPR_SHADOW OR VMX_PROCBASED_CTLS_IO_BITMAP OR
     VMX_PROCBASED_CTLS_MSR_BITMAP OR VMX_PROCBASED_CTLS_SECONDARY"

definition proc_ctls_final :: "u32 \<Rightarrow> u32" where
  "proc_ctls_final x =
     (x AND NOT (VMX_PROCBASED_CTLS_CR3_LOAD OR VMX_PROCBASED_CTLS_CR3_STORE)
        AND NOT (VMX_PROCBASED_CTLS_CR8_LOAD OR VMX_PROCBASED_CTLS_CR8_STORE) AND NOT VMX_PROCBASED_CTLS_INVLPG)
      OR VMX_PROCBASED_CTLS_RDPMC OR VMX_PROCBASED_CTLS_MWAIT OR VMX_PROCBASED_CTLS_MOV_DR OR VMX_PROCBASED_CTLS_MONITOR"

definition init_exec_ctrl :: "hw_env \<Rightarrow> u16 \<Rightarrow> u16 \<Rightarrow> hv \<Rightarrow> hv" where
  "init_exec_ctrl env vm v h =
     (let (pin, h1) = check_vmx_ctrl env MSR_IA32_VMX_PINBASED_CTLS VMX_PINBASED_CTLS_IRQ_EXIT h;
          h2 = upd_vcpu vm v (exec_vmwrite32 VMX_PIN_VM_EXEC_CONTROLS pin) h1;
          (proc1, h3) = check_vmx_ctrl env MSR_IA32_VMX_PROCBASED_CTLS proc_ctls_request h2;
          h4 = upd_vcpu vm v (exec_vmwrite32 VMX_PROC_VM_EXEC_CONTROLS (proc_ctls_final proc1)) h3;
          (proc2, h5) = check_vmx_ctrl env MSR_IA32_VMX_PROCBASED_CTLS2
                          (VMX_PROCBASED_CTLS2_VAPIC OR VMX_PROCBASED_CTLS2_EPT OR VMX_PROCBASED_CTLS2_RDTSCP OR
                           VMX_PROCBASED_CTLS2_UNRESTRICT) h4;
          proc2' = ((proc2 OR VMX_PROCBASED_CTLS2_VPID) AND NOT VMX_PROCBASED_CTLS2_XSVE_XRSTR) OR VMX_PROCBASED_CTLS2_WBINVD;
          h6 = upd_vcpu vm v (vmwrites
                 [(VMX_TPR_THRESHOLD, 0), (VMX_PROC_VM_EXEC_CONTROLS2, ucast proc2'),
                  (VMX_EPT_POINTER_FULL, hv_eptp h5 vm OR push_bit 3 3 OR 6),
                  (VMX_EXCEPTION_BITMAP, ucast (push_bit (unat IDT_DB) 1 :: u32)),
                  (VMX_PF_ERROR_CODE_MASK, 0), (VMX_PF_ERROR_CODE_MATCH, 0), (VMX_CR3_TARGET_COUNT, 0),
                  (VMX_IO_BITMAP_A_FULL, hw_addr env (Io_bitmap vm)),
                  (VMX_IO_BITMAP_B_FULL, hw_addr env (Io_bitmap vm) + PAGE_SIZE)]) h5;
          h7 = init_msr_emulation env vm v h6;
          h8 = upd_vcpu vm v (exec_vmwrite VMX_EXECUTIVE_VMCS_PTR_FULL 0) h7;
          (host_adjust, h9) = hv_msr_read env MSR_IA32_TSC_ADJUST h8;
          h10 = upd_vcpu vm v (\<lambda>c. vmwrites
                  [(VMX_TSC_OFFSET_FULL, vcpu_get_guest_msr c MSR_IA32_TSC_ADJUST - host_adjust),
                   (VMX_VMS_LINK_PTR_FULL, 0xFFFFFFFFFFFFFFFF)] c) h9;
          h11 = init_cr0_cr4_host_mask env vm v h10
      in upd_vcpu vm v (vmwrites [(VMX_CR3_TARGET_0, 0), (VMX_CR3_TARGET_1, 0), (VMX_CR3_TARGET_2, 0), (VMX_CR3_TARGET_3, 0)]) h11)"

definition init_entry_ctrl :: "hw_env \<Rightarrow> u16 \<Rightarrow> u16 \<Rightarrow> hv \<Rightarrow> hv" where
  "init_entry_ctrl env vm v h =
     (let (entry, h1) = check_vmx_ctrl env MSR_IA32_VMX_ENTRY_CTLS (VMX_ENTRY_CTLS_LOAD_EFER OR VMX_ENTRY_CTLS_LOAD_PAT) h
      in upd_vcpu vm v (vmwrites
           [(VMX_ENTRY_CONTROLS, ucast (entry AND NOT VMX_ENTRY_CTLS_LOAD_DEBUGCTL)),
            (VMX_ENTRY_MSR_LOAD_COUNT, ucast MSR_AREA_COUNT),
            (VMX_ENTRY_MSR_LOAD_ADDR_FULL, hw_addr env (Msr_area_guest vm v)),
            (VMX_ENTRY_INT_INFO_FIELD, 0), (VMX_ENTRY_EXCEPTION_ERROR_CODE, 0), (VMX_ENTRY_INSTR_LENGTH, 0)]) h1)"

definition init_exit_ctrl :: "hw_env \<Rightarrow> u16 \<Rightarrow> u16 \<Rightarrow> hv \<Rightarrow> hv" where
  "init_exit_ctrl env vm v h =
     (let (ex, h1) = check_vmx_ctrl env MSR_IA32_VMX_EXIT_CTLS
            (VMX_EXIT_CTLS_ACK_IRQ OR VMX_EXIT_CTLS_SAVE_PAT OR VMX_EXIT_CTLS_LOAD_PAT OR VMX_EXIT_CTLS_LOAD_EFER OR
             VMX_EXIT_CTLS_SAVE_EFER OR VMX_EXIT_CTLS_HOST_ADDR64) h
      in upd_vcpu vm v (vmwrites
           [(VMX_EXIT_CONTROLS, ucast (ex AND NOT VMX_EXIT_CTLS_SAVE_DEBUGCTL)),
            (VMX_EXIT_MSR_STORE_COUNT, ucast MSR_AREA_COUNT), (VMX_EXIT_MSR_LOAD_COUNT, ucast MSR_AREA_COUNT),
            (VMX_EXIT_MSR_STORE_ADDR_FULL, hw_addr env (Msr_area_guest vm v)),
            (VMX_EXIT_MSR_LOAD_ADDR_FULL, hw_addr env (Msr_area_host vm v))]) h1)"

definition switch_apicv_mode_x2apic :: "acrn_vcpu \<Rightarrow> acrn_vcpu" where
  "switch_apicv_mode_x2apic c =
     (let c1 = exec_vmwrite32 VMX_PIN_VM_EXEC_CONTROLS
                 (exec_vmread32 VMX_PIN_VM_EXEC_CONTROLS c AND NOT VMX_PINBASED_CTLS_IRQ_EXIT) c;
          c2 = exec_vmwrite32 VMX_EXIT_CONTROLS (exec_vmread32 VMX_EXIT_CONTROLS c1 AND NOT VMX_EXIT_CTLS_ACK_IRQ) c1;
          c3 = exec_vmwrite32 VMX_PROC_VM_EXEC_CONTROLS
                 (exec_vmread32 VMX_PROC_VM_EXEC_CONTROLS c2 AND NOT VMX_PROCBASED_CTLS_TPR_SHADOW) c2;
          c4 = exec_vmwrite32 VMX_TPR_THRESHOLD 0 c3
      in exec_vmwrite32 VMX_PROC_VM_EXEC_CONTROLS2
           (exec_vmread32 VMX_PROC_VM_EXEC_CONTROLS2 c4 AND NOT VMX_PROCBASED_CTLS2_VAPIC) c4)"

definition init_vmcs :: "hw_env \<Rightarrow> u16 \<Rightarrow> u16 \<Rightarrow> u16 \<Rightarrow> hv \<Rightarrow> hv" where
  "init_vmcs env cpu vm v h =
     (let (vmx_rev_id, h1) = hv_msr_read env MSR_IA32_VMX_BASIC h;
          vmcs_pa = hw_addr env (Vmcs_page vm v);
          h2 = hw_op (Vmcs_revision vmcs_pa (ucast vmx_rev_id)) h1;
          h3 = hw_op (Vmptrld vmcs_pa) (hw_op (Vmclear vmcs_pa) h2);
          h4 = h3\<lparr>hv_vmcs_run := (hv_vmcs_run h3)(cpu := Some (vm, v))\<rparr>;
          h5 = init_host_state env vm v h4;
          h6 = init_exec_ctrl env vm v h5;
          h7 = init_guest_state env cpu vm v h6;
          h8 = init_entry_ctrl env vm v h7;
          h9 = init_exit_ctrl env vm v h8
      in upd_vcpu vm v switch_apicv_mode_x2apic h9)"

definition load_vmcs :: "hw_env \<Rightarrow> u16 \<Rightarrow> u16 \<Rightarrow> u16 \<Rightarrow> hv \<Rightarrow> hv" where
  "load_vmcs env cpu vm v h =
     (if launched (hv_vcpus h vm v) \<and> hv_vmcs_run h cpu \<noteq> Some (vm, v) then
        let h1 = hw_op (Vmptrld (hw_addr env (Vmcs_page vm v))) h
        in h1\<lparr>hv_vmcs_run := (hv_vmcs_run h1)(cpu := Some (vm, v))\<rparr>
      else h)"

subsection \<open>Running the guest\<close>

definition flush_vpid_global :: "hv \<Rightarrow> hv" where
  "flush_vpid_global h = hw_op (Invvpid VMX_VPID_TYPE_ALL_CONTEXT) h"

text \<open>
  The registers set since the last VM exit are written to the VMCS; \<open>flush_reg\<close> is one of these
  conditional writes.
\<close>

definition flush_reg :: "u16 \<Rightarrow> (acrn_vcpu \<Rightarrow> acrn_vcpu) \<Rightarrow> acrn_vcpu \<Rightarrow> acrn_vcpu" where
  "flush_reg reg wr c =
     (let (updated, w) = bitmap_test_and_clear_lock reg (reg_updated c);
          c1 = c\<lparr>reg_updated := w\<rparr>
      in if updated then wr c1 else c1)"

definition take_updated :: "u16 \<Rightarrow> acrn_vcpu \<Rightarrow> bool \<times> acrn_vcpu" where
  "take_updated reg c =
     (let (updated, w) = bitmap_test_and_clear_lock reg (reg_updated c) in (updated, c\<lparr>reg_updated := w\<rparr>))"

definition flush_regs :: "acrn_vcpu \<Rightarrow> acrn_vcpu" where
  "flush_regs c =
     flush_reg CPU_REG_RFLAGS (\<lambda>d. exec_vmwrite VMX_GUEST_RFLAGS (rflags d) d)
       (flush_reg CPU_REG_EFER (\<lambda>d. exec_vmwrite VMX_GUEST_IA32_EFER_FULL (ia32_efer d) d)
         (flush_reg CPU_REG_RSP (\<lambda>d. exec_vmwrite VMX_GUEST_RSP (gprs d (unat CPU_REG_RSP)) d)
           (flush_reg CPU_REG_RIP (\<lambda>d. exec_vmwrite VMX_GUEST_RIP (rip d) d) c)))"

text \<open>
  \<^verbatim>\<open>vmx_vmrun\<close>, in assembly: the general registers, CR2 and the VMCS are those that the guest leaves.
\<close>

definition vmx_vmrun :: "hw_env \<Rightarrow> u16 \<Rightarrow> u16 \<Rightarrow> bool \<Rightarrow> hv \<Rightarrow> i32 \<times> hv" where
  "vmx_vmrun env vm v launch h =
     (let (status, regs, c2, fields) = hw_vmrun env (hv_hw h) (hv_vcpus h vm v)
      in (status, upd_vcpu vm v (\<lambda>c. c\<lparr>gprs := regs, cr2 := c2, vmcs := fields\<rparr>) (hw_op (Vmrun launch) h)))"

definition after_vmrun :: "acrn_vcpu \<Rightarrow> acrn_vcpu" where
  "after_vmrun c =
     (let c1 = c\<lparr>reg_cached := 0\<rparr>;
          cs_attr = exec_vmread32 VMX_GUEST_CS_ATTR c1;
          (efer, c2) = vcpu_get_efer c1;
          (x, c3) = vcpu_get_cr0 c2;
          c4 = set_vcpu_mode cs_attr efer x c3;
          c5 = c4\<lparr>inst_len := exec_vmread32 VMX_EXIT_INSTR_LEN c4\<rparr>;
          c6 = c5\<lparr>gprs := (gprs c5)(unat CPU_REG_RSP := exec_vmread64 VMX_GUEST_RSP c5)\<rparr>
      in c6\<lparr>exit_reason := exec_vmread32 VMX_EXIT_REASON c6\<rparr>)"

definition mitigate :: "hw_env \<Rightarrow> hv \<Rightarrow> hv" where
  "mitigate env h =
     cpu_internal_buffers_clear (hw_security env) (cpu_l1d_flush (hw_caps env) (hw_security env) h)"

definition enter_guest :: "hw_env \<Rightarrow> u16 \<Rightarrow> u16 \<Rightarrow> hv \<Rightarrow> i32 \<times> hv" where
  "enter_guest env vm v h =
     (if \<not> launched (hv_vcpus h vm v) then
        let h1 = upd_vcpu vm v (\<lambda>c. exec_vmwrite16 VMX_VPID (vpid c) c) h;
            h2 = flush_vpid_global h1;
            h3 = upd_vcpu vm v (\<lambda>c. c\<lparr>launched := True\<rparr>) h2
        in vmx_vmrun env vm v True (mitigate env h3)
      else
        let instlen = inst_len (hv_vcpus h vm v);
            (ip, h1) = on_vcpu vm v vcpu_get_rip h;
            h2 = upd_vcpu vm v (exec_vmwrite VMX_GUEST_RIP ((ip + ucast instlen) AND 0xFFFFFFFFFFFFFFFF)) h1
        in vmx_vmrun env vm v False (mitigate env h2))"

definition run_vcpu :: "hw_env \<Rightarrow> u16 \<Rightarrow> u16 \<Rightarrow> u16 \<Rightarrow> hv \<Rightarrow> (i32 \<times> hv) option" where
  "run_vcpu env cpu vm v h =
     (let h1 = upd_vcpu vm v flush_regs h;
          (set0, h2) = on_vcpu vm v (take_updated CPU_REG_CR0) h1
      in do {
           h3 \<leftarrow> (if set0 then vcpu_set_cr0 env cpu vm v (cr0 (hv_vcpus h2 vm v)) False h2 else Some h2);
           let (set4, h4) = on_vcpu vm v (take_updated CPU_REG_CR4) h3;
           h5 \<leftarrow> (if set4 then vcpu_set_cr4 env cpu vm v (cr4 (hv_vcpus h4 vm v)) False h4 else Some h4);
           let h6 = upd_vcpu vm v (\<lambda>c. c\<lparr>vcpu_powerup := True\<rparr>) h5;
           let (status, h7) = enter_guest env vm v h6;
           Some (status, upd_vcpu vm v after_vmrun h7)
         })"

text \<open>The initialisation of CR0 and CR4 always succeeds.\<close>

lemma vcpu_set_cr_init:
  "vcpu_set_cr0 env cpu vm v x True h =
     Some (upd_vcpu vm v (write_cr0_fields (cr0_always_on_mask (hv_cr_masks h)) (x AND NOT CR0_RESERVED_MASK)) h)"
  "vcpu_set_cr4 env cpu vm v x True h =
     Some (upd_vcpu vm v (write_cr4_fields (cr4_always_on_mask (hv_cr_masks h)) x) h)"
  by (simp_all add: vcpu_set_cr0_def vmx_write_cr0_def vcpu_set_cr4_def vmx_write_cr4_def)

end
