(* ===== verification/Acrn_Io.thy ===== *)
theory Acrn_Io
  imports Acrn_Vmcs Acrn_Vm
begin

text \<open>
  Port accesses of a guest: the I/O exit (\<^verbatim>\<open>src/hypervisor/arch/x86/guest/vmx_io.c\<close>), the search
  for the handler of the port and the completion (\<^verbatim>\<open>dm/io_req.c\<close>), and the real time clock
  (\<^verbatim>\<open>dm/vrtc.c\<close>); and the exit of an EPT violation. What a physical port answers is the
  parameter \<open>bd_port\<close> of \<open>board\<close>. \<open>None\<close>: the hypervisor panics or waits without end.
\<close>

definition VMX_GUEST_PHYSICAL_ADDR_FULL :: u32 where "VMX_GUEST_PHYSICAL_ADDR_FULL = 0x2400"
definition CMOS_ADDR_PORT :: u16 where "CMOS_ADDR_PORT = 0x70"
definition CMOS_DATA_PORT :: u16 where "CMOS_DATA_PORT = 0x71"
definition RTC_STATUSA :: u8 where "RTC_STATUSA = 0x0A"
definition RTCSA_TUP :: u8 where "RTCSA_TUP = 0x80"
definition REQUEST_READ :: u32 where "REQUEST_READ = 0"
definition REQUEST_WRITE :: u32 where "REQUEST_WRITE = 1"

subsection \<open>The real time clock\<close>

definition cmos_read :: "board \<Rightarrow> u8 \<Rightarrow> machine \<Rightarrow> u8 \<times> machine" where
  "cmos_read bd addr m = pio_read8 bd CMOS_DATA_PORT (pio_write8 addr CMOS_ADDR_PORT m)"

definition cmos_update_in_progress :: "board \<Rightarrow> machine \<Rightarrow> bool \<times> machine" where
  "cmos_update_in_progress bd m = (let (x, m1) = cmos_read bd RTC_STATUSA m in (x AND RTCSA_TUP \<noteq> 0, m1))"

text \<open>The loop that waits for the end of an update: the tries left.\<close>

fun cmos_wait :: "board \<Rightarrow> nat \<Rightarrow> machine \<Rightarrow> nat \<times> machine" where
  "cmos_wait bd 0 m = (0, snd (cmos_update_in_progress bd m))"
| "cmos_wait bd (Suc tries) m =
     (let (busy, m1) = cmos_update_in_progress bd m in if busy then cmos_wait bd tries m1 else (Suc tries, m1))"

text \<open>The value that the guest reads where the register is not that of the physical clock.\<close>

definition cmos_default :: "u8 \<Rightarrow> u32 option" where
  "cmos_default addr =
     (if addr \<in> {0x0, 0x2, 0x4, 0x6, 0x7, 0x8, 0x9} then None
      else if addr = 0xB then Some 0x2
      else if addr = 0xD then Some 0x80
      else Some 0)"

text \<open>The value is not stored when the clock does not get ready in time.\<close>

definition cmos_get_reg_val :: "board \<Rightarrow> u8 \<Rightarrow> machine \<Rightarrow> bool \<times> u32 option \<times> machine" where
  "cmos_get_reg_val bd addr m =
     (case cmos_default addr of
        Some x \<Rightarrow> (True, Some x, m)
      | None \<Rightarrow>
          let (tries, m1) = cmos_wait bd 3000 m
          in if tries = 0 then (False, None, m1)
             else (let (x, m2) = cmos_read bd addr m1 in (True, Some (ucast x), m2)))"

definition vrtc_read :: "board \<Rightarrow> u16 \<Rightarrow> u16 \<Rightarrow> u16 \<Rightarrow> u16 \<Rightarrow> u16 \<Rightarrow> machine \<Rightarrow> machine option" where
  "vrtc_read bd cpu vm v addr width m =
     (let offset = m_vrtc_offset m vm in
      if addr = CMOS_ADDR_PORT then Some (set_pio_value vm v 0 m)
      else
        let (ret, x, m1) = cmos_get_reg_val bd offset m;
            m2 = (case x of Some y \<Rightarrow> set_pio_value vm v y m1 | None \<Rightarrow> m1)
        in if \<not> ret then (if is_safety_vm vm then None else try_hv (fatal_error_shutdown_vm cpu vm v) m2)
           else Some m2)"

definition vrtc_write :: "u16 \<Rightarrow> u16 \<Rightarrow> u16 \<Rightarrow> u32 \<Rightarrow> machine \<Rightarrow> machine" where
  "vrtc_write vm addr width val m =
     (if width = 1 \<and> addr = CMOS_ADDR_PORT
      then m\<lparr>m_vrtc_offset := (m_vrtc_offset m)(vm := ucast val AND 0x7F)\<rparr> else m)"

definition vrtc_init :: "u16 \<Rightarrow> machine \<Rightarrow> machine" where
  "vrtc_init vm m =
     register_pio_emulation_handler vm RTC_PIO_IDX \<lparr>io_base = CMOS_ADDR_PORT, io_len = 2\<rparr> Vrtc
       (m\<lparr>m_vrtc_offset := (m_vrtc_offset m)(vm := 0)\<rparr>)"

subsection \<open>Handlers\<close>

definition pio_default_read :: "u16 \<Rightarrow> u16 \<Rightarrow> u16 \<Rightarrow> machine \<Rightarrow> machine" where
  "pio_default_read vm v bytes m = set_pio_value vm v (ucast (push_bit (unat bytes * 8) 1 - 1 :: u64)) m"

definition pio_default_write :: "machine \<Rightarrow> machine" where
  "pio_default_write m = m"

definition io_read :: "io_handler option \<Rightarrow> board \<Rightarrow> u16 \<Rightarrow> u16 \<Rightarrow> u16 \<Rightarrow> u16 \<Rightarrow> u16 \<Rightarrow> machine \<Rightarrow> machine option" where
  "io_read fn bd cpu vm v port bytes m =
     (case fn of
        None \<Rightarrow> Some (pio_default_read vm v bytes m)
      | Some Pci_cfgaddr \<Rightarrow> Some (pci_cfgaddr_io_read vm v port bytes m)
      | Some Pci_cfgdata \<Rightarrow> pci_cfgdata_io_read bd vm v port bytes m
      | Some Vrtc \<Rightarrow> vrtc_read bd cpu vm v port bytes m)"

definition io_write :: "io_handler option \<Rightarrow> board \<Rightarrow> u16 \<Rightarrow> u16 \<Rightarrow> u16 \<Rightarrow> u16 \<Rightarrow> u32 \<Rightarrow> machine \<Rightarrow> machine option" where
  "io_write fn bd cpu vm port bytes val m =
     (case fn of
        None \<Rightarrow> Some (pio_default_write m)
      | Some Pci_cfgaddr \<Rightarrow> Some (pci_cfgaddr_io_write vm port bytes val m)
      | Some Pci_cfgdata \<Rightarrow> pci_cfgdata_io_write bd cpu vm port bytes val m
      | Some Vrtc \<Rightarrow> Some (vrtc_write vm port bytes val m))"

text \<open>The loop of \<^verbatim>\<open>hv_emulate_pio\<close>: the handler of the first range with the port.\<close>

definition find_io_handler :: "(nat \<Rightarrow> vm_io_handler_desc) \<Rightarrow> u16 \<Rightarrow> io_handler option" where
  "find_io_handler handlers port =
     (case find (\<lambda>idx. \<not> (port < port_start (handlers idx) \<or> port \<ge> port_end (handlers idx))) [0..<EMUL_PIO_IDX_MAX] of
        Some idx \<Rightarrow> io_fn (handlers idx)
      | None \<Rightarrow> None)"

definition hv_emulate_pio :: "board \<Rightarrow> u16 \<Rightarrow> u16 \<Rightarrow> u16 \<Rightarrow> machine \<Rightarrow> machine option" where
  "hv_emulate_pio bd cpu vm v m =
     (let pio_req = m_req m vm v;
          port = ucast (pio_address pio_req);
          bytes = ucast (pio_size pio_req);
          fn = find_io_handler (m_emul_pio m vm) port
      in if direction pio_req = REQUEST_WRITE then io_write fn bd cpu vm port bytes (pio_value pio_req) m
         else if direction pio_req = REQUEST_READ then io_read fn bd cpu vm v port bytes m
         else Some m)"

definition emulate_pio_complete :: "u16 \<Rightarrow> u16 \<Rightarrow> machine \<Rightarrow> machine" where
  "emulate_pio_complete vm v m =
     (let pio_req = m_req m vm v;
          msk = drop_bit (unat (32 - 8 * pio_size pio_req)) 0xFFFFFFFF :: u64
      in if direction pio_req = REQUEST_READ then
           let val = ucast (pio_value pio_req);
               rax = vcpu_get_gpreg (hv_vcpus (m_hv m) vm v) CPU_REG_RAX
           in on_hv (upd_vcpu vm v (vcpu_set_gpreg CPU_REG_RAX ((rax AND NOT msk) OR (val AND msk)))) m
         else m)"

definition emulate_io :: "board \<Rightarrow> u16 \<Rightarrow> u16 \<Rightarrow> u16 \<Rightarrow> machine \<Rightarrow> machine option" where
  "emulate_io bd cpu vm v m = map_option (emulate_pio_complete vm v) (hv_emulate_pio bd cpu vm v m)"

subsection \<open>The exits\<close>

definition vm_exit_io_instruction_size :: "u64 \<Rightarrow> u64" where
  "vm_exit_io_instruction_size q = drop_bit 0 (vm_exit_qualification_bit_mask q 2 0)"

definition vm_exit_io_instruction_access_direction :: "u64 \<Rightarrow> u64" where
  "vm_exit_io_instruction_access_direction q = drop_bit 3 (vm_exit_qualification_bit_mask q 3 3)"

definition vm_exit_io_instruction_port_number :: "u64 \<Rightarrow> u64" where
  "vm_exit_io_instruction_port_number q = drop_bit 16 (vm_exit_qualification_bit_mask q 31 16)"

definition upd_req :: "u16 \<Rightarrow> u16 \<Rightarrow> (pio_request \<Rightarrow> pio_request) \<Rightarrow> machine \<Rightarrow> machine" where
  "upd_req vm v f m = m\<lparr>m_req := (m_req m)(vm := (m_req m vm)(v := f (m_req m vm v)))\<rparr>"

definition pio_instr_vmexit_handler :: "board \<Rightarrow> u16 \<Rightarrow> u16 \<Rightarrow> u16 \<Rightarrow> machine \<Rightarrow> (i32 \<times> machine) option" where
  "pio_instr_vmexit_handler bd cpu vm v m =
     (let c = hv_vcpus (m_hv m) vm v;
          exit_qual = exit_qualification c;
          bytes = vm_exit_io_instruction_size exit_qual + 1;
          m1 = upd_req vm v (\<lambda>r. r\<lparr>pio_size := bytes, pio_address := vm_exit_io_instruction_port_number exit_qual\<rparr>) m
      in if bytes = 3 \<or> bytes \<ge> 5 then Some (- ERANGE, m1)
         else
           let m2 = (if vm_exit_io_instruction_access_direction exit_qual = 0 then
                       let msk = drop_bit (unat (32 - 8 * bytes)) 0xFFFFFFFF :: u32
                       in upd_req vm v (\<lambda>r. r\<lparr>direction := REQUEST_WRITE,
                            pio_value := ucast (vcpu_get_gpreg c CPU_REG_RAX) AND msk\<rparr>) m1
                     else upd_req vm v (\<lambda>r. r\<lparr>direction := REQUEST_READ\<rparr>) m1)
           in map_option (Pair 0) (emulate_io bd cpu vm v m2))"

definition ept_violation_vmexit_handler :: "u16 \<Rightarrow> u16 \<Rightarrow> u16 \<Rightarrow> hv \<Rightarrow> (i32 \<times> hv) option" where
  "ept_violation_vmexit_handler cpu vm v h =
     (let exit_qual = exit_qualification (hv_vcpus h vm v);
          gpa = exec_vmread64 VMX_GUEST_PHYSICAL_ADDR_FULL (hv_vcpus h vm v);
          wb = (case lookup_address (hv_eptp h vm) gpa (hv_ept_ops h vm) (hv_pg h) of
                  Some (pgentry, pg_size) \<Rightarrow> pg_mem (hv_pg h) pgentry AND EPT_MT_MASK = EPT_WB
                | None \<Rightarrow> False)
      in if exit_qual AND 0x4 \<noteq> 0 \<and> wb then
           do {
             h1 \<leftarrow> ept_modify_mr cpu vm (hv_eptp h vm) (gpa AND PAGE_MASK) PAGE_SIZE EPT_EXE 0 h;
             Some (0, upd_vcpu vm v vcpu_retain_rip h1)
           }
         else map_option (Pair 0) (vcpu_inject_pf cpu vm v 0 0 h))"

end
