(* ===== verification/Acrn_Vmexit.thy ===== *)
theory Acrn_Vmexit
  imports Acrn_Io
begin

text \<open>
  VM exits (\<^verbatim>\<open>src/hypervisor/arch/x86/guest/vmexit.c\<close>): the dispatch table and the handlers that
  are not with the component they belong to, among them the one of exceptions in
  \<^verbatim>\<open>guest/virq.c\<close>; and the loop of the thread of a virtual CPU (\<^verbatim>\<open>common/hv_main.c\<close>).
  \<open>None\<close>: the hypervisor panics, waits without end or accesses an array out of its bounds.
\<close>

definition VMX_IDT_VEC_INFO_FIELD :: u32 where "VMX_IDT_VEC_INFO_FIELD = 0x4408"
definition VMX_IDT_VEC_ERROR_CODE :: u32 where "VMX_IDT_VEC_ERROR_CODE = 0x440A"
definition VMX_EXIT_QUALIFICATION :: u32 where "VMX_EXIT_QUALIFICATION = 0x6400"
definition VMX_INT_INFO_ERR_CODE_VALID :: u32 where "VMX_INT_INFO_ERR_CODE_VALID = push_bit 11 1"
definition VMX_INT_TYPE_MASK :: u32 where "VMX_INT_TYPE_MASK = 0x700"
definition VMX_EXIT_INT_INFO :: u32 where "VMX_EXIT_INT_INFO = 0x4404"
definition XCR0_EMULATED_RESERVED_BITS :: u64 where "XCR0_EMULATED_RESERVED_BITS = (NOT ((push_bit 3 1) - 1))"

subsection \<open>Handlers\<close>

definition lift_exit :: "(hv \<Rightarrow> (i32 \<times> hv) option) \<Rightarrow> machine \<Rightarrow> (i32 \<times> machine) option" where
  "lift_exit f m = map_option (\<lambda>(ret, h). (ret, m\<lparr>m_hv := h\<rparr>)) (f (m_hv m))"

text \<open>A guest that cannot go on: the hypervisor panics for the safety VM, and shuts down another VM.\<close>

definition stop_guest :: "u16 \<Rightarrow> u16 \<Rightarrow> u16 \<Rightarrow> hv \<Rightarrow> hv option" where
  "stop_guest cpu vm v h = (if is_safety_vm vm then None else fatal_error_shutdown_vm cpu vm v h)"

definition unexpected_vmexit_handler :: "u16 \<Rightarrow> u16 \<Rightarrow> u16 \<Rightarrow> hv \<Rightarrow> (i32 \<times> hv) option" where
  "unexpected_vmexit_handler cpu vm v h = map_option (Pair 0) (stop_guest cpu vm v h)"

definition exception_vmexit_handler :: "u16 \<Rightarrow> u16 \<Rightarrow> u16 \<Rightarrow> hv \<Rightarrow> (i32 \<times> hv) option" where
  "exception_vmexit_handler cpu vm v h =
     (let intinfo = exec_vmread32 VMX_EXIT_INT_INFO (hv_vcpus h vm v);
          exception_vector = (if intinfo AND VMX_INT_INFO_VALID \<noteq> 0 then intinfo AND 0xFF else VECTOR_INVALID);
          h1 = upd_vcpu vm v vcpu_retain_rip h
      in map_option (Pair 0)
           (if exception_vector = IDT_DB then vcpu_inject_gp cpu vm v 0 h1 else stop_guest cpu vm v h1))"

text \<open>The low half of a register; \<^verbatim>\<open>guest_cpuid\<close> is given pointers to the low halves of four of them.\<close>

definition low32 :: "u64 \<Rightarrow> u32 \<Rightarrow> u64" where
  "low32 old x = (old AND NOT 0xffffffff) OR ucast x"

definition cpuid_vmexit_handler :: "hw_env \<Rightarrow> u16 \<Rightarrow> u16 \<Rightarrow> hv \<Rightarrow> (i32 \<times> hv) option" where
  "cpuid_vmexit_handler env vm v h =
     (let c = hv_vcpus h vm v;
          rax = vcpu_get_gpreg c CPU_REG_RAX;
          rbx = vcpu_get_gpreg c CPU_REG_RBX;
          rcx = vcpu_get_gpreg c CPU_REG_RCX;
          rdx = vcpu_get_gpreg c CPU_REG_RDX
      in do {
           (r, h1) \<leftarrow> guest_cpuid env vm v \<lparr>r_eax = ucast rax, r_ebx = ucast rbx, r_ecx = ucast rcx, r_edx = ucast rdx\<rparr> h;
           Some (0, upd_vcpu vm v (\<lambda>d. vcpu_set_gpreg CPU_REG_RDX (low32 rdx (r_edx r))
             (vcpu_set_gpreg CPU_REG_RCX (low32 rcx (r_ecx r)) (vcpu_set_gpreg CPU_REG_RBX (low32 rbx (r_ebx r))
               (vcpu_set_gpreg CPU_REG_RAX (low32 rax (r_eax r)) d)))) h1)
         })"

definition write_xcr :: "u32 \<Rightarrow> u64 \<Rightarrow> hv \<Rightarrow> hv" where
  "write_xcr reg val h = hw_op (Write_xcr reg val) h"

definition xsetbv_vmexit_handler :: "u16 \<Rightarrow> u16 \<Rightarrow> u16 \<Rightarrow> hv \<Rightarrow> (i32 \<times> hv) option" where
  "xsetbv_vmexit_handler cpu vm v h =
     (let c = hv_vcpus h vm v;
          val64 = (vcpu_get_gpreg c CPU_REG_RAX AND 0xffffffff) OR push_bit 32 (vcpu_get_gpreg c CPU_REG_RDX)
      in map_option (Pair 0)
           (if vcpu_get_gpreg c CPU_REG_RCX AND 0xffffffff \<noteq> 0 then vcpu_inject_gp cpu vm v 0 h
            else if val64 AND 0x01 = 0 then vcpu_inject_gp cpu vm v 0 h
            else if val64 AND XCR0_EMULATED_RESERVED_BITS \<noteq> 0 then vcpu_inject_gp cpu vm v 0 h
            else if val64 AND (XCR0_SSE OR XCR0_AVX) = XCR0_AVX then vcpu_inject_gp cpu vm v 0 h
            else Some (write_xcr 0 val64 h)))"

definition wbinvd_vmexit_handler :: "u16 \<Rightarrow> hv \<Rightarrow> (i32 \<times> hv) option" where
  "wbinvd_vmexit_handler vm h = Some (0, walk_ept_table vm ept_flush_leaf_page h)"

definition undefined_vmexit_handler :: "u16 \<Rightarrow> u16 \<Rightarrow> u16 \<Rightarrow> hv \<Rightarrow> (i32 \<times> hv) option" where
  "undefined_vmexit_handler cpu vm v h = map_option (Pair 0) (vcpu_inject_ud cpu vm v h)"

definition init_signal_vmexit_handler :: "u16 \<Rightarrow> u16 \<Rightarrow> hv \<Rightarrow> (i32 \<times> hv) option" where
  "init_signal_vmexit_handler vm v h = Some (0, upd_vcpu vm v vcpu_retain_rip h)"

definition taskswitch_vmexit_handler :: "u16 \<Rightarrow> u16 \<Rightarrow> u16 \<Rightarrow> hv \<Rightarrow> (i32 \<times> hv) option" where
  "taskswitch_vmexit_handler cpu vm v h =
     map_option (Pair 0) (vcpu_inject_gp cpu vm v (ucast (exit_qualification (hv_vcpus h vm v) AND 0xFF)) h)"

definition invd_vmexit_handler :: "u16 \<Rightarrow> u16 \<Rightarrow> u16 \<Rightarrow> hv \<Rightarrow> (i32 \<times> hv) option" where
  "invd_vmexit_handler cpu vm v h = map_option (Pair 0) (vcpu_inject_gp cpu vm v 0 h)"

definition vm_exit_dr_access_direction :: "u64 \<Rightarrow> u64" where
  "vm_exit_dr_access_direction q = drop_bit 4 (vm_exit_qualification_bit_mask q 4 4)"

definition movdr_vmexit_handler :: "u16 \<Rightarrow> u16 \<Rightarrow> hv \<Rightarrow> (i32 \<times> hv) option" where
  "movdr_vmexit_handler vm v h =
     (let exit_qual = exit_qualification (hv_vcpus h vm v);
          idx = ucast (vm_exit_cr_access_reg_idx exit_qual) :: u32;
          dr = vm_exit_qualification_bit_mask exit_qual 2 0
      in if vm_exit_dr_access_direction exit_qual = 1 then
           Some (0, upd_vcpu vm v (vcpu_set_gpreg idx
             (if dr = 0x04 \<or> dr = 0x06 then 0xFFFE0FF0 else if dr = 0x05 \<or> dr = 0x07 then 0x400 else 0)) h)
         else Some (0, h))"

subsection \<open>The dispatch table\<close>

datatype exit_fn =
    Exception | Unexpected | Init_signal | Taskswitch | Cpuid_exit | Invd | Undefined | Cr_access | Movdr
  | Pio_instr | Rdmsr | Wrmsr | Ept_violation | Wbinvd | Xsetbv

text \<open>
  The handler of each basic exit reason, in the order of their numbers, and whether it needs the exit
  qualification.
\<close>

definition dispatch_table :: "(exit_fn \<times> bool) list" where
  "dispatch_table =
     [
      (Exception, False), (Unexpected, False), (Unexpected, False), (Init_signal, False), (Unexpected, False),
      (Unexpected, False), (Unexpected, False), (Unexpected, False), (Unexpected, False), (Taskswitch, True),
      (Cpuid_exit, False), (Unexpected, False), (Unexpected, False), (Invd, False), (Unexpected, False),
      (Undefined, False), (Unexpected, False), (Unexpected, False), (Undefined, False), (Undefined, False),
      (Undefined, False), (Undefined, False), (Undefined, False), (Undefined, False), (Undefined, False),
      (Undefined, False), (Undefined, False), (Undefined, False), (Cr_access, True), (Movdr, True),
      (Pio_instr, True), (Rdmsr, False), (Wrmsr, False), (Unexpected, False), (Unexpected, False),
      (Unexpected, False), (Undefined, False), (Unexpected, False), (Unexpected, False), (Undefined, False),
      (Unexpected, False), (Unexpected, False), (Unexpected, False), (Unexpected, False), (Unexpected, False),
      (Unexpected, False), (Unexpected, False), (Unexpected, False), (Ept_violation, True), (Unexpected, False),
      (Undefined, False), (Unexpected, False), (Unexpected, False), (Undefined, False), (Wbinvd, False),
      (Xsetbv, False), (Unexpected, False), (Unexpected, False), (Unexpected, False), (Unexpected, False),
      (Unexpected, False), (Unexpected, False), (Unexpected, False), (Unexpected, False), (Unexpected, False)]"

definition call_exit ::
  "exit_fn \<Rightarrow> hw_env \<Rightarrow> board \<Rightarrow> u16 \<Rightarrow> u16 \<Rightarrow> u16 \<Rightarrow> machine \<Rightarrow> (i32 \<times> machine) option" where
  "call_exit fn env bd cpu vm v m =
     (case fn of
        Exception \<Rightarrow> lift_exit (exception_vmexit_handler cpu vm v) m
      | Unexpected \<Rightarrow> lift_exit (unexpected_vmexit_handler cpu vm v) m
      | Init_signal \<Rightarrow> lift_exit (init_signal_vmexit_handler vm v) m
      | Taskswitch \<Rightarrow> lift_exit (taskswitch_vmexit_handler cpu vm v) m
      | Cpuid_exit \<Rightarrow> lift_exit (cpuid_vmexit_handler env vm v) m
      | Invd \<Rightarrow> lift_exit (invd_vmexit_handler cpu vm v) m
      | Undefined \<Rightarrow> lift_exit (undefined_vmexit_handler cpu vm v) m
      | Cr_access \<Rightarrow> lift_exit (cr_access_vmexit_handler env cpu vm v) m
      | Movdr \<Rightarrow> lift_exit (movdr_vmexit_handler vm v) m
      | Pio_instr \<Rightarrow> pio_instr_vmexit_handler bd cpu vm v m
      | Rdmsr \<Rightarrow> lift_exit (\<lambda>h. Some (rdmsr_vmexit_handler env vm v h)) m
      | Wrmsr \<Rightarrow> lift_exit (wrmsr_vmexit_handler env cpu vm v) m
      | Ept_violation \<Rightarrow> lift_exit (ept_violation_vmexit_handler cpu vm v) m
      | Wbinvd \<Rightarrow> lift_exit (wbinvd_vmexit_handler vm) m
      | Xsetbv \<Rightarrow> lift_exit (xsetbv_vmexit_handler cpu vm v) m)"

text \<open>An exception whose delivery the exit interrupted is queued again.\<close>

definition requeue_idt_event :: "u16 \<Rightarrow> u16 \<Rightarrow> u16 \<Rightarrow> hv \<Rightarrow> hv option" where
  "requeue_idt_event cpu vm v h =
     (let h1 = upd_vcpu vm v (\<lambda>c. c\<lparr>idt_vectoring_info := exec_vmread32 VMX_IDT_VEC_INFO_FIELD c\<rparr>) h;
          c = hv_vcpus h1 vm v;
          vector_info = idt_vectoring_info c
      in if vector_info AND VMX_INT_INFO_VALID \<noteq> 0 then
           let vector = vector_info AND 0xff;
               ty = drop_bit 8 (vector_info AND VMX_INT_TYPE_MASK)
           in if ty = VMX_INT_TYPE_HW_EXP then
                let err_code = (if vector_info AND VMX_INT_INFO_ERR_CODE_VALID \<noteq> 0
                                then exec_vmread32 VMX_IDT_VEC_ERROR_CODE c else 0)
                in map_option (upd_vcpu vm v (\<lambda>c. c\<lparr>idt_vectoring_info := 0\<rparr>)) (vcpu_queue_exception cpu vm v vector err_code h1)
              else Some h1
         else Some h1)"

definition vmexit_handler :: "hw_env \<Rightarrow> board \<Rightarrow> u16 \<Rightarrow> u16 \<Rightarrow> u16 \<Rightarrow> machine \<Rightarrow> (i32 \<times> machine) option" where
  "vmexit_handler env bd cpu vm v m =
     (if cpu \<noteq> pcpuid_from_vcpu vm v (m_hv m) then Some (- EINVAL, m)
      else do {
        m1 \<leftarrow> try_hv (requeue_idt_event cpu vm v) m;
        let basic_exit_reason = (ucast (exit_reason (hv_vcpus (m_hv m1) vm v) AND 0xFFFF) :: u16);
        (if unat basic_exit_reason \<ge> length dispatch_table then Some (- ERANGE, m1)
         else
          let (fn, need_qual) = dispatch_table ! unat basic_exit_reason;
              m2 = (if need_qual then on_hv (upd_vcpu vm v (\<lambda>c. c\<lparr>exit_qualification := exec_vmread64 VMX_EXIT_QUALIFICATION c\<rparr>)) m1
                    else m1)
          in call_exit fn env bd cpu vm v m2)
      })"

subsection \<open>The thread of a virtual CPU\<close>

text \<open>
  One round of the loop of \<^verbatim>\<open>vcpu_thread\<close>, after the rescheduling with which a round begins:
  the pending requests, the guest, the VM exit. The instruction pointer is read for the trace of the exit.
\<close>

definition vcpu_thread_round :: "hw_env \<Rightarrow> board \<Rightarrow> u16 \<Rightarrow> u16 \<Rightarrow> u16 \<Rightarrow> machine \<Rightarrow> machine option" where
  "vcpu_thread_round env bd cpu vm v m =
     do {
       (ret, h1) \<leftarrow> acrn_handle_pending_request (init_vmcs env cpu vm v) cpu vm v (m_hv m);
       let m1 = m\<lparr>m_hv := h1\<rparr>;
       if ret < 0 then try_hv (stop_guest cpu vm v) m1
       else do {
         (ret, h2) \<leftarrow> run_vcpu env cpu vm v (m_hv m1);
         let m2 = m1\<lparr>m_hv := h2\<rparr>;
         if ret \<noteq> 0 then try_hv (stop_guest cpu vm v) m2
         else do {
           let m3 = on_hv (upd_vcpu vm v (\<lambda>c. (snd (vcpu_get_rip c))\<lparr>nrexits := nrexits c + 1\<rparr>)) m2;
           (ret, m4) \<leftarrow> vmexit_handler env bd cpu vm v m3;
           if ret < 0 then
             (if ret = - ERANGE then try_hv (stop_guest cpu vm v) m4 else try_hv (vcpu_inject_gp cpu vm v 0) m4)
           else Some m4
         }
       }
     }"

text \<open>
  One round of the loop of \<^verbatim>\<open>default_idle\<close>. A physical CPU that is to go offline stops in
  \<^verbatim>\<open>cpu_dead\<close>: \<open>None\<close>.
\<close>

definition default_idle_round :: "board \<Rightarrow> u16 \<Rightarrow> machine \<Rightarrow> machine option" where
  "default_idle_round bd cpu m =
     (if need_reschedule cpu (hv_sched (m_hv m)) then
        try_hv (\<lambda>h. map_option (\<lambda>s. h\<lparr>hv_sched := s\<rparr>) (schedule cpu (hv_sched h))) m
      else
        let (off, h1) = need_offline cpu (m_hv m);
            m1 = m\<lparr>m_hv := h1\<rparr>
        in if off then None
           else
             let (down, h2) = need_shutdown_vm cpu (m_hv m1);
                 m2 = m1\<lparr>m_hv := h2\<rparr>
             in if down then shutdown_vm_from_idle bd cpu m2 else Some m2)"

end
