(* ===== verification/Acrn_Vmexit_Safe.thy ===== *)
theory Acrn_Vmexit_Safe
  imports Acrn_Vmexit
begin

text \<open>
  An event whose delivery a VM exit interrupted is not lost: the exit keeps it
  (\<^verbatim>\<open>vmexit_handler\<close>) and the next entry delivers it (\<^verbatim>\<open>acrn_handle_pending_request\<close>).
\<close>

text \<open>What the processor stores about a hardware exception.\<close>

definition exception_info :: "u32 \<Rightarrow> u32" where
  "exception_info vec = VMX_INT_INFO_VALID OR push_bit 8 (if has_error_code vec then 11 else 3) OR vec"

lemma exception_info_bits:
  assumes "unat vec < 32"
  shows "exception_info vec AND 0xFF = vec" "exception_info vec AND VMX_INT_INFO_ERR_CODE_VALID \<noteq> 0 \<longleftrightarrow> has_error_code vec"
    "vec AND 0xFF = vec" "drop_bit 8 (exception_info vec AND VMX_INT_TYPE_MASK) = VMX_INT_TYPE_HW_EXP"
    "exception_info vec AND VMX_INT_INFO_VALID \<noteq> 0"
proof -
  have "vec = take_bit 5 vec"
    unfolding word_unat_eq_iff unsigned_take_bit_eq using assms by (simp add: take_bit_eq_mod)
  then have vec: "vec = vec AND 0x1F"
    by (simp add: take_bit_eq_mask mask_eq_exp_minus_1)
  have small: "vec AND m = vec AND (0x1F AND m)" for m
    by (subst vec) (simp only: and.assoc)
  have v: "vec AND 0xFF = vec" "vec AND 0x700 = 0" "vec AND 0x800 = 0" "vec AND 0x80000000 = 0"
    using small [of "0xFF"] small [of "0x700"] small [of "0x800"] small [of "0x80000000"] vec by simp_all
  have word: "exception_info vec = (if has_error_code vec then 0x80000B00 else 0x80000300) OR vec"
    by (simp add: exception_info_def VMX_INT_INFO_VALID_def flip: or.assoc)
  show "exception_info vec AND 0xFF = vec" "exception_info vec AND VMX_INT_INFO_ERR_CODE_VALID \<noteq> 0 \<longleftrightarrow> has_error_code vec"
    "vec AND 0xFF = vec" "drop_bit 8 (exception_info vec AND VMX_INT_TYPE_MASK) = VMX_INT_TYPE_HW_EXP"
    "exception_info vec AND VMX_INT_INFO_VALID \<noteq> 0"
    unfolding word by (simp_all add: bit.conj_disj_distrib2 v VMX_INT_INFO_ERR_CODE_VALID_def VMX_INT_TYPE_MASK_def
        VMX_INT_TYPE_HW_EXP_def VMX_INT_INFO_VALID_def)
qed

text \<open>Without a pending exception or NMI, handling the requests delivers the event that is kept.\<close>

lemma handle_pending_event:
  fixes h :: hv and vm v :: u16
  defines "c \<equiv> hv_vcpus h vm v"
  assumes "\<not> bitmap_test ACRN_REQUEST_INIT_VMCS (pending_req c)" "\<not> bitmap_test ACRN_REQUEST_TRP_FAULT (pending_req c)"
    "\<not> bitmap_test ACRN_REQUEST_EXCP (pending_req c)" "\<not> bitmap_test ACRN_REQUEST_NMI (pending_req c)"
    and "idt_vectoring_info c AND VMX_INT_INFO_VALID \<noteq> 0"
  shows "\<exists>w h'. acrn_handle_pending_request reinit cpu vm v h = Some (0, h') \<and>
     hv_vcpus h' vm v = (exec_vmwrite VMX_ENTRY_INT_INFO_FIELD (ucast (idt_vectoring_info c)) (c\<lparr>pending_req := w\<rparr>))\<lparr>idt_vectoring_info := 0\<rparr> \<and>
     \<not> bitmap_test ACRN_REQUEST_EXCP w"
  by (rule exI [of _ "bitmap_clear_lock ACRN_REQUEST_NMI (bitmap_clear_lock ACRN_REQUEST_EXCP (bitmap_clear_lock ACRN_REQUEST_EPT_FLUSH
        (bitmap_clear_lock ACRN_REQUEST_LAPIC_RESET (bitmap_clear_lock ACRN_REQUEST_TRP_FAULT
          (bitmap_clear_lock ACRN_REQUEST_INIT_VMCS (pending_req c))))))"])
    (use assms in \<open>simp add: acrn_handle_pending_request_def Let_def vcpu_inject_exception_def
       request_bits request_clear c_def exec_vmwrite_def bm.test_clear request_defs\<close>)


text \<open>A page fault whose delivery an EPT violation interrupted.\<close>

definition ex_interrupted :: hv where
  "ex_interrupted = upd_vcpu 1 0 (\<lambda>c. c\<lparr>vmcs := (vmcs c)(VMX_IDT_VEC_INFO_FIELD := 0x80000B0E, VMX_IDT_VEC_ERROR_CODE := 2)\<rparr>) hv_ex"


end
