(* ===== verification/Acrn_Msr_Safe.thy ===== *)
theory Acrn_Msr_Safe
  imports Acrn_Vmsr
begin

text \<open>
  The MSR bitmap of a virtual CPU against the layout that the processor reads, and the time stamp
  counter of the guest.
\<close>

subsection \<open>The layout of the MSR bitmap\<close>

text \<open>
  The bitmap has four parts of 1 KByte: reads of the low and of the high MSRs, then writes; an access
  whose bit is set exits. \<open>covered\<close> MSRs have a bit; an access to another one exits always.
\<close>

definition covered :: "u32 \<Rightarrow> bool" where
  "covered msr \<longleftrightarrow> msr \<le> LOW_MSR_END \<or> HIGH_MSR_START \<le> msr \<and> msr \<le> HIGH_MSR_END"

definition msr_slot :: "u32 \<Rightarrow> nat" where
  "msr_slot msr = (if HIGH_MSR_START \<le> msr then 8192 else 0) + unat msr mod 8192"

definition bitmap_bit :: "(nat \<Rightarrow> u8) \<Rightarrow> nat \<Rightarrow> bool" where
  "bitmap_bit b n \<longleftrightarrow> bit (b (n div 8)) (n mod 8)"

definition read_exits :: "(nat \<Rightarrow> u8) \<Rightarrow> u32 \<Rightarrow> bool" where
  "read_exits b msr \<longleftrightarrow> bitmap_bit b (msr_slot msr)"

definition write_exits :: "(nat \<Rightarrow> u8) \<Rightarrow> u32 \<Rightarrow> bool" where
  "write_exits b msr \<longleftrightarrow> bitmap_bit b (16384 + msr_slot msr)"

lemma byte_bit: "i < 8 \<Longrightarrow> n = 8 * k + i \<longleftrightarrow> n div 8 = k \<and> n mod 8 = (i :: nat)"
  by auto

lemma bitmap_bit_set:
  "i < 8 \<Longrightarrow> bitmap_bit (b(k := b k OR push_bit i 1)) n \<longleftrightarrow> n = 8 * k + i \<or> bitmap_bit b n"
  by (auto simp: bitmap_bit_def bit_simps byte_bit)

lemma bitmap_bit_clear:
  "i < 8 \<Longrightarrow> bitmap_bit (b(k := b k AND NOT (push_bit i 1))) n \<longleftrightarrow> n \<noteq> 8 * k + i \<and> bitmap_bit b n"
  by (auto simp: bitmap_bit_def bit_simps byte_bit)

lemma high_bits: "msr AND HIGH_MSR_START \<noteq> 0 \<longleftrightarrow> 2 ^ 30 \<le> unat msr" for msr :: u32
proof -
  have "HIGH_MSR_START = NOT (mask 30)"
    by (simp add: HIGH_MSR_START_def mask_eq_exp_minus_1)
  moreover have "msr AND NOT (mask 30) = push_bit 30 (drop_bit 30 msr)"
    by (rule bit_word_eqI) (auto simp: bit_simps)
  ultimately have "msr AND HIGH_MSR_START = push_bit 30 (drop_bit 30 msr)"
    by simp
  also have "\<dots> = 0 \<longleftrightarrow> drop_bit 30 msr = 0"
  proof
    assume "push_bit 30 (drop_bit 30 msr) = 0"
    then have "drop_bit 30 (push_bit 30 (drop_bit 30 msr)) = 0"
      by simp
    moreover have "drop_bit 30 (push_bit 30 (drop_bit 30 msr)) = drop_bit 30 msr"
      by (rule bit_word_eqI) (auto simp: bit_simps dest: bit_imp_le_length)
    ultimately show "drop_bit 30 msr = 0"
      by simp
  qed simp
  also have "\<dots> \<longleftrightarrow> unat msr div 2 ^ 30 = 0"
    unfolding word_unat_eq_iff unat_drop_bit_eq by (simp add: drop_bit_eq_div)
  finally show ?thesis
    by (auto simp: div_eq_0_iff)
qed

lemma covered_cases: "covered msr \<longleftrightarrow> unat msr < 8192 \<or> 0xC0000000 \<le> unat msr \<and> unat msr < 0xC0002000"
  by (auto simp: covered_def LOW_MSR_END_def HIGH_MSR_START_def HIGH_MSR_END_def word_le_nat_alt)

lemma slot_low: "unat msr < 8192 \<Longrightarrow> msr_slot msr = unat msr"
  by (simp add: msr_slot_def HIGH_MSR_START_def word_le_nat_alt)

lemma slot_high:
  assumes "0xC0000000 \<le> unat msr" "unat msr < 0xC0002000"
  shows "msr_slot msr = unat msr - 0xC0000000 + 8192"
proof -
  obtain k where k: "unat msr = 0xC0000000 + k"
    using assms(1) le_Suc_ex by blast
  then have "k < 8192"
    using assms(2) by simp
  moreover have "(8192 * 393216 + k) mod 8192 = k mod 8192"
    by (rule mod_mult_self4)
  ultimately show ?thesis
    using k by (simp add: msr_slot_def HIGH_MSR_START_def word_le_nat_alt)
qed

lemma slot_inj: "covered x \<Longrightarrow> covered y \<Longrightarrow> msr_slot x = msr_slot y \<longleftrightarrow> x = y"
  using slot_low [of x] slot_low [of y] slot_high [of x] slot_high [of y]
  unfolding covered_cases word_unat_eq_iff by linarith

subsection \<open>Changing the bitmap\<close>

lemma high_iff: "covered msr \<Longrightarrow> msr AND HIGH_MSR_START \<noteq> 0 \<longleftrightarrow> HIGH_MSR_START \<le> msr"
  unfolding high_bits covered_cases by (auto simp: HIGH_MSR_START_def word_le_nat_alt)

lemma unat_msr_slot:
  "unat (drop_bit 3 (msr AND 0x1FFF)) = (unat msr mod 8192) div 8"
  "unat ((msr AND 0x1FFF) AND 0x7) = (unat msr mod 8192) mod 8" for msr :: u32
proof -
  have m: "msr AND 0x1FFF = take_bit 13 msr" "x AND 0x7 = take_bit 3 x" for x :: u32
    by (simp_all add: take_bit_eq_mask mask_eq_exp_minus_1)
  show "unat (drop_bit 3 (msr AND 0x1FFF)) = (unat msr mod 8192) div 8"
    unfolding m(1) unat_drop_bit_eq unsigned_take_bit_eq by (simp add: drop_bit_eq_div take_bit_eq_mod)
  show "unat ((msr AND 0x1FFF) AND 0x7) = (unat msr mod 8192) mod 8"
    unfolding m(2) unfolding m(1) unsigned_take_bit_eq by (simp add: take_bit_eq_mod)
qed

text \<open>One change sets or clears the two bits of its MSR and keeps every other one.\<close>

lemma enable_bits:
  assumes "covered x"
  shows "bitmap_bit (enable_msr_interception x mode b) n \<longleftrightarrow>
    (if n = msr_slot x then mode AND INTERCEPT_READ = INTERCEPT_READ
     else if n = 16384 + msr_slot x then mode AND INTERCEPT_WRITE = INTERCEPT_WRITE
     else bitmap_bit b n)"
proof -
  define k where "k = msr_slot x div 8"
  define i where "i = msr_slot x mod 8"
  have i: "i < 8" and slot: "msr_slot x = 8 * k + i"
    by (simp_all add: i_def k_def)
  have byte: "(8192 + m) div 8 = 1024 + m div 8" "(8192 + m) mod 8 = m mod 8" for m :: nat
    by presburger+
  have idx: "(if x AND HIGH_MSR_START \<noteq> 0 then 1024 else 0) + unat (drop_bit 3 (x AND 0x1FFF)) = k"
    "(if x AND HIGH_MSR_START \<noteq> 0 then 2048 + 1024 else 2048) + unat (drop_bit 3 (x AND 0x1FFF)) = 2048 + k"
    "unat ((x AND 0x1FFF) AND 0x7) = i"
    unfolding k_def i_def msr_slot_def high_iff [OF assms] unat_msr_slot by (simp_all add: byte)
  have "enable_msr_interception x mode b =
      (let b1 = (if mode AND INTERCEPT_READ = INTERCEPT_READ then b(k := b k OR push_bit i 1) else b(k := b k AND NOT (push_bit i 1)))
       in if mode AND INTERCEPT_WRITE = INTERCEPT_WRITE then b1(2048 + k := b1 (2048 + k) OR push_bit i 1)
          else b1(2048 + k := b1 (2048 + k) AND NOT (push_bit i 1)))"
    unfolding enable_msr_interception_def Let_def idx by simp
  then show ?thesis
    unfolding Let_def slot using i by (auto simp: bitmap_bit_set bitmap_bit_clear simp del: fun_upd_apply push_bit_of_1)
qed

lemma slot_less: "msr_slot x < 16384"
  using mod_less_divisor [of 8192 "unat x"] by (auto simp: msr_slot_def)

lemma enable_exits:
  assumes "covered x" "covered y"
  shows "read_exits (enable_msr_interception x mode b) y \<longleftrightarrow>
      (if x = y then mode AND INTERCEPT_READ = INTERCEPT_READ else read_exits b y)"
    and "write_exits (enable_msr_interception x mode b) y \<longleftrightarrow>
      (if x = y then mode AND INTERCEPT_WRITE = INTERCEPT_WRITE else write_exits b y)"
  using slot_less [of x] slot_less [of y] slot_inj [OF assms]
  by (auto simp: read_exits_def write_exits_def enable_bits [OF assms(1)])

lemma intercept_all_exits:
  assumes "\<forall>x \<in> set msrs. covered x" "covered y"
  shows "read_exits (intercept_all mode msrs b) y \<longleftrightarrow>
      (if y \<in> set msrs then mode AND INTERCEPT_READ = INTERCEPT_READ else read_exits b y)"
    and "write_exits (intercept_all mode msrs b) y \<longleftrightarrow>
      (if y \<in> set msrs then mode AND INTERCEPT_WRITE = INTERCEPT_WRITE else write_exits b y)"
  using assms(1)
  by (induction msrs arbitrary: b) (auto simp: intercept_all_def enable_exits assms(2))

subsection \<open>What the guest accesses directly\<close>

definition reads_directly :: "bool \<Rightarrow> bool \<Rightarrow> u32 \<Rightarrow> bool" where
  "reads_directly safety offset_zero msr \<longleftrightarrow>
     msr \<in> set unintercepted_msrs \<or> msr = MSR_IA32_TIME_STAMP_COUNTER \<or> msr = MSR_IA32_EFER \<or>
     msr \<in> set x2apic_msrs \<and> msr \<notin> {MSR_IA32_EXT_XAPICID, MSR_IA32_EXT_APIC_LDR, MSR_IA32_EXT_APIC_ICR} \<or>
     offset_zero \<and> msr \<in> {MSR_IA32_TSC_DEADLINE, MSR_IA32_TSC_ADJUST} \<or>
     safety \<and> ((\<exists>i < 4. msr = MSR_IA32_MC0_CTL2 + of_nat i) \<or> (\<exists>i < 10. msr = MSR_IA32_MC0_CTL + 4 * of_nat i))"

definition writes_directly :: "bool \<Rightarrow> bool \<Rightarrow> u32 \<Rightarrow> bool" where
  "writes_directly safety offset_zero msr \<longleftrightarrow>
     msr \<in> set unintercepted_msrs \<or> msr \<in> set x2apic_msrs \<and> msr \<noteq> MSR_IA32_EXT_APIC_ICR \<or>
     offset_zero \<and> msr = MSR_IA32_TSC_DEADLINE \<or>
     safety \<and> ((\<exists>i < 4. msr = MSR_IA32_MC0_CTL2 + of_nat i) \<or> (\<exists>i < 10. msr = MSR_IA32_MC0_CTL + 4 * of_nat i) \<or>
               (\<exists>i < 10. msr = MSR_IA32_MC0_STATUS + 4 * of_nat i))"

lemmas mode_defs = INTERCEPT_DISABLE_def INTERCEPT_READ_def INTERCEPT_WRITE_def INTERCEPT_READ_WRITE_def

lemmas msr_list_defs = unintercepted_msrs_def x2apic_msrs_def
  MSR_FEATURE_CONFIG_def MSR_IA32_CSTAR_def MSR_IA32_EXT_APIC_CUR_COUNT_def MSR_IA32_EXT_APIC_DIV_CONF_def
  MSR_IA32_EXT_APIC_EOI_def MSR_IA32_EXT_APIC_ESR_def MSR_IA32_EXT_APIC_ICR_def MSR_IA32_EXT_APIC_INIT_COUNT_def
  MSR_IA32_EXT_APIC_IRR0_def MSR_IA32_EXT_APIC_IRR1_def MSR_IA32_EXT_APIC_IRR2_def MSR_IA32_EXT_APIC_IRR3_def
  MSR_IA32_EXT_APIC_IRR4_def MSR_IA32_EXT_APIC_IRR5_def MSR_IA32_EXT_APIC_IRR6_def MSR_IA32_EXT_APIC_IRR7_def
  MSR_IA32_EXT_APIC_ISR0_def MSR_IA32_EXT_APIC_ISR1_def MSR_IA32_EXT_APIC_ISR2_def MSR_IA32_EXT_APIC_ISR3_def
  MSR_IA32_EXT_APIC_ISR4_def MSR_IA32_EXT_APIC_ISR5_def MSR_IA32_EXT_APIC_ISR6_def MSR_IA32_EXT_APIC_ISR7_def
  MSR_IA32_EXT_APIC_LDR_def MSR_IA32_EXT_APIC_LVT_CMCI_def MSR_IA32_EXT_APIC_LVT_ERROR_def
  MSR_IA32_EXT_APIC_LVT_LINT0_def MSR_IA32_EXT_APIC_LVT_LINT1_def MSR_IA32_EXT_APIC_LVT_PMI_def
  MSR_IA32_EXT_APIC_LVT_THERMAL_def MSR_IA32_EXT_APIC_LVT_TIMER_def MSR_IA32_EXT_APIC_PPR_def
  MSR_IA32_EXT_APIC_SELF_IPI_def MSR_IA32_EXT_APIC_SIVR_def MSR_IA32_EXT_APIC_TMR0_def MSR_IA32_EXT_APIC_TMR1_def
  MSR_IA32_EXT_APIC_TMR2_def MSR_IA32_EXT_APIC_TMR3_def MSR_IA32_EXT_APIC_TMR4_def MSR_IA32_EXT_APIC_TMR5_def
  MSR_IA32_EXT_APIC_TMR6_def MSR_IA32_EXT_APIC_TMR7_def MSR_IA32_EXT_APIC_TPR_def MSR_IA32_EXT_APIC_VERSION_def
  MSR_IA32_EXT_XAPICID_def MSR_IA32_FLUSH_CMD_def MSR_IA32_FMASK_def MSR_IA32_FS_BASE_def MSR_IA32_GS_BASE_def
  MSR_IA32_KERNEL_GS_BASE_def MSR_IA32_LSTAR_def MSR_IA32_PLATFORM_ID_def MSR_IA32_PRED_CMD_def MSR_IA32_STAR_def
  MSR_IA32_SYSENTER_CS_def MSR_IA32_SYSENTER_EIP_def MSR_IA32_SYSENTER_ESP_def MSR_IA32_TSC_AUX_def
  MSR_PLATFORM_INFO_def

lemma unintercepted_eq:
  "unintercepted_msrs =
    [0x17, 0x49, 0xce, 0x10b, 0x13c, 0x174, 0x175, 0x176, 0xc0000081, 0xc0000082, 0xc0000083, 0xc0000084,
      0xc0000100, 0xc0000101, 0xc0000102, 0xc0000103]"
  by (simp add: msr_list_defs)

lemma x2apic_eq:
  "x2apic_msrs =
    [0x802, 0x803, 0x808, 0x80a, 0x80b, 0x80d, 0x80f, 0x810, 0x811, 0x812, 0x813, 0x814, 0x815, 0x816, 0x817,
      0x818, 0x819, 0x81a, 0x81b, 0x81c, 0x81d, 0x81e, 0x81f, 0x820, 0x821, 0x822, 0x823, 0x824, 0x825, 0x826,
      0x827, 0x828, 0x82f, 0x830, 0x832, 0x833, 0x834, 0x835, 0x836, 0x837, 0x838, 0x839, 0x83e, 0x83f]"
  by (simp add: msr_list_defs)

lemma lists_covered: "\<forall>x \<in> set unintercepted_msrs. covered x" "\<forall>x \<in> set x2apic_msrs. covered x"
  by (simp_all add: unintercepted_eq x2apic_eq covered_def LOW_MSR_END_def HIGH_MSR_START_def HIGH_MSR_END_def)

lemma range_covered: "x \<in> set (msr_range lo hi) \<longleftrightarrow> lo \<le> x \<and> x \<le> hi"
proof -
  have "x = of_nat n \<longleftrightarrow> unat x = n" if "n < 2 ^ 32" for n
    using that by (auto simp: unat_of_nat)
  then have "x \<in> of_nat ` {unat lo..<unat hi + 1} \<longleftrightarrow> unat lo \<le> unat x \<and> unat x < unat hi + 1"
    using unat_u32_bound [of hi] by (force simp: image_iff)
  then show ?thesis
    by (simp add: msr_range_def word_le_nat_alt less_Suc_eq_le del: upt_Suc)
qed

text \<open>The numbers of the machine check banks, as the loops visit them.\<close>

lemma mc_ctl2_list: "map of_nat [unat MSR_IA32_MC0_CTL2..<unat MSR_IA32_MC4_CTL2] = map (\<lambda>i. MSR_IA32_MC0_CTL2 + of_nat i) [0..<4]"
proof -
  have "[640..<644] = map (\<lambda>i. i + 640) [0..<4]"
    using map_add_upt [of 640 4] by (simp del: upt_Suc upt_rec_numeral)
  then show ?thesis
    by (simp add: MSR_IA32_MC0_CTL2_def MSR_IA32_MC4_CTL2_def del: upt_Suc upt_rec_numeral)
qed

lemma small_covered: "n < 8192 \<Longrightarrow> covered (of_nat n)"
  by (simp add: covered_cases unat_of_nat)

lemma mc_covered:
  "i < 4 \<Longrightarrow> covered (MSR_IA32_MC0_CTL2 + of_nat i)" "i < 10 \<Longrightarrow> covered (MSR_IA32_MC0_CTL + 4 * of_nat i)"
  "i < 10 \<Longrightarrow> covered (MSR_IA32_MC0_STATUS + 4 * of_nat i)"
  using small_covered [of "640 + i"] small_covered [of "1024 + 4 * i"] small_covered [of "1025 + 4 * i"]
  by (simp_all add: MSR_IA32_MC0_CTL2_def MSR_IA32_MC0_CTL_def MSR_IA32_MC0_STATUS_def)

text \<open>The two kinds of exits after a loop over the elements of a list.\<close>

lemma loop_exits:
  assumes "\<forall>x \<in> set msrs. covered x" "covered y"
  shows "read_exits (intercept_all INTERCEPT_READ_WRITE msrs b) y \<longleftrightarrow> y \<in> set msrs \<or> read_exits b y"
    "write_exits (intercept_all INTERCEPT_READ_WRITE msrs b) y \<longleftrightarrow> y \<in> set msrs \<or> write_exits b y"
    "read_exits (intercept_all INTERCEPT_DISABLE msrs b) y \<longleftrightarrow> y \<notin> set msrs \<and> read_exits b y"
    "write_exits (intercept_all INTERCEPT_DISABLE msrs b) y \<longleftrightarrow> y \<notin> set msrs \<and> write_exits b y"
    "read_exits (intercept_all INTERCEPT_READ msrs b) y \<longleftrightarrow> y \<in> set msrs \<or> read_exits b y"
    "write_exits (intercept_all INTERCEPT_READ msrs b) y \<longleftrightarrow> y \<notin> set msrs \<and> write_exits b y"
  by (simp_all add: intercept_all_exits [OF assms] mode_defs)

lemma one_exits:
  assumes "covered x" "covered y"
  shows "read_exits (enable_msr_interception x INTERCEPT_READ_WRITE b) y \<longleftrightarrow> y = x \<or> read_exits b y"
    "write_exits (enable_msr_interception x INTERCEPT_READ_WRITE b) y \<longleftrightarrow> y = x \<or> write_exits b y"
    "read_exits (enable_msr_interception x INTERCEPT_DISABLE b) y \<longleftrightarrow> y \<noteq> x \<and> read_exits b y"
    "write_exits (enable_msr_interception x INTERCEPT_DISABLE b) y \<longleftrightarrow> y \<noteq> x \<and> write_exits b y"
    "read_exits (enable_msr_interception x INTERCEPT_READ b) y \<longleftrightarrow> y = x \<or> read_exits b y"
    "write_exits (enable_msr_interception x INTERCEPT_READ b) y \<longleftrightarrow> y \<noteq> x \<and> write_exits b y"
    "read_exits (enable_msr_interception x INTERCEPT_WRITE b) y \<longleftrightarrow> y \<noteq> x \<and> read_exits b y"
    "write_exits (enable_msr_interception x INTERCEPT_WRITE b) y \<longleftrightarrow> y = x \<or> write_exits b y"
  using loop_exits [of "[x]"] enable_exits [OF assms] by (auto simp: mode_defs)

lemma some_covered [simp]:
  "covered MSR_IA32_TIME_STAMP_COUNTER" "covered MSR_IA32_EFER" "covered MSR_IA32_TSC_DEADLINE" "covered MSR_IA32_TSC_ADJUST"
  "covered MSR_IA32_EXT_XAPICID" "covered MSR_IA32_EXT_APIC_LDR" "covered MSR_IA32_EXT_APIC_ICR"
  by (simp_all add: covered_def MSR_IA32_TIME_STAMP_COUNTER_def MSR_IA32_EFER_def MSR_IA32_TSC_DEADLINE_def
      MSR_IA32_TSC_ADJUST_def MSR_IA32_EXT_XAPICID_def MSR_IA32_EXT_APIC_LDR_def MSR_IA32_EXT_APIC_ICR_def
      LOW_MSR_END_def HIGH_MSR_START_def HIGH_MSR_END_def)

lemma arith_progression:
  fixes y :: u32
  assumes "0 < d" "b + d * n < 2 ^ 32"
  shows "(\<exists>i < n. y = of_nat (b + d * i)) \<longleftrightarrow> (b \<le> unat y \<and> unat y < b + d * n \<and> unat y mod d = b mod d)"
proof
  assume "\<exists>i < n. y = of_nat (b + d * i)"
  then obtain i where i: "i < n" "y = of_nat (b + d * i)"
    by blast
  then have "d * i < d * n"
    using assms(1) by simp
  then have "b + d * i < 2 ^ 32"
    using assms(2) by linarith
  then have "unat y = b + d * i"
    unfolding i(2) by (simp add: unat_of_nat del: of_nat_add of_nat_mult)
  then show "b \<le> unat y \<and> unat y < b + d * n \<and> unat y mod d = b mod d"
    using \<open>d * i < d * n\<close> by simp
next
  assume y: "b \<le> unat y \<and> unat y < b + d * n \<and> unat y mod d = b mod d"
  then have "d dvd unat y - b"
    by (metis mod_eq_dvd_iff_nat)
  then obtain i where i: "unat y = b + d * i"
    using y by (metis dvdE le_add_diff_inverse)
  have "i < n"
    using y assms(1) unfolding i by simp
  moreover have "y = of_nat (b + d * i)"
    unfolding i [symmetric] by simp
  ultimately show "\<exists>i < n. y = of_nat (b + d * i)"
    by blast
qed

lemma mc_unat:
  "(\<exists>i < 4. y = MSR_IA32_MC0_CTL2 + of_nat i) \<longleftrightarrow> 640 \<le> unat y \<and> unat y < 644"
  "(\<exists>i < 10. y = MSR_IA32_MC0_CTL + 4 * of_nat i) \<longleftrightarrow> 1024 \<le> unat y \<and> unat y < 1064 \<and> unat y mod 4 = 0"
  "(\<exists>i < 10. y = MSR_IA32_MC0_STATUS + 4 * of_nat i) \<longleftrightarrow> 1025 \<le> unat y \<and> unat y < 1065 \<and> unat y mod 4 = 1"
  using arith_progression [of 1 640 4 y] arith_progression [of 4 1024 10 y] arith_progression [of 4 1025 10 y]
  by (simp_all add: MSR_IA32_MC0_CTL2_def MSR_IA32_MC0_CTL_def MSR_IA32_MC0_STATUS_def)

lemma base_exits:
  assumes y: "covered y"
  shows "read_exits (base_msr_bitmap safety b) y \<longleftrightarrow>
      \<not> (y \<in> set unintercepted_msrs \<or> y = MSR_IA32_TIME_STAMP_COUNTER \<or> y = MSR_IA32_EFER \<or>
         safety \<and> ((\<exists>i < 4. y = MSR_IA32_MC0_CTL2 + of_nat i) \<or> (\<exists>i < 10. y = MSR_IA32_MC0_CTL + 4 * of_nat i)))"
    and "write_exits (base_msr_bitmap safety b) y \<longleftrightarrow>
      \<not> (y \<in> set unintercepted_msrs \<or>
         safety \<and> ((\<exists>i < 4. y = MSR_IA32_MC0_CTL2 + of_nat i) \<or> (\<exists>i < 10. y = MSR_IA32_MC0_CTL + 4 * of_nat i) \<or>
                   (\<exists>i < 10. y = MSR_IA32_MC0_STATUS + 4 * of_nat i)))"
proof -
  have all: "y \<in> set (msr_range LOW_MSR_START LOW_MSR_END) \<or> y \<in> set (msr_range HIGH_MSR_START HIGH_MSR_END)"
    using y by (simp add: range_covered covered_def LOW_MSR_START_def)
  have cov: "\<forall>x \<in> set (msr_range LOW_MSR_START LOW_MSR_END). covered x" "\<forall>x \<in> set (msr_range HIGH_MSR_START HIGH_MSR_END). covered x"
    "\<forall>x \<in> set (map (\<lambda>i. MSR_IA32_MC0_CTL2 + of_nat i) [0..<4]). covered x"
    "\<forall>x \<in> set (map (\<lambda>i. MSR_IA32_MC0_CTL + 4 * of_nat i) [0..<10]). covered x"
    "\<forall>x \<in> set (map (\<lambda>i. MSR_IA32_MC0_STATUS + 4 * of_nat i) [0..<10]). covered x"
    using mc_covered by (auto simp: range_covered covered_def simp del: upt_rec_numeral)
  have set_map_upt: "y \<in> set (map f [0..<n]) \<longleftrightarrow> (\<exists>i < n. y = f i)" for f n
    by auto
  note exits = loop_exits [OF cov(1) y] loop_exits [OF cov(2) y] loop_exits [OF cov(3) y] loop_exits [OF cov(4) y]
    loop_exits [OF cov(5) y] loop_exits [OF lists_covered(1) y] one_exits [OF some_covered(1) y] one_exits [OF some_covered(2) y]
  have banks: "unat NUM_MC_BANKS = 10"
    by (simp add: NUM_MC_BANKS_def)
  note defs = base_msr_bitmap_def Let_def mc_ctl2_list banks
  have status: "y \<notin> set unintercepted_msrs \<and> y \<noteq> MSR_IA32_TIME_STAMP_COUNTER \<and> y \<noteq> MSR_IA32_EFER \<and>
      \<not> (\<exists>i < 4. y = MSR_IA32_MC0_CTL2 + of_nat i) \<and> \<not> (\<exists>i < 10. y = MSR_IA32_MC0_CTL + 4 * of_nat i)"
    if "\<exists>i < 10. y = MSR_IA32_MC0_STATUS + 4 * of_nat i"
    using that unfolding mc_unat
    by (auto simp: unintercepted_eq MSR_IA32_TIME_STAMP_COUNTER_def MSR_IA32_EFER_def)
  have tsc: "y \<notin> set unintercepted_msrs \<and> \<not> (\<exists>i < 4. y = MSR_IA32_MC0_CTL2 + of_nat i) \<and>
      \<not> (\<exists>i < 10. y = MSR_IA32_MC0_CTL + 4 * of_nat i) \<and> \<not> (\<exists>i < 10. y = MSR_IA32_MC0_STATUS + 4 * of_nat i)"
    if "y = MSR_IA32_TIME_STAMP_COUNTER \<or> y = MSR_IA32_EFER"
    using that unfolding mc_unat
    by (auto simp: unintercepted_eq MSR_IA32_TIME_STAMP_COUNTER_def MSR_IA32_EFER_def)
  show "read_exits (base_msr_bitmap safety b) y \<longleftrightarrow>
      \<not> (y \<in> set unintercepted_msrs \<or> y = MSR_IA32_TIME_STAMP_COUNTER \<or> y = MSR_IA32_EFER \<or>
         safety \<and> ((\<exists>i < 4. y = MSR_IA32_MC0_CTL2 + of_nat i) \<or> (\<exists>i < 10. y = MSR_IA32_MC0_CTL + 4 * of_nat i)))"
    using all status unfolding defs if_distrib [of "\<lambda>b. read_exits b y"] exits set_map_upt by (cases safety) auto
  show "write_exits (base_msr_bitmap safety b) y \<longleftrightarrow>
      \<not> (y \<in> set unintercepted_msrs \<or>
         safety \<and> ((\<exists>i < 4. y = MSR_IA32_MC0_CTL2 + of_nat i) \<or> (\<exists>i < 10. y = MSR_IA32_MC0_CTL + 4 * of_nat i) \<or>
                   (\<exists>i < 10. y = MSR_IA32_MC0_STATUS + 4 * of_nat i)))"
    using all tsc unfolding defs if_distrib [of "\<lambda>b. write_exits b y"] exits set_map_upt by (cases safety) auto
qed

text \<open>The switch between passing the TSC deadline through and emulating it.\<close>

definition tsc_bitmap :: "bool \<Rightarrow> (nat \<Rightarrow> u8) \<Rightarrow> nat \<Rightarrow> u8" where
  "tsc_bitmap interception b =
     (if \<not> interception \<and> read_exits b MSR_IA32_TSC_DEADLINE then
        enable_msr_interception MSR_IA32_TSC_ADJUST INTERCEPT_WRITE (enable_msr_interception MSR_IA32_TSC_DEADLINE INTERCEPT_DISABLE b)
      else if interception \<and> \<not> read_exits b MSR_IA32_TSC_DEADLINE then
        enable_msr_interception MSR_IA32_TSC_ADJUST INTERCEPT_READ_WRITE
          (enable_msr_interception MSR_IA32_TSC_DEADLINE INTERCEPT_READ_WRITE b)
      else b)"

lemma deadline_bit:
  "b (unat (drop_bit 3 MSR_IA32_TSC_DEADLINE)) AND push_bit (unat (MSR_IA32_TSC_DEADLINE AND 0x7)) 1 \<noteq> 0 \<longleftrightarrow>
     read_exits b MSR_IA32_TSC_DEADLINE"
proof -
  have "msr_slot MSR_IA32_TSC_DEADLINE = 1760"
    by (simp add: msr_slot_def MSR_IA32_TSC_DEADLINE_def HIGH_MSR_START_def)
  then show ?thesis
    by (simp add: read_exits_def bitmap_bit_def MSR_IA32_TSC_DEADLINE_def bit_0 odd_iff_mod_2_eq_one and_one_eq)
qed

lemma hv_msr_fields [simp]:
  "hv_vcpus (snd (hv_msr_read env r h)) = hv_vcpus h" "hv_vcpus (hv_msr_write r x h) = hv_vcpus h"
  "fst (hv_msr_read env r h) = hw_msr env (hv_hw h) r"
  by (simp_all add: hv_msr_read_def hv_msr_write_def hw_op_def)

lemma set_bitmap_vcpu [simp]:
  "hv_vcpus (set_bitmap f vm v h) vm v = (hv_vcpus h vm v)\<lparr>msr_bitmap := f (msr_bitmap (hv_vcpus h vm v))\<rparr>"
  by (simp add: set_bitmap_def)

lemma set_guest_msr_fields [simp]:
  "msr_bitmap (vcpu_set_guest_msr r x c) = msr_bitmap c" "vmcs (vcpu_set_guest_msr r x c) = vmcs c"
  by (simp_all add: vcpu_set_guest_msr_def)

lemma tsc_interception_bitmap:
  "msr_bitmap (hv_vcpus (set_tsc_msr_interception env vm v i h) vm v) = tsc_bitmap i (msr_bitmap (hv_vcpus h vm v))"
  unfolding set_tsc_msr_interception_def tsc_bitmap_def deadline_bit Let_def split_def
  by simp

lemma init_bitmap:
  "msr_bitmap (hv_vcpus (init_msr_emulation env vm v h) vm v) =
     tsc_bitmap (exec_vmread64 VMX_TSC_OFFSET_FULL (hv_vcpus h vm v) \<noteq> 0)
       (enable_msr_interception MSR_IA32_EXT_APIC_ICR INTERCEPT_READ_WRITE
         (enable_msr_interception MSR_IA32_EXT_APIC_LDR INTERCEPT_READ
           (enable_msr_interception MSR_IA32_EXT_XAPICID INTERCEPT_READ
             (intercept_all INTERCEPT_DISABLE x2apic_msrs
               (base_msr_bitmap (is_safety_vm vm) (msr_bitmap (hv_vcpus h vm v)))))))"
  by (simp add: init_msr_emulation_def Let_def init_msr_area_def update_msr_bitmap_x2apic_passthru_def tsc_interception_bitmap
      exec_vmwrite_def exec_vmread64_def intercept_x2apic_msrs_def)

lemma deadline_not_adjust: "MSR_IA32_TSC_DEADLINE \<noteq> MSR_IA32_TSC_ADJUST"
  by (simp add: MSR_IA32_TSC_DEADLINE_def MSR_IA32_TSC_ADJUST_def)

lemma tsc_exits:
  assumes "covered y" "read_exits b MSR_IA32_TSC_DEADLINE"
  shows "read_exits (tsc_bitmap i b) y \<longleftrightarrow>
      \<not> (\<not> i \<and> y \<in> {MSR_IA32_TSC_DEADLINE, MSR_IA32_TSC_ADJUST}) \<and> read_exits b y"
    "write_exits (tsc_bitmap i b) y \<longleftrightarrow>
      (\<not> i \<and> y = MSR_IA32_TSC_ADJUST \<or> \<not> (\<not> i \<and> y = MSR_IA32_TSC_DEADLINE) \<and> write_exits b y)"
  using assms deadline_not_adjust
  by (auto simp: tsc_bitmap_def one_exits [OF some_covered(3) assms(1)] one_exits [OF some_covered(4) assms(1)])

lemma init_exits:
  assumes "covered msr"
  shows "(read_exits (msr_bitmap (hv_vcpus (init_msr_emulation env vm v h) vm v)) msr \<longleftrightarrow>
      \<not> reads_directly (is_safety_vm vm) (exec_vmread64 VMX_TSC_OFFSET_FULL (hv_vcpus h vm v) = 0) msr) \<and>
    (write_exits (msr_bitmap (hv_vcpus (init_msr_emulation env vm v h) vm v)) msr \<longleftrightarrow>
      \<not> writes_directly (is_safety_vm vm) (exec_vmread64 VMX_TSC_OFFSET_FULL (hv_vcpus h vm v) = 0) msr)"
proof -
  let ?x = "enable_msr_interception MSR_IA32_EXT_APIC_ICR INTERCEPT_READ_WRITE
      (enable_msr_interception MSR_IA32_EXT_APIC_LDR INTERCEPT_READ
        (enable_msr_interception MSR_IA32_EXT_XAPICID INTERCEPT_READ
          (intercept_all INTERCEPT_DISABLE x2apic_msrs
            (base_msr_bitmap (is_safety_vm vm) (msr_bitmap (hv_vcpus h vm v))))))"
  note numbers = MSR_IA32_TSC_DEADLINE_def MSR_IA32_TSC_ADJUST_def MSR_IA32_EXT_XAPICID_def MSR_IA32_EXT_APIC_LDR_def
    MSR_IA32_EXT_APIC_ICR_def MSR_IA32_TIME_STAMP_COUNTER_def MSR_IA32_EFER_def
  note exits = one_exits [OF some_covered(5)] one_exits [OF some_covered(6)] one_exits [OF some_covered(7)]
    loop_exits [OF lists_covered(2)] base_exits
  have disjoint: "MSR_IA32_TSC_DEADLINE \<notin> set x2apic_msrs" "MSR_IA32_TSC_ADJUST \<notin> set x2apic_msrs"
    "MSR_IA32_EXT_XAPICID \<in> set x2apic_msrs" "MSR_IA32_EXT_APIC_LDR \<in> set x2apic_msrs" "MSR_IA32_EXT_APIC_ICR \<in> set x2apic_msrs"
    "MSR_IA32_TSC_DEADLINE \<notin> set unintercepted_msrs" "MSR_IA32_TSC_ADJUST \<notin> set unintercepted_msrs"
    "MSR_IA32_EXT_XAPICID \<notin> set unintercepted_msrs" "MSR_IA32_EXT_APIC_LDR \<notin> set unintercepted_msrs"
    "MSR_IA32_EXT_APIC_ICR \<notin> set unintercepted_msrs"
    by (simp_all add: x2apic_eq unintercepted_eq numbers)
  have special: "\<not> (\<exists>i < 4. y = MSR_IA32_MC0_CTL2 + of_nat i) \<and> \<not> (\<exists>i < 10. y = MSR_IA32_MC0_CTL + 4 * of_nat i) \<and>
      \<not> (\<exists>i < 10. y = MSR_IA32_MC0_STATUS + 4 * of_nat i) \<and> y \<noteq> MSR_IA32_TIME_STAMP_COUNTER \<and> y \<noteq> MSR_IA32_EFER"
    if "y \<in> {MSR_IA32_TSC_DEADLINE, MSR_IA32_TSC_ADJUST, MSR_IA32_EXT_XAPICID, MSR_IA32_EXT_APIC_LDR, MSR_IA32_EXT_APIC_ICR}" for y
    using that unfolding mc_unat by (auto simp: numbers)
  have deadline: "read_exits ?x MSR_IA32_TSC_DEADLINE"
    using special [of MSR_IA32_TSC_DEADLINE] disjoint by (simp add: exits)
  show ?thesis
    unfolding init_bitmap tsc_exits [OF assms deadline] reads_directly_def writes_directly_def
    using special [of msr] disjoint deadline_not_adjust by (auto simp: exits [OF assms])
qed

text \<open>
  C34. The MSR bitmap that a virtual CPU starts with makes exactly these accesses of the guest exit:
  among the MSRs that have a bit, a read or a write exits unless \<open>reads_directly\<close> or
  \<open>writes_directly\<close> lists the MSR. So no MSR of the host is readable or writable by a guest because a
  loop missed it, whatever the bitmap was before.
\<close>

theorem init_msr_bitmap:
  assumes "covered msr"
  shows "(read_exits (msr_bitmap (hv_vcpus (init_msr_emulation env vm v h) vm v)) msr \<longleftrightarrow>
      \<not> reads_directly (is_safety_vm vm) (exec_vmread64 VMX_TSC_OFFSET_FULL (hv_vcpus h vm v) = 0) msr) \<and>
    (write_exits (msr_bitmap (hv_vcpus (init_msr_emulation env vm v h) vm v)) msr \<longleftrightarrow>
      \<not> writes_directly (is_safety_vm vm) (exec_vmread64 VMX_TSC_OFFSET_FULL (hv_vcpus h vm v) = 0) msr)"
  by (rule init_exits [OF assms])

subsection \<open>The time stamp counter of the guest\<close>

text \<open>
  The TSC that the guest reads is the physical one plus the offset in the VMCS. \<open>tsc_gap\<close> is the part
  of the offset that the guest does not see as its \<^verbatim>\<open>IA32_TSC_ADJUST\<close>. \<open>tsc_bits\<close>: the exits of the two
  MSRs that depend on the offset; \<open>tsc_wf\<close>: they fit the offset.
\<close>

definition tsc_offset :: "acrn_vcpu \<Rightarrow> u64" where
  "tsc_offset c = exec_vmread64 VMX_TSC_OFFSET_FULL c"

definition tsc_gap :: "acrn_vcpu \<Rightarrow> u64" where
  "tsc_gap c = tsc_offset c - vcpu_get_guest_msr c MSR_IA32_TSC_ADJUST"

definition tsc_bits :: "bool \<Rightarrow> (nat \<Rightarrow> u8) \<Rightarrow> bool" where
  "tsc_bits i b \<longleftrightarrow> (read_exits b MSR_IA32_TSC_DEADLINE \<longleftrightarrow> i) \<and> (write_exits b MSR_IA32_TSC_DEADLINE \<longleftrightarrow> i) \<and>
     (read_exits b MSR_IA32_TSC_ADJUST \<longleftrightarrow> i) \<and> write_exits b MSR_IA32_TSC_ADJUST"

definition tsc_wf :: "acrn_vcpu \<Rightarrow> bool" where
  "tsc_wf c \<longleftrightarrow> tsc_bits (tsc_offset c \<noteq> 0) (msr_bitmap c)"

lemma tsc_bits_switch: "tsc_bits j b \<Longrightarrow> tsc_bits i (tsc_bitmap i b)"
  using deadline_not_adjust by (auto simp: tsc_bits_def tsc_bitmap_def one_exits)

lemma guest_msr_index:
  "vmsr_get_guest_msr_index MSR_IA32_PAT = 0" "vmsr_get_guest_msr_index MSR_IA32_TSC_ADJUST = 1"
  "vmsr_get_guest_msr_index MSR_IA32_TSC_DEADLINE = 2" "vmsr_get_guest_msr_index MSR_IA32_MISC_ENABLE = 11"
  by code_simp+

lemma guest_msr_get_set:
  "vcpu_get_guest_msr (vcpu_set_guest_msr MSR_IA32_TSC_ADJUST x c) MSR_IA32_TSC_ADJUST = x"
  "vcpu_get_guest_msr (vcpu_set_guest_msr MSR_IA32_TSC_DEADLINE x c) MSR_IA32_TSC_ADJUST = vcpu_get_guest_msr c MSR_IA32_TSC_ADJUST"
  "vcpu_get_guest_msr (vcpu_set_guest_msr MSR_IA32_PAT x c) MSR_IA32_TSC_ADJUST = vcpu_get_guest_msr c MSR_IA32_TSC_ADJUST"
  "vcpu_get_guest_msr (vcpu_set_guest_msr MSR_IA32_MISC_ENABLE x c) MSR_IA32_TSC_ADJUST = vcpu_get_guest_msr c MSR_IA32_TSC_ADJUST"
  by (simp_all add: vcpu_get_guest_msr_def vcpu_set_guest_msr_def guest_msr_index)

text \<open>An operation that keeps the three parts of the state.\<close>

definition tsc_same :: "acrn_vcpu \<Rightarrow> acrn_vcpu \<Rightarrow> bool" where
  "tsc_same c c' \<longleftrightarrow> tsc_offset c' = tsc_offset c \<and> msr_bitmap c' = msr_bitmap c \<and>
     vcpu_get_guest_msr c' MSR_IA32_TSC_ADJUST = vcpu_get_guest_msr c MSR_IA32_TSC_ADJUST"

lemma tsc_same_keeps: "tsc_same c c' \<Longrightarrow> tsc_gap c' = tsc_gap c \<and> (tsc_wf c \<longrightarrow> tsc_wf c')"
  by (simp add: tsc_same_def tsc_gap_def tsc_wf_def)

lemma tsc_same_refl [simp]: "tsc_same c c"
  by (simp add: tsc_same_def)

lemma tsc_same_trans: "tsc_same c c' \<Longrightarrow> tsc_same c' c'' \<Longrightarrow> tsc_same c c''"
  by (simp add: tsc_same_def)

lemma tsc_same_fields:
  "vmcs c' = vmcs c \<Longrightarrow> msr_bitmap c' = msr_bitmap c \<Longrightarrow> guest_msrs c' = guest_msrs c \<Longrightarrow> tsc_same c c'"
  by (simp add: tsc_same_def tsc_offset_def exec_vmread64_def vcpu_get_guest_msr_def)

lemma on_vcpu_simps [simp]:
  "fst (on_vcpu vm v f h) = fst (f (hv_vcpus h vm v))"
  "hv_vcpus (snd (on_vcpu vm v f h)) vm v = snd (f (hv_vcpus h vm v))"
  by (simp_all add: on_vcpu_def)

lemma tsc_same_get_reg [simp]:
  "tsc_same c (snd (vcpu_get_efer c))" "tsc_same c (snd (vcpu_get_cr0 c))" "tsc_same c (snd (vcpu_get_cr4 c))"
  by (rule tsc_same_fields; simp add: vcpu_get_efer_def vcpu_get_cr0_def vcpu_get_cr4_def Let_def split_def)+

lemma get_guest_msr_fields [simp]:
  "vcpu_get_guest_msr (c\<lparr>msr_bitmap := b\<rparr>) r = vcpu_get_guest_msr c r"
  "vcpu_get_guest_msr (c\<lparr>pending_req := w\<rparr>) r = vcpu_get_guest_msr c r"
  "vcpu_get_guest_msr (vcpu_set_efer x c) r = vcpu_get_guest_msr c r"
  "vcpu_get_guest_msr (exec_vmwrite f x c) r = vcpu_get_guest_msr c r"
  by (simp_all add: vcpu_get_guest_msr_def vcpu_set_efer_def exec_vmwrite_def)

lemma tsc_same_set [simp]:
  "tsc_same c (vcpu_set_efer x c')  \<longleftrightarrow> tsc_same c c'"
  "tsc_same c (c'\<lparr>pending_req := w\<rparr>) \<longleftrightarrow> tsc_same c c'"
  "tsc_same c (exec_vmwrite VMX_GUEST_IA32_PAT_FULL x c') \<longleftrightarrow> tsc_same c c'"
  "tsc_same c (vcpu_set_guest_msr MSR_IA32_PAT x c') \<longleftrightarrow> tsc_same c c'"
  "tsc_same c (vcpu_set_guest_msr MSR_IA32_MISC_ENABLE x c') \<longleftrightarrow> tsc_same c c'"
  "tsc_same c (vcpu_set_guest_msr MSR_IA32_TSC_DEADLINE x c') \<longleftrightarrow> tsc_same c c'"
  by (simp_all add: tsc_same_def tsc_offset_def exec_vmread64_def guest_msr_get_set)
    (simp_all add: exec_vmwrite_def VMX_TSC_OFFSET_FULL_def VMX_GUEST_IA32_PAT_FULL_def vcpu_set_efer_def)

lemma tsc_same_request [simp]:
  "tsc_same c (hv_vcpus (vcpu_make_request cpu vm v e h) vm v) \<longleftrightarrow> tsc_same c (hv_vcpus h vm v)"
  by (simp add: vcpu_make_request_def)

lemma write_pat_same: "tsc_same (hv_vcpus h vm v) (hv_vcpus (snd (write_pat_msr vm v val h)) vm v)"
  by (auto simp: write_pat_msr_def Let_def split_def intro: tsc_same_trans [OF _ tsc_same_get_reg(2)])

lemma misc_enable_same: "tsc_same (hv_vcpus h vm v) (hv_vcpus (snd (set_guest_ia32_misc_enable cpu vm v val h)) vm v)"
  by (auto simp: set_guest_ia32_misc_enable_def Let_def split_def intro: tsc_same_trans [OF _ tsc_same_get_reg(1)])

lemma guest_cpuid_same:
  "guest_cpuid env vm v r h = Some (r', h') \<Longrightarrow> tsc_same (hv_vcpus h vm v) (hv_vcpus h' vm v)"
  by (auto simp: guest_cpuid_def Let_def split_def guest_cpuid_01h_def split: if_splits option.splits)

lemma efer_same:
  "write_efer_msr env cpu vm v val h = Some (ret, h') \<Longrightarrow> tsc_same (hv_vcpus h vm v) (hv_vcpus h' vm v)"
proof -
  assume run: "write_efer_msr env cpu vm v val h = Some (ret, h')"
  define h1 where "h1 = snd (on_vcpu vm v vcpu_get_efer h)"
  have s1: "tsc_same (hv_vcpus h vm v) (hv_vcpus h1 vm v)"
    by (simp add: h1_def)
  have s2: "tsc_same (hv_vcpus h vm v) (snd (is_paging_enabled (hv_vcpus h1 vm v)))"
    using tsc_same_trans [OF s1 tsc_same_get_reg(2)] by (simp add: is_paging_enabled_def Let_def split_def)
  have s3: "tsc_same (hv_vcpus h vm v) (hv_vcpus h3 vm v)"
    if "guest_cpuid env vm v r g = Some (x, h3)" "tsc_same (hv_vcpus h vm v) (hv_vcpus g vm v)" for g r x h3
    using guest_cpuid_same [OF that(1)] that(2) tsc_same_trans by blast
  show ?thesis
    using run s1 s2 unfolding write_efer_msr_def Let_def split_def h1_def [symmetric]
    by (auto split: if_splits bind_splits dest!: s3)
qed

lemma set_tsc_interception_fields:
  "tsc_offset (hv_vcpus (set_tsc_msr_interception env vm v i h) vm v) = tsc_offset (hv_vcpus h vm v)"
  "vcpu_get_guest_msr (hv_vcpus (set_tsc_msr_interception env vm v i h) vm v) MSR_IA32_TSC_ADJUST =
     vcpu_get_guest_msr (hv_vcpus h vm v) MSR_IA32_TSC_ADJUST"
  unfolding set_tsc_msr_interception_def deadline_bit Let_def split_def tsc_offset_def exec_vmread64_def
  by (auto simp: guest_msr_get_set)

lemma set_tsc_msr_interception_wf:
  assumes "tsc_bits j (msr_bitmap (hv_vcpus h vm v))" "i \<longleftrightarrow> tsc_offset (hv_vcpus h vm v) \<noteq> 0"
  shows "tsc_wf (hv_vcpus (set_tsc_msr_interception env vm v i h) vm v)"
  using tsc_bits_switch [OF assms(1)] assms(2) by (simp add: tsc_wf_def set_tsc_interception_fields tsc_interception_bitmap)

lemma offset_write:
  "tsc_offset (exec_vmwrite VMX_TSC_OFFSET_FULL x c) = x" "tsc_offset (vcpu_set_guest_msr r x c) = tsc_offset c"
  by (simp_all add: tsc_offset_def exec_vmread64_def exec_vmwrite_def)

lemma exec_vmwrite_bitmap [simp]: "msr_bitmap (exec_vmwrite f x c) = msr_bitmap c"
  by (simp add: exec_vmwrite_def)

lemma wrmsr_tsc_adjust:
  fixes h :: hv and env :: hw_env and vm v :: u16 and val :: u64
  defines "c \<equiv> hv_vcpus h vm v" and "c' \<equiv> hv_vcpus (set_guest_tsc_adjust env vm v val h) vm v"
  shows "tsc_gap c' = tsc_gap c" "vcpu_get_guest_msr c' MSR_IA32_TSC_ADJUST = val" "tsc_wf c \<Longrightarrow> tsc_wf c'"
proof -
  show "tsc_gap c' = tsc_gap c" "vcpu_get_guest_msr c' MSR_IA32_TSC_ADJUST = val"
    unfolding c_def c'_def set_guest_tsc_adjust_def Let_def tsc_gap_def set_tsc_interception_fields
    by (simp_all add: guest_msr_get_set offset_write flip: tsc_offset_def)
  show "tsc_wf c'" if "tsc_wf c"
    unfolding c'_def set_guest_tsc_adjust_def Let_def
    by (rule set_tsc_msr_interception_wf)
      (use that in \<open>simp_all add: c_def tsc_wf_def offset_write flip: tsc_offset_def\<close>)
qed

lemma wrmsr_tsc:
  fixes h :: hv and env :: hw_env and vm v :: u16 and val :: u64
  defines "c \<equiv> hv_vcpus h vm v" and "c' \<equiv> hv_vcpus (set_guest_tsc env vm v val h) vm v"
  shows "tsc_gap c' = tsc_gap c" "hw_tsc env (hv_hw h) + tsc_offset c' = val" "tsc_wf c \<Longrightarrow> tsc_wf c'"
proof -
  show "tsc_gap c' = tsc_gap c" "hw_tsc env (hv_hw h) + tsc_offset c' = val"
    unfolding c_def c'_def set_guest_tsc_def rdtsc_def Let_def split_def tsc_gap_def set_tsc_interception_fields
    by (simp_all add: guest_msr_get_set offset_write hw_op_def flip: tsc_offset_def)
  show "tsc_wf c'" if "tsc_wf c"
    unfolding c'_def set_guest_tsc_def rdtsc_def Let_def split_def
    by (rule set_tsc_msr_interception_wf)
      (use that in \<open>simp_all add: c_def tsc_wf_def offset_write hw_op_def flip: tsc_offset_def\<close>)
qed

text \<open>
  C35. The time stamp counter of a guest stays consistent under every MSR write that exits, whatever the
  guest writes, other than a write to the local APIC: the offset in the VMCS and the emulated
  \<^verbatim>\<open>IA32_TSC_ADJUST\<close> change by the same amount, so their difference never changes; and the deadline MSR is
  passed through exactly when the offset is zero. After a write of the counter the guest reads the
  value it wrote, and a deadline is programmed as the physical value at which the guest's counter
  reaches it.
\<close>

theorem wrmsr_keeps_tsc:
  assumes "wrmsr_value env cpu vm v msr val h = Some (ret, h')" "\<not> is_x2apic_msr msr" "tsc_wf (hv_vcpus h vm v)"
  shows "tsc_gap (hv_vcpus h' vm v) = tsc_gap (hv_vcpus h vm v) \<and> tsc_wf (hv_vcpus h' vm v) \<and>
    (msr = MSR_IA32_TIME_STAMP_COUNTER \<longrightarrow> hw_tsc env (hv_hw h) + tsc_offset (hv_vcpus h' vm v) = val) \<and>
    (msr = MSR_IA32_TSC_ADJUST \<longrightarrow> vcpu_get_guest_msr (hv_vcpus h' vm v) MSR_IA32_TSC_ADJUST = val) \<and>
    (msr = MSR_IA32_TSC_DEADLINE \<and> val \<noteq> 0 \<and> val \<noteq> tsc_offset (hv_vcpus h vm v) \<longrightarrow>
       hv_hw h' = Msr_write MSR_IA32_TSC_DEADLINE (val - tsc_offset (hv_vcpus h vm v)) # hv_hw h)"
proof -
  have deadline: "tsc_same (hv_vcpus h vm v) (hv_vcpus (vlapic_set_tsc_deadline_msr vm v val h) vm v)"
    by (simp add: vlapic_set_tsc_deadline_msr_def Let_def)
  have timer: "hv_hw (vlapic_set_tsc_deadline_msr vm v val h) =
      Msr_write MSR_IA32_TSC_DEADLINE (val - tsc_offset (hv_vcpus h vm v)) # hv_hw h"
    if "val \<noteq> 0" "val \<noteq> tsc_offset (hv_vcpus h vm v)"
    using that by (simp add: vlapic_set_tsc_deadline_msr_def Let_def hv_msr_write_def hw_op_def exec_vmread64_def tsc_offset_def)
  note numbers = MSR_IA32_TSC_DEADLINE_def MSR_IA32_TSC_ADJUST_def MSR_IA32_TIME_STAMP_COUNTER_def
  show ?thesis
  proof (cases "msr \<in> {MSR_IA32_TSC_DEADLINE, MSR_IA32_TSC_ADJUST, MSR_IA32_TIME_STAMP_COUNTER}")
    case True
    then show ?thesis
      using assms(1,3) timer tsc_same_keeps [OF deadline] 
        wrmsr_tsc_adjust [where env = env and vm = vm and v = v and val = val and h = h]
        wrmsr_tsc [where env = env and vm = vm and v = v and val = val and h = h]
      by (auto simp: wrmsr_value_def numbers)
  next
    case False
    then have "tsc_same (hv_vcpus h vm v) (hv_vcpus h' vm v)"
      using assms(1,2) write_pat_same [of h vm v val] misc_enable_same [of h vm v cpu val] efer_same
      by (auto simp: wrmsr_value_def wrmsr_default_def split: if_splits)
    then show ?thesis
      using False assms(3) tsc_same_keeps by auto
  qed
qed

subsection \<open>Examples\<close>

definition ex_hw :: hw_env where
  "ex_hw = \<lparr>hw_msr = (\<lambda>_ _. 0), hw_tsc = (\<lambda>_. 1000), hw_cpuid = (\<lambda>_ _. \<lparr>r_eax = 0, r_ebx = 0, r_ecx = 0, r_edx = 0\<rparr>),
     hw_mem = \<lparr>mem_bytes = (\<lambda>_. 0), mem_ac = False\<rparr>, hw_stack = 0,
     hw_caps = \<lparr>displayfamily = 6, displaymodel = 0, virt_bits = 48, phys_bits = 39, cpuid_level = 0, extended_cpuid_level = 0,
       cpuid_leaves = (\<lambda>_. 0), model_name = (\<lambda>_. 0)\<rparr>,
     hw_security = \<lparr>skip_l1dfl_vmentry = True, cpu_md_clear = False\<rparr>, hw_addr = (\<lambda>_. 0x1000), hw_host = (\<lambda>_. 0),
     hw_vmrun = (\<lambda>_ c. (0, gprs c, cr2 c, vmcs c))\<rparr>"

definition ex_tsc_hv :: hv where
  "ex_tsc_hv = upd_vcpu 1 0 (\<lambda>c. c\<lparr>msr_bitmap := (\<lambda>_. 0)(2055 := 8)\<rparr>) hv_ex"

theorem init_msr_bitmap_witness:
  "read_exits (msr_bitmap (hv_vcpus (init_msr_emulation ex_hw 1 0 hv_ex) 1 0)) MSR_IA32_SPEC_CTRL"
proof -
  have "covered MSR_IA32_SPEC_CTRL"
    by (simp add: covered_def MSR_IA32_SPEC_CTRL_def LOW_MSR_END_def)
  moreover have "\<not> reads_directly (is_safety_vm 1) z MSR_IA32_SPEC_CTRL" for z
    by (simp add: reads_directly_def is_safety_vm_def unintercepted_eq x2apic_eq MSR_IA32_SPEC_CTRL_def
        MSR_IA32_TIME_STAMP_COUNTER_def MSR_IA32_EFER_def MSR_IA32_TSC_DEADLINE_def MSR_IA32_TSC_ADJUST_def)
  ultimately show ?thesis
    using init_msr_bitmap [of MSR_IA32_SPEC_CTRL ex_hw 1 0 hv_ex] by blast
qed

lemma ex_tsc_wf: "tsc_wf (hv_vcpus ex_tsc_hv 1 0)"
proof -
  have "msr_slot MSR_IA32_TSC_DEADLINE = 1760" "msr_slot MSR_IA32_TSC_ADJUST = 59"
    by (simp_all add: msr_slot_def MSR_IA32_TSC_DEADLINE_def MSR_IA32_TSC_ADJUST_def HIGH_MSR_START_def)
  moreover have "tsc_offset (hv_vcpus ex_tsc_hv 1 0) = 0"
    by (simp add: ex_tsc_hv_def tsc_offset_def exec_vmread64_def hv_ex_def hv0_def vcpu0_def)
  moreover have "bit (8 :: u8) 3"
    by (simp add: bit_iff_odd)
  ultimately show ?thesis
    by (simp add: tsc_wf_def tsc_bits_def read_exits_def write_exits_def bitmap_bit_def ex_tsc_hv_def)
qed

theorem wrmsr_keeps_tsc_witness:
  "1000 + tsc_offset (hv_vcpus (set_guest_tsc ex_hw 1 0 5000 ex_tsc_hv) 1 0) = 5000 \<and>
     tsc_wf (hv_vcpus (set_guest_tsc ex_hw 1 0 5000 ex_tsc_hv) 1 0)"
proof -
  have "wrmsr_value ex_hw 1 1 0 MSR_IA32_TIME_STAMP_COUNTER 5000 ex_tsc_hv = Some (0, set_guest_tsc ex_hw 1 0 5000 ex_tsc_hv)"
    by (simp add: wrmsr_value_def MSR_IA32_TIME_STAMP_COUNTER_def MSR_IA32_TSC_DEADLINE_def MSR_IA32_TSC_ADJUST_def)
  moreover have "\<not> is_x2apic_msr MSR_IA32_TIME_STAMP_COUNTER"
    by (simp add: is_x2apic_msr_def x2apic_eq MSR_IA32_TIME_STAMP_COUNTER_def)
  moreover have "hw_tsc ex_hw l = 1000" for l
    by (simp add: ex_hw_def)
  ultimately show ?thesis
    using wrmsr_keeps_tsc [OF _ _ ex_tsc_wf, of ex_hw 1 MSR_IA32_TIME_STAMP_COUNTER 5000] by auto
qed

end
