(* ===== verification/Acrn_Cpuid_Safe.thy ===== *)
theory Acrn_Cpuid_Safe
  imports Acrn_Msr_Safe
begin

text \<open>
  The CPUID entries of a VM are sorted by leaf, so that the search that skips one half of the array and
  stops at a greater leaf finds what a search of the whole array finds.
\<close>

subsection \<open>The search\<close>

definition by_leaf :: "vcpuid_entry list \<Rightarrow> bool" where
  "by_leaf ents \<longleftrightarrow> sorted_wrt (\<lambda>e f. ve_leaf e \<le> ve_leaf f) ents"

lemma by_leaf_simps [simp]:
  "by_leaf []" "by_leaf (e # ents) \<longleftrightarrow> (\<forall>f \<in> set ents. ve_leaf e \<le> ve_leaf f) \<and> by_leaf ents"
  "by_leaf (xs @ ys) \<longleftrightarrow> by_leaf xs \<and> by_leaf ys \<and> (\<forall>e \<in> set xs. \<forall>f \<in> set ys. ve_leaf e \<le> ve_leaf f)"
  by (simp_all add: by_leaf_def sorted_wrt_append)

lemma scan_entries_find: "by_leaf ents \<Longrightarrow> scan_entries lf subleaf ents = find (entry_matches lf subleaf) ents"
proof (induction ents)
  case (Cons e ents)
  have "find (entry_matches lf subleaf) ents = None" if "lf < ve_leaf e"
    using Cons.prems that by (fastforce simp: find_None_iff entry_matches_def)
  moreover have "entry_matches lf subleaf e \<longleftrightarrow>
      ve_leaf e = lf \<and> \<not> (ve_flags e AND CPUID_CHECK_SUBLEAF \<noteq> 0 \<and> ve_subleaf e \<noteq> subleaf)"
    by (simp add: entry_matches_def)
  ultimately show ?case
    using Cons by (auto simp: not_less)
qed simp

lemma find_drop: "\<forall>x \<in> set (take i xs). \<not> P x \<Longrightarrow> find P (drop i xs) = find P xs"
proof -
  have "find P (ys @ zs) = find P zs" if "\<forall>x \<in> set ys. \<not> P x" for ys zs
    using that by (induction ys) auto
  then show "\<forall>x \<in> set (take i xs). \<not> P x \<Longrightarrow> find P (drop i xs) = find P xs"
    by (metis append_take_drop_id)
qed

lemma by_leaf_drop: "by_leaf ents \<Longrightarrow> by_leaf (drop i ents)"
  by (simp add: by_leaf_def sorted_wrt_drop)

lemma local_find_sorted:
  assumes "by_leaf (vcpuid_entries t)"
  shows "local_find_vcpuid_entry t lf subleaf = find (entry_matches lf subleaf) (vcpuid_entries t)"
proof -
  let ?ents = "vcpuid_entries t"
  let ?half = "length ?ents div 2"
  have "\<forall>e \<in> set (take ?half ?ents). \<not> entry_matches lf subleaf e" if "ve_leaf (vcpuid_at ?ents ?half) < lf"
  proof
    fix e assume "e \<in> set (take ?half ?ents)"
    then obtain i where i: "i < ?half" "e = ?ents ! i"
      by (auto simp: in_set_conv_nth)
    then have "ve_leaf e \<le> ve_leaf (?ents ! ?half)"
      using assms by (simp add: by_leaf_def sorted_wrt_iff_nth_less)
    then show "\<not> entry_matches lf subleaf e"
      using that i(1) by (auto simp: entry_matches_def vcpuid_at_def split: if_splits)
  qed
  then show ?thesis
    by (simp add: local_find_vcpuid_entry_def Let_def scan_entries_find by_leaf_drop assms find_drop)
qed

subsection \<open>The entries\<close>

text \<open>
  Sorted, no leaf above \<open>n\<close>, and every entry is one that \<^verbatim>\<open>init_vcpuid_entry\<close> made: the physical one with
  the features removed that are hidden from guests.
\<close>

definition masked_entry :: "hw_env \<Rightarrow> vcpuid_entry \<Rightarrow> bool" where
  "masked_entry env e \<longleftrightarrow> (\<exists>subleaf flags. e = init_vcpuid_entry env (ve_leaf e) subleaf flags)"

definition up_to :: "hw_env \<Rightarrow> nat \<Rightarrow> vm_cpuid \<Rightarrow> bool" where
  "up_to env n t \<longleftrightarrow> by_leaf (vcpuid_entries t) \<and> (\<forall>e \<in> set (vcpuid_entries t). unat (ve_leaf e) \<le> n) \<and>
     length (vcpuid_entries t) \<le> 64 \<and>
     (\<forall>e \<in> set (vcpuid_entries t). masked_entry env e)"

lemma up_to_mono: "up_to env n t \<Longrightarrow> n \<le> m \<Longrightarrow> up_to env m t"
  by (auto simp: up_to_def)

lemma ve_leaf_init [simp]: "ve_leaf (init_vcpuid_entry env lf subleaf flags) = lf"
  by (simp add: init_vcpuid_entry_def Let_def)

lemma set_entry_up_to:
  assumes "set_vcpuid_entry e t = Some t'" "up_to env n t" "n \<le> unat (ve_leaf e)"
    and "masked_entry env e"
  shows "up_to env (unat (ve_leaf e)) t'"
proof -
  have "ve_leaf f \<le> ve_leaf e" if "f \<in> set (vcpuid_entries t)" for f
    using assms(2,3) that by (force simp: up_to_def word_le_nat_alt)
  then show ?thesis
    using assms
    by (auto simp: set_vcpuid_entry_def up_to_def word_le_nat_alt MAX_VM_VCPUID_ENTRIES_def split: if_splits)
qed

lemma set_init_up_to:
  assumes "set_vcpuid_entry (init_vcpuid_entry env lf subleaf flags) t = Some t'" "up_to env n t" "n \<le> unat lf"
  shows "up_to env (unat lf) t'"
proof -
  have "masked_entry env (init_vcpuid_entry env lf subleaf flags)"
    unfolding masked_entry_def ve_leaf_init by blast
  then show ?thesis
    using set_entry_up_to [OF assms(1,2)] assms(3) by simp
qed

lemma leaf_4_up_to: "leaf_4_loop env j t = Some t' \<Longrightarrow> up_to env 4 t \<Longrightarrow> up_to env 4 t'"
proof (induction env j t rule: leaf_4_loop.induct)
  case (1 env j t)
  have step: "up_to env 4 t1" if "set_vcpuid_entry (init_vcpuid_entry env 4 j CPUID_CHECK_SUBLEAF) t = Some t1" for t1
    using set_init_up_to [OF that "1.prems"(2)] by simp
  show ?case
    using "1.prems" "1.IH" [OF refl] step by (subst (asm) leaf_4_loop.simps) (auto simp: Let_def split: if_splits option.splits)
qed

lemma basic_leaf_up_to:
  assumes "set_basic_leaf env i t = Some t'" "up_to env n t" "n \<le> unat i"
  shows "up_to env (unat i) t'"
proof -
  have "up_to env 4 t" if "i = 4"
    using assms(2,3) that up_to_mono by fastforce
  moreover have set_leaf: "up_to env (unat lf) t'"
    if "set_vcpuid_entry (init_vcpuid_entry env lf s flags) t = Some t'" "n \<le> unat lf" for lf s flags
    using set_init_up_to [OF that(1) assms(2) that(2)] .
  ultimately show ?thesis
    using assms(1,3) set_leaf [of 7] set_leaf [of i] leaf_4_up_to up_to_mono [OF assms(2,3)]
    by (auto simp: set_basic_leaf_def split: if_splits)
qed

lemma basic_loop_up_to:
  "basic_loop env is t = Some t' \<Longrightarrow> up_to env n t \<Longrightarrow> sorted (n # is) \<Longrightarrow> \<forall>i \<in> set is. i < 2 ^ 32 \<Longrightarrow>
     up_to env (last (n # is)) t'"
proof (induction "is" arbitrary: t n)
  case (Cons i "is")
  then obtain t1 where t1: "set_basic_leaf env (of_nat i) t = Some t1" "basic_loop env is t1 = Some t'"
    by (auto split: bind_splits)
  moreover have "unat (of_nat i :: u32) = i"
    using Cons.prems(4) by (simp add: unat_of_nat)
  ultimately show ?case
    using Cons.IH [OF t1(2), of i] basic_leaf_up_to [OF t1(1) Cons.prems(2)] Cons.prems(3,4) by auto
qed simp

lemma extended_loop_up_to:
  "extended_loop env is t = Some t' \<Longrightarrow> up_to env n t \<Longrightarrow> sorted (n # is) \<Longrightarrow> \<forall>i \<in> set is. i < 2 ^ 32 \<Longrightarrow>
     up_to env (last (n # is)) t'"
proof (induction "is" arbitrary: t n)
  case (Cons i "is")
  then obtain t1 where t1: "set_vcpuid_entry (init_vcpuid_entry env (of_nat i) 0 0) t = Some t1" "extended_loop env is t1 = Some t'"
    by (auto split: bind_splits)
  moreover have "unat (of_nat i :: u32) = i"
    using Cons.prems(4) by (simp add: unat_of_nat)
  ultimately show ?case
    using Cons.IH [OF t1(2), of i] set_init_up_to [OF t1(1) Cons.prems(2)] Cons.prems(3,4) by auto
qed simp

lemma set_entries_up_to:
  assumes "set_vcpuid_entries env t = Some t'" "vcpuid_entries t = []" "r_eax (hw_cpuid env 0 0) < 0x80000000"
  shows "\<exists>n. up_to env n t'"
proof -
  let ?e = "init_vcpuid_entry env 0 0 0" and ?x = "init_vcpuid_entry env CPUID_MAX_EXTENDED_FUNCTION 0 0"
  obtain t1 t2 t3 where t: "set_vcpuid_entry ?e t = Some t1"
    "basic_loop env [1..<unat (ve_eax ?e) + 1] (t1\<lparr>vcpuid_level := ve_eax ?e\<rparr>) = Some t2"
    "set_vcpuid_entry ?x t2 = Some t3"
    "extended_loop env [unat CPUID_EXTEND_FUNCTION_2..<unat (ve_eax ?x) + 1] (t3\<lparr>vcpuid_xlevel := ve_eax ?x\<rparr>) = Some t'"
    using assms(1) by (auto simp: set_vcpuid_entries_def set_vcpuid_extended_function_def Let_def split: bind_splits)
  have "up_to env 0 t"
    using assms(2) by (simp add: up_to_def)
  then have "up_to env 0 t1"
    using set_init_up_to [OF t(1)] by simp
  then have t1: "up_to env 0 (t1\<lparr>vcpuid_level := ve_eax ?e\<rparr>)"
    by (simp add: up_to_def)
  have level: "unat (ve_eax ?e) < 0x80000000"
    using assms(3) by (simp add: init_vcpuid_entry_def Let_def word_less_nat_alt)
  have s: "sorted (n # [a..<b])" if "n \<le> a" for n a b
    using that by auto
  have "up_to env (last (0 # [1..<unat (ve_eax ?e) + 1])) t2"
    using basic_loop_up_to [OF t(2) t1 s] level by fastforce
  moreover have "last (0 # [1..<unat (ve_eax ?e) + 1]) \<le> 0x80000000"
    using level by auto
  ultimately have "up_to env 0x80000000 t2"
    by (rule up_to_mono)
  then have "up_to env 0x80000000 t3"
    using set_init_up_to [OF t(3)] by (simp add: CPUID_MAX_EXTENDED_FUNCTION_def)
  then have "up_to env 0x80000000 (t3\<lparr>vcpuid_xlevel := ve_eax ?x\<rparr>)"
    by (simp add: up_to_def)
  moreover have "sorted (0x80000000 # [unat CPUID_EXTEND_FUNCTION_2..<unat (ve_eax ?x) + 1])"
    by (rule s) (simp add: CPUID_EXTEND_FUNCTION_2_def)
  moreover have "\<forall>i \<in> set [unat CPUID_EXTEND_FUNCTION_2..<unat (ve_eax ?x) + 1]. i < 2 ^ 32"
    using unat_u32_bound [of "ve_eax ?x"] by auto
  ultimately show ?thesis
    using extended_loop_up_to [OF t(4)] by blast
qed



end
