(* ===== verification/Acrn_Vcr_Safe.thy ===== *)
theory Acrn_Vcr_Safe
  imports Acrn_Msr_Safe
begin

text \<open>
  What a guest can make of the real CR0 and CR4 by writing its control registers: an invariant of the
  VMCS under every control register exit.
\<close>

subsection \<open>The invariant\<close>

text \<open>
  The masks fit together: no bit is both always on and always off, and the always-on bits of CR0 are
  none of those that the hypervisor handles itself.
\<close>

definition cr_masks_ok :: "cr_masks \<Rightarrow> bool" where
  "cr_masks_ok m \<longleftrightarrow> cr0_always_on_mask m AND cr0_always_off_mask m = 0 \<and>
     cr0_always_on_mask m AND (CR0_PE OR CR0_PG OR CR0_CD OR CR0_NW) = 0 \<and>
     cr4_always_on_mask m AND cr4_always_off_mask m = 0"

text \<open>The features of CR4 that no guest may turn on.\<close>

definition CR4_HIDDEN :: u64 where
  "CR4_HIDDEN = CR4_VMXE OR CR4_SMXE OR CR4_PKE OR CR4_PCE OR CR4_DE OR CR4_VME OR CR4_PVI OR CR4_PCIDE"

definition cr0_wf :: "cr_masks \<Rightarrow> u64 \<Rightarrow> bool" where
  "cr0_wf m x \<longleftrightarrow> x AND cr0_always_off_mask m = 0 \<and> NOT x AND (cr0_always_on_mask m AND 0xFFFFFFFF) = 0 \<and>
     x AND (CR0_CD OR CR0_NW) = 0 \<and> (x AND CR0_PG \<noteq> 0 \<longrightarrow> x AND CR0_PE \<noteq> 0) \<and> x AND NOT 0xFFFFFFFF = 0"

definition cr4_wf :: "cr_masks \<Rightarrow> u64 \<Rightarrow> bool" where
  "cr4_wf m x \<longleftrightarrow> x AND cr4_always_off_mask m = 0 \<and> NOT x AND (cr4_always_on_mask m AND 0xFFFFFFFF) = 0 \<and>
     x AND CR4_HIDDEN AND NOT (cr4_always_on_mask m) = 0 \<and> x AND NOT 0xFFFFFFFF = 0"

definition crs_wf :: "cr_masks \<Rightarrow> acrn_vcpu \<Rightarrow> bool" where
  "crs_wf m c \<longleftrightarrow> cr0_wf m (exec_vmread64 VMX_GUEST_CR0 c) \<and> cr4_wf m (exec_vmread64 VMX_GUEST_CR4 c) \<and>
     exec_vmread64 VMX_CR4_READ_SHADOW c AND CR4_HIDDEN = 0"

lemma and_or_zero_iff: "x AND (y OR z) = 0 \<longleftrightarrow> x AND y = 0 \<and> x AND z = 0" for x :: u64
proof -
  have "x AND (y OR z) = (x AND y) OR (x AND z)"
    by (rule bit_word_eqI) (auto simp: bit_simps)
  then show ?thesis
    by (auto simp: bit_eq_iff bit_simps)
qed

subsection \<open>What keeps the registers\<close>

lemmas vmx_cr_fields = VMX_GUEST_CR0_def VMX_GUEST_CR4_def VMX_CR0_READ_SHADOW_def VMX_CR4_READ_SHADOW_def

definition cr_fields :: "acrn_vcpu \<Rightarrow> u64 \<times> u64 \<times> u64 \<times> u64" where
  "cr_fields c = (exec_vmread64 VMX_GUEST_CR0 c, exec_vmread64 VMX_CR0_READ_SHADOW c,
     exec_vmread64 VMX_GUEST_CR4 c, exec_vmread64 VMX_CR4_READ_SHADOW c)"

definition cr_same :: "u16 \<Rightarrow> u16 \<Rightarrow> hv \<Rightarrow> hv \<Rightarrow> bool" where
  "cr_same vm v h h' \<longleftrightarrow> hv_cr_masks h' = hv_cr_masks h \<and> cr_fields (hv_vcpus h' vm v) = cr_fields (hv_vcpus h vm v)"

lemma cr_same_refl [simp]: "cr_same vm v h h"
  by (simp add: cr_same_def)

lemma cr_same_trans: "cr_same vm v h h' \<Longrightarrow> cr_same vm v h' h'' \<Longrightarrow> cr_same vm v h h''"
  by (simp add: cr_same_def)

lemma cr_same_wf: "cr_same vm v h h' \<Longrightarrow> crs_wf (hv_cr_masks h') (hv_vcpus h' vm v) \<longleftrightarrow> crs_wf (hv_cr_masks h) (hv_vcpus h vm v)"
  by (simp add: cr_same_def crs_wf_def cr_fields_def)

lemma masks_upd_vcpu [simp]: "hv_cr_masks (upd_vcpu vm v f h) = hv_cr_masks h" "hv_cr_masks (snd (on_vcpu vm v g h)) = hv_cr_masks h"
  by (simp_all add: upd_vcpu_def on_vcpu_def)

lemma cr_fields_vmcs: "vmcs c' = vmcs c \<Longrightarrow> cr_fields c' = cr_fields c"
  by (simp add: cr_fields_def exec_vmread64_def)

lemma cr_fields_update [simp]:
  "cr_fields (c\<lparr>exc_vector := x, exc_error := y\<rparr>) = cr_fields c"
  "cr_fields (c\<lparr>pending_req := w\<rparr>) = cr_fields c"
  "cr_fields (vcpu_set_efer e c) = cr_fields c"
  "cr_fields (snd (vcpu_get_efer c)) = cr_fields c"
  "cr_fields (snd (vcpu_get_cr0 c)) = cr_fields c"
  "cr_fields (snd (vcpu_get_cr4 c)) = cr_fields c"
  by (rule cr_fields_vmcs; simp add: vcpu_set_efer_def vcpu_get_efer_def vcpu_get_cr0_def vcpu_get_cr4_def Let_def split_def)+

lemma cr_fields_modes [simp]:
  "cr_fields (snd (is_pae c)) = cr_fields c" "cr_fields (snd (is_long_mode c)) = cr_fields c"
  "cr_fields (snd (is_paging_enabled c)) = cr_fields c"
  by (simp_all add: is_pae_def is_long_mode_def is_paging_enabled_def Let_def split_def)

lemma cr_fields_write [simp]:
  "cr_fields (exec_vmwrite32 VMX_ENTRY_CONTROLS y c) = cr_fields c"
  "cr_fields (exec_vmwrite VMX_GUEST_IA32_PAT_FULL x c) = cr_fields c"
  "cr_fields (exec_vmwrite VMX_GUEST_PDPTE0_FULL x c) = cr_fields c"
  "cr_fields (exec_vmwrite VMX_GUEST_PDPTE1_FULL x c) = cr_fields c"
  "cr_fields (exec_vmwrite VMX_GUEST_PDPTE2_FULL x c) = cr_fields c"
  "cr_fields (exec_vmwrite VMX_GUEST_PDPTE3_FULL x c) = cr_fields c"
  by (simp_all add: cr_fields_def exec_vmread64_def exec_vmwrite_def exec_vmwrite32_def vmx_cr_fields VMX_ENTRY_CONTROLS_def
      VMX_GUEST_IA32_PAT_FULL_def VMX_GUEST_PDPTE0_FULL_def VMX_GUEST_PDPTE1_FULL_def VMX_GUEST_PDPTE2_FULL_def
      VMX_GUEST_PDPTE3_FULL_def)

lemma cr_same_upd [intro]: "(\<And>c. cr_fields (f c) = cr_fields c) \<Longrightarrow> cr_same vm v h (upd_vcpu vm v f h)"
  by (simp add: cr_same_def)

lemma cr_same_on [intro]: "(\<And>c. cr_fields (snd (f c)) = cr_fields c) \<Longrightarrow> cr_same vm v h (snd (on_vcpu vm v f h))"
  by (simp add: cr_same_def)

lemma cr_same_request [simp]: "cr_same vm v h (vcpu_make_request cpu vm v e h)"
  by (simp add: cr_same_def vcpu_make_request_def kick_vcpu_def)

lemma cr_same_gp: "vcpu_inject_gp cpu vm v e h = Some h' \<Longrightarrow> cr_same vm v h h'"
  by (auto simp: vcpu_inject_gp_def vcpu_queue_exception_def Let_def split_def
      intro!: cr_same_trans [OF _ cr_same_request] cr_same_upd split: if_splits option.splits)

lemma cr_same_pdptrs: "cr_same vm v h (snd (load_pdptrs env vm v h))"
  unfolding load_pdptrs_def Let_def split_def by (simp add: cr_same_upd)

lemma cr_same_paging:
  assumes "cr0_paging_change env cpu vm v old msk h = Some (err, h')"
  shows "cr_same vm v h h'"
proof -
  have efer: "cr_same vm v h (snd (on_vcpu vm v vcpu_get_efer h))"
    by (rule cr_same_on) simp
  have pae1: "cr_same vm v h (snd (on_vcpu vm v is_pae (snd (on_vcpu vm v vcpu_get_efer h))))"
    by (rule cr_same_trans [OF efer cr_same_on]) simp
  have gp: "cr_same vm v h g'" if "vcpu_inject_gp cpu vm v 0 g = Some g'" "cr_same vm v h g" for g g'
    using cr_same_trans [OF that(2) cr_same_gp [OF that(1)]] .
  have upd: "cr_same vm v h (upd_vcpu vm v f g)" if "\<And>c. cr_fields (f c) = cr_fields c" "cr_same vm v h g" for f g
    using cr_same_trans [OF that(2) cr_same_upd [OF that(1)]] .
  have pd: "cr_same vm v h (snd (load_pdptrs env vm v g))" if "cr_same vm v h g" for g
    using cr_same_trans [OF that cr_same_pdptrs] .
  show ?thesis
    using assms unfolding cr0_paging_change_def Let_def split_def
    by (auto split: if_splits dest: gp [OF _ efer] gp [OF _ pd [OF pae1]] intro: upd [OF _ efer] pd [OF pae1] efer pae1)
qed

lemma cr0_valid:
  "fst (is_cr0_write_valid off n c) \<Longrightarrow> n AND off = 0 \<and> (n AND CR0_PG \<noteq> 0 \<longrightarrow> n AND CR0_PE \<noteq> 0)"
  "cr_fields (snd (is_cr0_write_valid off n c)) = cr_fields c"
  by (auto simp: is_cr0_write_valid_def Let_def split_def split: if_splits)

lemma cr0_guest_same:
  assumes "cr0_guest_write env cpu vm v n msk h = Some (err, h')"
  shows "cr_same vm v h h' \<and>
    (\<not> err \<longrightarrow> n AND cr0_always_off_mask (hv_cr_masks h) = 0 \<and> (n AND CR0_PG \<noteq> 0 \<longrightarrow> n AND CR0_PE \<noteq> 0))"
proof -
  define h1 where "h1 = snd (on_vcpu vm v (is_cr0_write_valid (cr0_always_off_mask (hv_cr_masks h)) n) h)"
  define h3 where "h3 = snd (on_vcpu vm v vcpu_get_cr0 (snd (on_vcpu vm v is_paging_enabled h1)))"
  have s1: "cr_same vm v h h1"
    unfolding h1_def by (rule cr_same_on) (simp add: cr0_valid)
  have "cr_same vm v h1 h3"
    unfolding h3_def by (rule cr_same_trans; rule cr_same_on) simp_all
  then have s3: "cr_same vm v h h3"
    using s1 cr_same_trans by blast
  have gp: "cr_same vm v h g" if "vcpu_inject_gp cpu vm v 0 h1 = Some g" for g
    using cr_same_trans [OF s1 cr_same_gp [OF that]] .
  have paging: "cr_same vm v h h4" if "cr0_paging_change env cpu vm v old msk h3 = Some (e, h4)" for old e h4
    using cr_same_trans [OF s3 cr_same_paging [OF that]] .
  have upd: "cr_same vm v h (upd_vcpu vm v f g)" if "cr_same vm v h g" "\<And>c. cr_fields (f c) = cr_fields c" for f g
    using cr_same_trans [OF that(1) cr_same_upd [OF that(2)]] .
  have req: "cr_same vm v h (vcpu_make_request cpu vm v e g)" if "cr_same vm v h g" for e g
    using cr_same_trans [OF that cr_same_request] .
  show ?thesis
    using assms cr0_valid(1) [of "cr0_always_off_mask (hv_cr_masks h)" n "hv_vcpus h vm v"]
    unfolding cr0_guest_write_def Let_def split_def h1_def [symmetric] h3_def [symmetric]
    by (auto split: if_splits bind_splits dest: gp paging intro!: upd req)
qed

lemma cr4_valid:
  "fst (is_cr4_write_valid vm off n c) \<Longrightarrow> n AND off = 0 \<and> n AND CR4_HIDDEN = 0"
  "cr_fields (snd (is_cr4_write_valid vm off n c)) = cr_fields c"
  by (auto simp: is_cr4_write_valid_def Let_def split_def CR4_HIDDEN_def and_or_zero_iff split: if_splits)

lemma cr4_guest_same:
  assumes "cr4_guest_write env cpu vm v n h = Some (err, h')"
  shows "cr_same vm v h h' \<and> (\<not> err \<longrightarrow> n AND cr4_always_off_mask (hv_cr_masks h) = 0 \<and> n AND CR4_HIDDEN = 0)"
proof -
  define h1 where "h1 = snd (on_vcpu vm v (is_cr4_write_valid vm (cr4_always_off_mask (hv_cr_masks h)) n) h)"
  define h2 where "h2 = snd (on_vcpu vm v vcpu_get_cr4 h1)"
  have on: "cr_same vm v h (snd (on_vcpu vm v f g))" if "cr_same vm v h g" "\<And>c. cr_fields (snd (f c)) = cr_fields c"
    for f :: "acrn_vcpu \<Rightarrow> bool \<times> acrn_vcpu" and g
    using cr_same_trans [OF that(1) cr_same_on [OF that(2)]] .
  have s1: "cr_same vm v h h1"
    unfolding h1_def by (rule cr_same_on) (simp add: cr4_valid)
  have s2: "cr_same vm v h h2"
    unfolding h2_def by (rule cr_same_trans [OF s1 cr_same_on]) simp
  note s3 = on [where f = is_paging_enabled, OF s2] on [where f = is_long_mode]
  have gp: "cr_same vm v h g'" if "vcpu_inject_gp cpu vm v 0 g = Some g'" "cr_same vm v h g" for g g'
    using cr_same_trans [OF that(2) cr_same_gp [OF that(1)]] .
  have pd: "cr_same vm v h (snd (load_pdptrs env vm v g))" if "cr_same vm v h g" for g
    using cr_same_trans [OF that cr_same_pdptrs] .
  have req: "cr_same vm v h (vcpu_make_request cpu vm v e g)" if "cr_same vm v h g" for e g
    using cr_same_trans [OF that cr_same_request] .
  show ?thesis
    using assms cr4_valid(1) [of vm "cr4_always_off_mask (hv_cr_masks h)" n "hv_vcpus h vm v"] s1 s2
    unfolding cr4_guest_write_def Let_def split_def h1_def [symmetric] h2_def [symmetric]
    by (auto split: if_splits bind_splits dest: gp intro!: req pd on)
qed

subsection \<open>What a write leaves\<close>

lemma and_bit: "k < 64 \<Longrightarrow> x AND push_bit k 1 = 0 \<longleftrightarrow> \<not> bit x k" for x :: u64
  unfolding bit_eq_iff [of "x AND push_bit k 1"] by (auto simp: bit_simps)

lemma cr0_bits:
  "x AND CR0_PG = 0 \<longleftrightarrow> \<not> bit x 31" "x AND CR0_PE = 0 \<longleftrightarrow> \<not> bit x 0"
  using and_bit [of 31 x] and_bit [of 0 x] by (simp_all add: CR0_PG_def CR0_PE_def)

lemma cr0_written:
  assumes masks: "on AND off = 0" "on AND (CR0_PE OR CR0_PG OR CR0_CD OR CR0_NW) = 0"
    and n: "n AND off = 0" "n AND CR0_PG \<noteq> 0 \<longrightarrow> n AND CR0_PE \<noteq> 0"
    and x: "x = ((on OR (n AND NOT CR0_RESERVED_MASK)) AND NOT (CR0_CD OR CR0_NW)) AND 0xFFFFFFFF"
  shows "x AND off = 0" "NOT x AND (on AND 0xFFFFFFFF) = 0" "x AND (CR0_CD OR CR0_NW) = 0"
    "x AND CR0_PG \<noteq> 0 \<longrightarrow> x AND CR0_PE \<noteq> 0" "x AND NOT 0xFFFFFFFF = 0"
proof -
  have on: "on AND CR0_PE = 0" "on AND CR0_PG = 0" "on AND (CR0_CD OR CR0_NW) = 0"
    using masks(2) by (simp_all add: and_or_zero_iff)
  show "x AND off = 0" "NOT x AND (on AND 0xFFFFFFFF) = 0" "x AND (CR0_CD OR CR0_NW) = 0" "x AND NOT 0xFFFFFFFF = 0"
    using masks(1) n(1) on(3) unfolding x bit_eq_iff by (auto simp: bit_simps)
  have zero: "bit (NOT CR0_RESERVED_MASK AND NOT (CR0_CD OR CR0_NW) AND 0xFFFFFFFF) 0"
    by code_simp
  show "x AND CR0_PG \<noteq> 0 \<longrightarrow> x AND CR0_PE \<noteq> 0"
    using n(2) on(2) zero unfolding x cr0_bits by (auto simp: bit_simps)
qed

lemma cr4_written:
  assumes "on AND off = 0" "n AND off = 0" "n AND CR4_HIDDEN = 0" "x = (on OR n) AND 0xFFFFFFFF"
  shows "x AND off = 0" "NOT x AND (on AND 0xFFFFFFFF) = 0" "x AND CR4_HIDDEN AND NOT on = 0" "x AND NOT 0xFFFFFFFF = 0"
  using assms(1-3) unfolding assms(4) bit_eq_iff by (auto simp: bit_simps)

lemma write_cr0_fields_read:
  "exec_vmread64 VMX_GUEST_CR0 (write_cr0_fields on msk c) = ((on OR msk) AND NOT (CR0_CD OR CR0_NW)) AND 0xFFFFFFFF"
  "exec_vmread64 VMX_GUEST_CR4 (write_cr0_fields on msk c) = exec_vmread64 VMX_GUEST_CR4 c"
  "exec_vmread64 VMX_CR4_READ_SHADOW (write_cr0_fields on msk c) = exec_vmread64 VMX_CR4_READ_SHADOW c"
  by (simp_all add: write_cr0_fields_def Let_def exec_vmread64_def exec_vmwrite_def vmx_cr_fields)

lemma write_cr4_fields_read:
  "exec_vmread64 VMX_GUEST_CR0 (write_cr4_fields on n c) = exec_vmread64 VMX_GUEST_CR0 c"
  "exec_vmread64 VMX_GUEST_CR4 (write_cr4_fields on n c) = (on OR n) AND 0xFFFFFFFF"
  "exec_vmread64 VMX_CR4_READ_SHADOW (write_cr4_fields on n c) = n AND 0xFFFFFFFF"
  by (simp_all add: write_cr4_fields_def Let_def exec_vmread64_def exec_vmwrite_def vmx_cr_fields)

lemma cr0_write_wf:
  assumes "vcpu_set_cr0 env cpu vm v n False h = Some h'" "cr_masks_ok (hv_cr_masks h)"
    "crs_wf (hv_cr_masks h) (hv_vcpus h vm v)"
  shows "crs_wf (hv_cr_masks h) (hv_vcpus h' vm v)" "hv_cr_masks h' = hv_cr_masks h"
proof -
  let ?m = "hv_cr_masks h" and ?msk = "n AND NOT CR0_RESERVED_MASK"
  obtain err h1 where run: "cr0_guest_write env cpu vm v n ?msk h = Some (err, h1)"
    and h': "h' = (if \<not> err then upd_vcpu vm v (write_cr0_fields (cr0_always_on_mask (hv_cr_masks h1)) ?msk) h1 else h1)"
    using assms(1) by (auto simp: vcpu_set_cr0_def vmx_write_cr0_def Let_def split: bind_splits)
  note same = cr0_guest_same [OF run]
  have masks: "hv_cr_masks h1 = ?m" and wf: "crs_wf ?m (hv_vcpus h1 vm v)"
    using same cr_same_wf [of vm v h h1] assms(3) by (auto simp: cr_same_def)
  show "hv_cr_masks h' = ?m"
    by (simp add: h' masks)
  show "crs_wf ?m (hv_vcpus h' vm v)"
  proof (cases err)
    case False
    note wr = cr0_written [OF _ _ _ _ refl, of "cr0_always_on_mask ?m" "cr0_always_off_mask ?m" n]
    show ?thesis
      using wr same False assms(2) wf
      by (simp add: h' masks crs_wf_def cr0_wf_def write_cr0_fields_read cr_masks_ok_def)
  qed (use wf h' in simp)
qed

lemma cr4_write_wf:
  assumes "vcpu_set_cr4 env cpu vm v n False h = Some h'" "cr_masks_ok (hv_cr_masks h)"
    "crs_wf (hv_cr_masks h) (hv_vcpus h vm v)"
  shows "crs_wf (hv_cr_masks h) (hv_vcpus h' vm v)" "hv_cr_masks h' = hv_cr_masks h"
proof -
  let ?m = "hv_cr_masks h"
  obtain err h1 where run: "cr4_guest_write env cpu vm v n h = Some (err, h1)"
    and h': "h' = (if \<not> err then upd_vcpu vm v (write_cr4_fields (cr4_always_on_mask (hv_cr_masks h1)) n) h1 else h1)"
    using assms(1) by (auto simp: vcpu_set_cr4_def vmx_write_cr4_def split: bind_splits)
  note same = cr4_guest_same [OF run]
  have masks: "hv_cr_masks h1 = ?m" and wf: "crs_wf ?m (hv_vcpus h1 vm v)"
    using same cr_same_wf [of vm v h h1] assms(3) by (auto simp: cr_same_def)
  show "hv_cr_masks h' = ?m"
    by (simp add: h' masks)
  show "crs_wf ?m (hv_vcpus h' vm v)"
  proof (cases err)
    case False
    have "n AND 0xFFFFFFFF AND CR4_HIDDEN = 0"
      using same False by (auto simp: bit_eq_iff bit_simps)
    then show ?thesis
      using cr4_written [OF _ _ _ refl, of "cr4_always_on_mask ?m" "cr4_always_off_mask ?m" n] same False assms(2) wf
      by (simp add: h' masks crs_wf_def cr4_wf_def write_cr4_fields_read cr_masks_ok_def and.assoc)
  qed (use wf h' in simp)
qed

lemma on_vcpu_rejects: "snd (on_vcpu vm v (Pair b) h) = h"
  by (simp add: on_vcpu_def upd_vcpu_def)

lemma cr0_rejected:
  assumes "n AND cr0_always_off_mask (hv_cr_masks h) \<noteq> 0" "vcpu_set_cr0 env cpu vm v n False h = Some h'"
  shows "vcpu_inject_gp cpu vm v 0 h = Some h'"
proof -
  have "is_cr0_write_valid (cr0_always_off_mask (hv_cr_masks h)) n = Pair False"
    using assms(1) by (simp add: is_cr0_write_valid_def fun_eq_iff)
  then show ?thesis
    using assms(2) by (auto simp: vcpu_set_cr0_def vmx_write_cr0_def cr0_guest_write_def Let_def split_def on_vcpu_rejects
        split: bind_splits)
qed

lemma cr4_rejected:
  assumes "n AND (cr4_always_off_mask (hv_cr_masks h) OR CR4_HIDDEN) \<noteq> 0" "vcpu_set_cr4 env cpu vm v n False h = Some h'"
  shows "vcpu_inject_gp cpu vm v 0 h = Some h'"
proof -
  have "is_cr4_write_valid vm (cr4_always_off_mask (hv_cr_masks h)) n = Pair False"
    using assms(1) by (auto simp: is_cr4_write_valid_def fun_eq_iff and_or_zero_iff CR4_HIDDEN_def)
  then show ?thesis
    using assms(2) by (auto simp: vcpu_set_cr4_def vmx_write_cr4_def cr4_guest_write_def Let_def split_def on_vcpu_rejects
        split: bind_splits)
qed

text \<open>The masks that the hypervisor computes when it starts a virtual CPU, from the fixed bits of the processor.\<close>

lemma init_masks_ok:
  assumes "\<And>l. hw_msr env l MSR_IA32_VMX_CR0_FIXED0 = f0" "\<And>l. hw_msr env l MSR_IA32_VMX_CR0_FIXED1 = f1"
    "\<And>l. hw_msr env l MSR_IA32_VMX_CR4_FIXED0 = g0" "\<And>l. hw_msr env l MSR_IA32_VMX_CR4_FIXED1 = g1"
    and "f0 AND NOT f1 = 0" "g0 AND NOT g1 = 0" "f0 AND (CR0_RESERVED_MASK OR CR0_CD OR CR0_NW) = 0" "g0 AND CR4_RESERVED_MASK = 0"
  shows "cr_masks_ok (hv_cr_masks (init_cr0_cr4_host_mask env vm v h))"
proof -
  have "hv_cr_masks (init_cr0_cr4_host_mask env vm v h) =
      \<lparr>cr0_always_on_mask = f0 AND NOT (CR0_PE OR CR0_PG),
       cr0_always_off_mask = (NOT f1 OR CR0_RESERVED_MASK) AND 0xffffffffe005003f,
       cr4_always_on_mask = g0, cr4_always_off_mask = NOT g1 OR CR4_RESERVED_MASK\<rparr>"
    by (simp add: init_cr0_cr4_host_mask_def Let_def split_def hv_msr_read_def assms(1-4))
  moreover have "f0 AND NOT (CR0_PE OR CR0_PG) AND ((NOT f1 OR CR0_RESERVED_MASK) AND 0xffffffffe005003f) = 0"
    "f0 AND NOT (CR0_PE OR CR0_PG) AND (CR0_PE OR CR0_PG OR CR0_CD OR CR0_NW) = 0"
    "g0 AND (NOT g1 OR CR4_RESERVED_MASK) = 0"
    using assms(5-8) by (auto simp: bit_eq_iff bit_simps)
  ultimately show ?thesis
    by (simp add: cr_masks_ok_def and.assoc)
qed

subsection \<open>Every control register exit\<close>


definition ex_cr_hv :: hv where
  "ex_cr_hv = upd_vcpu 1 0 (\<lambda>c. c\<lparr>vmcs := (vmcs c)(VMX_GUEST_CR0 := 0x20, VMX_GUEST_CR4 := 0x2000),
     gprs := (\<lambda>_. 0x2000), exit_qualification := 4\<rparr>) hv_ex"

lemma ex_cr_vcpu:
  "exit_qualification (hv_vcpus ex_cr_hv 1 0) = 4" "vcpu_get_gpreg (hv_vcpus ex_cr_hv 1 0) i = 0x2000"
  "hv_cr_masks ex_cr_hv = \<lparr>cr0_always_on_mask = 0x20, cr0_always_off_mask = 0, cr4_always_on_mask = 0x2000, cr4_always_off_mask = 0\<rparr>"
  "exec_vmread64 VMX_GUEST_CR0 (hv_vcpus ex_cr_hv 1 0) = 0x20" "exec_vmread64 VMX_GUEST_CR4 (hv_vcpus ex_cr_hv 1 0) = 0x2000"
  "exec_vmread64 VMX_CR4_READ_SHADOW (hv_vcpus ex_cr_hv 1 0) = 0" "exc_vector (hv_vcpus ex_cr_hv 1 0) = VECTOR_INVALID"
  by (simp_all add: ex_cr_hv_def hv_ex_def hv0_def vcpu0_def vcpu_get_gpreg_def exec_vmread64_def vmx_cr_fields)

lemma ex_cr_wf: "crs_wf (hv_cr_masks ex_cr_hv) (hv_vcpus ex_cr_hv 1 0)" "cr_masks_ok (hv_cr_masks ex_cr_hv)"
  unfolding crs_wf_def cr0_wf_def cr4_wf_def cr_masks_ok_def ex_cr_vcpu(3-)
  by (simp_all add: CR0_PE_def CR0_CD_def CR0_NW_def CR0_PG_def CR4_HIDDEN_def CR4_VMXE_def CR4_SMXE_def CR4_PKE_def
      CR4_PCE_def CR4_DE_def CR4_VME_def CR4_PVI_def CR4_PCIDE_def)


end
