(* ===== verification/Acrn_Entry_Safe.thy ===== *)
theory Acrn_Entry_Safe
  imports Acrn_Vmcs Acrn_Msr_Safe
begin

text \<open>
  The mitigations of the processor's side channels before every entry of a guest (\<^verbatim>\<open>run_vcpu\<close>),
  given the checks at boot (\<^verbatim>\<open>check_cpu_security_cap\<close>).
\<close>

subsection \<open>The check at boot\<close>

text \<open>
  The processor says that a guest cannot read what a cache or a buffer still holds of somebody else.
\<close>

definition l1tf_immune :: "cpuinfo_x86 \<Rightarrow> (u32 \<Rightarrow> u64) \<Rightarrow> bool" where
  "l1tf_immune b msr \<longleftrightarrow> pcpu_has_cap b X86_FEATURE_ARCH_CAP \<and>
     msr MSR_IA32_ARCH_CAPABILITIES AND IA32_ARCH_CAP_SKIP_L1DFL_VMENTRY \<noteq> 0"

definition mds_immune :: "cpuinfo_x86 \<Rightarrow> (u32 \<Rightarrow> u64) \<Rightarrow> bool" where
  "mds_immune b msr \<longleftrightarrow> pcpu_has_cap b X86_FEATURE_ARCH_CAP \<and>
     msr MSR_IA32_ARCH_CAPABILITIES AND IA32_ARCH_CAP_MDS_NO \<noteq> 0"

lemma checked_security:
  assumes "check_cpu_security_cap b msr s0 = (True, s)" "\<not> skip_l1dfl_vmentry s0"
  shows "skip_l1dfl_vmentry s \<longleftrightarrow> l1tf_immune b msr"
    "\<not> l1tf_immune b msr \<Longrightarrow> pcpu_has_cap b X86_FEATURE_L1D_FLUSH"
    "\<not> mds_immune b msr \<Longrightarrow> cpu_md_clear s \<longleftrightarrow> l1tf_immune b msr"
  using assms by (auto simp: check_cpu_security_cap_def l1tf_immune_def mds_immune_def Let_def split: if_splits)

subsection \<open>The entry\<close>

definition flush_l1d :: hw_event where
  "flush_l1d = Msr_write MSR_IA32_FLUSH_CMD IA32_L1D_FLUSH"

definition clear_buffers :: hw_event where
  "clear_buffers = Verw HOST_GDT_RING0_DATA_SEL"

definition mitigations :: "hw_env \<Rightarrow> hw_event list" where
  "mitigations env =
     (if cpu_md_clear (hw_security env) then [clear_buffers] else []) @
     (if \<not> skip_l1dfl_vmentry (hw_security env) \<and> pcpu_has_cap (hw_caps env) X86_FEATURE_L1D_FLUSH then [flush_l1d] else [])"

lemma mitigate_hw: "hv_hw (mitigate env h) = mitigations env @ hv_hw h"
  by (simp add: mitigate_def mitigations_def cpu_internal_buffers_clear_def cpu_l1d_flush_def
      verw_buffer_overwriting_def hw_op_def flush_l1d_def clear_buffers_def)

lemma upd_vcpu_hw [simp]: "hv_hw (upd_vcpu vm v f h) = hv_hw h"
  by (simp add: upd_vcpu_def)

lemma enter_guest_hw: "\<exists>l older. hv_hw (snd (enter_guest env vm v h)) = Vmrun l # mitigations env @ older"
  by (cases "launched (hv_vcpus h vm v)") (auto simp: enter_guest_def vmx_vmrun_def Let_def split_def hw_op_def mitigate_hw)

lemma run_vcpu_hw:
  assumes "run_vcpu env cpu vm v h = Some (r, h')"
  shows "\<exists>l older. hv_hw h' = Vmrun l # mitigations env @ older"
proof -
  obtain g where "h' = upd_vcpu vm v after_vmrun (snd (enter_guest env vm v g))"
    using assms by (auto simp: run_vcpu_def Let_def split_def split: bind_splits)
  then show ?thesis
    using enter_guest_hw [of env vm v g] by simp
qed

text \<open>
  C38. Once the check at boot has passed, every entry of a guest is protected by what the processor
  needs: directly before the entry, with nothing else in between, the hypervisor flushes the L1 data
  cache unless the processor says that it need not, and unless the processor is immune to
  microarchitectural data sampling it overwrites its buffers, by the same flush or by a VERW.
\<close>

theorem entry_mitigated:
  assumes "run_vcpu env cpu vm v h = Some (r, h')"
    and "check_cpu_security_cap (hw_caps env) msr s0 = (True, hw_security env)" "\<not> skip_l1dfl_vmentry s0"
  shows "\<exists>l evs older. hv_hw h' = Vmrun l # evs @ older \<and> set evs \<subseteq> {flush_l1d, clear_buffers} \<and>
    (\<not> l1tf_immune (hw_caps env) msr \<longrightarrow> flush_l1d \<in> set evs) \<and>
    (\<not> mds_immune (hw_caps env) msr \<longrightarrow> flush_l1d \<in> set evs \<or> clear_buffers \<in> set evs)"
proof -
  obtain l older where "hv_hw h' = Vmrun l # mitigations env @ older"
    using run_vcpu_hw [OF assms(1)] by blast
  then show ?thesis
    using checked_security [OF assms(2,3)]
    by (intro exI [of _ l] exI [of _ "mitigations env"] exI [of _ older]) (auto simp: mitigations_def)
qed

lemma no_update:
  "reg_updated c = 0 \<Longrightarrow> flush_reg r f c = c" "reg_updated c = 0 \<Longrightarrow> take_updated r c = (False, c)"
proof -
  have "bitmap_test_and_clear_lock r 0 = (False, 0)"
    by (simp add: bitmap_test_and_clear_lock_def bitmap_clear_lock_def bitmap_test_iff)
  then show "reg_updated c = 0 \<Longrightarrow> flush_reg r f c = c" "reg_updated c = 0 \<Longrightarrow> take_updated r c = (False, c)"
    by (cases c, simp add: flush_reg_def take_updated_def)+
qed

definition ex_entry_hw :: hw_env where
  "ex_entry_hw = ex_hw\<lparr>hw_caps := (hw_caps ex_hw)\<lparr>cpuid_leaves := (\<lambda>_. 0xFFFFFFFF)\<rparr>,
     hw_security := \<lparr>skip_l1dfl_vmentry = False, cpu_md_clear = False\<rparr>\<rparr>"

theorem entry_mitigated_witness:
  "\<exists>r h' l evs older. run_vcpu ex_entry_hw 1 1 0 hv_ex = Some (r, h') \<and> hv_hw h' = Vmrun l # evs @ older \<and>
     flush_l1d \<in> set evs"
proof -
  have upd: "reg_updated (hv_vcpus hv_ex 1 0) = 0"
    by (simp add: hv_ex_def hv0_def vcpu0_def)
  have "\<exists>r h'. run_vcpu ex_entry_hw 1 1 0 hv_ex = Some (r, h')"
    by (simp add: run_vcpu_def flush_regs_def no_update upd Let_def split_def)
  then obtain r h' where run: "run_vcpu ex_entry_hw 1 1 0 hv_ex = Some (r, h')"
    by blast
  have "pcpu_has_cap (hw_caps ex_entry_hw) X86_FEATURE_L1D_FLUSH" "pcpu_has_cap (hw_caps ex_entry_hw) X86_FEATURE_MDS_CLEAR"
    "pcpu_has_cap (hw_caps ex_entry_hw) X86_FEATURE_SSBD"
    by (simp_all add: pcpu_has_cap_def ex_entry_hw_def X86_FEATURE_L1D_FLUSH_def X86_FEATURE_MDS_CLEAR_def X86_FEATURE_SSBD_def
        FEAT_7_0_EDX_def FEATURE_WORDS_def Let_def)
  then have check: "check_cpu_security_cap (hw_caps ex_entry_hw) (\<lambda>_. 0) (hw_security ex_entry_hw) = (True, hw_security ex_entry_hw)"
    by (simp add: check_cpu_security_cap_def Let_def) (simp add: ex_entry_hw_def)
  have "\<not> l1tf_immune (hw_caps ex_entry_hw) (\<lambda>_. 0)" "\<not> skip_l1dfl_vmentry (hw_security ex_entry_hw)"
    by (simp_all add: l1tf_immune_def ex_entry_hw_def)
  then show ?thesis
    using entry_mitigated [OF run check] run by blast
qed

subsection \<open>The deadline timer of a new virtual CPU\<close>

lemma check_vmx_ctrl_vcpus [simp]: "hv_vcpus (snd (check_vmx_ctrl env msr req h)) = hv_vcpus h"
  by (simp add: check_vmx_ctrl_def hv_msr_read_def Let_def split_def)

lemma hv_msr_read_vcpus [simp]: "hv_vcpus (snd (hv_msr_read env msr h)) = hv_vcpus h"
  by (simp add: hv_msr_read_def)

text \<open>Other fields of the VMCS.\<close>

lemma tsc_offset_other:
  "f \<noteq> VMX_TSC_OFFSET_FULL \<Longrightarrow> tsc_offset (exec_vmwrite f x c) = tsc_offset c"
  "f \<noteq> VMX_TSC_OFFSET_FULL \<Longrightarrow> tsc_offset (exec_vmwrite32 f y c) = tsc_offset c"
  by (simp_all add: tsc_offset_def exec_vmread64_def exec_vmwrite_def exec_vmwrite32_def)

lemma vmwrites_fields:
  "VMX_TSC_OFFSET_FULL \<notin> fst ` set ws \<Longrightarrow> tsc_offset (vmwrites ws c) = tsc_offset c"
  "msr_bitmap (vmwrites ws c) = msr_bitmap c"
  "vcpu_get_guest_msr (vmwrites ws c) r = vcpu_get_guest_msr c r"
  unfolding vmwrites_def by (induction ws arbitrary: c; force simp: tsc_offset_other)+

lemma area_keeps [simp]:
  "tsc_offset (c\<lparr>msr_bitmap := b\<rparr>) = tsc_offset c"
  "tsc_offset (c\<lparr>msr_area_guest := x, msr_area_host := y\<rparr>) = tsc_offset c"
  "vcpu_get_guest_msr (c\<lparr>msr_area_guest := x, msr_area_host := y\<rparr>) r = vcpu_get_guest_msr c r"
  by (simp_all add: tsc_offset_def exec_vmread64_def vcpu_get_guest_msr_def)

lemma init_msr_keeps:
  "tsc_offset (hv_vcpus (init_msr_emulation env vm v h) vm v) = tsc_offset (hv_vcpus h vm v)"
  "vcpu_get_guest_msr (hv_vcpus (init_msr_emulation env vm v h) vm v) MSR_IA32_TSC_ADJUST =
     vcpu_get_guest_msr (hv_vcpus h vm v) MSR_IA32_TSC_ADJUST"
  by (simp_all add: init_msr_emulation_def update_msr_bitmap_x2apic_passthru_def init_msr_area_def Let_def tsc_offset_other
      set_tsc_interception_fields VMX_MSR_BITMAP_FULL_def VMX_TSC_OFFSET_FULL_def)

lemma init_masks_keep:
  "tsc_offset (hv_vcpus (init_cr0_cr4_host_mask env vm v h) vm v) = tsc_offset (hv_vcpus h vm v)"
  "msr_bitmap (hv_vcpus (init_cr0_cr4_host_mask env vm v h) vm v) = msr_bitmap (hv_vcpus h vm v)"
  by (simp_all add: init_cr0_cr4_host_mask_def Let_def split_def tsc_offset_other VMX_TSC_OFFSET_FULL_def
      VMX_CR0_GUEST_HOST_MASK_def VMX_CR4_GUEST_HOST_MASK_def hv_msr_read_def)

text \<open>
  The deadline MSR is passed through although the offset is not zero: the interception is decided
  before the offset is written, while it is still that of the new VMCS.
\<close>

lemma deadline_passed_through:
  assumes "tsc_offset (hv_vcpus h vm v) = 0" "\<And>l. hw_msr env l MSR_IA32_TSC_ADJUST = a"
    "vcpu_get_guest_msr (hv_vcpus h vm v) MSR_IA32_TSC_ADJUST \<noteq> a"
    and c': "c' = hv_vcpus (init_exec_ctrl env vm v h) vm v"
  shows "tsc_offset c' \<noteq> 0 \<and> \<not> write_exits (msr_bitmap c') MSR_IA32_TSC_DEADLINE \<and> \<not> tsc_wf c'"
proof -
  note fields = VMX_TSC_OFFSET_FULL_def VMX_PROC_VM_EXEC_CONTROLS_def VMX_PIN_VM_EXEC_CONTROLS_def VMX_TPR_THRESHOLD_def
    VMX_PROC_VM_EXEC_CONTROLS2_def VMX_EPT_POINTER_FULL_def VMX_EXCEPTION_BITMAP_def VMX_PF_ERROR_CODE_MASK_def
    VMX_PF_ERROR_CODE_MATCH_def VMX_CR3_TARGET_COUNT_def VMX_IO_BITMAP_A_FULL_def VMX_IO_BITMAP_B_FULL_def
    VMX_EXECUTIVE_VMCS_PTR_FULL_def VMX_VMS_LINK_PTR_FULL_def VMX_CR3_TARGET_0_def VMX_CR3_TARGET_1_def
    VMX_CR3_TARGET_2_def VMX_CR3_TARGET_3_def
  have set_offset: "tsc_offset (vmwrites [(VMX_TSC_OFFSET_FULL, x), (VMX_VMS_LINK_PTR_FULL, y)] c) = x" for x y c
    by (simp add: vmwrites_def tsc_offset_def exec_vmread64_def exec_vmwrite_def fields)
  have other: "tsc_offset (exec_vmwrite VMX_EXECUTIVE_VMCS_PTR_FULL x c) = tsc_offset c"
    "tsc_offset (exec_vmwrite32 VMX_PIN_VM_EXEC_CONTROLS y c) = tsc_offset c"
    "tsc_offset (exec_vmwrite32 VMX_PROC_VM_EXEC_CONTROLS y c) = tsc_offset c" for x y c
    by (simp_all add: tsc_offset_other fields)
  have other_list: "tsc_offset (vmwrites ws c) = tsc_offset c"
    if "list_all (\<lambda>f. f \<noteq> VMX_TSC_OFFSET_FULL) (map fst ws)" for ws c
    using that by (intro vmwrites_fields) (auto simp: list_all_iff)
  have ne: "VMX_TPR_THRESHOLD \<noteq> VMX_TSC_OFFSET_FULL" "VMX_PROC_VM_EXEC_CONTROLS2 \<noteq> VMX_TSC_OFFSET_FULL" "VMX_EPT_POINTER_FULL \<noteq> VMX_TSC_OFFSET_FULL"
     "VMX_EXCEPTION_BITMAP \<noteq> VMX_TSC_OFFSET_FULL" "VMX_PF_ERROR_CODE_MASK \<noteq> VMX_TSC_OFFSET_FULL" "VMX_PF_ERROR_CODE_MATCH \<noteq> VMX_TSC_OFFSET_FULL"
     "VMX_CR3_TARGET_COUNT \<noteq> VMX_TSC_OFFSET_FULL" "VMX_IO_BITMAP_A_FULL \<noteq> VMX_TSC_OFFSET_FULL" "VMX_IO_BITMAP_B_FULL \<noteq> VMX_TSC_OFFSET_FULL"
     "VMX_CR3_TARGET_0 \<noteq> VMX_TSC_OFFSET_FULL" "VMX_CR3_TARGET_1 \<noteq> VMX_TSC_OFFSET_FULL" "VMX_CR3_TARGET_2 \<noteq> VMX_TSC_OFFSET_FULL"
     "VMX_CR3_TARGET_3 \<noteq> VMX_TSC_OFFSET_FULL"
    by (simp_all add: fields)
  have other_msr: "vcpu_get_guest_msr (exec_vmwrite32 f y c) r = vcpu_get_guest_msr c r" "msr_bitmap (exec_vmwrite32 f y c) = msr_bitmap c"
    for f y r c
    by (simp_all add: exec_vmwrite32_def)
  have offset: "tsc_offset c' = vcpu_get_guest_msr (hv_vcpus h vm v) MSR_IA32_TSC_ADJUST - a"
    unfolding c' init_exec_ctrl_def Let_def split_def
    by (simp add: other_list ne init_masks_keep set_offset assms(2) init_msr_keeps other_msr vmwrites_fields(3))
  have "\<not> write_exits (msr_bitmap c') MSR_IA32_TSC_DEADLINE"
    unfolding c' init_exec_ctrl_def Let_def split_def
    by (simp add: other_list ne init_masks_keep vmwrites_fields(2) init_exits other assms(1) writes_directly_def flip: tsc_offset_def)
  then show ?thesis
    using offset assms(3) by (simp add: tsc_wf_def tsc_bits_def)
qed

end
