(* ===== verification/Acrn_Io_Safe.thy ===== *)
theory Acrn_Io_Safe
  imports Acrn_Io Acrn_Vpci_Safe
begin

text \<open>
  A port access of a guest keeps the data of the hypervisor well formed and stays in its VM; an access
  to a port that nobody emulates reaches no hardware.
\<close>

subsection \<open>What an access keeps\<close>

definition machine_wf :: "board \<Rightarrow> machine \<Rightarrow> bool" where
  "machine_wf bd m \<longleftrightarrow> (\<forall>w. vpci_wf (m_vpci m w)) \<and> vtd_wf (bd_vtd bd) (m_vtd m)"

text \<open>The handler of the PCI data port is registered for the four ports that it expects.\<close>

definition handlers_wf :: "(nat \<Rightarrow> vm_io_handler_desc) \<Rightarrow> bool" where
  "handlers_wf hs \<longleftrightarrow> (\<forall>i < EMUL_PIO_IDX_MAX. io_fn (hs i) = Some Pci_cfgdata \<longrightarrow>
     port_start (hs i) = 0xCFC \<and> port_end (hs i) = 0xD00)"

definition io_keeps :: "board \<Rightarrow> u16 \<Rightarrow> machine \<Rightarrow> machine \<Rightarrow> bool" where
  "io_keeps bd vm m m' \<longleftrightarrow> machine_wf bd m' \<and> (\<forall>w. w \<noteq> vm \<longrightarrow> m_vpci m' w = m_vpci m w) \<and>
     map vdev_id (pci_vdevs (m_vpci m' vm)) = map vdev_id (pci_vdevs (m_vpci m vm)) \<and>
     dma_map (m_vtd m') = dma_map (m_vtd m) \<and> (\<forall>i < 256. drop_bit 6 i \<noteq> vm \<longrightarrow> ir_map (m_vtd m') i = ir_map (m_vtd m) i)"

lemma io_keeps_same: "m_vpci m' = m_vpci m \<Longrightarrow> m_vtd m' = m_vtd m \<Longrightarrow> machine_wf bd m \<Longrightarrow> io_keeps bd vm m m'"
  by (simp add: io_keeps_def machine_wf_def)

lemma io_keeps_cong:
  "m_vpci n = m_vpci m \<Longrightarrow> m_vtd n = m_vtd m \<Longrightarrow> m_vpci n' = m_vpci m' \<Longrightarrow> m_vtd n' = m_vtd m' \<Longrightarrow>
     io_keeps bd vm n n' \<longleftrightarrow> io_keeps bd vm m m'"
  by (simp add: io_keeps_def machine_wf_def)

lemma confined_keeps: "vm_confined bd dev vm m m' \<Longrightarrow> machine_wf bd m \<Longrightarrow> io_keeps bd vm m m'"
  by (auto simp: vm_confined_def io_keeps_def machine_wf_def)

lemma handler_port:
  assumes "handlers_wf hs" "find_io_handler hs port = Some Pci_cfgdata"
  shows "cfgdata_port port"
proof -
  obtain i where i: "i < EMUL_PIO_IDX_MAX" "\<not> (port < port_start (hs i) \<or> port \<ge> port_end (hs i))" "io_fn (hs i) = Some Pci_cfgdata"
    using assms(2) by (auto simp: find_io_handler_def find_Some_iff split: option.splits)
  then have "0xCFC \<le> port" "port < 0xD00"
    using assms(1) by (auto simp: handlers_wf_def)
  then show ?thesis
    by (simp add: cfgdata_port_def word_le_nat_alt word_less_nat_alt)
qed

subsection \<open>The handlers\<close>

lemma cmos_read_same [simp]: "m_vpci (snd (cmos_read bd a m)) = m_vpci m" "m_vtd (snd (cmos_read bd a m)) = m_vtd m"
  by (simp_all add: cmos_read_def pio_read8_def pio_write8_def)

lemma cmos_busy_same [simp]:
  "m_vpci (snd (cmos_update_in_progress bd m)) = m_vpci m" "m_vtd (snd (cmos_update_in_progress bd m)) = m_vtd m"
  by (simp_all add: cmos_update_in_progress_def Let_def split_def)

lemma cmos_wait_same [simp]: "m_vpci (snd (cmos_wait bd n m)) = m_vpci m" "m_vtd (snd (cmos_wait bd n m)) = m_vtd m"
  by (induction n arbitrary: m) (simp_all add: Let_def split_def)

lemma cmos_get_same: "cmos_get_reg_val bd a m = (ret, x, m') \<Longrightarrow> m_vpci m' = m_vpci m \<and> m_vtd m' = m_vtd m"
  by (auto simp: cmos_get_reg_val_def Let_def split_def split: option.splits if_splits)

lemma set_pio_value_same [simp]:
  "m_vpci (set_pio_value vm v x m) = m_vpci m" "m_vtd (set_pio_value vm v x m) = m_vtd m"
  "m_pio (set_pio_value vm v x m) = m_pio m" "m_hv (set_pio_value vm v x m) = m_hv m"
  by (simp_all add: set_pio_value_def)

lemma try_hv_same: "try_hv f m = Some m' \<Longrightarrow> m_vpci m' = m_vpci m \<and> m_vtd m' = m_vtd m"
  by (auto simp: try_hv_def)

lemma vrtc_read_same:
  assumes "vrtc_read bd cpu vm v port n m = Some m'"
  shows "m_vpci m' = m_vpci m \<and> m_vtd m' = m_vtd m"
proof -
  obtain ret x m1 where c: "cmos_get_reg_val bd (m_vrtc_offset m vm) m = (ret, x, m1)"
    by (cases "cmos_get_reg_val bd (m_vrtc_offset m vm) m")
  show ?thesis
    using assms cmos_get_same [OF c]
    by (auto simp: vrtc_read_def c Let_def split: if_splits option.splits dest!: try_hv_same)
qed

lemma cfgaddr_wf: "vpci_wf p \<Longrightarrow> vpci_wf (p\<lparr>vpci_addr := x AND NOT 0x7f000003\<rparr>)"
proof -
  have "x AND NOT 0x7f000003 AND 0x7f000003 = 0"
    by (rule bit_word_eqI) (auto simp: bit_simps)
  then show "vpci_wf p \<Longrightarrow> ?thesis"
    by (simp add: vpci_wf_def and.assoc)
qed

lemma io_read_keeps:
  assumes "io_read fn bd cpu vm v port n m = Some m'" "fn = Some Pci_cfgdata \<longrightarrow> cfgdata_port port" "machine_wf bd m"
  shows "io_keeps bd vm m m'"
proof (cases "fn = Some Pci_cfgdata")
  case True
  then have run: "pci_cfgdata_io_read bd vm v port n m = Some m'" and wf: "vpci_wf (m_vpci m w)" for w
    using assms by (simp_all add: io_read_def machine_wf_def)
  have "m_vtd m' = m_vtd m" "m_vpci m' = (m_vpci m)(vm := (m_vpci m vm)\<lparr>vpci_addr := PCI_DISABLED_CONFIG_ADDR\<rparr>)"
    using config_read_returns [where bd = bd and v = v and n = n, OF wf [of vm], of port] True assms(2) run by auto
  then show ?thesis
    using assms(3) disable_wf [OF wf] wf by (simp add: io_keeps_def machine_wf_def)
next
  case False
  then have "m_vpci m' = m_vpci m \<and> m_vtd m' = m_vtd m"
    using assms(1) by (auto simp: io_read_def pio_default_read_def pci_cfgaddr_io_read_def
        dest!: vrtc_read_same split: option.splits io_handler.splits)
  then show ?thesis
    using io_keeps_same assms(3) by blast
qed

lemma io_write_keeps:
  assumes "io_write fn bd cpu vm port n val m = Some m'" "fn = Some Pci_cfgdata \<longrightarrow> cfgdata_port port" "machine_wf bd m"
    and "vm < 4" "responsive (bd_vtd bd)" "gsts_follows (bd_vtd bd)"
  shows "io_keeps bd vm m m'"
proof (cases "fn = Some Pci_cfgdata")
  case True
  have "vm_confined bd (pt_devices vm m) vm m m'"
    using config_write_confined [where bd = bd and cpu = cpu and n = n and val = val and m = m and vm = vm and addr = port]
      True assms by (simp add: io_write_def machine_wf_def)
  then show ?thesis
    using confined_keeps assms(3) by blast
next
  case False
  have "machine_wf bd (upd_vpci vm (\<lambda>p. p\<lparr>vpci_addr := x AND NOT 0x7f000003\<rparr>) m)" for x
    using assms(3) cfgaddr_wf by (simp add: machine_wf_def upd_vpci_def)
  then have "io_keeps bd vm m (pci_cfgaddr_io_write vm port n val m)"
    using assms(3) by (simp add: io_keeps_def pci_cfgaddr_io_write_def) (simp add: upd_vpci_def)
  moreover have "io_keeps bd vm m (vrtc_write vm port n val m)"
    by (rule io_keeps_same) (simp_all add: vrtc_write_def assms(3))
  ultimately show ?thesis
    using assms(1,3) False io_keeps_same [of m m]
    by (auto simp: io_write_def pio_default_write_def split: option.splits io_handler.splits)
qed

subsection \<open>The exit\<close>

lemma access_bytes:
  assumes "bytes = vm_exit_io_instruction_size q + 1" "\<not> (bytes = 3 \<or> bytes \<ge> 5)"
  shows "bytes = 1 \<or> bytes = 2 \<or> bytes = 4"
proof -
  have "vm_exit_io_instruction_size q = take_bit 3 q"
    by (simp add: vm_exit_io_instruction_size_def vm_exit_qualification_bit_mask_def take_bit_eq_mask mask_eq_exp_minus_1)
  then have "unat (vm_exit_io_instruction_size q) < 8"
    by (simp only: unsigned_take_bit_eq) (simp add: take_bit_eq_mod)
  then have "unat bytes = unat (vm_exit_io_instruction_size q) + 1"
    unfolding assms(1) by (subst unat_add_small) simp_all
  moreover have "unat bytes \<noteq> 3" "unat bytes < 5"
    using assms(2) by (auto simp: word_le_nat_alt word_unat_eq_iff)
  ultimately have "unat bytes = 1 \<or> unat bytes = 2 \<or> unat bytes = 4"
    by linarith
  then show ?thesis
    by (auto simp: word_unat_eq_iff)
qed

text \<open>The value of a port that nobody emulates, as it arrives in RAX.\<close>

lemma default_rax:
  fixes rax :: u64
  assumes "bytes = 1 \<or> bytes = 2 \<or> bytes = (4 :: u64)"
  shows "(rax AND NOT (drop_bit (unat (32 - 8 * bytes)) 0xFFFFFFFF)) OR
      (ucast (ucast (push_bit (unat (ucast bytes :: u16) * 8) 1 - 1 :: u64) :: u32) AND drop_bit (unat (32 - 8 * bytes)) 0xFFFFFFFF) =
    rax OR mask (8 * unat bytes)"
proof -
  have n: "(0xFF :: u64) = mask 8" "(0xFFFF :: u64) = mask 16" "(0xFFFFFFFF :: u64) = mask 32"
    by (simp_all add: mask_eq_exp_minus_1)
  have *: "(rax AND NOT x) OR x = rax OR x" for x
    by (rule bit_word_eqI) (auto simp: bit_simps)
  show ?thesis
    using assms * [of "0xFF"] * [of "0xFFFF"] * [of "0xFFFFFFFF"] by (elim disjE) (simp_all add: n [symmetric])
qed


text \<open>A read of one byte from port 0x80.\<close>

definition ex_port_read :: machine where
  "ex_port_read = on_hv (upd_vcpu 1 0 (\<lambda>c. c\<lparr>exit_qualification := 0x800008\<rparr>)) ex_machine"


end
