(* ===== verification/Acrn_Loader.thy ===== *)
theory Acrn_Loader
  imports Acrn_Vmexit Acrn_Vm_Memory
begin

text \<open>
  From the boot image to a started VM: the kernel image and boot arguments of a VM
  (\<^verbatim>\<open>src/hypervisor/boot/guest/vboot_info.c\<close>), loading them and the registers at the entry
  (\<^verbatim>\<open>common/vm_load.c\<close>), the ACPI tables of a VM (\<^verbatim>\<open>arch/x86/configs/vacpi.c\<close>), and the
  creation and launch of all VMs (\<^verbatim>\<open>arch/x86/guest/vm.c\<close>). Structures in memory are read and written
  at the offsets of their packed layout.
\<close>

definition MAX_BOOTARGS_SIZE :: u32 where "MAX_BOOTARGS_SIZE = 2048"
definition MAX_MOD_TAG_LEN :: u32 where "MAX_MOD_TAG_LEN = 32"
definition INVALID_MOD_IDX :: u32 where "INVALID_MOD_IDX = 0xFFFF"
definition KERNEL_BZIMAGE :: u32 where "KERNEL_BZIMAGE = 1"
definition KERNEL_ZEPHYR :: u32 where "KERNEL_ZEPHYR = 2"
definition CPU_REG_RSI :: u32 where "CPU_REG_RSI = 6"
definition MEM_1K :: u32 where "MEM_1K = 1024"
definition MEM_4K :: u32 where "MEM_4K = MEM_1K * 4"
definition ACPI_BASE :: u32 where "ACPI_BASE = 0xf2400"
definition ACPI_RSDP_ADDR :: u32 where "ACPI_RSDP_ADDR = ACPI_BASE + 0x0"
definition ACPI_XSDT_ADDR :: u32 where "ACPI_XSDT_ADDR = ACPI_BASE + 0x080"
definition ACPI_MADT_ADDR :: u32 where "ACPI_MADT_ADDR = ACPI_BASE + 0x100"
definition ACPI_RSDP_CHECKSUM_LENGTH :: u32 where "ACPI_RSDP_CHECKSUM_LENGTH = 20"
definition ACPI_RSDP_XCHECKSUM_LENGTH :: u32 where "ACPI_RSDP_XCHECKSUM_LENGTH = 36"

subsection \<open>Integers in memory\<close>

fun load_le :: "nat \<Rightarrow> bytes \<Rightarrow> u64 \<Rightarrow> u64" where
  "load_le 0 m a = 0"
| "load_le (Suc n) m a = ucast (m a) OR push_bit 8 (load_le n m (a + 1))"

fun store_le :: "nat \<Rightarrow> u64 \<Rightarrow> u64 \<Rightarrow> bytes \<Rightarrow> bytes" where
  "store_le 0 a x m = m"
| "store_le (Suc n) a x m = store_le n (a + 1) (drop_bit 8 x) (m(a := ucast x))"

definition on_bytes :: "(bytes \<Rightarrow> bytes) \<Rightarrow> memst \<Rightarrow> memst" where
  "on_bytes f m = m\<lparr>mem_bytes := f (mem_bytes m)\<rparr>"

subsection \<open>The image of a VM\<close>

record sw_module_info =
  src_addr :: u64
  load_addr :: u64
  sw_size :: u32

record sw_kernel_info =
  kernel_src_addr :: u64
  kernel_load_addr :: u64
  kernel_entry_addr :: u64
  kernel_size :: u32

record vm_sw_info =
  kernel_type :: u32
  kernel_info :: sw_kernel_info
  bootargs_info :: sw_module_info

text \<open>The tag and the boot arguments of a configuration are the addresses of these strings.\<close>

record acrn_vm_os_config =
  os_kernel_type :: u32
  os_kernel_mod_tag :: u64
  os_bootargs :: u64
  os_kernel_load_addr :: u64
  os_kernel_entry_addr :: u64

record acrn_vm_config =
  vcpu_num :: u16
  vcpu_affinity :: "u64 list"
  vm_memory :: acrn_vm_mem_config
  os_config :: acrn_vm_os_config

record multiboot_module =
  mm_mod_start :: u32
  mm_mod_end :: u32
  mm_string :: u32

text \<open>The module with the index \<open>i\<close> of the array at \<open>mods\<close>.\<close>

definition module_at :: "bytes \<Rightarrow> u64 \<Rightarrow> u32 \<Rightarrow> multiboot_module" where
  "module_at m mods i =
     (let a = mods + 16 * ucast i
      in \<lparr>mm_mod_start = ucast (load_le 4 m a), mm_mod_end = ucast (load_le 4 m (a + 4)), mm_string = ucast (load_le 4 m (a + 8))\<rparr>)"

definition get_kernel_load_addr :: "bytes \<Rightarrow> acrn_vm_config \<Rightarrow> vm_sw_info \<Rightarrow> u64" where
  "get_kernel_load_addr m vm_config sw =
     (if kernel_type sw = KERNEL_BZIMAGE then load_le 8 m (kernel_src_addr (kernel_info sw) + 0x258)
      else if kernel_type sw = KERNEL_ZEPHYR then os_kernel_load_addr (os_config vm_config)
      else 0)"

definition init_vm_kernel_info :: "bytes \<Rightarrow> acrn_vm_config \<Rightarrow> multiboot_module \<Rightarrow> vm_sw_info \<Rightarrow> vm_sw_info" where
  "init_vm_kernel_info m vm_config mo sw =
     (let s1 = sw\<lparr>kernel_type := os_kernel_type (os_config vm_config)\<rparr>;
          s2 = s1\<lparr>kernel_info := (kernel_info s1)\<lparr>kernel_src_addr := hpa2hva (ucast (mm_mod_start mo)),
                 kernel_size := mm_mod_end mo - mm_mod_start mo\<rparr>\<rparr>
      in s2\<lparr>kernel_info := (kernel_info s2)\<lparr>kernel_load_addr := get_kernel_load_addr m vm_config s2\<rparr>\<rparr>)"

definition init_vm_bootargs_info :: "bytes \<Rightarrow> acrn_vm_config \<Rightarrow> vm_sw_info \<Rightarrow> vm_sw_info" where
  "init_vm_bootargs_info m vm_config sw =
     (let bootargs = os_bootargs (os_config vm_config);
          sz = ucast (strnlen_s m bootargs (ucast MAX_BOOTARGS_SIZE)) :: u32
      in sw\<lparr>bootargs_info := \<lparr>src_addr = bootargs,
           load_addr = (if sz > 0 then kernel_load_addr (kernel_info sw) - ucast (MEM_1K * 8) else 0), sw_size = sz\<rparr>\<rparr>)"

definition mod_matches :: "bytes \<Rightarrow> u64 \<Rightarrow> u64 \<Rightarrow> u32 \<Rightarrow> bool" where
  "mod_matches m mods tag i =
     (let tag_len = ucast (strnlen_s m tag (ucast MAX_MOD_TAG_LEN)) :: u32;
          str = hpa2hva (ucast (mm_string (module_at m mods i)));
          mm_str_len = ucast (strnlen_s m str (ucast MAX_MOD_TAG_LEN)) :: u32;
          after = m (str + ucast tag_len)
      in mm_str_len \<ge> tag_len \<and> strncmp m str tag (ucast tag_len) = 0 \<and> (after = 0x0d \<or> after = 0x0a \<or> after = 0))"

definition get_mod_idx_by_tag :: "bytes \<Rightarrow> u64 \<Rightarrow> u32 \<Rightarrow> u64 \<Rightarrow> u32" where
  "get_mod_idx_by_tag m mods mods_count tag =
     (case find (\<lambda>i. mod_matches m mods tag (of_nat i)) [0..<unat mods_count] of
        Some i \<Rightarrow> of_nat i
      | None \<Rightarrow> INVALID_MOD_IDX)"

text \<open>\<open>mbi_pa\<close> is \<^verbatim>\<open>boot_regs[1]\<close>, the address of the multiboot information.\<close>

definition init_vm_boot_info :: "u32 \<Rightarrow> acrn_vm_config \<Rightarrow> vm_sw_info \<Rightarrow> memst \<Rightarrow> vm_sw_info \<times> memst" where
  "init_vm_boot_info mbi_pa vm_config sw m =
     (let mbi = hpa2hva (ucast mbi_pa);
          m1 = stac m;
          b = mem_bytes m1;
          mods = hpa2hva (load_le 4 b (mbi + 24));
          mod_idx = get_mod_idx_by_tag b mods (ucast (load_le 4 b (mbi + 20))) (os_kernel_mod_tag (os_config vm_config));
          s1 = init_vm_kernel_info b vm_config (module_at b mods mod_idx) sw;
          s2 = init_vm_bootargs_info b vm_config s1
      in (s2, clac m1))"

subsection \<open>Loading\<close>

definition get_guest_gdt_base_gpa :: "vm_sw_info \<Rightarrow> u64" where
  "get_guest_gdt_base_gpa sw =
     (let guest_kernel_end_gpa = kernel_load_addr (kernel_info sw) + ucast (kernel_size (kernel_info sw));
          guest_bootargs_end_gpa = load_addr (bootargs_info sw) + ucast (sw_size (bootargs_info sw));
          new_guest_gdt_base_gpa = max guest_kernel_end_gpa guest_bootargs_end_gpa
      in (new_guest_gdt_base_gpa + 7) AND NOT (8 - 1))"

text \<open>An entry of the memory map in memory: 20 bytes.\<close>

definition store_e820 :: "u64 \<Rightarrow> e820_entry \<Rightarrow> bytes \<Rightarrow> bytes" where
  "store_e820 a e m =
     store_le 4 (a + 16) (ucast (e820_type e)) (store_le 8 (a + 8) (e820_length e) (store_le 8 a (baseaddr e) m))"

text \<open>\<open>None\<close> for the entries stands for a null pointer.\<close>

definition create_zeropage_e820 :: "u64 \<Rightarrow> e820_entry list option \<Rightarrow> bytes \<Rightarrow> u32 \<times> bytes" where
  "create_zeropage_e820 zp vm_e820 m =
     (case vm_e820 of
        None \<Rightarrow> (0, m)
      | Some entries \<Rightarrow>
          let entry_num = of_nat (length entries) :: u32
          in if entry_num = 0 \<or> entry_num > E820_MAX_ENTRIES then (0, m)
             else (entry_num, fold (\<lambda>(i, e). store_e820 (zp + 0x2d0 + 20 * of_nat i) e) (enumerate 0 entries) m))"

definition create_zero_page :: "u16 \<Rightarrow> e820_entry list option \<Rightarrow> vm_sw_info \<Rightarrow> hv \<Rightarrow> memst \<Rightarrow> u64 \<times> memst" where
  "create_zero_page vm vm_e820 sw h m =
     (let gpa = load_addr (bootargs_info sw) + ucast MEM_4K;
          zeropage = gpa2hva vm gpa h;
          m1 = stac m;
          m2 = on_bytes (\<lambda>b. snd (memset zeropage 0 (ucast MEM_4K) b)) m1;
          hva = gpa2hva vm (kernel_load_addr (kernel_info sw)) h;
          m3 = on_bytes (\<lambda>b. snd (memcpy_s (zeropage + 0x1f1) 0x77 (hva + 0x1f1) 0x77 b)) m2;
          addr = load_addr (bootargs_info sw);
          m4 = on_bytes (store_le 4 (zeropage + 0x228) addr) m3;
          m5 = on_bytes (store_le 2 (zeropage + 0x206) 0x20c) m4;
          m6 = on_bytes (store_le 1 (zeropage + 0x210) 0xff) m5;
          m7 = on_bytes (store_le 1 (zeropage + 0x211) (push_bit 5 1)) m6;
          (n, b8) = create_zeropage_e820 zeropage vm_e820 (mem_bytes m7);
          m9 = on_bytes (store_le 1 (zeropage + 0x1e8) (ucast n)) (m7\<lparr>mem_bytes := b8\<rparr>)
      in (gpa, clac m9))"

definition prepare_loading_bzimage ::
  "u16 \<Rightarrow> u16 \<Rightarrow> e820_entry list option \<Rightarrow> vm_sw_info \<Rightarrow> hv \<Rightarrow> memst \<Rightarrow> vm_sw_info \<times> hv \<times> memst" where
  "prepare_loading_bzimage vm v vm_e820 sw h m =
     (let zeropage = kernel_src_addr (kernel_info sw);
          m1 = stac m;
          setup_sects = mem_bytes m1 (zeropage + 0x1f1);
          kernel_entry_offset = (ucast setup_sects + 1) * 512 :: u32;
          m2 = clac m1;
          sw1 = sw\<lparr>kernel_info := (kernel_info sw)\<lparr>kernel_entry_addr :=
                  kernel_load_addr (kernel_info sw) + ucast kernel_entry_offset\<rparr>\<rparr>;
          h1 = fold (\<lambda>i. upd_vcpu vm v (vcpu_set_gpreg (of_nat i) 0)) [0..<16] h;
          (gpa, m3) = create_zero_page vm vm_e820 sw1 h1 m2
      in (sw1, upd_vcpu vm v (vcpu_set_gpreg CPU_REG_RSI gpa) h1, m3))"

definition prepare_loading_rawimage :: "acrn_vm_config \<Rightarrow> vm_sw_info \<Rightarrow> vm_sw_info" where
  "prepare_loading_rawimage vm_config sw =
     sw\<lparr>kernel_info := (kernel_info sw)\<lparr>kernel_entry_addr := os_kernel_entry_addr (os_config vm_config)\<rparr>\<rparr>"

text \<open>\<open>vgdt\<close> is the address of \<^verbatim>\<open>init_vgdt\<close>, 32 bytes in the image of the hypervisor.\<close>

definition init_vcpu_protect_mode_regs :: "u64 \<Rightarrow> u16 \<Rightarrow> u16 \<Rightarrow> u64 \<Rightarrow> hv \<Rightarrow> memst \<Rightarrow> hv \<times> memst" where
  "init_vcpu_protect_mode_regs vgdt vm v vgdt_base_gpa h m =
     (let r = protect_mode_init_vregs\<lparr>r_gdt := \<lparr>dp_limit = 32 - 1, dp_base = vgdt_base_gpa\<rparr>,
                r_idt := (r_idt protect_mode_init_vregs)\<lparr>dp_limit := 0xffff\<rparr>\<rparr>;
          m1 = copy_to_gpa vm vgdt vgdt_base_gpa 32 h m
      in (set_vcpu_regs r vm v h, m1))"

definition direct_boot_sw_loader ::
  "u64 \<Rightarrow> acrn_vm_config \<Rightarrow> u16 \<Rightarrow> e820_entry list option \<Rightarrow> vm_sw_info \<Rightarrow> hv \<Rightarrow> memst \<Rightarrow> vm_sw_info \<times> hv \<times> memst" where
  "direct_boot_sw_loader vgdt vm_config vm vm_e820 sw h m =
     (let v = BOOT_CPU_ID;
          k = kernel_info sw;
          b = bootargs_info sw;
          (h1, m1) = init_vcpu_protect_mode_regs vgdt vm v (get_guest_gdt_base_gpa sw) h m;
          m2 = copy_to_gpa vm (kernel_src_addr k) (kernel_load_addr k) (kernel_size k) h1 m1;
          m3 = (if sw_size b \<noteq> 0
                then copy_to_gpa vm (src_addr b) (load_addr b)
                       (ucast (strnlen_s (mem_bytes m2) (src_addr b) (ucast MAX_BOOTARGS_SIZE) + 1)) h1 m2
                else m2);
          (sw1, h2, m4) =
            (if kernel_type sw = KERNEL_BZIMAGE then prepare_loading_bzimage vm v vm_e820 sw h1 m3
             else if kernel_type sw = KERNEL_ZEPHYR then (prepare_loading_rawimage vm_config sw, h1, m3)
             else (sw, h1, m3))
      in (sw1, upd_vcpu vm v (vcpu_set_rip (kernel_entry_addr (kernel_info sw1))) h2, m4))"

subsection \<open>The ACPI tables of a VM\<close>

fun sum_bytes :: "nat \<Rightarrow> bytes \<Rightarrow> u64 \<Rightarrow> u8" where
  "sum_bytes 0 m a = 0"
| "sum_bytes (Suc n) m a = m a + sum_bytes n m (a + 1)"

definition calculate_checksum8 :: "bytes \<Rightarrow> u64 \<Rightarrow> u32 \<Rightarrow> u8" where
  "calculate_checksum8 m buf len = ucast (0x100 - ucast (sum_bytes (unat len) m buf) :: u32)"

text \<open>
  The templates are in the image: \<open>rsdp\<close>, \<open>xsdt\<close> and \<open>madt\<close> are the addresses of the tables of this VM;
  the local APIC entries of 8 bytes follow the MADT of 44 bytes.
\<close>

definition build_vacpi :: "u64 \<Rightarrow> u64 \<Rightarrow> u64 \<Rightarrow> u16 \<Rightarrow> hv \<Rightarrow> memst \<Rightarrow> memst" where
  "build_vacpi rsdp xsdt madt vm h m =
     (let m1 = on_bytes (\<lambda>b. b(rsdp + 8 := calculate_checksum8 b rsdp ACPI_RSDP_CHECKSUM_LENGTH)) m;
          m2 = on_bytes (\<lambda>b. b(rsdp + 32 := calculate_checksum8 b rsdp ACPI_RSDP_XCHECKSUM_LENGTH)) m1;
          m3 = copy_to_gpa vm rsdp (ucast ACPI_RSDP_ADDR) ACPI_RSDP_XCHECKSUM_LENGTH h m2;
          xsdt_length = (\<lambda>b. ucast (load_le 4 b (xsdt + 4)) :: u32);
          m4 = on_bytes (\<lambda>b. b(xsdt + 9 := calculate_checksum8 b xsdt (xsdt_length b))) m3;
          m5 = copy_to_gpa vm xsdt (ucast ACPI_XSDT_ADDR) (xsdt_length (mem_bytes m4)) h m4;
          n = hv_created h vm;
          m6 = on_bytes (fold (\<lambda>i b. b(madt + 44 + 8 * of_nat i + 2 := of_nat i, madt + 44 + 8 * of_nat i + 3 := of_nat i)) [0..<unat n]) m5;
          madt_length = 44 + 8 * ucast n :: u32;
          m7 = on_bytes (store_le 4 (madt + 4) (ucast madt_length)) m6;
          m8 = on_bytes (\<lambda>b. b(madt + 9 := calculate_checksum8 b madt madt_length)) m7
      in copy_to_gpa vm madt (ucast ACPI_MADT_ADDR) madt_length h m8)"

subsection \<open>Creating and launching the VMs\<close>

text \<open>
  What the boot loader and the image provide: the multiboot information, the initial GDT of a guest, the
  templates of the ACPI tables of every VM and the page arrays of its EPT.
\<close>

record boot_env =
  be_mbi :: u32
  be_vgdt :: u64
  be_rsdp :: "u16 \<Rightarrow> u64"
  be_xsdt :: "u16 \<Rightarrow> u64"
  be_madt :: "u16 \<Rightarrow> u64"
  be_pages :: "u16 \<Rightarrow> pgtable_pages_info"

text \<open>The rest of the \<^verbatim>\<open>memset\<close> of the \<^verbatim>\<open>struct acrn_vm\<close>, beside \<open>memset_vm\<close>.\<close>

definition vm_sw_zero :: vm_sw_info where
  "vm_sw_zero = \<lparr>kernel_type = 0, kernel_info = \<lparr>kernel_src_addr = 0, kernel_load_addr = 0, kernel_entry_addr = 0, kernel_size = 0\<rparr>,
     bootargs_info = \<lparr>src_addr = 0, load_addr = 0, sw_size = 0\<rparr>\<rparr>"

definition memset_vm_devices :: "u16 \<Rightarrow> machine \<Rightarrow> machine" where
  "memset_vm_devices vm m =
     on_hv (\<lambda>h. h\<lparr>hv_cpuid := (hv_cpuid h)(vm := \<lparr>vcpuid_level = 0, vcpuid_xlevel = 0, vcpuid_entries = []\<rparr>)\<rparr>)
       (m\<lparr>m_vpci := (m_vpci m)(vm := \<lparr>vpci_addr = 0, pci_vdevs = []\<rparr>), m_iommu := (m_iommu m)(vm := 0),
          m_emul_pio := (m_emul_pio m)(vm := (\<lambda>_. \<lparr>port_start = 0, port_end = 0, io_fn = None\<rparr>)),
          m_req := (m_req m)(vm := (\<lambda>_. \<lparr>direction = 0, pio_address = 0, pio_size = 0, pio_value = 0\<rparr>)),
          m_vrtc_offset := (m_vrtc_offset m)(vm := 0)\<rparr>)"

definition prepare_vcpus :: "u16 \<Rightarrow> acrn_vm_config \<Rightarrow> hv \<Rightarrow> hv" where
  "prepare_vcpus vm vm_config h =
     fold (\<lambda>affinity g. snd (prepare_vcpu vm (ffs64 affinity) g)) (take (unat (vcpu_num vm_config)) (vcpu_affinity vm_config)) h"

text \<open>
  The I/O bitmap is all ones from here on and its content is not part of the state; the virtual UART of
  the release build does nothing.
\<close>

definition create_vm ::
  "hw_env \<Rightarrow> board \<Rightarrow> boot_env \<Rightarrow> u16 \<Rightarrow> u16 \<Rightarrow> acrn_vm_config \<Rightarrow> machine \<Rightarrow> memst \<Rightarrow>
     (i32 \<times> vm_sw_info \<times> machine \<times> memst) option" where
  "create_vm env bd be cpu vm vm_config m mem =
     do {
       m1 \<leftarrow> try_hv (create_vm_memory (be_pages be) (is_safety_vm vm) cpu vm (vm_memory vm_config)) (memset_vm_devices vm m);
       let (sw, mem1) = init_vm_boot_info (be_mbi be) vm_config vm_sw_zero mem;
       m2 \<leftarrow> vpci_init bd cpu vm (vrtc_init vm m1);
       t \<leftarrow> set_vcpuid_entries env (hv_cpuid (m_hv m2) vm);
       let m3 = on_hv (\<lambda>h. h\<lparr>hv_cpuid := (hv_cpuid h)(vm := t), hv_vm_state := (hv_vm_state h)(vm := VM_CREATED)\<rparr>) m2;
       Some (0, sw, on_hv (prepare_vcpus vm vm_config) m3, mem1)
     }"

definition prepare_vm ::
  "hw_env \<Rightarrow> board \<Rightarrow> boot_env \<Rightarrow> u16 \<Rightarrow> u16 \<Rightarrow> acrn_vm_config \<Rightarrow> machine \<Rightarrow> memst \<Rightarrow> (machine \<times> memst) option" where
  "prepare_vm env bd be cpu vm vm_config m mem =
     do {
       (err, sw, m1, mem1) \<leftarrow> create_vm env bd be cpu vm vm_config m mem;
       (if err = 0 then
          let mem2 = (if \<not> is_safety_vm vm
                      then build_vacpi (be_rsdp be vm) (be_xsdt be vm) (be_madt be vm) vm (m_hv m1) mem1 else mem1);
              (sw1, h2, mem3) = direct_boot_sw_loader (be_vgdt be) vm_config vm
                 (Some (create_prelaunched_vm_e820 (vm_memory vm_config))) sw (m_hv m1) mem2
          in Some (m1\<lparr>m_hv := start_vm cpu vm h2\<rparr>, mem3)
        else Some (m1, mem1))
     }"

fun launch_loop ::
  "hw_env \<Rightarrow> board \<Rightarrow> boot_env \<Rightarrow> u16 \<Rightarrow> u16 \<Rightarrow> (u16 \<times> acrn_vm_config) list \<Rightarrow> machine \<Rightarrow> memst \<Rightarrow> (machine \<times> memst) option" where
  "launch_loop env bd be phys_cpu_num pcpu_id [] m mem = Some (m, mem)"
| "launch_loop env bd be phys_cpu_num pcpu_id ((vm_id, vm_config) # rest) m mem =
     (let bsp_id = get_vm_bsp_pcpu_id phys_cpu_num (vcpu_affinity vm_config ! 0)
      in if pcpu_id = bsp_id then
           do { (m1, mem1) \<leftarrow> prepare_vm env bd be pcpu_id vm_id vm_config m mem;
                launch_loop env bd be phys_cpu_num pcpu_id rest m1 mem1 }
         else launch_loop env bd be phys_cpu_num pcpu_id rest m mem)"

text \<open>\<open>vm_configs\<close> is the static array of the scenario.\<close>

definition launch_vms ::
  "hw_env \<Rightarrow> board \<Rightarrow> boot_env \<Rightarrow> acrn_vm_config list \<Rightarrow> u16 \<Rightarrow> u16 \<Rightarrow> machine \<Rightarrow> memst \<Rightarrow> (machine \<times> memst) option" where
  "launch_vms env bd be vm_configs phys_cpu_num pcpu_id m mem =
     launch_loop env bd be phys_cpu_num pcpu_id (map (\<lambda>(i, c). (of_nat i, c)) (enumerate 0 vm_configs)) m mem"

subsection \<open>Facts\<close>

lemma sum_bytes_other: "\<not> in_buf a n p \<Longrightarrow> n < 2 ^ 64 \<Longrightarrow> sum_bytes n (m(p := x)) a = sum_bytes n m a"
  by (induction n arbitrary: a) (auto simp: in_buf_Suc)

lemma not_in_next_buf: "n < 2 ^ 64 - 1 \<Longrightarrow> \<not> in_buf (a + 1) n (a :: u64)"
proof -
  have "a - (a + 1) = (- 1 :: u64)"
    by simp
  then have "unat (a - (a + 1)) = 2 ^ 64 - 1"
    by (simp only: unsigned_minus_1_eq_mask) (simp add: mask_eq_exp_minus_1)
  then show "n < 2 ^ 64 - 1 \<Longrightarrow> \<not> in_buf (a + 1) n a"
    by simp
qed

lemma sum_bytes_update:
  assumes "k < n" "n < 2 ^ 64"
  shows "sum_bytes n (m(a + of_nat k := x)) a = sum_bytes n m a - m (a + of_nat k) + x"
  using assms
proof (induction n arbitrary: a k)
  case (Suc n)
  show ?case
  proof (cases k)
    case 0
    have "sum_bytes n (m(a := x)) (a + 1) = sum_bytes n m (a + 1)"
      by (rule sum_bytes_other, rule not_in_next_buf) (use Suc.prems(2) in simp_all)
    then show ?thesis
      by (simp only: 0 sum_bytes.simps of_nat_0 add_0_right fun_upd_same) simp
  next
    case (Suc j)
    have "(of_nat (Suc j) :: u64) \<noteq> 0"
      using Suc Suc.prems by (simp add: word_of_nat_eq_0_iff nat_dvd_not_less del: of_nat_Suc)
    then show ?thesis
      using Suc Suc.IH [of j "a + 1"] Suc.prems by (simp add: add.assoc)
  qed
qed simp

text \<open>A table that is complete with its checksum sums to zero.\<close>

lemma complement8: "ucast (0x100 - ucast s :: u32) = - (s :: u8)"
proof -
  have "(256 - s mod 256) mod 4294967296 mod 256 = (- s) mod 256" for s :: int
    by (subst mod_mod_cancel, simp, subst mod_diff_right_eq, simp)
  then show ?thesis
    by transfer (simp add: take_bit_eq_mod)
qed

lemma checksum_complete:
  assumes "m (buf + of_nat k) = 0" "k < unat len"
  shows "sum_bytes (unat len) (m(buf + of_nat k := calculate_checksum8 m buf len)) buf = 0"
proof -
  have "unat len < 2 ^ 64"
    using unat_u32_bound [of len] by simp
  then show ?thesis
    using assms by (simp add: sum_bytes_update calculate_checksum8_def complement8)
qed

end
