(* ===== verification/Acrn_Boot.thy ===== *)
theory Acrn_Boot
  imports Acrn_Loader
begin

text \<open>
  The physical CPUs: their local APIC (\<^verbatim>\<open>src/hypervisor/arch/x86/lapic.c\<close>), the delay loop
  (\<^verbatim>\<open>timer.c\<close>), the trampoline of the secondary CPUs (\<^verbatim>\<open>trampoline.c\<close>), and how they are started and taken
  offline (\<^verbatim>\<open>cpu.c\<close>, \<^verbatim>\<open>boot/acpi_base.c\<close>). \<open>None\<close>: the function panics or waits without end. Caches
  are not modelled, so the flushes of the trampoline have no effect.
\<close>

definition CPU_UP_TIMEOUT :: u32 where "CPU_UP_TIMEOUT = 100"
definition CPU_DOWN_TIMEOUT :: u32 where "CPU_DOWN_TIMEOUT = 100"
definition CPU_STACK_ALIGN :: u64 where "CPU_STACK_ALIGN = 16"
definition PCPU_STACK_SIZE :: u32 where "PCPU_STACK_SIZE = 0x200000"
definition CONFIG_LOW_RAM_SIZE :: u32 where "CONFIG_LOW_RAM_SIZE = 0x10000"
definition INTR_LAPIC_ICR_INIT :: u64 where "INTR_LAPIC_ICR_INIT = 0x5"
definition INTR_LAPIC_ICR_STARTUP :: u64 where "INTR_LAPIC_ICR_STARTUP = 0x6"
definition INTR_LAPIC_ICR_PHYSICAL :: u64 where "INTR_LAPIC_ICR_PHYSICAL = 0"
definition INTR_LAPIC_ICR_USE_DEST_ARRAY :: u64 where "INTR_LAPIC_ICR_USE_DEST_ARRAY = 0"
definition LAPIC_LVT_MASK :: u64 where "LAPIC_LVT_MASK = 0x10000"
definition LAPIC_SVR_VECTOR :: u64 where "LAPIC_SVR_VECTOR = 0xFF"

subsection \<open>State\<close>

datatype pcpu_boot_state = PCPU_STATE_DEAD | PCPU_STATE_RUNNING

record tss_64_descriptor =
  low32_value :: u32
  high32_value :: u32
  base_addr_63_32 :: u32

record host_gdt =
  gdt_rsvd :: u64
  code_segment_descriptor :: u64
  data_segment_descriptor :: u64
  host_gdt_tss_descriptors :: tss_64_descriptor

record tss_64 =
  ist1 :: u64
  ist2 :: u64
  ist3 :: u64
  ist4 :: u64

text \<open>
  The static variables and per-CPU data beside those of \<open>machine\<close>; \<open>b_ctl\<close> are the control registers of
  each physical CPU and \<open>b_vmxon\<close> its VMXON region while it is in VMX operation.
\<close>

record boot =
  b_machine :: machine
  b_mem :: memst
  b_e820 :: e820_state
  b_info :: cpuinfo_x86
  b_security :: cpu_security
  b_pml4 :: u64
  b_ctl :: "u16 \<Rightarrow> hv_ctl"
  b_vmxon :: "u16 \<Rightarrow> u64 option"
  b_lapic_ldr :: "u16 \<Rightarrow> u32"
  b_gdt :: "u16 \<Rightarrow> host_gdt"
  b_tss :: "u16 \<Rightarrow> tss_64"
  b_idtr :: "u16 \<Rightarrow> u64"
  phys_cpu_num :: u16
  boot_state :: "u16 \<Rightarrow> pcpu_boot_state"
  pcpu_sync :: u64
  startup_paddr :: u64
  trampoline_start16_paddr :: u64
  tsc_khz :: u32

text \<open>
  The symbols of the trampoline and of the image, the addresses of the per-CPU data, the boot registers
  of the multiboot loader, the board and the processor. \<open>pl_boot_state\<close> is what another CPU
  has stored in its boot state by now, \<open>pl_sync\<close> the value of the \<open>n\<close>-th read of the synchronisation
  variable by a waiting CPU.
\<close>

record trampoline_syms =
  ld_trampoline_load :: u64
  ld_trampoline_size :: u64
  secondary_cpu_stack :: u64
  trampoline_fixup_target :: u64
  trampoline_fixup_cs :: u64
  trampoline_fixup_ip :: u64
  cpu_boot_page_tables_ptr :: u64
  cpu_boot_page_tables_start :: u64
  trampoline_gdt_ptr :: u64
  trampoline_start64_fixup :: u64
  main_entry :: u64

record platform =
  pl_env :: hw_env
  pl_board :: board
  pl_img :: hv_image
  pl_syms :: trampoline_syms
  pl_boot_magic :: u32
  pl_mbi :: u32
  pl_stack :: "u16 \<Rightarrow> u64"
  pl_mc_stack :: "u16 \<Rightarrow> u64"
  pl_df_stack :: "u16 \<Rightarrow> u64"
  pl_sf_stack :: "u16 \<Rightarrow> u64"
  pl_tss :: "u16 \<Rightarrow> u64"
  pl_vmxon_region :: "u16 \<Rightarrow> u64"
  pl_idt :: u64
  pl_boot_state :: "hw_event list \<Rightarrow> u16 \<Rightarrow> pcpu_boot_state option"
  pl_sync :: "nat \<Rightarrow> u64"

abbreviation b_hv :: "boot \<Rightarrow> hv" where
  "b_hv b \<equiv> m_hv (b_machine b)"

definition with_hv :: "(hv \<Rightarrow> hv) \<Rightarrow> boot \<Rightarrow> boot" where
  "with_hv f b = b\<lparr>b_machine := on_hv f (b_machine b)\<rparr>"

definition with_mem :: "(bytes \<Rightarrow> bytes) \<Rightarrow> boot \<Rightarrow> boot" where
  "with_mem f b = b\<lparr>b_mem := on_bytes f (b_mem b)\<rparr>"

definition try_boot :: "(hv \<Rightarrow> hv option) \<Rightarrow> boot \<Rightarrow> boot option" where
  "try_boot f b = map_option (\<lambda>m. b\<lparr>b_machine := m\<rparr>) (try_hv f (b_machine b))"

subsection \<open>Time (timer.c)\<close>

definition calibrate_tsc :: "platform \<Rightarrow> boot \<Rightarrow> boot" where
  "calibrate_tsc pl b = b\<lparr>tsc_khz := r_eax (hw_cpuid (pl_env pl) 0x16 0) * 1000\<rparr>"

definition get_tsc_khz :: "boot \<Rightarrow> u32" where
  "get_tsc_khz b = tsc_khz b"

definition us_to_ticks :: "u32 \<Rightarrow> u32 \<Rightarrow> u64" where
  "us_to_ticks khz us = (ucast us * ucast khz) div 1000"

partial_function (option) wait_tsc :: "hw_env \<Rightarrow> u64 \<Rightarrow> hv \<Rightarrow> hv option" where
  "wait_tsc env dest_tsc h =
     (let (now, h1) = rdtsc env h in if now < dest_tsc then wait_tsc env dest_tsc h1 else Some h1)"

definition udelay :: "hw_env \<Rightarrow> u32 \<Rightarrow> u32 \<Rightarrow> hv \<Rightarrow> hv option" where
  "udelay env khz us h =
     (let delta_tsc = us_to_ticks khz us;
          (now, h1) = rdtsc env h
      in wait_tsc env (now + delta_tsc) h1)"

subsection \<open>The local APIC (lapic.c)\<close>

definition clear_lapic_isr :: "hw_env \<Rightarrow> hv \<Rightarrow> hv" where
  "clear_lapic_isr env h =
     fold (\<lambda>isr_reg g.
        let (isr, g1) = hv_msr_read env isr_reg g
        in if isr \<noteq> 0 then (hv_msr_write MSR_IA32_EXT_APIC_EOI 0 ^^ 32) g1 else g1)
       (map (\<lambda>k. MSR_IA32_EXT_APIC_ISR7 - of_nat k) [0..<8]) h"

text \<open>Bit 11 enables the APIC, bit 10 its x2APIC mode.\<close>

definition early_init_lapic :: "hw_env \<Rightarrow> hv \<Rightarrow> hv" where
  "early_init_lapic env h =
     (let (base, h1) = hv_msr_read env MSR_IA32_APIC_BASE h;
          base1 = base OR push_bit 11 1;
          h2 = hv_msr_write MSR_IA32_APIC_BASE base1 h1;
          base2 = base1 OR push_bit 10 1
      in hv_msr_write MSR_IA32_APIC_BASE base2 h2)"

definition init_lapic :: "hw_env \<Rightarrow> u16 \<Rightarrow> boot \<Rightarrow> boot" where
  "init_lapic env pcpu_id b =
     (let (ldr, h1) = hv_msr_read env MSR_IA32_EXT_APIC_LDR (b_hv b);
          b1 = with_hv (\<lambda>_. h1) (b\<lparr>b_lapic_ldr := (b_lapic_ldr b)(pcpu_id := ucast ldr)\<rparr>);
          h2 = fold (\<lambda>(reg, val). hv_msr_write reg val)
            [(MSR_IA32_EXT_APIC_LVT_CMCI, LAPIC_LVT_MASK), (MSR_IA32_EXT_APIC_LVT_TIMER, LAPIC_LVT_MASK),
             (MSR_IA32_EXT_APIC_LVT_THERMAL, LAPIC_LVT_MASK), (MSR_IA32_EXT_APIC_LVT_PMI, LAPIC_LVT_MASK),
             (MSR_IA32_EXT_APIC_LVT_LINT0, LAPIC_LVT_MASK), (MSR_IA32_EXT_APIC_LVT_LINT1, LAPIC_LVT_MASK),
             (MSR_IA32_EXT_APIC_LVT_ERROR, LAPIC_LVT_MASK), (MSR_IA32_EXT_APIC_SIVR, LAPIC_SVR_VECTOR),
             (MSR_IA32_EXT_APIC_DIV_CONF, 0), (MSR_IA32_TSC_DEADLINE, 0), (MSR_IA32_EXT_APIC_ICR, 0),
             (MSR_IA32_EXT_APIC_TPR, 0), (MSR_IA32_EXT_APIC_INIT_COUNT, 0)] (b_hv b1)
      in with_hv (\<lambda>_. clear_lapic_isr env h2) b1)"

definition get_cur_lapic_id :: "hw_env \<Rightarrow> hv \<Rightarrow> u32 \<times> hv" where
  "get_cur_lapic_id env h = (let (i, h1) = hv_msr_read env MSR_IA32_EXT_XAPICID h in (ucast i, h1))"

text \<open>
  \<^verbatim>\<open>union apic_icr\<close>: the vector in bits 0--7, the delivery mode in 8--10, the destination mode in 11, the
  shorthand in 18--19 and the destination in the upper half.
\<close>

definition apic_icr :: "u32 \<Rightarrow> u64 \<Rightarrow> u64 \<Rightarrow> u64 \<Rightarrow> u8 \<Rightarrow> u64" where
  "apic_icr hi_32 shorthand destination_mode delivery_mode vector =
     push_bit 32 (ucast hi_32) OR push_bit 18 shorthand OR push_bit 11 destination_mode OR push_bit 8 delivery_mode OR ucast vector"

definition init_icr :: "u32 \<Rightarrow> u64" where
  "init_icr dest_id = apic_icr dest_id INTR_LAPIC_ICR_USE_DEST_ARRAY INTR_LAPIC_ICR_PHYSICAL INTR_LAPIC_ICR_INIT 0"

definition startup_icr :: "u32 \<Rightarrow> u64 \<Rightarrow> u64" where
  "startup_icr dest_id start_address =
     apic_icr dest_id INTR_LAPIC_ICR_USE_DEST_ARRAY 0 INTR_LAPIC_ICR_STARTUP (ucast (drop_bit 12 start_address))"

definition send_startup_ipi :: "hw_env \<Rightarrow> cpuinfo_x86 \<Rightarrow> u32 \<Rightarrow> u16 \<Rightarrow> u64 \<Rightarrow> hv \<Rightarrow> hv option" where
  "send_startup_ipi env cpu_info khz dest_pcpu_id cpu_startup_start_address h =
     do {
       let dest_id = hv_lapic_id h dest_pcpu_id;
       h1 \<leftarrow> udelay env khz (if displayfamily cpu_info \<noteq> 6 then 10000 else 10)
               (hv_msr_write MSR_IA32_EXT_APIC_ICR (init_icr dest_id) h);
       Some (hv_msr_write MSR_IA32_EXT_APIC_ICR (startup_icr dest_id cpu_startup_start_address) h1)
     }"

subsection \<open>The trampoline (trampoline.c)\<close>

definition get_hv_image_delta :: u64 where "get_hv_image_delta = 0"

definition overlaps :: "u64 \<Rightarrow> u64 \<Rightarrow> u64 \<Rightarrow> u64 \<Rightarrow> bool" where
  "overlaps ret end_pa lo hi \<longleftrightarrow> end_pa > lo \<and> ret < hi"

text \<open>
  The multiboot information has 88 bytes; the end of the memory map is a sum of 32 bits, that of the
  modules one of 64.
\<close>

definition get_ap_trampoline_buf :: "platform \<Rightarrow> boot \<Rightarrow> u64 option" where
  "get_ap_trampoline_buf pl b =
     (let sz = CONFIG_LOW_RAM_SIZE;
          ret = e820_alloc_low_memory sz (b_e820 b);
          end_pa = ret + ucast sz;
          mbi = hpa2hva (ucast (pl_mbi pl));
          word32 = (\<lambda>off. ucast (load_le 4 (mem_bytes (b_mem b)) (mbi + off)) :: u32)
      in if ret = ACRN_INVALID_HPA then None
         else if overlaps ret end_pa (ucast (word32 48)) (ucast (word32 48 + word32 44)) then None
         else if overlaps ret end_pa mbi (mbi + 88) then None
         else if overlaps ret end_pa (ucast (word32 24)) (ucast (word32 24) + ucast (word32 20) * 16) then None
         else Some ret)"

definition trampoline_relo_addr :: "u64 \<Rightarrow> u64" where
  "trampoline_relo_addr addr = addr - get_hv_image_delta"

definition write_trampoline_stack_sym :: "platform \<Rightarrow> u16 \<Rightarrow> boot \<Rightarrow> boot" where
  "write_trampoline_stack_sym pl pcpu_id b =
     (let hva = hpa2hva (trampoline_start16_paddr b + trampoline_relo_addr (secondary_cpu_stack (pl_syms pl)));
          stack_sym_addr = (pl_stack pl pcpu_id + ucast (PCPU_STACK_SIZE - 1)) AND NOT (CPU_STACK_ALIGN - 1)
      in with_mem (store_le 8 hva stack_sym_addr) b)"

definition add_le :: "nat \<Rightarrow> u64 \<Rightarrow> u64 \<Rightarrow> bytes \<Rightarrow> bytes" where
  "add_le n a x m = store_le n a (load_le n m a + x) m"

definition update_trampoline_code_refs :: "trampoline_syms \<Rightarrow> u64 \<Rightarrow> bytes \<Rightarrow> bytes" where
  "update_trampoline_code_refs sy dest_pa m =
     (let at = (\<lambda>addr. hpa2hva (dest_pa + trampoline_relo_addr addr));
          val = dest_pa + trampoline_relo_addr (trampoline_fixup_target sy);
          m1 = store_le 2 (at (trampoline_fixup_cs sy)) (drop_bit 4 val AND 0xFFFF) m;
          m2 = store_le 2 (at (trampoline_fixup_ip sy)) (val AND 0xf) m1;
          m3 = add_le 4 (at (cpu_boot_page_tables_ptr sy)) dest_pa m2;
          m4 = add_le 8 (at (cpu_boot_page_tables_start sy)) dest_pa m3;
          m5 = add_le 8 (at (trampoline_gdt_ptr sy) + 2) dest_pa m4;
          m6 = add_le 4 (at (trampoline_start64_fixup sy)) dest_pa m5
      in add_le 8 (at (main_entry sy)) get_hv_image_delta m6)"

definition prepare_trampoline :: "platform \<Rightarrow> boot \<Rightarrow> (u64 \<times> boot) option" where
  "prepare_trampoline pl b =
     do {
       let sz = ld_trampoline_size (pl_syms pl);
       dest_pa \<leftarrow> get_ap_trampoline_buf pl b;
       let b1 = with_mem (\<lambda>m. snd (memcpy_s (hpa2hva dest_pa) sz (ld_trampoline_load (pl_syms pl)) sz m)) b;
       let b2 = with_mem (update_trampoline_code_refs (pl_syms pl) dest_pa) b1;
       Some (dest_pa, b2\<lparr>trampoline_start16_paddr := dest_pa\<rparr>)
     }"

subsection \<open>Starting the CPUs (cpu.c)\<close>

text \<open>\<^verbatim>\<open>parse_madt\<close> fills the array with the IDs of the board.\<close>

definition parse_madt :: "u32 list" where
  "parse_madt = [0, 2, 4, 6]"

definition get_pcpu_nums :: "boot \<Rightarrow> u16" where
  "get_pcpu_nums b = phys_cpu_num b"

definition init_percpu_lapic_id :: "boot \<Rightarrow> bool \<times> boot" where
  "init_percpu_lapic_id b =
     (let n = of_nat (length parse_madt);
          b1 = b\<lparr>phys_cpu_num := n\<rparr>
      in if n \<noteq> 0 \<and> n \<le> of_nat MAX_PCPU_NUM then
           (True, with_hv (\<lambda>h. h\<lparr>hv_lapic_id := fold (\<lambda>(i, x) f. f(of_nat i := x)) (enumerate 0 parse_madt) (hv_lapic_id h)\<rparr>) b1)
         else (False, b1))"

definition set_current_pcpu_id :: "u16 \<Rightarrow> hv \<Rightarrow> hv" where
  "set_current_pcpu_id pcpu_id h = hv_msr_write MSR_IA32_TSC_AUX (ucast pcpu_id) h"

definition pcpu_set_current_state :: "u16 \<Rightarrow> pcpu_boot_state \<Rightarrow> boot \<Rightarrow> boot" where
  "pcpu_set_current_state pcpu_id st b =
     (let b1 = (if st = PCPU_STATE_RUNNING then with_hv (set_current_pcpu_id pcpu_id) b else b)
      in b1\<lparr>boot_state := (boot_state b1)(pcpu_id := st)\<rparr>)"

definition get_pcpu_id_from_lapic_id :: "u32 \<Rightarrow> boot \<Rightarrow> u16" where
  "get_pcpu_id_from_lapic_id lapic_id b =
     (case find (\<lambda>i. hv_lapic_id (b_hv b) (of_nat i) = lapic_id) [0..<unat (phys_cpu_num b)] of
        Some i \<Rightarrow> of_nat i
      | None \<Rightarrow> INVALID_CPU_ID)"

text \<open>What the other CPUs have stored in their boot states by now becomes visible.\<close>

definition poll :: "platform \<Rightarrow> boot \<Rightarrow> boot" where
  "poll pl b = b\<lparr>boot_state := (\<lambda>p. case pl_boot_state pl (hv_hw (b_hv b)) p of Some st \<Rightarrow> st | None \<Rightarrow> boot_state b p)\<rparr>"

partial_function (option) wait_running :: "platform \<Rightarrow> u16 \<Rightarrow> u32 \<Rightarrow> boot \<Rightarrow> boot option" where
  "wait_running pl pcpu_id timeout b =
     (let b1 = poll pl b
      in if boot_state b1 pcpu_id \<noteq> PCPU_STATE_RUNNING \<and> timeout \<noteq> 0
         then Option.bind (try_boot (udelay (pl_env pl) (tsc_khz b1) 10) b1) (wait_running pl pcpu_id (timeout - 10))
         else Some b1)"

definition start_pcpu :: "platform \<Rightarrow> u16 \<Rightarrow> boot \<Rightarrow> (bool \<times> boot) option" where
  "start_pcpu pl pcpu_id b =
     do {
       let b1 = b\<lparr>b_mem := stac (b_mem b)\<rparr>;
       let b2 = write_trampoline_stack_sym pl pcpu_id b1;
       let b3 = b2\<lparr>b_mem := clac (b_mem b2)\<rparr>;
       b4 \<leftarrow> try_boot (send_startup_ipi (pl_env pl) (b_info b3) (tsc_khz b3) pcpu_id (startup_paddr b3)) b3;
       b5 \<leftarrow> wait_running pl pcpu_id (CPU_UP_TIMEOUT * 1000) b4;
       Some (if boot_state b5 pcpu_id \<noteq> PCPU_STATE_RUNNING
             then (False, pcpu_set_current_state pcpu_id PCPU_STATE_DEAD b5)
             else (True, b5))
     }"

lemma clear_ffs64_decreases:
  assumes "ffs64 w \<noteq> INVALID_BIT_INDEX"
  shows "card {i. bit (bitmap_clear_nolock (ffs64 w) w) i} < card {i. bit w i}"
proof (rule psubset_card_mono)
  have "w \<noteq> 0"
    using assms ffs64_invalid_iff by blast
  note f = ffs64_least [OF this]
  have "{i. bit w i} \<subseteq> {..<64}"
    using bit_imp_le_length by fastforce
  then show "finite {i. bit w i}"
    by (rule finite_subset) simp
  show "{i. bit (bitmap_clear_nolock (ffs64 w) w) i} \<subset> {i. bit w i}"
    using f by (auto simp: bit_bitmap_clear bit_nr_mod)
qed

function start_loop :: "platform \<Rightarrow> u16 \<Rightarrow> u64 \<Rightarrow> boot \<Rightarrow> (bool \<times> boot) option" where
  "start_loop pl pcpu_id expected_start_mask b =
     (let i = ffs64 expected_start_mask
      in if i \<noteq> INVALID_BIT_INDEX then
           let rest = bitmap_clear_nolock i expected_start_mask
           in if pcpu_id = i then start_loop pl pcpu_id rest b
              else (case start_pcpu pl i b of
                      None \<Rightarrow> None
                    | Some (ok, b1) \<Rightarrow> if ok = False then Some (False, b1) else start_loop pl pcpu_id rest b1)
         else Some (True, b))"
  by pat_completeness auto
termination
  by (relation "measure (\<lambda>(_, _, w, _). card {i. bit w i})") (auto intro: clear_ffs64_decreases [simplified])

declare start_loop.simps [simp del]

definition start_pcpus :: "platform \<Rightarrow> u16 \<Rightarrow> u64 \<Rightarrow> boot \<Rightarrow> (bool \<times> boot) option" where
  "start_pcpus pl pcpu_id start_mask b =
     do {
       (paddr, b1) \<leftarrow> prepare_trampoline pl b;
       (ok, b2) \<leftarrow> start_loop pl pcpu_id start_mask (b1\<lparr>startup_paddr := paddr, pcpu_sync := 1\<rparr>);
       Some (ok, b2\<lparr>pcpu_sync := 0\<rparr>)
     }"

text \<open>
  \<^verbatim>\<open>wait_sync_change\<close>; the value is the number of reads. With MONITOR and MWAIT the variable is read again
  after the monitor is armed.
\<close>

partial_function (option) wait_sync_change :: "platform \<Rightarrow> bool \<Rightarrow> u64 \<Rightarrow> nat \<Rightarrow> nat option" where
  "wait_sync_change pl monitor wake_sync n =
     (if pl_sync pl n \<noteq> wake_sync then wait_sync_change pl monitor wake_sync (if monitor then n + 2 else n + 1)
      else Some (n + 1))"

subsection \<open>Taking CPUs offline (cpu.c)\<close>

function is_any_pcpu_active :: "u64 \<Rightarrow> boot \<Rightarrow> bool" where
  "is_any_pcpu_active pcpu_mask b =
     (let i = ffs64 pcpu_mask
      in if i \<noteq> INVALID_BIT_INDEX then
           if boot_state b i = PCPU_STATE_RUNNING then True
           else is_any_pcpu_active (bitmap_clear_nolock i pcpu_mask) b
         else False)"
  by pat_completeness auto
termination
  by (relation "measure (\<lambda>(w, _). card {i. bit w i})") (auto intro: clear_ffs64_decreases [simplified])

declare is_any_pcpu_active.simps [simp del]

partial_function (option) wait_offline :: "platform \<Rightarrow> u64 \<Rightarrow> u32 \<Rightarrow> boot \<Rightarrow> boot option" where
  "wait_offline pl pcpu_mask timeout b =
     (let b1 = poll pl b
      in if is_any_pcpu_active pcpu_mask b1 \<and> timeout \<noteq> 0
         then Option.bind (try_boot (udelay (pl_env pl) (tsc_khz b1) 10) b1) (wait_offline pl pcpu_mask (timeout - 10))
         else Some b1)"

definition wait_pcpus_offline :: "platform \<Rightarrow> u64 \<Rightarrow> boot \<Rightarrow> boot option" where
  "wait_pcpus_offline pl pcpu_mask b = wait_offline pl pcpu_mask (CPU_DOWN_TIMEOUT * 1000) b"

end
