(* ===== verification/Acrn_Boot_Init.thy ===== *)
theory Acrn_Boot_Init
  imports Acrn_Boot
begin

text \<open>
  The initialisation of a physical CPU up to its first VM: its GDT and TSS
  (\<^verbatim>\<open>src/hypervisor/arch/x86/gdt.c\<close>), the IDT and the NMI handler (\<^verbatim>\<open>irq.c\<close>), the I/O APIC (\<^verbatim>\<open>ioapic.c\<close>),
  VMX operation (\<^verbatim>\<open>vmx.c\<close>), and the sequence of all of it (\<^verbatim>\<open>cpu.c\<close>, \<^verbatim>\<open>init.c\<close>). \<open>None\<close>: the function
  panics or waits without end. The release build has no console and no shell; the stack protector is not modelled.
\<close>

definition MSR_TSX_FORCE_ABORT :: u32 where "MSR_TSX_FORCE_ABORT = 0x10F"
definition CPUID_XSAVE_FEATURES :: u32 where "CPUID_XSAVE_FEATURES = 0xD"
definition XSAVE_STATE_AREA_SIZE :: u32 where "XSAVE_STATE_AREA_SIZE = 4096"
definition IOAPIC_RTE_MASK_SET :: u64 where "IOAPIC_RTE_MASK_SET = 0x1"
definition IOAPIC_REGSEL :: u64 where "IOAPIC_REGSEL = 0"
definition IOAPIC_WINDOW :: u64 where "IOAPIC_WINDOW = 0x10"
definition IOAPIC_VER :: u32 where "IOAPIC_VER = 0x1"
definition IOAPIC_MAX_RTE_MASK :: u32 where "IOAPIC_MAX_RTE_MASK = 0xFF0000"
definition MAX_RTE_SHIFT :: u32 where "MAX_RTE_SHIFT = 16"
definition TSS_AVAIL :: u32 where "TSS_AVAIL = 9"
definition CONFIG_STACK_SIZE :: u32 where "CONFIG_STACK_SIZE = 0x2000"
definition HOST_IDT_ENTRIES :: u32 where "HOST_IDT_ENTRIES = 0x100"

subsection \<open>GDT and TSS (gdt.c)\<close>

definition set_tss_desc :: "u64 \<Rightarrow> u64 \<Rightarrow> u32 \<Rightarrow> tss_64_descriptor" where
  "set_tss_desc tss tss_limit typ =
     (let tss_hi_32 = ucast (drop_bit 32 tss) :: u32;
          tss_lo_32 = ucast tss :: u32;
          u1 = push_bit 16 tss_lo_32;
          u2 = tss_lo_32 AND 0xFF000000;
          u3 = drop_bit 16 (tss_lo_32 AND 0x00FF0000)
      in \<lparr>low32_value = ucast (ucast u1 OR (tss_limit AND 0xFFFF)),
          high32_value = u2 OR push_bit 8 typ OR 0x8000 OR u3,
          base_addr_63_32 = tss_hi_32\<rparr>)"

text \<open>A TSS has 104 bytes. Loading the registers makes the processor use this CPU's tables from here on.\<close>

definition load_gdtr_and_tr :: "platform \<Rightarrow> u16 \<Rightarrow> boot \<Rightarrow> boot" where
  "load_gdtr_and_tr pl cpu b =
     (let top = (\<lambda>base. base + ucast CONFIG_STACK_SIZE);
          tss = \<lparr>ist1 = top (pl_mc_stack pl cpu), ist2 = top (pl_df_stack pl cpu), ist3 = top (pl_sf_stack pl cpu), ist4 = 0\<rparr>;
          gdt = \<lparr>gdt_rsvd = 0xAAAAAAAAAAAAAAAA, code_segment_descriptor = 0x00Af9b000000ffff,
                 data_segment_descriptor = 0x00cf93000000ffff,
                 host_gdt_tss_descriptors = set_tss_desc (pl_tss pl cpu) 104 TSS_AVAIL\<rparr>
      in b\<lparr>b_gdt := (b_gdt b)(cpu := gdt), b_tss := (b_tss b)(cpu := tss)\<rparr>)"

subsection \<open>The I/O APIC (ioapic.c)\<close>

definition ioapic_read_reg32 :: "vtd_env \<Rightarrow> u64 \<Rightarrow> u32 \<Rightarrow> vtd \<Rightarrow> u32 \<times> vtd" where
  "ioapic_read_reg32 env ioapic_base offset s =
     (let s1 = event (Mmio_write (ioapic_base + IOAPIC_REGSEL) offset) s
      in (mmio_value env (vt_log s1) (ioapic_base + IOAPIC_WINDOW), event (Mmio_read (ioapic_base + IOAPIC_WINDOW)) s1))"

definition ioapic_write_reg32 :: "u64 \<Rightarrow> u32 \<Rightarrow> u32 \<Rightarrow> vtd \<Rightarrow> vtd" where
  "ioapic_write_reg32 ioapic_base offset val s =
     event (Mmio_write (ioapic_base + IOAPIC_WINDOW) val) (event (Mmio_write (ioapic_base + IOAPIC_REGSEL) offset) s)"

definition ioapic_set_rte_entry :: "u64 \<Rightarrow> u32 \<Rightarrow> u64 \<Rightarrow> vtd \<Rightarrow> vtd" where
  "ioapic_set_rte_entry ioapic_addr pin rte s =
     (let rte_addr = pin * 2 + 0x10
      in ioapic_write_reg32 ioapic_addr (rte_addr + 1) (ucast (drop_bit 32 rte))
           (ioapic_write_reg32 ioapic_addr rte_addr (ucast rte) s))"

text \<open>Bit 16 of an entry masks its interrupt.\<close>

definition ioapic_set_routing :: "u64 \<Rightarrow> u32 \<Rightarrow> vtd \<Rightarrow> vtd" where
  "ioapic_set_routing addr gsi s = ioapic_set_rte_entry addr gsi (push_bit 16 IOAPIC_RTE_MASK_SET) s"

definition ioapic_nr_pins :: "vtd_env \<Rightarrow> u64 \<Rightarrow> vtd \<Rightarrow> u32 \<times> vtd" where
  "ioapic_nr_pins env ioapic_base s =
     (let (version, s1) = ioapic_read_reg32 env ioapic_base IOAPIC_VER s
      in (drop_bit (unat MAX_RTE_SHIFT) (version AND IOAPIC_MAX_RTE_MASK) + 1, s1))"

definition map_ioapic :: "u64 \<Rightarrow> u64" where
  "map_ioapic ioapic_paddr = hpa2hva ioapic_paddr"

text \<open>\<^verbatim>\<open>parse_madt_ioapic\<close> of \<^verbatim>\<open>boot/acpi_base.c\<close>: the addresses of the I/O APICs.\<close>

definition parse_madt_ioapic :: "u32 list" where
  "parse_madt_ioapic = [0xFEC00000]"

fun ioapic_loop :: "vtd_env \<Rightarrow> u64 \<Rightarrow> u32 list \<Rightarrow> vtd \<Rightarrow> vtd option" where
  "ioapic_loop env pml4 [] s = Some s"
| "ioapic_loop env pml4 (paddr # paddrs) s =
     do {
       let addr = map_ioapic (ucast paddr);
       ppt \<leftarrow> hv_access_memory_region_update (ppt_pages env) pml4 addr PAGE_SIZE (vt_ppt s);
       let (nr_pins, s1) = ioapic_nr_pins env addr (s\<lparr>vt_ppt := ppt\<rparr>);
       ioapic_loop env pml4 paddrs (fold (\<lambda>gsi. ioapic_set_routing addr (of_nat gsi)) [0..<unat nr_pins] s1)
     }"

definition with_vtd :: "(vtd \<Rightarrow> vtd option) \<Rightarrow> boot \<Rightarrow> boot option" where
  "with_vtd f b = map_option (\<lambda>s. b\<lparr>b_machine := (b_machine b)\<lparr>m_vtd := s\<rparr>\<rparr>) (f (m_vtd (b_machine b)))"

definition ioapic_setup_irqs :: "platform \<Rightarrow> boot \<Rightarrow> boot option" where
  "ioapic_setup_irqs pl b = with_vtd (ioapic_loop (bd_vtd (pl_board pl)) (b_pml4 b) parse_madt_ioapic) b"

subsection \<open>Interrupts (irq.c)\<close>

definition handle_nmi :: "u16 \<Rightarrow> hv \<Rightarrow> hv" where
  "handle_nmi cpu h =
     (case hv_ever_run_vcpu h cpu of
        None \<Rightarrow> h
      | Some (vm, v) \<Rightarrow> upd_vcpu vm v (\<lambda>c. c\<lparr>pending_req := bitmap_set_lock ACRN_REQUEST_NMI (pending_req c)\<rparr>) h)"

definition disable_pic_irqs :: "machine \<Rightarrow> machine" where
  "disable_pic_irqs m = pio_write8 0xff 0x21 (pio_write8 0xff 0xA1 m)"

definition init_default_irqs :: "platform \<Rightarrow> u16 \<Rightarrow> boot \<Rightarrow> boot option" where
  "init_default_irqs pl cpu_id b =
     (if cpu_id = BOOT_CPU_ID then ioapic_setup_irqs pl (b\<lparr>b_machine := disable_pic_irqs (b_machine b)\<rparr>) else Some b)"

text \<open>
  A descriptor has 16 bytes: the low offset at 0, the middle offset at 6, the high offset at 8, a reserved
  word at 12. The image holds the high half of the address in the reserved word.
\<close>

definition fixup_entry :: "u64 \<Rightarrow> bytes \<Rightarrow> bytes" where
  "fixup_entry a m =
     (let entry_lo_32 = ucast (load_le 4 m (a + 8)) :: u32;
          entry_hi_32 = ucast (load_le 4 m (a + 12)) :: u32;
          m1 = store_le 4 (a + 12) 0 m;
          m2 = store_le 4 (a + 8) (ucast entry_hi_32) m1;
          m3 = store_le 2 (a + 6) (ucast (drop_bit 16 entry_lo_32)) m2
      in store_le 2 a (ucast (entry_lo_32 AND 0xffff)) m3)"

definition fixup_idt :: "u64 \<Rightarrow> bytes \<Rightarrow> bytes" where
  "fixup_idt idt m = fold (\<lambda>i. fixup_entry (idt + 16 * of_nat i)) [0..<unat HOST_IDT_ENTRIES] m"

definition set_idt :: "u64 \<Rightarrow> u16 \<Rightarrow> boot \<Rightarrow> boot" where
  "set_idt idt cpu b = b\<lparr>b_idtr := (b_idtr b)(cpu := idt)\<rparr>"

definition init_interrupt :: "platform \<Rightarrow> u16 \<Rightarrow> boot \<Rightarrow> boot option" where
  "init_interrupt pl pcpu_id b =
     (let b1 = (if pcpu_id = BOOT_CPU_ID then with_mem (fixup_idt (pl_idt pl)) b else b);
          b2 = set_idt (pl_idt pl) pcpu_id b1;
          b3 = init_lapic (pl_env pl) pcpu_id b2
      in init_default_irqs pl pcpu_id b3)"

subsection \<open>VMX operation (vmx.c)\<close>

definition exec_vmxon :: "u64 \<Rightarrow> u16 \<Rightarrow> boot \<Rightarrow> boot" where
  "exec_vmxon addr cpu b = b\<lparr>b_vmxon := (b_vmxon b)(cpu := Some addr)\<rparr>"

definition vmx_on :: "platform \<Rightarrow> u16 \<Rightarrow> boot \<Rightarrow> boot" where
  "vmx_on pl cpu b =
     (let (basic, h1) = hv_msr_read (pl_env pl) MSR_IA32_VMX_BASIC (b_hv b);
          region = pl_vmxon_region pl cpu;
          b1 = with_mem (store_le 4 region basic) (with_hv (\<lambda>_. h1) b);
          c = b_ctl b1 cpu;
          b2 = b1\<lparr>b_ctl := (b_ctl b1)(cpu := c\<lparr>ctl_cr0 := ctl_cr0 c OR CR0_NE, ctl_cr4 := ctl_cr4 c OR CR4_VMXE\<rparr>)\<rparr>
      in exec_vmxon (hva2hpa region) cpu b2)"

definition vmx_off :: "platform \<Rightarrow> u16 \<Rightarrow> boot \<Rightarrow> boot" where
  "vmx_off pl cpu b =
     (let b1 = (case hv_vmcs_run (b_hv b) cpu of
                  None \<Rightarrow> b
                | Some (vm, v) \<Rightarrow> with_hv (\<lambda>h. let h1 = hw_op (Vmclear (hw_addr (pl_env pl) (Vmcs_page vm v))) h
                                               in h1\<lparr>hv_vmcs_run := (hv_vmcs_run h1)(cpu := None)\<rparr>) b)
      in b1\<lparr>b_vmxon := (b_vmxon b1)(cpu := None)\<rparr>)"

text \<open>
  \<^verbatim>\<open>cpu_dead\<close>: whether the CPU halts forever, and the state then. The scheduling policy has no \<^verbatim>\<open>deinit\<close>.
\<close>

definition deinit_sched :: "u16 \<Rightarrow> sched \<Rightarrow> sched" where
  "deinit_sched pcpu_id s = s"

definition cpu_dead :: "platform \<Rightarrow> u16 \<Rightarrow> boot \<Rightarrow> bool \<times> boot" where
  "cpu_dead pl cpu b =
     (let b1 = with_hv (\<lambda>h. h\<lparr>hv_sched := deinit_sched cpu (hv_sched h)\<rparr>) b
      in if boot_state b1 cpu = PCPU_STATE_RUNNING
         then (True, pcpu_set_current_state cpu PCPU_STATE_DEAD (vmx_off pl cpu b1))
         else (False, b1))"

subsection \<open>The initialisation of a CPU (cpu.c)\<close>

definition init_pcpu_xsave :: "platform \<Rightarrow> u16 \<Rightarrow> boot \<Rightarrow> boot option" where
  "init_pcpu_xsave pl cpu b =
     (let c = b_ctl b cpu;
          b1 = b\<lparr>b_ctl := (b_ctl b)(cpu := c\<lparr>ctl_cr4 := ctl_cr4 c OR CR4_OSXSAVE\<rparr>)\<rparr>
      in if cpu = BOOT_CPU_ID then
           let info = b_info b1;
               b2 = b1\<lparr>b_info := set_leaf FEAT_1_ECX (cpuid_leaves info (unat FEAT_1_ECX) OR CPUID_ECX_OSXSAVE) info\<rparr>;
               b3 = with_hv (\<lambda>h. hv_msr_write MSR_IA32_XSS XSS_INIT (hw_op (Write_xcr 0 XCR0_INIT) h)) b2;
               xsave_area_size = r_ebx (hw_cpuid (pl_env pl) CPUID_XSAVE_FEATURES 1)
           in if xsave_area_size > XSAVE_STATE_AREA_SIZE then None else Some b3
         else Some b1)"

text \<open>The memory map of the multiboot information: 24 bytes an entry.\<close>

definition mmap_entry :: "bytes \<Rightarrow> u64 \<Rightarrow> nat \<Rightarrow> e820_entry" where
  "mmap_entry m mmap i =
     (let a = mmap + 24 * of_nat i
      in \<lparr>baseaddr = load_le 8 m (a + 4), e820_length = load_le 8 m (a + 12), e820_type = ucast (load_le 4 m (a + 20))\<rparr>)"

definition AP_MASK :: "u16 \<Rightarrow> u64" where
  "AP_MASK n = (push_bit (unat n) 1 - 1) AND NOT (push_bit 0 1)"

text \<open>
  The boot CPU; the state given to it has the zeroed static variables of the \<^verbatim>\<open>memset\<close> at its beginning.
\<close>

definition init_pcpu_pre_bsp :: "platform \<Rightarrow> boot \<Rightarrow> boot option" where
  "init_pcpu_pre_bsp pl b =
     do {
       let env = pl_env pl;
       let b1 = calibrate_tsc pl b;
       let b2 = b1\<lparr>b_info := init_pcpu_model_name (hw_cpuid env) (init_pcpu_capabilities (hw_cpuid env) (b_info b1))\<rparr>;
       let m = mem_bytes (b_mem b2);
       let mbi = hpa2hva (ucast (pl_mbi pl));
       e820 \<leftarrow> init_e820 (pl_boot_magic pl) (ucast (load_le 4 m mbi)) (ucast (load_le 4 m (mbi + 44)))
                 (mmap_entry m (hpa2hva (load_le 4 m (mbi + 48))));
       (pml4, ctl, ppt) \<leftarrow> init_paging (ppt_pages (bd_vtd (pl_board pl))) (pl_img pl) e820
                              (b_ctl b2 BOOT_CPU_ID, vt_ppt (m_vtd (b_machine b2)));
       b3 \<leftarrow> with_vtd (\<lambda>s. Some (s\<lparr>vt_ppt := ppt\<rparr>))
               (b2\<lparr>b_e820 := e820, b_pml4 := pml4, b_ctl := (b_ctl b2)(BOOT_CPU_ID := ctl)\<rparr>);
       let (ok, b4) = init_percpu_lapic_id (with_hv (early_init_lapic env) b3);
       (if \<not> ok then None else Some (pcpu_set_current_state BOOT_CPU_ID PCPU_STATE_RUNNING b4))
     }"

definition init_pcpu_pre_ap :: "platform \<Rightarrow> boot \<Rightarrow> (u16 \<times> boot) option" where
  "init_pcpu_pre_ap pl b =
     (let h1 = early_init_lapic (pl_env pl) (b_hv b);
          (lapic_id, h2) = get_cur_lapic_id (pl_env pl) h1;
          b1 = with_hv (\<lambda>_. h2) b;
          pcpu_id = get_pcpu_id_from_lapic_id lapic_id b1
      in if pcpu_id \<ge> of_nat MAX_PCPU_NUM then None
         else Some (pcpu_id, pcpu_set_current_state pcpu_id PCPU_STATE_RUNNING
                (b1\<lparr>b_ctl := (b_ctl b1)(pcpu_id := enable_paging (b_pml4 b1) (b_ctl b1 pcpu_id))\<rparr>)))"

text \<open>A missing mitigation is only logged.\<close>

definition init_pcpu_post :: "platform \<Rightarrow> u16 \<Rightarrow> boot \<Rightarrow> boot option" where
  "init_pcpu_post pl pcpu_id b =
     do {
       let b1 = load_gdtr_and_tr pl pcpu_id (with_hv (hv_msr_write MSR_TSX_FORCE_ABORT 1) b);
       b2 \<leftarrow> init_pcpu_xsave pl pcpu_id b1;
       b3 \<leftarrow> (if pcpu_id = BOOT_CPU_ID then
                do {
                  let (ok, sec) = check_cpu_security_cap (b_info b2) (hw_msr (pl_env pl) (hv_hw (b_hv b2))) (b_security b2);
                  c1 \<leftarrow> init_interrupt pl BOOT_CPU_ID (b2\<lparr>b_security := sec\<rparr>);
                  c2 \<leftarrow> with_vtd (init_iommu (bd_vtd (pl_board pl))) c1;
                  c3 \<leftarrow> with_vtd (enable_iommu (bd_vtd (pl_board pl))) c2;
                  (started, c4) \<leftarrow> start_pcpus pl pcpu_id (AP_MASK (get_pcpu_nums c3)) c3;
                  (if \<not> started then None else Some c4)
                }
              else
                do {
                  c1 \<leftarrow> init_interrupt pl pcpu_id b2;
                  n \<leftarrow> wait_sync_change pl (has_monitor_cap (b_info c1)) 0 0;
                  Some c1
                });
       let b4 = with_hv (\<lambda>h. h\<lparr>hv_sched := init_sched pcpu_id (hv_sched h)\<rparr>) b3;
       Some (b4\<lparr>b_ctl := (b_ctl b4)(pcpu_id := enable_smap (enable_smep (b_ctl b4 pcpu_id)))\<rparr>)
     }"

subsection \<open>From the entry to the idle thread (init.c)\<close>

definition init_guest_mode :: "platform \<Rightarrow> boot_env \<Rightarrow> acrn_vm_config list \<Rightarrow> u16 \<Rightarrow> boot \<Rightarrow> boot option" where
  "init_guest_mode pl be vm_configs pcpu_id b =
     do {
       let b1 = vmx_on pl pcpu_id b;
       let env = (pl_env pl)\<lparr>hw_caps := b_info b1, hw_security := b_security b1\<rparr>;
       (m, mem) \<leftarrow> launch_vms env (pl_board pl) be vm_configs (get_pcpu_nums b1) pcpu_id (b_machine b1) (b_mem b1);
       Some (b1\<lparr>b_machine := m, b_mem := mem\<rparr>)
     }"

definition start_idle :: "u16 \<Rightarrow> boot \<Rightarrow> boot" where
  "start_idle cpu b = with_hv (\<lambda>h. h\<lparr>hv_sched := run_idle_thread cpu (hv_sched h)\<rparr>) b"

definition init_primary_pcpu_post :: "platform \<Rightarrow> boot_env \<Rightarrow> acrn_vm_config list \<Rightarrow> boot \<Rightarrow> boot option" where
  "init_primary_pcpu_post pl be vm_configs b =
     do {
       b1 \<leftarrow> init_pcpu_post pl BOOT_CPU_ID b;
       b2 \<leftarrow> init_guest_mode pl be vm_configs BOOT_CPU_ID b1;
       Some (start_idle BOOT_CPU_ID b2)
     }"

definition init_primary_pcpu :: "platform \<Rightarrow> boot_env \<Rightarrow> acrn_vm_config list \<Rightarrow> boot \<Rightarrow> boot option" where
  "init_primary_pcpu pl be vm_configs b =
     Option.bind (init_pcpu_pre_bsp pl b) (init_primary_pcpu_post pl be vm_configs)"

definition init_secondary_pcpu :: "platform \<Rightarrow> boot_env \<Rightarrow> acrn_vm_config list \<Rightarrow> boot \<Rightarrow> boot option" where
  "init_secondary_pcpu pl be vm_configs b =
     do {
       (pcpu_id, b1) \<leftarrow> init_pcpu_pre_ap pl b;
       b2 \<leftarrow> init_pcpu_post pl pcpu_id b1;
       b3 \<leftarrow> init_guest_mode pl be vm_configs pcpu_id b2;
       Some (start_idle pcpu_id b3)
     }"

end
