(* ===== verification/Acrn_Boot_Safe.thy ===== *)
theory Acrn_Boot_Safe
  imports Acrn_Boot_Init Acrn_Msr_Safe
begin

text \<open>
  Starting the secondary CPUs ends and does what it reports. Assumed of the hardware: the time stamp counter
  advances between two reads, up to its largest value.
\<close>

definition tsc_advances :: "hw_env \<Rightarrow> bool" where
  "tsc_advances env \<longleftrightarrow> (\<forall>tr. hw_tsc env tr < hw_tsc env (Rdtsc # tr) \<or> hw_tsc env tr = - 1)"

subsection \<open>Delays\<close>

lemma wait_tsc_returns:
  assumes tsc: "tsc_advances env"
  shows "\<exists>k. wait_tsc env d h = Some (h\<lparr>hv_hw := replicate k Rdtsc @ hv_hw h\<rparr>)"
proof (induction "unat (- 1 - hw_tsc env (hv_hw h))" arbitrary: h rule: less_induct)
  case less
  let ?now = "hw_tsc env (hv_hw h)" and ?h1 = "h\<lparr>hv_hw := Rdtsc # hv_hw h\<rparr>"
  have w: "wait_tsc env d h = (if ?now < d then wait_tsc env d ?h1 else Some ?h1)"
    by (subst wait_tsc.simps) (simp add: rdtsc_def hw_op_def)
  show ?case
  proof (cases "?now < d")
    case True
    have "?now \<noteq> - 1"
      using True by (metis word_n1_ge leD)
    then have "?now < hw_tsc env (Rdtsc # hv_hw h)"
      using tsc by (auto simp: tsc_advances_def)
    moreover have "unat (- 1 - x :: u64) = 2 ^ 64 - 1 - unat x" for x
      by (simp add: unat_sub unsigned_minus_1_eq_mask mask_eq_exp_minus_1)
    ultimately have "unat (- 1 - hw_tsc env (Rdtsc # hv_hw h)) < unat (- 1 - ?now)"
      using unsigned_less [of "hw_tsc env (Rdtsc # hv_hw h)", where 'a = nat] by (simp only: word_less_nat_alt) simp
    then have "\<exists>k. wait_tsc env d ?h1 = Some (?h1\<lparr>hv_hw := replicate k Rdtsc @ hv_hw ?h1\<rparr>)"
      by (intro less) simp
    then obtain k where "wait_tsc env d h = Some (h\<lparr>hv_hw := replicate (Suc k) Rdtsc @ hv_hw h\<rparr>)"
      using True w by (auto simp: replicate_app_Cons_same)
    then show ?thesis ..
  next
    case False
    then have "wait_tsc env d h = Some (h\<lparr>hv_hw := replicate 1 Rdtsc @ hv_hw h\<rparr>)"
      using w by simp
    then show ?thesis ..
  qed
qed

lemma udelay_returns:
  assumes "tsc_advances env"
  shows "\<exists>k. udelay env khz us h = Some (h\<lparr>hv_hw := replicate k Rdtsc @ hv_hw h\<rparr>)"
proof -
  let ?h1 = "h\<lparr>hv_hw := Rdtsc # hv_hw h\<rparr>"
  obtain k where "wait_tsc env (hw_tsc env (hv_hw h) + us_to_ticks khz us) ?h1 =
      Some (?h1\<lparr>hv_hw := replicate k Rdtsc @ hv_hw ?h1\<rparr>)"
    using wait_tsc_returns [OF assms] by blast
  then have "udelay env khz us h = Some (h\<lparr>hv_hw := replicate (Suc k) Rdtsc @ hv_hw h\<rparr>)"
    by (simp add: udelay_def rdtsc_def hw_op_def replicate_app_Cons_same)
  then show ?thesis ..
qed

subsection \<open>What the start of a CPU changes\<close>

text \<open>After the events \<open>evs\<close>, with nothing changed but the memory and the boot states.\<close>

definition later :: "hw_event list \<Rightarrow> boot \<Rightarrow> boot \<Rightarrow> bool" where
  "later evs b b' \<longleftrightarrow> (\<exists>m st. b' = (with_hv (\<lambda>h. h\<lparr>hv_hw := evs @ hv_hw h\<rparr>) b)\<lparr>b_mem := m, boot_state := st\<rparr>)"

lemma later_refl: "later [] b (b\<lparr>b_mem := m, boot_state := st\<rparr>)"
  by (auto simp: later_def with_hv_def on_hv_def intro: exI [of _ m] exI [of _ st])

lemma later_trans: "later evs b b1 \<Longrightarrow> later evs' b1 b2 \<Longrightarrow> later (evs' @ evs) b b2"
  by (auto simp: later_def with_hv_def on_hv_def) (intro exI, rule refl)

lemma laterD:
  assumes "later evs b b'"
  shows "hv_hw (b_hv b') = evs @ hv_hw (b_hv b)" "hv_lapic_id (b_hv b') = hv_lapic_id (b_hv b)"
    "startup_paddr b' = startup_paddr b" "tsc_khz b' = tsc_khz b" "b_info b' = b_info b"
  using assms by (auto simp: later_def with_hv_def on_hv_def)

lemma try_boot_udelay:
  assumes "tsc_advances env"
  shows "\<exists>k b'. try_boot (udelay env khz us) b = Some b' \<and> later (replicate k Rdtsc) b b' \<and> boot_state b' = boot_state b"
proof -
  obtain k where "udelay env khz us (b_hv b) = Some ((b_hv b)\<lparr>hv_hw := replicate k Rdtsc @ hv_hw (b_hv b)\<rparr>)"
    using udelay_returns [OF assms] by blast
  then have "try_boot (udelay env khz us) b = Some (with_hv (\<lambda>h. h\<lparr>hv_hw := replicate k Rdtsc @ hv_hw h\<rparr>) b)"
    by (simp add: try_boot_def try_hv_def with_hv_def on_hv_def)
  moreover have "later (replicate k Rdtsc) b (with_hv (\<lambda>h. h\<lparr>hv_hw := replicate k Rdtsc @ hv_hw h\<rparr>) b)"
    unfolding later_def
    by (rule exI [of _ "b_mem b"], rule exI [of _ "boot_state b"]) (simp add: with_hv_def on_hv_def)
  ultimately show ?thesis
    by (auto simp: with_hv_def)
qed

abbreviation runs :: "boot \<Rightarrow> u16 \<Rightarrow> bool" where
  "runs b p \<equiv> boot_state b p = PCPU_STATE_RUNNING"

text \<open>During the boot no CPU goes offline again.\<close>

definition stays_up :: "platform \<Rightarrow> bool" where
  "stays_up pl \<longleftrightarrow> (\<forall>tr p. pl_boot_state pl tr p \<noteq> Some PCPU_STATE_DEAD)"

lemma poll_later: "later [] b (poll pl b)"
  using later_refl [where b = b and m = "b_mem b"] by (simp add: poll_def)

lemma poll_runs: "stays_up pl \<Longrightarrow> runs b p \<Longrightarrow> runs (poll pl b) p"
  by (auto simp: poll_def stays_up_def split: option.split) (metis pcpu_boot_state.exhaust)

text \<open>The CPU has not reported that it runs by now.\<close>

definition silent :: "platform \<Rightarrow> boot \<Rightarrow> u16 \<Rightarrow> bool" where
  "silent pl b p \<longleftrightarrow> pl_boot_state pl (hv_hw (b_hv b)) p \<noteq> Some PCPU_STATE_RUNNING"

lemma poll_silent: "\<not> runs (poll pl b) p \<Longrightarrow> silent pl (poll pl b) p"
  by (auto simp: poll_def silent_def split: option.splits)

lemma wait_running_returns:
  assumes tsc: "tsc_advances (pl_env pl)" and up: "stays_up pl" and n: "n \<le> 10000"
  shows "\<exists>k b'. wait_running pl p (of_nat (10 * n)) b = Some b' \<and> later (replicate k Rdtsc) b b' \<and>
    (\<forall>q. runs b q \<longrightarrow> runs b' q) \<and> (\<not> runs b' p \<longrightarrow> silent pl b' p)"
  using n
proof (induction n arbitrary: b)
  case 0
  have "wait_running pl p 0 b = Some (poll pl b)"
    by (subst wait_running.simps) simp
  then show ?case
    using poll_later [of b pl] poll_runs [OF up] poll_silent by (auto intro!: exI [of _ "0::nat"])
next
  case (Suc n)
  let ?b1 = "poll pl b"
  show ?case
  proof (cases "runs ?b1 p")
    case True
    then have "wait_running pl p (of_nat (10 * Suc n)) b = Some ?b1"
      by (subst wait_running.simps) simp
    then show ?thesis
      using poll_later [of b pl] poll_runs [OF up] poll_silent by (auto intro!: exI [of _ "0::nat"])
  next
    case False
    have "unat (of_nat (10 * Suc n) :: u32) = 10 * Suc n"
      by (rule unat_of_nat_small) (use Suc.prems in simp)
    then have t: "(of_nat (10 * Suc n) :: u32) \<noteq> 0"
      by (metis unat_0 mult_eq_0_iff nat.simps(3) zero_neq_numeral)
    obtain k b2 where b2: "try_boot (udelay (pl_env pl) (tsc_khz ?b1) 10) ?b1 = Some b2"
        "later (replicate k Rdtsc) ?b1 b2" "boot_state b2 = boot_state ?b1"
      using try_boot_udelay [OF tsc] by blast
    obtain j b3 where b3: "wait_running pl p (of_nat (10 * n)) b2 = Some b3" "later (replicate j Rdtsc) b2 b3"
        "\<And>q. runs b2 q \<Longrightarrow> runs b3 q" "\<not> runs b3 p \<Longrightarrow> silent pl b3 p"
      using Suc.IH [of b2] Suc.prems by auto
    have "wait_running pl p (of_nat (10 * Suc n)) b = Some b3"
      using False t b2(1) b3(1) by (subst wait_running.simps) (simp add: Let_def)
    moreover have "later (replicate (j + k) Rdtsc) b b3"
      using later_trans [OF later_trans [OF poll_later [of b pl] b2(2)] b3(2)] by (simp add: replicate_add)
    ultimately show ?thesis
      using b2(3) b3(3,4) poll_runs [OF up] by (metis (no_types, lifting))
  qed
qed

text \<open>The two interprocessor interrupts that start the CPU \<open>p\<close>, at \<open>a\<close>.\<close>

definition start_ipis :: "(u16 \<Rightarrow> u32) \<Rightarrow> u64 \<Rightarrow> u16 \<Rightarrow> hw_event list" where
  "start_ipis ids a p =
     [Msr_write MSR_IA32_EXT_APIC_ICR (init_icr (ids p)), Msr_write MSR_IA32_EXT_APIC_ICR (startup_icr (ids p) a)]"

text \<open>The interrupts among the events of a trace, the oldest first.\<close>

definition sent :: "hw_event list \<Rightarrow> hw_event list" where
  "sent evs = rev (filter (\<lambda>e. e \<noteq> Rdtsc) evs)"

lemma sent_simps [simp]:
  "sent [] = []" "sent (replicate k Rdtsc) = []" "sent (evs @ evs') = sent evs' @ sent evs"
  "sent (Rdtsc # evs) = sent evs" "sent (Msr_write r x # evs) = sent evs @ [Msr_write r x]"
  by (simp_all add: sent_def)

lemma send_startup_later:
  assumes tsc: "tsc_advances (pl_env pl)"
  shows "\<exists>evs b'. try_boot (send_startup_ipi (pl_env pl) (b_info b) (tsc_khz b) p (startup_paddr b)) b = Some b' \<and>
    later evs b b' \<and> boot_state b' = boot_state b \<and> sent evs = start_ipis (hv_lapic_id (b_hv b)) (startup_paddr b) p"
proof -
  let ?h = "b_hv b" and ?e = "\<lambda>v. Msr_write MSR_IA32_EXT_APIC_ICR v"
  let ?i = "?e (init_icr (hv_lapic_id ?h p))" and ?s = "?e (startup_icr (hv_lapic_id ?h p) (startup_paddr b))"
  obtain k where k: "udelay (pl_env pl) (tsc_khz b) (if displayfamily (b_info b) \<noteq> 6 then 10000 else 10) (hw_op ?i ?h) =
      Some ((hw_op ?i ?h)\<lparr>hv_hw := replicate k Rdtsc @ hv_hw (hw_op ?i ?h)\<rparr>)"
    using udelay_returns [OF tsc] by blast
  let ?evs = "?s # replicate k Rdtsc @ [?i]"
  have "send_startup_ipi (pl_env pl) (b_info b) (tsc_khz b) p (startup_paddr b) ?h = Some (?h\<lparr>hv_hw := ?evs @ hv_hw ?h\<rparr>)"
    using k by (simp add: send_startup_ipi_def hv_msr_write_def hw_op_def Let_def)
  then have "try_boot (send_startup_ipi (pl_env pl) (b_info b) (tsc_khz b) p (startup_paddr b)) b =
      Some (with_hv (\<lambda>h. h\<lparr>hv_hw := ?evs @ hv_hw h\<rparr>) b)"
    by (simp add: try_boot_def try_hv_def with_hv_def on_hv_def)
  moreover have "later ?evs b (with_hv (\<lambda>h. h\<lparr>hv_hw := ?evs @ hv_hw h\<rparr>) b)"
    unfolding later_def
    by (rule exI [of _ "b_mem b"], rule exI [of _ "boot_state b"]) (simp add: with_hv_def on_hv_def)
  ultimately show ?thesis
    by (auto simp: with_hv_def start_ipis_def intro!: exI [of _ ?evs])
qed

lemma start_pcpu_returns:
  assumes tsc: "tsc_advances (pl_env pl)" and up: "stays_up pl"
  shows "\<exists>ok b' evs. start_pcpu pl p b = Some (ok, b') \<and> later evs b b' \<and>
    sent evs = start_ipis (hv_lapic_id (b_hv b)) (startup_paddr b) p \<and>
    (\<forall>q. runs b q \<longrightarrow> runs b' q) \<and> (runs b' p \<longleftrightarrow> ok) \<and> (\<not> ok \<longrightarrow> silent pl b' p)"
proof -
  define b3 where "b3 = (let b2 = write_trampoline_stack_sym pl p (b\<lparr>b_mem := stac (b_mem b)\<rparr>) in b2\<lparr>b_mem := clac (b_mem b2)\<rparr>)"
  have b3: "later [] b b3" "boot_state b3 = boot_state b"
    using later_refl [where b = b and st = "boot_state b"]
    by (simp_all add: b3_def write_trampoline_stack_sym_def with_mem_def Let_def)
  obtain evs b4 where b4: "try_boot (send_startup_ipi (pl_env pl) (b_info b3) (tsc_khz b3) p (startup_paddr b3)) b3 = Some b4"
      "later evs b3 b4" "boot_state b4 = boot_state b3" "sent evs = start_ipis (hv_lapic_id (b_hv b3)) (startup_paddr b3) p"
    using send_startup_later [OF tsc] by blast
  have "CPU_UP_TIMEOUT * 1000 = of_nat (10 * 10000)"
    by (simp add: CPU_UP_TIMEOUT_def)
  with wait_running_returns [OF tsc up order_refl] obtain k b5 where
      b5: "wait_running pl p (CPU_UP_TIMEOUT * 1000) b4 = Some b5" "later (replicate k Rdtsc) b4 b5"
      "\<And>q. runs b4 q \<Longrightarrow> runs b5 q" "\<not> runs b5 p \<Longrightarrow> silent pl b5 p"
    by metis
  let ?b6 = "pcpu_set_current_state p PCPU_STATE_DEAD b5"
  have l: "later (replicate k Rdtsc @ evs) b b5"
    using later_trans [OF later_trans [OF b3(1) b4(2)] b5(2)] by simp
  have "later [] b5 ?b6"
    using later_refl [where b = b5 and m = "b_mem b5"] by (simp add: pcpu_set_current_state_def)
  from later_trans [OF l this] have l6: "later (replicate k Rdtsc @ evs) b ?b6"
    by simp
  have st: "start_pcpu pl p b = Some (if runs b5 p then (True, b5) else (False, ?b6))"
    using b4(1) b5(1) by (simp add: start_pcpu_def b3_def Let_def)
  have snt: "sent (replicate k Rdtsc @ evs) = start_ipis (hv_lapic_id (b_hv b)) (startup_paddr b) p"
    using b4(4) laterD [OF b3(1)] by simp
  have kept: "runs b5 q" if "runs b q" for q
    using that b3(2) b4(3) b5(3) by simp
  have r6: "runs ?b6 q \<longleftrightarrow> q \<noteq> p \<and> runs b5 q" for q
    by (simp add: pcpu_set_current_state_def)
  show ?thesis
  proof (cases "runs b5 p")
    case True
    then show ?thesis
      using l kept st snt
      by (intro exI [of _ True] exI [of _ b5] exI [of _ "replicate k Rdtsc @ evs"] conjI allI impI) simp_all
  next
    case False
    have "runs ?b6 q" if "runs b q" for q
      using kept [OF that] False r6 by blast
    moreover have "silent pl ?b6 p"
      using b5(4) [OF False] by (simp add: silent_def pcpu_set_current_state_def)
    ultimately show ?thesis
      using l6 False r6 st snt
      by (intro exI [of _ False] exI [of _ ?b6] exI [of _ "replicate k Rdtsc @ evs"] conjI allI impI) simp_all
  qed
qed

subsection \<open>The loop over the CPUs\<close>

definition bits_of :: "u64 \<Rightarrow> nat list" where
  "bits_of w = filter (bit w) [0..<64]"

lemma bits_of_0: "bits_of 0 = []"
  by (simp add: bits_of_def)

lemma bits_of_next:
  assumes "w \<noteq> 0"
  shows "bits_of w = unat (ffs64 w) # bits_of (bitmap_clear_nolock (ffs64 w) w)"
proof -
  let ?n = "unat (ffs64 w)"
  note f = ffs64_least [OF assms]
  have s: "[0..<64] = [0..<?n] @ ?n # [Suc ?n..<64]"
    using f upt_add_eq_append [of 0 ?n "64 - ?n"] by (simp add: upt_conv_Cons)
  have c: "bit (bitmap_clear_nolock (ffs64 w) w) i \<longleftrightarrow> bit w i \<and> i \<noteq> ?n" for i
    using f by (auto simp: bit_bitmap_clear bit_nr_mod dest: bit_imp_le_length)
  have lo: "filter (bit w) [0..<?n] = []" "filter (bit (bitmap_clear_nolock (ffs64 w) w)) [0..<?n] = []"
    using f by (auto simp: filter_empty_conv c [simplified])
  have "filter (bit w) [Suc ?n..<64] = filter (bit (bitmap_clear_nolock (ffs64 w) w)) [Suc ?n..<64]"
    by (rule filter_cong) (auto simp: c [simplified])
  then show ?thesis
    unfolding bits_of_def s using f lo by (simp add: c [simplified])
qed

text \<open>The CPUs of a mask but the one that executes, in the order of their numbers.\<close>

definition others :: "u16 \<Rightarrow> u64 \<Rightarrow> u16 list" where
  "others cpu w = filter (\<lambda>p. p \<noteq> cpu) (map of_nat (bits_of w))"

lemma others_next:
  assumes "w \<noteq> 0"
  shows "others cpu w = (if ffs64 w = cpu then [] else [ffs64 w]) @ others cpu (bitmap_clear_nolock (ffs64 w) w)"
  by (simp add: others_def bits_of_next [OF assms])

text \<open>
  What the loop over the CPUs \<open>ps\<close> leads to: all of them got their two interrupts and run, or those up to
  one that did not come up got theirs.
\<close>

definition start_outcome :: "platform \<Rightarrow> boot \<Rightarrow> u16 list \<Rightarrow> bool \<Rightarrow> boot \<Rightarrow> bool" where
  "start_outcome pl b ps ok b' \<longleftrightarrow>
     (\<exists>evs. later evs b b' \<and> (\<forall>q. runs b q \<longrightarrow> runs b' q) \<and>
       (let ipis = \<lambda>qs. concat (map (start_ipis (hv_lapic_id (b_hv b)) (startup_paddr b)) qs)
        in if ok then sent evs = ipis ps \<and> (\<forall>p\<in>set ps. runs b' p)
           else \<exists>k<length ps. sent evs = ipis (take (Suc k) ps) \<and> (\<forall>p\<in>set (take k ps). runs b' p) \<and> \<not> runs b' (ps ! k) \<and> silent pl b' (ps ! k)))"

lemma start_outcome_Nil: "start_outcome pl b [] True b"
  using later_refl [where b = b and m = "b_mem b" and st = "boot_state b"]
  by (auto simp: start_outcome_def intro!: exI [of _ "[]"])

lemma start_outcome_fail:
  assumes "later evs b b'" "sent evs = start_ipis (hv_lapic_id (b_hv b)) (startup_paddr b) p"
    "\<And>q. runs b q \<Longrightarrow> runs b' q" "\<not> runs b' p" "silent pl b' p"
  shows "start_outcome pl b (p # ps) False b'"
  using assms by (auto simp: start_outcome_def Let_def intro!: exI [of _ evs] exI [of _ "0::nat"])

lemma start_outcome_Cons:
  assumes l: "later evs b b1" and s: "sent evs = start_ipis (hv_lapic_id (b_hv b)) (startup_paddr b) p"
    and kept: "\<And>q. runs b q \<Longrightarrow> runs b1 q" and p: "runs b1 p" and rest: "start_outcome pl b1 ps ok b2"
  shows "start_outcome pl b (p # ps) ok b2"
proof -
  obtain evs2 where e: "later evs2 b1 b2" "\<And>q. runs b1 q \<Longrightarrow> runs b2 q"
      "let ipis = \<lambda>qs. concat (map (start_ipis (hv_lapic_id (b_hv b)) (startup_paddr b)) qs)
       in if ok then sent evs2 = ipis ps \<and> (\<forall>p\<in>set ps. runs b2 p)
          else \<exists>k<length ps. sent evs2 = ipis (take (Suc k) ps) \<and> (\<forall>p\<in>set (take k ps). runs b2 p) \<and> \<not> runs b2 (ps ! k) \<and> silent pl b2 (ps ! k)"
    using rest laterD(2,3) [OF l] unfolding start_outcome_def by auto
  have l2: "later (evs2 @ evs) b b2"
    by (rule later_trans [OF l e(1)])
  have p2: "runs b2 p"
    by (rule e(2) [OF p])
  have kept2: "\<forall>q. runs b q \<longrightarrow> runs b2 q"
    using kept e(2) by blast
  show ?thesis
  proof (cases ok)
    case True
    then show ?thesis
      unfolding start_outcome_def Let_def using l2 kept2 p2 e(3) s
      by (intro exI [of _ "evs2 @ evs"]) (simp add: Let_def)
  next
    case False
    then obtain k where "k < length ps" "\<forall>p\<in>set (take k ps). runs b2 p" "\<not> runs b2 (ps ! k)" "silent pl b2 (ps ! k)"
        "sent evs2 = concat (map (start_ipis (hv_lapic_id (b_hv b)) (startup_paddr b)) (take (Suc k) ps))"
      using e(3) by (auto simp: Let_def)
    then have "\<exists>k<length (p # ps). sent (evs2 @ evs) =
        concat (map (start_ipis (hv_lapic_id (b_hv b)) (startup_paddr b)) (take (Suc k) (p # ps))) \<and>
        (\<forall>q\<in>set (take k (p # ps)). runs b2 q) \<and> \<not> runs b2 ((p # ps) ! k) \<and> silent pl b2 ((p # ps) ! k)"
      using s p2 by (intro exI [of _ "Suc k"]) simp
    then show ?thesis
      unfolding start_outcome_def Let_def using l2 kept2 False by (intro exI [of _ "evs2 @ evs"]) simp
  qed
qed

lemma start_loop_result:
  assumes tsc: "tsc_advances (pl_env pl)" and up: "stays_up pl"
  shows "\<exists>ok b'. start_loop pl cpu w b = Some (ok, b') \<and> start_outcome pl b (others cpu w) ok b'"
proof (induction "card {i. bit w i}" arbitrary: w b rule: less_induct)
  case less
  let ?i = "ffs64 w" and ?r = "bitmap_clear_nolock (ffs64 w) w"
  show ?case
  proof (cases "w = 0")
    case True
    then have "start_loop pl cpu w b = Some (True, b)"
      by (subst start_loop.simps) (simp add: ffs64_invalid_iff)
    moreover have "others cpu w = []"
      using True by (simp add: others_def bits_of_0)
    ultimately show ?thesis
      using start_outcome_Nil by (metis (full_types))
  next
    case False
    then have i: "?i \<noteq> INVALID_BIT_INDEX"
      by (simp add: ffs64_invalid_iff)
    note IH = less [OF clear_ffs64_decreases [OF i]] and os = others_next [OF False, of cpu]
    show ?thesis
    proof (cases "cpu = ?i")
      case True
      then have "start_loop pl cpu w b = start_loop pl cpu ?r b"
        using i by (subst start_loop.simps) (simp add: Let_def)
      then show ?thesis
        using IH [of b] os True by (simp only: refl if_True append_Nil)
    next
      case False
      obtain ok b1 evs where b1: "start_pcpu pl ?i b = Some (ok, b1)" "later evs b b1"
          "sent evs = start_ipis (hv_lapic_id (b_hv b)) (startup_paddr b) ?i" "\<And>q. runs b q \<Longrightarrow> runs b1 q" "runs b1 ?i \<longleftrightarrow> ok" "\<not> ok \<Longrightarrow> silent pl b1 ?i"
        using start_pcpu_returns [OF tsc up] by blast
      have s: "start_loop pl cpu w b = (if ok then start_loop pl cpu ?r b1 else Some (False, b1))"
        using i False b1(1) by (subst start_loop.simps) (simp add: Let_def)
      have os: "others cpu w = ?i # others cpu ?r"
        using os False by simp
      show ?thesis
        using s start_outcome_Cons [OF b1(2,3,4)] start_outcome_fail [OF b1(2,3,4)] b1(5,6) IH [of b1] unfolding os
        by (cases ok) (simp_all only: if_True if_False simp_thms option.inject prod.inject, blast+)
    qed
  qed
qed

subsection \<open>Properties\<close>

lemma prepare_trampoline_keeps:
  "prepare_trampoline pl b = Some (paddr, b1) \<Longrightarrow> b_machine b1 = b_machine b \<and> boot_state b1 = boot_state b"
  by (auto simp: prepare_trampoline_def with_mem_def Let_def split: Option.bind_splits)

text \<open>
  C9. Starting the secondary CPUs ends, in success or in failure: when the time stamp counter advances, no CPU
  goes offline during the boot and the trampoline finds its place, \<^verbatim>\<open>start_pcpus\<close> returns and
  releases the CPUs that wait for it. It sends nothing but an INIT and a startup interrupt with the address of the
  trampoline to each CPU of the mask except itself, in the order of their numbers. It returns true when all of
  these CPUs run; otherwise it stops at the first one that does not, which had not reported that it runs by the end.
\<close>

theorem start_pcpus_outcome:
  assumes "tsc_advances (pl_env pl)" "stays_up pl" "prepare_trampoline pl b = Some (paddr, b1)"
  shows "\<exists>ok b' evs. start_pcpus pl cpu w b = Some (ok, b') \<and> pcpu_sync b' = 0 \<and>
    hv_hw (b_hv b') = evs @ hv_hw (b_hv b) \<and>
    (let ipis = \<lambda>qs. concat (map (start_ipis (hv_lapic_id (b_hv b)) paddr) qs); ps = others cpu w
     in if ok then sent evs = ipis ps \<and> (\<forall>p\<in>set ps. runs b' p)
        else \<exists>k<length ps. sent evs = ipis (take (Suc k) ps) \<and> (\<forall>p\<in>set (take k ps). runs b' p) \<and>
               \<not> runs b' (ps ! k) \<and> silent pl b' (ps ! k))"
proof -
  let ?b1 = "b1\<lparr>startup_paddr := paddr, pcpu_sync := 1\<rparr>"
  note same = prepare_trampoline_keeps [OF assms(3)]
  have ids: "hv_lapic_id (b_hv ?b1) = hv_lapic_id (b_hv b)" "startup_paddr ?b1 = paddr"
    using same by simp_all
  obtain ok b2 where b2: "start_loop pl cpu w ?b1 = Some (ok, b2)" "start_outcome pl ?b1 (others cpu w) ok b2"
    using start_loop_result [OF assms(1,2)] by blast
  obtain evs where e: "later evs ?b1 b2"
      "let ipis = \<lambda>qs. concat (map (start_ipis (hv_lapic_id (b_hv b)) paddr) qs); ps = others cpu w
       in if ok then sent evs = ipis ps \<and> (\<forall>p\<in>set ps. runs b2 p)
          else \<exists>k<length ps. sent evs = ipis (take (Suc k) ps) \<and> (\<forall>p\<in>set (take k ps). runs b2 p) \<and>
                 \<not> runs b2 (ps ! k) \<and> silent pl b2 (ps ! k)"
    using b2(2) unfolding start_outcome_def ids Let_def by blast
  have "start_pcpus pl cpu w b = Some (ok, b2\<lparr>pcpu_sync := 0\<rparr>)"
    using assms(3) b2(1) by (simp add: start_pcpus_def)
  moreover have "hv_hw (b_hv b2) = evs @ hv_hw (b_hv b)"
    using laterD(1) [OF e(1)] same by simp
  moreover have "silent pl (b2\<lparr>pcpu_sync := 0\<rparr>) = silent pl b2"
    by (simp add: silent_def fun_eq_iff)
  ultimately show ?thesis
    using e(2) by (intro exI [of _ ok] exI [of _ "b2\<lparr>pcpu_sync := 0\<rparr>"] exI [of _ evs]) (simp add: Let_def)
qed

text \<open>Two CPUs; the second one reports that it runs as soon as its startup interrupt has been sent.\<close>

definition ex_platform :: platform where
  "ex_platform =
     \<lparr>pl_env = ex_hw\<lparr>hw_tsc := (\<lambda>tr. of_nat (min (length tr) (2 ^ 64 - 1)))\<rparr>, pl_board = ex_board, pl_img = ex_image,
      pl_syms = \<lparr>ld_trampoline_load = 0x500000, ld_trampoline_size = 0x1000, secondary_cpu_stack = 0x100,
        trampoline_fixup_target = 0x200, trampoline_fixup_cs = 0x210, trampoline_fixup_ip = 0x220,
        cpu_boot_page_tables_ptr = 0x230, cpu_boot_page_tables_start = 0x240, trampoline_gdt_ptr = 0x250,
        trampoline_start64_fixup = 0x260, main_entry = 0x270\<rparr>,
      pl_boot_magic = MULTIBOOT_INFO_MAGIC, pl_mbi = 0x200000, pl_stack = (\<lambda>_. 0x600000), pl_mc_stack = (\<lambda>_. 0x700000),
      pl_df_stack = (\<lambda>_. 0x710000), pl_sf_stack = (\<lambda>_. 0x720000), pl_tss = (\<lambda>_. 0x730000), pl_vmxon_region = (\<lambda>_. 0x740000),
      pl_idt = 0x750000,
      pl_boot_state = (\<lambda>tr p. if Msr_write MSR_IA32_EXT_APIC_ICR (startup_icr 0 0x8F000) \<in> set tr
                               then Some PCPU_STATE_RUNNING else None),
      pl_sync = (\<lambda>_. 0)\<rparr>"

definition ex_boot :: boot where
  "ex_boot =
     \<lparr>b_machine = ex_machine\<lparr>m_hv := hv_ex\<lparr>hv_lapic_id := (\<lambda>_. 0)\<rparr>\<rparr>, b_mem = \<lparr>mem_bytes = (\<lambda>_. 0), mem_ac = False\<rparr>,
      b_e820 = (let e = \<lparr>baseaddr = 0, e820_length = 0x9F000, e820_type = E820_TYPE_RAM\<rparr>
                in \<lparr>hv_e820 = [e], hv_mem_range = obtain_mem_range_info [e]\<rparr>),
      b_info = hw_caps ex_hw, b_security = hw_security ex_hw, b_pml4 = 0,
      b_ctl = (\<lambda>_. \<lparr>ctl_efer = 0, ctl_cr0 = 0, ctl_cr3 = 0, ctl_cr4 = 0\<rparr>), b_vmxon = (\<lambda>_. None), b_lapic_ldr = (\<lambda>_. 0),
      b_gdt = (\<lambda>_. \<lparr>gdt_rsvd = 0, code_segment_descriptor = 0, data_segment_descriptor = 0,
        host_gdt_tss_descriptors = \<lparr>low32_value = 0, high32_value = 0, base_addr_63_32 = 0\<rparr>\<rparr>),
      b_tss = (\<lambda>_. \<lparr>ist1 = 0, ist2 = 0, ist3 = 0, ist4 = 0\<rparr>), b_idtr = (\<lambda>_. 0), phys_cpu_num = 2,
      boot_state = (\<lambda>_. PCPU_STATE_DEAD), pcpu_sync = 0, startup_paddr = 0, trampoline_start16_paddr = 0, tsc_khz = 1000\<rparr>"

lemma ex_tsc_advances: "tsc_advances (pl_env ex_platform)"
proof -
  have "of_nat (min n (2 ^ 64 - 1)) < (of_nat (min (Suc n) (2 ^ 64 - 1)) :: u64) \<or> of_nat (min n (2 ^ 64 - 1)) = (- 1 :: u64)" for n
  proof (cases "n < 2 ^ 64 - 1")
    case True
    then show ?thesis
      by (simp add: word_less_nat_alt unat_of_nat_small min_def del: of_nat_Suc)
  next
    case False
    then show ?thesis
      by (simp add: min_def)
  qed
  then show ?thesis
    by (simp add: tsc_advances_def ex_platform_def del: of_nat_Suc)
qed

lemma load_le_zero: "load_le n (\<lambda>_. 0) a = 0"
  by (induction n arbitrary: a) simp_all

lemma ex_trampoline: "\<exists>b1. prepare_trampoline ex_platform ex_boot = Some (0x8F000, b1)"
proof -
  define e where "e = \<lparr>baseaddr = 0, e820_length = 0x9F000, e820_type = E820_TYPE_RAM\<rparr>"
  have e: "low_length e = 0x9F000" "low_start e = 0" "low_end e = 0x9F000"
    by (simp_all add: e_def low_length_def low_start_def low_end_def round_page_up_def round_page_down_def
        PAGE_SIZE_def PAGE_MASK_def)
  have "low_size CONFIG_LOW_RAM_SIZE = 0x10000"
    by (simp add: low_size_def CONFIG_LOW_RAM_SIZE_def PAGE_SHIFT_def)
  then have "e820_alloc_low_memory CONFIG_LOW_RAM_SIZE (b_e820 ex_boot) = 0x8F000"
    using e by (simp add: e820_alloc_low_memory_def ex_boot_def e_def [symmetric] MEM_1M_def) (simp add: e_def)
  then have "get_ap_trampoline_buf ex_platform ex_boot = Some 0x8F000"
    by (simp add: get_ap_trampoline_buf_def ACRN_INVALID_HPA_def CONFIG_LOW_RAM_SIZE_def hpa2hva_def)
      (simp add: ex_platform_def ex_boot_def load_le_zero overlaps_def)
  then show ?thesis
    by (simp add: prepare_trampoline_def Let_def)
qed

theorem start_pcpus_outcome_witness:
  "\<exists>b'. start_pcpus ex_platform 0 3 ex_boot = Some (True, b') \<and> runs b' 1 \<and> pcpu_sync b' = 0"
proof -
  have up: "stays_up ex_platform"
    by (simp add: stays_up_def ex_platform_def)
  have ps: "others 0 3 = [1]"
    by (simp add: others_def bits_of_def upt_rec numeral_eq_Suc)
  obtain b1 where tr: "prepare_trampoline ex_platform ex_boot = Some (0x8F000, b1)"
    using ex_trampoline by blast
  have ids: "hv_lapic_id (b_hv ex_boot) = (\<lambda>_. 0)"
    by (simp add: ex_boot_def)
  obtain ok b' evs where r: "start_pcpus ex_platform 0 3 ex_boot = Some (ok, b')" "pcpu_sync b' = 0"
      "hv_hw (b_hv b') = evs @ hv_hw (b_hv ex_boot)"
      "if ok then runs b' 1 else sent evs = start_ipis (\<lambda>_. 0) 0x8F000 1 \<and> silent ex_platform b' 1"
    using start_pcpus_outcome [OF ex_tsc_advances up tr, of 0 3] unfolding ps ids by (auto simp: Let_def split: if_splits)
  have "ok"
  proof (rule ccontr)
    assume "\<not> ok"
    with r(4) have "Msr_write MSR_IA32_EXT_APIC_ICR (startup_icr 0 0x8F000) \<in> set (sent evs)" "silent ex_platform b' 1"
      by (simp_all add: start_ipis_def)
    then show False
      using r(3) by (auto simp: silent_def ex_platform_def sent_def)
  qed
  with r show ?thesis
    by auto
qed

end
