(* ===== verification/Acrn_Loader_Safe.thy ===== *)
theory Acrn_Loader_Safe
  imports Acrn_Loader
begin

text \<open>
  What a VM finds in its memory when it starts: the copies of the loader into the linear memory of the VM,
  and that they do not overlap.
\<close>

subsection \<open>Copies into linear memory\<close>

lemma linear_map_frame:
  assumes "hv_ept_ops h' = hv_ept_ops h" "hv_eptp h' = hv_eptp h" "hv_pg h' = hv_pg h"
  shows "linear_map pages f4k lim vm hp n R h' = linear_map pages f4k lim vm hp n R h"
  by (simp add: linear_map_def ept_wf_def ept_map_def assms)

lemma in_buf_nat:
  assumes "A < 2 ^ 64" "B < 2 ^ 64" "A + n \<le> 2 ^ 64"
  shows "in_buf (of_nat A) n (of_nat B) \<longleftrightarrow> A \<le> B \<and> B < A + n"
proof -
  have "unat (of_nat B - of_nat A :: u64) = (if A \<le> B then B - A else B + 2 ^ 64 - A)"
    using unat_sub_if_size [of "of_nat B :: u64" "of_nat A"] assms by (simp add: word_size unat_of_nat_small word_le_nat_alt)
  then show ?thesis
    using assms by auto
qed

text \<open>The buffer is outside the memory of the VM.\<close>

definition outside :: "nat \<Rightarrow> nat \<Rightarrow> u64 \<Rightarrow> nat \<Rightarrow> bool" where
  "outside hp n p s \<longleftrightarrow> (\<forall>x<n. \<not> in_buf p s (of_nat (hp + x)))"

lemma outside_kept:
  assumes "outside hp n p s" "g + l \<le> n" "j < s" "s \<le> 2 ^ 32"
  shows "\<not> in_buf (of_nat (hp + g)) l (p + of_nat j)"
proof
  assume "in_buf (of_nat (hp + g)) l (p + of_nat j)"
  then obtain i where i: "i < l" "p + of_nat j = of_nat (hp + g + i)"
    using in_buf_offset by blast
  have "unat (p + of_nat j - p) = j"
    using assms(3,4) by (simp add: unat_of_nat_small)
  then have "in_buf p s (of_nat (hp + (g + i)))"
    using i(2) assms(3) by (simp add: add.assoc)
  moreover have "g + i < n"
    using i(1) assms(2) by simp
  ultimately show False
    using assms(1) by (auto simp: outside_def simp del: of_nat_add)
qed

lemma copy_to_linear:
  assumes lm: "linear_map pages f4k lim vm hp n R h" and n: "n \<le> lim" "hp + n \<le> 2 ^ 64"
    and g: "g + unat sz \<le> n" and src: "outside hp n p (unat sz)"
  shows "mem_bytes (copy_to_gpa vm p (of_nat g) sz h m) a =
    (if in_buf (of_nat (hp + g)) (unat sz) a then mem_bytes m (p + (a - of_nat (hp + g))) else mem_bytes m a)"
proof -
  define A where "A = (\<lambda>x. hp + x)"
  let ?d = "of_nat (hp + g) :: u64"
  have wf: "ept_wf pages f4k lim vm h" and e: "\<And>x. x < n \<Longrightarrow> ept_map f4k vm h x = Some (hp + x, R x AND ept_rmask f4k)"
    using lm n by (auto simp: linear_map_def)
  have "\<exists>m'. copy_gpa vm p (of_nat g) sz False h m = (0, m') \<and>
    (\<forall>j<unat sz. mem_bytes m' (of_nat (A (g + j))) = mem_bytes m (p + of_nat j)) \<and>
    (\<forall>a. (\<forall>j<unat sz. a \<noteq> of_nat (A (g + j))) \<longrightarrow> mem_bytes m' a = mem_bytes m a)"
  proof (rule copy_to_bytes [OF wf])
    show "g + unat sz \<le> lim"
      using g n by simp
    show "\<exists>r. ept_map f4k vm h (g + j) = Some (A (g + j), r)" if "j < unat sz" for j
      using e [of "g + j"] that g by (simp add: A_def)
    show "\<not> in_buf p (unat sz) (of_nat (A (g + j)))" if "j < unat sz" for j
      using src that g by (simp add: outside_def A_def del: of_nat_add)
    show "of_nat (A (g + i)) \<noteq> (of_nat (A (g + j)) :: u64)" if "i < unat sz" "j < unat sz" "i \<noteq> j" for i j
      using that g n by (subst of_nat_u64_eq) (auto simp: A_def)
  qed
  then obtain m' where m': "copy_to_gpa vm p (of_nat g) sz h m = m'"
      "\<And>j. j < unat sz \<Longrightarrow> mem_bytes m' (of_nat (A (g + j))) = mem_bytes m (p + of_nat j)"
      "\<And>a. \<forall>j<unat sz. a \<noteq> of_nat (A (g + j)) \<Longrightarrow> mem_bytes m' a = mem_bytes m a"
    by (auto simp: copy_to_gpa_def)
  show ?thesis
  proof (cases "in_buf ?d (unat sz) a")
    case True
    have "a = of_nat (A (g + unat (a - ?d)))"
      by (simp add: A_def)
    with m'(2) [OF True] have "mem_bytes m' a = mem_bytes m (p + (a - ?d))"
      by simp
    then show ?thesis
      using True m'(1) by simp
  next
    case False
    have "a \<noteq> of_nat (A (g + j))" if j: "j < unat sz" for j
    proof
      assume "a = of_nat (A (g + j))"
      then have "a - ?d = of_nat j"
        by (simp add: A_def)
      with False j show False
        using unat_u32_bound [of sz] by (simp add: unat_of_nat_small)
    qed
    then show ?thesis
      using False m'(1,3) by simp
  qed
qed

subsection \<open>Strings\<close>

lemma string_at_length: "length (string_at m p n) \<le> n"
  by (induction n arbitrary: p) auto

lemma string_at_end: "length (string_at m p n) < n \<Longrightarrow> m (p + of_nat (length (string_at m p n))) = 0"
proof (induction n arbitrary: p)
  case (Suc n)
  then show ?case
    using Suc.IH [of "p + 1"] by (auto split: if_splits simp: add.assoc add.commute [of 1])
qed simp

lemma string_at_cong: "(\<And>j. j < n \<Longrightarrow> m' (p + of_nat j) = m (p + of_nat j)) \<Longrightarrow> string_at m' p n = string_at m p n"
proof (induction n arbitrary: p)
  case (Suc n)
  have "string_at m' (p + 1) n = string_at m (p + 1) n"
    using Suc.prems [of "Suc j" for j] by (intro Suc.IH) (simp add: add.assoc)
  then show ?case
    using Suc.prems [of 0] by simp
qed simp

text \<open>The length of the boot arguments.\<close>

definition args_len :: "bytes \<Rightarrow> u64 \<Rightarrow> nat" where
  "args_len m p = length (string_at m p (unat MAX_BOOTARGS_SIZE))"

lemma args_len_le: "args_len m p \<le> 2048"
  using string_at_length [of m p 2048] by (simp add: args_len_def MAX_BOOTARGS_SIZE_def)

lemma strnlen_args: "strnlen_s m p (ucast MAX_BOOTARGS_SIZE) = of_nat (args_len m p)"
  by (simp add: strnlen_s_def strnlen_loop_string args_len_def MAX_BOOTARGS_SIZE_def)

lemma ucast_args_len: "ucast (of_nat (args_len m p) :: u64) = (of_nat (args_len m p) :: u32)"
  "unat (of_nat (args_len m p) :: u32) = args_len m p"
  "unat (ucast (of_nat (args_len m p) + 1 :: u64) :: u32) = Suc (args_len m p)"
proof -
  note le = args_len_le [of m p]
  show "ucast (of_nat (args_len m p) :: u64) = (of_nat (args_len m p) :: u32)"
    using le by (simp add: unsigned_of_nat take_bit_nat_eq_self)
  show "unat (of_nat (args_len m p) :: u32) = args_len m p"
    using le by (intro unat_of_nat_small) simp
  have "(of_nat (args_len m p) + 1 :: u64) = of_nat (Suc (args_len m p))"
    by simp
  then have "(ucast (of_nat (args_len m p) + 1 :: u64) :: u32) = of_nat (Suc (args_len m p))"
    using le by (simp only: unsigned_of_nat) (simp add: take_bit_nat_eq_self)
  then show "unat (ucast (of_nat (args_len m p) + 1 :: u64) :: u32) = Suc (args_len m p)"
    by (simp only:) (rule unat_of_nat_small, use le in simp)
qed

subsection \<open>The image of a VM with a raw kernel\<close>

lemma bootargs_info:
  fixes m :: bytes and sw0 :: vm_sw_info and cfg :: acrn_vm_config
  defines "sw \<equiv> init_vm_bootargs_info m cfg sw0" and "l \<equiv> args_len m (os_bootargs (os_config cfg))"
  shows "kernel_info sw = kernel_info sw0" "kernel_type sw = kernel_type sw0"
    "src_addr (bootargs_info sw) = os_bootargs (os_config cfg)"
    "sw_size (bootargs_info sw) = of_nat l"
    "load_addr (bootargs_info sw) = (if l = 0 then 0 else kernel_load_addr (kernel_info sw0) - 8192)"
proof -
  have "l < 2 ^ 32"
    using args_len_le [of m "os_bootargs (os_config cfg)"] by (simp add: l_def)
  then have "(of_nat l :: u32) > 0 \<longleftrightarrow> l \<noteq> 0"
    by (simp add: word_less_nat_alt unat_of_nat_small)
  then show "kernel_info sw = kernel_info sw0" "kernel_type sw = kernel_type sw0"
    "src_addr (bootargs_info sw) = os_bootargs (os_config cfg)"
    "sw_size (bootargs_info sw) = of_nat l"
    "load_addr (bootargs_info sw) = (if l = 0 then 0 else kernel_load_addr (kernel_info sw0) - 8192)"
    by (simp_all add: sw_def l_def init_vm_bootargs_info_def Let_def strnlen_args ucast_args_len(1) MEM_1K_def)
qed

text \<open>The GDT of the guest comes after the kernel and the boot arguments, at the next multiple of 8.\<close>

lemma gdt_base:
  assumes k: "8192 \<le> unat (kernel_load_addr (kernel_info sw0))"
      "unat (kernel_load_addr (kernel_info sw0)) + unat (kernel_size (kernel_info sw0)) < 2 ^ 48"
  shows "unat (get_guest_gdt_base_gpa (init_vm_bootargs_info m cfg sw0)) =
    (unat (kernel_load_addr (kernel_info sw0)) + unat (kernel_size (kernel_info sw0)) + 7) div 8 * 8"
proof -
  let ?sw = "init_vm_bootargs_info m cfg sw0" and ?k = "kernel_info sw0"
  let ?l = "args_len m (os_bootargs (os_config cfg))"
  note sw = bootargs_info [where m = m and cfg = cfg and ?sw0.0 = sw0]
  define E where "E = kernel_load_addr ?k + ucast (kernel_size ?k)"
  have E: "unat E = unat (kernel_load_addr ?k) + unat (kernel_size ?k)"
    unfolding E_def using k(2) by (subst unat_add_small) (simp_all add: unat_ucast_len)
  have "load_addr (bootargs_info ?sw) + ucast (sw_size (bootargs_info ?sw)) \<le> E"
  proof (cases "?l = 0")
    case True
    then show ?thesis
      by (simp add: sw)
  next
    case False
    have "unat (kernel_load_addr ?k - 8192) = unat (kernel_load_addr ?k) - 8192"
      using k(1) by (subst unat_diff_small) (simp_all add: word_le_nat_alt)
    moreover have "unat (ucast (of_nat ?l :: u32) :: u64) = ?l"
      by (simp add: unat_ucast_len ucast_args_len(2))
    ultimately have "unat (kernel_load_addr ?k - 8192 + ucast (of_nat ?l :: u32)) = unat (kernel_load_addr ?k) - 8192 + ?l"
      using k args_len_le [of m "os_bootargs (os_config cfg)"] by (subst unat_add_small) simp_all
    then show ?thesis
      using False k(1) E args_len_le [of m "os_bootargs (os_config cfg)"] by (simp add: sw word_le_nat_alt)
  qed
  then have "get_guest_gdt_base_gpa ?sw = (E + 7) AND NOT (mask 3)"
    by (simp add: get_guest_gdt_base_gpa_def Let_def sw(1) E_def [symmetric] max_def mask_eq_exp_minus_1)
  moreover have "unat (E + 7) = unat E + 7"
    using E k(2) by (subst unat_add_small) simp_all
  ultimately show ?thesis
    by (simp only: unat_and_not_mask) (simp add: E)
qed

lemma outside_mono: "outside hp n p s \<Longrightarrow> s' \<le> s \<Longrightarrow> outside hp n p s'"
  by (auto simp: outside_def)

lemma linear_map_set_vcpu_regs:
  "linear_map pages f4k lim vm hp n R (set_vcpu_regs r w v h) = linear_map pages f4k lim vm hp n R h"
  by (rule linear_map_frame) (simp_all add: set_vcpu_regs_def upd_vcpu_def)

text \<open>The address of the \<open>x\<close>-th byte of the memory of the VM.\<close>

abbreviation (input) host :: "nat \<Rightarrow> nat \<Rightarrow> u64" where
  "host hp x \<equiv> of_nat (hp + x)"

lemma in_host:
  assumes "hp + n \<le> 2 ^ 48" "g + l \<le> n" "x < n"
  shows "in_buf (host hp g) l (host hp x) \<longleftrightarrow> g \<le> x \<and> x < g + l"
proof -
  have "hp + g < 2 ^ 64" "hp + x < 2 ^ 64" "hp + g + l \<le> 2 ^ 64"
    using assms by simp_all
  note in_buf_nat [OF this]
  then show ?thesis
    by linarith
qed

lemma not_in_host:
  assumes "hp + n \<le> 2 ^ 48" "g + l \<le> n" "unat a < hp \<or> hp + n \<le> unat a"
  shows "\<not> in_buf (host hp g) l a"
proof
  assume "in_buf (host hp g) l a"
  then obtain i where i: "i < l" "a = of_nat (hp + g + i)"
    using in_buf_offset by blast
  then have "unat a = hp + g + i"
    using assms by (simp only:) (rule unat_of_nat_small, simp)
  then show False
    using i assms by linarith
qed

lemma host_diff: "host hp (g + j) - host hp g = of_nat j"
  by simp

text \<open>The three copies of the loader: the GDT to \<open>G\<close>, the kernel to \<open>K\<close> and the arguments to \<open>A\<close>.\<close>

lemma three_copies:
  assumes n: "hp + n \<le> 2 ^ 48" and g: "K + S \<le> G" "G + 32 \<le> n" "A + L \<le> K"
    and sz: "S \<le> 2 ^ 32" "L \<le> 2 ^ 32"
    and c1: "\<And>a. m1 a = (if in_buf (host hp G) 32 a then m (vgdt + (a - host hp G)) else m a)"
    and c2: "\<And>a. m2 a = (if in_buf (host hp K) S a then m1 (src + (a - host hp K)) else m1 a)"
    and c3: "\<And>a. m3 a = (if in_buf (host hp A) L a then m2 (args + (a - host hp A)) else m2 a)"
    and far: "outside hp n src S" "outside hp n args L" "outside hp n vgdt 32"
  shows "j < S \<Longrightarrow> m3 (host hp (K + j)) = m (src + of_nat j)"
    "j < L \<Longrightarrow> m3 (host hp (A + j)) = m (args + of_nat j)"
    "j < 32 \<Longrightarrow> m3 (host hp (G + j)) = m (vgdt + of_nat j)"
    "unat a < hp \<or> hp + n \<le> unat a \<Longrightarrow> m3 a = m a"
proof -
  have le: "G + 32 \<le> n" "K + S \<le> n" "A + L \<le> n"
    using g by simp_all
  note ib = in_host [OF n le(1)] in_host [OF n le(2)] in_host [OF n le(3)]
  show "m3 (host hp (K + j)) = m (src + of_nat j)" if "j < S"
    using that g ib [of "K + j"] outside_kept [OF far(1) le(1) that sz(1)]
    by (simp only: c3 c2 c1 host_diff) simp
  show "m3 (host hp (A + j)) = m (args + of_nat j)" if "j < L"
    using that g ib [of "A + j"] outside_kept [OF far(2) le(1) that sz(2)] outside_kept [OF far(2) le(2) that sz(2)]
    by (simp only: c3 c2 c1 host_diff) simp
  show "m3 (host hp (G + j)) = m (vgdt + of_nat j)" if "j < 32"
    using that g ib [of "G + j"] by (simp only: c3 c2 c1 host_diff) simp
  show "m3 a = m a" if "unat a < hp \<or> hp + n \<le> unat a"
    using not_in_host [OF n le(1) that] not_in_host [OF n le(2) that] not_in_host [OF n le(3) that]
    by (simp only: c3 c2 c1 if_False)
qed

lemma gdt_place:
  fixes sw0 :: vm_sw_info
  defines "E \<equiv> unat (kernel_load_addr (kernel_info sw0)) + unat (kernel_size (kernel_info sw0))"
  assumes "8192 \<le> unat (kernel_load_addr (kernel_info sw0))" "E + 40 \<le> n" "n \<le> 2 ^ 48"
  shows "get_guest_gdt_base_gpa (init_vm_bootargs_info m cfg sw0) = of_nat ((E + 7) div 8 * 8)"
    "E \<le> (E + 7) div 8 * 8" "(E + 7) div 8 * 8 + 32 \<le> n"
proof -
  have "unat (get_guest_gdt_base_gpa (init_vm_bootargs_info m cfg sw0)) = (E + 7) div 8 * 8"
    using gdt_base [of sw0 m cfg] assms by simp
  then have "of_nat ((E + 7) div 8 * 8) = (of_nat (unat (get_guest_gdt_base_gpa (init_vm_bootargs_info m cfg sw0))) :: u64)"
    by simp
  then show "get_guest_gdt_base_gpa (init_vm_bootargs_info m cfg sw0) = of_nat ((E + 7) div 8 * 8)"
    by simp
  show "E \<le> (E + 7) div 8 * 8" "(E + 7) div 8 * 8 + 32 \<le> n"
    using assms by simp_all
qed

text \<open>The copy of the arguments, if there are any: \<open>L\<close> bytes with the terminator.\<close>

lemma args_copied:
  fixes m :: memst and args :: u64
  defines "l \<equiv> args_len (mem_bytes m) args"
  defines "L \<equiv> if l = 0 then 0 else Suc l"
  assumes lm: "linear_map pages f4k lim vm hp n R h" and n: "n \<le> lim" "hp + n \<le> 2 ^ 64"
    and A: "A + L \<le> n" and far: "outside hp n args 2049"
  shows "L \<le> 2049" "outside hp n args L"
    "mem_bytes (if l = 0 then m else copy_to_gpa vm args (of_nat A) (ucast (of_nat l + 1 :: u64)) h m) a =
       (if in_buf (host hp A) L a then mem_bytes m (args + (a - host hp A)) else mem_bytes m a)"
proof -
  show L: "L \<le> 2049"
    using args_len_le [of "mem_bytes m" args] by (simp add: L_def l_def)
  then show far': "outside hp n args L"
    by (rule outside_mono [OF far])
  show "mem_bytes (if l = 0 then m else copy_to_gpa vm args (of_nat A) (ucast (of_nat l + 1 :: u64)) h m) a =
      (if in_buf (host hp A) L a then mem_bytes m (args + (a - host hp A)) else mem_bytes m a)"
  proof (cases "l = 0")
    case False
    then have sz: "unat (ucast (of_nat l + 1 :: u64) :: u32) = L"
      by (simp add: L_def l_def ucast_args_len(3))
    show ?thesis
      using copy_to_linear [OF lm n, of A "ucast (of_nat l + 1 :: u64)" args m a, unfolded sz] A far' False
      by (simp only: if_False)
  qed (simp add: L_def)
qed

lemma direct_boot_raw:
  assumes "kernel_type sw = KERNEL_ZEPHYR"
    and "init_vcpu_protect_mode_regs vgdt vm BOOT_CPU_ID (get_guest_gdt_base_gpa sw) h m = (h1, m1)"
    and "m2 = copy_to_gpa vm (kernel_src_addr (kernel_info sw)) (kernel_load_addr (kernel_info sw)) (kernel_size (kernel_info sw)) h1 m1"
  shows "direct_boot_sw_loader vgdt cfg vm vm_e820 sw h m =
    (prepare_loading_rawimage cfg sw, upd_vcpu vm BOOT_CPU_ID (vcpu_set_rip (os_kernel_entry_addr (os_config cfg))) h1,
     if sw_size (bootargs_info sw) = 0 then m2
     else copy_to_gpa vm (src_addr (bootargs_info sw)) (load_addr (bootargs_info sw))
            (ucast (of_nat (args_len (mem_bytes m2) (src_addr (bootargs_info sw))) + 1 :: u64)) h1 m2)"
  using assms
  by (simp add: direct_boot_sw_loader_def Let_def prepare_loading_rawimage_def strnlen_args KERNEL_ZEPHYR_def KERNEL_BZIMAGE_def)

text \<open>
  C3. A VM with a raw kernel finds its image: with the memory of the VM mapped linearly to host memory, the kernel
  module, the boot arguments and the GDT of the guest outside of it, and a kernel that is loaded at least 8 KByte from
  the start and ends 40 bytes before the end, \<^verbatim>\<open>direct_boot_sw_loader\<close> leaves the kernel at its load address, the boot
  arguments with their terminator 8 KByte below it, the GDT at the next multiple of 8 after the kernel, and the
  instruction pointer of the first virtual CPU at the entry of the kernel; no memory outside the VM changes.
\<close>

theorem raw_image_loaded:
  fixes m :: memst and sw0 :: vm_sw_info and cfg :: acrn_vm_config
  defines "sw \<equiv> init_vm_bootargs_info (mem_bytes m) cfg sw0" and "args \<equiv> os_bootargs (os_config cfg)"
    and "K \<equiv> unat (kernel_load_addr (kernel_info sw0))" and "S \<equiv> unat (kernel_size (kernel_info sw0))"
    and "src \<equiv> kernel_src_addr (kernel_info sw0)"
  assumes lm: "linear_map pages f4k lim vm hp n R h" and n: "n \<le> lim" "hp + n \<le> 2 ^ 48"
    and raw: "kernel_type sw0 = KERNEL_ZEPHYR"
    and fits: "8192 \<le> K" "K + S + 40 \<le> n"
    and far: "outside hp n src S" "outside hp n args 2049" "outside hp n vgdt 32"
  shows "\<exists>sw' h' m'. direct_boot_sw_loader vgdt cfg vm vm_e820 sw h m = (sw', h', m') \<and>
    rip (hv_vcpus h' vm BOOT_CPU_ID) = os_kernel_entry_addr (os_config cfg) \<and>
    (\<forall>j<S. mem_bytes m' (of_nat (hp + K + j)) = mem_bytes m (src + of_nat j)) \<and>
    (0 < args_len (mem_bytes m) args \<longrightarrow>
       (\<forall>j\<le>args_len (mem_bytes m) args. mem_bytes m' (of_nat (hp + (K - 8192) + j)) = mem_bytes m (args + of_nat j))) \<and>
    (\<forall>j<32. mem_bytes m' (of_nat (hp + (K + S + 7) div 8 * 8 + j)) = mem_bytes m (vgdt + of_nat j)) \<and>
    (\<forall>a. unat a < hp \<or> hp + n \<le> unat a \<longrightarrow> mem_bytes m' a = mem_bytes m a)"
proof -
  let ?l = "args_len (mem_bytes m) args" and ?L = "if args_len (mem_bytes m) args = 0 then 0 else Suc (args_len (mem_bytes m) args)"
  define A where "A = K - 8192"
  note sw = bootargs_info [where m = "mem_bytes m" and cfg = cfg and ?sw0.0 = sw0, folded sw_def args_def]
  have "n \<le> 2 ^ 48" and n64: "hp + n \<le> 2 ^ 64"
    using n by simp_all
  note fit = gdt_place [of sw0 n, folded K_def S_def, OF fits \<open>n \<le> 2 ^ 48\<close>]
  note G = fit(1) [of "mem_bytes m" cfg, folded sw_def] fit(2,3)
  have K: "kernel_load_addr (kernel_info sw) = of_nat K" "unat (kernel_size (kernel_info sw)) = S" "kernel_src_addr (kernel_info sw) = src"
      "K + S \<le> n" and A: "kernel_load_addr (kernel_info sw) - 8192 = of_nat A"
    using fits by (simp_all add: sw K_def S_def src_def A_def)
  obtain h1 m1 where p: "init_vcpu_protect_mode_regs vgdt vm BOOT_CPU_ID (get_guest_gdt_base_gpa sw) h m = (h1, m1)"
    by fastforce
  then have h1: "linear_map pages f4k lim vm hp n R h1" and m1: "m1 = copy_to_gpa vm vgdt (get_guest_gdt_base_gpa sw) 32 h m"
    using lm by (auto simp: init_vcpu_protect_mode_regs_def Let_def linear_map_set_vcpu_regs)
  define m2 where "m2 = copy_to_gpa vm src (kernel_load_addr (kernel_info sw)) (kernel_size (kernel_info sw)) h1 m1"
  let ?G = "(K + S + 7) div 8 * 8"
  have c1: "mem_bytes m1 a = (if in_buf (host hp ?G) 32 a then mem_bytes m (vgdt + (a - host hp ?G)) else mem_bytes m a)" for a
    using copy_to_linear [OF lm n(1) n64, of ?G 32 vgdt m a] G far(3) by (simp add: m1)
  have c2: "mem_bytes m2 a = (if in_buf (host hp K) S a then mem_bytes m1 (src + (a - host hp K)) else mem_bytes m1 a)" for a
    using copy_to_linear [OF h1 n(1) n64, of K "kernel_size (kernel_info sw)" src m1 a] K far(1) by (simp add: m2_def)
  have "mem_bytes m2 (args + of_nat j) = mem_bytes m (args + of_nat j)" if "j < 2049" for j
    using outside_kept [OF far(2) K(4) that] outside_kept [OF far(2) G(3) that] by (simp add: c1 c2)
  then have same: "args_len (mem_bytes m2) args = ?l"
    unfolding args_len_def by (intro arg_cong [where f = length] string_at_cong) (simp add: MAX_BOOTARGS_SIZE_def)
  have L: "A + ?L \<le> K" "A + ?L \<le> n"
    using args_len_le [of "mem_bytes m" args] fits by (auto simp: A_def)
  note c3 = args_copied [OF h1 n(1) n64 _ far(2), of A m2, unfolded same, OF L(2)]
  have sz: "S \<le> 2 ^ 32" "?L \<le> 2 ^ 32"
    using c3(1) unat_u32_bound [of "kernel_size (kernel_info sw0)"] by (simp_all add: S_def)
  define m3 where "m3 = (if ?l = 0 then m2 else copy_to_gpa vm args (of_nat A) (ucast (of_nat ?l + 1 :: u64)) h1 m2)"
  note copies = three_copies [OF n(2) G(2,3) L(1) sz c1 c2 c3(3) [folded m3_def] far(1) c3(2) far(3)]
  have "sw_size (bootargs_info sw) = 0 \<longleftrightarrow> ?l = 0"
    using ucast_args_len(2) [of "mem_bytes m" args] unat_eq_zero [of "of_nat ?l :: u32"] by (simp only: sw(4) args_def)
  then have r: "direct_boot_sw_loader vgdt cfg vm vm_e820 sw h m =
      (prepare_loading_rawimage cfg sw, upd_vcpu vm BOOT_CPU_ID (vcpu_set_rip (os_kernel_entry_addr (os_config cfg))) h1, m3)"
    using direct_boot_raw [OF sw(2) [unfolded raw] p m2_def [folded K(3)], of cfg vm_e820] A same
    by (simp add: m3_def sw(1,3,5) split del: if_split cong: if_cong)
  have "rip (hv_vcpus (upd_vcpu vm BOOT_CPU_ID (vcpu_set_rip (os_kernel_entry_addr (os_config cfg))) h1) vm BOOT_CPU_ID) =
      os_kernel_entry_addr (os_config cfg)"
    by (simp add: upd_vcpu_def vcpu_set_rip_def)
  with copies show ?thesis
    unfolding r A_def [symmetric] add.assoc by (fastforce simp: less_Suc_eq_le simp del: of_nat_add)
qed

text \<open>A kernel of 4 KByte at 1 MByte, with the argument string of one letter.\<close>

lemma ex_linear: "linear_map ex_pages False ept_space 0 0x40000000 0x40000000 (\<lambda>_. 0x37) (ex_hv ex_mem)"
proof -
  let ?ops = "init_ept_mem_ops ex_pages False 0 True"
  have p: "present ?ops 0x101007" "present ?ops 0x400000B7"
    by (rule ept.present_bit0; simp)+
  have np: "\<not> present ?ops 0"
    using ept.pres_zero by (simp add: present_def)
  have "ept_map False 0 (ex_hv ex_mem) x = (if x < 0x40000000 then Some (0x40000000 + x, 0x37) else None)"
    if x: "x < ept_space" for x
  proof -
    have d: "x div 549755813888 = 0" "x div 1073741824 < 10"
      using x by (simp_all add: ept_space_def)
    note defs = ept_map_def ex_hv_def hv0_def is_safety_vm_def tr.simps Let_def tab_def slot_def ex_mem_def ex_pages_def
      leaf_entry_def PAGE_PS_def leaf_def ept_rmask_def mask_eq_exp_minus_1
    show ?thesis
    proof (cases "x < 0x40000000")
      case True
      then show ?thesis
        using p np d by (simp add: defs)
    next
      case False
      then have "0 < x div 1073741824"
        by (simp add: div_greater_zero_iff)
      then have "x div 1073741824 \<in> {1, 2, 3, 4, 5, 6, 7, 8, 9}"
        using d(2) by auto
      then show ?thesis
        using p np d(1) False by (auto simp: defs)
    qed
  qed
  then show ?thesis
    using ex_mem_wf by (simp add: linear_map_def ept_rmask_def)
qed

lemma far_outside:
  assumes "p \<le> 0x50000" "s \<le> 0x10000"
  shows "outside 0x40000000 0x40000000 p s"
  unfolding outside_def
proof (intro allI impI)
  fix x :: nat assume "x < 0x40000000"
  then have "unat (host 0x40000000 x) = 0x40000000 + x"
    by (intro unat_of_nat_small) simp
  then have "unat (host 0x40000000 x - p) = 0x40000000 + x - unat p"
    using assms(1) by (subst unat_diff_small) (simp_all only: word_nat_order, simp)
  then show "\<not> in_buf p s (host 0x40000000 x)"
    using assms by (simp add: word_nat_order)
qed


definition ex_vm_config :: acrn_vm_config where
  "ex_vm_config = \<lparr>vcpu_num = 1, vcpu_affinity = [1], vm_memory = \<lparr>start_hpa = 0x40000000, mem_size = 0x40000000\<rparr>,
     os_config = \<lparr>os_kernel_type = KERNEL_ZEPHYR, os_kernel_mod_tag = 0x40000, os_bootargs = 0x20000,
       os_kernel_load_addr = 0x100000, os_kernel_entry_addr = 0x100010\<rparr>\<rparr>"

definition ex_image_info :: vm_sw_info where
  "ex_image_info = \<lparr>kernel_type = KERNEL_ZEPHYR,
     kernel_info = \<lparr>kernel_src_addr = 0x10000, kernel_load_addr = 0x100000, kernel_entry_addr = 0, kernel_size = 0x1000\<rparr>,
     bootargs_info = \<lparr>src_addr = 0, load_addr = 0, sw_size = 0\<rparr>\<rparr>"

definition ex_module :: memst where
  "ex_module = \<lparr>mem_bytes = (\<lambda>_. 0)(0x10000 := 0xEB, 0x20000 := 65, 0x30008 := 0x9B), mem_ac = False\<rparr>"

theorem raw_image_loaded_witness:
  "\<exists>sw' h' m'. direct_boot_sw_loader 0x30000 ex_vm_config 0 None
       (init_vm_bootargs_info (mem_bytes ex_module) ex_vm_config ex_image_info) (ex_hv ex_mem) ex_module = (sw', h', m') \<and>
     rip (hv_vcpus h' 0 BOOT_CPU_ID) = 0x100010 \<and> mem_bytes m' 0x40100000 = 0xEB \<and> mem_bytes m' 0x400FE000 = 65 \<and>
     mem_bytes m' 0x40101008 = 0x9B"
proof -
  have len: "args_len (mem_bytes ex_module) 0x20000 = 1"
    by (simp add: args_len_def ex_module_def MAX_BOOTARGS_SIZE_def)
  obtain sw' h' m' where r: "direct_boot_sw_loader 0x30000 ex_vm_config 0 None
       (init_vm_bootargs_info (mem_bytes ex_module) ex_vm_config ex_image_info) (ex_hv ex_mem) ex_module = (sw', h', m')"
     "rip (hv_vcpus h' 0 BOOT_CPU_ID) = os_kernel_entry_addr (os_config ex_vm_config)"
     "\<forall>j<0x1000. mem_bytes m' (of_nat (0x40000000 + 0x100000 + j)) = mem_bytes ex_module (0x10000 + of_nat j)"
     "\<forall>j\<le>1. mem_bytes m' (of_nat (0x40000000 + (0x100000 - 8192) + j)) = mem_bytes ex_module (0x20000 + of_nat j)"
     "\<forall>j<32. mem_bytes m' (of_nat (0x40000000 + (0x100000 + 0x1000 + 7) div 8 * 8 + j)) = mem_bytes ex_module (0x30000 + of_nat j)"
    using raw_image_loaded [OF ex_linear, of ex_image_info ex_vm_config "0x30000" None ex_module]
      far_outside [of "0x10000" "0x1000"] far_outside [of "0x20000" 2049] far_outside [of "0x30000" 32] len
    by (auto simp: ept_space_def ex_image_info_def ex_vm_config_def)
  have "mem_bytes m' 0x40100000 = 0xEB"
    using r(3) [rule_format, of 0] by (simp add: ex_module_def)
  moreover have "mem_bytes m' 0x400FE000 = 65"
    using r(4) [rule_format, of 0] by (simp add: ex_module_def)
  moreover have "mem_bytes m' 0x40101008 = 0x9B"
    using r(5) [rule_format, of 8] by (simp add: ex_module_def)
  ultimately show ?thesis
    using r(1,2) by (simp add: ex_vm_config_def)
qed

end
