(* ===== verification/Spec2Isabelle.thy ===== *)
theory Spec2Isabelle
  imports Acrn_Shutdown Acrn_Guest_Memory Acrn_Mmu Acrn_Reset_Defects Acrn_Vmexit_Safe Acrn_Cpuid_Safe
    Acrn_Vcr_Safe Acrn_Entry_Safe Acrn_Io_Safe Acrn_Boot_Safe Acrn_Loader_Safe
begin

text \<open>
  A verification library for a partitioning hypervisor (a static variant of ACRN) for x86-64:
  \<^verbatim>\<open>src/hypervisor\<close>. It runs two VMs, each on its own physical CPUs and its own host memory;
  what it has to guarantee is that a VM gets exactly the memory, CPUs and events that belong to it.

  \<^bold>\<open>The program and its theories.\<close> The state of the model is the record \<open>hv\<close> (virtual CPUs, VM
  states, EPT roots and operations, paging structures, scheduler, hardware events); the operations
  take and return it. Around it, \<open>machine\<close> adds the IOMMU, the virtual PCI buses, the port handlers and the
  ports; \<open>hw_env\<close> and \<open>board\<close> are what the processor and the devices answer, parameters of the operations
  that ask them. An \<open>option\<close> result is \<open>None\<close> where the C function does not return (panic, a
  loop without end) or would read outside an array.

  \<^item> \<open>Acrn_Prelude\<close>: integer types, error codes, lemmas on words as natural numbers.
  \<^item> \<open>Acrn_Bits\<close> (\<^verbatim>\<open>include/arch/x86/lib/bits.h\<close>): bit scans and bitmaps, behind the locale
    \<open>bitmap\<close>.
  \<^item> \<open>Acrn_Lib\<close> (\<^verbatim>\<open>lib/string.c\<close>, \<^verbatim>\<open>arch/x86/lib/memory.c\<close>): strings and byte copies.
  \<^item> \<open>Acrn_Pgtable\<close>, \<open>Acrn_Pagetable\<close> (\<^verbatim>\<open>pgtable.h\<close>, \<^verbatim>\<open>page.h\<close>, \<^verbatim>\<open>page.c\<close>,
    \<^verbatim>\<open>pagetable.c\<close>): entries, the two instances of \<^verbatim>\<open>struct memory_ops\<close> and the
    algorithms that add, modify, delete, look up and walk mappings, on a word-addressed memory.
  \<^item> \<open>Acrn_Paging\<close>, \<open>Acrn_Paging_Steps\<close>, \<open>Acrn_Mmu_Add\<close>, \<open>Acrn_Mmu_Modify\<close>, \<open>Acrn_Paging_Ops\<close>:
    the abstract page walk \<open>tr\<close>, the invariant \<open>pgwf\<close> and the locale \<open>paging\<close>, the laws of an
    instance; the algorithms are proved to be updates of the abstract map (\<open>pg_update\<close>) once in
    the locale, which is interpreted on the EPT and on the hypervisor's own tables.
  \<^item> \<open>Acrn_Mmu\<close> (\<^verbatim>\<open>arch/x86/mmu.c\<close>): the hypervisor's own address space.
  \<^item> \<open>Acrn_Vtd\<close>, \<open>Acrn_Dmar\<close> (\<^verbatim>\<open>arch/x86/vtd.c\<close>): the IOMMU; its tables as the map the hardware
    reads, its invalidation queue, and the hardware as a parameter (\<open>responsive\<close>, \<open>gsts_follows\<close>).
  \<^item> \<open>Acrn_E820\<close> (\<^verbatim>\<open>e820.c\<close>, \<^verbatim>\<open>ve820.c\<close>): the memory maps.
  \<^item> \<open>Acrn_Sched\<close> (\<^verbatim>\<open>common/schedule.c\<close>, \<^verbatim>\<open>sched_noop.c\<close>): threads, reschedule requests
    and context switches; interleavings are the step relation \<open>sched_step\<close>.
  \<^item> \<open>Acrn_Vcpu\<close>, \<open>Acrn_Vcpu_Life\<close> (\<^verbatim>\<open>guest/vcpu.c\<close>): registers, creation, launch, pause,
    reset; \<open>Acrn_Virq\<close> (\<^verbatim>\<open>guest/virq.c\<close>): exceptions and pending requests; \<open>Acrn_Vlapic\<close>
    (\<^verbatim>\<open>guest/vlapic.c\<close>): INIT, SIPI and interprocessor interrupts; \<open>Acrn_Reset_Defects\<close>: two
    behaviours of the reset that the callers do not expect.
  \<^item> \<open>Acrn_Ept\<close> (\<^verbatim>\<open>guest/ept.c\<close>): the guest-physical memory of a VM; \<open>Acrn_Isolation\<close>:
    executions of the EPT operations of all VMs; \<open>Acrn_Vm_Memory\<close> (\<^verbatim>\<open>guest/vm.c\<close>): the memory
    of a new VM; \<open>Acrn_Guest_Memory\<close> (\<^verbatim>\<open>guest/guest_memory.c\<close>): copying to and from a VM.
  \<^item> \<open>Acrn_Pci\<close>, \<open>Acrn_Vpci\<close> (\<^verbatim>\<open>hw/pci.c\<close>, \<^verbatim>\<open>guest/assign.c\<close>, \<^verbatim>\<open>dm/vpci\<close>): the configuration
    space of the physical devices and the virtual bus of a VM; \<open>Acrn_Vpci_Safe\<close>: what a guest reaches
    through it, with the invariant \<open>vpci_wf\<close>. \<open>Acrn_Vm\<close>, \<open>Acrn_Shutdown\<close> (\<^verbatim>\<open>guest/vm.c\<close>,
    \<^verbatim>\<open>guest/vm_reset.c\<close>): starting, pausing and shutting a VM down.
  \<^item> \<open>Acrn_Caps\<close> (\<^verbatim>\<open>cpu_caps.c\<close>, \<^verbatim>\<open>security.c\<close>), \<open>Acrn_Vcr\<close> (\<^verbatim>\<open>guest/virtual_cr.c\<close>),
    \<open>Acrn_Cpuid\<close> (\<^verbatim>\<open>guest/vcpuid.c\<close>), \<open>Acrn_Vmsr\<close> (\<^verbatim>\<open>guest/vmsr.c\<close>, \<^verbatim>\<open>guest/ucode.c\<close>), \<open>Acrn_Vmcs\<close>
    (\<^verbatim>\<open>guest/vmcs.c\<close>, \<^verbatim>\<open>run_vcpu\<close>): what a guest sees of the processor. The guest's run up to the next
    VM exit is the parameter \<open>hw_vmrun\<close>.
  \<^item> \<open>Acrn_Io\<close> (\<^verbatim>\<open>guest/vmx_io.c\<close>, \<^verbatim>\<open>dm/io_req.c\<close>, \<^verbatim>\<open>dm/vrtc.c\<close>), \<open>Acrn_Vmexit\<close>
    (\<^verbatim>\<open>guest/vmexit.c\<close>, \<^verbatim>\<open>common/hv_main.c\<close>): the exits, their dispatch table, and one round of the
    thread of a virtual CPU, which composes the components above.
  \<^item> \<open>Acrn_Loader\<close> (\<^verbatim>\<open>boot/guest/vboot_info.c\<close>, \<^verbatim>\<open>common/vm_load.c\<close>, \<^verbatim>\<open>configs/vacpi.c\<close>, \<^verbatim>\<open>guest/vm.c\<close>):
    from the boot image to a started VM; \<open>Acrn_Loader_Safe\<close>: what the VM finds in its memory.
  \<^item> \<open>Acrn_Boot\<close> (\<^verbatim>\<open>lapic.c\<close>, \<^verbatim>\<open>timer.c\<close>, \<^verbatim>\<open>trampoline.c\<close>, \<^verbatim>\<open>cpu.c\<close>): starting the physical CPUs;
    \<open>Acrn_Boot_Init\<close> (\<^verbatim>\<open>gdt.c\<close>, \<^verbatim>\<open>irq.c\<close>, \<^verbatim>\<open>ioapic.c\<close>, \<^verbatim>\<open>vmx.c\<close>, \<^verbatim>\<open>cpu.c\<close>, \<^verbatim>\<open>init.c\<close>): the
    initialisation of a physical CPU from its entry in C to its idle thread, on the record \<open>boot\<close>, with what
    the boot loader, the linker and the other CPUs provide as the parameter \<open>platform\<close>; \<open>Acrn_Boot_Safe\<close>:
    the start of the secondary CPUs ends and reports what happened.
  \<^item> \<open>Acrn_Msr_Safe\<close>, \<open>Acrn_Cpuid_Safe\<close>, \<open>Acrn_Vcr_Safe\<close>, \<open>Acrn_Entry_Safe\<close>, \<open>Acrn_Io_Safe\<close>,
    \<open>Acrn_Vmexit_Safe\<close>: the invariants of the exits and of the VM entry.

  \<^bold>\<open>What the theorems show.\<close> The EPT operations change the guest-physical map exactly as asked and
  ask every active virtual CPU to flush; VMs whose regions come from disjoint host memory never reach
  a common page; a new VM sees exactly its configured memory and finds its kernel, arguments and GDT in it; copies are faithful across pages and
  stop at the first hole. A device reaches memory through the domain it is assigned to and no other
  device is affected when it is assigned or removed. The hypervisor's tables map memory to itself with the image protected and
  the guard pages absent. The scheduler keeps its invariant under every interleaving, a woken thread
  is scheduled, a sleeping one is not, and a context switch restores what it saved. Exceptions reach
  the guest with the architecture's double- and triple-fault rules; INIT and SIPI start a virtual CPU
  exactly once; interprocessor interrupts stay inside the VM; a stopped virtual CPU does not run.
  A guest's accesses to PCI configuration space and to ports reach only its own devices and keep the
  tables of the hypervisor well formed. The MSR bitmap lets through exactly the intended MSRs, the time
  stamp counter of a guest stays consistent, CPUID answers from the first matching leaf, CR0 and CR4 stay
  within what VMX and the hypervisor require, the mitigations run directly before every entry, and an
  event that an exit interrupted is delivered again.

  \<^bold>\<open>Bounds.\<close> Loops whose end depends on data are \<open>function\<close>s with a measure or
  \<open>partial_function (option)\<close>; the theorems about them state that they return. Address bounds come
  from the source: the PML4 page covers 2^48 bytes, host addresses are below 2^39 (\<^verbatim>\<open>MAXPHYADDR\<close>),
  the tables of this configuration cover the address spaces of \<^verbatim>\<open>page.h\<close>.

  \<^bold>\<open>Not modelled.\<close> Spin locks: an operation under its lock is one step. Assembly (entry code, the switch to
  and from a guest, \<^verbatim>\<open>sched.S\<close>), caches, the stack protector, the debug library, and the other components the manifest lists as not
  modelled. Tracing and logging have no effect on the state.
\<close>

end
